(* ===== verification/Prelude.thy ===== *)
theory Prelude
  imports Main "HOL-Library.Word"
begin

text \<open>
  Types, list operations and automation shared by the components of the model.

  Machine integers keep the width the C++ code gives them: \<open>SIP_UINT16\<close> is a 16 word,
  \<open>SIP_UINT32\<close> a 32 word, and their arithmetic wraps. Enumerators whose numeric value
  the code uses (states and events index the transition tables) are integers. A
  character pointer is an optional string: \<open>None\<close> is the null pointer, and the list holds
  the characters before the terminating NUL. An object that the code shares by pointer and
  mutates lives in a heap of the state and is named by its address, a natural number.
\<close>

type_synonym u8 = "8 word"
type_synonym u16 = "16 word"
type_synonym u32 = "32 word"
type_synonym cstr = "string option"
type_synonym ptr = nat

text \<open>
  Collections of facts. \<open>fsm_eval\<close> evaluates the event data of the state machines;
  \<open>keeps_good\<close> says that an operation keeps the invariant of the stack, \<open>keeps_slack\<close> that
  it gives back the references it takes.
\<close>

named_theorems fsm_eval
named_theorems keeps_good
named_theorems keeps_slack

subsection \<open>Lists searched and updated by index\<close>

text \<open>
  The containers of the code are scanned from index 0 for the first match
  (\<open>find_index\<close>) and erased at an index (\<open>remove_nth\<close>).
\<close>

fun find_index :: "('a \<Rightarrow> bool) \<Rightarrow> 'a list \<Rightarrow> nat option" where
  "find_index P [] = None"
| "find_index P (x # xs) = (if P x then Some 0 else map_option Suc (find_index P xs))"

definition remove_nth :: "nat \<Rightarrow> 'a list \<Rightarrow> 'a list" where
  "remove_nth i xs = take i xs @ drop (Suc i) xs"

lemma find_index_None [simp]: "find_index P xs = None \<longleftrightarrow> (\<forall>x\<in>set xs. \<not> P x)"
  by (induction xs) auto

lemma find_index_SomeD:
  "find_index P xs = Some i \<Longrightarrow> i < length xs \<and> P (xs ! i) \<and> (\<forall>j<i. \<not> P (xs ! j))"
proof (induction xs arbitrary: i)
  case Nil
  then show ?case by simp
next
  case (Cons x xs)
  show ?case
  proof (cases "P x")
    case True
    with Cons.prems show ?thesis by simp
  next
    case False
    with Cons.prems obtain k where k: "find_index P xs = Some k" "i = Suc k" by auto
    then show ?thesis using Cons.IH [OF k(1)] False
      by (auto simp: less_Suc_eq_0_disj)
  qed
qed

lemma find_index_less: "find_index P xs = Some i \<Longrightarrow> i < length xs"
  by (simp add: find_index_SomeD)

lemma find_index_holds: "find_index P xs = Some i \<Longrightarrow> P (xs ! i)"
  by (simp add: find_index_SomeD)

lemma find_index_first: "find_index P xs = Some i \<Longrightarrow> j < i \<Longrightarrow> \<not> P (xs ! j)"
  by (simp add: find_index_SomeD)

lemma find_index_append:
  "find_index P (xs @ ys) =
     (case find_index P xs of Some i \<Rightarrow> Some i
      | None \<Rightarrow> map_option (\<lambda>i. length xs + i) (find_index P ys))"
  by (induction xs) (auto simp: option.map_comp comp_def option.case_eq_if map_option_case)

lemma find_index_eqI:
  "i < length xs \<Longrightarrow> P (xs ! i) \<Longrightarrow> (\<And>j. j < i \<Longrightarrow> \<not> P (xs ! j)) \<Longrightarrow> find_index P xs = Some i"
proof (induction xs arbitrary: i)
  case Nil
  then show ?case by simp
next
  case (Cons x xs)
  show ?case
  proof (cases i)
    case 0
    with Cons.prems show ?thesis by simp
  next
    case (Suc k)
    have x: "\<not> P x" using Cons.prems(3) [of 0] Suc by simp
    have "\<not> P (xs ! j)" if "j < k" for j using Cons.prems(3) [of "Suc j"] Suc that by simp
    then have "find_index P xs = Some k" using Cons.prems Suc by (intro Cons.IH) auto
    with x Suc show ?thesis by simp
  qed
qed

lemma remove_nth_Nil [simp]: "remove_nth i [] = []"
  by (simp add: remove_nth_def)

lemma remove_nth_0 [simp]: "remove_nth 0 (x # xs) = xs"
  by (simp add: remove_nth_def)

lemma remove_nth_Suc [simp]: "remove_nth (Suc i) (x # xs) = x # remove_nth i xs"
  by (simp add: remove_nth_def)

lemma length_remove_nth: "i < length xs \<Longrightarrow> length (remove_nth i xs) = length xs - 1"
  by (simp add: remove_nth_def)

lemma set_remove_nth_subset: "set (remove_nth i xs) \<subseteq> set xs"
  unfolding remove_nth_def by (auto dest: in_set_takeD in_set_dropD)

lemma map_remove_nth: "map f (remove_nth i xs) = remove_nth i (map f xs)"
  by (simp add: remove_nth_def take_map drop_map)

lemma remove_nth_append_last [simp]: "remove_nth (length xs) (xs @ [y]) = xs"
  by (simp add: remove_nth_def)

lemma distinct_remove_nth: "distinct xs \<Longrightarrow> distinct (remove_nth i xs)"
  unfolding remove_nth_def
  by (auto simp: set_take_disj_set_drop_if_distinct)

lemma set_remove_nth_distinct:
  "distinct xs \<Longrightarrow> i < length xs \<Longrightarrow> set (remove_nth i xs) = set xs - {xs ! i}"
proof (induction xs arbitrary: i)
  case Nil
  then show ?case by simp
next
  case (Cons x xs)
  then show ?case by (cases i) auto
qed

lemma remove_nth_rel:
  assumes "i' < j'" and "j' < length (remove_nth k xs)"
  shows "\<exists>i j. i < j \<and> j < length xs \<and> remove_nth k xs ! i' = xs ! i \<and> remove_nth k xs ! j' = xs ! j"
proof -
  define f where "f n = (if n < k then n else Suc n)" for n
  have nth: "remove_nth k xs ! n = xs ! f n" if "n < length (remove_nth k xs)" for n
    using that by (auto simp: remove_nth_def f_def nth_append min_def)
  have len: "f n < length xs" if "n < length (remove_nth k xs)" for n
    using that by (auto simp: remove_nth_def f_def min_def split: if_splits)
  have "f i' < f j'" using assms(1) by (auto simp: f_def)
  then show ?thesis using nth len assms by (metis order.strict_trans)
qed

subsection \<open>Words\<close>

lemma u32_pos_iff: "(x :: u32) > 0 \<longleftrightarrow> x \<noteq> 0"
  by (simp add: word_gt_0)

lemma unat_u32_add_no_wrap:
  "unat (a :: u32) + unat b < 2 ^ 32 \<Longrightarrow> unat (a + b) = unat a + unat b"
  by (simp add: unat_word_ariths)

lemma unat_u32_sub: "(b :: u32) \<le> a \<Longrightarrow> unat (a - b) = unat a - unat b"
  by (simp add: unat_sub word_le_nat_alt)

lemma unat_u32_lt: "unat (a :: u32) < 2 ^ 32"
  using unsigned_less [of a] by simp

lemma unat_u16_lt: "unat (a :: u16) < 2 ^ 16"
  using unsigned_less [of a] by simp

lemma unat_u32_shl1:
  "2 * unat (a :: u32) < 2 ^ 32 \<Longrightarrow> unat (push_bit 1 a) = 2 * unat a"
  by (simp add: push_bit_eq_mult unat_word_ariths mult.commute)

end
