(* ===== verification/Sip_String.thy ===== *)
theory Sip_String
  imports Prelude
begin

text \<open>
  The string routines of \<open>protocol/sip/platform/SipString.cpp\<close> that the transaction and
  transport layers call, on null-able strings. Characters are unsigned bytes, as \<open>char\<close>
  is on the ARM targets of the library; every caller only tests the result of a comparison
  against 0 (\<open>SIP_EQUALS\<close>).
\<close>

abbreviation (input) SIP_EQUALS :: int where "SIP_EQUALS \<equiv> 0"

definition char_val :: "char \<Rightarrow> int" where
  "char_val c = of_char c"

definition SIP_TOLOWER :: "char \<Rightarrow> int" where
  "SIP_TOLOWER c =
     (if char_val c \<ge> 65 \<and> char_val c \<le> 90 then char_val c - 65 + 97 else char_val c)"

definition SipPf_Strlen :: "cstr \<Rightarrow> int" where
  "SipPf_Strlen s = (case s of None \<Rightarrow> 0 | Some xs \<Rightarrow> int (length xs))"

fun strcmp_loop :: "string \<Rightarrow> string \<Rightarrow> int" where
  "strcmp_loop (a # as) (b # bs) =
     (if char_val a \<noteq> char_val b then char_val a - char_val b else strcmp_loop as bs)"
| "strcmp_loop as bs = (if as = [] \<and> bs = [] then 0 else -1)"

definition SipPf_Strcmp :: "cstr \<Rightarrow> cstr \<Rightarrow> int" where
  "SipPf_Strcmp s1 s2 =
     (case (s1, s2) of (Some a, Some b) \<Rightarrow> strcmp_loop a b | _ \<Rightarrow> -1)"

fun stricmp_loop :: "string \<Rightarrow> string \<Rightarrow> int" where
  "stricmp_loop (a # as) (b # bs) =
     (if SIP_TOLOWER a \<noteq> SIP_TOLOWER b then SIP_TOLOWER a - SIP_TOLOWER b
      else stricmp_loop as bs)"
| "stricmp_loop as bs = (if as = [] \<and> bs = [] then 0 else -1)"

definition SipPf_Stricmp :: "cstr \<Rightarrow> cstr \<Rightarrow> int" where
  "SipPf_Stricmp s1 s2 =
     (case (s1, s2) of (Some a, Some b) \<Rightarrow> stricmp_loop a b | _ \<Rightarrow> -1)"

fun strncmp_loop :: "(char \<Rightarrow> int) \<Rightarrow> string \<Rightarrow> string \<Rightarrow> nat \<Rightarrow> int" where
  "strncmp_loop f (a # as) (b # bs) (Suc n) =
     (if f a \<noteq> f b then f a - f b else strncmp_loop f as bs n)"
| "strncmp_loop f as bs n = (if n \<noteq> 0 then -1 else 0)"

definition SipPf_Strncmp :: "cstr \<Rightarrow> cstr \<Rightarrow> u32 \<Rightarrow> int" where
  "SipPf_Strncmp s1 s2 n =
     (case (s1, s2) of
        (Some a, Some b) \<Rightarrow> if n = 0 then -1 else strncmp_loop char_val a b (unat n)
      | _ \<Rightarrow> -1)"

definition SipPf_Strnicmp :: "cstr \<Rightarrow> cstr \<Rightarrow> u32 \<Rightarrow> int" where
  "SipPf_Strnicmp s1 s2 n =
     (case (s1, s2) of
        (Some a, Some b) \<Rightarrow> if n = 0 then -1 else strncmp_loop SIP_TOLOWER a b (unat n)
      | _ \<Rightarrow> -1)"

definition SipPf_Strdup :: "cstr \<Rightarrow> cstr" where
  "SipPf_Strdup s = (case s of None \<Rightarrow> None | Some xs \<Rightarrow> Some xs)"

text \<open>
  \<open>SipPf_Atoi\<close>: the text is cut to 11 characters after a sign and to 10 otherwise, digits
  accumulate in a signed 32-bit value, any other character but the full stop is skipped.
\<close>

definition is_digit :: "char \<Rightarrow> bool" where
  "is_digit c \<longleftrightarrow> char_val c \<ge> 48 \<and> char_val c \<le> 57"

definition digit_val :: "char \<Rightarrow> int" where
  "digit_val c = char_val c - 48"

fun atoi_loop :: "string \<Rightarrow> u32 \<Rightarrow> u32" where
  "atoi_loop [] v = v"
| "atoi_loop (c # cs) v =
     (if is_digit c then atoi_loop cs (v * 10 + word_of_int (digit_val c))
      else if c = CHR ''.'' then v
      else atoi_loop cs v)"

definition SipPf_Atoi :: "cstr \<Rightarrow> int" where
  "SipPf_Atoi s =
     (case s of None \<Rightarrow> 0
      | Some xs \<Rightarrow>
          let minus = (xs \<noteq> [] \<and> hd xs = CHR ''-'');
              n = (if length xs > 11 \<and> minus then 11
                   else if length xs > 10 then 10 else length xs);
              v = atoi_loop (take n xs) 0
          in if minus then sint (- v) else sint v)"

definition SipPf_Atoi_Unsigned :: "cstr \<Rightarrow> bool \<times> u32" where
  "SipPf_Atoi_Unsigned s =
     (case s of None \<Rightarrow> (False, 0)
      | Some xs \<Rightarrow> if length xs > 10 then (False, 0) else (True, atoi_loop xs 0))"

subsection \<open>Comparison\<close>

lemma char_val_inj [simp]: "char_val a = char_val b \<longleftrightarrow> a = b"
  by (simp add: char_val_def)

lemma strcmp_loop_eq_0: "strcmp_loop a b = 0 \<longleftrightarrow> a = b"
  by (induction a b rule: strcmp_loop.induct) auto

lemma SipPf_Strcmp_equals:
  "SipPf_Strcmp s1 s2 = SIP_EQUALS \<longleftrightarrow> (\<exists>x. s1 = Some x \<and> s2 = Some x)"
  by (auto simp: SipPf_Strcmp_def strcmp_loop_eq_0 split: option.splits)

lemma SipPf_Strcmp_Some [simp]: "SipPf_Strcmp (Some a) (Some b) = SIP_EQUALS \<longleftrightarrow> a = b"
  by (auto simp: SipPf_Strcmp_equals)

lemma SipPf_Strcmp_None [simp]: "SipPf_Strcmp None s \<noteq> 0" "SipPf_Strcmp s None \<noteq> 0"
  by (auto simp: SipPf_Strcmp_def split: option.splits)

text \<open>The strings a case-insensitive comparison identifies.\<close>

definition lower :: "string \<Rightarrow> int list" where
  "lower s = map SIP_TOLOWER s"

lemma stricmp_loop_eq_0: "stricmp_loop a b = 0 \<longleftrightarrow> lower a = lower b"
  by (induction a b rule: stricmp_loop.induct) (auto simp: lower_def)

lemma SipPf_Stricmp_equals:
  "SipPf_Stricmp s1 s2 = SIP_EQUALS \<longleftrightarrow>
     (\<exists>x y. s1 = Some x \<and> s2 = Some y \<and> lower x = lower y)"
  by (auto simp: SipPf_Stricmp_def stricmp_loop_eq_0 split: option.splits)

lemma SipPf_Stricmp_Some [simp]:
  "SipPf_Stricmp (Some a) (Some b) = SIP_EQUALS \<longleftrightarrow> lower a = lower b"
  by (auto simp: SipPf_Stricmp_equals)

lemma SipPf_Stricmp_None [simp]: "SipPf_Stricmp None s \<noteq> 0" "SipPf_Stricmp s None \<noteq> 0"
  by (auto simp: SipPf_Stricmp_def split: option.splits)

lemma SipPf_Strdup_id [simp]: "SipPf_Strdup s = s"
  by (cases s) (simp_all add: SipPf_Strdup_def)

end
