(* ===== verification/Ims_Number.thy ===== *)
theory Ims_Number
  imports Sip_String "HOL-Library.Monad_Syntax"
begin

unbundle bit_operations_syntax

text \<open>
  Numbers in text (\<open>platform/util/AString.cpp\<close>, \<open>platform/interface/util/ImsLib.h\<close>): the printing
  routines behind \<open>SetNumber\<close> and the parsing routines behind \<open>ToInt16\<close> to \<open>ToUInt64\<close>, on the
  64-bit targets, where \<open>IMS_ULONG\<close> has 64 bits. A string is its characters; the parser sees
  those before the first NUL. \<open>None\<close> is a loop that does not end.
\<close>

type_synonym u64 = "64 word"

subsection \<open>Characters\<close>

definition IMS_ISSPACE :: "char \<Rightarrow> bool" where
  "IMS_ISSPACE c \<longleftrightarrow> char_val c \<in> {10, 9, 11, 32, 13, 12}"

definition IMS_ISDIGIT :: "char \<Rightarrow> bool" where
  "IMS_ISDIGIT c \<longleftrightarrow> 48 \<le> char_val c \<and> char_val c \<le> 57"

definition IMS_ISASCII :: "char \<Rightarrow> bool" where
  "IMS_ISASCII c \<longleftrightarrow> char_val c < 128"

definition IMS_ISUPPER :: "char \<Rightarrow> bool" where
  "IMS_ISUPPER c \<longleftrightarrow> 65 \<le> char_val c \<and> char_val c \<le> 90"

definition IMS_ISALPHA :: "char \<Rightarrow> bool" where
  "IMS_ISALPHA c \<longleftrightarrow> IMS_ISUPPER c \<or> (97 \<le> char_val c \<and> char_val c \<le> 122)"

definition IMS_TOUPPER :: "char \<Rightarrow> char" where
  "IMS_TOUPPER c = (if 97 \<le> char_val c \<and> char_val c \<le> 122 then char_of (nat (char_val c - 97 + 65)) else c)"

text \<open>The characters in front of the terminating NUL.\<close>

definition c_string :: "string \<Rightarrow> string" where
  "c_string s = takeWhile (\<lambda>c. c \<noteq> CHR 0x00) s"

definition AString_MakeUpper :: "string \<Rightarrow> string" where
  "AString_MakeUpper s = map IMS_TOUPPER (c_string s) @ drop (length (c_string s)) s"

subsection \<open>Printing\<close>

definition cipher :: "u64 \<Rightarrow> u64 \<Rightarrow> char" where
  "cipher nBase n1Cipher =
     (if nBase \<noteq> 10
      then if n1Cipher < 10 then char_of (48 + unat n1Cipher) else char_of (unat n1Cipher - 10 + 97)
      else char_of (48 + unat n1Cipher))"

text \<open>The digits are written from the end of the buffer to its start.\<close>

partial_function (option) ULLToA_loop :: "u64 \<Rightarrow> u64 \<Rightarrow> string \<Rightarrow> string option" where
  "ULLToA_loop nULL nBase pULL =
     (if nULL = 0 then Some pULL
      else ULLToA_loop (nULL div nBase) nBase (cipher nBase (nULL mod nBase) # pULL))"

definition astring_ULLToA :: "u64 \<Rightarrow> u64 \<Rightarrow> string option" where
  "astring_ULLToA nULL nBase = (if nULL = 0 then Some ''0'' else ULLToA_loop nULL nBase [])"

definition astring_LLToA :: "u64 \<Rightarrow> u64 \<Rightarrow> string option" where
  "astring_LLToA nLL nBase = astring_ULLToA (if sint nLL < 0 then - nLL else nLL) nBase"

abbreviation FLAG_NONE :: u32 where "FLAG_NONE \<equiv> 0"
abbreviation FLAG_ALTERNATE :: u32 where "FLAG_ALTERNATE \<equiv> 0x01"
abbreviation FLAG_ZERO_PADDED :: u32 where "FLAG_ZERO_PADDED \<equiv> 0x02"
abbreviation FLAG_LEFT_ALIGNED :: u32 where "FLAG_LEFT_ALIGNED \<equiv> 0x04"
abbreviation FLAG_BLANK_BEFORE_POSITIVE :: u32 where "FLAG_BLANK_BEFORE_POSITIVE \<equiv> 0x08"
abbreviation FLAG_ALWAYS_SHOW_SIGN :: u32 where "FLAG_ALWAYS_SHOW_SIGN \<equiv> 0x10"
abbreviation FLAG_CAPITAL_E_X :: u32 where "FLAG_CAPITAL_E_X \<equiv> 0x20"

definition flag_set :: "u32 \<Rightarrow> u32 \<Rightarrow> bool" where
  "flag_set nFlags f \<longleftrightarrow> nFlags AND f \<noteq> 0"

text \<open>Zeros in front of a number, up to a length.\<close>

definition prepend_zeros :: "int \<Rightarrow> string \<Rightarrow> string" where
  "prepend_zeros n s = replicate (nat n) (CHR ''0'') @ s"

definition astring_LLToString :: "u64 \<Rightarrow> int \<Rightarrow> u64 \<Rightarrow> int \<Rightarrow> u32 \<Rightarrow> string option" where
  "astring_LLToString nLL nPrecision nBase nWidth nFlags = do {
     let bPrecisionNotSpecified = (nPrecision = -1);
     let nPrecision = (if bPrecisionNotSpecified then 1 else nPrecision);
     let bNegative = (nBase = 10 \<and> sint nLL < 0);
     let nFlags = (if nBase \<noteq> 10
                   then nFlags AND NOT FLAG_ALWAYS_SHOW_SIGN AND NOT FLAG_BLANK_BEFORE_POSITIVE else nFlags);
     strNumber \<leftarrow> (if nBase = 10 then astring_LLToA nLL nBase else astring_ULLToA nLL nBase);
     let strNumber = prepend_zeros (nPrecision - int (length strNumber)) strNumber;
     let strNumber = (if flag_set nFlags FLAG_ALTERNATE \<and> nBase = 8 \<and> strNumber = []
                      then CHR ''0'' # strNumber else strNumber);
     let bZeroPadded = (flag_set nFlags FLAG_ZERO_PADDED \<and> \<not> flag_set nFlags FLAG_LEFT_ALIGNED \<and>
                        bPrecisionNotSpecified);
     let hex = (nBase = 16 \<and> flag_set nFlags FLAG_ALTERNATE \<and> nLL \<noteq> 0);
     let nPaddingCount = nWidth - int (length strNumber)
       - (if bNegative \<or> flag_set nFlags FLAG_ALWAYS_SHOW_SIGN \<or> flag_set nFlags FLAG_BLANK_BEFORE_POSITIVE
          then 1 else 0) - (if hex then 2 else 0);
     let strNumber = (if bZeroPadded then prepend_zeros nPaddingCount strNumber else strNumber);
     let strNumber = (if hex then ''0x'' @ strNumber else strNumber);
     let strNumber = (if bNegative then CHR ''-'' # strNumber
                      else if flag_set nFlags FLAG_ALWAYS_SHOW_SIGN then CHR ''+'' # strNumber
                      else if flag_set nFlags FLAG_BLANK_BEFORE_POSITIVE then CHR '' '' # strNumber
                      else strNumber);
     Some (if flag_set nFlags FLAG_CAPITAL_E_X then AString_MakeUpper strNumber else strNumber)
   }"

definition astring_ULLToString :: "u64 \<Rightarrow> int \<Rightarrow> u64 \<Rightarrow> int \<Rightarrow> u32 \<Rightarrow> string option" where
  "astring_ULLToString nULL nPrecision nBase nWidth nFlags = do {
     let bPrecisionNotSpecified = (nPrecision = -1);
     let nPrecision = (if bPrecisionNotSpecified then 1 else nPrecision);
     strNumber \<leftarrow> astring_ULLToA nULL nBase;
     let strNumber = prepend_zeros (nPrecision - int (length strNumber)) strNumber;
     let strNumber = (if flag_set nFlags FLAG_ALTERNATE \<and> nBase = 8 \<and> strNumber = []
                      then CHR ''0'' # strNumber else strNumber);
     let bZeroPadded = (flag_set nFlags FLAG_ZERO_PADDED \<and> \<not> flag_set nFlags FLAG_LEFT_ALIGNED \<and>
                        bPrecisionNotSpecified);
     let hex = (nBase = 16 \<and> flag_set nFlags FLAG_ALTERNATE \<and> nULL \<noteq> 0);
     let nPaddingCount = nWidth - int (length strNumber) - (if hex then 2 else 0);
     let strNumber = (if bZeroPadded then prepend_zeros nPaddingCount strNumber else strNumber);
     let strNumber = (if hex then ''0x'' @ strNumber else strNumber);
     Some (if flag_set nFlags FLAG_CAPITAL_E_X then AString_MakeUpper strNumber else strNumber)
   }"

definition number_base :: "int \<Rightarrow> u64" where
  "number_base nBase = (if nBase < 2 \<or> nBase > 16 then 10 else word_of_int nBase)"

definition SetNumber_S64 :: "int \<Rightarrow> int \<Rightarrow> string option" where
  "SetNumber_S64 n nBase =
     (if number_base nBase = 10 then astring_LLToString (word_of_int n) (-1) (number_base nBase) (-1) FLAG_NONE
      else astring_ULLToString (word_of_int n) (-1) (number_base nBase) (-1) FLAG_NONE)"

definition SetNumber_U64 :: "u64 \<Rightarrow> int \<Rightarrow> string option" where
  "SetNumber_U64 n nBase = astring_ULLToString n (-1) (number_base nBase) (-1) FLAG_NONE"

definition SetNumber_S32 :: "int \<Rightarrow> int \<Rightarrow> string option" where
  "SetNumber_S32 n nBase = SetNumber_S64 n nBase"

definition SetNumber_U32 :: "u32 \<Rightarrow> int \<Rightarrow> string option" where
  "SetNumber_U32 n nBase = SetNumber_U64 (ucast n) nBase"

definition SetNumber_S16 :: "int \<Rightarrow> int \<Rightarrow> string option" where
  "SetNumber_S16 n nBase = SetNumber_S32 n nBase"

definition SetNumber_U16 :: "u16 \<Rightarrow> int \<Rightarrow> string option" where
  "SetNumber_U16 n nBase = SetNumber_U32 (ucast n) nBase"

subsection \<open>Parsing\<close>

text \<open>The value of a digit or letter; \<open>None\<close> for a character that ends the number.\<close>

definition digit_of :: "char \<Rightarrow> nat option" where
  "digit_of ch =
     (if \<not> IMS_ISASCII ch then None
      else if IMS_ISDIGIT ch then Some (nat (char_val ch - 48))
      else if IMS_ISALPHA ch
      then Some (nat (char_val ch - (if IMS_ISUPPER ch then 65 - 10 else 97 - 10)))
      else None)"

text \<open>The accumulator, \<open>nAny\<close> and the text from the character that ended the loop on.\<close>

fun acc_loop :: "nat \<Rightarrow> u64 \<Rightarrow> nat \<Rightarrow> string \<Rightarrow> u64 \<Rightarrow> int \<Rightarrow> u64 \<times> int \<times> string" where
  "acc_loop nBase nCutOff nCutLim [] nAcc nAny = (nAcc, nAny, [])"
| "acc_loop nBase nCutOff nCutLim (ch # p) nAcc nAny =
     (case digit_of ch of
        None \<Rightarrow> (nAcc, nAny, ch # p)
      | Some d \<Rightarrow>
          if d \<ge> nBase then (nAcc, nAny, ch # p)
          else if nAny < 0 \<or> nAcc > nCutOff \<or> (nAcc = nCutOff \<and> d > nCutLim)
          then acc_loop nBase nCutOff nCutLim p nAcc (-1)
          else acc_loop nBase nCutOff nCutLim p (nAcc * of_nat nBase + of_nat d) 1)"

definition skip_0x :: "nat \<Rightarrow> string \<Rightarrow> nat \<times> string" where
  "skip_0x nBase p =
     (let (nBase, p) =
        (case p of
           c # x # r \<Rightarrow>
             if (nBase = 0 \<or> nBase = 16) \<and> c = CHR ''0'' \<and> (x = CHR ''x'' \<or> x = CHR ''X'') then (16, r) else (nBase, p)
         | _ \<Rightarrow> (nBase, p))
      in (if nBase = 0 then if p \<noteq> [] \<and> hd p = CHR ''0'' then 8 else 10 else nBase, p))"

text \<open>The value, the flag and the text at the end pointer.\<close>

definition astring_AToLL :: "string \<Rightarrow> nat \<Rightarrow> u64 \<times> bool \<times> string" where
  "astring_AToLL pszLL nBase =
     (let p = dropWhile IMS_ISSPACE pszLL;
          nNegative = (p \<noteq> [] \<and> hd p = CHR ''-'');
          p = (if nNegative \<or> (p \<noteq> [] \<and> hd p = CHR ''+'') then tl p else p);
          (nBase, p) = skip_0x nBase p;
          limit = (if nNegative then 2 ^ 63 else 2 ^ 63 - 1) :: u64;
          (nAcc, nAny, rest) =
            acc_loop nBase (limit div of_nat nBase) (unat (limit mod of_nat nBase)) p 0 0;
          rest = (if nAny \<noteq> 0 then rest else pszLL)
      in if nAny < 0 then (if nNegative then 2 ^ 63 else 2 ^ 63 - 1, False, rest)
         else (if nNegative then NOT nAcc + 1 else nAcc, True, rest))"

definition astring_AToULL :: "string \<Rightarrow> nat \<Rightarrow> u64 \<times> bool \<times> string" where
  "astring_AToULL pszULL nBase =
     (let p = dropWhile IMS_ISSPACE pszULL
      in if p \<noteq> [] \<and> hd p = CHR ''-'' then (0, False, p)
         else
           (let p = (if p \<noteq> [] \<and> hd p = CHR ''+'' then tl p else p);
                (nBase, p) = skip_0x nBase p;
                limit = -1 :: u64;
                (nAcc, nAny, rest) =
                  acc_loop nBase (limit div of_nat nBase) (unat (limit mod of_nat nBase)) p 0 0;
                rest = (if nAny \<noteq> 0 then rest else pszULL)
            in if nAny < 0 then (-1, False, rest) else (nAcc, True, rest)))"

definition parse_base :: "int \<Rightarrow> nat" where
  "parse_base nBase = (if nBase < 2 \<or> nBase > 16 then 10 else nat nBase)"

text \<open>The signed conversions: the value, and \<open>pbOk\<close>.\<close>

definition to_signed :: "int \<Rightarrow> int \<Rightarrow> string \<Rightarrow> int \<Rightarrow> int \<times> bool" where
  "to_signed lo hi s nBase =
     (if length s = 0 then (0, False)
      else case astring_AToLL (c_string s) (parse_base nBase) of
        (nL, bOk, pEndPtr) \<Rightarrow>
          if \<not> bOk \<or> pEndPtr \<noteq> [] then (0, False)
          else if sint nL < lo \<or> sint nL > hi then (0, False) else (sint nL, True))"

definition AString_ToInt16 :: "string \<Rightarrow> int \<Rightarrow> int \<times> bool" where
  "AString_ToInt16 s nBase = to_signed (- (2 ^ 15)) (2 ^ 15 - 1) s nBase"

definition AString_ToInt32 :: "string \<Rightarrow> int \<Rightarrow> int \<times> bool" where
  "AString_ToInt32 s nBase = to_signed (- (2 ^ 31)) (2 ^ 31 - 1) s nBase"

definition AString_ToInt64 :: "string \<Rightarrow> int \<Rightarrow> int \<times> bool" where
  "AString_ToInt64 s nBase = to_signed (- (2 ^ 63)) (2 ^ 63 - 1) s nBase"

text \<open>\<open>ToUInt16\<close> keeps the unsigned result in a signed long, and tests only its upper bound.\<close>

definition AString_ToUInt16 :: "string \<Rightarrow> int \<Rightarrow> u16 \<times> bool" where
  "AString_ToUInt16 s nBase =
     (if length s = 0 then (0, False)
      else case astring_AToULL (c_string s) (parse_base nBase) of
        (nUL, bOk, pEndPtr) \<Rightarrow>
          if \<not> bOk \<or> pEndPtr \<noteq> [] then (0, False)
          else if sint nUL > 0xFFFF then (0, False) else (word_of_int (sint nUL), True))"

definition AString_ToUInt32 :: "string \<Rightarrow> int \<Rightarrow> u32 \<times> bool" where
  "AString_ToUInt32 s nBase =
     (if length s = 0 then (0, False)
      else case astring_AToULL (c_string s) (parse_base nBase) of
        (nUL, bOk, pEndPtr) \<Rightarrow>
          if \<not> bOk \<or> pEndPtr \<noteq> [] then (0, False)
          else if nUL > 0xFFFFFFFF then (0, False) else (ucast nUL, True))"

definition AString_ToUInt64 :: "string \<Rightarrow> int \<Rightarrow> u64 \<times> bool" where
  "AString_ToUInt64 s nBase =
     (if length s = 0 then (0, False)
      else case astring_AToULL (c_string s) (parse_base nBase) of
        (nUL, bOk, pEndPtr) \<Rightarrow>
          if \<not> bOk \<or> pEndPtr \<noteq> [] then (0, False) else (nUL, True))"

subsection \<open>What a numeral means\<close>

text \<open>A numeral in a base: every character a digit of it; the value from an initial one on.\<close>

definition numeral_in :: "nat \<Rightarrow> string \<Rightarrow> bool" where
  "numeral_in b s \<longleftrightarrow> (\<forall>c\<in>set s. \<exists>d<b. digit_of c = Some d)"

definition numeral_value :: "nat \<Rightarrow> nat \<Rightarrow> string \<Rightarrow> nat" where
  "numeral_value b v s = foldl (\<lambda>v c. v * b + the (digit_of c)) v s"

lemma numeral_value_simps [simp]:
  "numeral_value b v [] = v"
  "numeral_value b v (c # s) = numeral_value b (v * b + the (digit_of c)) s"
  "numeral_value b v (s @ t) = numeral_value b (numeral_value b v s) t"
  by (simp_all add: numeral_value_def)

lemma numeral_in_simps [simp]:
  "numeral_in b []" "numeral_in b (c # s) \<longleftrightarrow> (\<exists>d<b. digit_of c = Some d) \<and> numeral_in b s"
  "numeral_in b (s @ t) \<longleftrightarrow> numeral_in b s \<and> numeral_in b t"
  by (auto simp: numeral_in_def)

lemma numeral_value_mono: "1 \<le> b \<Longrightarrow> v \<le> numeral_value b v s"
proof (induction s arbitrary: v)
  case (Cons c s)
  have "v \<le> v * b + the (digit_of c)" using Cons.prems by (simp add: trans_le_add1)
  also have "\<dots> \<le> numeral_value b (v * b + the (digit_of c)) s" by (rule Cons.IH [OF Cons.prems])
  finally show ?case by simp
qed simp

lemma unat_u64_lt: "unat (a :: u64) < 2 ^ 64"
  using unsigned_less [of a, where ?'a = nat] by simp

lemma acc_loop_numeral:
  assumes "1 \<le> b" "b \<le> 16"
  shows "numeral_in b s \<Longrightarrow> 0 \<le> any \<Longrightarrow> numeral_value b (unat acc) s \<le> unat limit \<Longrightarrow>
    acc_loop b (limit div of_nat b) (unat (limit mod of_nat b)) s acc any =
      (of_nat (numeral_value b (unat acc) s), if s = [] then any else 1, [])"
proof (induction s arbitrary: acc any)
  case (Cons c s)
  obtain d where d: "digit_of c = Some d" "d < b" using Cons.prems(1) by auto
  have b: "unat (of_nat b :: u64) = b" using assms by (simp add: unat_of_nat)
  let ?v = "unat acc * b + d"
  have "?v \<le> numeral_value b ?v s" by (rule numeral_value_mono [OF assms(1)])
  with Cons.prems(3) d have le: "?v \<le> unat limit" by simp
  have "?v div b = unat acc" using d(2) by simp
  with le have q: "unat acc \<le> unat limit div b" by (metis div_le_mono)
  have r: "d \<le> unat limit mod b" if "unat acc = unat limit div b"
    using le [unfolded that] div_mult_mod_eq [of "unat limit" b] by linarith
  have guard: "\<not> (any < 0 \<or> acc > limit div of_nat b \<or> (acc = limit div of_nat b \<and> d > unat (limit mod of_nat b)))"
    using Cons.prems(2) q r by (auto simp: word_less_nat_alt unat_div unat_mod b)
  have v: "unat (acc * of_nat b + of_nat d) = ?v"
  proof -
    have "?v < 2 ^ 64" using le unat_u64_lt [of limit] by (rule le_less_trans)
    moreover have "acc * of_nat b + of_nat d = of_nat ?v" by simp
    ultimately show ?thesis by (simp only: unat_of_nat) simp
  qed
  then show ?case
    using Cons.IH [of 1 "acc * of_nat b + of_nat d"] Cons.prems guard d by (auto simp: v)
qed simp

lemma char_val_char_of: "n < 256 \<Longrightarrow> char_val (char_of n) = int n"
proof -
  assume "n < 256"
  then have "of_char (char_of n) = n" by simp
  then show ?thesis unfolding char_val_def by (metis of_nat_of_char)
qed

lemma digit_of_val:
  "char_val c = int (48 + n) \<Longrightarrow> n < 10 \<Longrightarrow> digit_of c = Some n"
  "char_val c = int (87 + n) \<Longrightarrow> 10 \<le> n \<Longrightarrow> n < 16 \<Longrightarrow> digit_of c = Some n"
  by (simp_all add: digit_of_def IMS_ISASCII_def IMS_ISDIGIT_def IMS_ISALPHA_def IMS_ISUPPER_def)

lemma digit_of_cipher:
  assumes "unat d < 16" and "nBase \<noteq> 10 \<or> unat d < 10"
  shows "digit_of (cipher nBase d) = Some (unat d)"
proof (cases "unat d < 10")
  case True
  then have "char_val (cipher nBase d) = int (48 + unat d)"
    unfolding cipher_def by (simp only: word_less_nat_alt) (auto simp: char_val_char_of)
  with True show ?thesis by (intro digit_of_val(1))
next
  case False
  then have "cipher nBase d = char_of (87 + unat d)"
    using assms by (simp add: cipher_def word_less_nat_alt)
  then have "char_val (cipher nBase d) = int (87 + unat d)"
    using assms(1) by (simp only: char_val_char_of)
  with False assms(1) show ?thesis by (intro digit_of_val(2)) simp_all
qed

lemma ULLToA_loop_numeral:
  assumes b: "2 \<le> unat b" "unat b \<le> 16"
  shows "\<exists>s. ULLToA_loop n b acc = Some (s @ acc) \<and> numeral_in (unat b) s \<and>
    numeral_value (unat b) 0 s = unat n \<and> (s = [] \<longleftrightarrow> n = 0)"
proof (induction "unat n" arbitrary: n acc rule: less_induct)
  case less
  show ?case
  proof (cases "n = 0")
    case True
    then show ?thesis by (subst ULLToA_loop.simps) simp
  next
    case False
    then have pos: "0 < unat n" by (simp add: unat_gt_0)
    have small: "unat (n div b) < unat n" using b pos by (simp add: unat_div)
    have md: "unat (n mod b) < unat b" using b by (simp add: unat_mod)
    then have digit: "digit_of (cipher b (n mod b)) = Some (unat (n mod b))"
      using b by (intro digit_of_cipher) (auto simp: word_unat_eq_iff)
    from less.hyps [OF small] obtain s where s:
        "ULLToA_loop (n div b) b (cipher b (n mod b) # acc) = Some (s @ cipher b (n mod b) # acc)"
        "numeral_in (unat b) s" "numeral_value (unat b) 0 s = unat (n div b)"
      by blast
    show ?thesis
      using False s digit md div_mult_mod_eq [of "unat n" "unat b"]
      by (intro exI [of _ "s @ [cipher b (n mod b)]"], subst ULLToA_loop.simps)
        (simp add: unat_div unat_mod)
  qed
qed

lemma digit_of_chars [simp]:
  "digit_of (CHR ''0'') = Some 0" "digit_of (CHR ''x'') = Some 33" "digit_of (CHR ''X'') = Some 33"
  "digit_of (CHR ''-'') = None" "digit_of (CHR ''+'') = None" "digit_of (CHR 0x00) = None"
  by (simp_all add: digit_of_def IMS_ISASCII_def IMS_ISDIGIT_def IMS_ISALPHA_def IMS_ISUPPER_def char_val_def)

lemma digit_of_space: "IMS_ISSPACE c \<Longrightarrow> digit_of c = None"
  by (auto simp: digit_of_def IMS_ISSPACE_def IMS_ISDIGIT_def IMS_ISALPHA_def IMS_ISUPPER_def)

text \<open>A numeral is printed for every value in every base the callers let through.\<close>

lemma ULLToA_numeral:
  assumes "2 \<le> unat b" "unat b \<le> 16"
  shows "\<exists>s. astring_ULLToA n b = Some s \<and> s \<noteq> [] \<and> numeral_in (unat b) s \<and> numeral_value (unat b) 0 s = unat n"
proof (cases "n = 0")
  case True
  then show ?thesis using assms by (auto simp: astring_ULLToA_def)
next
  case False
  then show ?thesis using ULLToA_loop_numeral [OF assms, of n "[]"] by (auto simp: astring_ULLToA_def)
qed

text \<open>The parser reads a numeral without tripping over signs, spaces or a base prefix.\<close>

lemma numeral_head:
  assumes "numeral_in b s" and "b \<le> 16" and "s \<noteq> []"
  shows "dropWhile IMS_ISSPACE s = s" "hd s \<noteq> CHR ''-''" "hd s \<noteq> CHR ''+''" "2 \<le> b \<Longrightarrow> skip_0x b s = (b, s)"
    "c_string s = s"
proof -
  obtain c t where s: "s = c # t" using assms(3) by (cases s) auto
  then have c: "digit_of c \<noteq> None" using assms(1) by auto
  show "dropWhile IMS_ISSPACE s = s" using c digit_of_space by (auto simp: s)
  show "hd s \<noteq> CHR ''-''" "hd s \<noteq> CHR ''+''" using c by (auto simp: s)
  have "\<forall>x\<in>set s. x \<noteq> CHR ''x'' \<and> x \<noteq> CHR ''X'' \<and> x \<noteq> CHR 0x00"
    using assms(1,2) by (auto simp: numeral_in_def)
  then show "2 \<le> b \<Longrightarrow> skip_0x b s = (b, s)" "c_string s = s"
    by (auto simp: skip_0x_def c_string_def s takeWhile_eq_all_conv split: list.split)
qed

lemma AToULL_numeral:
  assumes "numeral_in b s" "2 \<le> b" "b \<le> 16" "s \<noteq> []" "numeral_value b 0 s < 2 ^ 64"
  shows "astring_AToULL s b = (of_nat (numeral_value b 0 s), True, [])"
proof -
  have "numeral_value b 0 s \<le> unat (-1 :: u64)" using assms(5) by (simp add: unsigned_minus_1_eq_mask mask_eq_exp_minus_1)
  then have "acc_loop b (-1 div of_nat b) (unat (-1 mod of_nat b :: u64)) s 0 0 = (of_nat (numeral_value b 0 s), 1, [])"
    using acc_loop_numeral [of b s 0 0 "-1"] assms by simp
  then show ?thesis
    using numeral_head [OF assms(1,3,4)] assms(2) by (simp add: astring_AToULL_def Let_def)
qed

lemma AToLL_numeral:
  assumes "numeral_in b s" "2 \<le> b" "b \<le> 16" "s \<noteq> []"
  shows "numeral_value b 0 s < 2 ^ 63 \<Longrightarrow> astring_AToLL s b = (of_nat (numeral_value b 0 s), True, [])"
    and "numeral_value b 0 s \<le> 2 ^ 63 \<Longrightarrow>
      astring_AToLL (CHR ''-'' # s) b = (- of_nat (numeral_value b 0 s), True, [])"
proof -
  note head = numeral_head [OF assms(1,3,4)]
  assume "numeral_value b 0 s < 2 ^ 63"
  then have "acc_loop b ((2 ^ 63 - 1) div of_nat b) (unat ((2 ^ 63 - 1) mod of_nat b :: u64)) s 0 0 =
      (of_nat (numeral_value b 0 s), 1, [])"
    using acc_loop_numeral [of b s 0 0 "2 ^ 63 - 1"] assms by simp
  then show "astring_AToLL s b = (of_nat (numeral_value b 0 s), True, [])"
    using head assms(2) by (simp add: astring_AToLL_def Let_def)
next
  note head = numeral_head [OF assms(1,3,4)]
  assume "numeral_value b 0 s \<le> 2 ^ 63"
  then have "acc_loop b (2 ^ 63 div of_nat b) (unat (2 ^ 63 mod of_nat b :: u64)) s 0 0 =
      (of_nat (numeral_value b 0 s), 1, [])"
    using acc_loop_numeral [of b s 0 0 "2 ^ 63"] assms by simp
  moreover have "\<not> IMS_ISSPACE (CHR ''-'')" by (simp add: IMS_ISSPACE_def char_val_def)
  ultimately show "astring_AToLL (CHR ''-'' # s) b = (- of_nat (numeral_value b 0 s), True, [])"
    using head assms(2) by (simp add: astring_AToLL_def Let_def minus_eq_not_plus_1)
qed

subsection \<open>Printing and parsing\<close>

lemma flag_set_none [simp]: "\<not> flag_set FLAG_NONE f"
  by (simp add: flag_set_def)

lemma prepend_zeros_none [simp]: "s \<noteq> [] \<Longrightarrow> prepend_zeros (1 - int (length s)) s = s"
  by (cases s) (simp_all add: prepend_zeros_def)

lemma ULLToString_plain:
  "astring_ULLToA n b = Some s \<Longrightarrow> s \<noteq> [] \<Longrightarrow> astring_ULLToString n (-1) b (-1) FLAG_NONE = Some s"
  by (simp add: astring_ULLToString_def Let_def)

lemma LLToString_plain:
  "astring_LLToA n 10 = Some s \<Longrightarrow> s \<noteq> [] \<Longrightarrow>
   astring_LLToString n (-1) 10 (-1) FLAG_NONE = Some (if sint n < 0 then CHR ''-'' # s else s)"
  by (simp add: astring_LLToString_def Let_def)

lemma number_base_ok:
  "2 \<le> unat (number_base nBase)" "unat (number_base nBase) \<le> 16" "unat (number_base nBase) = parse_base nBase"
proof -
  have "unat (word_of_int nBase :: u64) = nat nBase" if "\<not> (nBase < 2 \<or> nBase > 16)"
  proof -
    have "uint (word_of_int nBase :: u64) = nBase" using that by (simp add: uint_word_of_int)
    then show ?thesis by (simp only: unat_eq_nat_uint)
  qed
  then have *: "unat (number_base nBase) = (if nBase < 2 \<or> nBase > 16 then 10 else nat nBase)"
    by (simp add: number_base_def)
  show "2 \<le> unat (number_base nBase)" "unat (number_base nBase) \<le> 16" "unat (number_base nBase) = parse_base nBase"
    unfolding * by (auto simp: parse_base_def)
qed

text \<open>What \<open>SetNumber\<close> writes.\<close>

lemma SetNumber_U64_numeral:
  "\<exists>s. SetNumber_U64 n nBase = Some s \<and> s \<noteq> [] \<and> numeral_in (parse_base nBase) s \<and>
     numeral_value (parse_base nBase) 0 s = unat n"
  using ULLToA_numeral [of "number_base nBase" n] number_base_ok [of nBase]
  by (auto simp: SetNumber_U64_def ULLToString_plain)

lemma SetNumber_S64_numeral:
  assumes "- (2 ^ 63) \<le> n" and "n < 2 ^ 63"
  shows "\<exists>s. SetNumber_S64 n 10 = Some (if n < 0 then CHR ''-'' # s else s) \<and> s \<noteq> [] \<and> numeral_in 10 s \<and>
    numeral_value 10 0 s = nat \<bar>n\<bar>"
proof -
  let ?w = "word_of_int n :: u64"
  have sint: "sint ?w = n" using assms by (simp add: signed_of_int signed_take_bit_int_eq_self)
  let ?m = "if sint ?w < 0 then - ?w else ?w"
  have m: "unat ?m = nat \<bar>n\<bar>"
  proof -
    have "?m = word_of_int \<bar>n\<bar>" by (simp add: sint)
    moreover have "\<bar>n\<bar> < 2 ^ 64" using assms by simp
    ultimately show ?thesis by (simp only: unat_eq_nat_uint uint_word_of_int) simp
  qed
  obtain s where s: "astring_ULLToA ?m 10 = Some s" "s \<noteq> []" "numeral_in 10 s" "numeral_value 10 0 s = unat ?m"
    using ULLToA_numeral [of 10 ?m] by auto
  then have "SetNumber_S64 n 10 = Some (if n < 0 then CHR ''-'' # s else s)"
    using LLToString_plain [of ?w s] by (simp add: SetNumber_S64_def number_base_def astring_LLToA_def sint)
  with s m show ?thesis by auto
qed

lemma c_string_minus [simp]: "c_string (CHR ''-'' # s) = CHR ''-'' # c_string s"
  by (simp add: c_string_def)

text \<open>A signed conversion of a printed number, for any range that holds the number.\<close>

lemma to_signed_SetNumber:
  assumes "- (2 ^ 63) \<le> n" "n < 2 ^ 63" and "lo \<le> n" "n \<le> hi"
  shows "\<exists>s. SetNumber_S64 n 10 = Some s \<and> to_signed lo hi s 10 = (n, True)"
proof -
  obtain s where s: "SetNumber_S64 n 10 = Some (if n < 0 then CHR ''-'' # s else s)" "s \<noteq> []" "numeral_in 10 s"
      "numeral_value 10 0 s = nat \<bar>n\<bar>"
    using SetNumber_S64_numeral [OF assms(1,2)] by blast
  have sint: "sint (word_of_int n :: u64) = n"
    using assms by (simp add: signed_of_int signed_take_bit_int_eq_self)
  have c: "c_string s = s" using numeral_head(5) [OF s(3) _ s(2)] by simp
  have "to_signed lo hi (if n < 0 then CHR ''-'' # s else s) 10 = (n, True)"
  proof (cases "n < 0")
    case True
    have "astring_AToLL (CHR ''-'' # s) 10 = (word_of_int n, True, [])"
      using AToLL_numeral(2) [OF s(3) _ _ s(2)] s(4) True assms(1) by simp
    with True show ?thesis using assms(3,4) sint by (simp add: to_signed_def parse_base_def c)
  next
    case False
    have "astring_AToLL s 10 = (word_of_int n, True, [])"
      using AToLL_numeral(1) [OF s(3) _ _ s(2)] s(4) False assms(2) by simp
    with False show ?thesis using assms(3,4) sint s(2) by (simp add: to_signed_def parse_base_def c)
  qed
  with s(1) show ?thesis by blast
qed

lemma parse_base_bounds: "2 \<le> parse_base b" "parse_base b \<le> 16"
  by (auto simp: parse_base_def)

lemma SetNumber_U64_parsed:
  "\<exists>s. SetNumber_U64 n b = Some s \<and> s \<noteq> [] \<and> astring_AToULL (c_string s) (parse_base b) = (n, True, [])"
proof -
  obtain s where s: "SetNumber_U64 n b = Some s" "s \<noteq> []" "numeral_in (parse_base b) s"
      "numeral_value (parse_base b) 0 s = unat n"
    using SetNumber_U64_numeral by blast
  have "astring_AToULL s (parse_base b) = (of_nat (unat n), True, [])"
    using AToULL_numeral [OF s(3) parse_base_bounds s(2)] s(4) unat_u64_lt [of n] by simp
  then show ?thesis
    using s numeral_head(5) [OF s(3) parse_base_bounds(2) s(2)] by auto
qed

lemma uint_widen: "uint (ucast (n :: u16) :: u32) = uint n" "uint (ucast (m :: u32) :: u64) = uint m"
  using unsigned_less [of n, where ?'a = int] unsigned_less [of m, where ?'a = int]
  by (simp_all add: unsigned_ucast_eq take_bit_int_eq_self)

lemma SetNumber_U32_roundtrip: "\<exists>s. SetNumber_U32 n b = Some s \<and> AString_ToUInt32 s b = (n, True)"
proof -
  have "uint n < 2 ^ 32" using unsigned_less [of n, where ?'a = int] by simp
  then have "\<not> (0xFFFFFFFF :: u64) < ucast n" by (simp add: word_less_def uint_widen)
  moreover have "ucast (ucast n :: u64) = n"
    by (rule ucast_up_ucast_id) (simp add: is_up)
  moreover obtain s where "SetNumber_U64 (ucast n) b = Some s" "s \<noteq> []"
      "astring_AToULL (c_string s) (parse_base b) = (ucast n, True, [])"
    using SetNumber_U64_parsed by blast
  ultimately show ?thesis
    unfolding SetNumber_U32_def AString_ToUInt32_def by (intro exI [of _ s]) simp
qed

lemma SetNumber_U16_roundtrip: "\<exists>s. SetNumber_U16 n b = Some s \<and> AString_ToUInt16 s b = (n, True)"
proof -
  let ?w = "ucast (ucast n :: u32) :: u64"
  have u: "uint ?w = uint n" by (simp only: uint_widen)
  have lt: "uint n < 2 ^ 16" using unsigned_less [of n, where ?'a = int] by simp
  have "- (2 ^ 63) \<le> uint n" by (rule order_trans [of _ 0]) simp_all
  moreover have "uint n < 2 ^ 63" using lt by simp
  ultimately have "signed_take_bit 63 (uint n) = uint n" by (rule signed_take_bit_int_eq_self)
  then have "sint ?w = uint n" by (simp only: sint_uint u) simp
  moreover obtain s where "SetNumber_U64 ?w b = Some s" "s \<noteq> []"
      "astring_AToULL (c_string s) (parse_base b) = (?w, True, [])"
    using SetNumber_U64_parsed by blast
  ultimately show ?thesis
    unfolding SetNumber_U16_def SetNumber_U32_def AString_ToUInt16_def using lt by (intro exI [of _ s]) simp
qed

lemma SetNumber_U64_roundtrip: "\<exists>s. SetNumber_U64 n b = Some s \<and> AString_ToUInt64 s b = (n, True)"
proof -
  obtain s where "SetNumber_U64 n b = Some s" "s \<noteq> []"
      "astring_AToULL (c_string s) (parse_base b) = (n, True, [])"
    using SetNumber_U64_parsed by blast
  then show ?thesis by (simp add: AString_ToUInt64_def)
qed

text \<open>The missing lower bound: a number that does not fit a signed long passes as a small one.\<close>

lemma ToUInt16_accepts_out_of_range:
  "AString_ToUInt16 ''18446744073709551615'' 10 = (65535, True)"
  by code_simp

end
