(* ===== verification/Platform_String.thy ===== *)
theory Platform_String
  imports Ims_Number
begin

text \<open>
  The strings of the platform (\<open>platform/util/AString.cpp\<close>), the C string functions under them
  (\<open>ImsStrLib.cpp\<close>) and arrays of strings (\<open>AStringArray.cpp\<close>). An \<open>AString\<close> is \<open>None\<close> when it shares
  the null string and \<open>Some cs\<close> otherwise; capacity and reallocation are left out, and an empty string
  that owns a buffer is treated like the shared empty one. A character pointer
  into a string is the list of characters from it to the end, which the terminating NUL follows.
  Offsets and counts are integers that do not overflow. \<open>None\<close> as the result of a search is a read in
  front of the buffer.
\<close>

type_synonym AString = "string option"

subsection \<open>C strings\<close>

definition IMS_TOLOWER :: "char \<Rightarrow> char" where
  "IMS_TOLOWER c = (if 65 \<le> char_val c \<and> char_val c \<le> 90 then char_of (nat (char_val c - 65 + 97)) else c)"

definition IMS_StrLen :: "cstr \<Rightarrow> nat" where
  "IMS_StrLen pszStr = (case pszStr of None \<Rightarrow> 0 | Some s \<Rightarrow> length (c_string s))"

text \<open>\<open>IMS_StrCpy\<close>: the count, and the text written to the destination (\<open>None\<close>: untouched).\<close>

definition IMS_StrCpy :: "nat \<Rightarrow> cstr \<Rightarrow> nat \<times> cstr" where
  "IMS_StrCpy nDestSize pszSrc =
     (case pszSrc of
        None \<Rightarrow> (0, None)
      | Some s \<Rightarrow> if nDestSize \<le> IMS_StrLen pszSrc then (0, Some []) else (IMS_StrLen pszSrc, Some (c_string s)))"

text \<open>The digits that \<open>IMS_Atoi\<close> accumulates; \<open>None\<close> is a signed overflow.\<close>

fun Atoi_loop :: "int \<Rightarrow> string \<Rightarrow> int option" where
  "Atoi_loop nValue [] = Some nValue"
| "Atoi_loop nValue (c # s) =
     (if IMS_ISDIGIT c then
        (let v = nValue * 10 + (char_val c - 48)
         in if v < 2 ^ 31 then Atoi_loop v s else None)
      else if c = CHR ''.'' then Some nValue
      else Atoi_loop nValue s)"

definition IMS_Atoi :: "cstr \<Rightarrow> int option" where
  "IMS_Atoi pszStr =
     (case pszStr of
        None \<Rightarrow> Some 0
      | Some s \<Rightarrow>
          (let s = c_string s;
               nStrLen = length s;
               bMinus = (s \<noteq> [] \<and> hd s = CHR ''-'');
               nStrLen = (if nStrLen > 11 \<and> bMinus then 11 else if nStrLen > 10 then 10 else nStrLen)
           in map_option (\<lambda>nValue. if bMinus then - nValue else nValue) (Atoi_loop 0 (take nStrLen s))))"

text \<open>The comparison of two texts up to their NUL, after \<open>conv\<close> on each character.\<close>

fun cmp_loop :: "(char \<Rightarrow> char) \<Rightarrow> string \<Rightarrow> string \<Rightarrow> int" where
  "cmp_loop conv (a # as) (b # bs) =
     (if conv a \<noteq> conv b then char_val (conv a) - char_val (conv b) else cmp_loop conv as bs)"
| "cmp_loop conv [] (b # bs) = -1"
| "cmp_loop conv (a # as) [] = 1"
| "cmp_loop conv [] [] = 0"

definition str_cmp :: "(char \<Rightarrow> char) \<Rightarrow> cstr \<Rightarrow> cstr \<Rightarrow> int" where
  "str_cmp conv pszStrA pszStrB =
     (case (pszStrA, pszStrB) of
        (None, None) \<Rightarrow> 0 | (None, Some _) \<Rightarrow> -1 | (Some _, None) \<Rightarrow> 1
      | (Some a, Some b) \<Rightarrow> cmp_loop conv (c_string a) (c_string b))"

definition IMS_StrCmp :: "cstr \<Rightarrow> cstr \<Rightarrow> int" where
  "IMS_StrCmp = str_cmp (\<lambda>c. c)"

definition IMS_StrICmp :: "cstr \<Rightarrow> cstr \<Rightarrow> int" where
  "IMS_StrICmp = str_cmp IMS_TOLOWER"

fun ncmp_loop :: "(char \<Rightarrow> char) \<Rightarrow> string \<Rightarrow> string \<Rightarrow> nat \<Rightarrow> int" where
  "ncmp_loop conv (a # as) (b # bs) (Suc nCount) =
     (if a = CHR 0x00 \<or> b = CHR 0x00 then -1
      else if conv a \<noteq> conv b then char_val (conv a) - char_val (conv b)
      else ncmp_loop conv as bs nCount)"
| "ncmp_loop conv _ _ 0 = 0"
| "ncmp_loop conv _ _ (Suc nCount) = -1"

definition IMS_StrNCmp :: "cstr \<Rightarrow> cstr \<Rightarrow> nat \<Rightarrow> int" where
  "IMS_StrNCmp pszStrA pszStrB nSize =
     (case (pszStrA, pszStrB) of
        (Some a, Some b) \<Rightarrow> if nSize = 0 then -1 else ncmp_loop (\<lambda>c. c) a b nSize
      | _ \<Rightarrow> -1)"

definition IMS_StrNICmp :: "cstr \<Rightarrow> cstr \<Rightarrow> nat \<Rightarrow> int" where
  "IMS_StrNICmp pszStrA pszStrB nSize =
     (case (pszStrA, pszStrB) of
        (Some a, Some b) \<Rightarrow> if nSize = 0 then -1 else ncmp_loop IMS_TOLOWER a b nSize
      | _ \<Rightarrow> -1)"

subsection \<open>Construction and size\<close>

definition chars :: "AString \<Rightarrow> string" where
  "chars s = (case s of None \<Rightarrow> [] | Some cs \<Rightarrow> cs)"

text \<open>The pointer to the characters; that of the null string points to an empty text.\<close>

definition AString_GetStr :: "AString \<Rightarrow> cstr" where
  "AString_GetStr s = Some (chars s)"

definition AString_GetLength :: "AString \<Rightarrow> int" where
  "AString_GetLength s = int (length (chars s))"

definition AString_IsNull :: "AString \<Rightarrow> bool" where
  "AString_IsNull s \<longleftrightarrow> s = None"

definition AString_IsEmpty :: "AString \<Rightarrow> bool" where
  "AString_IsEmpty s \<longleftrightarrow> s = Some []"

text \<open>The constructors from a pointer, from a pointer and a size, from a part, and from copies.\<close>

definition AString_psz :: "cstr \<Rightarrow> AString" where
  "AString_psz pszValue = map_option c_string pszValue"

definition AString_sized :: "string \<Rightarrow> int \<Rightarrow> AString" where
  "AString_sized pszValue nSize = (if nSize \<le> 0 then Some [] else Some (take (nat nSize) pszValue))"

definition AString_part :: "cstr \<Rightarrow> int \<Rightarrow> int \<Rightarrow> AString" where
  "AString_part pszValue nOffset nCount =
     (case pszValue of
        None \<Rightarrow> None
      | Some s \<Rightarrow> if nCount \<le> 0 \<or> nOffset \<le> 0 then Some [] else Some (take (nat nCount) (drop (nat nOffset) s)))"

definition AString_fill :: "int \<Rightarrow> char \<Rightarrow> AString" where
  "AString_fill nSize c = (if nSize \<le> 0 then Some [] else Some (replicate (nat nSize) c))"

text \<open>Growing leaves the new characters to whoever writes them; here they are NUL.\<close>

definition AString_Resize :: "int \<Rightarrow> AString \<Rightarrow> AString" where
  "AString_Resize nSize s =
     (if nSize \<le> 0 then if s = None then None else Some []
      else Some (take (nat nSize) (chars s @ replicate (nat nSize) (CHR 0x00))))"

definition AString_Chop :: "int \<Rightarrow> AString \<Rightarrow> AString" where
  "AString_Chop nCount s = (if nCount > 0 then AString_Resize (AString_GetLength s - nCount) s else s)"

definition AString_Truncate :: "int \<Rightarrow> AString \<Rightarrow> AString" where
  "AString_Truncate nOffset s = (if nOffset < AString_GetLength s then AString_Resize nOffset s else s)"

subsection \<open>Parts\<close>

definition AString_GetSubStr :: "int \<Rightarrow> int \<Rightarrow> AString \<Rightarrow> AString" where
  "AString_GetSubStr nOffset nCount s =
     (let nSize = AString_GetLength s
      in if s = None \<or> s = Some [] \<or> nOffset \<ge> nSize then None
         else
           (let nCount = (if nCount < 0 then nSize - nOffset else nCount);
                nCount = (if nOffset < 0 then nCount + nOffset else nCount);
                nOffset = (if nOffset < 0 then 0 else nOffset);
                nCount = (if nCount + nOffset > nSize then nSize - nOffset else nCount)
            in if nOffset = 0 \<and> nCount = nSize then s
               else AString_sized (drop (nat nOffset) (chars s)) nCount))"

definition AString_Mid :: "int \<Rightarrow> int \<Rightarrow> AString \<Rightarrow> AString" where
  "AString_Mid nOffset nCount s =
     (let nSize = AString_GetLength s
      in if s = None \<or> s = Some [] \<or> nOffset \<ge> nSize then None
         else
           (let nCount = (if nCount < 0 then nSize - nCount else nCount);
                nCount = (if nOffset < 0 then nCount + nOffset else nCount);
                nOffset = (if nOffset < 0 then 0 else nOffset);
                nCount = (if nCount + nOffset > nSize then nSize - nOffset else nCount)
            in if nOffset = 0 \<and> nCount = nSize then s
               else AString_sized (drop (nat nOffset) (chars s)) nCount))"

definition AString_Left :: "int \<Rightarrow> AString \<Rightarrow> AString" where
  "AString_Left nCount s =
     (if nCount \<ge> AString_GetLength s then s
      else Some (take (nat (max nCount 0)) (chars s)))"

definition AString_Right :: "int \<Rightarrow> AString \<Rightarrow> AString" where
  "AString_Right nCount s =
     (if nCount \<ge> AString_GetLength s then s
      else Some (drop (length (chars s) - nat (max nCount 0)) (chars s)))"

subsection \<open>Comparison\<close>

definition AString_Compare :: "cstr \<Rightarrow> cstr \<Rightarrow> int" where
  "AString_Compare pszStr1 pszStr2 =
     (if pszStr1 \<noteq> None \<and> pszStr2 \<noteq> None then IMS_StrCmp pszStr1 pszStr2
      else if pszStr1 \<noteq> None then 1 else if pszStr2 \<noteq> None then -1 else 0)"

definition AString_CompareIgnoreCase :: "cstr \<Rightarrow> cstr \<Rightarrow> int" where
  "AString_CompareIgnoreCase pszStr1 pszStr2 =
     (if pszStr1 \<noteq> None \<and> pszStr2 \<noteq> None then IMS_StrICmp pszStr1 pszStr2
      else if pszStr1 \<noteq> None then 1 else if pszStr2 \<noteq> None then -1 else 0)"

definition AString_Equals_char :: "char \<Rightarrow> AString \<Rightarrow> bool" where
  "AString_Equals_char c s \<longleftrightarrow> chars s = [c]"

definition AString_Equals_psz :: "cstr \<Rightarrow> AString \<Rightarrow> bool" where
  "AString_Equals_psz pszValue s \<longleftrightarrow> AString_Compare (AString_GetStr s) pszValue = 0"

definition AString_Equals :: "AString \<Rightarrow> AString \<Rightarrow> bool" where
  "AString_Equals t s \<longleftrightarrow>
     (s = None \<and> t = None) \<or>
     (AString_GetLength s = AString_GetLength t \<and> (s = None \<longleftrightarrow> t = None) \<and> AString_Compare (AString_GetStr s) (AString_GetStr t) = 0)"

definition AString_EqualsIgnoreCase_char :: "char \<Rightarrow> AString \<Rightarrow> bool" where
  "AString_EqualsIgnoreCase_char c s \<longleftrightarrow> length (chars s) = 1 \<and> IMS_TOLOWER (hd (chars s)) = IMS_TOLOWER c"

definition AString_EqualsIgnoreCase_psz :: "cstr \<Rightarrow> AString \<Rightarrow> bool" where
  "AString_EqualsIgnoreCase_psz pszValue s \<longleftrightarrow> AString_CompareIgnoreCase (AString_GetStr s) pszValue = 0"

definition AString_EqualsIgnoreCase :: "AString \<Rightarrow> AString \<Rightarrow> bool" where
  "AString_EqualsIgnoreCase t s \<longleftrightarrow>
     AString_GetLength s = AString_GetLength t \<and> (s = None \<longleftrightarrow> t = None) \<and> AString_CompareIgnoreCase (AString_GetStr s) (AString_GetStr t) = 0"

definition AString_less :: "AString \<Rightarrow> AString \<Rightarrow> bool" where
  "AString_less s t \<longleftrightarrow>
     (if s = None \<and> t = None then False else if s \<noteq> None \<and> t = None then False
      else if s = None then True else AString_Compare (AString_GetStr s) (AString_GetStr t) < 0)"

subsection \<open>Search\<close>

definition NPOS :: int where "NPOS = -1"

definition AString_GetIndexOf_char :: "char \<Rightarrow> int \<Rightarrow> AString \<Rightarrow> int" where
  "AString_GetIndexOf_char c nOffset s =
     (let nSize = AString_GetLength s;
          nOffset = (if nOffset < 0 then max (nOffset + nSize) 0 else nOffset)
      in if nOffset < nSize
         then (case find_index (\<lambda>x. x = c) (drop (nat nOffset) (chars s)) of
                 None \<Rightarrow> NPOS | Some i \<Rightarrow> nOffset + int i)
         else NPOS)"

text \<open>
  The search for a text: a rolling hash of the window, and a comparison where it equals the hash of
  the needle. \<open>p\<close> is the rest of the haystack, at index \<open>i\<close>; \<open>m\<close> is \<open>OL_MINUS_1\<close>.
\<close>

definition char_word :: "char \<Rightarrow> u32" where
  "char_word c = word_of_int (char_val c)"

definition hash_step :: "char \<Rightarrow> u32 \<Rightarrow> u32" where
  "hash_step c nHash = push_bit 1 nHash + char_word c"

fun search_forward :: "string \<Rightarrow> u32 \<Rightarrow> nat \<Rightarrow> nat \<Rightarrow> u32 \<Rightarrow> string \<Rightarrow> int" where
  "search_forward pNeedle nHashNeedle m i nHashHayStack [] = NPOS"
| "search_forward pNeedle nHashNeedle m i nHashHayStack (c # p) =
     (if length p < m then NPOS
      else
        (let h = nHashHayStack + char_word ((c # p) ! m)
         in if h = nHashNeedle \<and> hd pNeedle = c \<and> IMS_StrNCmp (Some pNeedle) (Some (c # p)) (length pNeedle) = 0
            then int i
            else search_forward pNeedle nHashNeedle m (Suc i)
                   (push_bit 1 (if m < 32 then h - push_bit m (char_word c) else h)) p))"

definition AString_GetIndexOf :: "AString \<Rightarrow> int \<Rightarrow> AString \<Rightarrow> int option" where
  "AString_GetIndexOf objStr nOffset s =
     (let nLen = AString_GetLength s; nOtherLen = AString_GetLength objStr
      in if nOffset > nLen \<or> nOtherLen + nOffset > nLen then Some NPOS
         else if nOtherLen = 0 then Some NPOS
         else if nOtherLen = 1 then Some (AString_GetIndexOf_char (hd (chars objStr)) nOffset s)
         else if nOffset < 0 then None
         else
           (let pNeedle = chars objStr; pHayStack = drop (nat nOffset) (chars s); m = length pNeedle - 1;
                nHashNeedle = fold hash_step pNeedle 0;
                nHashHayStack = fold hash_step (take (length pNeedle) pHayStack) 0
            in Some (search_forward pNeedle nHashNeedle m (nat nOffset)
                 (nHashHayStack - char_word (pHayStack ! m)) pHayStack)))"

definition AString_GetIndexOf_psz :: "cstr \<Rightarrow> int \<Rightarrow> AString \<Rightarrow> int option" where
  "AString_GetIndexOf_psz pszValue nOffset s = AString_GetIndexOf (AString_psz pszValue) nOffset s"

text \<open>Backwards: the search for a character reads at most the NUL behind the last one.\<close>

fun last_char :: "char \<Rightarrow> nat \<Rightarrow> string \<Rightarrow> int" where
  "last_char c 0 cs = NPOS"
| "last_char c (Suc k) cs = (if (cs @ [CHR 0x00]) ! k = c then int k else last_char c k cs)"

definition AString_GetLastIndexOf_char :: "char \<Rightarrow> int \<Rightarrow> AString \<Rightarrow> int" where
  "AString_GetLastIndexOf_char c nOffset s =
     (let nSize = AString_GetLength s;
          nOffset = (if nOffset < 0 then nOffset + nSize else if nOffset > nSize then nSize - 1 else nOffset)
      in if nOffset \<ge> 0 then last_char c (nat nOffset + 1) (chars s) else NPOS)"

text \<open>\<open>k\<close> windows are left, the next one at index \<open>k - 1\<close>.\<close>

fun search_backward :: "string \<Rightarrow> u32 \<Rightarrow> nat \<Rightarrow> nat \<Rightarrow> u32 \<Rightarrow> string \<Rightarrow> int" where
  "search_backward pNeedle nHashNeedle m 0 nHashHayStack cs = NPOS"
| "search_backward pNeedle nHashNeedle m (Suc k) nHashHayStack cs =
     (let h = nHashHayStack + char_word ((cs @ [CHR 0x00]) ! k)
      in if h = nHashNeedle \<and> IMS_StrNCmp (Some pNeedle) (Some (drop k cs)) (length pNeedle) = 0 then int k
         else search_backward pNeedle nHashNeedle m k
                (push_bit 1 (if pNeedle \<noteq> [] \<and> m < 32 then h - push_bit m (char_word (cs ! (k + m))) else h)) cs)"

definition AString_GetLastIndexOf :: "AString \<Rightarrow> int \<Rightarrow> AString \<Rightarrow> int option" where
  "AString_GetLastIndexOf objStr nOffset s =
     (let nLen = AString_GetLength s; nOtherLen = AString_GetLength objStr; nDelta = nLen - nOtherLen;
          nOffset = (if nOffset < 0 then nDelta else nOffset)
      in if nOffset < 0 \<or> nOffset > nLen then Some NPOS
         else
           (let nOffset = (if nOffset > nDelta then nDelta else nOffset)
            in if nOtherLen = 1 then Some (AString_GetLastIndexOf_char (hd (chars objStr)) nOffset s)
               else if nOffset < 0 then None
               else
                 (let pNeedle = chars objStr; m = length pNeedle - 1; k = nat nOffset;
                      nHashNeedle = fold hash_step (rev pNeedle) 0;
                      nHashHayStack = fold hash_step (rev (take (length pNeedle) (drop k (chars s)))) 0
                  in Some (search_backward pNeedle nHashNeedle m (Suc k)
                       (nHashHayStack - char_word ((chars s @ [CHR 0x00]) ! k)) (chars s)))))"

definition AString_Contains_char :: "char \<Rightarrow> AString \<Rightarrow> bool" where
  "AString_Contains_char c s \<longleftrightarrow> AString_GetIndexOf_char c 0 s \<noteq> NPOS"

definition AString_Contains :: "AString \<Rightarrow> AString \<Rightarrow> bool" where
  "AString_Contains objStr s \<longleftrightarrow> AString_GetIndexOf objStr 0 s \<noteq> Some NPOS"

definition AString_EndsWith_char :: "char \<Rightarrow> AString \<Rightarrow> bool" where
  "AString_EndsWith_char c s \<longleftrightarrow> chars s \<noteq> [] \<and> last (chars s) = c"

definition AString_EndsWith_psz :: "cstr \<Rightarrow> AString \<Rightarrow> bool" where
  "AString_EndsWith_psz pszValue s \<longleftrightarrow>
     (case map_option c_string pszValue of
        None \<Rightarrow> True | Some [] \<Rightarrow> True
      | Some v \<Rightarrow> length v \<le> length (chars s) \<and>
          IMS_StrNCmp (Some (drop (length (chars s) - length v) (chars s))) (Some v) (length v) = 0)"

definition AString_EndsWith :: "AString \<Rightarrow> AString \<Rightarrow> bool" where
  "AString_EndsWith objStr s \<longleftrightarrow>
     (s = None \<and> objStr = None) \<or> chars objStr = [] \<or>
     (length (chars objStr) \<le> length (chars s) \<and>
      drop (length (chars s) - length (chars objStr)) (chars s) = chars objStr)"

definition AString_StartsWith_char :: "char \<Rightarrow> AString \<Rightarrow> bool" where
  "AString_StartsWith_char c s \<longleftrightarrow> chars s \<noteq> [] \<and> hd (chars s) = c"

definition AString_StartsWith_psz :: "cstr \<Rightarrow> AString \<Rightarrow> bool" where
  "AString_StartsWith_psz pszValue s \<longleftrightarrow>
     (case map_option c_string pszValue of
        None \<Rightarrow> True | Some [] \<Rightarrow> True
      | Some v \<Rightarrow> length v \<le> length (chars s) \<and> IMS_StrNCmp (Some (chars s)) (Some v) (length v) = 0)"

definition AString_StartsWith :: "AString \<Rightarrow> AString \<Rightarrow> bool" where
  "AString_StartsWith objStr s \<longleftrightarrow>
     (s = None \<and> objStr = None) \<or> chars objStr = [] \<or>
     (length (chars objStr) \<le> length (chars s) \<and> take (length (chars objStr)) (chars s) = chars objStr)"

end
