(* ===== verification/Platform_Search.thy ===== *)
theory Platform_Search
  imports Platform_String "HOL-Library.Sublist"
begin

text \<open>
  The searches of the platform strings find what a naive search finds: the rolling hash never
  misses an occurrence, and what it finds is one.
\<close>

subsection \<open>Comparison\<close>

lemma char_val_eq [simp]: "char_val a = char_val b \<longleftrightarrow> a = b"
  by (simp add: char_val_def)

lemma cmp_loop_zero: "cmp_loop conv as bs = 0 \<longleftrightarrow> map conv as = map conv bs"
  by (induction conv as bs rule: cmp_loop.induct) (auto simp: char_val_def)

lemma ncmp_loop_prefix:
  "CHR 0x00 \<notin> set as \<Longrightarrow> ncmp_loop (\<lambda>c. c) as bs (length as) = 0 \<longleftrightarrow> prefix as bs"
proof (induction as arbitrary: bs)
  case (Cons a as)
  then show ?case by (cases bs) (simp_all split: if_split, blast)
qed simp

lemma StrNCmp_prefix:
  "as \<noteq> [] \<Longrightarrow> CHR 0x00 \<notin> set as \<Longrightarrow> IMS_StrNCmp (Some as) (Some bs) (length as) = 0 \<longleftrightarrow> prefix as bs"
  by (simp add: IMS_StrNCmp_def ncmp_loop_prefix)

lemma c_string_no_NUL [simp]: "CHR 0x00 \<notin> set cs \<Longrightarrow> c_string cs = cs"
  unfolding c_string_def takeWhile_eq_all_conv by blast

text \<open>Texts without NUL are equal exactly when their characters are.\<close>

lemma AString_Equals_iff:
  assumes "CHR 0x00 \<notin> set (chars s)" and "CHR 0x00 \<notin> set (chars t)"
  shows "AString_Equals t s \<longleftrightarrow> s = t"
  using assms
  by (cases s; cases t)
    (auto simp: AString_Equals_def AString_GetLength_def AString_Compare_def AString_GetStr_def chars_def IMS_StrCmp_def
      str_cmp_def cmp_loop_zero)

lemma AString_EqualsIgnoreCase_iff:
  assumes "CHR 0x00 \<notin> set a" and "CHR 0x00 \<notin> set b"
  shows "AString_EqualsIgnoreCase (Some b) (Some a) \<longleftrightarrow> map IMS_TOLOWER a = map IMS_TOLOWER b"
  using assms
  by (auto simp: AString_EqualsIgnoreCase_def AString_GetLength_def AString_CompareIgnoreCase_def AString_GetStr_def
      chars_def IMS_StrICmp_def str_cmp_def cmp_loop_zero dest: map_eq_imp_length_eq)

subsection \<open>The rolling hash\<close>

definition window_hash :: "string \<Rightarrow> u32" where
  "window_hash xs = fold hash_step xs 0"

lemma hash_from: "fold hash_step xs a = push_bit (length xs) a + window_hash xs"
proof (induction xs arbitrary: a)
  case (Cons c xs)
  show ?case
    using Cons.IH [of "hash_step c a"] Cons.IH [of "hash_step c 0"]
    by (simp add: window_hash_def) (simp add: hash_step_def push_bit_add push_bit_push_bit ac_simps flip: push_bit_Suc)
qed (simp add: window_hash_def)

lemma window_hash_Cons: "window_hash (c # xs) = push_bit (length xs) (char_word c) + window_hash xs"
  using hash_from [of xs "hash_step c 0"] by (simp add: window_hash_def hash_step_def)

lemma window_hash_snoc: "window_hash (xs @ [c]) = push_bit 1 (window_hash xs) + char_word c"
  by (simp add: window_hash_def hash_step_def)

lemma drop_oldest:
  "push_bit 1 (if length xs < 32 then window_hash (c # xs) - push_bit (length xs) (char_word c) else window_hash (c # xs)) =
   push_bit 1 (window_hash xs)"
proof (cases "length xs < 32")
  case False
  then have "push_bit (length xs) (char_word c) = (0 :: u32)"
    by (intro bit_word_eqI) (simp add: bit_push_bit_iff)
  then have "window_hash (c # xs) = window_hash xs" by (simp only: window_hash_Cons add_0_left)
  then show ?thesis using False by simp
qed (simp add: window_hash_Cons)

subsection \<open>The first occurrence\<close>

fun first_occurrence :: "string \<Rightarrow> string \<Rightarrow> nat option" where
  "first_occurrence needle [] = None"
| "first_occurrence needle (c # p) =
     (if prefix needle (c # p) then Some 0 else map_option Suc (first_occurrence needle p))"

lemma first_occurrence_Some:
  "first_occurrence needle p = Some k \<Longrightarrow>
   prefix needle (drop k p) \<and> k < length p \<and> (\<forall>j<k. \<not> prefix needle (drop j p))"
proof (induction p arbitrary: k)
  case (Cons c p)
  show ?case
  proof (cases "prefix needle (c # p)")
    case False
    then obtain k' where k': "first_occurrence needle p = Some k'" "k = Suc k'" using Cons.prems by auto
    show ?thesis using Cons.IH [OF k'(1)] k'(2) False by (auto simp: less_Suc_eq_0_disj)
  qed (use Cons.prems in simp)
qed simp

lemma first_occurrence_None:
  "needle \<noteq> [] \<Longrightarrow> first_occurrence needle p = None \<longleftrightarrow> (\<forall>j. \<not> prefix needle (drop j p))"
proof (induction p)
  case (Cons c p)
  have "(\<forall>j. \<not> prefix needle (drop j (c # p))) \<longleftrightarrow> \<not> prefix needle (c # p) \<and> (\<forall>j. \<not> prefix needle (drop j p))"
    by (metis drop0 drop_Suc_Cons not0_implies_Suc)
  then show ?case using Cons by simp
qed simp

lemma first_occurrence_short: "length p < length needle \<Longrightarrow> first_occurrence needle p = None"
proof (induction p)
  case (Cons c p)
  then show ?case by (auto dest: prefix_length_le)
qed simp

definition index_result :: "nat \<Rightarrow> nat option \<Rightarrow> int" where
  "index_result i r = (case r of None \<Rightarrow> NPOS | Some k \<Rightarrow> int (i + k))"

lemma index_result_Suc: "index_result i (map_option Suc r) = index_result (Suc i) r"
  by (cases r) (simp_all add: index_result_def)

lemma search_forward_first:
  assumes "needle \<noteq> []" and "CHR 0x00 \<notin> set needle"
    and "length p \<ge> length needle \<Longrightarrow> h = push_bit 1 (window_hash (take (length needle - 1) p))"
  shows "search_forward needle (window_hash needle) (length needle - 1) i h p = index_result i (first_occurrence needle p)"
  using assms(3)
proof (induction p arbitrary: i h)
  case Nil
  then show ?case by (simp add: index_result_def)
next
  case (Cons c p)
  define m where "m = length needle - 1"
  have len: "length needle = Suc m" using assms(1) by (simp add: m_def)
  show ?case
  proof (cases "length p < m")
    case True
    then have "first_occurrence needle (c # p) = None" using len by (intro first_occurrence_short) simp
    then show ?thesis using True by (simp add: index_result_def m_def)
  next
    case False
    define h' where "h' = h + char_word ((c # p) ! m)"
    have "take (Suc m) (c # p) = take m (c # p) @ [(c # p) ! m]"
      using False by (intro take_Suc_conv_app_nth) simp
    moreover have "h = push_bit 1 (window_hash (take m (c # p)))"
      using Cons.prems False len by (simp add: m_def [symmetric])
    ultimately have h': "h' = window_hash (take (Suc m) (c # p))"
      unfolding h'_def by (simp only: window_hash_snoc)
    have match: "h' = window_hash needle \<and> hd needle = c \<and>
        IMS_StrNCmp (Some needle) (Some (c # p)) (length needle) = 0 \<longleftrightarrow> prefix needle (c # p)"
    proof
      assume p: "prefix needle (c # p)"
      then have "take (Suc m) (c # p) = needle" using len by (metis take_is_prefix prefix_length_le
          append_eq_conv_conj prefix_def)
      then show "h' = window_hash needle \<and> hd needle = c \<and> IMS_StrNCmp (Some needle) (Some (c # p)) (length needle) = 0"
        using p h' assms StrNCmp_prefix by (auto simp: prefix_Cons)
    qed (use assms StrNCmp_prefix in blast)
    define h'' where "h'' = push_bit 1 (if m < 32 then h' - push_bit m (char_word c) else h')"
    have h'': "h'' = push_bit 1 (window_hash (take m p))"
      using drop_oldest [of "take m p" c] False h' unfolding h''_def by (cases "m < 32") (simp_all add: right_diff_distrib)
    have rest: "search_forward needle (window_hash needle) m (Suc i) h'' p = index_result (Suc i) (first_occurrence needle p)"
      unfolding m_def by (rule Cons.IH) (simp only: h'' m_def)
    have "search_forward needle (window_hash needle) m i h (c # p) =
        (if prefix needle (c # p) then int i else search_forward needle (window_hash needle) m (Suc i) h'' p)"
      unfolding search_forward.simps Let_def h'_def [symmetric] h''_def [symmetric] match using False by simp
    then show ?thesis
      unfolding m_def [symmetric] rest
      by (cases "prefix needle (c # p)") (simp_all add: index_result_Suc, simp add: index_result_def)
  qed
qed

lemma find_index_first_occurrence: "find_index (\<lambda>x. x = c) p = first_occurrence [c] p"
  by (induction p) auto

theorem GetIndexOf_first:
  assumes "needle \<noteq> []" and "CHR 0x00 \<notin> set needle"
  shows "AString_GetIndexOf (Some needle) (int off) (Some cs) =
    Some (index_result off (first_occurrence needle (drop off cs)))"
proof -
  consider (short) "length needle + off > length cs" | (one) "length needle + off \<le> length cs" "length needle = 1"
    | (long) "length needle + off \<le> length cs" "1 < length needle"
    using assms(1) [unfolded length_greater_0_conv [symmetric]] by atomize_elim linarith
  then show ?thesis
  proof cases
    case short
    then have "first_occurrence needle (drop off cs) = None"
      using assms(1) by (intro first_occurrence_short) (cases "off \<le> length cs"; simp; linarith)
    then show ?thesis using short
      by (simp add: AString_GetIndexOf_def AString_GetLength_def chars_def index_result_def Let_def)
  next
    case one
    then obtain c where "needle = [c]" by (cases needle) auto
    then show ?thesis using one
      by (simp add: AString_GetIndexOf_def AString_GetIndexOf_char_def AString_GetLength_def chars_def index_result_def
          find_index_first_occurrence Let_def split: option.split)
  next
    case long
    define p where "p = drop off cs"
    define m where "m = length needle - 1"
    have len: "length needle = Suc m" "m < length p" using long by (simp_all add: m_def p_def)
    have "take (Suc m) p = take m p @ [p ! m]" using len by (intro take_Suc_conv_app_nth) simp
    then have h: "window_hash (take (Suc m) p) - char_word (p ! m) = push_bit 1 (window_hash (take m p))"
      by (simp only: window_hash_snoc add_diff_cancel_right')
    have "search_forward needle (window_hash needle) m off (window_hash (take (Suc m) p) - char_word (p ! m)) p =
        index_result off (first_occurrence needle p)"
      unfolding m_def by (rule search_forward_first [OF assms]) (use h in \<open>simp only: m_def\<close>)
    moreover have "AString_GetIndexOf (Some needle) (int off) (Some cs) =
        Some (search_forward needle (window_hash needle) m off (window_hash (take (Suc m) p) - char_word (p ! m)) p)"
      using long len by (simp add: AString_GetIndexOf_def AString_GetLength_def chars_def p_def window_hash_def Let_def)
    ultimately show ?thesis by (simp add: p_def)
  qed
qed

text \<open>An empty needle is never found, whatever the offset.\<close>

lemma GetIndexOf_empty: "AString_GetIndexOf (Some []) off s = Some NPOS"
  by (simp add: AString_GetIndexOf_def AString_GetLength_def chars_def Let_def)

lemma Contains_iff:
  assumes "needle \<noteq> []" and "CHR 0x00 \<notin> set needle"
  shows "AString_Contains (Some needle) (Some cs) \<longleftrightarrow> sublist needle cs"
proof -
  have "AString_Contains (Some needle) (Some cs) \<longleftrightarrow> first_occurrence needle cs \<noteq> None"
    using GetIndexOf_first [OF assms, of 0 cs]
    by (auto simp: AString_Contains_def index_result_def NPOS_def split: option.split)
  also have "\<dots> \<longleftrightarrow> (\<exists>j. prefix needle (drop j cs))" by (simp add: first_occurrence_None [OF assms(1)])
  also have "\<dots> \<longleftrightarrow> sublist needle cs"
    by (metis append_take_drop_id append_eq_conv_conj prefix_def sublist_def)
  finally show ?thesis .
qed

subsection \<open>The last occurrence\<close>

lemma search_backward_last:
  assumes "needle \<noteq> []" and "CHR 0x00 \<notin> set needle" and "length needle = Suc m" and "k + m \<le> length cs"
    and "0 < k \<Longrightarrow> h = push_bit 1 (window_hash (rev (take m (drop k cs))))"
  shows "\<exists>r. search_backward needle (window_hash (rev needle)) m k h cs = r \<and>
    (r = NPOS \<and> (\<forall>i<k. \<not> prefix needle (drop i cs)) \<or>
     (\<exists>j<k. r = int j \<and> prefix needle (drop j cs) \<and> (\<forall>i. j < i \<and> i < k \<longrightarrow> \<not> prefix needle (drop i cs))))"
  using assms(4,5)
proof (induction k arbitrary: h)
  case (Suc k)
  define w where "w = drop k cs"
  define h' where "h' = h + char_word ((cs @ [CHR 0x00]) ! k)"
  have len: "m < length w" using Suc.prems(1) by (simp add: w_def)
  have w: "w = cs ! k # drop (Suc k) cs" using len by (simp add: w_def Cons_nth_drop_Suc)
  have "h = push_bit 1 (window_hash (rev (take m (drop (Suc k) cs))))" by (rule Suc.prems(2)) simp
  then have h': "h' = window_hash (rev (take (Suc m) w))"
    using Suc.prems(1) unfolding h'_def by (subst w) (simp add: window_hash_snoc nth_append)
  have match: "h' = window_hash (rev needle) \<and> IMS_StrNCmp (Some needle) (Some w) (length needle) = 0 \<longleftrightarrow> prefix needle w"
  proof
    assume p: "prefix needle w"
    then have "take (Suc m) w = needle" using assms(3) by (metis append_eq_conv_conj prefix_def)
    then show "h' = window_hash (rev needle) \<and> IMS_StrNCmp (Some needle) (Some w) (length needle) = 0"
      using p h' assms(1,2) StrNCmp_prefix by auto
  qed (use assms(1,2) StrNCmp_prefix in blast)
  define h'' where "h'' = push_bit 1 (if m < 32 then h' - push_bit m (char_word (cs ! (k + m))) else h')"
  have "rev (take (Suc m) w) = cs ! (k + m) # rev (take m w)"
    using len by (simp add: take_Suc_conv_app_nth w_def)
  then have h'': "h'' = push_bit 1 (window_hash (rev (take m w)))"
    using drop_oldest [of "rev (take m w)" "cs ! (k + m)"] h' len unfolding h''_def
    by (cases "m < 32") (simp_all add: right_diff_distrib)
  have step: "search_backward needle (window_hash (rev needle)) m (Suc k) h cs =
      (if prefix needle w then int k else search_backward needle (window_hash (rev needle)) m k h'' cs)"
    using match assms(1) by (simp add: h'_def [symmetric] h''_def w_def [symmetric] Let_def)
  show ?case
  proof (cases "prefix needle w")
    case True
    then show ?thesis by (simp only: step if_True) (auto simp: w_def)
  next
    case False
    obtain r where r: "search_backward needle (window_hash (rev needle)) m k h'' cs = r"
      "r = NPOS \<and> (\<forall>i<k. \<not> prefix needle (drop i cs)) \<or>
       (\<exists>j<k. r = int j \<and> prefix needle (drop j cs) \<and> (\<forall>i. j < i \<and> i < k \<longrightarrow> \<not> prefix needle (drop i cs)))"
      using Suc.IH [OF _ h'' [unfolded w_def]] Suc.prems(1) by auto
    then show ?thesis using False by (simp only: step if_False) (auto simp: w_def less_Suc_eq)
  qed
qed simp

end
