(* ===== verification/Platform_Edit.thy ===== *)
theory Platform_Edit
  imports Platform_Search
begin

text \<open>
  The operations of \<open>AString\<close> that change a text or take it apart. \<open>Replace\<close> works in the buffer of the
  string; its three loops (equal size, shorter, longer) are written with the copies they make. A loop
  that does not end is \<open>None\<close>.
\<close>

subsection \<open>Appending and inserting\<close>

definition AString_Append_char :: "char \<Rightarrow> AString \<Rightarrow> AString" where
  "AString_Append_char c s = Some (chars s @ [c])"

definition AString_Append_psz :: "cstr \<Rightarrow> AString \<Rightarrow> AString" where
  "AString_Append_psz pszValue s = (case pszValue of None \<Rightarrow> s | Some v \<Rightarrow> if c_string v = [] then s else Some (chars s @ c_string v))"

definition AString_Append :: "AString \<Rightarrow> AString \<Rightarrow> AString" where
  "AString_Append objStr s =
     (if s = None \<or> s = Some [] then objStr else if objStr \<noteq> None then Some (chars s @ chars objStr) else s)"

definition AString_Prepend_char :: "char \<Rightarrow> AString \<Rightarrow> AString" where
  "AString_Prepend_char c s = Some (c # chars s)"

definition AString_Prepend_psz :: "cstr \<Rightarrow> AString \<Rightarrow> AString" where
  "AString_Prepend_psz pszValue s = (case pszValue of None \<Rightarrow> s | Some v \<Rightarrow> if c_string v = [] then s else Some (c_string v @ chars s))"

definition AString_Prepend :: "AString \<Rightarrow> AString \<Rightarrow> AString" where
  "AString_Prepend objStr s =
     (if s = None \<or> s = Some [] then objStr
      else if objStr \<noteq> None then AString_Append s objStr else s)"

definition AString_Erase :: "int \<Rightarrow> int \<Rightarrow> AString \<Rightarrow> AString" where
  "AString_Erase nOffset nCount s =
     (if nCount \<le> 0 \<or> nOffset \<ge> AString_GetLength s \<or> nOffset < 0 then s
      else if nOffset + nCount \<ge> AString_GetLength s then AString_Resize nOffset s
      else AString_Resize (AString_GetLength s - nCount)
        (Some (take (nat nOffset) (chars s) @ drop (nat (nOffset + nCount)) (chars s) @
           drop (length (chars s) - nat nCount) (chars s))))"

definition AString_Fill :: "char \<Rightarrow> int \<Rightarrow> AString \<Rightarrow> AString" where
  "AString_Fill c nSize s =
     (let s = AString_Resize (if nSize < 0 then AString_GetLength s else nSize) s
      in map_option (\<lambda>cs. replicate (length cs) c) s)"

definition astring_Insert :: "int \<Rightarrow> string \<Rightarrow> AString \<Rightarrow> AString" where
  "astring_Insert nOffset pszValue s =
     (if nOffset < 0 \<or> pszValue = [] then s
      else
        (let i = nat nOffset; nOldLen = length (chars s)
         in if i > nOldLen then Some (chars s @ replicate (i - nOldLen) (CHR 0x20) @ pszValue)
            else Some (take i (chars s) @ pszValue @ drop i (chars s))))"

definition AString_Replace_range :: "int \<Rightarrow> int \<Rightarrow> AString \<Rightarrow> AString \<Rightarrow> AString" where
  "AString_Replace_range nOffset nCount strNew s = astring_Insert nOffset (chars strNew) (AString_Erase nOffset nCount s)"

subsection \<open>Case and white space\<close>

definition AString_MakeLower :: "AString \<Rightarrow> AString" where
  "AString_MakeLower s = map_option (\<lambda>cs. map IMS_TOLOWER (c_string cs) @ drop (length (c_string cs)) cs) s"

definition AString_Trim :: "AString \<Rightarrow> AString" where
  "AString_Trim s =
     (if chars s = [] then s
      else if \<not> IMS_ISSPACE (hd (chars s)) \<and> \<not> IMS_ISSPACE (last (chars s)) then s
      else
        (let start = dropWhile IMS_ISSPACE (chars s)
         in if start = [] then Some [] else Some (rev (dropWhile IMS_ISSPACE (rev start)))))"

definition AString_TrimLeft :: "AString \<Rightarrow> AString" where
  "AString_TrimLeft s =
     (if chars s = [] then s else if \<not> IMS_ISSPACE (hd (chars s)) then s
      else Some (dropWhile IMS_ISSPACE (chars s)))"

definition AString_TrimRight :: "AString \<Rightarrow> AString" where
  "AString_TrimRight s =
     (if chars s = [] then s else if \<not> IMS_ISSPACE (last (chars s)) then s
      else Some (rev (dropWhile IMS_ISSPACE (rev (chars s)))))"

text \<open>The words of a text, each with a blank behind it unless the text ends there.\<close>

function simplify_loop :: "string \<Rightarrow> string" where
  "simplify_loop p =
     (let p = dropWhile IMS_ISSPACE p;
          word = takeWhile (\<lambda>c. \<not> IMS_ISSPACE c) p;
          rest = dropWhile (\<lambda>c. \<not> IMS_ISSPACE c) p
      in if rest \<noteq> [] then word @ '' '' @ simplify_loop rest else word)"
  by pat_completeness auto

definition AString_SimplifyWsp :: "AString \<Rightarrow> AString" where
  "AString_SimplifyWsp s =
     (if chars s = [] then s
      else
        (let r = simplify_loop (chars s)
         in Some (if r \<noteq> [] \<and> last r = CHR '' '' then butlast r else r)))"

definition AString_AlignLeft :: "int \<Rightarrow> char \<Rightarrow> bool \<Rightarrow> AString \<Rightarrow> AString" where
  "AString_AlignLeft nWidth cFill bTruncate s =
     (let v = c_string (chars s); nPadLen = nWidth - int (length v)
      in if nPadLen > 0 then Some (v @ replicate (nat nPadLen) cFill)
         else if bTruncate then AString_Left nWidth s else s)"

definition AString_AlignRight :: "int \<Rightarrow> char \<Rightarrow> bool \<Rightarrow> AString \<Rightarrow> AString" where
  "AString_AlignRight nWidth cFill bTruncate s =
     (let v = c_string (chars s); nPadLen = nWidth - int (length v)
      in if nPadLen > 0 then Some (replicate (nat nPadLen) cFill @ v)
         else if bTruncate then AString_Left nWidth s else s)"

lemma drop_word_shorter:
  "p \<noteq> [] \<Longrightarrow> length (dropWhile (\<lambda>c. \<not> P c) (dropWhile P p)) < length p"
proof (cases p)
  case (Cons c cs)
  have "length (dropWhile Q (dropWhile P cs)) \<le> length cs" "length (dropWhile Q cs) \<le> length cs" for Q
    by (meson length_dropWhile_le order_trans)+
  then show ?thesis using Cons by (simp add: less_Suc_eq_le)
qed simp

termination simplify_loop
  by (relation "measure length") (auto intro!: drop_word_shorter)

declare simplify_loop.simps [simp del]

subsection \<open>Taking apart\<close>

text \<open>The tokens from \<open>nStart\<close> on, \<open>trim\<close>med or not.\<close>

function split_loop :: "char \<Rightarrow> (AString \<Rightarrow> AString) \<Rightarrow> nat \<Rightarrow> string \<Rightarrow> AString list" where
  "split_loop cSep trim nStart cs =
     (let nEnd = AString_GetIndexOf_char cSep (int nStart) (Some cs)
      in if nEnd = NPOS then [trim (AString_Mid (int nStart) (-1) (Some cs))]
         else trim (AString_Mid (int nStart) (nEnd - int nStart) (Some cs)) # split_loop cSep trim (nat nEnd + 1) cs)"
  by pat_completeness auto

lemma GetIndexOf_char_bounds:
  "AString_GetIndexOf_char c (int i) (Some cs) \<noteq> NPOS \<Longrightarrow>
   int i \<le> AString_GetIndexOf_char c (int i) (Some cs) \<and> AString_GetIndexOf_char c (int i) (Some cs) < int (length cs)"
  by (auto simp: AString_GetIndexOf_char_def AString_GetLength_def chars_def Let_def dest: find_index_less
      simp del: find_index_None split: if_splits option.splits)

termination split_loop
  by (relation "measure (\<lambda>(cSep, trim, nStart, cs). length cs - nStart)") (use GetIndexOf_char_bounds in fastforce)+

declare split_loop.simps [simp del]

definition AString_Split :: "char \<Rightarrow> bool \<Rightarrow> AString \<Rightarrow> AString list" where
  "AString_Split cSep bTrim s =
     (case s of
        None \<Rightarrow> []
      | Some [] \<Rightarrow> [Some []]
      | Some cs \<Rightarrow> split_loop cSep (if bTrim then AString_Trim else (\<lambda>t. t)) 0 cs)"

definition split_at :: "int \<Rightarrow> bool \<Rightarrow> AString \<Rightarrow> AString \<Rightarrow> AString \<Rightarrow> int \<times> AString \<times> AString" where
  "split_at nIndex bTrim s strLhs strRhs =
     (let trim = (if bTrim then AString_Trim else (\<lambda>t. t))
      in if nIndex = NPOS then (1, trim s, strRhs)
         else (2, trim (AString_Mid 0 nIndex s), trim (AString_Mid (nIndex + 1) (-1) s)))"

definition AString_SplitF :: "char \<Rightarrow> bool \<Rightarrow> AString \<Rightarrow> AString \<Rightarrow> AString \<Rightarrow> int \<times> AString \<times> AString" where
  "AString_SplitF cSep bTrim s strLhs strRhs =
     (if s = None \<or> s = Some [] then (0, strLhs, strRhs)
      else split_at (AString_GetIndexOf_char cSep 0 s) bTrim s strLhs strRhs)"

definition AString_SplitB :: "char \<Rightarrow> bool \<Rightarrow> AString \<Rightarrow> AString \<Rightarrow> AString \<Rightarrow> int \<times> AString \<times> AString" where
  "AString_SplitB cSep bTrim s strLhs strRhs =
     (if s = None \<or> s = Some [] then (0, strLhs, strRhs)
      else split_at (AString_GetLastIndexOf_char cSep (-1) s) bTrim s strLhs strRhs)"

subsection \<open>Replacing\<close>

definition AString_Replace_char :: "char \<Rightarrow> char \<Rightarrow> AString \<Rightarrow> AString" where
  "AString_Replace_char cOld cNew s = map_option (map (\<lambda>c. if c = cOld then cNew else c)) s"

text \<open>\<open>IMS_MEM_Memcpy\<close> to an index of the buffer, and \<open>IMS_MEM_Memmove\<close> within it.\<close>

definition copy_to :: "nat \<Rightarrow> string \<Rightarrow> string \<Rightarrow> string" where
  "copy_to i src buf = take i buf @ src @ drop (i + length src) buf"

definition move_to :: "nat \<Rightarrow> nat \<Rightarrow> nat \<Rightarrow> string \<Rightarrow> string" where
  "move_to nTo nFrom n buf = copy_to nTo (take n (drop nFrom buf)) buf"

definition find_from :: "string \<Rightarrow> nat \<Rightarrow> string \<Rightarrow> nat option" where
  "find_from old i buf =
     (case AString_GetIndexOf (Some old) (int i) (Some buf) of
        None \<Rightarrow> None | Some r \<Rightarrow> if r = NPOS then None else Some (nat r))"

partial_function (option) replace_equal :: "string \<Rightarrow> string \<Rightarrow> nat \<Rightarrow> string \<Rightarrow> string option" where
  "replace_equal old new nIndex buf =
     (case find_from old nIndex buf of
        None \<Rightarrow> Some buf
      | Some j \<Rightarrow> replace_equal old new (j + length new) (copy_to j new buf))"

partial_function (option) replace_shorter ::
    "string \<Rightarrow> string \<Rightarrow> nat \<Rightarrow> nat \<Rightarrow> nat \<Rightarrow> nat \<Rightarrow> string \<Rightarrow> (nat \<times> nat \<times> nat \<times> string) option" where
  "replace_shorter old new nIndex nTail nMoveFrom nNumOfReplace buf =
     (case find_from old nIndex buf of
        None \<Rightarrow> Some (nTail, nMoveFrom, nNumOfReplace, buf)
      | Some j \<Rightarrow>
          (let (nTail, buf) =
                 (if nNumOfReplace \<noteq> 0
                  then (if j > nMoveFrom then (nTail + (j - nMoveFrom), move_to nTail nMoveFrom (j - nMoveFrom) buf)
                        else (nTail, buf))
                  else (j, buf));
               buf = (if new \<noteq> [] then copy_to nTail new buf else buf)
           in replace_shorter old new (j + length old) (nTail + length new) (j + length old) (Suc nNumOfReplace) buf))"

text \<open>The indices of at most \<open>k\<close> matches, and where the search goes on (\<open>None\<close> for \<open>NPOS\<close>).\<close>

fun collect_matches :: "nat \<Rightarrow> string \<Rightarrow> nat \<Rightarrow> string \<Rightarrow> nat list \<times> nat option" where
  "collect_matches 0 old nIndex buf = ([], Some nIndex)"
| "collect_matches (Suc k) old nIndex buf =
     (case find_from old nIndex buf of
        None \<Rightarrow> ([], None)
      | Some j \<Rightarrow>
          (let (js, e) = collect_matches k old (if old = [] then Suc j else j + length old) buf in (j # js, e)))"

fun move_back :: "string \<Rightarrow> string \<Rightarrow> nat \<Rightarrow> nat list \<Rightarrow> nat \<Rightarrow> string \<Rightarrow> string" where
  "move_back old new 0 js nMoveEnd buf = buf"
| "move_back old new (Suc n) js nMoveEnd buf =
     (let nMoveStart = js ! n + length old;
          nInsertStart = js ! n + n * (length new - length old);
          buf = move_to (nInsertStart + length new) nMoveStart (nMoveEnd - nMoveStart) buf;
          buf = (if new \<noteq> [] then copy_to nInsertStart new buf else buf)
      in move_back old new n js (nMoveStart - length old) buf)"

partial_function (option) replace_longer :: "string \<Rightarrow> string \<Rightarrow> nat \<Rightarrow> string \<Rightarrow> string option" where
  "replace_longer old new nIndex buf =
     (let (js, e) = collect_matches 1023 old nIndex buf
      in if js = [] then Some buf
         else
           (let nAdjustSize = length js * (length new - length old);
                buf = move_back old new (length js) js (length buf) (buf @ replicate nAdjustSize (CHR 0x00))
            in case e of None \<Rightarrow> Some buf | Some i \<Rightarrow> replace_longer old new (i + nAdjustSize) buf))"

definition AString_Replace :: "AString \<Rightarrow> AString \<Rightarrow> AString \<Rightarrow> AString option" where
  "AString_Replace strOld strNew s =
     (if s = None \<or> AString_Equals strNew strOld then Some s
      else
        (let old = chars strOld; new = chars strNew; buf = chars s
         in if length old = length new then
              (if old \<noteq> [] then map_option Some (replace_equal old new 0 buf) else Some s)
            else if length old > length new then
              map_option (\<lambda>(nTail, nMoveFrom, nNumOfReplace, buf').
                if nNumOfReplace = 0 then Some buf'
                else AString_Resize (int (length buf) - int nNumOfReplace * (int (length old) - int (length new)))
                  (Some (if length buf > nMoveFrom then move_to nTail nMoveFrom (length buf - nMoveFrom) buf' else buf')))
                (replace_shorter old new 0 0 0 0 buf)
            else map_option Some (replace_longer old new 0 buf)))"

end
