(* ===== verification/Platform_Replace.thy ===== *)
theory Platform_Replace
  imports Platform_Edit
begin

text \<open>
  \<open>Replace\<close> against its reference: the occurrences from left to right, none of them overlapping, are
  replaced. And splitting against joining.
\<close>

subsection \<open>The reference\<close>

function replace_all :: "string \<Rightarrow> string \<Rightarrow> string \<Rightarrow> string" where
  "replace_all old new [] = []"
| "replace_all old new (c # p) =
     (if old \<noteq> [] \<and> prefix old (c # p) then new @ replace_all old new (drop (length old) (c # p))
      else c # replace_all old new p)"
  by pat_completeness auto

termination
  by (relation "measure (\<lambda>(old, new, p). length p)") auto

lemma replace_all_first:
  assumes "old \<noteq> []"
  shows "replace_all old new p =
    (case first_occurrence old p of None \<Rightarrow> p
     | Some k \<Rightarrow> take k p @ new @ replace_all old new (drop (k + length old) p))"
proof (induction p)
  case (Cons c p)
  then show ?case using assms by (cases "first_occurrence old p") (auto simp: drop_Cons')
qed simp

lemma find_from_first:
  assumes "old \<noteq> []" and "CHR 0x00 \<notin> set old"
  shows "find_from old i buf = map_option (\<lambda>k. i + k) (first_occurrence old (drop i buf))"
  by (auto simp: find_from_def GetIndexOf_first [OF assms] index_result_def NPOS_def split: option.split)

lemma find_from_bounds:
  assumes "old \<noteq> []" and "CHR 0x00 \<notin> set old" and "find_from old i buf = Some j"
  shows "i \<le> j" and "j + length old \<le> length buf" and "take (length old) (drop j buf) = old"
    and "replace_all old new (drop i buf) = take (j - i) (drop i buf) @ new @ replace_all old new (drop (j + length old) buf)"
proof -
  obtain k where k: "first_occurrence old (drop i buf) = Some k" "j = i + k"
    using assms(3) by (auto simp: find_from_first [OF assms(1,2)])
  have p: "prefix old (drop j buf)" "k < length (drop i buf)"
    using first_occurrence_Some [OF k(1)] by (simp_all add: k(2) add.commute)
  show "i \<le> j" by (simp add: k(2))
  show "j + length old \<le> length buf" using prefix_length_le [OF p(1)] p(2) k(2) by simp
  show "take (length old) (drop j buf) = old" using p(1) by (metis append_eq_conv_conj prefix_def)
  show "replace_all old new (drop i buf) = take (j - i) (drop i buf) @ new @ replace_all old new (drop (j + length old) buf)"
    using replace_all_first [OF assms(1), of new "drop i buf"] k by (simp add: ac_simps)
qed

lemma find_from_none:
  assumes "old \<noteq> []" and "CHR 0x00 \<notin> set old" and "find_from old i buf = None"
  shows "replace_all old new (drop i buf) = drop i buf"
  using replace_all_first [OF assms(1), of new "drop i buf"] assms(3) by (simp add: find_from_first [OF assms(1,2)])

subsection \<open>The same size\<close>

lemma replace_equal_ok:
  assumes "old \<noteq> []" and "CHR 0x00 \<notin> set old" and "length new = length old" and "i \<le> length buf"
  shows "replace_equal old new i buf = Some (take i buf @ replace_all old new (drop i buf))"
  using assms(4)
proof (induction "length buf - i" arbitrary: i buf rule: less_induct)
  case less
  show ?case
  proof (cases "find_from old i buf")
    case None
    then show ?thesis by (subst replace_equal.simps) (simp add: find_from_none [OF assms(1,2)])
  next
    case (Some j)
    note b = find_from_bounds [OF assms(1,2) Some]
    define buf' where "buf' = copy_to j new buf"
    have buf': "length buf' = length buf" "take (j + length new) buf' = take j buf @ new"
      "drop (j + length new) buf' = drop (j + length old) buf"
      using b(2) assms(3) by (simp_all add: buf'_def copy_to_def)
    have "length buf' - (j + length new) < length buf - i"
      using b(1,2) buf'(1) assms(1,3) by (cases old) auto
    then have "replace_equal old new (j + length new) buf' =
        Some (take j buf @ new @ replace_all old new (drop (j + length old) buf))"
      using less.hyps [of buf' "j + length new"] b(2) buf' assms(3) by simp
    moreover have "take j buf = take i buf @ take (j - i) (drop i buf)"
      using b(1) by (metis le_add_diff_inverse take_add)
    ultimately show ?thesis
      by (subst replace_equal.simps) (simp add: Some b(4) [of new] buf'_def)
  qed
qed

subsection \<open>A shorter text\<close>

text \<open>The result of the loop, once the rest has been moved and the string cut.\<close>

definition shorter_result :: "nat \<Rightarrow> nat \<Rightarrow> (nat \<times> nat \<times> nat \<times> string) option \<Rightarrow> string option" where
  "shorter_result sz d r =
     map_option (\<lambda>(nTail, nMoveFrom, n, buf).
       if n = 0 then buf
       else take (sz - n * d)
         ((if sz > nMoveFrom then move_to nTail nMoveFrom (sz - nMoveFrom) buf else buf) @
          replicate (sz - n * d) (CHR 0x00))) r"

lemma move_down:
  assumes "t \<le> f" and "f + n \<le> length buf"
  shows "take (t + n) (move_to t f n buf) = take t buf @ take n (drop f buf)"
    and "drop (f + n) (move_to t f n buf) = drop (f + n) buf"
    and "length (move_to t f n buf) = length buf"
  using assms by (auto simp: move_to_def copy_to_def min_def not_le)

lemma replace_shorter_ok:
  assumes "old \<noteq> []" and "CHR 0x00 \<notin> set old" and "length new < length old" and "d = length old - length new"
    and "i \<le> length buf" and "0 < n \<Longrightarrow> f = i" and "0 < n \<Longrightarrow> t + n * d = i" and "n = 0 \<Longrightarrow> i = 0"
  shows "shorter_result (length buf) d (replace_shorter old new i t f n buf) =
    Some (if n = 0 then replace_all old new buf else take t buf @ replace_all old new (drop i buf))"
  using assms(5-8)
proof (induction "length buf - i" arbitrary: i t f n buf rule: less_induct)
  case less
  show ?case
  proof (cases "find_from old i buf")
    case None
    have all: "replace_all old new (drop i buf) = drop i buf" by (rule find_from_none [OF assms(1,2) None])
    have step: "replace_shorter old new i t f n buf = Some (t, f, n, buf)"
      by (subst replace_shorter.simps) (simp add: None)
    show ?thesis
    proof (cases "n = 0")
      case True
      then show ?thesis unfolding step using all less.prems(4) by (simp add: shorter_result_def)
    next
      case False
      define k where "k = length buf - i"
      have f: "f = i" "t \<le> i" "length buf - n * d = t + k" using False less.prems by (auto simp: k_def)
      have "take (t + k) (move_to t i k buf) = take t buf @ drop i buf" "t + k \<le> length (move_to t i k buf)"
        using move_down [OF f(2), of k buf] less.prems(1) f(2) by (simp_all add: k_def)
      then show ?thesis
        unfolding step using False all f less.prems(1)
        by (auto simp: shorter_result_def not_less k_def)
    qed
  next
    case (Some j)
    note b = find_from_bounds [OF assms(1,2) Some]
    define t1 where "t1 = (if n \<noteq> 0 then if j > f then t + (j - f) else t else j)"
    define buf1 where "buf1 = (if n \<noteq> 0 then if j > f then move_to t f (j - f) buf else buf else buf)"
    define buf2 where "buf2 = (if new \<noteq> [] then copy_to t1 new buf1 else buf1)"
    have t1: "t1 + n * d = j" using less.prems b(1) by (auto simp: t1_def)
    have buf1: "length buf1 = length buf" "drop j buf1 = drop j buf"
      "take t1 buf1 = (if n = 0 then take j buf else take t buf @ take (j - i) (drop i buf))"
      using less.prems b(1,2) move_down [of t f "j - f" buf] by (auto simp: buf1_def t1_def not_less)
    have room: "t1 + length new \<le> j + length old" "t1 \<le> j" using t1 assms(3) by simp_all
    have inside: "t1 < length buf" using room(2) b(2) assms(3) by linarith
    have buf2: "length buf2 = length buf" "drop (j + length old) buf2 = drop (j + length old) buf"
      "take (t1 + length new) buf2 = take t1 buf1 @ new"
      using room inside b(2) buf1(1) arg_cong [OF buf1(2), of "drop (length old)"]
      by (auto simp: buf2_def copy_to_def min_def add.commute)
    have step: "replace_shorter old new i t f n buf =
        replace_shorter old new (j + length old) (t1 + length new) (j + length old) (Suc n) buf2"
      by (subst replace_shorter.simps) (simp add: Some t1_def buf1_def buf2_def Let_def)
    have "length buf2 - (j + length old) < length buf - i" using b(1,2) buf2(1) assms(1) by (cases old) auto
    then have "shorter_result (length buf2) d
        (replace_shorter old new (j + length old) (t1 + length new) (j + length old) (Suc n) buf2) =
        Some (take (t1 + length new) buf2 @ replace_all old new (drop (j + length old) buf2))"
      using less.hyps [of buf2 "j + length old" "Suc n" "j + length old" "t1 + length new"] b(2) buf2(1) t1 assms(3,4)
      by simp
    then show ?thesis
      unfolding step using buf1(3) buf2 b(4) [of new] less.prems(4) by auto
  qed
qed

subsection \<open>A longer text\<close>

text \<open>The text from \<open>i\<close> to \<open>e\<close> with the matches at \<open>js\<close> replaced.\<close>

fun spliced :: "string \<Rightarrow> string \<Rightarrow> nat \<Rightarrow> nat list \<Rightarrow> nat \<Rightarrow> string \<Rightarrow> string" where
  "spliced old new i [] e buf = drop i (take e buf)"
| "spliced old new i (j # js) e buf = drop i (take j buf) @ new @ spliced old new (j + length old) js e buf"

fun chain :: "string \<Rightarrow> nat \<Rightarrow> nat list \<Rightarrow> nat \<Rightarrow> bool" where
  "chain old i [] e \<longleftrightarrow> i \<le> e"
| "chain old i (j # js) e \<longleftrightarrow> i \<le> j \<and> chain old (j + length old) js e"

lemma spliced_snoc:
  "spliced old new i (js @ [j]) e buf = spliced old new i js j buf @ new @ drop (j + length old) (take e buf)"
  by (induction js arbitrary: i) simp_all

lemma chain_snoc: "chain old i (js @ [j]) e \<longleftrightarrow> chain old i js j \<and> j + length old \<le> e"
  by (induction js arbitrary: i) auto

lemma chain_le: "chain old i js e \<Longrightarrow> i \<le> e"
  by (induction js arbitrary: i) (fastforce dest: add_leD1)+

lemma length_spliced:
  "chain old i js e \<Longrightarrow> e \<le> length buf \<Longrightarrow> length new = length old + d \<Longrightarrow>
   i + length (spliced old new i js e buf) = e + length js * d"
proof (induction js arbitrary: i)
  case (Cons j js)
  have "j + length old \<le> e" using Cons.prems(1) chain_le by auto
  then have "length (take j buf) = j" using Cons.prems(2) by simp
  then show ?case using Cons.IH [of "j + length old"] Cons.prems by simp
qed simp

lemma drop_take_drop: "a \<le> e \<Longrightarrow> drop a (take e xs) @ drop e xs = drop a xs"
  by (metis append_take_drop_id drop_drop drop_take le_add_diff_inverse2)

text \<open>The copies from the last match to the first: what is behind \<open>nMoveEnd\<close> is in place already.\<close>

lemma move_back_spliced:
  assumes "length old \<le> length new" and "chain old 0 (take n js) e" and "n \<le> length js" and "e \<le> length cs"
    and "take e buf = take e cs" and "e + n * (length new - length old) \<le> length buf"
  shows "move_back old new n js e buf =
    spliced old new 0 (take n js) e cs @ drop (e + n * (length new - length old)) buf"
  using assms(2-6)
proof (induction n arbitrary: e buf)
  case 0
  then show ?case by simp (metis append_take_drop_id)
next
  case (Suc n)
  define j where "j = js ! n"
  define d where "d = length new - length old"
  have take_js: "take (Suc n) js = take n js @ [j]" using Suc.prems(2) by (simp add: take_Suc_conv_app_nth j_def)
  have chain: "chain old 0 (take n js) j" "j + length old \<le> e" using Suc.prems(1) by (simp_all add: take_js chain_snoc)
  have d: "length new = length old + d" using assms(1) by (simp add: d_def)
  define s where "s = j + length old"
  define ins where "ins = j + n * d"
  define mid where "mid = drop s (take e cs)"
  define T where "T = drop (e + Suc n * d) buf"
  have s: "s \<le> e" "e \<le> length buf" "ins + length new = s + Suc n * d" "length mid = e - s"
    using chain(2) Suc.prems(3,5) d by (simp_all add: s_def ins_def mid_def)
  have mid: "take (e - s) (drop s buf) = mid" using Suc.prems(4) s by (metis drop_take mid_def)
  have buf1: "move_to (ins + length new) s (e - s) buf = take (ins + length new) buf @ mid @ T"
    using s by (simp add: move_to_def copy_to_def mid T_def ac_simps)
  have len: "ins + length new \<le> length buf" using Suc.prems(5) s chain(2) by (simp add: d_def [symmetric])
  have buf2: "copy_to ins new (take (ins + length new) buf @ mid @ T) = take ins buf @ new @ mid @ T"
    using len by (simp add: copy_to_def min_def)
  have buf2': "(if new \<noteq> [] then copy_to ins new (move_to (ins + length new) s (e - s) buf)
      else move_to (ins + length new) s (e - s) buf) = take ins buf @ new @ mid @ T"
    unfolding buf1 using buf2 by simp
  have start: "s - length old = j" by (simp add: s_def)
  have "move_back old new (Suc n) js e buf = move_back old new n js j (take ins buf @ new @ mid @ T)"
    unfolding move_back.simps Let_def j_def [symmetric] d_def [symmetric] s_def [symmetric] ins_def [symmetric] buf2' start ..
  also have "\<dots> = spliced old new 0 (take n js) j cs @ drop ins (take ins buf @ new @ mid @ T)"
    unfolding ins_def d_def
  proof (rule Suc.IH)
    have "take j (take e buf) = take j (take e cs)" by (simp only: Suc.prems(4))
    then show "take j (take (j + n * (length new - length old)) buf @ new @ mid @ T) = take j cs"
      using s chain(2) by (simp add: min_def s_def)
    show "j + n * (length new - length old) \<le> length (take (j + n * (length new - length old)) buf @ new @ mid @ T)"
      using len by (simp add: ins_def d_def min_def)
  qed (use chain Suc.prems(2,3) in simp_all)
  also have "drop ins (take ins buf @ new @ mid @ T) = new @ mid @ T"
    using len by (simp add: min_def)
  finally show ?case by (simp add: take_js spliced_snoc mid_def s_def T_def d_def)
qed

text \<open>What the search of one batch finds.\<close>

lemma collect_matches_ok:
  assumes "old \<noteq> []" and "CHR 0x00 \<notin> set old" and "i \<le> length cs"
    and "collect_matches k old i cs = (js, e)"
  shows "case e of
      None \<Rightarrow> chain old i js (length cs) \<and> spliced old new i js (length cs) cs = replace_all old new (drop i cs)
    | Some i' \<Rightarrow> length js = k \<and> chain old i js i' \<and> i' \<le> length cs \<and>
        spliced old new i js i' cs @ replace_all old new (drop i' cs) = replace_all old new (drop i cs)"
  using assms(3,4)
proof (induction k arbitrary: i js)
  case 0
  then show ?case by auto
next
  case (Suc k)
  show ?case
  proof (cases "find_from old i cs")
    case None
    then show ?thesis using Suc.prems find_from_none [OF assms(1,2) None] by auto
  next
    case (Some j)
    note b = find_from_bounds [OF assms(1,2) Some]
    obtain js' where js: "js = j # js'" "collect_matches k old (j + length old) cs = (js', e)"
      using Suc.prems(2) Some assms(1) by (auto split: prod.splits)
    have "drop i (take j cs) = take (j - i) (drop i cs)" by (rule drop_take)
    then show ?thesis
      using Suc.IH [OF b(2) js(2)] b(1) b(4) [of new] js(1) by (cases e) auto
  qed
qed

lemma replace_longer_ok:
  assumes "old \<noteq> []" and "CHR 0x00 \<notin> set old" and "length old \<le> length new" and "i \<le> length buf"
  shows "replace_longer old new i buf = Some (take i buf @ replace_all old new (drop i buf))"
  using assms(4)
proof (induction "length buf - i" arbitrary: i buf rule: less_induct)
  case less
  define d where "d = length new - length old"
  obtain js e where js: "collect_matches 1023 old i buf = (js, e)" by (cases "collect_matches 1023 old i buf")
  note found = collect_matches_ok [OF assms(1,2) less.prems js, of new]
  define stop where "stop = (case e of None \<Rightarrow> length buf | Some i' \<Rightarrow> i')"
  have chain: "chain old i js stop" "stop \<le> length buf" using found by (auto simp: stop_def split: option.splits)
  have chain0: "chain old 0 js stop" using chain(1) by (cases js) auto
  have take0: "spliced old new 0 js stop buf = take i buf @ spliced old new i js stop buf"
    using chain less.prems
    by (cases js) (auto simp: min_def drop_take, (metis append_assoc le_add_diff_inverse take_add)+)
  define buf' where "buf' = move_back old new (length js) js (length buf) (buf @ replicate (length js * d) (CHR 0x00))"
  have chainL: "chain old 0 js (length buf)"
    using chain0 chain(2) by (cases js rule: rev_cases) (auto simp: chain_snoc)
  have "buf' = spliced old new 0 js (length buf) buf @
      drop (length buf + length js * d) (buf @ replicate (length js * d) (CHR 0x00))"
    unfolding buf'_def d_def
    using move_back_spliced [OF assms(3), of "length js" js "length buf" buf] chainL by simp
  then have buf': "buf' = spliced old new 0 js (length buf) buf" by simp
  have split: "spliced old new 0 js (length buf) buf = spliced old new 0 js stop buf @ drop stop buf"
    using chain0 chain(2)
    by (cases js rule: rev_cases) (auto simp: spliced_snoc chain_snoc, metis drop_take_drop)
  show ?case
  proof (cases "js = []")
    case True
    then have "replace_longer old new i buf = Some buf" by (subst replace_longer.simps) (simp add: js)
    moreover have "replace_all old new (drop i buf) = drop i buf"
      using found True js by (cases e) auto
    ultimately show ?thesis by simp
  next
    case False
    show ?thesis
    proof (cases e)
      case None
      then have "replace_longer old new i buf = Some buf'"
        using False by (subst replace_longer.simps) (simp add: js buf'_def d_def Let_def)
      then show ?thesis using found None buf' take0 by (simp add: stop_def)
    next
      case (Some i')
      have i': "stop = i'" by (simp add: stop_def Some)
      define i2 where "i2 = i' + length js * d"
      have "replace_longer old new i buf = replace_longer old new i2 buf'"
        using False by (subst replace_longer.simps) (simp add: js Some buf'_def i2_def d_def Let_def)
      moreover have len: "length (spliced old new 0 js stop buf) = i2"
        using length_spliced [OF chain0 chain(2), of new d] assms(3) by (simp add: i2_def d_def i')
      have "length buf' - i2 < length buf - i"
      proof -
        obtain j js' where "js = j # js'" using False by (cases js) auto
        then have "i + length old \<le> i'" using chain(1) chain_le [of old "j + length old" js' stop] by (auto simp: i')
        moreover have "length buf' = i2 + (length buf - i')" unfolding buf' split using len by (simp add: i')
        moreover have "0 < length old" using assms(1) by simp
        ultimately show ?thesis using chain(2) unfolding i' by linarith
      qed
      then have "replace_longer old new i2 buf' = Some (take i2 buf' @ replace_all old new (drop i2 buf'))"
        using less.hyps [of buf' i2] len by (simp add: buf' split)
      ultimately show ?thesis
        using found Some len take0 less.prems by (auto simp: buf' split i')
    qed
  qed
qed

subsection \<open>All of them\<close>

theorem AString_Replace_all:
  assumes "CHR 0x00 \<notin> set old" and "CHR 0x00 \<notin> set new"
  shows "AString_Replace (Some old) (Some new) (Some cs) = Some (Some (replace_all old new cs))"
proof -
  have empty: "replace_all [] new cs = cs" for cs by (induction cs) simp_all
  have same: "replace_all old old cs = cs" for cs
  proof (induction "length cs" arbitrary: cs rule: less_induct)
    case less
    then show ?case by (cases cs) (auto simp: prefix_def)
  qed
  have eq: "AString_Equals (Some new) (Some old) \<longleftrightarrow> old = new"
    using AString_Equals_iff [of "Some old" "Some new"] assms by (simp add: chars_def)
  consider "old = new" | "old \<noteq> new" "old = []" | "old \<noteq> new" "old \<noteq> []" "length old = length new"
    | "old \<noteq> new" "old \<noteq> []" "length new < length old" | "old \<noteq> new" "old \<noteq> []" "length old < length new"
    using linorder_less_linear by blast
  then show ?thesis
  proof cases
    case 2
    have "find_from [] 0 cs = None" by (simp add: find_from_def GetIndexOf_empty)
    then have "collect_matches 1023 [] 0 cs = ([], None)" by (simp add: numeral_eq_Suc)
    then have "replace_longer [] new 0 cs = Some cs" by (subst replace_longer.simps) simp
    then show ?thesis using 2 eq empty by (cases new) (auto simp: AString_Replace_def chars_def Let_def)
  next
    case 4
    define d where "d = length old - length new"
    have "shorter_result (length cs) d (replace_shorter old new 0 0 0 0 cs) = Some (replace_all old new cs)"
      using replace_shorter_ok [OF 4(2) assms(1) 4(3) d_def, of 0 cs 0 0 0] by simp
    then obtain t f n buf where r: "replace_shorter old new 0 0 0 0 cs = Some (t, f, n, buf)"
      "(if n = 0 then buf else take (length cs - n * d) ((if length cs > f then move_to t f (length cs - f) buf else buf) @
         replicate (length cs - n * d) (CHR 0x00))) = replace_all old new cs"
      by (auto simp: shorter_result_def)
    have d: "int (length cs) - int n * (int (length old) - int (length new)) = int (length cs) - int (n * d)"
      using 4(3) by (simp add: d_def of_nat_diff)
    have resize: "AString_Resize (int a - int b) (Some buf) = Some (take (a - b) (buf @ replicate (a - b) (CHR 0x00)))" for a b buf
      by (auto simp: AString_Resize_def chars_def nat_diff_distrib')
    show ?thesis
      using 4 eq r by (auto simp: AString_Replace_def chars_def Let_def d resize simp del: of_nat_mult)
  qed (use eq same replace_equal_ok [of old new 0 cs] replace_longer_ok [of old new 0 cs] assms in
      \<open>simp_all add: AString_Replace_def chars_def Let_def\<close>)
qed

end
