(* ===== verification/Platform_Text.thy ===== *)
theory Platform_Text
  imports Platform_Replace
begin

text \<open>
  Texts taken apart: the tokens of \<open>Split\<close>, arrays of strings (\<open>AStringArray.cpp\<close>), and the parsing
  helpers of \<open>platform/util/TextParser.cpp\<close> with percent encoding.
\<close>

subsection \<open>Tokens\<close>

text \<open>The last token is the null string when nothing follows the last separator.\<close>

function tokens :: "char \<Rightarrow> string \<Rightarrow> AString list" where
  "tokens c p =
     (case find_index (\<lambda>x. x = c) p of
        None \<Rightarrow> [if p = [] then None else Some p]
      | Some k \<Rightarrow> Some (take k p) # tokens c (drop (Suc k) p))"
  by pat_completeness auto

termination
  by (relation "measure (\<lambda>(c, p). length p)") (auto dest: find_index_less)

declare tokens.simps [simp del]

lemma tokens_not_Nil: "tokens c p \<noteq> []"
  by (subst tokens.simps) (simp split: option.split)

fun joined :: "char \<Rightarrow> string list \<Rightarrow> string" where
  "joined c [] = []"
| "joined c [t] = t"
| "joined c (t # u # ts) = t @ c # joined c (u # ts)"

lemma Mid_rest: "AString_Mid (int i) (-1) (Some cs) = (if i \<ge> length cs then None else Some (drop i cs))"
  by (cases "cs = []") (auto simp: AString_Mid_def AString_GetLength_def chars_def AString_sized_def Let_def)

lemma Mid_token:
  "i \<le> e \<Longrightarrow> e < length cs \<Longrightarrow> AString_Mid (int i) (int e - int i) (Some cs) = Some (take (e - i) (drop i cs))"
  by (auto simp: AString_Mid_def AString_GetLength_def chars_def AString_sized_def Let_def nat_diff_distrib)

lemma split_loop_tokens: "i \<le> length cs \<Longrightarrow> split_loop c trim i cs = map trim (tokens c (drop i cs))"
proof (induction c trim i cs rule: split_loop.induct)
  case (1 c trim i cs)
  show ?case
  proof (cases "find_index (\<lambda>x. x = c) (drop i cs)")
    case None
    then have "AString_GetIndexOf_char c (int i) (Some cs) = NPOS"
      by (auto simp: AString_GetIndexOf_char_def AString_GetLength_def chars_def Let_def simp del: find_index_None)
    then show ?thesis
      using 1(2) None by (subst split_loop.simps, subst tokens.simps) (simp add: Mid_rest Let_def del: find_index_None)
  next
    case (Some k)
    have k: "i + k < length cs" using find_index_less [OF Some] by simp
    then have e: "AString_GetIndexOf_char c (int i) (Some cs) = int (i + k)" "int (i + k) \<noteq> NPOS"
      using Some by (simp_all add: AString_GetIndexOf_char_def AString_GetLength_def chars_def NPOS_def Let_def)
    have "split_loop c trim (Suc (i + k)) cs = map trim (tokens c (drop (Suc (i + k)) cs))"
      using 1(1) [OF refl] e k by (simp del: of_nat_add add: nat_int_add)
    moreover have "nat (int (i + k)) + 1 = Suc (i + k)" by simp
    moreover have "AString_Mid (int i) (int (i + k) - int i) (Some cs) = Some (take k (drop i cs))"
      using Mid_token [of i "i + k" cs] k by simp
    ultimately show ?thesis
      using Some e by (subst split_loop.simps, subst tokens.simps)
        (simp add: Let_def add.commute del: find_index_None of_nat_add)
  qed
qed

lemma Split_tokens:
  "cs \<noteq> [] \<Longrightarrow> AString_Split c bTrim (Some cs) = map (if bTrim then AString_Trim else (\<lambda>t. t)) (tokens c cs)"
  by (cases cs) (simp_all add: AString_Split_def split_loop_tokens)

lemma tokens_joined:
  "ts \<noteq> [] \<Longrightarrow> \<forall>t\<in>set ts. c \<notin> set t \<Longrightarrow>
   tokens c (joined c ts) = map Some (butlast ts) @ [if last ts = [] then None else Some (last ts)]"
proof (induction c ts rule: joined.induct)
  case (2 c t)
  then have "find_index (\<lambda>x. x = c) t = None" by auto
  then show ?case by (subst tokens.simps) (simp del: find_index_None)
next
  case (3 c t u ts)
  then have "find_index (\<lambda>x. x = c) (joined c (t # u # ts)) = Some (length t)"
    by (intro find_index_eqI) (auto simp: nth_append)
  then show ?case using 3 by (subst tokens.simps) simp
qed simp

lemma joined_tokens: "joined c (map chars (tokens c p)) = p \<and> (\<forall>t\<in>set (tokens c p). c \<notin> set (chars t))"
proof (induction c p rule: tokens.induct)
  case (1 c p)
  show ?case
  proof (cases "find_index (\<lambda>x. x = c) p")
    case None
    then have "tokens c p = [if p = [] then None else Some p]"
      by (subst tokens.simps) (simp del: find_index_None)
    then show ?thesis using None by (auto simp: chars_def)
  next
    case (Some k)
    have k: "k < length p" "p ! k = c" "c \<notin> set (take k p)"
      using find_index_SomeD [OF Some] by (auto simp: in_set_conv_nth)
    obtain u us where us: "tokens c (drop (Suc k) p) = u # us"
      using tokens_not_Nil by (cases "tokens c (drop (Suc k) p)") auto
    have "tokens c p = Some (take k p) # u # us" by (subst tokens.simps) (simp add: Some us)
    then show ?thesis using 1 [OF Some] us k id_take_nth_drop [OF k(1)] by (simp add: chars_def)
  qed
qed

lemma Trim_trims:
  "AString_Trim (Some cs) = Some (rev (dropWhile IMS_ISSPACE (rev (dropWhile IMS_ISSPACE cs))))"
proof (cases "cs = []")
  case False
  have "rev (dropWhile IMS_ISSPACE (rev (dropWhile IMS_ISSPACE cs))) = cs"
    if "\<not> IMS_ISSPACE (hd cs)" "\<not> IMS_ISSPACE (last cs)"
  proof -
    have "dropWhile IMS_ISSPACE cs = cs" using False that(1) by (cases cs) auto
    moreover have "dropWhile IMS_ISSPACE (rev cs) = rev cs"
      using False that(2) by (cases "rev cs") (auto simp: last_conv_nth hd_rev [symmetric])
    ultimately show ?thesis by simp
  qed
  then show ?thesis using False by (auto simp: AString_Trim_def chars_def Let_def dest: set_dropWhileD)
qed (simp add: AString_Trim_def chars_def)

subsection \<open>Arrays of strings\<close>

definition elem_equals :: "bool \<Rightarrow> AString \<Rightarrow> AString \<Rightarrow> bool" where
  "elem_equals bCaseSensitive strElem strExValue \<longleftrightarrow>
     (if bCaseSensitive then AString_Equals strElem strExValue else AString_EqualsIgnoreCase strElem strExValue)"

definition AStringArray_Contains :: "AString \<Rightarrow> bool \<Rightarrow> AString list \<Rightarrow> bool" where
  "AStringArray_Contains strElem bCaseSensitive xs \<longleftrightarrow> (\<exists>x\<in>set xs. elem_equals bCaseSensitive strElem x)"

definition AStringArray_GetIndexOf :: "AString \<Rightarrow> int \<Rightarrow> bool \<Rightarrow> AString list \<Rightarrow> int" where
  "AStringArray_GetIndexOf strElem nOffset bCaseSensitive xs =
     (let nOffset = nat (max nOffset 0)
      in case find_index (elem_equals bCaseSensitive strElem) (drop nOffset xs) of
           None \<Rightarrow> NPOS | Some i \<Rightarrow> int (nOffset + i))"

text \<open>
  Backwards, from an index that is one behind the last element: the bounds check of that first read
  stops the program (\<open>None\<close>), and only the search that starts beyond it returns.
\<close>

definition AStringArray_GetLastIndexOf :: "AString \<Rightarrow> int \<Rightarrow> bool \<Rightarrow> AString list \<Rightarrow> int option" where
  "AStringArray_GetLastIndexOf strElem nOffset bCaseSensitive xs =
     (if int (length xs) < max nOffset 0 then Some NPOS else None)"

definition AStringArray_GetFirstElement :: "AString list \<Rightarrow> AString" where
  "AStringArray_GetFirstElement xs = (if xs = [] then None else hd xs)"

definition AStringArray_GetLastElement :: "AString list \<Rightarrow> AString" where
  "AStringArray_GetLastElement xs = (if xs = [] then None else last xs)"

definition AStringArray_RemoveElement :: "AString \<Rightarrow> bool \<Rightarrow> AString list \<Rightarrow> bool \<times> AString list" where
  "AStringArray_RemoveElement strElem bCaseSensitive xs =
     (case find_index (elem_equals bCaseSensitive strElem) xs of
        None \<Rightarrow> (False, xs) | Some i \<Rightarrow> (True, remove_nth i xs))"

end
