(* ===== verification/Platform_Parser.thy ===== *)
theory Platform_Parser
  imports Platform_Text
begin

text \<open>
  The parsing helpers of \<open>platform/util/TextParser.cpp\<close>: hexadecimal digits, percent encoding, delimiters
  outside quotation marks, tokens, quoted strings and media types. \<open>IMS_CHAR\<close> is unsigned.
\<close>

subsection \<open>Classes of characters\<close>

definition IsHexCharacter :: "char \<Rightarrow> bool" where
  "IsHexCharacter c \<longleftrightarrow>
     IMS_ISDIGIT c \<or> (65 \<le> char_val c \<and> char_val c \<le> 70) \<or> (97 \<le> char_val c \<and> char_val c \<le> 102)"

definition IsTokenCharacter :: "char \<Rightarrow> bool" where
  "IsTokenCharacter c \<longleftrightarrow>
     (let v = char_val c
      in v = 0x21 \<or> (0x23 \<le> v \<and> v \<le> 0x27) \<or> (0x2A \<le> v \<and> v \<le> 0x2B) \<or> (0x2D \<le> v \<and> v \<le> 0x2E) \<or>
         (0x30 \<le> v \<and> v \<le> 0x39) \<or> (0x41 \<le> v \<and> v \<le> 0x5A) \<or> (0x5E \<le> v \<and> v \<le> 0x7E))"

definition IsReservedCharacter :: "char \<Rightarrow> bool" where
  "IsReservedCharacter c \<longleftrightarrow> c \<in> set (''!*'' @ [CHR 0x27] @ ''();:@&=+$,/?%#[]'')"

definition IsQdText :: "char \<Rightarrow> bool" where
  "IsQdText c \<longleftrightarrow>
     (let v = char_val c
      in v = 0x09 \<or> v = 0x20 \<or> v = 0x21 \<or> (0x23 \<le> v \<and> v \<le> 0x5B) \<or> (0x5D \<le> v \<and> v \<le> 0x7E))"

definition GetExpectedCountOfUtf8Cont :: "char \<Rightarrow> nat" where
  "GetExpectedCountOfUtf8Cont c =
     (let v = char_val c
      in if v < 0xC0 then 0 else if v \<le> 0xDF then 1 else if v \<le> 0xEF then 2 else if v \<le> 0xF7 then 3
         else if v \<le> 0xFB then 4 else if v \<le> 0xFD then 5 else 0)"

definition IsUtf8Cont :: "char \<Rightarrow> bool" where
  "IsUtf8Cont c \<longleftrightarrow> 0x80 \<le> char_val c \<and> char_val c \<le> 0xBF"

definition BooleanToString :: "bool \<Rightarrow> bool \<Rightarrow> string" where
  "BooleanToString bValue bLowerCase =
     (if bLowerCase then if bValue then ''true'' else ''false'' else if bValue then ''TRUE'' else ''FALSE'')"

subsection \<open>Hexadecimal digits\<close>

definition hex_value :: "char \<Rightarrow> int" where
  "hex_value c =
     (if 65 \<le> char_val c \<and> char_val c \<le> 70 then char_val c - 65 + 10
      else if 97 \<le> char_val c \<and> char_val c \<le> 102 then char_val c - 97 + 10
      else char_val c - 48)"

definition HexStringToChar :: "AString \<Rightarrow> int" where
  "HexStringToChar strHex =
     (let go = (\<lambda>t. if \<not> IsHexCharacter (chars t ! 0) \<or> \<not> IsHexCharacter (chars t ! 1) then -1
                    else hex_value (chars t ! 0) * 16 + hex_value (chars t ! 1))
      in if AString_GetLength strHex = 4 then
           (if chars strHex ! 0 = CHR ''0'' \<and> (chars strHex ! 1 = CHR ''x'' \<or> chars strHex ! 1 = CHR ''X'')
            then go (AString_GetSubStr 2 (-1) strHex) else -1)
         else if AString_GetLength strHex = 2 then go strHex
         else -1)"

text \<open>What \<open>%02X\<close> prints for a character.\<close>

definition upper_hex :: "int \<Rightarrow> char" where
  "upper_hex v = char_of (nat (if v < 10 then v + 48 else v - 10 + 65))"

definition CharToHexString :: "char \<Rightarrow> AString" where
  "CharToHexString c = Some [upper_hex (char_val c div 16), upper_hex (char_val c mod 16)]"

subsection \<open>Percent encoding\<close>

text \<open>The decoder's loop, from the index \<open>i\<close> where the rest of the text is \<open>p\<close>.\<close>

fun decoding_loop :: "string \<Rightarrow> AString \<Rightarrow> AString" where
  "decoding_loop [] objBuffer = objBuffer"
| "decoding_loop (x # p) objBuffer =
     (if x \<noteq> CHR ''%'' then decoding_loop p (AString_Append_char x objBuffer)
      else
        (let strHexDigs = AString_GetSubStr 1 2 (Some (x # p)); c = HexStringToChar strHexDigs
         in if c < 0 \<or> c > 0xFF
            then decoding_loop (drop 2 p) (AString_Append strHexDigs (AString_Append_char (CHR ''%'') objBuffer))
            else decoding_loop (drop 2 p) (AString_Append_char (char_of (nat c)) objBuffer)))"

definition DoPercentDecoding :: "AString \<Rightarrow> AString" where
  "DoPercentDecoding strPeData =
     (if \<not> AString_Contains_char (CHR ''%'') strPeData then strPeData
      else decoding_loop (chars strPeData) (Some []))"

definition escape :: "char \<Rightarrow> string" where
  "escape c = CHR ''%'' # chars (CharToHexString c)"

definition DoPercentEncoding :: "AString \<Rightarrow> AString \<Rightarrow> AString \<Rightarrow> AString" where
  "DoPercentEncoding strData strPeExtraChar strPeExcludingChar =
     Some (concat (map (\<lambda>c.
       if \<not> IsReservedCharacter c
       then if \<not> AString_IsNull strPeExtraChar \<and> AString_Contains_char c strPeExtraChar then escape c else [c]
       else if \<not> AString_IsNull strPeExcludingChar \<and> AString_Contains_char c strPeExcludingChar then [c] else escape c)
       (chars strData)))"

definition DoPercentEncodingEx :: "AString \<Rightarrow> AString \<Rightarrow> AString" where
  "DoPercentEncodingEx strData strPeExcludingChar =
     Some (concat (map (\<lambda>c.
       if IMS_ISDIGIT c \<or> IMS_ISALPHA c \<or>
          (AString_GetLength strPeExcludingChar > 0 \<and> AString_Contains_char c strPeExcludingChar)
       then [c] else escape c) (chars strData)))"

subsection \<open>Delimiters, quotation marks\<close>

text \<open>The scan keeps whether it is inside quotation marks and the character before.\<close>

fun delimiter_loop :: "char \<Rightarrow> nat \<Rightarrow> nat \<Rightarrow> char \<Rightarrow> string \<Rightarrow> int" where
  "delimiter_loop cDelimiter nDquot nIndex cOld [] = NPOS"
| "delimiter_loop cDelimiter nDquot nIndex cOld (cNow # p) =
     (if cNow = CHR 0x22 \<and> nDquot = 0 \<and> cOld \<noteq> CHR 0x5C
      then delimiter_loop cDelimiter (nDquot + 1) (Suc nIndex) cNow p
      else if cNow = CHR 0x22 \<and> nDquot \<noteq> 0 \<and> cOld \<noteq> CHR 0x5C
      then delimiter_loop cDelimiter (nDquot - 1) (Suc nIndex) cNow p
      else if cNow = cDelimiter \<and> nDquot = 0 then int nIndex
      else delimiter_loop cDelimiter nDquot (Suc nIndex)
             (if cOld = CHR 0x5C \<and> cNow = CHR 0x5C then CHR 0x00 else cNow) p)"

definition GetIndexOfDelimiter :: "AString \<Rightarrow> char \<Rightarrow> bool \<Rightarrow> int" where
  "GetIndexOfDelimiter strValue cDelimiter bCheckDquot =
     (if \<not> bCheckDquot then AString_GetIndexOf_char cDelimiter 0 strValue
      else delimiter_loop cDelimiter 0 0 (CHR 0x00) (chars strValue))"

definition TrimDquot :: "AString \<Rightarrow> AString" where
  "TrimDquot strValue =
     (if AString_StartsWith_char (CHR 0x22) strValue \<and> AString_EndsWith_char (CHR 0x22) strValue
      then AString_GetSubStr 1 (AString_GetLength strValue - 2) strValue else strValue)"

definition IsTokenString :: "AString \<Rightarrow> bool" where
  "IsTokenString strToken \<longleftrightarrow> AString_GetLength strToken \<noteq> 0 \<and> (\<forall>c\<in>set (chars strToken). IsTokenCharacter c)"

text \<open>The text between the quotation marks, from the tracked position on.\<close>

function quoted_loop :: "string \<Rightarrow> bool" where
  "quoted_loop p =
     (case p of
        [] \<Rightarrow> True
      | cChar # rest \<Rightarrow>
          (let nUtf8ContCount = GetExpectedCountOfUtf8Cont cChar
           in if IsQdText cChar then quoted_loop rest
              else if nUtf8ContCount > 0 then
                (if length p \<le> nUtf8ContCount then False
                 else if \<exists>c\<in>set (take nUtf8ContCount rest). \<not> IsUtf8Cont c then False
                 else quoted_loop (drop nUtf8ContCount rest))
              else if cChar = CHR 0x5C then
                (case rest of
                   [] \<Rightarrow> False
                 | c # rest' \<Rightarrow> if c \<noteq> CHR 0x5C \<and> c \<noteq> CHR 0x22 then False else quoted_loop rest')
              else quoted_loop rest))"
  by pat_completeness auto

termination
  by (relation "measure length") auto

definition IsQuotedString :: "AString \<Rightarrow> bool" where
  "IsQuotedString strQuotedString =
     (let s = chars strQuotedString
      in if AString_GetLength strQuotedString < 2 then False
         else if hd s \<noteq> CHR 0x22 \<or> last s \<noteq> CHR 0x22 then False
         else quoted_loop (butlast (tl s)))"

definition IsParameterValueString :: "AString \<Rightarrow> bool" where
  "IsParameterValueString strParameterValue \<longleftrightarrow> IsTokenString strParameterValue \<or> IsQuotedString strParameterValue"

definition IsParameterString :: "AString \<Rightarrow> bool" where
  "IsParameterString strParameter =
     (let nIndex = AString_GetIndexOf_char (CHR ''='') 0 strParameter
      in if nIndex = NPOS then IsTokenString strParameter
         else IsTokenString (AString_GetSubStr 0 nIndex strParameter) \<and>
              IsParameterValueString (AString_GetSubStr (nIndex + 1) (-1) strParameter))"

subsection \<open>Media types\<close>

definition IsValidMediaType :: "AString \<Rightarrow> bool" where
  "IsValidMediaType strMediaType =
     (if AString_IsNull strMediaType \<or> AString_IsEmpty strMediaType then False
      else
        (let nSlashIndex = AString_GetIndexOf_char (CHR ''/'') 0 strMediaType
         in if nSlashIndex = NPOS then False
            else if \<not> IsTokenString (AString_GetSubStr 0 nSlashIndex strMediaType) then False
            else
              (let nSemicolonIndex = AString_GetIndexOf_char (CHR '';'') (nSlashIndex + 1) strMediaType
               in if nSemicolonIndex = NPOS
                  then IsTokenString (AString_GetSubStr (nSlashIndex + 1) (-1) strMediaType)
                  else if \<not> IsTokenString (AString_GetSubStr (nSlashIndex + 1) (nSemicolonIndex - (nSlashIndex + 1)) strMediaType)
                  then False
                  else \<forall>t\<in>set (AString_Split (CHR '';'') True (AString_GetSubStr (nSemicolonIndex + 1) (-1) strMediaType)).
                         IsParameterString t)))"

text \<open>The two parts of a media type, when both are there; the flag is whether the outputs were written.\<close>

definition ParseMediaType :: "AString \<Rightarrow> AString \<times> AString \<Rightarrow> bool \<times> AString \<times> AString" where
  "ParseMediaType strMediaType out =
     (let nSlashIndex = AString_GetIndexOf_char (CHR ''/'') 0 strMediaType
      in if nSlashIndex = NPOS then (False, out)
         else
           (let strType = AString_GetSubStr 0 nSlashIndex strMediaType;
                nSemiColonIndex = AString_GetIndexOf_char (CHR '';'') (nSlashIndex + 1) strMediaType;
                strSubType = (if nSemiColonIndex = NPOS then AString_GetSubStr (nSlashIndex + 1) (-1) strMediaType
                              else AString_GetSubStr (nSlashIndex + 1) (nSemiColonIndex - (nSlashIndex + 1)) strMediaType)
            in if AString_GetLength strType = 0 \<or> AString_GetLength strSubType = 0 then (False, None, None)
               else (True, strType, strSubType)))"

subsection \<open>Facts\<close>

lemma char_val_nat: "char_val c = int (of_char c)"
  unfolding char_val_def by (rule of_nat_of_char [symmetric])

lemma char_val_bounds: "0 \<le> char_val c" "char_val c < 256"
proof -
  have "of_char c mod 256 = (of_char c :: nat)" by simp
  then have "(of_char c :: nat) < 256" by (metis mod_less_divisor zero_less_numeral)
  then show "0 \<le> char_val c" "char_val c < 256" by (simp_all add: char_val_nat del: of_nat_of_char)
qed

lemma char_val_upper_hex: "0 \<le> d \<Longrightarrow> d < 16 \<Longrightarrow> char_val (upper_hex d) = (if d < 10 then d + 48 else d + 55)"
  by (simp add: upper_hex_def char_val_char_of nat_less_iff)

lemma upper_hex_digit:
  assumes "0 \<le> d" "d < 16"
  shows "IsHexCharacter (upper_hex d)" "hex_value (upper_hex d) = d" "upper_hex d \<noteq> CHR ''%''"
proof -
  have v: "char_val (upper_hex d) = (if d < 10 then d + 48 else d + 55)" using assms by (rule char_val_upper_hex)
  then show "IsHexCharacter (upper_hex d)" "hex_value (upper_hex d) = d"
    using assms by (auto simp: IsHexCharacter_def IMS_ISDIGIT_def hex_value_def)
  have "char_val (CHR ''%'') = 37" by code_simp
  then show "upper_hex d \<noteq> CHR ''%''" using v assms by (auto split: if_splits)
qed

lemma char_of_char_val [simp]: "char_of (nat (char_val c)) = c"
  by (simp add: char_val_nat del: of_nat_of_char)

lemma HexStringToChar_CharToHexString: "HexStringToChar (CharToHexString c) = char_val c"
proof -
  have "0 \<le> char_val c div 16" "char_val c div 16 < 16" "0 \<le> char_val c mod 16" "char_val c mod 16 < 16"
    using char_val_bounds [of c] by auto
  then show ?thesis
    by (simp add: HexStringToChar_def CharToHexString_def AString_GetLength_def chars_def upper_hex_digit Let_def)
qed

lemma decoding_escape: "decoding_loop (escape c @ p) buf = decoding_loop p (AString_Append_char c buf)"
proof -
  have "AString_GetSubStr 1 2 (Some (escape c @ p)) = CharToHexString c"
    by (cases p) (auto simp: AString_GetSubStr_def AString_GetLength_def chars_def escape_def CharToHexString_def AString_sized_def Let_def)
  then show ?thesis
    using HexStringToChar_CharToHexString [of c] char_val_bounds [of c]
    by (simp add: escape_def CharToHexString_def chars_def Let_def)
qed

lemma decoding_plain: "c \<noteq> CHR ''%'' \<Longrightarrow> decoding_loop ([c] @ p) buf = decoding_loop p (AString_Append_char c buf)"
  by simp

text \<open>An encoding that escapes what \<open>plain\<close> does not let through, and at least the percent sign.\<close>

definition encoded :: "(char \<Rightarrow> bool) \<Rightarrow> string \<Rightarrow> string" where
  "encoded plain cs = concat (map (\<lambda>c. if plain c then [c] else escape c) cs)"

lemma decoding_encoded: "\<not> plain (CHR ''%'') \<Longrightarrow> decoding_loop (encoded plain cs) (Some buf) = Some (buf @ cs)"
proof (induction cs arbitrary: buf)
  case (Cons c cs)
  have "decoding_loop (encoded plain (c # cs)) (Some buf) = decoding_loop (encoded plain cs) (Some (buf @ [c]))"
  proof (cases "plain c")
    case True
    then have "c \<noteq> CHR ''%''" using Cons.prems by auto
    then show ?thesis using True decoding_plain [of c] by (simp add: encoded_def AString_Append_char_def chars_def)
  next
    case False
    then show ?thesis by (simp add: encoded_def decoding_escape AString_Append_char_def chars_def)
  qed
  then show ?case using Cons by simp
qed (simp add: encoded_def)

lemma encoded_plain: "CHR ''%'' \<notin> set (encoded plain cs) \<Longrightarrow> encoded plain cs = cs"
  by (induction cs) (auto simp: encoded_def escape_def split: if_splits)

lemma Contains_char_iff: "AString_Contains_char c s \<longleftrightarrow> c \<in> set (chars s)"
  by (cases "find_index (\<lambda>x. x = c) (chars s)")
     (auto simp: AString_Contains_char_def AString_GetIndexOf_char_def AString_GetLength_def NPOS_def
        simp del: find_index_None dest!: find_index_SomeD, auto)

lemma decoding_of_encoded:
  assumes "\<not> plain (CHR ''%'')"
  shows "DoPercentDecoding (Some (encoded plain cs)) = Some cs"
  using decoding_encoded [where plain = plain, OF assms, of cs "[]"] encoded_plain [of plain cs]
  by (auto simp: DoPercentDecoding_def Contains_char_iff chars_def)

lemma DoPercentEncoding_encoded:
  "DoPercentEncoding s extra excl =
   Some (encoded (\<lambda>c. if IsReservedCharacter c then c \<in> set (chars excl) else c \<notin> set (chars extra)) (chars s))"
  by (auto simp: DoPercentEncoding_def encoded_def AString_IsNull_def Contains_char_iff chars_def
      intro!: arg_cong [where f = concat] map_cong)

lemma DoPercentEncodingEx_encoded:
  "DoPercentEncodingEx s excl = Some (encoded (\<lambda>c. IMS_ISDIGIT c \<or> IMS_ISALPHA c \<or> c \<in> set (chars excl)) (chars s))"
  by (auto simp: DoPercentEncodingEx_def encoded_def AString_GetLength_def Contains_char_iff
      intro!: arg_cong [where f = concat] map_cong)

subsection \<open>Media types\<close>

text \<open>The characters of a token in RFC 2045: printable, neither a blank nor one of the \<open>tspecials\<close>.\<close>

definition rfc2045_token :: "char \<Rightarrow> bool" where
  "rfc2045_token c \<longleftrightarrow> 33 \<le> char_val c \<and> char_val c \<le> 126 \<and> c \<notin> set (''()<>@,;:/[]?='' @ [CHR 0x22, CHR 0x5C])"

lemma char_by_val: "c \<in> set cs \<longleftrightarrow> char_val c \<in> set (map char_val cs)"
  by (auto simp: image_iff)

lemma IsTokenCharacter_rfc2045: "IsTokenCharacter c \<longleftrightarrow> rfc2045_token c"
proof -
  have "map char_val (''()<>@,;:/[]?='' @ [CHR 0x22, CHR 0x5C]) =
      [40, 41, 60, 62, 64, 44, 59, 58, 47, 91, 93, 63, 61, 34, 92]"
    by code_simp
  then have "c \<in> set (''()<>@,;:/[]?='' @ [CHR 0x22, CHR 0x5C]) \<longleftrightarrow>
      char_val c \<in> {40, 41, 60, 62, 64, 44, 59, 58, 47, 91, 93, 63, 61, 34, 92}"
    unfolding char_by_val by (simp only: list.simps)
  moreover have "list_all (\<lambda>v::int.
      (v = 0x21 \<or> (0x23 \<le> v \<and> v \<le> 0x27) \<or> (0x2A \<le> v \<and> v \<le> 0x2B) \<or> (0x2D \<le> v \<and> v \<le> 0x2E) \<or>
       (0x30 \<le> v \<and> v \<le> 0x39) \<or> (0x41 \<le> v \<and> v \<le> 0x5A) \<or> (0x5E \<le> v \<and> v \<le> 0x7E)) \<longleftrightarrow>
      (33 \<le> v \<and> v \<le> 126 \<and> v \<notin> {40, 41, 60, 62, 64, 44, 59, 58, 47, 91, 93, 63, 61, 34, 92})) [0..255]"
    by code_simp
  moreover have "char_val c \<in> set [0..255]" using char_val_bounds [of c] by simp
  ultimately show ?thesis
    unfolding rfc2045_token_def IsTokenCharacter_def Let_def list_all_iff by blast
qed

lemma valid_media_type_parses:
  assumes "IsValidMediaType s"
  shows "\<exists>t u. ParseMediaType s out = (True, t, u) \<and> IsTokenString t \<and> IsTokenString u"
  using assms
  unfolding IsValidMediaType_def ParseMediaType_def Let_def
  by (auto simp: IsTokenString_def split: if_splits)

lemma GetSubStr_take: "0 < n \<Longrightarrow> n \<le> length cs \<Longrightarrow> AString_GetSubStr 0 (int n) (Some cs) = Some (take n cs)"
  by (auto simp: AString_GetSubStr_def AString_GetLength_def chars_def AString_sized_def Let_def)

lemma GetSubStr_drop: "n < length cs \<Longrightarrow> AString_GetSubStr (int n) (-1) (Some cs) = Some (drop n cs)"
  by (auto simp: AString_GetSubStr_def AString_GetLength_def chars_def AString_sized_def Let_def nat_diff_distrib)

lemma GetSubStr_part:
  "k < length cs \<Longrightarrow> k + n \<le> length cs \<Longrightarrow> n > 0 \<Longrightarrow> AString_GetSubStr (int k) (int n) (Some cs) = Some (take n (drop k cs))"
  by (auto simp: AString_GetSubStr_def AString_GetLength_def chars_def AString_sized_def Let_def)

lemma GetIndexOf_char_first:
  "c \<notin> set p \<Longrightarrow> AString_GetIndexOf_char c (int (length q)) (Some (q @ p @ c # r)) = int (length q + length p)"
proof -
  assume "c \<notin> set p"
  then have "find_index (\<lambda>x. x = c) (p @ c # r) = Some (length p)"
    by (intro find_index_eqI) (auto simp: nth_append)
  then show ?thesis by (simp add: AString_GetIndexOf_char_def AString_GetLength_def chars_def Let_def)
qed

lemma GetIndexOf_char_none:
  assumes "c \<notin> set p"
  shows "AString_GetIndexOf_char c (int (length q)) (Some (q @ p)) = NPOS"
proof -
  have "find_index (\<lambda>x. x = c) p = None" using assms by auto
  then show ?thesis by (simp add: AString_GetIndexOf_char_def AString_GetLength_def chars_def Let_def del: find_index_None)
qed

lemma ParseMediaType_parts:
  assumes "t \<noteq> []" "CHR ''/'' \<notin> set t" "u \<noteq> []" "CHR '';'' \<notin> set u"
    and "rest = [] \<or> (\<exists>ps. rest = CHR '';'' # ps)"
  shows "ParseMediaType (Some (t @ CHR ''/'' # u @ rest)) out = (True, Some t, Some u)"
proof -
  let ?s = "t @ CHR ''/'' # u @ rest"
  have slash: "AString_GetIndexOf_char (CHR ''/'') 0 (Some ?s) = int (length t)"
    using GetIndexOf_char_first [OF assms(2), of "[]" "u @ rest"] by simp
  have type: "AString_GetSubStr 0 (int (length t)) (Some ?s) = Some t"
    using GetSubStr_take [of "length t" ?s] assms(1) by simp
  have one: "int (length t) + 1 = int (length (t @ ''/''))" by simp
  from assms(5) show ?thesis
  proof
    assume r: "rest = []"
    have "AString_GetIndexOf_char (CHR '';'') (int (length t) + 1) (Some ?s) = NPOS"
      unfolding one using GetIndexOf_char_none [OF assms(4), of "t @ ''/''"] r by simp
    moreover have "AString_GetSubStr (int (length t) + 1) (-1) (Some ?s) = Some u"
      unfolding one using GetSubStr_drop [of "length (t @ ''/'')" ?s] assms(3) r by simp
    ultimately show ?thesis
      using slash type assms(1,3) by (simp add: ParseMediaType_def Let_def AString_GetLength_def chars_def NPOS_def)
  next
    assume "\<exists>ps. rest = CHR '';'' # ps"
    then obtain ps where r: "rest = CHR '';'' # ps" by blast
    have semi: "AString_GetIndexOf_char (CHR '';'') (int (length t) + 1) (Some ?s) = int (length t + 1 + length u)"
      unfolding one using GetIndexOf_char_first [OF assms(4), of "t @ ''/''" ps] r by simp
    have "AString_GetSubStr (int (length (t @ ''/''))) (int (length u)) (Some ?s) = Some u"
      using GetSubStr_part [of "length (t @ ''/'')" ?s "length u"] assms(3) r by simp
    then have "AString_GetSubStr (int (length t) + 1) (int (length t + 1 + length u) - (int (length t) + 1)) (Some ?s) = Some u"
      by (simp add: one)
    with semi slash type assms(1,3) show ?thesis
      by (simp add: ParseMediaType_def Let_def AString_GetLength_def chars_def NPOS_def)
  qed
qed

subsection \<open>Delimiters\<close>

text \<open>Inside quotation marks and behind an odd run of backslashes, after a prefix of the text.\<close>

definition quote_step :: "char \<Rightarrow> bool \<times> bool \<Rightarrow> bool \<times> bool" where
  "quote_step c st =
     (case st of (quoted, esc) \<Rightarrow>
        if c = CHR 0x22 \<and> \<not> esc then (\<not> quoted, False) else (quoted, c = CHR 0x5C \<and> \<not> esc))"

definition delimiter_at :: "char \<Rightarrow> bool \<times> bool \<Rightarrow> string \<Rightarrow> nat \<Rightarrow> bool" where
  "delimiter_at d st p k \<longleftrightarrow> k < length p \<and> p ! k = d \<and> \<not> fst (fold quote_step (take k p) st)"

lemma delimiter_at_Cons [simp]:
  "delimiter_at d st (c # p) 0 \<longleftrightarrow> c = d \<and> \<not> fst st"
  "delimiter_at d st (c # p) (Suc k) \<longleftrightarrow> delimiter_at d (quote_step c st) p k"
  by (simp_all add: delimiter_at_def)

definition first_delimiter :: "char \<Rightarrow> bool \<times> bool \<Rightarrow> string \<Rightarrow> nat \<Rightarrow> int \<Rightarrow> bool" where
  "first_delimiter d st p i r \<longleftrightarrow>
     (\<exists>k. r = int (i + k) \<and> delimiter_at d st p k \<and> (\<forall>j<k. \<not> delimiter_at d st p j)) \<or>
     (r = NPOS \<and> (\<forall>k. \<not> delimiter_at d st p k))"

lemma first_delimiter_shift:
  assumes "\<not> delimiter_at d st (c # p) 0" "first_delimiter d (quote_step c st) p (Suc i) r"
  shows "first_delimiter d st (c # p) i r"
  using assms(2) unfolding first_delimiter_def
proof
  assume "\<exists>k. r = int (Suc i + k) \<and> delimiter_at d (quote_step c st) p k \<and> (\<forall>j<k. \<not> delimiter_at d (quote_step c st) p j)"
  then obtain k where "r = int (Suc i + k)" "delimiter_at d (quote_step c st) p k"
    "\<forall>j<k. \<not> delimiter_at d (quote_step c st) p j" by blast
  then have "r = int (i + Suc k) \<and> delimiter_at d st (c # p) (Suc k) \<and> (\<forall>j<Suc k. \<not> delimiter_at d st (c # p) j)"
    using assms(1) by (auto simp: less_Suc_eq_0_disj)
  then show "(\<exists>k. r = int (i + k) \<and> delimiter_at d st (c # p) k \<and> (\<forall>j<k. \<not> delimiter_at d st (c # p) j)) \<or>
      (r = NPOS \<and> (\<forall>k. \<not> delimiter_at d st (c # p) k))" by blast
next
  assume r: "r = NPOS \<and> (\<forall>k. \<not> delimiter_at d (quote_step c st) p k)"
  then have "\<not> delimiter_at d st (c # p) k" for k using assms(1) by (cases k) auto
  with r show "(\<exists>k. r = int (i + k) \<and> delimiter_at d st (c # p) k \<and> (\<forall>j<k. \<not> delimiter_at d st (c # p) j)) \<or>
      (r = NPOS \<and> (\<forall>k. \<not> delimiter_at d st (c # p) k))" by blast
qed

lemma delimiter_loop_first:
  assumes "d \<noteq> CHR 0x22"
  shows "first_delimiter d (quoted, cOld = CHR 0x5C) p i (delimiter_loop d (if quoted then 1 else 0) i cOld p)"
proof (induction p arbitrary: quoted i cOld)
  case (Cons c p)
  show ?case
  proof (cases "c = CHR 0x22 \<and> cOld \<noteq> CHR 0x5C")
    case True
    have "delimiter_loop d (if quoted then 1 else 0) i cOld (c # p) =
        delimiter_loop d (if \<not> quoted then 1 else 0) (Suc i) c p" using True by simp
    moreover have "quote_step c (quoted, cOld = CHR 0x5C) = (\<not> quoted, c = CHR 0x5C)"
      using True by (simp add: quote_step_def)
    moreover have "\<not> delimiter_at d (quoted, cOld = CHR 0x5C) (c # p) 0" using True assms by auto
    ultimately show ?thesis using Cons.IH [of "\<not> quoted" c "Suc i"] by (auto intro!: first_delimiter_shift)
  next
    case False
    show ?thesis
    proof (cases "c = d \<and> \<not> quoted")
      case True
      then have "delimiter_loop d (if quoted then 1 else 0) i cOld (c # p) = int (i + 0)"
        using False by auto
      moreover have "delimiter_at d (quoted, cOld = CHR 0x5C) (c # p) 0" using True by simp
      ultimately show ?thesis unfolding first_delimiter_def by blast
    next
      case noDelimiter: False
      let ?o = "if cOld = CHR 0x5C \<and> c = CHR 0x5C then CHR 0x00 else c"
      have "delimiter_loop d (if quoted then 1 else 0) i cOld (c # p) =
          delimiter_loop d (if quoted then 1 else 0) (Suc i) ?o p" using False noDelimiter by auto
      moreover have "quote_step c (quoted, cOld = CHR 0x5C) = (quoted, ?o = CHR 0x5C)"
        using False by (auto simp: quote_step_def)
      moreover have "\<not> delimiter_at d (quoted, cOld = CHR 0x5C) (c # p) 0" using noDelimiter by auto
      ultimately show ?thesis using Cons.IH [of quoted ?o "Suc i"] by (auto intro!: first_delimiter_shift)
    qed
  qed
qed (simp add: delimiter_at_def first_delimiter_def)

end
