(* ===== verification/Sip_Percent.thy ===== *)
theory Sip_Percent
  imports Platform_Parser
begin

text \<open>
  Percent encoding in SIP URIs (\<open>protocol/sip/msg/SipPercentEncoding.cpp\<close>): the decoder, which rests on
  \<open>sscanf\<close>, and the encoders, with the bytes they write to a buffer of three bytes per character. Texts
  are without NUL; \<open>SIP_CHAR\<close> is unsigned.
\<close>

subsection \<open>Classes of characters\<close>

definition IS_HEXDIG :: "char \<Rightarrow> bool" where
  "IS_HEXDIG c \<longleftrightarrow>
     (65 \<le> char_val c \<and> char_val c \<le> 70) \<or> (97 \<le> char_val c \<and> char_val c \<le> 102) \<or> IMS_ISDIGIT c"

definition IS_ALPHANUM :: "char \<Rightarrow> bool" where
  "IS_ALPHANUM c \<longleftrightarrow>
     (97 \<le> char_val c \<and> char_val c \<le> 122) \<or> (65 \<le> char_val c \<and> char_val c \<le> 90) \<or> IMS_ISDIGIT c"

definition IS_MARK :: "char \<Rightarrow> bool" where
  "IS_MARK c \<longleftrightarrow> c \<in> set (''-_.!~*()'' @ [CHR 0x27])"

definition IS_UNRESERVED :: "char \<Rightarrow> bool" where
  "IS_UNRESERVED c \<longleftrightarrow> IS_ALPHANUM c \<or> IS_MARK c"

definition IS_USER_UNRESERVED :: "char \<Rightarrow> bool" where
  "IS_USER_UNRESERVED c \<longleftrightarrow> c \<in> set ''&=+$,;?/''"

definition IS_HNV_UNRESERVED :: "char \<Rightarrow> bool" where
  "IS_HNV_UNRESERVED c \<longleftrightarrow> c \<in> set ''[]/?:+$''"

definition IS_TOKEN :: "char \<Rightarrow> bool" where
  "IS_TOKEN c \<longleftrightarrow> IS_ALPHANUM c \<or> c \<in> set (''-.!%_+`'' @ [CHR 0x27] @ ''~*'')"

definition IS_ESCAPED :: "string \<Rightarrow> bool" where
  "IS_ESCAPED p = (case p of ch1 # ch2 # ch3 # _ \<Rightarrow> ch1 = CHR ''%'' \<and> IS_HEXDIG ch2 \<and> IS_HEXDIG ch3 | _ \<Rightarrow> False)"

subsection \<open>Decoding\<close>

text \<open>
  \<open>sscanf\<close> with \<open>%2X\<close> on the rest of the text, into a variable that holds 0: white space is skipped, then
  two characters make a number with an optional sign or \<open>0x\<close>. The low byte of the result.
\<close>

definition is_space :: "char \<Rightarrow> bool" where
  "is_space c \<longleftrightarrow> c = CHR '' '' \<or> (9 \<le> char_val c \<and> char_val c \<le> 13)"

definition sscanf_2X :: "string \<Rightarrow> int" where
  "sscanf_2X p =
     (case dropWhile is_space p of
        [] \<Rightarrow> 0
      | a # q \<Rightarrow>
          (let second = (case q of [] \<Rightarrow> None | b # _ \<Rightarrow> if IS_HEXDIG b then Some (hex_value b) else None)
           in if a = CHR ''+'' then (case second of None \<Rightarrow> 0 | Some v \<Rightarrow> v)
              else if a = CHR ''-'' then (case second of None \<Rightarrow> 0 | Some v \<Rightarrow> (- v) mod 256)
              else if IS_HEXDIG a then (case second of None \<Rightarrow> hex_value a | Some v \<Rightarrow> hex_value a * 16 + v)
              else 0))"

text \<open>The text the loop builds, with the character NUL where a number is 0, and whether it decoded.\<close>

fun sip_decoding_loop :: "string \<Rightarrow> string \<times> bool" where
  "sip_decoding_loop [] = ([], False)"
| "sip_decoding_loop (c # p) =
     (if c = CHR ''%'' \<and> length (c # p) \<ge> 3
      then (char_of (nat (sscanf_2X p)) # fst (sip_decoding_loop (drop 2 p)), True)
      else (c # fst (sip_decoding_loop p), snd (sip_decoding_loop p)))"

definition Sip_DoPercentDecoding :: "string \<Rightarrow> string" where
  "Sip_DoPercentDecoding pszString =
     (case sip_decoding_loop pszString of
        (pszReturnString, bIsPercentDecoded) \<Rightarrow> if bIsPercentDecoded then c_string pszReturnString else pszReturnString)"

subsection \<open>Encoding\<close>

text \<open>
  The loop of the encoders: \<open>keep\<close> are the characters that stand for themselves, and with \<open>bEscaped\<close> an
  escape that is there already is copied. The result is the text and the number of buffer bytes that
  were written, counting the NUL that \<open>SipPf_Sprintf\<close> puts behind two digits.
\<close>

function encoding_loop :: "(char \<Rightarrow> bool) \<Rightarrow> bool \<Rightarrow> string \<Rightarrow> string \<times> nat \<Rightarrow> string \<times> nat" where
  "encoding_loop keep bEscaped p (pEncodedString, written) =
     (case p of
        [] \<Rightarrow> (pEncodedString, written)
      | c # rest \<Rightarrow>
          (let n = length pEncodedString
           in if keep c then encoding_loop keep bEscaped rest (pEncodedString @ [c], max written (n + 1))
              else if bEscaped \<and> IS_ESCAPED p
              then encoding_loop keep bEscaped (drop 2 rest) (pEncodedString @ take 3 p, max written (n + 3))
              else encoding_loop keep bEscaped rest
                     (pEncodedString @ [CHR ''%'', upper_hex (char_val c div 16), upper_hex (char_val c mod 16)],
                      max written (n + 4))))"
  by pat_completeness auto

termination
  by (relation "measure (\<lambda>(keep, bEscaped, p, st). length p)") auto

declare encoding_loop.simps [simp del]

definition DoPerEnc_UserAndHeader :: "string \<Rightarrow> bool \<Rightarrow> string \<times> nat" where
  "DoPerEnc_UserAndHeader pszString bUser =
     encoding_loop (\<lambda>c. IS_UNRESERVED c \<or> (bUser \<and> IS_USER_UNRESERVED c) \<or> (\<not> bUser \<and> IS_HNV_UNRESERVED c)) True
       pszString ([], 0)"

definition DoPerEnc_Password :: "string \<Rightarrow> string \<times> nat" where
  "DoPerEnc_Password pszString = encoding_loop (\<lambda>c. IS_UNRESERVED c \<or> c \<in> set ''&=+$,'') True pszString ([], 0)"

definition DoPerEnc_Host :: "string \<Rightarrow> string \<times> nat" where
  "DoPerEnc_Host pszString = encoding_loop (\<lambda>c. IS_ALPHANUM c \<or> c \<in> set ''.:[]-'') False pszString ([], 0)"

definition DoPerEnc_TokenParam :: "string \<Rightarrow> string \<times> nat" where
  "DoPerEnc_TokenParam pszString = encoding_loop IS_TOKEN False pszString ([], 0)"

definition DoPerEnc_TtlParam :: "string \<Rightarrow> string \<times> nat" where
  "DoPerEnc_TtlParam pszString = encoding_loop IMS_ISDIGIT False pszString ([], 0)"

definition DoPerEnc_MddrParam :: "string \<Rightarrow> string \<times> nat" where
  "DoPerEnc_MddrParam = DoPerEnc_Host"

definition DoPerEnc_OtherParam :: "string \<Rightarrow> string \<times> nat" where
  "DoPerEnc_OtherParam = DoPerEnc_TokenParam"

definition DoPerEnc_Param :: "string \<Rightarrow> string \<Rightarrow> string \<times> nat" where
  "DoPerEnc_Param pszName pszValue =
     (let eq = (\<lambda>name. SipPf_Stricmp (Some pszName) (Some name) = SIP_EQUALS)
      in if eq ''user'' \<or> eq ''method'' \<or> eq ''transport'' \<or> eq ''lr'' then DoPerEnc_TokenParam pszValue
         else if eq ''maddr'' then DoPerEnc_MddrParam pszValue
         else if eq ''ttl'' then DoPerEnc_TtlParam pszValue
         else if eq ''headers'' then DoPerEnc_UserAndHeader pszValue False
         else DoPerEnc_OtherParam pszValue)"

subsection \<open>The text and the bytes written\<close>

text \<open>The pieces of the result, each with whether it was encoded.\<close>

fun pieces :: "(char \<Rightarrow> bool) \<Rightarrow> bool \<Rightarrow> string \<Rightarrow> (string \<times> bool) list" where
  "pieces keep bEscaped [] = []"
| "pieces keep bEscaped (c # rest) =
     (if keep c then ([c], False) # pieces keep bEscaped rest
      else if bEscaped \<and> IS_ESCAPED (c # rest) then (take 3 (c # rest), False) # pieces keep bEscaped (drop 2 rest)
      else ([CHR ''%'', upper_hex (char_val c div 16), upper_hex (char_val c mod 16)], True) # pieces keep bEscaped rest)"

definition sip_encoded :: "(char \<Rightarrow> bool) \<Rightarrow> bool \<Rightarrow> string \<Rightarrow> string" where
  "sip_encoded keep bEscaped p = concat (map fst (pieces keep bEscaped p))"

lemma IS_ESCAPED_length: "IS_ESCAPED p \<Longrightarrow> length p \<ge> 3"
  by (auto simp: IS_ESCAPED_def split: list.splits)

lemma encoding_loop_text: "fst (encoding_loop keep bEscaped p (t, w)) = t @ sip_encoded keep bEscaped p"
proof (induction keep bEscaped p arbitrary: t w rule: pieces.induct)
  case (1 keep bEscaped)
  show ?case by (subst encoding_loop.simps) (simp add: sip_encoded_def)
next
  case (2 keep bEscaped c rest)
  then show ?case by (subst encoding_loop.simps) (simp add: sip_encoded_def Let_def)
qed

text \<open>The byte behind the last one that is written, for pieces that start at \<open>n\<close>.\<close>

fun ends :: "nat \<Rightarrow> (string \<times> bool) list \<Rightarrow> nat" where
  "ends n [] = 0"
| "ends n ((s, e) # ps) = max (n + length s + (if e then 1 else 0)) (ends (n + length s) ps)"

lemma encoding_loop_written:
  "snd (encoding_loop keep bEscaped p (t, w)) = max w (ends (length t) (pieces keep bEscaped p))"
proof (induction keep bEscaped p arbitrary: t w rule: pieces.induct)
  case (1 keep bEscaped)
  show ?case by (subst encoding_loop.simps) simp
next
  case (2 keep bEscaped c rest)
  then show ?case
    using IS_ESCAPED_length [of "c # rest"]
    by (subst encoding_loop.simps) (auto simp: Let_def min_def ac_simps numeral_eq_Suc)
qed

lemma max_step:
  fixes E n l :: nat
  assumes "l = 0 \<Longrightarrow> E = 0 \<and> A" "E \<le> n + 3 + 3 * l + 1" "(E = n + 3 + 3 * l + 1) \<longleftrightarrow> l \<noteq> 0 \<and> A"
  shows "max (n + 3 + 1) E \<le> n + 3 * Suc l + 1 \<and> (max (n + 3 + 1) E = n + 3 * Suc l + 1 \<longleftrightarrow> A)"
  using assms by (cases "l = 0") (auto simp: max_def)

lemma ends_bound:
  "ends n (pieces keep bEscaped p) \<le> n + 3 * length p + 1 \<and>
   (ends n (pieces keep bEscaped p) = n + 3 * length p + 1 \<longleftrightarrow> p \<noteq> [] \<and> list_all snd (pieces keep bEscaped p))"
proof (induction keep bEscaped p arbitrary: n rule: pieces.induct)
  case (2 keep bEscaped c rest)
  show ?case
  proof (cases "keep c")
    case True
    then show ?thesis using 2(1) [of "n + 1"] by auto
  next
    case False
    show ?thesis
    proof (cases "bEscaped \<and> IS_ESCAPED (c # rest)")
      case True
      then have "length rest \<ge> 2" using IS_ESCAPED_length [of "c # rest"] by simp
      moreover have "pieces keep bEscaped (c # rest) = (take 3 (c # rest), False) # pieces keep bEscaped (drop 2 rest)"
        using False True by simp
      moreover have "length (take 3 (c # rest)) = 3" using calculation(1) by simp
      ultimately show ?thesis
        using 2(2) [OF False True, of "n + 3"] by (simp only: ends.simps length_Cons length_drop if_False list.pred_inject snd_conv) auto
    next
      case nonEscape: False
      then have "pieces keep bEscaped (c # rest) =
          ([CHR ''%'', upper_hex (char_val c div 16), upper_hex (char_val c mod 16)], True) # pieces keep bEscaped rest"
        using False by (simp only: pieces.simps if_False)
      then have "ends n (pieces keep bEscaped (c # rest)) = max (n + 3 + 1) (ends (n + 3) (pieces keep bEscaped rest))"
        "list_all snd (pieces keep bEscaped (c # rest)) = list_all snd (pieces keep bEscaped rest)"
        by (simp_all del: pieces.simps add: numeral_eq_Suc)
      moreover have "rest = [] \<Longrightarrow> ends (n + 3) (pieces keep bEscaped rest) = 0 \<and> list_all snd (pieces keep bEscaped rest)"
        by simp
      ultimately show ?thesis
        using 2(3) [OF False nonEscape, of "n + 3"]
          max_step [of "length rest" "ends (n + 3) (pieces keep bEscaped rest)" "list_all snd (pieces keep bEscaped rest)" n]
        by simp
    qed
  qed
qed simp

lemma text_bound:
  "length (sip_encoded keep bEscaped p) \<le> 3 * length p \<and>
   (length (sip_encoded keep bEscaped p) = 3 * length p \<longleftrightarrow> list_all snd (pieces keep bEscaped p))"
proof (induction keep bEscaped p rule: pieces.induct)
  case (2 keep bEscaped c rest)
  show ?case
  proof (cases "keep c")
    case True
    then show ?thesis using 2(1) by (auto simp: sip_encoded_def)
  next
    case False
    show ?thesis
    proof (cases "bEscaped \<and> IS_ESCAPED (c # rest)")
      case True
      then have "length rest \<ge> 2" using IS_ESCAPED_length [of "c # rest"] by simp
      then show ?thesis using False True 2(2) [OF False True] by (auto simp: sip_encoded_def min_def)
    next
      case nonEscape: False
      then show ?thesis using False 2(3) [OF False nonEscape] by (auto simp: sip_encoded_def)
    qed
  qed
qed (simp add: sip_encoded_def)

lemma all_encoded:
  assumes "\<And>c. IS_HEXDIG c \<Longrightarrow> keep c \<or> \<not> bEscaped"
  shows "list_all snd (pieces keep bEscaped p) \<longleftrightarrow> (\<forall>c\<in>set p. \<not> keep c)"
  using assms
proof (induction keep bEscaped p rule: pieces.induct)
  case (2 keep bEscaped c rest)
  have "\<exists>d\<in>set rest. keep d" if "bEscaped" "IS_ESCAPED (c # rest)"
    using that 2(4) by (auto simp: IS_ESCAPED_def split: list.splits)
  then show ?case using 2 by auto
qed simp

lemma encoder_overrun:
  assumes "\<And>c. IS_HEXDIG c \<Longrightarrow> keep c \<or> \<not> bEscaped"
  shows "snd (encoding_loop keep bEscaped p ([], 0)) > 3 * length p \<longleftrightarrow> p \<noteq> [] \<and> (\<forall>c\<in>set p. \<not> keep c)"
    and "length (fst (encoding_loop keep bEscaped p ([], 0))) < 3 * length p \<longleftrightarrow> (\<exists>c\<in>set p. keep c)"
  using ends_bound [of 0 keep bEscaped p] text_bound [of keep bEscaped p] all_encoded [where keep = keep, OF assms, of p]
  by (auto simp: encoding_loop_written encoding_loop_text)

subsection \<open>Round trip\<close>

lemma IS_HEXDIG_hex: "IS_HEXDIG c \<longleftrightarrow> IsHexCharacter c"
  by (auto simp: IS_HEXDIG_def IsHexCharacter_def)

lemma sscanf_2X_hex:
  assumes "IS_HEXDIG a" "IS_HEXDIG b"
  shows "sscanf_2X (a # b # p) = hex_value a * 16 + hex_value b"
proof -
  have "char_val (CHR '' '') = 32" "char_val (CHR ''+'') = 43" "char_val (CHR ''-'') = 45" by code_simp+
  then have "\<not> is_space a" "a \<noteq> CHR ''+''" "a \<noteq> CHR ''-''"
    using assms(1) by (auto simp: is_space_def IS_HEXDIG_def IMS_ISDIGIT_def)
  then show ?thesis using assms by (simp add: sscanf_2X_def Let_def)
qed

lemma sscanf_2X_printed:
  "sscanf_2X (upper_hex (char_val c div 16) # upper_hex (char_val c mod 16) # p) = char_val c"
proof -
  have "0 \<le> char_val c div 16" "char_val c div 16 < 16" "0 \<le> char_val c mod 16" "char_val c mod 16 < 16"
    using char_val_bounds [of c] by auto
  then show ?thesis by (simp add: sscanf_2X_hex IS_HEXDIG_hex upper_hex_digit)
qed

lemma sip_decoding_encoded:
  assumes "\<not> keep (CHR ''%'')" "bEscaped \<Longrightarrow> \<forall>i. \<not> IS_ESCAPED (drop i p)"
  shows "fst (sip_decoding_loop (sip_encoded keep bEscaped p)) = p"
  using assms
proof (induction keep bEscaped p rule: pieces.induct)
  case (2 keep bEscaped c rest)
  have rest: "bEscaped \<Longrightarrow> \<forall>i. \<not> IS_ESCAPED (drop i rest)"
    using 2(5) by (metis drop_Suc_Cons)
  show ?case
  proof (cases "keep c")
    case True
    then have "c \<noteq> CHR ''%''" using 2(4) by auto
    then show ?thesis using True 2(1) [OF True 2(4) rest] by (simp add: sip_encoded_def)
  next
    case False
    have esc: "\<not> (bEscaped \<and> IS_ESCAPED (c # rest))" using 2(5) by (metis drop0)
    have "pieces keep bEscaped (c # rest) =
        ([CHR ''%'', upper_hex (char_val c div 16), upper_hex (char_val c mod 16)], True) # pieces keep bEscaped rest"
      using False by (simp only: pieces.simps esc if_False)
    then have "sip_encoded keep bEscaped (c # rest) =
        CHR ''%'' # upper_hex (char_val c div 16) # upper_hex (char_val c mod 16) # sip_encoded keep bEscaped rest"
      by (simp add: sip_encoded_def del: pieces.simps)
    then show ?thesis using 2(3) [OF False esc 2(4) rest] by (simp add: sscanf_2X_printed)
  qed
qed (simp add: sip_encoded_def)

lemma c_string_id: "CHR 0x00 \<notin> set s \<Longrightarrow> c_string s = s"
  by (auto simp: c_string_def takeWhile_eq_all_conv)

lemma Sip_decoding_encoded:
  assumes "\<not> keep (CHR ''%'')" "bEscaped \<Longrightarrow> \<forall>i. \<not> IS_ESCAPED (drop i p)" "CHR 0x00 \<notin> set p"
  shows "Sip_DoPercentDecoding (fst (encoding_loop keep bEscaped p ([], 0))) = p"
proof -
  have "fst (sip_decoding_loop (sip_encoded keep bEscaped p)) = p"
    by (rule sip_decoding_encoded [where keep = keep]) (use assms in auto)
  then show ?thesis
    using c_string_id [OF assms(3)]
    by (cases "sip_decoding_loop (sip_encoded keep bEscaped p)") (simp add: Sip_DoPercentDecoding_def encoding_loop_text)
qed

end
