(* ===== verification/Sip_Params.thy ===== *)
theory Sip_Params
  imports Sip_Percent
begin

text \<open>
  Header parameters (\<open>protocol/sip/msg/SipParameters.cpp\<close>) and the scanning helpers under them
  (\<open>protocol/sip/SipAbnfUtil.cpp\<close>). A range of the buffer from a start pointer to an end pointer is the
  list of its characters; it is empty where the end is in front of the start. A pointer that is
  \<open>NULL\<close> is \<open>None\<close>.
\<close>

subsection \<open>Scanning\<close>

definition IS_WSP :: "char \<Rightarrow> bool" where
  "IS_WSP c \<longleftrightarrow> c = CHR '' '' \<or> c = CHR 0x09"

definition IS_CRLF :: "char \<Rightarrow> char \<Rightarrow> bool" where
  "IS_CRLF a b \<longleftrightarrow> a = CHR 0x0D \<and> b = CHR 0x0A"

text \<open>Trailing white space, with one line break in it; the first character always stays.\<close>

function skip_rw_wsp :: "string \<Rightarrow> string" where
  "skip_rw_wsp t = (if length t > 1 \<and> IS_WSP (last t) then skip_rw_wsp (butlast t) else t)"
  by pat_completeness auto

termination
  by (relation "measure length") auto

declare skip_rw_wsp.simps [simp del]

definition SipSkipRwLWS :: "string \<Rightarrow> string" where
  "SipSkipRwLWS t =
     (let t = skip_rw_wsp t; n = length t;
          t = (if n > 2 \<and> IS_CRLF (t ! (n - 2)) (t ! (n - 1)) then take (n - 2) t else t)
      in skip_rw_wsp t)"

definition SipSkipFwLWS :: "string \<Rightarrow> string" where
  "SipSkipFwLWS t =
     (let t = dropWhile IS_WSP t;
          t = (if length t > 2 \<and> IS_CRLF (t ! 0) (t ! 1) then drop 2 t else t)
      in dropWhile IS_WSP t)"

text \<open>The first delimiter outside quotation marks; \<open>pPrev\<close> is the character before.\<close>

fun find_delimiter :: "char \<Rightarrow> bool \<Rightarrow> char \<Rightarrow> string \<Rightarrow> nat option" where
  "find_delimiter cDelimiter bDQuote pPrev [] = None"
| "find_delimiter cDelimiter bDQuote pPrev (c # p) =
     (let bDQuote = (if c = CHR 0x22 \<and> pPrev \<noteq> CHR 0x5C then \<not> bDQuote else bDQuote)
      in if c = cDelimiter \<and> \<not> bDQuote then Some 0
         else map_option Suc (find_delimiter cDelimiter bDQuote c p))"

lemma find_delimiter_less: "find_delimiter d q prev p = Some k \<Longrightarrow> k < length p"
  by (induction d q prev p arbitrary: k rule: find_delimiter.induct) (auto simp: Let_def split: if_splits)

text \<open>The text in front of the delimiter and the one behind it, without the white space around it.\<close>

definition SipFindActualPos :: "string \<Rightarrow> char \<Rightarrow> (string \<times> string) option" where
  "SipFindActualPos p cDelimiter =
     (case find_delimiter cDelimiter False (if p = [] then CHR 0x00 else hd p) p of
        None \<Rightarrow> None
      | Some k \<Rightarrow>
          Some (if cDelimiter \<noteq> CHR ''>'' then SipSkipRwLWS (take k p) else take k p,
                if cDelimiter \<noteq> CHR ''<'' then SipSkipFwLWS (drop (Suc k) p) else drop (Suc k) p))"

definition SipFindPreDelimiter :: "string \<Rightarrow> char \<Rightarrow> (string \<times> string) option" where
  "SipFindPreDelimiter p cDelimiter =
     (case find_delimiter cDelimiter False (if p = [] then CHR 0x00 else hd p) p of
        None \<Rightarrow> None | Some k \<Rightarrow> Some (take k p, drop (Suc k) p))"

definition SipCreateString :: "string \<Rightarrow> cstr" where
  "SipCreateString p = (if p = [] then None else Some (c_string p))"

lemma SipSkipFwLWS_length: "length (SipSkipFwLWS t) \<le> length t"
proof -
  let ?t = "dropWhile IS_WSP t"
  have "length (dropWhile IS_WSP (if length ?t > 2 \<and> IS_CRLF (?t ! 0) (?t ! 1) then drop 2 ?t else ?t)) \<le> length ?t"
    by (rule order_trans [OF length_dropWhile_le]) simp
  then show ?thesis unfolding SipSkipFwLWS_def Let_def by (rule order_trans) (rule length_dropWhile_le)
qed

lemma SipFindActualPos_rest: "SipFindActualPos p d = Some (a, b) \<Longrightarrow> length b < length p"
  using SipSkipFwLWS_length
  by (fastforce simp: SipFindActualPos_def dest: find_delimiter_less split: option.splits if_splits
      intro: le_less_trans)

lemma SipFindPreDelimiter_rest: "SipFindPreDelimiter p d = Some (a, b) \<Longrightarrow> length b < length p"
  by (auto simp: SipFindPreDelimiter_def dest: find_delimiter_less split: option.splits)

subsection \<open>A name with values\<close>

datatype prm_type = GENERIC | FEATURE

record SipNameValue =
  m_pszName :: cstr
  m_valueList :: "string list"
  m_ePrmType :: prm_type
  m_Sep :: char

definition SipNameValue_new :: SipNameValue where
  "SipNameValue_new = \<lparr>m_pszName = None, m_valueList = [], m_ePrmType = GENERIC, m_Sep = CHR '',''\<rparr>"

text \<open>
  The kind of parameter component: \<open>None\<close> without a component; otherwise whether values are percent
  encoded, by the name of the parameter (always for a header of a URI).
\<close>

type_synonym component = "(cstr \<Rightarrow> bool) option"

definition percent_coded :: "component \<Rightarrow> cstr \<Rightarrow> bool" where
  "percent_coded pParameterComponent pszName = (case pParameterComponent of None \<Rightarrow> False | Some f \<Rightarrow> f pszName)"

function decode_values :: "string \<Rightarrow> string list \<Rightarrow> string list option" where
  "decode_values p values =
     (if p = [] then Some values
      else
        (case SipFindPreDelimiter p (CHR '','') of
           None \<Rightarrow> (case SipCreateString p of None \<Rightarrow> None | Some v \<Rightarrow> Some (values @ [v]))
         | Some (a, b) \<Rightarrow> (case SipCreateString a of None \<Rightarrow> None | Some v \<Rightarrow> decode_values b (values @ [v]))))"
  by pat_completeness auto

termination
  by (relation "measure (\<lambda>(p, vs). length p)") (auto dest: SipFindPreDelimiter_rest)

declare decode_values.simps [simp del]

definition SipNameValue_Decode :: "component \<Rightarrow> string \<Rightarrow> SipNameValue option" where
  "SipNameValue_Decode pParameterComponent p =
     (let pos = SipFindActualPos p (CHR ''='');
          name = SipCreateString (case pos of None \<Rightarrow> p | Some (a, b) \<Rightarrow> a);
          nv = SipNameValue_new\<lparr>m_pszName := name\<rparr>
      in if name = None then None
         else
           (case pos of
              None \<Rightarrow> Some nv
            | Some (a, b) \<Rightarrow>
                if percent_coded pParameterComponent name
                then (case SipCreateString b of
                        None \<Rightarrow> None
                      | Some v \<Rightarrow> Some (nv\<lparr>m_valueList := [Sip_DoPercentDecoding v]\<rparr>))
                else map_option (\<lambda>vs. nv\<lparr>m_valueList := vs\<rparr>) (decode_values b [])))"

text \<open>What is appended to the buffer; \<open>None\<close> is failure. The first value is percent encoded.\<close>

fun join_values :: "char \<Rightarrow> string list \<Rightarrow> string" where
  "join_values sep [] = []"
| "join_values sep [v] = v"
| "join_values sep (v # w # vs) = v @ sep # join_values sep (w # vs)"

definition SipNameValue_Encode :: "component \<Rightarrow> SipNameValue \<Rightarrow> string option" where
  "SipNameValue_Encode pParameterComponent nv =
     (case m_pszName nv of
        None \<Rightarrow> None
      | Some name \<Rightarrow>
          Some (if m_valueList nv = [] then name
                else if percent_coded pParameterComponent (m_pszName nv)
                then name @ ''='' @ fst (DoPerEnc_Param name (hd (m_valueList nv)))
                else
                  (let q = (if m_ePrmType nv = FEATURE then [CHR 0x22] else [])
                   in name @ ''='' @ q @ join_values (m_Sep nv) (m_valueList nv) @ q)))"

subsection \<open>Lists of parameters\<close>

type_synonym SipParameterList = "SipNameValue list"

text \<open>\<open>Add\<close> compares names exactly, \<open>FindElement\<close> without regard to case.\<close>

definition SipParameterList_Add :: "cstr \<Rightarrow> cstr \<Rightarrow> SipParameterList \<Rightarrow> bool \<times> SipParameterList" where
  "SipParameterList_Add pszName pszValue ps =
     (if pszName = None then (False, ps)
      else
        (let value = (case pszValue of None \<Rightarrow> [] | Some v \<Rightarrow> [v])
         in case find_index (\<lambda>nv. SipPf_Strcmp (m_pszName nv) pszName = SIP_EQUALS) ps of
              Some i \<Rightarrow> (True, ps[i := (ps ! i)\<lparr>m_valueList := m_valueList (ps ! i) @ value\<rparr>])
            | None \<Rightarrow> (True, ps @ [SipNameValue_new\<lparr>m_pszName := pszName, m_valueList := value\<rparr>])))"

definition SipParameterList_Remove :: "cstr \<Rightarrow> SipParameterList \<Rightarrow> bool \<times> SipParameterList" where
  "SipParameterList_Remove pszName ps =
     (if pszName = None then (False, ps)
      else
        (case find_index (\<lambda>nv. SipPf_Strcmp (m_pszName nv) pszName = SIP_EQUALS) ps of
           None \<Rightarrow> (False, ps) | Some i \<Rightarrow> (True, remove_nth i ps)))"

definition FindElement :: "cstr \<Rightarrow> SipParameterList \<Rightarrow> nat option" where
  "FindElement pszName ps = find_index (\<lambda>nv. SipPf_Stricmp pszName (m_pszName nv) = SIP_EQUALS) ps"

definition SipParameterList_SetParamValue ::
  "cstr \<Rightarrow> cstr \<Rightarrow> nat \<Rightarrow> SipParameterList \<Rightarrow> bool \<times> SipParameterList" where
  "SipParameterList_SetParamValue pszName pszValue nPos ps =
     (if pszName = None then (False, ps)
      else
        (case FindElement pszName ps of
           None \<Rightarrow> SipParameterList_Add pszName pszValue ps
         | Some i \<Rightarrow>
             (let vs = m_valueList (ps ! i); none = (pszValue = None \<or> SipPf_Strlen pszValue = 0)
              in if vs \<noteq> [] then
                   (if length vs \<le> nPos then (False, ps)
                    else if none then (True, ps[i := (ps ! i)\<lparr>m_valueList := remove_nth nPos vs\<rparr>])
                    else (True, ps[i := (ps ! i)\<lparr>m_valueList := vs[nPos := the pszValue]\<rparr>]))
                 else if \<not> none then (True, ps[i := (ps ! i)\<lparr>m_valueList := [the pszValue]\<rparr>])
                 else (True, ps))))"

text \<open>\<open>None\<close> is an element behind the end of the values, at which the vector stops the program.\<close>

definition SipParameterList_GetParamValue :: "cstr \<Rightarrow> nat \<Rightarrow> SipParameterList \<Rightarrow> cstr option" where
  "SipParameterList_GetParamValue pszName nPos ps =
     (if pszName = None then Some None
      else
        (case FindElement pszName ps of
           None \<Rightarrow> Some None
         | Some i \<Rightarrow>
             (let vs = m_valueList (ps ! i)
              in if vs = [] \<or> length vs < nPos then Some None
                 else if nPos < length vs then Some (Some (vs ! nPos)) else None)))"

definition SipParameterList_IsParamExists :: "cstr \<Rightarrow> SipParameterList \<Rightarrow> bool" where
  "SipParameterList_IsParamExists pszName ps \<longleftrightarrow> pszName \<noteq> None \<and> FindElement pszName ps \<noteq> None"

definition SipParameterList_GetParamNode :: "cstr \<Rightarrow> SipParameterList \<Rightarrow> SipNameValue option" where
  "SipParameterList_GetParamNode pszName ps =
     (if pszName = None then None else map_option (nth ps) (FindElement pszName ps))"

fun SipParameterList_Encode :: "component \<Rightarrow> char \<Rightarrow> SipParameterList \<Rightarrow> string option" where
  "SipParameterList_Encode pParameterComponent cDelimiter [] = Some []"
| "SipParameterList_Encode pParameterComponent cDelimiter (nv # ps) =
     (case SipNameValue_Encode pParameterComponent nv of
        None \<Rightarrow> None
      | Some t \<Rightarrow> map_option (\<lambda>r. cDelimiter # t @ r) (SipParameterList_Encode pParameterComponent cDelimiter ps))"

text \<open>The decoder keeps what it decoded in front of a failure.\<close>

function decode_params :: "component \<Rightarrow> char \<Rightarrow> string \<Rightarrow> SipParameterList \<Rightarrow> bool \<times> SipParameterList" where
  "decode_params pParameterComponent cDelimiter p ps =
     (let pos = SipFindActualPos p cDelimiter
      in case SipNameValue_Decode pParameterComponent (case pos of None \<Rightarrow> p | Some (a, b) \<Rightarrow> a) of
           None \<Rightarrow> (False, ps)
         | Some nv \<Rightarrow>
             (case pos of
                None \<Rightarrow> (True, ps @ [nv])
              | Some (a, b) \<Rightarrow>
                  if b = [] then (False, ps @ [nv])
                  else decode_params pParameterComponent cDelimiter b (ps @ [nv])))"
  by pat_completeness auto

termination
  by (relation "measure (\<lambda>(c, d, p, ps). length p)") (auto dest: SipFindActualPos_rest [OF sym])

declare decode_params.simps [simp del]

definition SipParameterList_Decode ::
  "component \<Rightarrow> char \<Rightarrow> string \<Rightarrow> SipParameterList \<Rightarrow> bool \<times> SipParameterList" where
  "SipParameterList_Decode pParameterComponent cDelimiter p ps =
     (if p = [] \<or> p = [CHR 0x00] then (False, ps) else decode_params pParameterComponent cDelimiter p ps)"

subsection \<open>Texts without a delimiter outside quotation marks\<close>

definition scan_step :: "char \<Rightarrow> bool \<times> char \<Rightarrow> bool \<times> char" where
  "scan_step c st = (if c = CHR 0x22 \<and> snd st \<noteq> CHR 0x5C then \<not> fst st else fst st, c)"

lemma find_delimiter_append:
  "find_delimiter d q prev (a @ b) =
     (case find_delimiter d q prev a of
        Some k \<Rightarrow> Some k
      | None \<Rightarrow> map_option ((+) (length a))
          (find_delimiter d (fst (fold scan_step a (q, prev))) (snd (fold scan_step a (q, prev))) b))"
proof (induction a arbitrary: q prev)
  case Nil
  have "map_option ((+) 0) r = r" for r :: "nat option" by (cases r) simp_all
  then show ?case by simp
next
  case (Cons c a)
  have map: "map_option Suc (map_option ((+) n) r) = map_option ((+) (Suc n)) r" for n r by (cases r) simp_all
  show ?case
    by (auto simp: Cons scan_step_def Let_def map split: option.split)
qed

definition neutral :: "char \<Rightarrow> string \<Rightarrow> bool" where
  "neutral d t \<longleftrightarrow>
     (\<forall>prev. prev \<noteq> CHR 0x5C \<longrightarrow> find_delimiter d False prev t = None \<and>
        (\<exists>prev'. fold scan_step t (False, prev) = (False, prev') \<and> prev' \<noteq> CHR 0x5C))"

lemma neutralD:
  assumes "neutral d t" "prev \<noteq> CHR 0x5C"
  obtains prev' where "find_delimiter d False prev t = None" "fold scan_step t (False, prev) = (False, prev')" "prev' \<noteq> CHR 0x5C"
  using assms unfolding neutral_def by blast

lemma neutral_Nil [simp]: "neutral d []"
  by (simp add: neutral_def)

lemma neutral_append: "neutral d a \<Longrightarrow> neutral d b \<Longrightarrow> neutral d (a @ b)"
  unfolding neutral_def by (fastforce simp: find_delimiter_append)

lemma neutral_single: "c \<noteq> d \<Longrightarrow> c \<noteq> CHR 0x22 \<Longrightarrow> c \<noteq> CHR 0x5C \<Longrightarrow> neutral d [c]"
  by (simp add: neutral_def scan_step_def)

lemma neutral_Cons: "c \<noteq> d \<Longrightarrow> c \<noteq> CHR 0x22 \<Longrightarrow> c \<noteq> CHR 0x5C \<Longrightarrow> neutral d t \<Longrightarrow> neutral d (c # t)"
  using neutral_append [OF neutral_single, of c d t] by simp

lemma neutral_plain: "\<forall>c\<in>set t. c \<noteq> d \<and> c \<noteq> CHR 0x22 \<and> c \<noteq> CHR 0x5C \<Longrightarrow> neutral d t"
  by (induction t) (auto intro: neutral_Cons)

lemma inside_quotes:
  "\<forall>c\<in>set t. c \<noteq> CHR 0x22 \<and> c \<noteq> CHR 0x5C \<Longrightarrow> prev \<noteq> CHR 0x5C \<Longrightarrow>
   find_delimiter d True prev t = None \<and> (\<exists>prev'. fold scan_step t (True, prev) = (True, prev') \<and> prev' \<noteq> CHR 0x5C)"
  by (induction t arbitrary: prev) (auto simp: scan_step_def)

lemma neutral_quoted:
  assumes "\<forall>c\<in>set t. c \<noteq> CHR 0x22 \<and> c \<noteq> CHR 0x5C" "d \<noteq> CHR 0x22"
  shows "neutral d (CHR 0x22 # t @ [CHR 0x22])"
  unfolding neutral_def
proof (intro allI impI)
  fix prev :: char assume "prev \<noteq> CHR 0x5C"
  obtain prev' where "find_delimiter d True (CHR 0x22) t = None" "fold scan_step t (True, CHR 0x22) = (True, prev')" "prev' \<noteq> CHR 0x5C"
    using inside_quotes [OF assms(1), of "CHR 0x22" d] by auto
  then show "find_delimiter d False prev (CHR 0x22 # t @ [CHR 0x22]) = None \<and>
      (\<exists>prev'. fold scan_step (CHR 0x22 # t @ [CHR 0x22]) (False, prev) = (False, prev') \<and> prev' \<noteq> CHR 0x5C)"
    using \<open>prev \<noteq> CHR 0x5C\<close> assms(2) by (simp add: find_delimiter_append scan_step_def)
qed

lemma find_delimiter_start: "p \<noteq> [] \<Longrightarrow> find_delimiter d q (hd p) p = find_delimiter d q (CHR 0x00) p"
  by (cases p) (auto simp: Let_def)

lemma find_neutral:
  assumes "neutral d a" "d \<noteq> CHR 0x22"
  shows "find_delimiter d False (CHR 0x00) (a @ d # b) = Some (length a)" "find_delimiter d False (CHR 0x00) a = None"
proof -
  obtain prev' where "find_delimiter d False (CHR 0x00) a = None" "fold scan_step a (False, CHR 0x00) = (False, prev')"
    by (rule neutralD [OF assms(1), of "CHR 0x00"]) auto
  then show "find_delimiter d False (CHR 0x00) (a @ d # b) = Some (length a)" "find_delimiter d False (CHR 0x00) a = None"
    using assms(2) by (auto simp: find_delimiter_append)
qed

text \<open>No white space or line break at the end, or at the beginning.\<close>

definition tight_end :: "string \<Rightarrow> bool" where
  "tight_end t \<longleftrightarrow> t = [] \<or> (\<not> IS_WSP (last t) \<and> last t \<noteq> CHR 0x0A)"

definition tight_begin :: "string \<Rightarrow> bool" where
  "tight_begin t \<longleftrightarrow> t = [] \<or> (\<not> IS_WSP (hd t) \<and> hd t \<noteq> CHR 0x0D)"

lemma SipSkipRwLWS_tight: "tight_end t \<Longrightarrow> SipSkipRwLWS t = t"
proof -
  assume t: "tight_end t"
  then have "skip_rw_wsp t = t" by (subst skip_rw_wsp.simps) (auto simp: tight_end_def)
  then show ?thesis using t
    by (cases t rule: rev_cases) (auto simp: SipSkipRwLWS_def tight_end_def IS_CRLF_def nth_append Let_def)
qed

lemma SipSkipFwLWS_tight: "tight_begin t \<Longrightarrow> SipSkipFwLWS t = t"
  by (cases t) (auto simp: SipSkipFwLWS_def tight_begin_def IS_CRLF_def Let_def)

lemma FindActualPos_neutral:
  assumes "neutral d a" "d \<noteq> CHR 0x22" "d \<noteq> CHR ''>''" "d \<noteq> CHR ''<''"
  shows "tight_end a \<Longrightarrow> tight_begin b \<Longrightarrow> SipFindActualPos (a @ d # b) d = Some (a, b)"
    and "SipFindActualPos a d = None"
  using find_neutral [OF assms(1,2)] assms(3,4)
  by (auto simp: SipFindActualPos_def find_delimiter_start SipSkipRwLWS_tight SipSkipFwLWS_tight)

lemma FindPreDelimiter_neutral:
  assumes "neutral d a" "d \<noteq> CHR 0x22"
  shows "SipFindPreDelimiter (a @ d # b) d = Some (a, b)" and "SipFindPreDelimiter a d = None"
  using find_neutral [OF assms] by (auto simp: SipFindPreDelimiter_def find_delimiter_start)

subsection \<open>Round trip\<close>

definition plain_char :: "char \<Rightarrow> bool" where
  "plain_char c \<longleftrightarrow> c \<notin> {CHR 0x00, CHR 0x22, CHR 0x5C, CHR '';'', CHR '','', CHR ''='', CHR '' '', CHR 0x09, CHR 0x0D, CHR 0x0A}"

definition quoted_text :: "string \<Rightarrow> bool" where
  "quoted_text v \<longleftrightarrow> (\<exists>t. v = CHR 0x22 # t @ [CHR 0x22] \<and> (\<forall>c\<in>set t. c \<noteq> CHR 0x22 \<and> c \<noteq> CHR 0x5C \<and> c \<noteq> CHR 0x00))"

text \<open>A word of plain characters, or a quoted text.\<close>

definition param_word :: "string \<Rightarrow> bool" where
  "param_word v \<longleftrightarrow> v \<noteq> [] \<and> ((\<forall>c\<in>set v. plain_char c) \<or> quoted_text v)"

lemma param_word_D:
  assumes "param_word v"
  shows "v \<noteq> []" "c_string v = v" "tight_begin v" "tight_end v"
    and "d \<in> {CHR '';'', CHR '','', CHR ''=''} \<Longrightarrow> neutral d v"
proof -
  show "v \<noteq> []" using assms by (simp add: param_word_def)
  consider (plain) "v \<noteq> []" "\<forall>c\<in>set v. plain_char c" | (quoted) t where "v = CHR 0x22 # t @ [CHR 0x22]"
      "\<forall>c\<in>set t. c \<noteq> CHR 0x22 \<and> c \<noteq> CHR 0x5C \<and> c \<noteq> CHR 0x00"
    using assms unfolding param_word_def quoted_text_def by blast
  then have "CHR 0x00 \<notin> set v \<and> tight_begin v \<and> tight_end v \<and>
      (d \<in> {CHR '';'', CHR '','', CHR ''=''} \<longrightarrow> neutral d v)"
  proof cases
    case plain
    then have "hd v \<in> set v" "last v \<in> set v" by simp_all
    with plain show ?thesis
      by (auto simp: plain_char_def tight_begin_def tight_end_def IS_WSP_def intro!: neutral_plain)
  next
    case quoted
    then show ?thesis by (auto simp: tight_begin_def tight_end_def IS_WSP_def intro!: neutral_quoted)
  qed
  then show "c_string v = v" "tight_begin v" "tight_end v" "d \<in> {CHR '';'', CHR '','', CHR ''=''} \<Longrightarrow> neutral d v"
    by (simp_all add: c_string_id)
qed

lemma param_word_hd:
  assumes "param_word v"
  shows "hd v \<noteq> CHR 0x00"
proof (cases "quoted_text v")
  case True
  then obtain t where "v = CHR 0x22 # t @ [CHR 0x22]" unfolding quoted_text_def by blast
  then show ?thesis by simp
next
  case False
  then have "v \<noteq> []" "\<forall>c\<in>set v. plain_char c" using assms by (simp_all add: param_word_def)
  then have "plain_char (hd v)" by simp
  then have "hd v \<notin> {CHR 0x00, CHR 0x22, CHR 0x5C, CHR '';'', CHR '','', CHR ''='', CHR '' '', CHR 0x09, CHR 0x0D, CHR 0x0A}"
    unfolding plain_char_def .
  then show ?thesis by (metis insertI1)
qed

definition wf_param :: "SipNameValue \<Rightarrow> bool" where
  "wf_param nv \<longleftrightarrow> (\<exists>name. m_pszName nv = Some name \<and> param_word name) \<and> (\<forall>v\<in>set (m_valueList nv). param_word v) \<and>
     m_ePrmType nv = GENERIC \<and> m_Sep nv = CHR '',''"

lemma decode_values_join:
  "vs \<noteq> [] \<Longrightarrow> \<forall>v\<in>set vs. param_word v \<Longrightarrow> decode_values (join_values (CHR '','') vs) acc = Some (acc @ vs)"
proof (induction "CHR '',''" vs arbitrary: acc rule: join_values.induct)
  case (2 v)
  then have v: "v \<noteq> []" "c_string v = v" "neutral (CHR '','') v" using param_word_D(1-4) [of v] param_word_D(5) [of v "CHR '',''"] by auto
  then have "SipFindPreDelimiter v (CHR '','') = None" by (simp add: FindPreDelimiter_neutral(2))
  with v show ?case by (subst decode_values.simps) (simp add: SipCreateString_def)
next
  case (3 v w vs)
  then have v: "v \<noteq> []" "c_string v = v" "neutral (CHR '','') v" using param_word_D(1-4) [of v] param_word_D(5) [of v "CHR '',''"] by auto
  then have "SipFindPreDelimiter (v @ CHR '','' # join_values (CHR '','') (w # vs)) (CHR '','') =
      Some (v, join_values (CHR '','') (w # vs))"
    by (simp add: FindPreDelimiter_neutral(1))
  with v 3 show ?case by (subst decode_values.simps) (simp add: SipCreateString_def)
qed simp

lemma join_values_tight:
  assumes "vs \<noteq> []" "\<forall>v\<in>set vs. param_word v"
  shows "join_values (CHR '','') vs \<noteq> []" "tight_begin (join_values (CHR '','') vs)" "tight_end (join_values (CHR '','') vs)"
    and "neutral (CHR '';'') (join_values (CHR '','') vs)"
proof -
  have "join_values (CHR '','') vs \<noteq> [] \<and> tight_begin (join_values (CHR '','') vs) \<and>
      tight_end (join_values (CHR '','') vs) \<and> neutral (CHR '';'') (join_values (CHR '','') vs)"
    using assms
  proof (induction "CHR '',''" vs rule: join_values.induct)
    case (2 v)
    then show ?case using param_word_D(1-4) [of v] param_word_D(5) [of v "CHR '';''"] by simp
  next
    case (3 v w vs)
    then have v: "v \<noteq> []" "tight_begin v" "neutral (CHR '';'') v" using param_word_D(1-4) [of v] param_word_D(5) [of v "CHR '';''"] by auto
    have "neutral (CHR '';'') (CHR '','' # join_values (CHR '','') (w # vs))" using 3 by (intro neutral_Cons) auto
    with v 3 show ?case by (auto simp: tight_begin_def tight_end_def intro: neutral_append)
  qed simp
  then show "join_values (CHR '','') vs \<noteq> []" "tight_begin (join_values (CHR '','') vs)"
    "tight_end (join_values (CHR '','') vs)" "neutral (CHR '';'') (join_values (CHR '','') vs)" by simp_all
qed

lemma param_text:
  assumes "wf_param nv"
  obtains t where "SipNameValue_Encode None nv = Some t" "t \<noteq> []" "tight_begin t" "tight_end t" "neutral (CHR '';'') t"
    "SipNameValue_Decode None t = Some nv" "hd t \<noteq> CHR 0x00" "length (m_valueList nv) \<le> 1 \<Longrightarrow> neutral (CHR '','') t"
proof -
  obtain name where name: "m_pszName nv = Some name" "param_word name" using assms unfolding wf_param_def by blast
  have vs: "\<forall>v\<in>set (m_valueList nv). param_word v" "m_ePrmType nv = GENERIC" "m_Sep nv = CHR '',''"
    using assms unfolding wf_param_def by auto
  have nv: "SipNameValue_new\<lparr>m_pszName := Some name, m_valueList := m_valueList nv\<rparr> = nv"
    using name vs by (simp add: SipNameValue_new_def)
  have n: "name \<noteq> []" "c_string name = name" "tight_begin name" "tight_end name" "neutral (CHR ''='') name" "neutral (CHR '';'') name"
    "neutral (CHR '','') name"
    using param_word_D(1-4) [OF name(2)] param_word_D(5) [OF name(2), of "CHR ''=''"] param_word_D(5) [OF name(2), of "CHR '';''"]
      param_word_D(5) [OF name(2), of "CHR '',''"] by auto
  have hd: "hd name \<noteq> CHR 0x00" using param_word_hd [OF name(2)] .
  show thesis
  proof (cases "m_valueList nv = []")
    case True
    have "SipFindActualPos name (CHR ''='') = None" using n by (simp add: FindActualPos_neutral(2))
    then have "SipNameValue_Decode None name = Some nv"
      using n name True nv by (simp add: SipNameValue_Decode_def SipCreateString_def SipNameValue_new_def Let_def)
    moreover have "SipNameValue_Encode None nv = Some name" using name True by (simp add: SipNameValue_Encode_def)
    ultimately show thesis using that n hd by blast
  next
    case False
    let ?j = "join_values (CHR '','') (m_valueList nv)"
    note j = join_values_tight [OF False vs(1)]
    have "SipFindActualPos (name @ CHR ''='' # ?j) (CHR ''='') = Some (name, ?j)"
      using n j by (intro FindActualPos_neutral(1)) auto
    then have "SipNameValue_Decode None (name @ CHR ''='' # ?j) = Some nv"
      using n nv decode_values_join [OF False vs(1), of "[]"]
      by (simp add: SipNameValue_Decode_def SipCreateString_def percent_coded_def Let_def)
    moreover have "SipNameValue_Encode None nv = Some (name @ CHR ''='' # ?j)"
      using name False vs by (simp add: SipNameValue_Encode_def percent_coded_def)
    moreover have "neutral (CHR '';'') (CHR ''='' # ?j)" using j by (intro neutral_Cons) auto
    then have "neutral (CHR '';'') (name @ CHR ''='' # ?j)" using n by (intro neutral_append)
    moreover have "tight_begin (name @ CHR ''='' # ?j)" "tight_end (name @ CHR ''='' # ?j)"
      using n j by (auto simp: tight_begin_def tight_end_def)
    moreover have "hd (name @ CHR ''='' # ?j) \<noteq> CHR 0x00" using n hd by simp
    moreover have "neutral (CHR '','') (name @ CHR ''='' # ?j)" if len: "length (m_valueList nv) \<le> 1"
    proof -
      obtain v where v: "m_valueList nv = [v]" using len False by (cases "m_valueList nv") (auto simp: le_Suc_eq)
      then have "neutral (CHR '','') (CHR ''='' # v)" using vs(1) param_word_D(5) [of v "CHR '',''"] by (intro neutral_Cons) auto
      then show ?thesis using n v by (auto intro: neutral_append)
    qed
    ultimately show thesis using that by blast
  qed
qed

text \<open>A list of parameters begins with its delimiter; the decoder is called behind it.\<close>

lemma SipParameterList_roundtrip:
  assumes "ps \<noteq> []" "\<forall>nv\<in>set ps. wf_param nv"
  shows "\<exists>t. SipParameterList_Encode None (CHR '';'') ps = Some (CHR '';'' # t) \<and> t \<noteq> [] \<and> tight_begin t \<and> tight_end t \<and>
    decode_params None (CHR '';'') t acc = (True, acc @ ps) \<and> hd t \<noteq> CHR 0x00 \<and>
    ((\<forall>nv\<in>set ps. length (m_valueList nv) \<le> 1) \<longrightarrow> neutral (CHR '','') t)"
  using assms
proof (induction ps arbitrary: acc)
  case (Cons nv ps)
  obtain t where t: "SipNameValue_Encode None nv = Some t" "t \<noteq> []" "tight_begin t" "tight_end t" "neutral (CHR '';'') t"
    "SipNameValue_Decode None t = Some nv" "hd t \<noteq> CHR 0x00" "length (m_valueList nv) \<le> 1 \<Longrightarrow> neutral (CHR '','') t"
    using Cons.prems param_text [of nv] by auto
  show ?case
  proof (cases "ps = []")
    case True
    have "SipFindActualPos t (CHR '';'') = None" using t by (simp add: FindActualPos_neutral(2))
    then show ?thesis using t True by (subst decode_params.simps) simp
  next
    case False
    then obtain r where r: "SipParameterList_Encode None (CHR '';'') ps = Some (CHR '';'' # r)" "r \<noteq> []" "tight_begin r"
      "tight_end r" "decode_params None (CHR '';'') r (acc @ [nv]) = (True, (acc @ [nv]) @ ps)"
      "(\<forall>nv\<in>set ps. length (m_valueList nv) \<le> 1) \<longrightarrow> neutral (CHR '','') r"
      using Cons.IH [of "acc @ [nv]"] Cons.prems by auto
    have "SipFindActualPos (t @ CHR '';'' # r) (CHR '';'') = Some (t, r)"
      using t r by (intro FindActualPos_neutral(1)) auto
    then have "decode_params None (CHR '';'') (t @ CHR '';'' # r) acc = (True, acc @ nv # ps)"
      using t r by (subst decode_params.simps) simp
    moreover have "SipParameterList_Encode None (CHR '';'') (nv # ps) = Some (CHR '';'' # t @ CHR '';'' # r)"
      using t r by simp
    moreover have "neutral (CHR '','') (t @ CHR '';'' # r)" if "\<forall>x\<in>set (nv # ps). length (m_valueList x) \<le> 1"
    proof -
      have "neutral (CHR '','') (CHR '';'' # r)" using that r(6) by (intro neutral_Cons) auto
      then show ?thesis using that t(8) by (auto intro: neutral_append)
    qed
    ultimately show ?thesis using t r by (auto simp: tight_begin_def tight_end_def)
  qed
qed simp

end
