(* ===== verification/Sip_HeaderTypes.thy ===== *)
theory Sip_HeaderTypes
  imports Sip_Params
begin

text \<open>
  The types of SIP headers: their names, what each type allows and which class decodes it
  (\<open>protocol/sip/msg/SipMsgUtil.cpp\<close>, \<open>SipHeaderBase.cpp\<close>, \<open>SipHeaders.cpp\<close>). A type is its number;
  the tables are in the order of \<open>SipHeaderBase\<close>'s enumeration.
\<close>

abbreviation (input) TYPE_INVALID :: int where "TYPE_INVALID \<equiv> -1"
abbreviation (input) ALLOW :: int where "ALLOW \<equiv> 0"
abbreviation (input) CONTACT :: int where "CONTACT \<equiv> 4"
abbreviation (input) CONTENT_LENGTH :: int where "CONTENT_LENGTH \<equiv> 9"
abbreviation (input) EXPIRES_SEC :: int where "EXPIRES_SEC \<equiv> 14"
abbreviation (input) MAX_FORWARDS :: int where "MAX_FORWARDS \<equiv> 19"
abbreviation (input) MIN_SE :: int where "MIN_SE \<equiv> 24"
abbreviation (input) ACCEPT_CONTACT :: int where "ACCEPT_CONTACT \<equiv> 35"
abbreviation (input) REJECT_CONTACT :: int where "REJECT_CONTACT \<equiv> 36"
abbreviation (input) REQUIRE :: int where "REQUIRE \<equiv> 47"
abbreviation (input) SESSION_EXPIRES :: int where "SESSION_EXPIRES \<equiv> 53"
abbreviation (input) SUPPORTED :: int where "SUPPORTED \<equiv> 55"
abbreviation (input) UNKNOWN :: int where "UNKNOWN \<equiv> 62"
abbreviation (input) RETRY_AFTER_SEC :: int where "RETRY_AFTER_SEC \<equiv> 64"
abbreviation (input) AUTHENTICATION_INFO :: int where "AUTHENTICATION_INFO \<equiv> 74"
abbreviation (input) RESPONSE_KEY :: int where "RESPONSE_KEY \<equiv> 96"
abbreviation (input) FEATURE_CAPS :: int where "FEATURE_CAPS \<equiv> 103"
abbreviation (input) GEOLOCATION_ERROR :: int where "GEOLOCATION_ERROR \<equiv> 105"
abbreviation (input) TYPE_END :: int where "TYPE_END \<equiv> 115"

subsection \<open>Tables\<close>

definition gaszSipHdr :: "string list" where
  "gaszSipHdr =
     [
      ''Allow'', ''Allow-Events'', ''Authorization'', ''Call-ID'', ''Contact'', ''Contact'',
      ''Contact'', ''Content-Disposition'', ''Content-Encoding'', ''Content-Length'', ''Content-Type'',
      ''CSeq'', ''Event'', ''Expires'', ''Expires'', ''Expires'', ''Accept'', ''Min-Expires'',
      ''From'', ''Max-Forwards'', ''MIME-Version'', ''Privacy'', ''P-Preferred-Identity'',
      ''P-Asserted-Identity'', ''Min-SE'', ''Path'', ''P-Associated-URI'', ''P-Called-Party-ID'',
      ''P-Visited-Network-ID'', ''P-Charging-Function-Addresses'', ''P-Access-Network-Info'',
      ''P-Charging-Vector'', ''Service-Route'', ''History-Info'', ''Request-Disposition'',
      ''Accept-Contact'', ''Reject-Contact'', ''Join'', ''SIP-If-Match'', ''SIP-ETag'',
      ''Proxy-Authenticate'', ''Proxy-Authorization'', ''RAck'', ''Record-Route'', ''Referred-By'',
      ''Refer-To'', ''Replaces'', ''Require'', ''Route'', ''RSeq'', ''Security-Client'',
      ''Security-Verify'', ''Security-Server'', ''Session-Expires'', ''Subscription-State'',
      ''Supported'', ''Timestamp'', ''To'', ''Unsupported'', ''Via'', ''Warning'',
      ''WWW-Authenticate'', ''Unknown'', ''Retry-After'', ''Retry-After'', ''Retry-After'',
      ''P-Early-Media'', ''Resource-Priority'', ''Accept-Resource-Priority'', ''Date'',
      ''Accept-Encoding'', ''Accept-Language'', ''Alert-Info'', ''Answer-Mode'',
      ''Authentication-Info'', ''Call-Info'', ''Content-Language'', ''Error-Info'', ''Flow-Timer'',
      ''Identity'', ''Identity-Info'', ''In-Reply-To'', ''Organization'', ''P-Answer-State'',
      ''Permission-Missing'', ''P-Media-Authorization'', ''P-Profile-Key'', ''P-Refused-URI-List'',
      ''Priority'', ''Priv-Answer-Mode'', ''Proxy-Require'', ''P-Served-User'', ''P-User-Database'',
      ''Reason'', ''Refer-Sub'', ''Reply-To'', ''Response-Key'', ''Server'', ''Subject'',
      ''Suppress-If-Match'', ''Target-Dialog'', ''Trigger-Consent'', ''User-Agent'', ''Feature-Caps'',
      ''Geolocation'', ''Geolocation-Error'', ''Geolocation-Routing'', ''Info-Package'',
      ''Max-Breadth'', ''P-Asserted-Service'', ''Policy-Contact'', ''Policy-ID'',
      ''P-Preferred-Service'', ''Recv-Info'', ''Session-ID'', ''UNKNOWN''
     ]"

text \<open>Whether the body may be empty, and whether the type holds several values.\<close>

definition gHeaderAttributes :: "(bool \<times> bool) list" where
  "gHeaderAttributes =
     [
      (True, True), (False, True), (False, False), (False, False), (False, True), (False, True),
      (False, True), (False, False), (False, True), (False, False), (False, False), (False, False),
      (False, False), (False, False), (False, False), (False, False), (True, True), (False, False),
      (False, False), (False, False), (False, False), (False, False), (False, True), (False, True),
      (False, False), (False, True), (True, True), (False, False), (False, True), (False, True),
      (False, True), (False, False), (False, True), (False, True), (False, True), (False, True),
      (False, True), (False, False), (False, False), (False, False), (False, False), (False, False),
      (False, False), (False, True), (False, False), (False, False), (False, False), (False, True),
      (False, True), (False, False), (False, True), (False, True), (False, True), (False, False),
      (False, False), (True, True), (False, False), (False, False), (False, True), (False, True),
      (False, True), (False, False), (True, True), (False, False), (False, False), (False, False),
      (True, True), (False, True), (True, True), (False, False), (True, True), (True, True),
      (False, True), (False, False), (False, True), (False, True), (False, True), (False, True),
      (False, False), (False, False), (False, False), (False, True), (True, False), (False, False),
      (False, True), (False, True), (False, False), (False, True), (False, False), (False, False),
      (False, True), (False, False), (False, False), (False, True), (False, False), (False, False),
      (False, False), (False, False), (True, False), (False, False), (False, False), (False, True),
      (False, False), (False, True), (False, True), (False, False), (False, False), (False, False),
      (False, False), (False, True), (False, True), (False, True), (False, True), (True, True),
      (False, False)
     ]"

text \<open>
  The class whose \<open>GetNewObj\<close> stands in the factory table: the base class, integers, headers of
  unknown name, a class with a syntax of its own, or a null pointer.
\<close>

datatype hdr_class = HeaderBase | IntegerHeader | UnknownHeader | OtherClass | NoClass

definition gaFactoryArray :: "hdr_class list" where
  "gaFactoryArray =
     [
      HeaderBase, OtherClass, OtherClass, HeaderBase, OtherClass, OtherClass, OtherClass, HeaderBase, HeaderBase, IntegerHeader, OtherClass,
      OtherClass, OtherClass, IntegerHeader, IntegerHeader, IntegerHeader, OtherClass, IntegerHeader, OtherClass, IntegerHeader, HeaderBase, OtherClass, OtherClass,
      OtherClass, IntegerHeader, OtherClass, OtherClass, OtherClass, OtherClass, OtherClass, HeaderBase, OtherClass,
      OtherClass, OtherClass, OtherClass, HeaderBase, HeaderBase, HeaderBase, HeaderBase, HeaderBase, OtherClass, OtherClass, OtherClass,
      OtherClass, OtherClass, OtherClass, HeaderBase, HeaderBase, OtherClass, IntegerHeader, HeaderBase, HeaderBase, HeaderBase, IntegerHeader, HeaderBase, HeaderBase, OtherClass,
      OtherClass, HeaderBase, OtherClass, OtherClass, OtherClass, UnknownHeader, OtherClass, OtherClass, OtherClass, HeaderBase,
      OtherClass, OtherClass, OtherClass, HeaderBase, HeaderBase, OtherClass, HeaderBase, OtherClass, OtherClass, HeaderBase,
      OtherClass, IntegerHeader, OtherClass, OtherClass, HeaderBase, HeaderBase, HeaderBase, OtherClass, HeaderBase, OtherClass, OtherClass, HeaderBase,
      HeaderBase, HeaderBase, OtherClass, OtherClass, HeaderBase, OtherClass, OtherClass, NoClass, OtherClass, HeaderBase, HeaderBase, HeaderBase,
      OtherClass, OtherClass, HeaderBase, OtherClass, IntegerHeader, OtherClass, HeaderBase, IntegerHeader, OtherClass, OtherClass,
      OtherClass, OtherClass, HeaderBase, HeaderBase, NoClass
     ]"

definition gaszSipContentHdr :: "string list" where
  "gaszSipContentHdr =
     [''Content-Type'', ''Content-Disposition'', ''Content-Encoding'', ''Content-ID'', ''Content-Description'']"

definition gaszSipHdrCompact :: string where
  "gaszSipHdrCompact = ''abcdefijklmnorstuvxy''"

definition gaszSipHdrCompactEnum :: "int list" where
  "gaszSipHdrCompactEnum = [35, 44, 10, 34, 8, 18, 3, 36, 55, 9, 4, 80, 12, 45, 98, 57, 1, 59, 53, 79]"

definition empty_allowed :: "int \<Rightarrow> bool" where
  "empty_allowed eHdrType = fst (gHeaderAttributes ! nat eHdrType)"

definition IsMultiValueHeader :: "int \<Rightarrow> bool" where
  "IsMultiValueHeader eHdrType = snd (gHeaderAttributes ! nat eHdrType)"

definition factory :: "int \<Rightarrow> hdr_class" where
  "factory eHdrType = gaFactoryArray ! nat eHdrType"

definition IsHeaderTypeValid :: "int \<Rightarrow> bool" where
  "IsHeaderTypeValid eHdrType \<longleftrightarrow> eHdrType > TYPE_INVALID \<and> eHdrType < TYPE_END"

definition IsListHdr :: "int \<Rightarrow> bool" where
  "IsListHdr eHdrType \<longleftrightarrow> \<not> (eHdrType < 0 \<or> eHdrType \<ge> TYPE_END) \<and> IsMultiValueHeader eHdrType"

definition CheckAndGetHdrEnumType :: "int \<Rightarrow> int" where
  "CheckAndGetHdrEnumType nType =
     (if nType = 15 \<or> nType = 13 then EXPIRES_SEC
      else if nType = 6 \<or> nType = 5 then CONTACT
      else if nType = 65 \<or> nType = 63 then RETRY_AFTER_SEC
      else nType)"

subsection \<open>From a name to its type\<close>

text \<open>
  The record of a length holds the types whose name has that length, in their order
  (\<open>SIPHdrAccess::Init\<close>, which has run).
\<close>

definition hdr_len_record :: "nat \<Rightarrow> (int \<times> string) list" where
  "hdr_len_record nlen =
     List.filter (\<lambda>e. length (snd e) = nlen) (zip [0..114] gaszSipHdr)"

definition GetHdrTypeCompact :: "char \<Rightarrow> int" where
  "GetHdrTypeCompact RcvdHdrName =
     (if SIP_TOLOWER RcvdHdrName = char_val (CHR ''l'') then UNKNOWN
      else
        (case find_index (\<lambda>c. char_val c = SIP_TOLOWER RcvdHdrName) gaszSipHdrCompact of
           None \<Rightarrow> UNKNOWN | Some i \<Rightarrow> gaszSipHdrCompactEnum ! i))"

definition GetHdrType_in :: "(int \<times> string) list \<Rightarrow> string \<Rightarrow> int" where
  "GetHdrType_in pHdrLenRecord name =
     (let known = (case List.find (\<lambda>e. SipPf_Stricmp (Some (snd e)) (Some name) = SIP_EQUALS) pHdrLenRecord of
        None \<Rightarrow> UNKNOWN | Some e \<Rightarrow> fst e)
      in if length name \<ge> 32 then UNKNOWN
         else if length name = 1 then GetHdrTypeCompact (hd name)
         else if SipPf_Strnicmp (Some name) (Some ''Content'') 7 = SIP_EQUALS then
           (if \<exists>c\<in>set gaszSipContentHdr. SipPf_Stricmp (Some c) (Some name) = SIP_EQUALS then known else UNKNOWN)
         else if SipPf_Strnicmp (Some name) (Some ''Expires'') 7 = SIP_EQUALS then EXPIRES_SEC
         else if SipPf_Strnicmp (Some name) (Some ''Retry-After'') 11 = SIP_EQUALS then RETRY_AFTER_SEC
         else known)"

definition GetHdrType :: "cstr \<Rightarrow> int" where
  "GetHdrType pszRcvdHdrName =
     (case pszRcvdHdrName of
        None \<Rightarrow> TYPE_INVALID | Some name \<Rightarrow> GetHdrType_in (hdr_len_record (length name)) name)"

subsection \<open>From a type to its name\<close>

text \<open>A name in full or in short form, with the colon and space behind it.\<close>

definition short_name :: "int \<Rightarrow> string" where
  "short_name eHdrType =
     (if eHdrType = 59 then ''v'' else if eHdrType = 57 then ''t'' else if eHdrType = 18 then ''f''
      else if eHdrType = 3 then ''i'' else if eHdrType = 4 \<or> eHdrType = 5 \<or> eHdrType = 6 then ''m''
      else if eHdrType = 10 then ''c'' else if eHdrType = 9 then ''l'' else if eHdrType = 35 then ''a''
      else if eHdrType = 53 then ''x'' else if eHdrType = 55 then ''k'' else if eHdrType = 34 then ''d''
      else if eHdrType = 44 then ''b'' else if eHdrType = 45 then ''r'' else if eHdrType = 8 then ''e''
      else if eHdrType = 98 then ''s'' else if eHdrType = 36 then ''j'' else if eHdrType = 12 then ''o''
      else if eHdrType = 1 then ''u'' else if eHdrType = 79 then ''y'' else if eHdrType = 80 then ''n''
      else gaszSipHdr ! nat eHdrType)"

definition SipEncodeShortHdrName :: "int \<Rightarrow> string" where
  "SipEncodeShortHdrName eHdrType =
     (if eHdrType < 0 \<or> eHdrType \<ge> TYPE_END then [] else short_name eHdrType @ '': '')"

definition SipEncodeHdrName :: "int \<Rightarrow> bool \<Rightarrow> string" where
  "SipEncodeHdrName eHdrType short_form =
     (if eHdrType < 0 \<or> eHdrType \<ge> TYPE_END then []
      else if short_form then SipEncodeShortHdrName eHdrType
      else gaszSipHdr ! nat eHdrType @ '': '')"

text \<open>
  The types whose written name is read as an unknown header: \<open>Content-Length\<close>, left to the framing,
  \<open>Content-Language\<close>, which the list of content headers does not have, and \<open>Unknown\<close> itself. Every
  other name, written in full or in short form, is read as its type.
\<close>

definition read_as_unknown :: "int \<Rightarrow> bool" where
  "read_as_unknown eHdrType \<longleftrightarrow> eHdrType = CONTENT_LENGTH \<or> eHdrType = 76 \<or> eHdrType = UNKNOWN"

lemma strncmp_loop_eq_0:
  "strncmp_loop f a b n = 0 \<longleftrightarrow> n \<le> length a \<and> n \<le> length b \<and> take n (map f a) = take n (map f b)"
  by (induction f a b n rule: strncmp_loop.induct) auto

lemma SipPf_Strnicmp_prefix:
  assumes "length p = unat n" "n \<noteq> 0"
  shows "SipPf_Strnicmp (Some s) (Some p) n = SIP_EQUALS \<longleftrightarrow> take (unat n) (lower s) = lower p"
proof -
  have "length p \<le> length s" if "take (length p) (lower s) = lower p"
    using arg_cong [OF that, of length] by (simp add: lower_def)
  then show ?thesis unfolding assms(1) [symmetric] using assms by (auto simp: SipPf_Strnicmp_def strncmp_loop_eq_0 lower_def)
qed

text \<open>
  The lookup on names in lower case, with checkers written as recursions so that they evaluate on
  closed lists only.
\<close>

fun known_lower :: "(int \<times> int list) list \<Rightarrow> int list \<Rightarrow> int" where
  "known_lower [] l = UNKNOWN"
| "known_lower ((t, x) # r) l = (if x = l then t else known_lower r l)"

definition read_lower :: "(int \<times> int list) list \<Rightarrow> int list \<Rightarrow> int" where
  "read_lower r l =
     (if take 7 l = lower ''Content'' then (if l \<in> set (map lower gaszSipContentHdr) then known_lower r l else UNKNOWN)
      else if take 7 l = lower ''Expires'' then EXPIRES_SEC
      else if take 11 l = lower ''Retry-After'' then RETRY_AFTER_SEC
      else known_lower r l)"

fun lower_record :: "(int \<times> string) list \<Rightarrow> (int \<times> int list) list" where
  "lower_record [] = []"
| "lower_record ((t, s) # r) = (t, lower s) # lower_record r"

lemma known_lower_D: "(case List.find (\<lambda>e. lower (snd e) = lower s) r of None \<Rightarrow> UNKNOWN | Some e \<Rightarrow> fst e) =
    known_lower (lower_record r) (lower s)"
  by (induction r rule: lower_record.induct) auto

lemma GetHdrType_in_lower:
  assumes "length s \<noteq> 1" "length s < 32"
  shows "GetHdrType_in r s = read_lower (lower_record r) (lower s)"
proof -
  have eq: "SipPf_Stricmp (Some x) (Some s) = SIP_EQUALS \<longleftrightarrow> lower x = lower s" for x
    by (simp add: SipPf_Stricmp_def stricmp_loop_eq_0)
  have p: "SipPf_Strnicmp (Some s) (Some ''Content'') 7 = SIP_EQUALS \<longleftrightarrow> take 7 (lower s) = lower ''Content''"
    "SipPf_Strnicmp (Some s) (Some ''Expires'') 7 = SIP_EQUALS \<longleftrightarrow> take 7 (lower s) = lower ''Expires''"
    "SipPf_Strnicmp (Some s) (Some ''Retry-After'') 11 = SIP_EQUALS \<longleftrightarrow> take 11 (lower s) = lower ''Retry-After''"
    using SipPf_Strnicmp_prefix [of "''Content''" 7 s] SipPf_Strnicmp_prefix [of "''Expires''" 7 s]
      SipPf_Strnicmp_prefix [of "''Retry-After''" 11 s] by simp_all
  have c: "(\<exists>c\<in>set gaszSipContentHdr. lower c = lower s) \<longleftrightarrow> lower s \<in> set (map lower gaszSipContentHdr)"
    by (auto simp: image_iff) metis+
  show ?thesis
    using assms unfolding GetHdrType_in_def read_lower_def Let_def eq p known_lower_D c by simp
qed

fun names_read :: "(int \<times> int list) list \<Rightarrow> (int \<times> int list) list \<Rightarrow> bool" where
  "names_read r [] \<longleftrightarrow> True"
| "names_read r ((t, l) # es) \<longleftrightarrow>
     read_lower r l = (if read_as_unknown t then UNKNOWN else CheckAndGetHdrEnumType t) \<and> names_read r es"

definition record_read :: "(int \<times> int list) list \<Rightarrow> bool" where
  "record_read r \<longleftrightarrow> names_read r r"

fun lengths_read :: "nat list \<Rightarrow> bool" where
  "lengths_read [] \<longleftrightarrow> True"
| "lengths_read (n # ns) \<longleftrightarrow> record_read (lower_record (hdr_len_record n)) \<and> lengths_read ns"

lemma read_names: "lengths_read [0..<32]"
  by code_simp

fun shorts_read :: "int list \<Rightarrow> bool" where
  "shorts_read [] \<longleftrightarrow> True"
| "shorts_read (t # ts) \<longleftrightarrow>
     (length (short_name t) = 1 \<and>
      GetHdrTypeCompact (hd (short_name t)) = (if read_as_unknown t then UNKNOWN else CheckAndGetHdrEnumType t)) \<and>
     shorts_read ts"

lemma read_short_names:
  "shorts_read [59, 57, 18, 3, 4, 5, 6, 10, 9, 35, 53, 55, 34, 44, 45, 8, 98, 36, 12, 1, 79, 80]"
  by code_simp

lemma shorts_read_D: "shorts_read ts \<Longrightarrow> t \<in> set ts \<Longrightarrow> length (short_name t) = 1 \<and>
    GetHdrTypeCompact (hd (short_name t)) = (if read_as_unknown t then UNKNOWN else CheckAndGetHdrEnumType t)"
  by (induction ts rule: shorts_read.induct) auto

lemma gaszSipHdr_length: "length gaszSipHdr = 116" "list_all (\<lambda>s. length s < 32 \<and> length s \<noteq> 1) gaszSipHdr"
  by (code_simp, code_simp)

lemma names_read_D: "names_read r es \<Longrightarrow> (t, l) \<in> set es \<Longrightarrow>
    read_lower r l = (if read_as_unknown t then UNKNOWN else CheckAndGetHdrEnumType t)"
  by (induction r es rule: names_read.induct) auto

lemma lengths_read_D: "lengths_read ns \<Longrightarrow> n \<in> set ns \<Longrightarrow> record_read (lower_record (hdr_len_record n))"
  by (induction ns rule: lengths_read.induct) auto

lemma lower_record_D: "(t, s) \<in> set r \<Longrightarrow> (t, lower s) \<in> set (lower_record r)"
  by (induction r rule: lower_record.induct) auto

lemma name_read:
  assumes "0 \<le> t" "t < TYPE_END"
  shows "GetHdrType (Some (gaszSipHdr ! nat t)) = (if read_as_unknown t then UNKNOWN else CheckAndGetHdrEnumType t)"
proof -
  let ?s = "gaszSipHdr ! nat t" let ?r = "hdr_len_record (length ?s)"
  have "zip [0..114] gaszSipHdr ! nat t = (t, ?s)" "nat t < length (zip [0..114] gaszSipHdr)"
    using assms by (simp_all add: gaszSipHdr_length)
  then have "(t, ?s) \<in> set (zip [0..114] gaszSipHdr)" by (metis nth_mem)
  then have mem: "(t, lower ?s) \<in> set (lower_record ?r)" by (intro lower_record_D) (simp add: hdr_len_record_def)
  have len: "length ?s < 32" "length ?s \<noteq> 1" using gaszSipHdr_length assms by (simp_all add: list_all_length)
  then have "record_read (lower_record ?r)" by (intro lengths_read_D [OF read_names]) simp
  then show ?thesis
    using names_read_D [OF _ mem] len by (simp add: record_read_def GetHdrType_def GetHdrType_in_lower)
qed

lemma short_name_read:
  assumes "0 \<le> t" "t < TYPE_END"
  shows "GetHdrType (Some (short_name t)) = (if read_as_unknown t then UNKNOWN else CheckAndGetHdrEnumType t)"
proof (cases "t \<in> {59, 57, 18, 3, 4, 5, 6, 10, 9, 35, 53, 55, 34, 44, 45, 8, 98, 36, 12, 1, 79, 80}")
  case True
  then have "GetHdrTypeCompact (hd (short_name t)) = (if read_as_unknown t then UNKNOWN else CheckAndGetHdrEnumType t)"
    "length (short_name t) = 1"
    using shorts_read_D [OF read_short_names, of t] by simp_all
  then show ?thesis by (simp add: GetHdrType_def GetHdrType_in_def)
next
  case False
  then have "short_name t = gaszSipHdr ! nat t" by (simp add: short_name_def)
  then show ?thesis using name_read [OF assms] by simp
qed

end
