(* ===== verification/Sip_Headers.thy ===== *)
theory Sip_Headers
  imports Sip_HeaderTypes
begin

text \<open>
  Header objects and the headers of a message (\<open>protocol/sip/msg\<close>: \<open>SipHeaderBase.cpp\<close>,
  \<open>SipIntegerHeader.cpp\<close>, \<open>SipUnknownHeader.cpp\<close>, \<open>SipHeaderList.cpp\<close>, \<open>SipHeaders.cpp\<close>). The classes
  with a syntax of their own are the parameter \<open>ops\<close>, on objects of a type \<open>'o\<close>. Memory is available;
  a call through the null entry of the factory table is \<open>None\<close>. Objects are values: the engine hands a
  header over and gives its own reference up.
\<close>

subsection \<open>Headers with a value and parameters\<close>

record SipHeaderBase =
  m_eHdrType :: int
  m_pszValue :: cstr
  m_pParameters :: "SipParameterList option"

definition SipHeaderBase_new :: "int \<Rightarrow> SipHeaderBase" where
  "SipHeaderBase_new eHdrType = \<lparr>m_eHdrType = eHdrType, m_pszValue = None, m_pParameters = None\<rparr>"

definition star_only :: "int \<Rightarrow> bool" where
  "star_only eHdrType \<longleftrightarrow> eHdrType = ACCEPT_CONTACT \<or> eHdrType = FEATURE_CAPS \<or> eHdrType = REJECT_CONTACT"

definition SipHeaderBase_SetValue :: "cstr \<Rightarrow> SipHeaderBase \<Rightarrow> bool \<times> SipHeaderBase" where
  "SipHeaderBase_SetValue pszValue h =
     (if star_only (m_eHdrType h) \<and> pszValue \<noteq> None \<and> SipPf_Strcmp pszValue (Some ''*'') \<noteq> 0 then (False, h)
      else if pszValue = None then (False, h)
      else (True, h\<lparr>m_pszValue := pszValue\<rparr>))"

definition SipHeaderBase_IsValidHeader :: "SipHeaderBase \<Rightarrow> bool" where
  "SipHeaderBase_IsValidHeader h \<longleftrightarrow> m_pszValue h \<noteq> None \<or> empty_allowed (m_eHdrType h)"

text \<open>What an encoder appends; \<open>None\<close> is failure.\<close>

definition EncodeParameters :: "SipHeaderBase \<Rightarrow> string option" where
  "EncodeParameters h =
     (case m_pParameters h of None \<Rightarrow> Some [] | Some ps \<Rightarrow> SipParameterList_Encode None (CHR '';'') ps)"

definition SipHeaderBase_Encode :: "bool \<Rightarrow> SipHeaderBase \<Rightarrow> string option" where
  "SipHeaderBase_Encode bParams h =
     (case m_pszValue h of
        None \<Rightarrow> (if empty_allowed (m_eHdrType h) then Some [] else None)
      | Some v \<Rightarrow> (if bParams then map_option (\<lambda>t. v @ t) (EncodeParameters h) else Some v))"

definition DecodeHeaderParameters :: "string \<Rightarrow> char \<Rightarrow> SipHeaderBase \<Rightarrow> bool \<times> SipHeaderBase" where
  "DecodeHeaderParameters p cDelimeter h =
     (let (ok, ps) = SipParameterList_Decode None cDelimeter p (case m_pParameters h of None \<Rightarrow> [] | Some ps \<Rightarrow> ps)
      in (ok, h\<lparr>m_pParameters := Some ps\<rparr>))"

definition SipHeaderBase_DecodeHdr :: "string \<Rightarrow> SipHeaderBase \<Rightarrow> bool \<times> SipHeaderBase" where
  "SipHeaderBase_DecodeHdr p h =
     (if p = [] then (empty_allowed (m_eHdrType h), h)
      else
        (let pos = SipFindActualPos p (CHR '';'');
             (ok, h) = (case pos of None \<Rightarrow> (True, h) | Some (a, b) \<Rightarrow> DecodeHeaderParameters b (CHR '';'') h);
             pszValue = SipCreateString (case pos of None \<Rightarrow> p | Some (a, b) \<Rightarrow> a)
         in if \<not> ok then (False, h)
            else if star_only (m_eHdrType h) \<and> pszValue \<noteq> None \<and> SipPf_Strcmp pszValue (Some ''*'') \<noteq> 0 then (False, h)
            else SipHeaderBase_SetValue pszValue h))"

subsection \<open>Integers\<close>

definition MAX_MAXFD :: int where "MAX_MAXFD = 255"
definition MAX_EXPIRES :: int where "MAX_EXPIRES = 4294967295"
definition MAX_ERROR_CODE :: int where "MAX_ERROR_CODE = 9999"

text \<open>The conversion \<open>%u\<close>.\<close>

fun decimal :: "nat \<Rightarrow> string" where
  "decimal n = (if n < 10 then [char_of (48 + n)] else decimal (n div 10) @ [char_of (48 + n mod 10)])"

declare decimal.simps [simp del]

definition SipIntegerHeader_SetValueInt :: "u32 \<Rightarrow> SipHeaderBase \<Rightarrow> bool \<times> SipHeaderBase" where
  "SipIntegerHeader_SetValueInt nValue h =
     (if uint nValue > MAX_MAXFD \<and> m_eHdrType h = MAX_FORWARDS then (False, h)
      else if uint nValue > MAX_ERROR_CODE \<and> m_eHdrType h = GEOLOCATION_ERROR then (False, h)
      else SipHeaderBase_SetValue (Some (decimal (unat nValue))) h)"

definition SipIntegerHeader_GetValueInt :: "SipHeaderBase \<Rightarrow> u32" where
  "SipIntegerHeader_GetValueInt h = word_of_int (SipPf_Atoi (m_pszValue h))"

definition SipIntegerHeader_Encode :: "bool \<Rightarrow> SipHeaderBase \<Rightarrow> string option" where
  "SipIntegerHeader_Encode bParams h =
     (if m_pszValue h = None \<and> m_eHdrType h = CONTENT_LENGTH then Some ''0'' else SipHeaderBase_Encode bParams h)"

definition SipIntegerHeader_DecodeHdr :: "string \<Rightarrow> SipHeaderBase \<Rightarrow> bool \<times> SipHeaderBase" where
  "SipIntegerHeader_DecodeHdr p h =
     (let (ok, h) = SipHeaderBase_DecodeHdr p h;
          nValue = uint (word_of_int (SipPf_Atoi (m_pszValue h)) :: u32);
          t = m_eHdrType h
      in if \<not> ok then (False, h)
         else if m_pszValue h \<noteq> None \<and>
           (t = MAX_FORWARDS \<and> nValue > MAX_MAXFD \<or> t = EXPIRES_SEC \<and> nValue > MAX_EXPIRES \<or>
            t = GEOLOCATION_ERROR \<and> nValue > MAX_ERROR_CODE) then (False, h)
         else (True, h))"

subsection \<open>All headers\<close>

text \<open>\<open>Unknown\<close> has a name and a value; \<open>Specific\<close> is an object of a class with its own syntax.\<close>

datatype 'o SipHeader = Generic SipHeaderBase | Unknown cstr cstr | Specific int 'o

record 'o specific_ops =
  sp_DecodeHdr :: "int \<Rightarrow> string \<Rightarrow> bool \<times> 'o"
  sp_EncodeHdr :: "'o \<Rightarrow> bool \<Rightarrow> string option"
  sp_IsValidHeader :: "'o \<Rightarrow> bool"
  sp_GetValue :: "'o \<Rightarrow> cstr"
  sp_GetParameters :: "'o \<Rightarrow> SipParameterList option"

fun HdrType_of :: "'o SipHeader \<Rightarrow> int" where
  "HdrType_of (Generic h) = m_eHdrType h"
| "HdrType_of (Unknown pszName pszValue) = UNKNOWN"
| "HdrType_of (Specific eHdrType ob) = eHdrType"

fun IsValidHeader :: "'o specific_ops \<Rightarrow> 'o SipHeader \<Rightarrow> bool" where
  "IsValidHeader ops (Generic h) \<longleftrightarrow> SipHeaderBase_IsValidHeader h"
| "IsValidHeader ops (Unknown pszName pszValue) \<longleftrightarrow> pszName \<noteq> None"
| "IsValidHeader ops (Specific eHdrType ob) \<longleftrightarrow> sp_IsValidHeader ops ob"

fun GetValue :: "'o specific_ops \<Rightarrow> 'o SipHeader \<Rightarrow> cstr" where
  "GetValue ops (Generic h) = m_pszValue h"
| "GetValue ops (Unknown pszName pszValue) = None"
| "GetValue ops (Specific eHdrType ob) = sp_GetValue ops ob"

fun GetParameters :: "'o specific_ops \<Rightarrow> 'o SipHeader \<Rightarrow> SipParameterList option" where
  "GetParameters ops (Generic h) = m_pParameters h"
| "GetParameters ops (Unknown pszName pszValue) = None"
| "GetParameters ops (Specific eHdrType ob) = sp_GetParameters ops ob"

definition SipUnknownHeader_Encode :: "cstr \<Rightarrow> cstr \<Rightarrow> string option" where
  "SipUnknownHeader_Encode pszHdrName pszHdrValue =
     (case pszHdrName of
        None \<Rightarrow> None
      | Some name \<Rightarrow> Some (name @ '': '' @ (case pszHdrValue of None \<Rightarrow> [] | Some v \<Rightarrow> v)))"

fun EncodeHdr :: "'o specific_ops \<Rightarrow> bool \<Rightarrow> 'o SipHeader \<Rightarrow> string option" where
  "EncodeHdr ops bParams (Generic h) =
     (if factory (m_eHdrType h) = IntegerHeader then SipIntegerHeader_Encode bParams h
      else SipHeaderBase_Encode bParams h)"
| "EncodeHdr ops bParams (Unknown pszName pszValue) = SipUnknownHeader_Encode pszName pszValue"
| "EncodeHdr ops bParams (Specific eHdrType ob) = sp_EncodeHdr ops ob bParams"

text \<open>A new object of a type, which then decodes the text.\<close>

definition DecodeNew :: "'o specific_ops \<Rightarrow> int \<Rightarrow> string \<Rightarrow> (bool \<times> 'o SipHeader) option" where
  "DecodeNew ops eHdrType p =
     (case factory eHdrType of
        HeaderBase \<Rightarrow> Some (map_prod id Generic (SipHeaderBase_DecodeHdr p (SipHeaderBase_new eHdrType)))
      | IntegerHeader \<Rightarrow> Some (map_prod id Generic (SipIntegerHeader_DecodeHdr p (SipHeaderBase_new eHdrType)))
      | UnknownHeader \<Rightarrow> Some (True, Unknown None None)
      | OtherClass \<Rightarrow> Some (map_prod id (Specific eHdrType) (sp_DecodeHdr ops eHdrType p))
      | NoClass \<Rightarrow> None)"

subsection \<open>Lists\<close>

text \<open>
  The elements between commas. An element that begins at the last character is not decoded: the end
  of the buffer is taken for the end of the list.
\<close>

function decode_elements ::
  "'o specific_ops \<Rightarrow> int \<Rightarrow> string \<Rightarrow> 'o SipHeader list \<Rightarrow> (bool \<times> 'o SipHeader list) option" where
  "decode_elements ops eHdrType p hs =
     (if p = [] then Some (True, hs)
      else
        (let pos = SipFindActualPos p (CHR '','')
         in case DecodeNew ops eHdrType (case pos of None \<Rightarrow> p | Some (a, b) \<Rightarrow> a) of
              None \<Rightarrow> None
            | Some (False, h) \<Rightarrow> Some (False, hs)
            | Some (True, h) \<Rightarrow>
                (case pos of
                   None \<Rightarrow> Some (True, hs @ [h])
                 | Some (a, b) \<Rightarrow>
                     if length b = 1 then Some (True, hs @ [h])
                     else decode_elements ops eHdrType b (hs @ [h]))))"
  by pat_completeness auto

termination
  by (relation "measure (\<lambda>(ops, t, p, hs). length p)") (auto dest: SipFindActualPos_rest [OF sym])

declare decode_elements.simps [simp del]

definition SipHeaderList_DecodeHdr ::
  "'o specific_ops \<Rightarrow> int \<Rightarrow> string \<Rightarrow> 'o SipHeader list \<Rightarrow> (bool \<times> 'o SipHeader list) option" where
  "SipHeaderList_DecodeHdr ops eHdrType p hs =
     (if p = [] then Some (empty_allowed eHdrType, hs)
      else if eHdrType = AUTHENTICATION_INFO then
        (case DecodeNew ops eHdrType p of
           None \<Rightarrow> None | Some (ok, h) \<Rightarrow> Some (if ok then (True, hs @ [h]) else (False, hs)))
      else decode_elements ops eHdrType p hs)"

definition between :: "bool \<Rightarrow> bool \<Rightarrow> 'o SipHeader \<Rightarrow> string" where
  "between multi_line short_form h =
     (if HdrType_of h = UNKNOWN then [CHR 0x0D, CHR 0x0A]
      else if multi_line then [CHR 0x0D, CHR 0x0A] @ SipEncodeHdrName (HdrType_of h) short_form
      else '','')"

fun encode_rest :: "'o specific_ops \<Rightarrow> bool \<Rightarrow> bool \<Rightarrow> bool \<Rightarrow> 'o SipHeader list \<Rightarrow> string option" where
  "encode_rest ops bParams multi_line short_form [] = Some []"
| "encode_rest ops bParams multi_line short_form (h # hs) =
     (case EncodeHdr ops bParams h of
        None \<Rightarrow> None
      | Some t \<Rightarrow>
          map_option (\<lambda>r. between multi_line short_form h @ t @ r) (encode_rest ops bParams multi_line short_form hs))"

definition SipHeaderList_EncodeHdr ::
  "'o specific_ops \<Rightarrow> bool \<Rightarrow> bool \<Rightarrow> bool \<Rightarrow> 'o SipHeader list \<Rightarrow> string option" where
  "SipHeaderList_EncodeHdr ops bParams multi_line short_form hs =
     (case hs of
        [] \<Rightarrow> None
      | h # hs \<Rightarrow>
          (case EncodeHdr ops bParams h of
             None \<Rightarrow> None
           | Some t \<Rightarrow>
               map_option (\<lambda>r. t @ r)
                 (encode_rest ops bParams (multi_line \<or> HdrType_of h = AUTHENTICATION_INFO) short_form hs)))"

definition InsertHdrAtPos :: "'o SipHeader \<Rightarrow> nat \<Rightarrow> 'o SipHeader list \<Rightarrow> bool \<times> 'o SipHeader list" where
  "InsertHdrAtPos h nIndex hs =
     (if nIndex > length hs then (False, hs) else (True, take nIndex hs @ h # drop nIndex hs))"

subsection \<open>The headers of a message\<close>

datatype 'o slot = Single "'o SipHeader" | Many "'o SipHeader list"

type_synonym 'o SipHeaders = "int \<Rightarrow> 'o slot option"

definition GetHdrObj_at :: "'o SipHeaders \<Rightarrow> int \<Rightarrow> nat \<Rightarrow> 'o SipHeader option" where
  "GetHdrObj_at hdrs eHdrType eIndex =
     (if \<not> IsHeaderTypeValid eHdrType then None
      else
        (case hdrs eHdrType of
           None \<Rightarrow> None
         | Some (Many hs) \<Rightarrow> (if eIndex < length hs then Some (hs ! eIndex) else None)
         | Some (Single h) \<Rightarrow> Some h))"

definition GetHdrObj :: "'o SipHeaders \<Rightarrow> int \<Rightarrow> 'o slot option" where
  "GetHdrObj hdrs eHdrType = (if \<not> IsHeaderTypeValid eHdrType then None else hdrs eHdrType)"

definition RemoveHdr :: "int \<Rightarrow> 'o SipHeaders \<Rightarrow> bool \<times> 'o SipHeaders" where
  "RemoveHdr eHdrType hdrs =
     (if \<not> IsHeaderTypeValid eHdrType then (False, hdrs) else (True, hdrs(eHdrType := None)))"

definition slot_list :: "'o slot option \<Rightarrow> 'o SipHeader list" where
  "slot_list s = (case s of Some (Many hs) \<Rightarrow> hs | Some (Single h) \<Rightarrow> [h] | None \<Rightarrow> [])"

definition SetHdr :: "'o specific_ops \<Rightarrow> 'o SipHeader \<Rightarrow> 'o SipHeaders \<Rightarrow> bool \<times> 'o SipHeaders" where
  "SetHdr ops h hdrs =
     (if \<not> IsValidHeader ops h then (False, hdrs)
      else if IsListHdr (HdrType_of h) then (True, hdrs(HdrType_of h := Some (Many [h])))
      else (True, hdrs(HdrType_of h := Some (Single h))))"

definition AppendHdr :: "'o specific_ops \<Rightarrow> 'o SipHeader \<Rightarrow> 'o SipHeaders \<Rightarrow> bool \<times> 'o SipHeaders" where
  "AppendHdr ops h hdrs =
     (if \<not> IsValidHeader ops h then (False, hdrs)
      else if IsListHdr (HdrType_of h) then
        (True, hdrs(HdrType_of h := Some (Many (slot_list (hdrs (HdrType_of h)) @ [h]))))
      else (True, hdrs(HdrType_of h := Some (Single h))))"

definition InsertHdr :: "'o specific_ops \<Rightarrow> 'o SipHeader \<Rightarrow> nat \<Rightarrow> 'o SipHeaders \<Rightarrow> bool \<times> 'o SipHeaders" where
  "InsertHdr ops h nIndex hdrs =
     (if \<not> IsValidHeader ops h then (False, hdrs)
      else if IsListHdr (HdrType_of h) then
        (True, hdrs(HdrType_of h := Some (Many (snd (InsertHdrAtPos h nIndex (slot_list (hdrs (HdrType_of h))))))))
      else (True, hdrs(HdrType_of h := Some (Single h))))"

text \<open>
  One line of a message. The result has the name and the body that the caller prints for a bad
  header; the object of a single header stays stored when its text is rejected.
\<close>

record 'o decoded_line =
  dl_ok :: bool
  dl_name :: cstr
  dl_body :: cstr
  dl_hdrs :: "'o SipHeaders"

definition decode_body ::
  "'o specific_ops \<Rightarrow> int \<Rightarrow> cstr \<Rightarrow> string \<Rightarrow> 'o SipHeaders \<Rightarrow> 'o decoded_line option" where
  "decode_body ops eHdrType name p hdrs =
     (let line = \<lparr>dl_ok = False, dl_name = name, dl_body = SipCreateString p, dl_hdrs = hdrs\<rparr>
      in if hdrs eHdrType \<noteq> None \<and> \<not> IsListHdr eHdrType then Some line
         else if IsListHdr eHdrType then
           (let hs = slot_list (hdrs eHdrType)
            in if eHdrType = UNKNOWN then
                 Some (line\<lparr>dl_ok := True, dl_hdrs := hdrs(eHdrType :=
                   Some (Many (if SipCreateString p = None then hs else hs @ [Unknown name (SipCreateString p)])))\<rparr>)
               else
                 map_option (\<lambda>(ok, hs). line\<lparr>dl_ok := ok, dl_hdrs := hdrs(eHdrType := Some (Many hs))\<rparr>)
                   (SipHeaderList_DecodeHdr ops eHdrType p hs))
         else
           map_option (\<lambda>(ok, h). line\<lparr>dl_ok := ok, dl_hdrs := hdrs(eHdrType := Some (Single h))\<rparr>)
             (DecodeNew ops eHdrType p))"

definition DecodeHdrs :: "'o specific_ops \<Rightarrow> string \<Rightarrow> 'o SipHeaders \<Rightarrow> 'o decoded_line option" where
  "DecodeHdrs ops p hdrs =
     (let failed = \<lparr>dl_ok = False, dl_name = None, dl_body = None, dl_hdrs = hdrs\<rparr>
      in if p = [] then Some failed
         else
           (case SipFindPreDelimiter (SipSkipRwLWS p) (CHR '':'') of
              None \<Rightarrow> Some failed
            | Some (a, b) \<Rightarrow>
                (let name = SipCreateString (skip_rw_wsp a)
                 in if name = None then Some failed
                    else decode_body ops (GetHdrType name) name (SipSkipFwLWS b) hdrs)))"

end
