(* ===== verification/Header_Roundtrip.thy ===== *)
theory Header_Roundtrip
  imports Sip_Headers
begin

text \<open>
  A header that is written and read back: the lemmas lead from one value with its parameters over
  the list of a header to the line of the message.
\<close>

text \<open>A word with parameters of at most one value each.\<close>

definition wf_generic :: "int \<Rightarrow> SipHeaderBase \<Rightarrow> bool" where
  "wf_generic t h \<longleftrightarrow> m_eHdrType h = t \<and> (\<exists>v. m_pszValue h = Some v \<and> param_word v) \<and>
     (case m_pParameters h of
        None \<Rightarrow> True | Some ps \<Rightarrow> ps \<noteq> [] \<and> (\<forall>nv\<in>set ps. wf_param nv \<and> length (m_valueList nv) \<le> 1))"

lemma generic_text:
  assumes "wf_generic t h" "\<not> star_only t"
  obtains x where "SipHeaderBase_Encode True h = Some x" "x \<noteq> []" "tight_begin x" "tight_end x" "neutral (CHR '','') x"
    "SipHeaderBase_DecodeHdr x (SipHeaderBase_new t) = (True, h)"
proof -
  obtain v where v: "m_pszValue h = Some v" "param_word v" and t: "m_eHdrType h = t" using assms(1) unfolding wf_generic_def by blast
  have w: "v \<noteq> []" "c_string v = v" "tight_begin v" "tight_end v" "neutral (CHR '';'') v" "neutral (CHR '','') v"
    using param_word_D(1-4) [OF v(2)] param_word_D(5) [OF v(2), of "CHR '';''"] param_word_D(5) [OF v(2), of "CHR '',''"] by simp_all
  have val: "SipCreateString v = Some v" using w by (simp add: SipCreateString_def)
  show thesis
  proof (cases "m_pParameters h")
    case None
    have "SipFindActualPos v (CHR '';'') = None" using w by (simp add: FindActualPos_neutral(2))
    then have "SipHeaderBase_DecodeHdr v (SipHeaderBase_new t) = (True, h)"
      using w v t None assms(2) val by (simp add: SipHeaderBase_DecodeHdr_def SipHeaderBase_new_def SipHeaderBase_SetValue_def)
    moreover have "SipHeaderBase_Encode True h = Some v" using v None by (simp add: SipHeaderBase_Encode_def EncodeParameters_def)
    ultimately show thesis using that w by blast
  next
    case (Some ps)
    then have ps: "ps \<noteq> []" "\<forall>nv\<in>set ps. wf_param nv" "\<forall>nv\<in>set ps. length (m_valueList nv) \<le> 1"
      using assms(1) unfolding wf_generic_def by auto
    obtain p where p: "SipParameterList_Encode None (CHR '';'') ps = Some (CHR '';'' # p)" "p \<noteq> []" "tight_begin p" "tight_end p"
      "decode_params None (CHR '';'') p [] = (True, [] @ ps)" "hd p \<noteq> CHR 0x00" "neutral (CHR '','') p"
      using SipParameterList_roundtrip [OF ps(1,2), of "[]"] ps(3) by blast
    have "SipParameterList_Decode None (CHR '';'') p [] = (True, ps)"
      using p by (auto simp: SipParameterList_Decode_def)
    moreover have "SipFindActualPos (v @ CHR '';'' # p) (CHR '';'') = Some (v, p)"
      using w p by (intro FindActualPos_neutral(1)) auto
    ultimately have "SipHeaderBase_DecodeHdr (v @ CHR '';'' # p) (SipHeaderBase_new t) = (True, h)"
      using v t Some assms(2) val
      by (simp add: SipHeaderBase_DecodeHdr_def SipHeaderBase_new_def SipHeaderBase_SetValue_def DecodeHeaderParameters_def)
    moreover have "SipHeaderBase_Encode True h = Some (v @ CHR '';'' # p)"
      using v Some p by (simp add: SipHeaderBase_Encode_def EncodeParameters_def)
    moreover have "neutral (CHR '','') (CHR '';'' # p)" using p by (intro neutral_Cons) auto
    then have "neutral (CHR '','') (v @ CHR '';'' # p)" using w by (intro neutral_append)
    moreover have "tight_begin (v @ CHR '';'' # p)" "tight_end (v @ CHR '';'' # p)"
      using w p by (auto simp: tight_begin_def tight_end_def)
    ultimately show thesis using that by blast
  qed
qed

text \<open>A list of such headers, the last of which is not written with a single character.\<close>

definition wf_list :: "int \<Rightarrow> SipHeaderBase list \<Rightarrow> bool" where
  "wf_list t hs \<longleftrightarrow> hs \<noteq> [] \<and> (\<forall>h\<in>set hs. wf_generic t h) \<and>
     (\<exists>x. SipHeaderBase_Encode True (last hs) = Some x \<and> length x \<noteq> 1)"

lemma comma_rest:
  assumes "\<forall>h\<in>set hs. wf_generic t h" "\<not> star_only t" "factory t = HeaderBase" "t \<noteq> UNKNOWN"
    "hs \<noteq> [] \<longrightarrow> (\<exists>x. SipHeaderBase_Encode True (last hs) = Some x \<and> length x \<noteq> 1)"
    and h: "SipHeaderBase_Encode True h = Some x" "x \<noteq> []" "tight_begin x" "tight_end x" "neutral (CHR '','') x"
      "SipHeaderBase_DecodeHdr x (SipHeaderBase_new t) = (True, h)"
  shows "\<exists>r. encode_rest ops True False False (map Generic hs) = Some r \<and> tight_begin (x @ r) \<and> tight_end (x @ r) \<and>
    (hs \<noteq> [] \<longrightarrow> length (x @ r) \<noteq> 1) \<and>
    decode_elements ops t (x @ r) acc = Some (True, acc @ map Generic (h # hs))"
  using assms
proof (induction hs arbitrary: h x acc)
  case Nil
  have "SipFindActualPos x (CHR '','') = None" using Nil by (simp add: FindActualPos_neutral(2))
  then show ?case using Nil by (subst decode_elements.simps) (simp add: DecodeNew_def)
next
  case (Cons g hs)
  obtain y where y: "SipHeaderBase_Encode True g = Some y" "y \<noteq> []" "tight_begin y" "tight_end y" "neutral (CHR '','') y"
    "SipHeaderBase_DecodeHdr y (SipHeaderBase_new t) = (True, g)"
    using generic_text [of t g] Cons.prems(1,2) by auto
  have last: "hs \<noteq> [] \<longrightarrow> (\<exists>x. SipHeaderBase_Encode True (last hs) = Some x \<and> length x \<noteq> 1)"
    using Cons.prems(5) by auto
  obtain r where r: "encode_rest ops True False False (map Generic hs) = Some r" "tight_begin (y @ r)" "tight_end (y @ r)"
    "hs \<noteq> [] \<longrightarrow> length (y @ r) \<noteq> 1"
    "decode_elements ops t (y @ r) (acc @ [Generic h]) = Some (True, (acc @ [Generic h]) @ map Generic (g # hs))"
    using Cons.IH [of g y "acc @ [Generic h]"] Cons.prems(1-4) last y by auto
  have g: "m_eHdrType g = t" using Cons.prems(1) by (simp add: wf_generic_def)
  have enc: "encode_rest ops True False False (map Generic (g # hs)) = Some ('','' @ y @ r)"
    using r(1) y(1) g Cons.prems(3,4) by (simp add: between_def)
  have len: "length (y @ r) \<noteq> 1"
  proof (cases "hs = []")
    case True
    then show ?thesis using Cons.prems(5) y(1) r(1) by auto
  next
    case False
    then show ?thesis using r(4) by blast
  qed
  have "SipFindActualPos (x @ CHR '','' # (y @ r)) (CHR '','') = Some (x, y @ r)"
    using Cons.prems r by (intro FindActualPos_neutral(1)) auto
  then have "decode_elements ops t (x @ '','' @ y @ r) acc = Some (True, acc @ map Generic (h # g # hs))"
    using Cons.prems(3) Cons.prems(7,11) r(5) len
    by (subst decode_elements.simps) (simp add: DecodeNew_def Let_def)
  moreover have "tight_begin (x @ '','' @ y @ r)" "tight_end (x @ '','' @ y @ r)"
    using Cons.prems r y by (auto simp: tight_begin_def tight_end_def)
  moreover have "length (x @ '','' @ y @ r) \<noteq> 1" using y(2) by simp
  ultimately show ?case using enc by blast
qed

lemma list_text:
  assumes "wf_list t hs" "\<not> star_only t" "factory t = HeaderBase" "t \<noteq> UNKNOWN" "t \<noteq> AUTHENTICATION_INFO"
  obtains x where "SipHeaderList_EncodeHdr ops True False False (map Generic hs) = Some x" "x \<noteq> []" "tight_begin x" "tight_end x"
    "SipHeaderList_DecodeHdr ops t x acc = Some (True, acc @ map Generic hs)"
proof -
  obtain h gs where hs: "hs = h # gs" using assms(1) by (cases hs) (auto simp: wf_list_def)
  have wf: "wf_generic t h" "\<forall>g\<in>set gs. wf_generic t g" using assms(1) hs by (auto simp: wf_list_def)
  obtain y where y: "SipHeaderBase_Encode True h = Some y" "y \<noteq> []" "tight_begin y" "tight_end y" "neutral (CHR '','') y"
    "SipHeaderBase_DecodeHdr y (SipHeaderBase_new t) = (True, h)"
    using generic_text [OF wf(1) assms(2)] by blast
  have "gs \<noteq> [] \<longrightarrow> (\<exists>x. SipHeaderBase_Encode True (last gs) = Some x \<and> length x \<noteq> 1)"
    using assms(1) hs by (auto simp: wf_list_def)
  from comma_rest [OF wf(2) assms(2-4) this y, of ops acc]
  obtain r where r: "encode_rest ops True False False (map Generic gs) = Some r" "tight_begin (y @ r)" "tight_end (y @ r)"
    "decode_elements ops t (y @ r) acc = Some (True, acc @ map Generic (h # gs))" by blast
  have "m_eHdrType h = t" using wf(1) by (simp add: wf_generic_def)
  then have "SipHeaderList_EncodeHdr ops True False False (map Generic hs) = Some (y @ r)"
    using hs y r assms by (simp add: SipHeaderList_EncodeHdr_def)
  moreover have "SipHeaderList_DecodeHdr ops t (y @ r) acc = Some (True, acc @ map Generic hs)"
    using hs y r assms by (simp add: SipHeaderList_DecodeHdr_def)
  ultimately show thesis using that [of "y @ r"] y r by simp
qed

subsection \<open>The line\<close>

lemma names_plain: "list_all (\<lambda>c. c \<noteq> CHR '':'' \<and> c \<noteq> CHR 0x22 \<and> c \<noteq> CHR 0x5C \<and> c \<noteq> CHR 0x00 \<and> \<not> IS_WSP c \<and> c \<noteq> CHR 0x0A)
    (concat gaszSipHdr)" "list_all (\<lambda>s. s \<noteq> []) gaszSipHdr"
  by (code_simp, code_simp)

lemma name_text:
  assumes "0 \<le> t" "t < TYPE_END"
  shows "neutral (CHR '':'') (gaszSipHdr ! nat t)" "skip_rw_wsp (gaszSipHdr ! nat t) = gaszSipHdr ! nat t"
    "SipCreateString (gaszSipHdr ! nat t) = Some (gaszSipHdr ! nat t)"
proof -
  let ?s = "gaszSipHdr ! nat t"
  have mem: "?s \<in> set gaszSipHdr" using assms by (simp add: gaszSipHdr_length)
  then have c: "\<forall>c\<in>set ?s. c \<noteq> CHR '':'' \<and> c \<noteq> CHR 0x22 \<and> c \<noteq> CHR 0x5C \<and> c \<noteq> CHR 0x00 \<and> \<not> IS_WSP c \<and> c \<noteq> CHR 0x0A"
    using names_plain(1) by (auto simp: list_all_iff)
  have ne: "?s \<noteq> []" using names_plain(2) mem by (auto simp: list_all_iff)
  show "neutral (CHR '':'') ?s" using c by (intro neutral_plain) auto
  show "skip_rw_wsp ?s = ?s" using c ne by (subst skip_rw_wsp.simps) auto
  have "CHR 0x00 \<notin> set ?s" using c by auto
  then show "SipCreateString ?s = Some ?s" using ne by (simp add: SipCreateString_def c_string_id)
qed

text \<open>Reading a line that begins with the written name of a type is decoding the body for the type.\<close>

lemma DecodeHdrs_line:
  assumes "0 \<le> t" "t < TYPE_END" "\<not> read_as_unknown t" "CheckAndGetHdrEnumType t = t"
    "x \<noteq> []" "tight_begin x" "tight_end x"
  shows "DecodeHdrs ops (SipEncodeHdrName t False @ x) hdrs = decode_body ops t (Some (gaszSipHdr ! nat t)) x hdrs"
proof -
  let ?s = "gaszSipHdr ! nat t"
  note s = name_text [OF assms(1,2)]
  have line: "SipEncodeHdrName t False @ x = ?s @ CHR '':'' # CHR '' '' # x" using assms(1,2) by (simp add: SipEncodeHdrName_def)
  have "tight_end (?s @ CHR '':'' # CHR '' '' # x)" using assms(5,7) by (simp add: tight_end_def)
  then have rw: "SipSkipRwLWS (?s @ CHR '':'' # CHR '' '' # x) = ?s @ CHR '':'' # CHR '' '' # x" by (rule SipSkipRwLWS_tight)
  have find: "SipFindPreDelimiter (?s @ CHR '':'' # CHR '' '' # x) (CHR '':'') = Some (?s, CHR '' '' # x)"
    using s(1) by (intro FindPreDelimiter_neutral(1)) auto
  have "dropWhile IS_WSP (CHR '' '' # x) = dropWhile IS_WSP x" by (simp add: IS_WSP_def)
  then have fw: "SipSkipFwLWS (CHR '' '' # x) = x"
    using SipSkipFwLWS_tight [OF assms(6)] unfolding SipSkipFwLWS_def by simp
  have "GetHdrType (Some ?s) = t" using name_read [OF assms(1,2)] assms(3,4) by simp
  then show ?thesis unfolding line DecodeHdrs_def using rw find fw s by simp
qed

text \<open>The types with a list of words: what they allow, read off the tables.\<close>

definition word_list_type :: "int \<Rightarrow> bool" where
  "word_list_type t \<longleftrightarrow> 0 \<le> t \<and> t < TYPE_END \<and> factory t = HeaderBase \<and> IsMultiValueHeader t \<and> \<not> star_only t"

lemma word_list_types:
  "list_all (\<lambda>t. word_list_type t \<longrightarrow> (t = 76 \<or> \<not> read_as_unknown t) \<and> CheckAndGetHdrEnumType t = t \<and> t \<noteq> AUTHENTICATION_INFO) [0..114]"
  by code_simp

lemma word_list_typeD:
  assumes "word_list_type t" "t \<noteq> 76"
  shows "\<not> read_as_unknown t" "CheckAndGetHdrEnumType t = t" "t \<noteq> AUTHENTICATION_INFO" "IsListHdr t" "t \<noteq> UNKNOWN"
proof -
  have "t \<in> set [0..114]" using assms(1) by (simp add: word_list_type_def)
  then have "\<not> read_as_unknown t \<and> CheckAndGetHdrEnumType t = t \<and> t \<noteq> AUTHENTICATION_INFO"
    using word_list_types assms by (auto simp: list_all_iff)
  moreover from this have "t \<noteq> UNKNOWN" by (auto simp: read_as_unknown_def)
  ultimately show "\<not> read_as_unknown t" "CheckAndGetHdrEnumType t = t" "t \<noteq> AUTHENTICATION_INFO" "IsListHdr t" "t \<noteq> UNKNOWN"
    using assms(1) by (simp_all add: word_list_type_def IsListHdr_def)
qed

end
