(* ===== verification/Header_Properties.thy ===== *)
theory Header_Properties
  imports Header_Roundtrip
begin

text \<open>
  The properties of the headers of SIP: their names and the lines of a message.
\<close>

definition ex_ops :: "unit specific_ops" where
  "ex_ops = \<lparr>sp_DecodeHdr = (\<lambda>t p. (False, ())), sp_EncodeHdr = (\<lambda>h b. None), sp_IsValidHeader = (\<lambda>h. False),
     sp_GetValue = (\<lambda>h. None), sp_GetParameters = (\<lambda>h. None)\<rparr>"


section \<open>Names and lines\<close>

text \<open>C36: The name of every header type is known again. Whatever the type, the name that
  \<open>SipEncodeHdrName\<close> writes and the short one that \<open>SipEncodeShortHdrName\<close> writes are read by
  \<open>GetHdrType\<close> as the canonical type of it; only Content-Length, Content-Language and
  the unknown header are read as unknown headers.\<close>

theorem header_names_recognised:
  assumes "0 \<le> t" "t < TYPE_END"
  shows "\<exists>name short. SipEncodeHdrName t False = name @ '': '' \<and> SipEncodeHdrName t True = short @ '': '' \<and>
    GetHdrType (Some name) = (if read_as_unknown t then UNKNOWN else CheckAndGetHdrEnumType t) \<and>
    GetHdrType (Some short) = GetHdrType (Some name)"
proof -
  have "SipEncodeHdrName t False = gaszSipHdr ! nat t @ '': ''" "SipEncodeHdrName t True = short_name t @ '': ''"
    using assms by (simp_all add: SipEncodeHdrName_def SipEncodeShortHdrName_def)
  then show ?thesis using name_read [OF assms] short_name_read [OF assms] by auto
qed

theorem header_names_recognised_witness:
  "\<exists>name short. SipEncodeHdrName 53 False = name @ '': '' \<and> SipEncodeHdrName 53 True = short @ '': '' \<and>
    GetHdrType (Some name) = 53 \<and> GetHdrType (Some short) = 53"
  using header_names_recognised [of 53] by (fastforce simp: read_as_unknown_def CheckAndGetHdrEnumType_def)



text \<open>The other side of \<open>wf_list\<close>: a last element of one character is lost.\<close>

lemma last_character_dropped:
  "SipHeaderList_DecodeHdr ex_ops SUPPORTED ''timer,a'' [] =
     Some (True, [Generic \<lparr>m_eHdrType = SUPPORTED, m_pszValue = Some ''timer'', m_pParameters = None\<rparr>])"
  by code_simp

text \<open>Every received name has a type with a place in the tables, and one name has the internal type.\<close>

lemma known_type:
  assumes "List.find P (hdr_len_record n) = Some e"
  shows "0 \<le> fst e \<and> fst e < TYPE_END \<and> snd e = gaszSipHdr ! nat (fst e) \<and> P e"
proof -
  have e: "e \<in> set (hdr_len_record n)" "P e"
    using assms by (auto simp: find_Some_iff)
  then have "e \<in> set (zip [0..114] gaszSipHdr)" by (simp add: hdr_len_record_def)
  then obtain i where i: "i < length (zip [0..114] gaszSipHdr)" "zip [0..114] gaszSipHdr ! i = e"
    by (metis in_set_conv_nth)
  then have "i < 115" "e = (int i, gaszSipHdr ! i)" using gaszSipHdr_length(1) by auto
  with e(2) show ?thesis by simp
qed

lemma compact_types: "length gaszSipHdrCompactEnum = length gaszSipHdrCompact"
  "\<forall>t\<in>set gaszSipHdrCompactEnum. 0 \<le> t \<and> t < TYPE_END \<and> t \<noteq> RESPONSE_KEY"
  by (simp_all add: gaszSipHdrCompactEnum_def gaszSipHdrCompact_def)

lemma compact_type: "0 \<le> GetHdrTypeCompact c \<and> GetHdrTypeCompact c < TYPE_END \<and> GetHdrTypeCompact c \<noteq> RESPONSE_KEY"
  using compact_types find_index_SomeD(1) [of "\<lambda>d. char_val d = SIP_TOLOWER c" gaszSipHdrCompact]
  by (auto simp: GetHdrTypeCompact_def split: option.splits)

lemma header_type_range: "0 \<le> GetHdrType (Some s) \<and> GetHdrType (Some s) < TYPE_END"
  using compact_type known_type
  by (auto simp: GetHdrType_def GetHdrType_in_def Let_def split: option.splits)

lemma response_key_name: "GetHdrType (Some s) = RESPONSE_KEY \<longleftrightarrow> lower s = lower ''Response-Key''"
proof
  assume "GetHdrType (Some s) = RESPONSE_KEY"
  then obtain e where "List.find (\<lambda>e. SipPf_Stricmp (Some (snd e)) (Some s) = SIP_EQUALS) (hdr_len_record (length s)) = Some e"
    "fst e = RESPONSE_KEY"
    using compact_type by (auto simp: GetHdrType_def GetHdrType_in_def Let_def split: option.splits if_splits)
  then show "lower s = lower ''Response-Key''"
    using known_type by (fastforce simp: SipPf_Stricmp_def stricmp_loop_eq_0 gaszSipHdr_def)
next
  assume l: "lower s = lower ''Response-Key''"
  then have len: "length s = length ''Response-Key''" unfolding lower_def by (metis length_map)
  have "GetHdrType (Some s) = GetHdrType (Some ''Response-Key'')"
    using l len by (simp add: GetHdrType_def GetHdrType_in_lower)
  moreover have "gaszSipHdr ! nat RESPONSE_KEY = ''Response-Key''" by (simp add: gaszSipHdr_def)
  ultimately show "GetHdrType (Some s) = RESPONSE_KEY"
    using name_read [of RESPONSE_KEY] by (simp add: read_as_unknown_def CheckAndGetHdrEnumType_def)
qed

lemma null_entry: "list_all (\<lambda>t. (factory t = NoClass) = (t = RESPONSE_KEY)) [0..114]" "\<not> IsListHdr RESPONSE_KEY"
  by (code_simp, code_simp)

lemma factory_null: "0 \<le> t \<Longrightarrow> t < TYPE_END \<Longrightarrow> factory t = NoClass \<longleftrightarrow> t = RESPONSE_KEY"
  using null_entry(1) by (auto simp: list_all_iff)

lemma DecodeNew_None: "DecodeNew ops t p = None \<longleftrightarrow> factory t = NoClass"
  by (simp add: DecodeNew_def split: hdr_class.splits)

lemma decode_elements_total: "factory t \<noteq> NoClass \<Longrightarrow> decode_elements ops t p hs \<noteq> None"
proof (induction ops t p hs rule: decode_elements.induct)
  case (1 ops t p hs)
  then show ?case
    by (subst decode_elements.simps) (auto simp: Let_def DecodeNew_None split: option.splits prod.splits bool.splits)
qed

lemma decode_body_None:
  assumes "0 \<le> t" "t < TYPE_END"
  shows "decode_body ops t name p hdrs = None \<longleftrightarrow> t = RESPONSE_KEY \<and> hdrs RESPONSE_KEY = None"
proof (cases "IsListHdr t")
  case True
  then have "factory t \<noteq> NoClass" using factory_null [OF assms] null_entry(2) by auto
  then show ?thesis using True null_entry(2)
    by (auto simp: decode_body_def Let_def SipHeaderList_DecodeHdr_def decode_elements_total DecodeNew_None split: option.splits)
next
  case False
  then show ?thesis using factory_null [OF assms] by (auto simp: decode_body_def Let_def DecodeNew_None)
qed

text \<open>C37: Which received line ends the program. \<open>SipHeaders::DecodeHdrs\<close> calls a null entry of the
  factory table exactly for a line whose name is Response-Key, in any case of letters and whatever
  follows it, unless such a header is stored already; every other line gets an answer.\<close>

theorem only_response_key_ends:
  "DecodeHdrs ops p hdrs = None \<longleftrightarrow>
    (\<exists>a b name. p \<noteq> [] \<and> SipFindPreDelimiter (SipSkipRwLWS p) (CHR '':'') = Some (a, b) \<and>
      SipCreateString (skip_rw_wsp a) = Some name \<and> lower name = lower ''Response-Key'' \<and> hdrs RESPONSE_KEY = None)"
  using header_type_range response_key_name
  by (auto simp: DecodeHdrs_def Let_def decode_body_None split: option.splits)

end
