(* ===== verification/Core_Message.thy ===== *)
theory Core_Message
  imports Prelude "HOL-Library.Sublist"
begin

text \<open>
  What the engine reads of a SIP message: its method (\<open>engine/sipcore/SipMethod.cpp\<close>), its status
  code (\<open>SipStatusCode\<close>) and the accessors of \<open>ISipMessage\<close>. A null string and an empty one are
  both the empty list: every operation here treats them alike.
\<close>

subsection \<open>Methods\<close>

abbreviation (input) SipMethod_INVALID :: int where "SipMethod_INVALID \<equiv> -1"
abbreviation (input) SipMethod_ACK :: int where "SipMethod_ACK \<equiv> 0"
abbreviation (input) SipMethod_BYE :: int where "SipMethod_BYE \<equiv> 1"
abbreviation (input) SipMethod_CANCEL :: int where "SipMethod_CANCEL \<equiv> 2"
abbreviation (input) SipMethod_INVITE :: int where "SipMethod_INVITE \<equiv> 3"
abbreviation (input) SipMethod_PRACK :: int where "SipMethod_PRACK \<equiv> 6"
abbreviation (input) SipMethod_UPDATE :: int where "SipMethod_UPDATE \<equiv> 9"
abbreviation (input) SipMethod_MAX :: int where "SipMethod_MAX \<equiv> 15"

definition METHOD_NAME :: "string list" where
  "METHOD_NAME =
     [''ACK'', ''BYE'', ''CANCEL'', ''INVITE'', ''OPTIONS'', ''REGISTER'', ''PRACK'', ''SUBSCRIBE'',
      ''NOTIFY'', ''UPDATE'', ''MESSAGE'', ''REFER'', ''PUBLISH'', ''INFO'', ''UNKNOWN'']"

record SipMethod =
  m_nMethod :: int
  m_strMethod :: string

definition ConvertMethodToString :: "int \<Rightarrow> string" where
  "ConvertMethodToString nMethod =
     (if nMethod > SipMethod_INVALID \<and> nMethod < SipMethod_MAX then METHOD_NAME ! nat nMethod else [])"

definition ConvertStringToMethod :: "string \<Rightarrow> int" where
  "ConvertStringToMethod strMethod =
     (if strMethod = [] then SipMethod_INVALID
      else case find_index (\<lambda>name. strMethod = name) METHOD_NAME of None \<Rightarrow> SipMethod_INVALID | Some i \<Rightarrow> int i)"

definition SipMethod_of_int :: "int \<Rightarrow> SipMethod" where
  "SipMethod_of_int nMethod = \<lparr>m_nMethod = nMethod, m_strMethod = ConvertMethodToString nMethod\<rparr>"

definition SipMethod_of_string :: "string \<Rightarrow> SipMethod" where
  "SipMethod_of_string strMethod = \<lparr>m_nMethod = ConvertStringToMethod strMethod, m_strMethod = strMethod\<rparr>"

definition SipMethod_Equals :: "SipMethod \<Rightarrow> int \<Rightarrow> bool" where
  "SipMethod_Equals m nMethod \<longleftrightarrow> m_nMethod m = nMethod"

definition SipMethod_ToName :: "int \<Rightarrow> string" where
  "SipMethod_ToName nMethod =
     (if nMethod > SipMethod_INVALID \<and> nMethod < SipMethod_MAX then METHOD_NAME ! nat nMethod else [])"

text \<open>A method survives its name, and a name its number.\<close>

lemma METHOD_NAME_distinct: "distinct METHOD_NAME" "length METHOD_NAME = 15" "[] \<notin> set METHOD_NAME"
  by (simp_all add: METHOD_NAME_def)

lemma ConvertStringToMethod_name:
  assumes "0 \<le> n" and "n < SipMethod_MAX"
  shows "ConvertStringToMethod (ConvertMethodToString n) = n"
proof -
  have "nat n < length METHOD_NAME" using assms by (simp add: METHOD_NAME_distinct)
  moreover from this have "METHOD_NAME ! nat n \<noteq> []" using METHOD_NAME_distinct(3) nth_mem by metis
  moreover have "find_index (\<lambda>name. METHOD_NAME ! nat n = name) METHOD_NAME = Some (nat n)"
    using \<open>nat n < length METHOD_NAME\<close> METHOD_NAME_distinct(1)
    by (intro find_index_eqI) (auto simp: nth_eq_iff_index_eq)
  ultimately show ?thesis using assms by (simp add: ConvertStringToMethod_def ConvertMethodToString_def)
qed

subsection \<open>Status codes\<close>

definition Is1XX :: "int \<Rightarrow> bool" where "Is1XX nCode \<longleftrightarrow> nCode \<ge> 100 \<and> nCode < 200"
definition IsProvisional :: "int \<Rightarrow> bool" where "IsProvisional nCode \<longleftrightarrow> nCode > 100 \<and> nCode < 200"
definition IsFinal :: "int \<Rightarrow> bool" where "IsFinal nCode \<longleftrightarrow> nCode \<ge> 200"
definition IsFinalSuccess :: "int \<Rightarrow> bool" where "IsFinalSuccess nCode \<longleftrightarrow> nCode \<ge> 200 \<and> nCode < 300"

definition CODE_TABLE :: "(int \<times> string) list" where
  "CODE_TABLE =
     [(100, ''Trying''), (180, ''Ringing''), (181, ''Call Is Being Forwarded''), (182, ''Queued''),
     (183, ''Session Progress''), (199, ''Early Dialog Terminated''), (200, ''OK''),
     (202, ''Accepted''), (204, ''No Notification''), (300, ''Multiple Choices''),
     (301, ''Moved Permanently''), (302, ''Moved Temporarily''), (305, ''Use Proxy''),
     (380, ''Alternative Service''), (400, ''Bad Request''), (401, ''Unauthorized''),
     (402, ''Payment Required''), (403, ''Forbidden''), (404, ''Not Found''),
     (405, ''Method Not Allowed''), (406, ''Not Acceptable''),
     (407, ''Proxy Authentication Required''), (408, ''Request Timeout''), (410, ''Gone''),
     (412, ''Conditional Request Failed''), (413, ''Request Entity Too Large''),
     (414, ''Request-URI Too Long''), (415, ''Unsupported Media Type''),
     (416, ''Unsupported URI Scheme''), (417, ''Unknown Resource-Priority''),
     (420, ''Bad Extension''), (421, ''Extension Required''),
     (422, ''Session Interval Too Small''), (423, ''Interval Too Brief''),
     (424, ''Bad Location Information''), (428, ''Use Identity Header''),
     (429, ''Provide Referrer Identity''), (430, ''Flow Failed''), (433, ''Anonymity Disallowed''),
     (436, ''Bad Identity-Info''), (437, ''Unsupported Certificate''),
     (438, ''Invalid Identity Header''), (439, ''First Hop Lacks Outbound Support''),
     (440, ''Max-Breadth Exceeded''), (469, ''Bad Info Package''), (470, ''Consent Needed''),
     (480, ''Temporarily Unavailable''), (481, ''Call/Transaction Does Not Exist''),
     (482, ''Loop Detect''), (483, ''Too Many Hops''), (484, ''Address Incomplete''),
     (485, ''Ambiguous''), (486, ''Busy Here''), (487, ''Request Terminated''),
     (488, ''Not Acceptable Here''), (489, ''Bad Event''), (491, ''Request Pending''),
     (493, ''Undecipherable''), (494, ''Security Agreement Required''), (499, ''Not Reachable''),
     (500, ''Server Internal Error''), (501, ''Not Implemented''), (502, ''Bad Gateway''),
     (503, ''Service Unavailable''), (504, ''Server Time-out''), (505, ''Version Not Supported''),
     (513, ''Message Too Large''), (580, ''Precondition Failure''), (600, ''Busy Everywhere''),
     (603, ''Decline''), (604, ''Does Not Exist Everywhere''), (606, ''Not Acceptable'')]"

definition GetReasonPhrase :: "int \<Rightarrow> string" where
  "GetReasonPhrase nCode = (case map_of CODE_TABLE nCode of None \<Rightarrow> [] | Some pszReasonPhrase \<Rightarrow> pszReasonPhrase)"

subsection \<open>Messages\<close>

abbreviation (input) TYPE_REQUEST :: int where "TYPE_REQUEST \<equiv> 0"
abbreviation (input) TYPE_RESPONSE :: int where "TYPE_RESPONSE \<equiv> 1"

record ISipMessage =
  GetType :: int
  GetMethod :: SipMethod
  GetStatusCode :: int
  GetSdpBodyPart :: "string option"
  IsMessageRpr :: bool

definition request :: "int \<Rightarrow> ISipMessage" where
  "request nMethod = \<lparr>GetType = TYPE_REQUEST, GetMethod = SipMethod_of_int nMethod, GetStatusCode = 0,
     GetSdpBodyPart = None, IsMessageRpr = False\<rparr>"

definition response :: "int \<Rightarrow> int \<Rightarrow> ISipMessage" where
  "response nMethod nCode = (request nMethod)\<lparr>GetType := TYPE_RESPONSE, GetStatusCode := nCode\<rparr>"

end
