(* ===== verification/Core_Headers.thy ===== *)
theory Core_Headers
  imports Sip_Headers Platform_Text Core_Message
begin

text \<open>
  Headers as the engine handles them: parameters (\<open>engine/sipcore/SipParameter.cpp\<close>), headers of
  unknown name (\<open>SipUnknownHeaders.cpp\<close>), the calls of \<open>SipStack.cpp\<close> on the headers of the protocol
  stack, the accessors of \<open>SipMessage.cpp\<close> and the parsed header \<open>SipHeader.cpp\<close>. \<open>None\<close> as a result is
  a call through a null pointer or an access behind the end of a vector, which ends the program.
  The address of an address header, error codes and allocation failures are left out.
\<close>

subsection \<open>Parameters\<close>

record SipParameter =
  m_strName :: AString
  m_objValues :: "AString list"

definition SipParameter_new :: "AString \<Rightarrow> SipParameter" where
  "SipParameter_new strName = \<lparr>m_strName = strName, m_objValues = []\<rparr>"

definition SipParameter_AddValue :: "AString \<Rightarrow> SipParameter \<Rightarrow> SipParameter" where
  "SipParameter_AddValue strValue p =
     (if strValue = None then p
      else if AStringArray_Contains strValue False (m_objValues p) then p
      else p\<lparr>m_objValues := m_objValues p @ [strValue]\<rparr>)"

definition add_new :: "AString \<Rightarrow> SipParameter \<Rightarrow> SipParameter" where
  "add_new strValue p =
     (if AStringArray_Contains strValue False (m_objValues p) then p else p\<lparr>m_objValues := m_objValues p @ [strValue]\<rparr>)"

definition unquoted :: "AString \<Rightarrow> AString" where
  "unquoted strValues =
     AString_GetSubStr 1 (AString_GetLastIndexOf_char (CHR 0x22) (-1) strValues - 1) strValues"

text \<open>A quoted value with commas is a list of values, and so is an unquoted one.\<close>

definition SipParameter_AddValues :: "AString \<Rightarrow> SipParameter \<Rightarrow> SipParameter" where
  "SipParameter_AddValues strValues p =
     (if strValues = None then p
      else if AString_StartsWith_char (CHR 0x22) strValues then
        (if AString_Contains_char (CHR '','') (unquoted strValues)
         then fold add_new (AString_Split (CHR '','') True (unquoted strValues)) p
         else add_new strValues p)
      else if AString_Contains_char (CHR '','') strValues
      then fold add_new (AString_Split (CHR '','') True strValues) p
      else add_new strValues p)"

definition SipParameter_GetValue :: "SipParameter \<Rightarrow> AString" where
  "SipParameter_GetValue p = (if m_objValues p = [] then None else AStringArray_GetFirstElement (m_objValues p))"

definition SipParameter_RemoveValue :: "AString \<Rightarrow> SipParameter \<Rightarrow> SipParameter" where
  "SipParameter_RemoveValue strValue p =
     (case find_index (\<lambda>x. AString_EqualsIgnoreCase strValue x) (m_objValues p) of
        None \<Rightarrow> p | Some i \<Rightarrow> p\<lparr>m_objValues := remove_nth i (m_objValues p)\<rparr>)"

definition SipParameter_SetValue :: "AString \<Rightarrow> SipParameter \<Rightarrow> bool \<times> SipParameter" where
  "SipParameter_SetValue strValue p =
     (if AString_IsEmpty strValue then (False, p)
      else (True, p\<lparr>m_objValues := if strValue = None then [] else [strValue]\<rparr>))"

definition SipParameter_SetValues :: "AString \<Rightarrow> SipParameter \<Rightarrow> bool \<times> SipParameter" where
  "SipParameter_SetValues strValues p =
     (if AString_IsEmpty strValues then (False, p)
      else
        (True, p\<lparr>m_objValues :=
          if strValues = None then []
          else if AString_StartsWith_char (CHR 0x22) strValues then
            (if AString_Contains_char (CHR '','') (unquoted strValues)
             then AString_Split (CHR '','') True (unquoted strValues) else [strValues])
          else if AString_Contains_char (CHR '','') strValues then AString_Split (CHR '','') True strValues
          else [strValues]\<rparr>))"

definition SipParameter_Create :: "AString \<Rightarrow> SipParameter \<Rightarrow> bool \<times> SipParameter" where
  "SipParameter_Create strParameter p =
     (let (nCount, strName, strValue) = AString_SplitF (CHR ''='') True strParameter (m_strName p) None
      in if nCount = 1 then (True, p\<lparr>m_strName := strName, m_objValues := []\<rparr>)
         else if nCount = 2 then SipParameter_SetValues strValue (p\<lparr>m_strName := strName\<rparr>)
         else (False, \<lparr>m_strName = None, m_objValues = []\<rparr>))"

definition append_value :: "AString \<Rightarrow> AString \<Rightarrow> AString" where
  "append_value strElem s = AString_Append strElem (AString_Append_char (CHR '','') s)"

definition SipParameter_ToString :: "SipParameter \<Rightarrow> AString" where
  "SipParameter_ToString p =
     (case m_objValues p of
        [] \<Rightarrow> m_strName p
      | [v] \<Rightarrow> AString_Append v (AString_Append_char (CHR ''='') (m_strName p))
      | v # vs \<Rightarrow>
          AString_Append_char (CHR 0x22)
            (fold append_value vs
              (AString_Append v (AString_Append_char (CHR 0x22) (AString_Append_char (CHR ''='') (m_strName p))))))"

subsection \<open>Headers of unknown name\<close>

record UnknownHdr =
  strCompactName :: AString
  strName :: AString
  objBodys :: "AString list"

definition UnknownHdr_new :: "AString \<Rightarrow> UnknownHdr" where
  "UnknownHdr_new name = \<lparr>strCompactName = None, strName = name, objBodys = []\<rparr>"

definition UnknownHdr_Equals :: "AString \<Rightarrow> UnknownHdr \<Rightarrow> bool" where
  "UnknownHdr_Equals name h \<longleftrightarrow>
     \<not> (name = None \<or> name = Some []) \<and>
     (AString_EqualsIgnoreCase name (strCompactName h) \<or> AString_EqualsIgnoreCase name (strName h))"

type_synonym UnknownHdrs = "UnknownHdr list"

definition FindHeader :: "AString \<Rightarrow> UnknownHdrs \<Rightarrow> nat option" where
  "FindHeader name hs = find_index (UnknownHdr_Equals name) hs"

definition DeleteHeader :: "AString \<Rightarrow> UnknownHdrs \<Rightarrow> UnknownHdrs" where
  "DeleteHeader name hs = (case find_index (UnknownHdr_Equals name) hs of None \<Rightarrow> hs | Some i \<Rightarrow> remove_nth i hs)"

definition Unknown_AddHeader :: "AString \<Rightarrow> AString \<Rightarrow> UnknownHdrs \<Rightarrow> UnknownHdrs" where
  "Unknown_AddHeader name strBody hs =
     (case FindHeader name hs of
        None \<Rightarrow> hs @ [(UnknownHdr_new name)\<lparr>objBodys := [strBody]\<rparr>]
      | Some i \<Rightarrow> hs[i := (hs ! i)\<lparr>objBodys := objBodys (hs ! i) @ [strBody]\<rparr>])"

definition Unknown_PrependHeader :: "AString \<Rightarrow> AString \<Rightarrow> UnknownHdrs \<Rightarrow> UnknownHdrs" where
  "Unknown_PrependHeader name strBody hs =
     (case FindHeader name hs of
        None \<Rightarrow> hs @ [(UnknownHdr_new name)\<lparr>objBodys := [strBody]\<rparr>]
      | Some i \<Rightarrow> hs[i := (hs ! i)\<lparr>objBodys := strBody # objBodys (hs ! i)\<rparr>])"

definition Unknown_SetHeader :: "AString \<Rightarrow> AString \<Rightarrow> UnknownHdrs \<Rightarrow> UnknownHdrs" where
  "Unknown_SetHeader name strBody hs =
     (case FindHeader name hs of
        None \<Rightarrow> hs @ [(UnknownHdr_new name)\<lparr>objBodys := [strBody]\<rparr>]
      | Some i \<Rightarrow>
          hs[i := (hs ! i)\<lparr>objBodys := if objBodys (hs ! i) = [] then [strBody] else (objBodys (hs ! i))[0 := strBody]\<rparr>])"

text \<open>The bodies of a header are removed one at a time, the header with the last of them.\<close>

definition Unknown_RemoveHeader :: "AString \<Rightarrow> UnknownHdrs \<Rightarrow> UnknownHdrs" where
  "Unknown_RemoveHeader name hs =
     (case FindHeader name hs of
        None \<Rightarrow> hs
      | Some i \<Rightarrow>
          (let hs = hs[i := (hs ! i)\<lparr>objBodys := remove_nth 0 (objBodys (hs ! i))\<rparr>]
           in if objBodys (hs ! i) = [] then DeleteHeader name hs else hs))"

definition Unknown_GetHeader :: "AString \<Rightarrow> nat \<Rightarrow> UnknownHdrs \<Rightarrow> AString option" where
  "Unknown_GetHeader name nIndex hs =
     (case FindHeader name hs of
        None \<Rightarrow> Some None
      | Some i \<Rightarrow> if nIndex < length (objBodys (hs ! i)) then Some (objBodys (hs ! i) ! nIndex) else None)"

definition Unknown_GetHeaderCount :: "AString \<Rightarrow> UnknownHdrs \<Rightarrow> nat" where
  "Unknown_GetHeaderCount name hs = (case FindHeader name hs of None \<Rightarrow> 0 | Some i \<Rightarrow> length (objBodys (hs ! i)))"

definition Unknown_GetHeaders :: "AString \<Rightarrow> UnknownHdrs \<Rightarrow> AString list" where
  "Unknown_GetHeaders name hs = (case FindHeader name hs of None \<Rightarrow> [] | Some i \<Rightarrow> objBodys (hs ! i))"

definition append_body :: "AString \<Rightarrow> AString \<Rightarrow> AString" where
  "append_body strBody s =
     AString_Append strBody (AString_Append_char (CHR '' '') (AString_Append_char (CHR '','') s))"

definition Unknown_GetHeaderBodys :: "AString \<Rightarrow> UnknownHdrs \<Rightarrow> AString" where
  "Unknown_GetHeaderBodys name hs =
     (case FindHeader name hs of
        None \<Rightarrow> None
      | Some i \<Rightarrow>
          (case objBodys (hs ! i) of [] \<Rightarrow> None | b # bs \<Rightarrow> fold append_body bs b))"

definition Unknown_OverwriteHeaders :: "UnknownHdrs \<Rightarrow> UnknownHdrs \<Rightarrow> UnknownHdrs" where
  "Unknown_OverwriteHeaders objOther hs =
     fold (\<lambda>h hs. fold (Unknown_AddHeader (strName h)) (objBodys h) (DeleteHeader (strName h) hs)) objOther hs"

subsection \<open>The headers of the protocol stack\<close>

definition SipStack_IsUnknownHeader :: "int \<Rightarrow> AString \<Rightarrow> bool \<times> int" where
  "SipStack_IsUnknownHeader nType name =
     (let nType = (if AString_GetLength name \<noteq> 0 then GetHdrType (Some (c_string (chars name))) else nType)
      in (nType = UNKNOWN, nType))"

text \<open>A new header that holds the text; \<open>Some None\<close> is failure.\<close>

definition SipStack_DecodeHeader ::
  "'o specific_ops \<Rightarrow> int \<Rightarrow> AString \<Rightarrow> AString \<Rightarrow> 'o SipHeader option option" where
  "SipStack_DecodeHeader ops nType name strBody =
     (let nUnknownType = GetHdrType (Some (c_string (chars name)));
          nType = (if nType = UNKNOWN \<and> AString_GetLength name \<noteq> 0 \<and> nUnknownType \<noteq> TYPE_INVALID
                   then nUnknownType else nType);
          nType = CheckAndGetHdrEnumType nType
      in if \<not> (nType \<ge> 0 \<and> nType < TYPE_END) then Some None
         else if factory nType = NoClass then None
         else if nType = UNKNOWN then
           (if AString_GetLength name = 0 then Some None
            else Some (Some (Unknown (Some (c_string (chars name))) (Some (c_string (chars strBody))))))
         else
           (case strBody of
              None \<Rightarrow> Some None
            | Some body \<Rightarrow>
                map_option (\<lambda>(ok, h). if ok then Some h else None) (DecodeNew ops nType body)))"

definition SipStack_EncodeHeaderBody :: "'o specific_ops \<Rightarrow> 'o SipHeader option \<Rightarrow> bool \<Rightarrow> bool \<times> AString" where
  "SipStack_EncodeHeaderBody ops pHeader bParams =
     (case pHeader of
        None \<Rightarrow> (False, None)
      | Some (Unknown pszName pszValue) \<Rightarrow> (True, AString_psz pszValue)
      | Some h \<Rightarrow> (case EncodeHdr ops bParams h of None \<Rightarrow> (False, None) | Some t \<Rightarrow> (True, Some t)))"

definition SipStack_GetHeader :: "'o SipHeaders \<Rightarrow> int \<Rightarrow> nat \<Rightarrow> 'o SipHeader option" where
  "SipStack_GetHeader hdrs nType nIndex =
     (let nType = CheckAndGetHdrEnumType nType
      in if IsListHdr nType then
           (case GetHdrObj hdrs nType of
              Some (Many hs) \<Rightarrow> if nIndex < length hs then Some (hs ! nIndex) else None
            | _ \<Rightarrow> GetHdrObj_at hdrs nType 0)
         else GetHdrObj_at hdrs nType 0)"

definition SipStack_GetHeaderCount :: "'o SipHeaders \<Rightarrow> int \<Rightarrow> nat" where
  "SipStack_GetHeaderCount hdrs nType =
     (let nType = CheckAndGetHdrEnumType nType
      in case (if IsListHdr nType then GetHdrObj hdrs nType else None) of
           Some (Many hs) \<Rightarrow> length hs
         | _ \<Rightarrow> if GetHdrObj_at hdrs nType 0 = None then 0 else 1)"

definition SipStack_IsHeaderPresent :: "'o SipHeaders \<Rightarrow> int \<Rightarrow> bool" where
  "SipStack_IsHeaderPresent hdrs nType \<longleftrightarrow> SipStack_GetHeader hdrs nType 0 \<noteq> None"

definition option_matches :: "'o specific_ops \<Rightarrow> AString \<Rightarrow> 'o SipHeader option \<Rightarrow> bool" where
  "option_matches ops strOption h \<longleftrightarrow>
     (let pszOptionTag = (case h of None \<Rightarrow> None | Some h \<Rightarrow> GetValue ops h)
      in AString_Compare pszOptionTag (Some ''*'') = 0 \<or> AString_EqualsIgnoreCase_psz pszOptionTag strOption)"

definition SipStack_IsOptionSupported :: "'o specific_ops \<Rightarrow> 'o SipHeaders \<Rightarrow> AString \<Rightarrow> bool" where
  "SipStack_IsOptionSupported ops hdrs strOption \<longleftrightarrow>
     list_ex (\<lambda>i. option_matches ops strOption (SipStack_GetHeader hdrs SUPPORTED i))
       [0..<SipStack_GetHeaderCount hdrs SUPPORTED]"

definition SipStack_SetHeader :: "'o specific_ops \<Rightarrow> 'o SipHeader \<Rightarrow> 'o SipHeaders \<Rightarrow> bool \<times> 'o SipHeaders" where
  "SipStack_SetHeader ops h hdrs =
     (if HdrType_of h \<le> TYPE_INVALID \<or> HdrType_of h \<ge> TYPE_END then (False, hdrs)
      else if HdrType_of h = UNKNOWN then AppendHdr ops h hdrs
      else SetHdr ops h hdrs)"

definition extracted :: "SipNameValue \<Rightarrow> SipParameter" where
  "extracted nv =
     fold (\<lambda>v. SipParameter_AddValues (AString_psz (Some v))) (m_valueList nv)
       (SipParameter_new (AString_psz (m_pszName nv)))"

definition SipStack_ExtractParameters :: "'o specific_ops \<Rightarrow> 'o SipHeader \<Rightarrow> SipParameter list" where
  "SipStack_ExtractParameters ops h = (case GetParameters ops h of None \<Rightarrow> [] | Some ps \<Rightarrow> map extracted ps)"

definition token_parameter :: "AString \<Rightarrow> SipParameter" where
  "token_parameter strToken =
     (let nPos = AString_GetIndexOf_char (CHR ''='') 0 strToken
      in if nPos = NPOS then SipParameter_new strToken
         else \<lparr>m_strName = AString_GetSubStr 0 nPos strToken,
           m_objValues = AString_Split (CHR '','') True
             (AString_GetSubStr (nPos + 1) (AString_GetLength strToken - nPos) strToken)\<rparr>)"

definition SipStack_ExtractParameters_text :: "AString \<Rightarrow> char \<Rightarrow> SipParameter list" where
  "SipStack_ExtractParameters_text strParams cSep =
     (let strTmp = AString_Trim strParams
      in if AString_GetLength strTmp = 0 \<or> AString_Equals_char cSep strTmp then []
         else map token_parameter (AString_Split cSep True strTmp))"

subsection \<open>The accessors of a message\<close>

record 'o CoreSipMessage = ISipMessage +
  m_pSipMsg :: "'o SipHeaders"
  m_objUnknownHeaders :: UnknownHdrs

definition with_decoded ::
  "('o SipHeader \<Rightarrow> 'o SipHeaders \<Rightarrow> bool \<times> 'o SipHeaders) \<Rightarrow> 'o SipHeader option option \<Rightarrow> 'o CoreSipMessage \<Rightarrow>
   (bool \<times> 'o CoreSipMessage) option" where
  "with_decoded f d msg =
     map_option (\<lambda>pSipHdr.
       case pSipHdr of
         None \<Rightarrow> (False, msg)
       | Some h \<Rightarrow> (let (ok, hdrs) = f h (m_pSipMsg msg) in (ok, msg\<lparr>m_pSipMsg := hdrs\<rparr>))) d"

definition AddHeader :: "'o specific_ops \<Rightarrow> int \<Rightarrow> AString \<Rightarrow> AString \<Rightarrow> 'o CoreSipMessage \<Rightarrow> (bool \<times> 'o CoreSipMessage) option" where
  "AddHeader ops nType strValue name msg =
     (let (unknown, nType) = SipStack_IsUnknownHeader nType name
      in if unknown then Some (True, msg\<lparr>m_objUnknownHeaders := Unknown_AddHeader name strValue (m_objUnknownHeaders msg)\<rparr>)
         else with_decoded (AppendHdr ops) (SipStack_DecodeHeader ops nType name strValue) msg)"

definition PrependHeader :: "'o specific_ops \<Rightarrow> int \<Rightarrow> AString \<Rightarrow> AString \<Rightarrow> 'o CoreSipMessage \<Rightarrow> (bool \<times> 'o CoreSipMessage) option" where
  "PrependHeader ops nType strValue name msg =
     (let (unknown, nType) = SipStack_IsUnknownHeader nType name
      in if unknown then Some (True, msg\<lparr>m_objUnknownHeaders := Unknown_PrependHeader name strValue (m_objUnknownHeaders msg)\<rparr>)
         else with_decoded (\<lambda>h. InsertHdr ops h 0) (SipStack_DecodeHeader ops nType name strValue) msg)"

definition SetHeader :: "'o specific_ops \<Rightarrow> int \<Rightarrow> AString \<Rightarrow> AString \<Rightarrow> 'o CoreSipMessage \<Rightarrow> (bool \<times> 'o CoreSipMessage) option" where
  "SetHeader ops nType strValue name msg =
     (let (unknown, nType) = SipStack_IsUnknownHeader nType name
      in if unknown then Some (True, msg\<lparr>m_objUnknownHeaders := Unknown_SetHeader name strValue (m_objUnknownHeaders msg)\<rparr>)
         else with_decoded (SipStack_SetHeader ops) (SipStack_DecodeHeader ops nType name strValue) msg)"

definition RemoveHeader :: "int \<Rightarrow> AString \<Rightarrow> 'o CoreSipMessage \<Rightarrow> 'o CoreSipMessage" where
  "RemoveHeader nType name msg =
     (let (unknown, nType) = SipStack_IsUnknownHeader nType name
      in if unknown then msg\<lparr>m_objUnknownHeaders := Unknown_RemoveHeader name (m_objUnknownHeaders msg)\<rparr>
         else msg\<lparr>m_pSipMsg := snd (RemoveHdr (CheckAndGetHdrEnumType nType) (m_pSipMsg msg))\<rparr>)"

definition GetHeader :: "'o specific_ops \<Rightarrow> int \<Rightarrow> nat \<Rightarrow> AString \<Rightarrow> 'o CoreSipMessage \<Rightarrow> AString option" where
  "GetHeader ops nType nIndex name msg =
     (let (unknown, nType) = SipStack_IsUnknownHeader nType name
      in if unknown then Unknown_GetHeader name nIndex (m_objUnknownHeaders msg)
         else if SipStack_GetHeaderCount (m_pSipMsg msg) nType = 0 then Some None
         else Some (snd (SipStack_EncodeHeaderBody ops (SipStack_GetHeader (m_pSipMsg msg) nType nIndex) True)))"

definition GetHeaderCount :: "int \<Rightarrow> AString \<Rightarrow> 'o CoreSipMessage \<Rightarrow> nat" where
  "GetHeaderCount nType name msg =
     (let (unknown, nType) = SipStack_IsUnknownHeader nType name
      in if unknown then Unknown_GetHeaderCount name (m_objUnknownHeaders msg)
         else SipStack_GetHeaderCount (m_pSipMsg msg) nType)"

definition GetHeaders :: "'o specific_ops \<Rightarrow> int \<Rightarrow> AString \<Rightarrow> 'o CoreSipMessage \<Rightarrow> AString list" where
  "GetHeaders ops nType name msg =
     (let (unknown, nType) = SipStack_IsUnknownHeader nType name
      in if unknown then Unknown_GetHeaders name (m_objUnknownHeaders msg)
         else
           map (\<lambda>i. snd (SipStack_EncodeHeaderBody ops (SipStack_GetHeader (m_pSipMsg msg) nType i) True))
             (List.filter (\<lambda>i. SipStack_GetHeader (m_pSipMsg msg) nType i \<noteq> None)
               [0..<SipStack_GetHeaderCount (m_pSipMsg msg) nType]))"

definition IsHeaderPresent :: "int \<Rightarrow> AString \<Rightarrow> 'o CoreSipMessage \<Rightarrow> bool" where
  "IsHeaderPresent nType name msg \<longleftrightarrow>
     (let (unknown, nType) = SipStack_IsUnknownHeader nType name
      in if unknown then FindHeader name (m_objUnknownHeaders msg) \<noteq> None
         else SipStack_IsHeaderPresent (m_pSipMsg msg) nType)"

definition IsOptionSupported :: "'o specific_ops \<Rightarrow> AString \<Rightarrow> 'o CoreSipMessage \<Rightarrow> bool" where
  "IsOptionSupported ops strOption msg \<longleftrightarrow> SipStack_IsOptionSupported ops (m_pSipMsg msg) strOption"

subsection \<open>A parsed header\<close>

record CoreHeader =
  m_nType :: int
  h_strName :: AString
  m_strBody :: AString
  m_objParams :: "SipParameter list"

text \<open>The names of \<open>SipHeader::NAME\<close>: those of the stack, but for the case of one and the null ends.\<close>

definition SipHeader_NAME :: "int \<Rightarrow> AString" where
  "SipHeader_NAME nType =
     (if nType = UNKNOWN \<or> nType = TYPE_END then None
      else if nType = 20 then Some ''Mime-Version''
      else Some (gaszSipHdr ! nat nType))"

definition CoreHeader_new :: "int \<Rightarrow> CoreHeader" where
  "CoreHeader_new nType =
     \<lparr>m_nType = nType,
      h_strName = (if nType \<le> TYPE_INVALID \<or> nType \<ge> TYPE_END then None
        else if nType \<noteq> UNKNOWN then SipHeader_NAME nType else Some []),
      m_strBody = None, m_objParams = []\<rparr>"

definition ParseUnknownBody :: "AString \<Rightarrow> CoreHeader \<Rightarrow> CoreHeader" where
  "ParseUnknownBody strBody h =
     (let nSemiColon = GetIndexOfDelimiter strBody (CHR '';'') True
      in if nSemiColon = NPOS then h\<lparr>m_strBody := strBody\<rparr>
         else h\<lparr>m_objParams := SipStack_ExtractParameters_text (AString_GetSubStr (nSemiColon + 1) (-1) strBody) (CHR '';''),
                m_strBody := AString_Trim (AString_GetSubStr 0 nSemiColon strBody)\<rparr>)"

definition SipHeader_Decode ::
  "'o specific_ops \<Rightarrow> AString \<Rightarrow> bool \<Rightarrow> CoreHeader \<Rightarrow> (bool \<times> CoreHeader) option" where
  "SipHeader_Decode ops strBody bParseParameter h =
     (let strTrimmedBody = AString_Trim strBody
      in if strTrimmedBody = Some [] \<or> strTrimmedBody = None then Some (True, h\<lparr>m_strBody := strTrimmedBody\<rparr>)
         else
           (case SipStack_DecodeHeader ops (m_nType h) (h_strName h) strTrimmedBody of
              None \<Rightarrow> None
            | Some None \<Rightarrow> Some (False, h)
            | Some (Some pSipHdr) \<Rightarrow>
                (let h = h\<lparr>m_nType := HdrType_of pSipHdr,
                       m_strBody := snd (SipStack_EncodeHeaderBody ops (Some pSipHdr) False)\<rparr>;
                     h = (if m_nType h = UNKNOWN then ParseUnknownBody (m_strBody h) h else h)
                 in Some (True,
                      if bParseParameter \<and> m_nType h \<noteq> 22 \<and> m_nType h \<noteq> 23 \<and> m_nType h \<noteq> UNKNOWN
                      then h\<lparr>m_objParams := SipStack_ExtractParameters ops pSipHdr\<rparr> else h))))"

definition CreateHeader :: "'o specific_ops \<Rightarrow> int \<Rightarrow> AString \<Rightarrow> CoreHeader option option" where
  "CreateHeader ops nType strValue =
     (if \<not> (nType > TYPE_INVALID \<and> nType < TYPE_END) then Some None
      else
        map_option (\<lambda>(ok, h). if ok then Some h else None) (SipHeader_Decode ops strValue True (CoreHeader_new nType)))"

definition SipHeader_GetParameter :: "AString \<Rightarrow> CoreHeader \<Rightarrow> SipParameter option" where
  "SipHeader_GetParameter name h =
     map_option (nth (m_objParams h)) (find_index (\<lambda>p. AString_EqualsIgnoreCase name (m_strName p)) (m_objParams h))"

definition SipHeader_GetHeaderValue :: "CoreHeader \<Rightarrow> AString" where
  "SipHeader_GetHeaderValue h =
     fold (\<lambda>p s. AString_Append (AString_Append (SipParameter_ToString p) (Some '';'')) s) (m_objParams h) (m_strBody h)"

end
