(* ===== verification/Refresh_Timer.thy ===== *)
theory Refresh_Timer
  imports Core_Message "HOL-Library.Signed_Division"
begin

text \<open>
  The refresh timer under subscriptions, registrations and sessions
  (\<open>engine/core/util/RefreshHelper.cpp\<close>). The timer is the duration it was set to, in milliseconds;
  a connection is a number. The virtual functions of the derived class, the listener behind
  \<open>IRefreshable\<close> among them, are arguments. An arithmetic overflow of a 32-bit value, which is
  undefined, is recorded in \<open>r_bOverflow\<close>.
\<close>

abbreviation (input) POLICY_NO_REFRESH :: int where "POLICY_NO_REFRESH \<equiv> -1"
abbreviation (input) POLICY_SPEC :: int where "POLICY_SPEC \<equiv> 0"
abbreviation (input) POLICY_REMAIN_TIME :: int where "POLICY_REMAIN_TIME \<equiv> 1"
abbreviation (input) POLICY_RATIO :: int where "POLICY_RATIO \<equiv> 2"
abbreviation (input) TRANSACTION_TIMEOUT :: int where "TRANSACTION_TIMEOUT \<equiv> -1"
abbreviation (input) CRITERIA_INTERVAL :: int where "CRITERIA_INTERVAL \<equiv> 1200"
abbreviation (input) MINIMUM_REMAIN_INTERVAL :: int where "MINIMUM_REMAIN_INTERVAL \<equiv> 600"

record RefreshHelper =
  m_nPolicy :: int
  m_nCriteriaInterval :: int
  m_nValueEorLt :: int
  m_nValueGt :: int
  m_bRepeatable :: bool
  m_nDuration :: int
  m_nRemainDuration :: int
  m_piTimer :: "int option"
  m_piRefreshSc :: "nat option"
  r_closed :: "nat list"
  r_bOverflow :: bool

definition fits_s32 :: "int \<Rightarrow> bool" where
  "fits_s32 n \<longleftrightarrow> - (2 ^ 31) \<le> n \<and> n < 2 ^ 31"

definition RefreshHelper_new :: "bool \<Rightarrow> RefreshHelper" where
  "RefreshHelper_new bRepeatable =
     \<lparr>m_nPolicy = POLICY_SPEC, m_nCriteriaInterval = CRITERIA_INTERVAL, m_nValueEorLt = 50,
      m_nValueGt = MINIMUM_REMAIN_INTERVAL, m_bRepeatable = bRepeatable, m_nDuration = 0, m_nRemainDuration = 0,
      m_piTimer = None, m_piRefreshSc = None, r_closed = [], r_bOverflow = False\<rparr>"

definition SetPolicy :: "int \<Rightarrow> int \<Rightarrow> int \<Rightarrow> int \<Rightarrow> 'a RefreshHelper_scheme \<Rightarrow> 'a RefreshHelper_scheme" where
  "SetPolicy nPolicy nCriteriaInterval nValueEorLt nValueGt r =
     r\<lparr>m_nPolicy := nPolicy, m_nCriteriaInterval := nCriteriaInterval, m_nValueEorLt := nValueEorLt, m_nValueGt := nValueGt\<rparr>"

definition SetDuration :: "int \<Rightarrow> 'a RefreshHelper_scheme \<Rightarrow> 'a RefreshHelper_scheme" where
  "SetDuration nDuration r = r\<lparr>m_nDuration := nDuration\<rparr>"

definition IsTimerActive :: "'a RefreshHelper_scheme \<Rightarrow> bool" where
  "IsTimerActive r \<longleftrightarrow> m_piTimer r \<noteq> None"

text \<open>The interval, and whether every product on the way fits.\<close>

definition percent_of :: "int \<Rightarrow> int \<Rightarrow> int \<times> bool" where
  "percent_of nTime nRatio = ((nTime * nRatio) sdiv 100, fits_s32 (nTime * nRatio))"

definition RefreshHelper_GetTimerInterval :: "'a RefreshHelper_scheme \<Rightarrow> int \<times> bool" where
  "RefreshHelper_GetTimerInterval r =
     (let nExpirationTime = m_nDuration r; policy = m_nPolicy r; long = nExpirationTime > m_nCriteriaInterval r
      in if policy = POLICY_SPEC then
           (if long then (nExpirationTime - m_nValueGt r, True) else percent_of nExpirationTime (m_nValueEorLt r))
         else if policy = POLICY_REMAIN_TIME then
           (if long then (nExpirationTime - m_nValueGt r, True) else (nExpirationTime - m_nValueEorLt r, True))
         else if policy = POLICY_RATIO then
           (if long then percent_of nExpirationTime (m_nValueGt r) else percent_of nExpirationTime (m_nValueEorLt r))
         else (nExpirationTime sdiv 2, True))"

definition StopRefresh :: "'a RefreshHelper_scheme \<Rightarrow> 'a RefreshHelper_scheme" where
  "StopRefresh r = r\<lparr>m_piTimer := None\<rparr>"

text \<open>\<open>created\<close>: the timer service has a timer.\<close>

definition RefreshHelper_SetTimer :: "bool \<Rightarrow> int \<Rightarrow> 'a RefreshHelper_scheme \<Rightarrow> bool \<times> 'a RefreshHelper_scheme" where
  "RefreshHelper_SetTimer created nTimerDuration r =
     (if \<not> created then (False, r\<lparr>m_piTimer := None\<rparr>)
      else (True, r\<lparr>m_piTimer := Some (nTimerDuration * 1000),
                    r_bOverflow := r_bOverflow r \<or> \<not> fits_s32 (nTimerDuration * 1000)\<rparr>))"

definition StartRefresh ::
  "bool \<Rightarrow> ('a RefreshHelper_scheme \<Rightarrow> int \<times> bool) \<Rightarrow> 'a RefreshHelper_scheme \<Rightarrow> bool \<times> 'a RefreshHelper_scheme" where
  "StartRefresh created interval r =
     (let r = r\<lparr>m_piTimer := None\<rparr>
      in if m_nPolicy r = POLICY_NO_REFRESH then (True, r)
         else
           (let (nTimerDuration, fits) = interval r; r = r\<lparr>r_bOverflow := r_bOverflow r \<or> \<not> fits\<rparr>
            in if nTimerDuration \<le> 0 then (False, r)
               else
                 (let (ok, r) = RefreshHelper_SetTimer created nTimerDuration r
                  in if \<not> ok then (False, r)
                     else (True, r\<lparr>m_nRemainDuration := m_nDuration r - nTimerDuration\<rparr>))))"

definition ConsumeRemainedTime :: "bool \<Rightarrow> 'a RefreshHelper_scheme \<Rightarrow> bool \<times> 'a RefreshHelper_scheme" where
  "ConsumeRemainedTime created r =
     (if m_nRemainDuration r \<le> 0 then (True, r)
      else
        (let (ok, r) = RefreshHelper_SetTimer created (m_nRemainDuration r) (StopRefresh r)
         in if \<not> ok then (False, r) else (True, r\<lparr>m_nRemainDuration := 0\<rparr>)))"

definition SetConnection :: "nat option \<Rightarrow> 'a RefreshHelper_scheme \<Rightarrow> 'a RefreshHelper_scheme" where
  "SetConnection piScc r =
     r\<lparr>r_closed := (case m_piRefreshSc r of None \<Rightarrow> r_closed r | Some c \<Rightarrow> r_closed r @ [c]), m_piRefreshSc := piScc\<rparr>"

definition AbortConnection :: "'a RefreshHelper_scheme \<Rightarrow> 'a RefreshHelper_scheme" where
  "AbortConnection r = SetConnection None r"

text \<open>\<open>sent\<close>: the connection sent the request, after the mediator had adjusted it.\<close>

definition RefreshHelper_SendRefreshRequest ::
  "bool \<Rightarrow> nat option \<Rightarrow> 'a RefreshHelper_scheme \<Rightarrow> bool \<times> 'a RefreshHelper_scheme" where
  "RefreshHelper_SendRefreshRequest sent piScc r =
     (if piScc = None then (False, r) else if \<not> sent then (False, r) else (True, SetConnection piScc r))"

text \<open>The expiry of the timer; \<open>same\<close> tells whether it is this helper's timer.\<close>

definition RefreshHelper_TimerExpired ::
  "bool \<Rightarrow> bool \<Rightarrow> ('a RefreshHelper_scheme \<Rightarrow> 'a RefreshHelper_scheme) \<Rightarrow>
   ('a RefreshHelper_scheme \<Rightarrow> 'a RefreshHelper_scheme) \<Rightarrow> 'a RefreshHelper_scheme \<Rightarrow> 'a RefreshHelper_scheme" where
  "RefreshHelper_TimerExpired created same RefreshStarted RefreshTerminated r =
     (if m_piTimer r = None \<or> \<not> same then r
      else
        (let r = r\<lparr>m_piTimer := None\<rparr>
         in if m_nRemainDuration r > 0 then
              (if m_bRepeatable r then
                 (let (ok, r) = RefreshHelper_SetTimer created (m_nRemainDuration r) r
                  in if \<not> ok then r else RefreshStarted (r\<lparr>m_nRemainDuration := 0\<rparr>))
               else RefreshStarted r)
            else RefreshTerminated r))"

text \<open>
  A response to the refresh request: \<open>received\<close> and \<open>parsed\<close> tell whether the connection had it and
  its bodies were parsed. \<open>by_reinvite\<close> is \<open>IsSessionTimerUpdateRequiredByReInvite\<close>.
\<close>

definition Error_NotifyError ::
  "(int \<Rightarrow> 'a RefreshHelper_scheme \<Rightarrow> 'a RefreshHelper_scheme) \<Rightarrow> bool \<Rightarrow> int \<Rightarrow>
   'a RefreshHelper_scheme \<Rightarrow> 'a RefreshHelper_scheme" where
  "Error_NotifyError RefreshCompleted transaction_expired nCode r =
     SetConnection None (RefreshCompleted (if transaction_expired then TRANSACTION_TIMEOUT else nCode) r)"

definition ClientConnection_NotifyResponse ::
  "bool \<Rightarrow> bool \<Rightarrow> int \<Rightarrow> bool \<Rightarrow> int \<Rightarrow> int \<Rightarrow> (int \<Rightarrow> 'a RefreshHelper_scheme \<Rightarrow> 'a RefreshHelper_scheme) \<Rightarrow>
   ('a RefreshHelper_scheme \<Rightarrow> 'a RefreshHelper_scheme) \<Rightarrow> 'a RefreshHelper_scheme \<Rightarrow> 'a RefreshHelper_scheme" where
  "ClientConnection_NotifyResponse received parsed parsing_error by_reinvite nMethod nStatusCode
     RefreshCompleted RefreshStarted r =
     (if \<not> received then r
      else if \<not> parsed then Error_NotifyError RefreshCompleted False parsing_error r
      else
        (let r = RefreshCompleted 0 r
         in if nStatusCode \<ge> 200 \<and> nStatusCode \<noteq> 401 \<and> nStatusCode \<noteq> 407 then
              (let r = SetConnection None r;
                   r = (if nMethod = SipMethod_INVITE \<and> nStatusCode = 422 then RefreshStarted r else r)
               in if \<not> by_reinvite \<and> nMethod = SipMethod_UPDATE \<and> nStatusCode = 500 then RefreshStarted r else r)
            else r))"

subsection \<open>The interval fits into the duration\<close>

lemma half_bounds: "0 < (n :: int) \<Longrightarrow> 0 \<le> n sdiv 2 \<and> n sdiv 2 < n"
  by (cases "n = 0") (simp_all add: signed_divide_int_def)

lemma sdiv_nonneg: "0 \<le> (n :: int) \<Longrightarrow> 0 < k \<Longrightarrow> n sdiv k = n div k"
  by (cases "n = 0") (simp_all add: signed_divide_int_def)

text \<open>A timer that was started rings after a positive time, and the rest of the duration remains.\<close>

lemma StartRefresh_timer:
  assumes "StartRefresh created interval r = (True, r')" "m_nPolicy r \<noteq> POLICY_NO_REFRESH"
  shows "m_piTimer r' = Some (fst (interval (r\<lparr>m_piTimer := None\<rparr>)) * 1000)" "0 < fst (interval (r\<lparr>m_piTimer := None\<rparr>))"
    "m_nRemainDuration r' = m_nDuration r - fst (interval (r\<lparr>m_piTimer := None\<rparr>))" "m_nDuration r' = m_nDuration r"
    "m_nPolicy r' = m_nPolicy r"
  using assms by (auto simp: StartRefresh_def RefreshHelper_SetTimer_def Let_def split: prod.splits if_splits)

end
