(* ===== verification/Session_Timer.thy ===== *)
theory Session_Timer
  imports Core_Headers Refresh_Timer
begin

text \<open>
  The session timer of RFC 4028 (\<open>engine/core/SessionRefreshHelper.cpp\<close>): the headers a message
  carries, who refreshes and when. A SIP connection is its message and the state of its dialog, either
  of which may be missing. The configuration, the transaction timers and what the platform answers are
  the environment \<open>env\<close>; the listener of the helper is the function \<open>cb\<close> on its state. Result codes are
  the integers of the code; \<open>None\<close> is a call through a null pointer in the header stack.
\<close>

abbreviation (input) STATE_CONFIRMED :: int where "STATE_CONFIRMED \<equiv> 2"
abbreviation (input) REFRESHER_NONE :: int where "REFRESHER_NONE \<equiv> 0"
abbreviation (input) REFRESHER_LOCAL :: int where "REFRESHER_LOCAL \<equiv> 1"
abbreviation (input) REFRESHER_REMOTE :: int where "REFRESHER_REMOTE \<equiv> 2"
abbreviation (input) RESULT_ERROR :: int where "RESULT_ERROR \<equiv> -1"
abbreviation (input) RESULT_SUCCESS :: int where "RESULT_SUCCESS \<equiv> 0"
abbreviation (input) RESULT_REJECT_422 :: int where "RESULT_REJECT_422 \<equiv> 1"
abbreviation (input) RESULT_REJECT_500 :: int where "RESULT_REJECT_500 \<equiv> 2"
abbreviation (input) SESSION_HEADER_SESSION_EXPIRES :: u32 where "SESSION_HEADER_SESSION_EXPIRES \<equiv> 0x01"
abbreviation (input) SESSION_HEADER_MIN_SE :: u32 where "SESSION_HEADER_MIN_SE \<equiv> 0x02"
abbreviation (input) SESSION_HEADER_REQUIRE_TIMER_OPTION :: u32 where "SESSION_HEADER_REQUIRE_TIMER_OPTION \<equiv> 0x04"
abbreviation (input) SESSION_HEADER_CHECK_SESSION_EXPIRES :: u32 where "SESSION_HEADER_CHECK_SESSION_EXPIRES \<equiv> 0x10"
abbreviation (input) SESSION_HEADER_LOCAL_TIMER_REQUIRED :: u32 where "SESSION_HEADER_LOCAL_TIMER_REQUIRED \<equiv> 0x20"
abbreviation (input) SESSION_HEADER_NO_REFRESHER_CONTROLLED_ON_EARLY_UPDATE :: u32 where
  "SESSION_HEADER_NO_REFRESHER_CONTROLLED_ON_EARLY_UPDATE \<equiv> 0x40"
abbreviation (input) TIMER_SUPPORTED_ON_INITIAL_INVITE :: u32 where "TIMER_SUPPORTED_ON_INITIAL_INVITE \<equiv> 0x0001"
abbreviation (input) TIMER_SUPPORTED_ON_SESSION_UPDATE :: u32 where "TIMER_SUPPORTED_ON_SESSION_UPDATE \<equiv> 0x0002"
abbreviation (input) TIMER_SUPPORTED_ON_REMOTE_UA :: u32 where "TIMER_SUPPORTED_ON_REMOTE_UA \<equiv> 0x0004"
abbreviation (input) TIMER_SUPPORTED_TEMPORARY_ON_INCOMING_INVITE :: u32 where
  "TIMER_SUPPORTED_TEMPORARY_ON_INCOMING_INVITE \<equiv> 0x4000"
abbreviation (input) TIMER_SUPPORTED_TEMPORARY_ON_INCOMING_UPDATE :: u32 where
  "TIMER_SUPPORTED_TEMPORARY_ON_INCOMING_UPDATE \<equiv> 0x8000"
abbreviation (input) STR_TIMER :: AString where "STR_TIMER \<equiv> Some ''timer''"
abbreviation (input) STR_REFRESHER :: AString where "STR_REFRESHER \<equiv> Some ''refresher''"
abbreviation (input) STR_UAC :: AString where "STR_UAC \<equiv> Some ''uac''"
abbreviation (input) STR_UAS :: AString where "STR_UAS \<equiv> Some ''uas''"
abbreviation (input) no_name :: AString where "no_name \<equiv> None"

subsection \<open>State\<close>

record SipConfigV =
  GetSessionMinSe :: int
  IsSessionTimerSupported_config :: bool
  GetSessionMethod :: int
  GetSessionExpires :: int
  GetSessionRefresher :: int
  GetSessionHeaders :: u32

record environment =
  GetSipConfigV :: "SipConfigV option"
  GetTimerValueB :: int
  GetTimerValueF :: int
  GetTimerValueT1 :: int
  IsSessionTimerUpdateRequiredByReInvite :: bool
  timer_created :: bool

record SessionRefreshHelper = RefreshHelper +
  m_nMinSe :: int
  m_nSessionTimerDuration :: int
  m_nLocalSessionTimerDuration :: int
  m_nRefresher :: int
  m_nRefreshRequest :: int
  m_bUpdateMethodAllowed :: bool
  m_nTimerSupportedOnRemoteEnd :: u32
  m_nSipHeaders :: u32

text \<open>A connection: its message, and the state of its dialog.\<close>

type_synonym 'o connection = "'o CoreSipMessage option \<times> int option"

definition SessionRefreshHelper_new :: "environment \<Rightarrow> SessionRefreshHelper" where
  "SessionRefreshHelper_new env =
     RefreshHelper.extend (RefreshHelper_new False)
       (case GetSipConfigV env of
          None \<Rightarrow>
            \<lparr>m_nMinSe = 0, m_nSessionTimerDuration = 0, m_nLocalSessionTimerDuration = 0, m_nRefresher = REFRESHER_NONE,
             m_nRefreshRequest = SipMethod_INVALID, m_bUpdateMethodAllowed = False, m_nTimerSupportedOnRemoteEnd = 0,
             m_nSipHeaders = SESSION_HEADER_SESSION_EXPIRES\<rparr>
        | Some c \<Rightarrow>
            \<lparr>m_nMinSe = 0, m_nSessionTimerDuration = GetSessionExpires c, m_nLocalSessionTimerDuration = 0,
             m_nRefresher = GetSessionRefresher c, m_nRefreshRequest = SipMethod_INVALID, m_bUpdateMethodAllowed = False,
             m_nTimerSupportedOnRemoteEnd = 0, m_nSipHeaders = GetSessionHeaders c\<rparr>)"

definition GetSessionTimerDuration :: "SessionRefreshHelper \<Rightarrow> int" where
  "GetSessionTimerDuration s =
     (if m_nSessionTimerDuration s > 0 then m_nSessionTimerDuration s else m_nLocalSessionTimerDuration s)"

definition HasSessionTimerDuration :: "SessionRefreshHelper \<Rightarrow> bool" where
  "HasSessionTimerDuration s \<longleftrightarrow> GetSessionTimerDuration s > 0"

definition header_option :: "u32 \<Rightarrow> SessionRefreshHelper \<Rightarrow> bool" where
  "header_option nOption s \<longleftrightarrow> flag_set (m_nSipHeaders s) nOption"

definition IsLocalSessionTimerRequired :: "SessionRefreshHelper \<Rightarrow> bool" where
  "IsLocalSessionTimerRequired s \<longleftrightarrow> header_option SESSION_HEADER_LOCAL_TIMER_REQUIRED s"

definition IsMinSeHeaderRequired :: "SessionRefreshHelper \<Rightarrow> bool" where
  "IsMinSeHeaderRequired s \<longleftrightarrow> header_option SESSION_HEADER_MIN_SE s"

definition IsRefresherParameterControlledOnEarlyUpdate :: "SessionRefreshHelper \<Rightarrow> bool" where
  "IsRefresherParameterControlledOnEarlyUpdate s \<longleftrightarrow>
     \<not> header_option SESSION_HEADER_NO_REFRESHER_CONTROLLED_ON_EARLY_UPDATE s"

definition IsRequireHeaderRequired :: "SessionRefreshHelper \<Rightarrow> bool" where
  "IsRequireHeaderRequired s \<longleftrightarrow> header_option SESSION_HEADER_REQUIRE_TIMER_OPTION s"

definition IsSessionExpiresHeaderRequired :: "SessionRefreshHelper \<Rightarrow> bool" where
  "IsSessionExpiresHeaderRequired s \<longleftrightarrow> header_option SESSION_HEADER_SESSION_EXPIRES s"

definition IsSessionTimerSupportedBySessionExpires :: "SessionRefreshHelper \<Rightarrow> bool" where
  "IsSessionTimerSupportedBySessionExpires s \<longleftrightarrow> header_option SESSION_HEADER_CHECK_SESSION_EXPIRES s"

definition IsTimerSupportedOnRemoteEnd :: "u32 \<Rightarrow> SessionRefreshHelper \<Rightarrow> bool" where
  "IsTimerSupportedOnRemoteEnd nFlag s \<longleftrightarrow> flag_set (m_nTimerSupportedOnRemoteEnd s) nFlag"

definition SetOrClearTimerSupportedOnRemoteEnd :: "bool \<Rightarrow> u32 \<Rightarrow> SessionRefreshHelper \<Rightarrow> SessionRefreshHelper" where
  "SetOrClearTimerSupportedOnRemoteEnd bSet nFlag s =
     s\<lparr>m_nTimerSupportedOnRemoteEnd :=
         if bSet then or (m_nTimerSupportedOnRemoteEnd s) nFlag else and (m_nTimerSupportedOnRemoteEnd s) (not nFlag)\<rparr>"

definition IsSessionTimerSupportedOnRemoteUa :: "SessionRefreshHelper \<Rightarrow> bool" where
  "IsSessionTimerSupportedOnRemoteUa s \<longleftrightarrow> IsTimerSupportedOnRemoteEnd TIMER_SUPPORTED_ON_REMOTE_UA s"

definition IsSessionTimerSupportedOnUac :: "SessionRefreshHelper \<Rightarrow> bool" where
  "IsSessionTimerSupportedOnUac s \<longleftrightarrow>
     IsTimerSupportedOnRemoteEnd TIMER_SUPPORTED_ON_INITIAL_INVITE s \<or>
     IsTimerSupportedOnRemoteEnd TIMER_SUPPORTED_ON_SESSION_UPDATE s"

definition SetSessionRefreshParameters :: "int \<Rightarrow> int \<Rightarrow> int \<Rightarrow> int \<Rightarrow> int \<Rightarrow> SessionRefreshHelper \<Rightarrow> SessionRefreshHelper" where
  "SetSessionRefreshParameters nRefresher nRefreshRequest nMinSe nSessionTimerDuration nLocalSessionTimerDuration s =
     s\<lparr>m_nRefresher := nRefresher, m_nRefreshRequest := nRefreshRequest, m_nMinSe := nMinSe,
       m_nSessionTimerDuration := nSessionTimerDuration, m_nLocalSessionTimerDuration := nLocalSessionTimerDuration\<rparr>"

subsection \<open>What a message says\<close>

definition IsUpdateMethodSupported :: "'o specific_ops \<Rightarrow> 'o CoreSipMessage \<Rightarrow> bool" where
  "IsUpdateMethodSupported ops msg \<longleftrightarrow>
     list_ex (\<lambda>strHeader. AString_Equals_psz (Some (SipMethod_ToName SipMethod_UPDATE)) strHeader)
       (GetHeaders ops ALLOW no_name msg)"

definition IsSessionTimerSupported :: "'o specific_ops \<Rightarrow> 'o CoreSipMessage option \<Rightarrow> bool \<Rightarrow> bool \<Rightarrow> SessionRefreshHelper \<Rightarrow> bool" where
  "IsSessionTimerSupported ops piSipMsg bSent bCheckSePresentity s =
     (case piSipMsg of
        None \<Rightarrow> False
      | Some msg \<Rightarrow>
          (let objSupported = GetHeaders ops SUPPORTED no_name msg; objRequire = GetHeaders ops REQUIRE no_name msg
           in if AStringArray_Contains (Some ''*'') False objSupported \<or> AStringArray_Contains STR_TIMER False objSupported then
                (if \<not> bSent \<and> GetType msg = TYPE_RESPONSE \<and> \<not> IsHeaderPresent SESSION_EXPIRES no_name msg
                 then IsLocalSessionTimerRequired s else True)
              else if AStringArray_Contains STR_TIMER False objRequire then True
              else if bCheckSePresentity \<and> IsHeaderPresent SESSION_EXPIRES no_name msg then True
              else if IsLocalSessionTimerRequired s then True
              else \<not> bSent))"

definition IsSessionRefreshRequired :: "'o specific_ops \<Rightarrow> 'o CoreSipMessage option \<Rightarrow> bool" where
  "IsSessionRefreshRequired ops piSipMsg =
     (case piSipMsg of
        None \<Rightarrow> False
      | Some msg \<Rightarrow>
          if \<not> IsHeaderPresent SESSION_EXPIRES no_name msg then \<not> IsOptionSupported ops STR_TIMER msg else True)"

definition GetRefreshMethod :: "environment \<Rightarrow> SessionRefreshHelper \<Rightarrow> int" where
  "GetRefreshMethod env s =
     (case GetSipConfigV env of
        None \<Rightarrow> SipMethod_INVALID
      | Some c \<Rightarrow>
          if GetSessionMethod c = 0 then SipMethod_INVITE
          else if GetSessionMethod c = 1 then SipMethod_UPDATE
          else if m_bUpdateMethodAllowed s then SipMethod_UPDATE else SipMethod_INVITE)"

subsection \<open>Negotiation\<close>

definition NegotiateRefresher :: "bool \<Rightarrow> SessionRefreshHelper \<Rightarrow> SessionRefreshHelper" where
  "NegotiateRefresher bTimerOptionSupported s =
     (if bTimerOptionSupported then
        (if m_nRefresher s = REFRESHER_NONE then s\<lparr>m_nRefresher := REFRESHER_REMOTE\<rparr> else s)
      else if m_nRefresher s = REFRESHER_NONE then s\<lparr>m_nRefresher := REFRESHER_LOCAL\<rparr>
      else s\<lparr>m_nRefresher := REFRESHER_NONE\<rparr>)"

text \<open>The refresher that a Session-Expires header names; \<open>None\<close> is a message of another type.\<close>

definition refresher_without_parameter :: "bool \<Rightarrow> int \<Rightarrow> SessionRefreshHelper \<Rightarrow> int" where
  "refresher_without_parameter bSent nType s =
     (if IsLocalSessionTimerRequired s then
        (if bSent then if nType = TYPE_RESPONSE then REFRESHER_LOCAL else REFRESHER_NONE else REFRESHER_LOCAL)
      else REFRESHER_NONE)"

definition refresher_named :: "bool \<Rightarrow> int \<Rightarrow> AString \<Rightarrow> SessionRefreshHelper \<Rightarrow> int" where
  "refresher_named bSent nType strRefresher s =
     (let uac = AString_EqualsIgnoreCase_psz (Some ''uac'') strRefresher;
          uas = AString_EqualsIgnoreCase_psz (Some ''uas'') strRefresher;
          other = (if IsLocalSessionTimerRequired s then REFRESHER_LOCAL else REFRESHER_NONE)
      in if nType = TYPE_RESPONSE then
           (if bSent then if uac then REFRESHER_REMOTE else if uas then REFRESHER_LOCAL else other
            else if uac then REFRESHER_LOCAL else if uas then REFRESHER_REMOTE else other)
         else if nType = TYPE_REQUEST then
           (if bSent then if uac then REFRESHER_LOCAL else if uas then REFRESHER_REMOTE else REFRESHER_NONE
            else if uac then REFRESHER_REMOTE else if uas then REFRESHER_LOCAL else other)
         else m_nRefresher s)"

text \<open>
  The two headers of a message. The outer \<open>None\<close> is the null pointer; \<open>False\<close> is an early return.
\<close>

definition read_session_expires ::
  "'o specific_ops \<Rightarrow> 'o CoreSipMessage \<Rightarrow> bool \<Rightarrow> SessionRefreshHelper \<Rightarrow> (bool \<times> SessionRefreshHelper) option" where
  "read_session_expires ops msg bSent s =
     (if \<not> IsHeaderPresent SESSION_EXPIRES no_name msg then Some (True, s)
      else
        (case GetHeader ops SESSION_EXPIRES 0 no_name msg of
           None \<Rightarrow> None
         | Some strHeader \<Rightarrow>
             (case CreateHeader ops SESSION_EXPIRES strHeader of
                None \<Rightarrow> None
              | Some None \<Rightarrow> Some (False, s)
              | Some (Some piHeader) \<Rightarrow>
                  (let (n, bOk) = AString_ToInt32 (chars (m_strBody piHeader)) 10;
                       s = s\<lparr>m_nSessionTimerDuration := n\<rparr>
                   in if \<not> bOk then Some (False, s)
                      else
                        Some (True, s\<lparr>m_nRefresher :=
                          case SipHeader_GetParameter STR_REFRESHER piHeader of
                            None \<Rightarrow> refresher_without_parameter bSent (GetType msg) s
                          | Some pParameter \<Rightarrow> refresher_named bSent (GetType msg) (SipParameter_GetValue pParameter) s\<rparr>)))))"

definition read_min_se ::
  "'o specific_ops \<Rightarrow> 'o CoreSipMessage \<Rightarrow> SessionRefreshHelper \<Rightarrow> (bool \<times> SessionRefreshHelper) option" where
  "read_min_se ops msg s =
     (if \<not> IsHeaderPresent MIN_SE no_name msg then Some (True, s)
      else
        (case GetHeader ops MIN_SE 0 no_name msg of
           None \<Rightarrow> None
         | Some strHeader \<Rightarrow>
             (case CreateHeader ops MIN_SE strHeader of
                None \<Rightarrow> None
              | Some None \<Rightarrow> Some (False, s)
              | Some (Some piHeader) \<Rightarrow>
                  (let (nTempMinSe, bOk) = AString_ToInt32 (chars (m_strBody piHeader)) 10
                   in if \<not> bOk then Some (False, s)
                      else Some (True, if nTempMinSe > m_nMinSe s then s\<lparr>m_nMinSe := nTempMinSe\<rparr> else s)))))"

definition at_least_min_se :: "int \<Rightarrow> int \<Rightarrow> int" where
  "at_least_min_se nMinSe n = (if nMinSe > 0 \<and> n < nMinSe then nMinSe else n)"

definition complete_properties ::
  "environment \<Rightarrow> 'o specific_ops \<Rightarrow> 'o CoreSipMessage \<Rightarrow> bool \<Rightarrow> bool \<Rightarrow> SessionRefreshHelper \<Rightarrow> SessionRefreshHelper" where
  "complete_properties env ops msg bTimerOptionSupported bSent s =
     (let changeable = (\<not> bTimerOptionSupported \<or> \<not> bSent \<and> GetType msg = TYPE_RESPONSE \<and> GetStatusCode msg = 422);
          s = (if changeable \<and> m_nMinSe s > m_nSessionTimerDuration s
               then s\<lparr>m_nSessionTimerDuration := m_nMinSe s\<rparr> else s);
          s = s\<lparr>m_nLocalSessionTimerDuration := 0\<rparr>
      in if \<not> bSent \<and> \<not> IsHeaderPresent SESSION_EXPIRES no_name msg \<and> bTimerOptionSupported \<and> \<not> changeable then
           (let s = (if m_nRefresher s = REFRESHER_NONE \<and> \<not> IsOptionSupported ops STR_TIMER msg
                     then s\<lparr>m_nRefresher := REFRESHER_LOCAL\<rparr> else s)
            in if IsLocalSessionTimerRequired s then
                 (let s = s\<lparr>m_nRefresher := REFRESHER_LOCAL\<rparr>
                  in case GetSipConfigV env of
                       None \<Rightarrow> s
                     | Some c \<Rightarrow> s\<lparr>m_nLocalSessionTimerDuration := at_least_min_se (m_nMinSe s) (GetSessionExpires c)\<rparr>)
               else if m_nSessionTimerDuration s = 0 then
                 (case GetSipConfigV env of
                    None \<Rightarrow> s
                  | Some c \<Rightarrow> s\<lparr>m_nSessionTimerDuration := at_least_min_se (m_nMinSe s) (GetSessionExpires c)\<rparr>)
               else s)
         else s)"

definition UpdateProperties ::
  "environment \<Rightarrow> 'o specific_ops \<Rightarrow> 'o CoreSipMessage \<Rightarrow> bool \<Rightarrow> bool \<Rightarrow> SessionRefreshHelper \<Rightarrow> SessionRefreshHelper option" where
  "UpdateProperties env ops msg bTimerOptionSupported bSent s =
     (case read_session_expires ops msg bSent s of
        None \<Rightarrow> None
      | Some (False, s) \<Rightarrow> Some s
      | Some (True, s) \<Rightarrow>
          (case read_min_se ops msg s of
             None \<Rightarrow> None
           | Some (False, s) \<Rightarrow> Some s
           | Some (True, s) \<Rightarrow> Some (complete_properties env ops msg bTimerOptionSupported bSent s)))"

subsection \<open>The headers of an outgoing message\<close>

text \<open>Statements in order: the next one runs when the one before succeeded.\<close>

type_synonym 'o step = "(bool \<times> 'o CoreSipMessage \<times> SessionRefreshHelper) option"

definition and_then ::
  "'o step \<Rightarrow> ('o CoreSipMessage \<Rightarrow> SessionRefreshHelper \<Rightarrow> 'o step) \<Rightarrow> 'o step" where
  "and_then st f =
     (case st of None \<Rightarrow> None | Some (ok, msg, s) \<Rightarrow> if ok then f msg s else Some (False, msg, s))"

definition header_step :: "(bool \<times> 'o CoreSipMessage) option \<Rightarrow> SessionRefreshHelper \<Rightarrow> 'o step" where
  "header_step r s = map_option (\<lambda>(ok, msg). (ok, msg, s)) r"

definition when_step :: "bool \<Rightarrow> (bool \<times> 'o CoreSipMessage) option \<Rightarrow> 'o CoreSipMessage \<Rightarrow> SessionRefreshHelper \<Rightarrow> 'o step" where
  "when_step b r msg s = (if b then header_step r s else Some (True, msg, s))"

definition min_se_text :: "int \<Rightarrow> SessionRefreshHelper \<Rightarrow> AString" where
  "min_se_text nConfigMinSe s =
     SetNumber_S32 (if m_nMinSe s > nConfigMinSe then m_nMinSe s else nConfigMinSe) 10"

text \<open>The names of the two ends are those of the sender and of the receiver of the header.\<close>

definition session_expires_text :: "string \<Rightarrow> string \<Rightarrow> SessionRefreshHelper \<Rightarrow> AString" where
  "session_expires_text local remote s =
     (let t = SetNumber_S32 (GetSessionTimerDuration s) 10
      in if m_nRefresher s = REFRESHER_LOCAL \<or> m_nRefresher s = REFRESHER_REMOTE then
           AString_Append_psz (Some (if m_nRefresher s = REFRESHER_LOCAL then local else remote))
             (AString_Append_char (CHR ''='') (AString_Append_psz (Some ''refresher'') (AString_Append_char (CHR '';'') t)))
         else t)"

definition is_refresh_method :: "'o CoreSipMessage \<Rightarrow> bool" where
  "is_refresh_method msg \<longleftrightarrow>
     SipMethod_Equals (GetMethod msg) SipMethod_INVITE \<or> SipMethod_Equals (GetMethod msg) SipMethod_UPDATE"

definition update_on_confirmed :: "'o CoreSipMessage \<Rightarrow> int \<Rightarrow> bool" where
  "update_on_confirmed msg dialog \<longleftrightarrow> SipMethod_Equals (GetMethod msg) SipMethod_UPDATE \<and> dialog = STATE_CONFIRMED"

definition add_to_request ::
  "'o specific_ops \<Rightarrow> int \<Rightarrow> 'o CoreSipMessage \<Rightarrow> int \<Rightarrow> SessionRefreshHelper \<Rightarrow> 'o step" where
  "add_to_request ops nConfigMinSe msg dialog s =
     (if SipMethod_Equals (GetMethod msg) SipMethod_INVITE \<or> update_on_confirmed msg dialog then
        and_then
          (when_step ((m_nMinSe s > 0 \<or> nConfigMinSe > 0) \<and> IsMinSeHeaderRequired s)
             (SetHeader ops MIN_SE (min_se_text nConfigMinSe s) no_name msg) msg s)
          (\<lambda>msg s.
            let s = (if dialog = STATE_CONFIRMED then
                       (if SipMethod_Equals (GetMethod msg) SipMethod_INVITE then s\<lparr>m_nRefreshRequest := SipMethod_INVITE\<rparr>
                        else if SipMethod_Equals (GetMethod msg) SipMethod_UPDATE then s\<lparr>m_nRefreshRequest := SipMethod_UPDATE\<rparr>
                        else s)
                     else s)
            in when_step (HasSessionTimerDuration s \<and> IsSessionExpiresHeaderRequired s)
                 (SetHeader ops SESSION_EXPIRES (session_expires_text ''uac'' ''uas'' s) no_name msg) msg s)
      else Some (True, msg, s))"

definition add_to_response ::
  "'o specific_ops \<Rightarrow> int \<Rightarrow> 'o CoreSipMessage \<Rightarrow> int \<Rightarrow> SessionRefreshHelper \<Rightarrow> 'o step" where
  "add_to_response ops nConfigMinSe msg dialog s =
     and_then
       (when_step (GetStatusCode msg = 422 \<and>
            (SipMethod_Equals (GetMethod msg) SipMethod_INVITE \<or> update_on_confirmed msg dialog))
          (SetHeader ops MIN_SE (min_se_text nConfigMinSe s) no_name msg) msg s)
       (\<lambda>msg s.
         if IsFinalSuccess (GetStatusCode msg) then
           and_then
             (if m_nSessionTimerDuration s > 0 then
                when_step (IsRequireHeaderRequired s \<or> m_nRefresher s = REFRESHER_REMOTE \<or>
                    m_nRefresher s = REFRESHER_LOCAL \<and> IsSessionTimerSupportedOnUac s)
                  (AddHeader ops REQUIRE STR_TIMER no_name msg) msg s
              else when_step (m_nLocalSessionTimerDuration s > 0 \<and> \<not> IsOptionSupported ops STR_TIMER msg)
                  (AddHeader ops SUPPORTED STR_TIMER no_name msg) msg s)
             (\<lambda>msg s.
               when_step (HasSessionTimerDuration s \<and> IsSessionExpiresHeaderRequired s)
                 (SetHeader ops SESSION_EXPIRES (session_expires_text ''uas'' ''uac'' s) no_name msg) msg s)
         else Some (True, msg, s))"

text \<open>What the application set in an initial INVITE; the configured refresher stays when it set none.\<close>

definition application_settings ::
  "environment \<Rightarrow> 'o specific_ops \<Rightarrow> 'o CoreSipMessage \<Rightarrow> int \<Rightarrow> SessionRefreshHelper \<Rightarrow> SessionRefreshHelper option" where
  "application_settings env ops msg dialog s =
     (if GetType msg = TYPE_REQUEST \<and> SipMethod_Equals (GetMethod msg) SipMethod_INVITE \<and> dialog \<noteq> STATE_CONFIRMED then
        map_option (\<lambda>s'. if m_nRefresher s' = REFRESHER_NONE then s'\<lparr>m_nRefresher := m_nRefresher s\<rparr> else s')
          (UpdateProperties env ops msg True True s)
      else Some s)"

definition add_session_headers ::
  "environment \<Rightarrow> 'o specific_ops \<Rightarrow> 'o CoreSipMessage \<Rightarrow> int \<Rightarrow> SessionRefreshHelper \<Rightarrow> 'o step" where
  "add_session_headers env ops msg dialog s =
     (case application_settings env ops msg dialog s of
        None \<Rightarrow> None
      | Some s \<Rightarrow>
          (case GetSipConfigV env of
             None \<Rightarrow> Some (False, msg, s)
           | Some c \<Rightarrow>
               and_then
                 (when_step (IsSessionTimerSupported_config c \<and> \<not> IsOptionSupported ops STR_TIMER msg)
                    (AddHeader ops SUPPORTED STR_TIMER no_name msg) msg s)
                 (\<lambda>msg s.
                   if GetType msg = TYPE_REQUEST \<and> IsSessionTimerSupported_config c
                   then add_to_request ops (GetSessionMinSe c) msg dialog s
                   else if GetType msg = TYPE_RESPONSE then add_to_response ops (GetSessionMinSe c) msg dialog s
                   else Some (True, msg, s))))"

type_synonym 'o sending = "(bool \<times> 'o connection \<times> SessionRefreshHelper) option"

definition AddSpecificHeader ::
  "environment \<Rightarrow> 'o specific_ops \<Rightarrow> 'o connection \<Rightarrow> SessionRefreshHelper \<Rightarrow> 'o sending" where
  "AddSpecificHeader env ops piSc s =
     (case piSc of
        (Some msg, Some dialog) \<Rightarrow>
          (if \<not> is_refresh_method msg then Some (True, piSc, s)
           else map_option (\<lambda>(ok, msg, s). (ok, (Some msg, Some dialog), s)) (add_session_headers env ops msg dialog s))
      | _ \<Rightarrow> Some (False, piSc, s))"

text \<open>The same statements; every way out of them restores the five parameters.\<close>

definition AddSpecificHeaderWithoutParameterChange ::
  "environment \<Rightarrow> 'o specific_ops \<Rightarrow> 'o connection \<Rightarrow> SessionRefreshHelper \<Rightarrow> 'o sending" where
  "AddSpecificHeaderWithoutParameterChange env ops piSc s =
     (case piSc of
        (Some msg, Some dialog) \<Rightarrow>
          (if \<not> is_refresh_method msg then Some (True, piSc, s)
           else
             map_option (\<lambda>(ok, msg, s'). (ok, (Some msg, Some dialog),
                 SetSessionRefreshParameters (m_nRefresher s) (m_nRefreshRequest s) (m_nMinSe s)
                   (m_nSessionTimerDuration s) (m_nLocalSessionTimerDuration s) s'))
               (add_session_headers env ops msg dialog s))
      | _ \<Rightarrow> Some (False, piSc, s))"

definition AddSpecificHeaderOnEarlyUpdate ::
  "environment \<Rightarrow> 'o specific_ops \<Rightarrow> 'o connection \<Rightarrow> bool \<Rightarrow> SessionRefreshHelper \<Rightarrow> 'o sending" where
  "AddSpecificHeaderOnEarlyUpdate env ops piSc bTimerOptionSupported s =
     (let s' = (if IsRefresherParameterControlledOnEarlyUpdate s \<and> m_nRefresher s = REFRESHER_NONE
                then NegotiateRefresher bTimerOptionSupported s else s)
      in map_option (\<lambda>(ok, piSc, s''). (ok, piSc, s''\<lparr>m_nRefresher := m_nRefresher s\<rparr>)) (AddSpecificHeader env ops piSc s'))"

subsection \<open>The timer\<close>

text \<open>When the other end refreshes: close to the end of the duration, as RFC 4028 asks of it.\<close>

definition non_refresher_interval :: "int \<Rightarrow> int \<Rightarrow> int" where
  "non_refresher_interval nTimerInterval nRefreshMethodTxnTv =
     (let nMinInterval = nTimerInterval sdiv 3;
          nMaxInterval = (if nMinInterval > nRefreshMethodTxnTv then nMinInterval else nRefreshMethodTxnTv);
          nMinInterval = (if nMinInterval < nRefreshMethodTxnTv then nMinInterval else nRefreshMethodTxnTv);
          nNonRefresherInterval1 = nTimerInterval - nMinInterval;
          nNonRefresherInterval2 = nTimerInterval sdiv 2 + nMaxInterval
      in if nNonRefresherInterval2 > nTimerInterval then nNonRefresherInterval1
         else if nNonRefresherInterval1 > nNonRefresherInterval2 then nNonRefresherInterval1
         else nNonRefresherInterval2)"

definition refresh_transaction_time :: "environment \<Rightarrow> int \<times> bool" where
  "refresh_transaction_time env =
     (let tv = (case GetSipConfigV env of
            None \<Rightarrow> -1
          | Some c \<Rightarrow>
              if GetSessionMethod c = 0 then GetTimerValueB env
              else if GetSessionMethod c = 1 then GetTimerValueF env else -1);
          nT1 = GetTimerValueT1 env * 64
      in if tv < 0 then (nT1 sdiv 1000, fits_s32 nT1) else (tv sdiv 1000, True))"

definition SessionRefreshHelper_GetTimerInterval :: "environment \<Rightarrow> SessionRefreshHelper \<Rightarrow> int \<times> bool" where
  "SessionRefreshHelper_GetTimerInterval env s =
     (if m_nRefresher s = REFRESHER_LOCAL then (m_nDuration s sdiv 2, True)
      else if m_nRefresher s = REFRESHER_REMOTE then
        (if m_nPolicy s \<noteq> POLICY_SPEC then RefreshHelper_GetTimerInterval s
         else
           (let (tv, fits) = refresh_transaction_time env in (non_refresher_interval (m_nDuration s) tv, fits)))
      else (m_nDuration s, True))"

definition StartRefresh_session :: "environment \<Rightarrow> SessionRefreshHelper \<Rightarrow> bool \<times> SessionRefreshHelper" where
  "StartRefresh_session env s = StartRefresh (timer_created env) (SessionRefreshHelper_GetTimerInterval env) s"

definition start_or_error :: "environment \<Rightarrow> SessionRefreshHelper \<Rightarrow> int \<times> SessionRefreshHelper" where
  "start_or_error env s =
     (let (ok, s) = StartRefresh_session env s in (if ok then RESULT_SUCCESS else RESULT_ERROR, s))"

definition StopSessionTimer :: "'o connection \<Rightarrow> SessionRefreshHelper \<Rightarrow> SessionRefreshHelper" where
  "StopSessionTimer piSc s =
     (case piSc of
        (Some msg, Some dialog) \<Rightarrow>
          (if GetType msg = TYPE_REQUEST \<and> dialog = STATE_CONFIRMED \<and> IsTimerActive s \<and>
              (is_refresh_method msg \<or> SipMethod_Equals (GetMethod msg) SipMethod_BYE)
           then StopRefresh s else s)
      | _ \<Rightarrow> s)"

text \<open>The interval stays inside the duration.\<close>

lemma non_refresher_interval_bounds:
  assumes "2 \<le> n" "0 \<le> tv"
  shows "0 < non_refresher_interval n tv" "non_refresher_interval n tv \<le> n" "n - n div 3 \<le> non_refresher_interval n tv"
proof -
  have div: "n sdiv 2 = n div 2" "n sdiv 3 = n div 3" using assms(1) by (simp_all add: sdiv_nonneg)
  define h where "h = n div 2"
  define t where "t = n div 3"
  have ht: "1 \<le> h" "2 * h \<le> n" "0 \<le> t" "3 * t \<le> n" using assms(1) unfolding h_def t_def by linarith+
  have "non_refresher_interval n tv =
      (if h + max t tv > n then n - min t tv else max (n - min t tv) (h + max t tv))"
    using assms(2) unfolding non_refresher_interval_def div Let_def h_def [symmetric] t_def [symmetric]
    by (auto simp: max_def min_def)
  then show "0 < non_refresher_interval n tv" "non_refresher_interval n tv \<le> n" "n - n div 3 \<le> non_refresher_interval n tv"
    using assms ht unfolding t_def [symmetric] by (auto simp: max_def min_def)
qed

lemma refresh_transaction_time_nonneg:
  assumes "0 \<le> GetTimerValueT1 env"
  shows "0 \<le> fst (refresh_transaction_time env)"
proof -
  have nonneg: "0 \<le> n sdiv 1000" if "0 \<le> n" for n :: int using that by (simp add: sdiv_nonneg pos_imp_zdiv_nonneg_iff)
  then show ?thesis using assms by (simp add: refresh_transaction_time_def Let_def)
qed

lemma timer_interval_bounds:
  assumes "m_nDuration s \<ge> 2" "GetTimerValueT1 env \<ge> 0" "m_nRefresher s = REFRESHER_LOCAL \<or> m_nPolicy s = POLICY_SPEC"
  shows "0 < fst (SessionRefreshHelper_GetTimerInterval env s) \<and> fst (SessionRefreshHelper_GetTimerInterval env s) \<le> m_nDuration s"
proof -
  obtain tv fits where tv: "refresh_transaction_time env = (tv, fits)" by fastforce
  then have "0 \<le> tv" using refresh_transaction_time_nonneg [OF assms(2)] by simp
  note bounds = non_refresher_interval_bounds [OF assms(1) this]
  have half: "0 < m_nDuration s sdiv 2 \<and> m_nDuration s sdiv 2 \<le> m_nDuration s"
    using assms(1) by (simp add: sdiv_nonneg) linarith
  show ?thesis
  proof (cases "m_nRefresher s = REFRESHER_LOCAL")
    case True
    then show ?thesis using half by (simp add: SessionRefreshHelper_GetTimerInterval_def)
  next
    case False
    then show ?thesis using assms(1,3) bounds tv by (simp add: SessionRefreshHelper_GetTimerInterval_def)
  qed
qed

subsection \<open>Incoming messages\<close>

definition UpdateTimerOptionOnRequestReceived ::
  "'o specific_ops \<Rightarrow> 'o connection \<Rightarrow> SessionRefreshHelper \<Rightarrow> SessionRefreshHelper" where
  "UpdateTimerOptionOnRequestReceived ops piSc s =
     (case fst piSc of
        None \<Rightarrow> s
      | Some msg \<Rightarrow>
          if GetType msg \<noteq> TYPE_REQUEST then s
          else if SipMethod_Equals (GetMethod msg) SipMethod_INVITE \<and> snd piSc \<noteq> Some STATE_CONFIRMED then
            (if IsOptionSupported ops STR_TIMER msg
             then SetOrClearTimerSupportedOnRemoteEnd True TIMER_SUPPORTED_ON_INITIAL_INVITE s else s)
          else if is_refresh_method msg \<and> snd piSc = Some STATE_CONFIRMED then
            SetOrClearTimerSupportedOnRemoteEnd (IsOptionSupported ops STR_TIMER msg) TIMER_SUPPORTED_ON_SESSION_UPDATE s
          else s)"

definition temporary_flag :: "'o CoreSipMessage \<Rightarrow> u32" where
  "temporary_flag msg =
     (if SipMethod_Equals (GetMethod msg) SipMethod_INVITE
      then TIMER_SUPPORTED_TEMPORARY_ON_INCOMING_INVITE else TIMER_SUPPORTED_TEMPORARY_ON_INCOMING_UPDATE)"

definition request_received ::
  "environment \<Rightarrow> 'o specific_ops \<Rightarrow> 'o connection \<Rightarrow> 'o CoreSipMessage \<Rightarrow> bool \<Rightarrow> SessionRefreshHelper \<Rightarrow>
   (int \<times> SessionRefreshHelper) option" where
  "request_received env ops piSc msg bTimerOptionSupported s =
     (if SipMethod_Equals (GetMethod msg) SipMethod_UPDATE \<and> m_nRefreshRequest s \<noteq> SipMethod_INVALID \<and>
         IsHeaderPresent SESSION_EXPIRES no_name msg then Some (RESULT_REJECT_500, s)
      else
        (let s = UpdateTimerOptionOnRequestReceived ops piSc s;
             s = (if IsHeaderPresent SESSION_EXPIRES no_name msg then
                    (if SipMethod_Equals (GetMethod msg) SipMethod_INVITE then s\<lparr>m_nRefreshRequest := SipMethod_INVITE\<rparr>
                     else if SipMethod_Equals (GetMethod msg) SipMethod_UPDATE then s\<lparr>m_nRefreshRequest := SipMethod_UPDATE\<rparr>
                     else s)
                  else s\<lparr>m_nSessionTimerDuration := 0, m_nMinSe := 0, m_nRefresher := REFRESHER_NONE\<rparr>)
         in case UpdateProperties env ops msg bTimerOptionSupported False s of
              None \<Rightarrow> None
            | Some s \<Rightarrow>
                (let s = NegotiateRefresher bTimerOptionSupported s
                 in case GetSipConfigV env of
                      None \<Rightarrow> Some (RESULT_ERROR, s)
                    | Some c \<Rightarrow>
                        (let cfg = GetSessionMinSe c;
                             small = (m_nSessionTimerDuration s \<noteq> 0 \<and>
                               (cfg > m_nSessionTimerDuration s \<or> m_nMinSe s > m_nSessionTimerDuration s))
                         in if small \<and> bTimerOptionSupported then
                              Some (RESULT_REJECT_422, SetDuration 0 (s\<lparr>m_nSessionTimerDuration := 0\<rparr>))
                            else
                              (let s = (if small then s\<lparr>m_nSessionTimerDuration := cfg,
                                          m_nMinSe := if m_nMinSe s > cfg then cfg else m_nMinSe s\<rparr> else s);
                                   s = SetDuration (GetSessionTimerDuration s) s;
                                   s = (if SipMethod_Equals (GetMethod msg) SipMethod_INVITE
                                        then s\<lparr>m_bUpdateMethodAllowed := IsUpdateMethodSupported ops msg\<rparr> else s)
                               in Some (RESULT_SUCCESS,
                                    SetOrClearTimerSupportedOnRemoteEnd bTimerOptionSupported (temporary_flag msg) s))))))"

definition resume_refresh :: "environment \<Rightarrow> SessionRefreshHelper \<Rightarrow> int \<times> SessionRefreshHelper" where
  "resume_refresh env s =
     (let s = s\<lparr>m_nRefreshRequest := SipMethod_INVALID\<rparr>
      in if m_nDuration s > 0 \<and> IsSessionTimerSupportedOnRemoteUa s then start_or_error env s else (RESULT_SUCCESS, s))"

definition response_received ::
  "environment \<Rightarrow> 'o specific_ops \<Rightarrow> 'o connection \<Rightarrow> 'o CoreSipMessage \<Rightarrow> bool \<Rightarrow> SessionRefreshHelper \<Rightarrow>
   (int \<times> SessionRefreshHelper) option" where
  "response_received env ops piSc msg bTimerOptionSupported s =
     (if GetStatusCode msg = 422 then
        map_option (\<lambda>s. (RESULT_SUCCESS, SetDuration (GetSessionTimerDuration s) s))
          (UpdateProperties env ops msg bTimerOptionSupported False (s\<lparr>m_nSessionTimerDuration := 0\<rparr>))
      else if IsFinalSuccess (GetStatusCode msg) then
        map_option (\<lambda>s.
            let s = SetDuration (GetSessionTimerDuration s) s;
                (result, s) =
                  (if m_nDuration s > 0 \<and> IsSessionRefreshRequired ops (fst piSc)
                   then start_or_error env (s\<lparr>m_nRefreshRequest := SipMethod_INVALID\<rparr>)
                   else if IsSessionTimerUpdateRequiredByReInvite env \<and> IsTimerActive s \<and>
                     \<not> IsSessionTimerSupportedOnRemoteUa s then (RESULT_SUCCESS, StopRefresh s)
                   else (RESULT_SUCCESS, s))
            in if result = RESULT_ERROR then (RESULT_ERROR, s)
               else (RESULT_SUCCESS,
                 if SipMethod_Equals (GetMethod msg) SipMethod_INVITE
                 then s\<lparr>m_bUpdateMethodAllowed := IsUpdateMethodSupported ops msg\<rparr> else s))
          (UpdateProperties env ops msg bTimerOptionSupported False
            (SetOrClearTimerSupportedOnRemoteEnd bTimerOptionSupported TIMER_SUPPORTED_ON_REMOTE_UA s))
      else if IsSessionTimerUpdateRequiredByReInvite env \<and> snd piSc = Some STATE_CONFIRMED \<and> GetStatusCode msg \<noteq> 100
      then Some (resume_refresh env s)
      else Some (RESULT_SUCCESS, s))"

definition UpdateOnMessageReceived ::
  "environment \<Rightarrow> 'o specific_ops \<Rightarrow> 'o connection \<Rightarrow> SessionRefreshHelper \<Rightarrow> (int \<times> SessionRefreshHelper) option" where
  "UpdateOnMessageReceived env ops piSc s =
     (case fst piSc of
        None \<Rightarrow> Some (RESULT_ERROR, s)
      | Some msg \<Rightarrow>
          (let invite = SipMethod_Equals (GetMethod msg) SipMethod_INVITE;
               update = SipMethod_Equals (GetMethod msg) SipMethod_UPDATE;
               bye = SipMethod_Equals (GetMethod msg) SipMethod_BYE
           in if \<not> invite \<and> \<not> bye \<and> \<not> update then Some (RESULT_SUCCESS, s)
              else if bye \<and> IsTimerActive s then Some (RESULT_SUCCESS, StopRefresh s)
              else if snd piSc \<noteq> None \<and> update \<and> snd piSc \<noteq> Some STATE_CONFIRMED then Some (RESULT_SUCCESS, s)
              else
                (let s = (if snd piSc = Some STATE_CONFIRMED \<and> GetType msg = TYPE_REQUEST \<and> IsTimerActive s
                          then StopRefresh s else s)
                 in if \<not> invite \<and> \<not> update then Some (RESULT_SUCCESS, s)
                    else
                      (let supported = IsSessionTimerSupported ops (Some msg) False (IsSessionTimerSupportedBySessionExpires s) s
                       in if GetType msg = TYPE_REQUEST then request_received env ops piSc msg supported s
                          else response_received env ops piSc msg supported s))))"

subsection \<open>Outgoing messages\<close>

definition final_response_flags :: "'o CoreSipMessage \<Rightarrow> SessionRefreshHelper \<Rightarrow> SessionRefreshHelper" where
  "final_response_flags msg s =
     (if IsFinal (GetStatusCode msg) then
        (let nFlag = temporary_flag msg;
             s = (if IsFinalSuccess (GetStatusCode msg)
                  then SetOrClearTimerSupportedOnRemoteEnd (IsTimerSupportedOnRemoteEnd nFlag s) TIMER_SUPPORTED_ON_REMOTE_UA s
                  else s)
         in SetOrClearTimerSupportedOnRemoteEnd False nFlag s)
      else s)"

definition UpdateOnMessageSent ::
  "environment \<Rightarrow> 'o specific_ops \<Rightarrow> 'o connection \<Rightarrow> SessionRefreshHelper \<Rightarrow> (int \<times> SessionRefreshHelper) option" where
  "UpdateOnMessageSent env ops piSc s =
     (case piSc of
        (Some msg, Some dialog) \<Rightarrow>
          (if GetType msg \<noteq> TYPE_RESPONSE then Some (RESULT_SUCCESS, s)
           else
             (let s = final_response_flags msg s
              in if IsFinalSuccess (GetStatusCode msg) \<and>
                    (SipMethod_Equals (GetMethod msg) SipMethod_INVITE \<or> update_on_confirmed msg dialog) then
                   (let s = s\<lparr>m_nRefreshRequest := SipMethod_INVALID\<rparr>;
                        supported = IsSessionTimerSupported ops (Some msg) True (IsSessionTimerSupportedBySessionExpires s) s
                    in map_option (\<lambda>s.
                         if m_nDuration s > 0 \<and> IsSessionRefreshRequired ops (Some msg) then start_or_error env s
                         else (RESULT_SUCCESS,
                           if IsSessionTimerUpdateRequiredByReInvite env \<and> IsTimerActive s \<and>
                             \<not> IsSessionTimerSupportedOnRemoteUa s then StopRefresh s else s))
                         (UpdateProperties env ops msg supported True s))
                 else if GetStatusCode msg = 422 then Some (RESULT_SUCCESS, s\<lparr>m_nRefreshRequest := SipMethod_INVALID\<rparr>)
                 else if IsSessionTimerUpdateRequiredByReInvite env \<and> dialog = STATE_CONFIRMED \<and> is_refresh_method msg \<and>
                   GetStatusCode msg \<noteq> 100 then Some (resume_refresh env s)
                 else Some (RESULT_SUCCESS, s)))
      | _ \<Rightarrow> Some (RESULT_ERROR, s))"

text \<open>A refresh request of this end. \<open>sent\<close> tells whether the connection sent it.\<close>

definition SendRefreshRequest ::
  "environment \<Rightarrow> 'o specific_ops \<Rightarrow> bool \<Rightarrow> (nat \<times> 'o connection) option \<Rightarrow> SessionRefreshHelper \<Rightarrow>
   (bool \<times> SessionRefreshHelper) option" where
  "SendRefreshRequest env ops sent piScc s =
     (case piScc of
        None \<Rightarrow> Some (False, s)
      | Some (number, con) \<Rightarrow>
          (case AddSpecificHeader env ops con s of
             None \<Rightarrow> None
           | Some (ok, con, s) \<Rightarrow>
               if \<not> ok then Some (False, s)
               else
                 (let (ok, s) = RefreshHelper_SendRefreshRequest sent (Some number) (StopSessionTimer con s)
                  in if \<not> ok then Some (False, s)
                     else map_option (\<lambda>(result, s). (True, s)) (UpdateOnMessageSent env ops con s))))"

subsection \<open>The refresh\<close>

datatype session_call = Refreshable_RefreshCompleted int | Refreshable_RefreshStarted | Refreshable_RefreshTerminated

definition RefreshStarted ::
  "(session_call \<Rightarrow> SessionRefreshHelper \<Rightarrow> bool \<times> SessionRefreshHelper) \<Rightarrow> SessionRefreshHelper \<Rightarrow> SessionRefreshHelper" where
  "RefreshStarted cb s =
     (if m_nRefreshRequest s \<noteq> SipMethod_INVALID then s
      else if m_nRefresher s = REFRESHER_REMOTE then snd (cb Refreshable_RefreshTerminated s)
      else
        (let (ok, s) = cb Refreshable_RefreshStarted s
         in if \<not> ok then snd (cb Refreshable_RefreshTerminated s) else s))"

definition RefreshCompleted ::
  "environment \<Rightarrow> 'o specific_ops \<Rightarrow> (session_call \<Rightarrow> SessionRefreshHelper \<Rightarrow> bool \<times> SessionRefreshHelper) \<Rightarrow>
   'o connection \<Rightarrow> int \<Rightarrow> int \<Rightarrow> SessionRefreshHelper \<Rightarrow> SessionRefreshHelper option" where
  "RefreshCompleted env ops cb piScc nStatusCode nCode s =
     map_option (\<lambda>s. snd (cb (Refreshable_RefreshCompleted nCode) s))
       (if nCode = 0 then
          map_option snd
            (UpdateOnMessageReceived env ops piScc (if IsFinalSuccess nStatusCode then StopRefresh s else s))
        else if nCode = TRANSACTION_TIMEOUT then Some (StopRefresh s)
        else Some s)"

end
