(* ===== verification/Session_Properties.thy ===== *)
theory Session_Properties
  imports Header_Properties Session_Timer
begin

text \<open>
  The properties of the session timer: what the two ends read in each other's messages, when their
  timers ring, and what a rejected refresh leaves behind.
\<close>

subsection \<open>Examples\<close>

definition ex_helper :: "int \<Rightarrow> SessionRefreshHelper" where
  "ex_helper refresher =
     RefreshHelper.extend ((RefreshHelper_new False)\<lparr>m_nDuration := 1800\<rparr>)
       \<lparr>m_nMinSe = 0, m_nSessionTimerDuration = 1800, m_nLocalSessionTimerDuration = 0, m_nRefresher = refresher,
        m_nRefreshRequest = SipMethod_INVITE, m_bUpdateMethodAllowed = False, m_nTimerSupportedOnRemoteEnd = 0,
        m_nSipHeaders = SESSION_HEADER_SESSION_EXPIRES\<rparr>"

definition ex_environment :: environment where
  "ex_environment = \<lparr>GetSipConfigV = None, GetTimerValueB = 32000, GetTimerValueF = 32000, GetTimerValueT1 = 500,
     IsSessionTimerUpdateRequiredByReInvite = False, timer_created = True\<rparr>"

definition ex_message :: "ISipMessage \<Rightarrow> unit SipHeaders \<Rightarrow> unit CoreSipMessage" where
  "ex_message m hdrs = ISipMessage.extend m \<lparr>m_pSipMsg = hdrs, m_objUnknownHeaders = []\<rparr>"

lemmas ex_session = ex_helper_def RefreshHelper.defs RefreshHelper_new_def GetSessionTimerDuration_def ex_message_def ISipMessage.defs request_def response_def


lemma IsUnknownHeader_no_name [simp]: "SipStack_IsUnknownHeader t None = (t = UNKNOWN, t)"
  by (simp add: SipStack_IsUnknownHeader_def AString_GetLength_def chars_def)

















text \<open>Reading a message leaves the pending request and the timer, and never lowers the minimum.\<close>

definition keeps_pending :: "SessionRefreshHelper \<Rightarrow> SessionRefreshHelper \<Rightarrow> bool" where
  "keeps_pending s s' \<longleftrightarrow> m_nRefreshRequest s' = m_nRefreshRequest s \<and> m_piTimer s' = m_piTimer s \<and> m_nMinSe s \<le> m_nMinSe s'"

lemma read_session_expires_keeps:
  "read_session_expires ops msg bSent s = Some (ok, s') \<Longrightarrow> keeps_pending s s'"
  by (auto simp: read_session_expires_def keeps_pending_def Let_def split: if_splits option.splits prod.splits)

lemma read_min_se_keeps:
  "read_min_se ops msg s = Some (ok, s') \<Longrightarrow> keeps_pending s s' \<and> m_nSessionTimerDuration s' = m_nSessionTimerDuration s"
  by (auto simp: read_min_se_def keeps_pending_def Let_def split: if_splits option.splits prod.splits)

lemma keeps_pending_trans: "keeps_pending a b \<Longrightarrow> keeps_pending b c \<Longrightarrow> keeps_pending a c"
  by (auto simp: keeps_pending_def)

lemma keeps_pending_updates [simp]:
  "keeps_pending s s" "keeps_pending s (s\<lparr>m_nSessionTimerDuration := d\<rparr>)" "keeps_pending s (s\<lparr>m_nLocalSessionTimerDuration := d\<rparr>)"
  "keeps_pending s (s\<lparr>m_nRefresher := r\<rparr>)"
  by (simp_all add: keeps_pending_def)

lemma complete_properties_keeps: "keeps_pending s (complete_properties env ops msg supported bSent s)"
proof -
  define changeable where
    "changeable \<longleftrightarrow> \<not> supported \<or> \<not> bSent \<and> GetType msg = TYPE_RESPONSE \<and> GetStatusCode msg = 422"
  define p where "p = (if changeable \<and> m_nMinSe s > m_nSessionTimerDuration s then s\<lparr>m_nSessionTimerDuration := m_nMinSe s\<rparr> else s)"
  define q where "q = p\<lparr>m_nLocalSessionTimerDuration := 0\<rparr>"
  define r where "r = (if m_nRefresher q = REFRESHER_NONE \<and> \<not> IsOptionSupported ops STR_TIMER msg
    then q\<lparr>m_nRefresher := REFRESHER_LOCAL\<rparr> else q)"
  have "keeps_pending s p" by (simp add: p_def)
  moreover have "keeps_pending p q" by (simp add: q_def)
  ultimately have sq: "keeps_pending s q" by (rule keeps_pending_trans)
  moreover have "keeps_pending q r" by (simp add: r_def)
  ultimately have sr: "keeps_pending s r" by (rule keeps_pending_trans)
  have more: "keeps_pending s (r\<lparr>m_nRefresher := a\<rparr>)" "keeps_pending s (r\<lparr>m_nSessionTimerDuration := a\<rparr>)"
    "keeps_pending s (r\<lparr>m_nRefresher := a, m_nLocalSessionTimerDuration := c\<rparr>)" for a c
    using sr by (simp_all add: keeps_pending_def)
  show ?thesis
    unfolding complete_properties_def Let_def changeable_def [symmetric] p_def [symmetric] q_def [symmetric] r_def [symmetric]
    using sq sr more by (simp split: option.split)
qed

lemma UpdateProperties_keeps:
  assumes "UpdateProperties env ops msg supported bSent s = Some s'"
  shows "keeps_pending s s'"
proof -
  obtain ok q where q: "read_session_expires ops msg bSent s = Some (ok, q)"
    using assms by (cases "read_session_expires ops msg bSent s") (auto simp: UpdateProperties_def)
  note sq = read_session_expires_keeps [OF q]
  show ?thesis
  proof (cases ok)
    case True
    obtain ok' p where p: "read_min_se ops msg q = Some (ok', p)"
      using assms q True by (cases "read_min_se ops msg q") (auto simp: UpdateProperties_def)
    have "keeps_pending q p" using read_min_se_keeps [OF p] by simp
    then have sp: "keeps_pending s p" by (rule keeps_pending_trans [OF sq])
    show ?thesis
    proof (cases ok')
      case True
      then have "s' = complete_properties env ops msg supported bSent p"
        using assms q \<open>ok\<close> p by (simp add: UpdateProperties_def)
      then show ?thesis using keeps_pending_trans [OF sp complete_properties_keeps] by simp
    next
      case False
      then show ?thesis using assms q \<open>ok\<close> p sp by (simp add: UpdateProperties_def)
    qed
  next
    case False
    then show ?thesis using assms q sq by (simp add: UpdateProperties_def)
  qed
qed

text \<open>After a 422 response the next duration is the minimum at least.\<close>

lemma complete_properties_rejected:
  assumes "GetType msg = TYPE_RESPONSE" "GetStatusCode msg = 422"
  shows "m_nMinSe (complete_properties env ops msg supported False s)
    \<le> m_nSessionTimerDuration (complete_properties env ops msg supported False s)"
  using assms by (simp add: complete_properties_def Let_def)

text \<open>C34: A refresh that is rejected for its interval is not submitted again. The 422 response to the
  refresh request of this end leaves the request pending, although it raises the minimum and, if
  the message says no more than its Min-SE, the next duration to it; as long as the request is
  pending \<open>RefreshStarted\<close>, which should resubmit, changes nothing, and an UPDATE of the other end
  that carries a session interval gets the result that asks for 500.\<close>

theorem rejected_refresh_stays_pending:
  assumes "fst piSc = Some msg" "GetType msg = TYPE_RESPONSE" "SipMethod_Equals (GetMethod msg) SipMethod_INVITE"
    "GetStatusCode msg = 422" "m_nRefreshRequest s \<noteq> SipMethod_INVALID"
    "UpdateOnMessageReceived env ops piSc s = Some (result, s')"
  shows "result = RESULT_SUCCESS \<and> m_nRefreshRequest s' = m_nRefreshRequest s \<and> RefreshStarted cb s' = s' \<and>
    m_piTimer s' = m_piTimer s \<and> m_nDuration s' = GetSessionTimerDuration s' \<and> m_nMinSe s \<le> m_nMinSe s' \<and>
    (\<not> IsHeaderPresent SESSION_EXPIRES no_name msg \<longrightarrow>
       (\<exists>q. read_min_se ops msg (s\<lparr>m_nSessionTimerDuration := 0\<rparr>) = Some (True, q)) \<longrightarrow>
       m_nMinSe s' \<le> m_nSessionTimerDuration s') \<and>
    (SipMethod_Equals (GetMethod update) SipMethod_UPDATE \<longrightarrow> IsHeaderPresent SESSION_EXPIRES no_name update \<longrightarrow>
       request_received env ops sc update supported s' = Some (RESULT_REJECT_500, s'))"
proof -
  let ?s = "s\<lparr>m_nSessionTimerDuration := 0\<rparr>"
  obtain supported where "response_received env ops piSc msg supported s = Some (result, s')"
    using assms(1-3,6) by (auto simp: UpdateOnMessageReceived_def SipMethod_Equals_def Let_def split: if_splits)
  then obtain q where q: "UpdateProperties env ops msg supported False ?s = Some q" "result = RESULT_SUCCESS"
    "s' = SetDuration (GetSessionTimerDuration q) q"
    using assms(4) by (auto simp: response_received_def)
  have keep: "keeps_pending ?s q" by (rule UpdateProperties_keeps [OF q(1)])
  then have pending: "m_nRefreshRequest s' = m_nRefreshRequest s" "m_piTimer s' = m_piTimer s" "m_nMinSe s \<le> m_nMinSe s'"
    by (simp_all add: keeps_pending_def q(3) SetDuration_def)
  have "m_nMinSe s' \<le> m_nSessionTimerDuration s'"
    if "\<not> IsHeaderPresent SESSION_EXPIRES no_name msg" "read_min_se ops msg ?s = Some (True, m)" for m
    using that q(1,3) complete_properties_rejected [OF assms(2,4)]
    by (auto simp: UpdateProperties_def read_session_expires_def SetDuration_def)
  then show ?thesis
    using pending q(2,3) assms(5)
    by (auto simp: RefreshStarted_def SetDuration_def GetSessionTimerDuration_def request_received_def)
qed

definition ex_rejection :: "unit CoreSipMessage" where
  "ex_rejection = ex_message (response SipMethod_INVITE 422)
     ((\<lambda>t. None)(MIN_SE := Some (Single (Generic \<lparr>m_eHdrType = MIN_SE, m_pszValue = Some ''3600'', m_pParameters = None\<rparr>))))"

lemma ex_rejected: "UpdateOnMessageReceived ex_environment ex_ops (Some ex_rejection, Some STATE_CONFIRMED) (ex_helper REFRESHER_LOCAL) =
    Some (RESULT_SUCCESS, (ex_helper REFRESHER_LOCAL)\<lparr>m_nMinSe := 3600, m_nSessionTimerDuration := 3600, m_nDuration := 3600\<rparr>)"
  by code_simp

theorem rejected_refresh_stays_pending_witness:
  "m_nRefreshRequest ((ex_helper REFRESHER_LOCAL)\<lparr>m_nMinSe := 3600, m_nSessionTimerDuration := 3600, m_nDuration := 3600\<rparr>) = SipMethod_INVITE \<and>
   RefreshStarted (\<lambda>c s. (True, s)) ((ex_helper REFRESHER_LOCAL)\<lparr>m_nMinSe := 3600, m_nSessionTimerDuration := 3600, m_nDuration := 3600\<rparr>) =
     (ex_helper REFRESHER_LOCAL)\<lparr>m_nMinSe := 3600, m_nSessionTimerDuration := 3600, m_nDuration := 3600\<rparr>"
  using rejected_refresh_stays_pending [OF _ _ _ _ _ ex_rejected]
  by (simp add: ex_rejection_def ex_session SipMethod_Equals_def SipMethod_of_int_def)

end
