(* ===== verification/Text_Properties.thy ===== *)
theory Text_Properties
  imports Sip_Percent
begin

text \<open>
  Properties of the platform's strings, of its text parser and of percent encoding in SIP URIs.
\<close>

subsection \<open>Searching and replacing\<close>

text \<open>Searching a text finds its first occurrence. For a needle that is not empty and holds no
  NUL, the search with a rolling hash (32 bits, wrapping, for needles longer than the word too)
  answers the smallest index from the offset on at which the needle stands, and -1 exactly when it
  stands nowhere; it never reads outside the buffer.\<close>

theorem search_is_first_occurrence:
  assumes "needle \<noteq> []" and "CHR 0x00 \<notin> set needle"
  shows "\<exists>r. AString_GetIndexOf (Some needle) (int off) (Some cs) = Some r \<and>
    ((\<exists>k. r = int k \<and> off \<le> k \<and> prefix needle (drop k cs) \<and> (\<forall>j. off \<le> j \<and> j < k \<longrightarrow> \<not> prefix needle (drop j cs))) \<or>
     (r = -1 \<and> (\<forall>j. off \<le> j \<longrightarrow> \<not> prefix needle (drop j cs))))"
proof (cases "first_occurrence needle (drop off cs)")
  case None
  then have none: "\<not> prefix needle (drop (j + off) cs)" for j
    using first_occurrence_None [OF assms(1), of "drop off cs"] by simp
  have "\<not> prefix needle (drop j cs)" if "off \<le> j" for j using none [of "j - off"] that by simp
  then show ?thesis using None by (simp add: GetIndexOf_first [OF assms] index_result_def NPOS_def)
next
  case (Some k)
  then have first: "prefix needle (drop (k + off) cs)" "\<And>j. j < k \<Longrightarrow> \<not> prefix needle (drop (j + off) cs)"
    using first_occurrence_Some [OF Some] by auto
  have "\<not> prefix needle (drop j cs)" if "off \<le> j" "j < off + k" for j using first(2) [of "j - off"] that by simp
  moreover have "AString_GetIndexOf (Some needle) (int off) (Some cs) = Some (int (off + k))"
    using Some by (simp add: GetIndexOf_first [OF assms] index_result_def)
  ultimately show ?thesis
    using first(1) by (intro exI [of _ "int (off + k)"] conjI disjI1 exI [of _ "off + k"]) (auto simp: add.commute)
qed

theorem search_is_first_occurrence_witness:
  "AString_GetIndexOf (Some ''to'') (int 1) (Some ''to-a-to-b'') = Some 5"
proof -
  have at: "prefix ''to'' (drop 5 ''to-a-to-b'')" by code_simp
  have "\<forall>k\<in>set [1..<5]. \<not> prefix ''to'' (drop k ''to-a-to-b'')" by code_simp
  then have before: "\<not> prefix ''to'' (drop k ''to-a-to-b'')" if "1 \<le> k" "k < 5" for k using that by simp
  obtain r where r: "AString_GetIndexOf (Some ''to'') (int 1) (Some ''to-a-to-b'') = Some r"
    "(\<exists>k. r = int k \<and> 1 \<le> k \<and> prefix ''to'' (drop k ''to-a-to-b'') \<and>
        (\<forall>j. 1 \<le> j \<and> j < k \<longrightarrow> \<not> prefix ''to'' (drop j ''to-a-to-b''))) \<or>
     (r = -1 \<and> (\<forall>j. 1 \<le> j \<longrightarrow> \<not> prefix ''to'' (drop j ''to-a-to-b'')))"
    using search_is_first_occurrence [of "''to''" 1 "''to-a-to-b''"] by auto
  from r(2) have "r = 5"
  proof
    assume "\<exists>k. r = int k \<and> 1 \<le> k \<and> prefix ''to'' (drop k ''to-a-to-b'') \<and>
        (\<forall>j. 1 \<le> j \<and> j < k \<longrightarrow> \<not> prefix ''to'' (drop j ''to-a-to-b''))"
    then obtain k where k: "r = int k" "1 \<le> k" "prefix ''to'' (drop k ''to-a-to-b'')"
      "\<forall>j. 1 \<le> j \<and> j < k \<longrightarrow> \<not> prefix ''to'' (drop j ''to-a-to-b'')" by blast
    have "\<not> k < 5" using before k(2,3) by blast
    moreover have "\<not> 5 < k" using k(4) at by (metis one_le_numeral)
    ultimately show ?thesis using k(1) by simp
  qed (use at in \<open>metis one_le_numeral\<close>)
  with r(1) show ?thesis by simp
qed

text \<open>C38: Replacing a text replaces every occurrence, from left to right, none overlapping. The three
  in-place strategies (equal length, shorter, longer in batches of 1023 from the back of a grown
  buffer) end and all leave the text that replacing the occurrences one after another gives.\<close>

theorem replace_is_replace_all:
  assumes "CHR 0x00 \<notin> set old" and "CHR 0x00 \<notin> set new"
  shows "AString_Replace (Some old) (Some new) (Some cs) = Some (Some (replace_all old new cs))"
  by (rule AString_Replace_all [OF assms])

theorem replace_is_replace_all_witness:
  "AString_Replace (Some ''aa'') (Some ''xyz'') (Some ''aaa-aab'') = Some (Some ''xyza-xyzb'')"
  using replace_is_replace_all [of "''aa''" "''xyz''" "''aaa-aab''"] by simp

text \<open>Splitting undoes joining and joining undoes splitting. A text that is joined from tokens free
  of the separator splits into exactly these tokens (an empty last token comes out as the null
  string), and the tokens any text splits into are free of the separator and give the text back.\<close>

theorem split_join_round_trip:
  assumes "cs \<noteq> []" and "ts \<noteq> []" and "\<forall>t\<in>set ts. c \<notin> set t" and "joined c ts \<noteq> []"
  shows "joined c (map chars (AString_Split c False (Some cs))) = cs \<and>
    (\<forall>t\<in>set (AString_Split c False (Some cs)). c \<notin> set (chars t)) \<and>
    map chars (AString_Split c False (Some (joined c ts))) = ts"
proof -
  have "map chars (map Some (butlast ts) @ [if last ts = [] then None else Some (last ts)]) = butlast ts @ [last ts]"
    by (simp add: chars_def map_idI)
  then have "map chars (AString_Split c False (Some (joined c ts))) = ts"
    using assms by (simp add: Split_tokens tokens_joined del: map_append)
  then show ?thesis using joined_tokens [of c cs] assms(1) by (simp add: Split_tokens)
qed

theorem split_join_round_trip_witness:
  "map chars (AString_Split (CHR '','') False (Some ''a,,b,'')) = [''a'', [], ''b'', []] \<and>
   joined (CHR '','') (map chars (AString_Split (CHR '','') False (Some '',x''))) = '',x''"
  using split_join_round_trip [of "'',x''" "[''a'', [], ''b'', []]" "CHR '',''"] by simp

subsection \<open>Percent encoding\<close>

text \<open>Decoding undoes encoding. Whatever characters are additionally escaped and whatever reserved
  characters are left alone, if only the percent sign is not among the latter, the decoder gives
  back the text that was encoded, character by character, the NUL included.\<close>

theorem percent_round_trip:
  assumes "CHR ''%'' \<notin> set (chars strPeExcludingChar)"
  shows "DoPercentDecoding (DoPercentEncoding (Some cs) strPeExtraChar strPeExcludingChar) = Some cs \<and>
    DoPercentDecoding (DoPercentEncodingEx (Some cs) strPeExcludingChar) = Some cs"
proof (rule conjI)
  have "\<not> (if IsReservedCharacter (CHR ''%'') then CHR ''%'' \<in> set (chars strPeExcludingChar)
      else CHR ''%'' \<notin> set (chars strPeExtraChar))"
    using assms by (simp add: IsReservedCharacter_def)
  then show "DoPercentDecoding (DoPercentEncoding (Some cs) strPeExtraChar strPeExcludingChar) = Some cs"
    unfolding DoPercentEncoding_encoded by (subst decoding_of_encoded) (simp_all add: chars_def)
  have "\<not> (IMS_ISDIGIT (CHR ''%'') \<or> IMS_ISALPHA (CHR ''%'') \<or> CHR ''%'' \<in> set (chars strPeExcludingChar))"
    using assms by (simp add: IMS_ISDIGIT_def IMS_ISALPHA_def IMS_ISUPPER_def char_val_def)
  then show "DoPercentDecoding (DoPercentEncodingEx (Some cs) strPeExcludingChar) = Some cs"
    unfolding DoPercentEncodingEx_encoded by (subst decoding_of_encoded) (simp_all add: chars_def)
qed

theorem percent_round_trip_witness:
  "DoPercentEncoding (Some ''50%@a,b'') (Some ''a'') (Some '','') = Some ''50%25%40%61,b'' \<and>
   DoPercentDecoding (Some ''50%25%40%61,b'') = Some ''50%@a,b''"
proof -
  have "DoPercentEncoding (Some ''50%@a,b'') (Some ''a'') (Some '','') = Some ''50%25%40%61,b''" by code_simp
  with percent_round_trip [of "Some '',''" "''50%@a,b''" "Some ''a''"] show ?thesis by (simp add: chars_def)
qed

text \<open>C39: Encoding a part of a SIP URI writes behind its buffer exactly when every character has to be
  escaped. The buffer has three bytes for each character of a user part, password or host. If one
  character stands for itself, all writes stay inside and the text leaves room for its NUL; if the
  part is not empty and none does, the terminating NUL of the last escape is written to the byte
  behind the buffer.\<close>

theorem uri_encoding_overruns:
  "(snd (DoPerEnc_UserAndHeader s True) > 3 * length s \<longleftrightarrow>
      s \<noteq> [] \<and> (\<forall>c\<in>set s. \<not> IS_UNRESERVED c \<and> \<not> IS_USER_UNRESERVED c)) \<and>
   (snd (DoPerEnc_Password s) > 3 * length s \<longleftrightarrow>
      s \<noteq> [] \<and> (\<forall>c\<in>set s. \<not> IS_UNRESERVED c \<and> c \<notin> set ''&=+$,'')) \<and>
   (snd (DoPerEnc_Host s) > 3 * length s \<longleftrightarrow> s \<noteq> [] \<and> (\<forall>c\<in>set s. \<not> IS_ALPHANUM c \<and> c \<notin> set ''.:[]-'')) \<and>
   (length (fst (DoPerEnc_UserAndHeader s True)) < 3 * length s \<longleftrightarrow>
      (\<exists>c\<in>set s. IS_UNRESERVED c \<or> IS_USER_UNRESERVED c))"
proof (intro conjI)
  have hex: "IS_HEXDIG c \<Longrightarrow> IS_UNRESERVED c" for c
    by (auto simp: IS_HEXDIG_def IS_UNRESERVED_def IS_ALPHANUM_def)
  show "snd (DoPerEnc_UserAndHeader s True) > 3 * length s \<longleftrightarrow>
      s \<noteq> [] \<and> (\<forall>c\<in>set s. \<not> IS_UNRESERVED c \<and> \<not> IS_USER_UNRESERVED c)"
    unfolding DoPerEnc_UserAndHeader_def by (subst encoder_overrun) (auto simp: hex)
  show "snd (DoPerEnc_Password s) > 3 * length s \<longleftrightarrow>
      s \<noteq> [] \<and> (\<forall>c\<in>set s. \<not> IS_UNRESERVED c \<and> c \<notin> set ''&=+$,'')"
    unfolding DoPerEnc_Password_def by (subst encoder_overrun) (auto simp: hex)
  show "snd (DoPerEnc_Host s) > 3 * length s \<longleftrightarrow> s \<noteq> [] \<and> (\<forall>c\<in>set s. \<not> IS_ALPHANUM c \<and> c \<notin> set ''.:[]-'')"
    unfolding DoPerEnc_Host_def by (subst encoder_overrun) auto
  show "length (fst (DoPerEnc_UserAndHeader s True)) < 3 * length s \<longleftrightarrow>
      (\<exists>c\<in>set s. IS_UNRESERVED c \<or> IS_USER_UNRESERVED c)"
    unfolding DoPerEnc_UserAndHeader_def by (subst encoder_overrun) (auto simp: hex)
qed

theorem uri_encoding_overruns_witness:
  "Sip_DoPercentDecoding ''%3C%3e'' = ''<>'' \<and> 3 * length ''<>'' < snd (DoPerEnc_UserAndHeader ''<>'' True)"
proof -
  have "Sip_DoPercentDecoding ''%3C%3e'' = ''<>''" by code_simp
  moreover have "\<forall>c\<in>set ''<>''. \<not> IS_UNRESERVED c \<and> \<not> IS_USER_UNRESERVED c" by code_simp
  ultimately show ?thesis using uri_encoding_overruns [of "''<>''"] by simp
qed

text \<open>The host of a SIP URI survives encoding and decoding, and so does a user part that holds no
  escape of its own; an escape in the user part is copied by the encoder and decoded later.\<close>

theorem uri_round_trip:
  assumes "CHR 0x00 \<notin> set s"
  shows "Sip_DoPercentDecoding (fst (DoPerEnc_Host s)) = s \<and>
    ((\<forall>i. \<not> IS_ESCAPED (drop i s)) \<longrightarrow> Sip_DoPercentDecoding (fst (DoPerEnc_UserAndHeader s True)) = s)"
proof (intro conjI impI)
  have p: "char_val (CHR ''%'') = 37" by code_simp
  then have "\<not> IS_ALPHANUM (CHR ''%'')" by (simp add: IS_ALPHANUM_def IMS_ISDIGIT_def)
  note percent = this
  then show "Sip_DoPercentDecoding (fst (DoPerEnc_Host s)) = s"
    unfolding DoPerEnc_Host_def using assms by (intro Sip_decoding_encoded) auto
  assume "\<forall>i. \<not> IS_ESCAPED (drop i s)"
  then show "Sip_DoPercentDecoding (fst (DoPerEnc_UserAndHeader s True)) = s"
    unfolding DoPerEnc_UserAndHeader_def using assms percent
    by (intro Sip_decoding_encoded) (auto simp: IS_UNRESERVED_def IS_MARK_def IS_USER_UNRESERVED_def)
qed

theorem uri_round_trip_witness:
  "fst (DoPerEnc_Host ''a b%'') = ''a%20b%25'' \<and> Sip_DoPercentDecoding ''a%20b%25'' = ''a b%'' \<and>
   Sip_DoPercentDecoding (fst (DoPerEnc_UserAndHeader ''<'' True)) = ''<''"
proof -
  have "fst (DoPerEnc_Host ''a b%'') = ''a%20b%25''" by code_simp
  moreover have "\<not> IS_ESCAPED (drop i ''<'')" for i by (cases i) (simp_all add: IS_ESCAPED_def)
  ultimately show ?thesis
    using uri_round_trip [of "''a b%''"] uri_round_trip [of "''<''"] by simp
qed

subsection \<open>Delimiters and media types\<close>

text \<open>C40: A delimiter is found outside quotation marks. The scan answers the first position of the
  delimiter at which an even number of quotation marks precedes it, where one behind an odd run of
  backslashes does not count, and -1 when there is none.\<close>

theorem delimiter_outside_quotes:
  assumes "d \<noteq> CHR 0x22"
  shows "(\<exists>k. GetIndexOfDelimiter s d True = int k \<and> delimiter_at d (False, False) (chars s) k \<and>
            (\<forall>j<k. \<not> delimiter_at d (False, False) (chars s) j)) \<or>
         (GetIndexOfDelimiter s d True = -1 \<and> (\<forall>k. \<not> delimiter_at d (False, False) (chars s) k))"
  using delimiter_loop_first [OF assms, of False "CHR 0x00" "chars s" 0]
  by (simp add: GetIndexOfDelimiter_def first_delimiter_def NPOS_def)

theorem delimiter_outside_quotes_witness:
  "GetIndexOfDelimiter (Some (CHR 0x22 # ''a;'' @ [CHR 0x5C, CHR 0x22] @ '';'' @ [CHR 0x22] @ '';b'')) (CHR '';'') True = 7"
proof -
  let ?s = "CHR 0x22 # ''a;'' @ [CHR 0x5C, CHR 0x22] @ '';'' @ [CHR 0x22] @ '';b''"
  have at: "delimiter_at (CHR '';'') (False, False) ?s 7" by code_simp
  have "\<forall>j\<in>set [0..<7]. \<not> delimiter_at (CHR '';'') (False, False) ?s j" by code_simp
  then have "\<forall>j<7. \<not> delimiter_at (CHR '';'') (False, False) ?s j" by simp
  with at have "k = 7" if "delimiter_at (CHR '';'') (False, False) ?s k"
      "\<forall>j<k. \<not> delimiter_at (CHR '';'') (False, False) ?s j" for k
    using that by (meson linorder_neqE_nat)
  then show ?thesis
    using delimiter_outside_quotes [of "CHR '';''" "Some ?s"] at by (auto simp: chars_def)
qed

text \<open>A media type that is found valid also parses, into two parts that are tokens of RFC 2045; and
  the two parts of any text of the form type, slash, subtype, with or without parameters, are
  exactly what is parsed.\<close>

theorem media_type_parsed:
  "(IsValidMediaType s \<longrightarrow> (\<exists>t u. ParseMediaType s out = (True, Some t, Some u) \<and> t \<noteq> [] \<and> u \<noteq> [] \<and>
      (\<forall>c\<in>set (t @ u). rfc2045_token c))) \<and>
   (a \<noteq> [] \<and> CHR ''/'' \<notin> set a \<and> b \<noteq> [] \<and> CHR '';'' \<notin> set b \<and> (rest = [] \<or> (\<exists>ps. rest = CHR '';'' # ps)) \<longrightarrow>
      ParseMediaType (Some (a @ CHR ''/'' # b @ rest)) out = (True, Some a, Some b))"
proof (intro conjI impI)
  assume "IsValidMediaType s"
  then obtain t u where tu: "ParseMediaType s out = (True, t, u)" "IsTokenString t" "IsTokenString u"
    using valid_media_type_parses by blast
  then obtain t' u' where "t = Some t'" "u = Some u'"
    by (cases t; cases u) (auto simp: IsTokenString_def AString_GetLength_def chars_def)
  with tu show "\<exists>t u. ParseMediaType s out = (True, Some t, Some u) \<and> t \<noteq> [] \<and> u \<noteq> [] \<and> (\<forall>c\<in>set (t @ u). rfc2045_token c)"
    by (auto simp: IsTokenString_def AString_GetLength_def chars_def IsTokenCharacter_rfc2045)
qed (use ParseMediaType_parts in blast)

theorem media_type_parsed_witness:
  "IsValidMediaType (Some ''application/sdp;a=b'') \<and>
   ParseMediaType (Some ''application/sdp;a=b'') (None, None) = (True, Some ''application'', Some ''sdp'')"
proof -
  have "IsValidMediaType (Some ''application/sdp;a=b'')" by code_simp
  moreover have "ParseMediaType (Some ''application/sdp;a=b'') (None, None) = (True, Some ''application'', Some ''sdp'')"
    using media_type_parsed [of None "(None, None)" "''application''" "''sdp''" "'';a=b''"] by simp
  ultimately show ?thesis by blast
qed

end
