(* ===== verification/Call_State.thy ===== *)
theory Call_State
  imports Core_Message
begin

text \<open>
  The state of a call (\<open>engine/core/CallState.cpp\<close>): which of INVITE, its responses, ACK, CANCEL
  and BYE have been exchanged, by two transition tables for sent and received messages. A table is
  the list of the assignments of \<open>InitializeStateTable\<close>; every other entry is \<open>STATE_INVALID\<close>.
\<close>

subsection \<open>States, messages and tables\<close>

datatype call_state =
    STATE_INVALID | STATE_IDLE | STATE_INVITE_SENT | STATE_INVITE_1XX_RECEIVED
  | STATE_INVITE_2XX_RECEIVED | STATE_INVITE_NON2XX_RECEIVED | STATE_INVITE_RECEIVED
  | STATE_INVITE_1XX_SENT | STATE_INVITE_2XX_SENT | STATE_INVITE_NON2XX_SENT
  | STATE_REINVITE_SENT | STATE_REINVITE_1XX_RECEIVED | STATE_REINVITE_2XX_RECEIVED
  | STATE_REINVITE_NON2XX_RECEIVED | STATE_REINVITE_RECEIVED | STATE_REINVITE_1XX_SENT
  | STATE_REINVITE_2XX_SENT | STATE_REINVITE_NON2XX_SENT | STATE_ESTABLISHED
  | STATE_INVITE_CANCELLED | STATE_REINVITE_CANCELLED | STATE_BYE_SENT | STATE_BYE_RECEIVED
  | STATE_TERMINATED

text \<open>The enumerators in their order.\<close>

definition call_states :: "call_state list" where
  "call_states =
    [STATE_INVALID, STATE_IDLE, STATE_INVITE_SENT, STATE_INVITE_1XX_RECEIVED, STATE_INVITE_2XX_RECEIVED,
     STATE_INVITE_NON2XX_RECEIVED, STATE_INVITE_RECEIVED, STATE_INVITE_1XX_SENT, STATE_INVITE_2XX_SENT,
     STATE_INVITE_NON2XX_SENT, STATE_REINVITE_SENT, STATE_REINVITE_1XX_RECEIVED, STATE_REINVITE_2XX_RECEIVED,
     STATE_REINVITE_NON2XX_RECEIVED, STATE_REINVITE_RECEIVED, STATE_REINVITE_1XX_SENT, STATE_REINVITE_2XX_SENT,
     STATE_REINVITE_NON2XX_SENT, STATE_ESTABLISHED, STATE_INVITE_CANCELLED, STATE_REINVITE_CANCELLED,
     STATE_BYE_SENT, STATE_BYE_RECEIVED, STATE_TERMINATED]"

datatype call_message = MESSAGE_INVITE | MESSAGE_CANCEL | MESSAGE_ACK | MESSAGE_BYE | MESSAGE_1XX
  | MESSAGE_2XX | MESSAGE_NON2XX

datatype call_mode = MODE_SENT | MODE_RECEIVED | MODE_CANCEL_RECEIVED | MODE_BYE_RECEIVED

text \<open>
  Both types are finite, with their elements in the order of the enumerations: what holds in every
  state for every message is decided by evaluation.
\<close>

instantiation call_state :: enum
begin

definition enum_call_state :: "call_state list" where
  "enum_call_state = call_states"

definition enum_all_call_state :: "(call_state \<Rightarrow> bool) \<Rightarrow> bool" where
  "enum_all_call_state P \<longleftrightarrow> list_all P call_states"

definition enum_ex_call_state :: "(call_state \<Rightarrow> bool) \<Rightarrow> bool" where
  "enum_ex_call_state P \<longleftrightarrow> list_ex P call_states"

instance
proof
  have all: "s \<in> set call_states" for s by (cases s) (simp_all add: call_states_def)
  then show "(UNIV :: call_state set) = set Enum.enum" by (auto simp: enum_call_state_def)
  show "distinct (Enum.enum :: call_state list)" by (simp add: enum_call_state_def call_states_def)
  show "Enum.enum_all P \<longleftrightarrow> Ball UNIV P" for P :: "call_state \<Rightarrow> bool"
    using all by (auto simp: enum_all_call_state_def list_all_iff)
  show "Enum.enum_ex P \<longleftrightarrow> Bex UNIV P" for P :: "call_state \<Rightarrow> bool"
    using all by (auto simp: enum_ex_call_state_def list_ex_iff)
qed

end

instantiation call_message :: enum
begin

definition enum_call_message :: "call_message list" where
  "enum_call_message =
    [MESSAGE_INVITE, MESSAGE_CANCEL, MESSAGE_ACK, MESSAGE_BYE, MESSAGE_1XX, MESSAGE_2XX, MESSAGE_NON2XX]"

definition enum_all_call_message :: "(call_message \<Rightarrow> bool) \<Rightarrow> bool" where
  "enum_all_call_message P \<longleftrightarrow> list_all P Enum.enum"

definition enum_ex_call_message :: "(call_message \<Rightarrow> bool) \<Rightarrow> bool" where
  "enum_ex_call_message P \<longleftrightarrow> list_ex P Enum.enum"

instance
proof
  have all: "m \<in> set Enum.enum" for m :: call_message by (cases m) (simp_all add: enum_call_message_def)
  then show "(UNIV :: call_message set) = set Enum.enum" by auto
  show "distinct (Enum.enum :: call_message list)" by (simp add: enum_call_message_def)
  show "Enum.enum_all P \<longleftrightarrow> Ball UNIV P" for P :: "call_message \<Rightarrow> bool"
    using all by (auto simp: enum_all_call_message_def list_all_iff)
  show "Enum.enum_ex P \<longleftrightarrow> Bex UNIV P" for P :: "call_message \<Rightarrow> bool"
    using all by (auto simp: enum_ex_call_message_def list_ex_iff)
qed

end

definition STATE_ON_SENT :: "((call_state \<times> call_message) \<times> call_state) list" where
  "STATE_ON_SENT =
    [((STATE_IDLE, MESSAGE_INVITE), STATE_INVITE_SENT),
     ((STATE_INVITE_1XX_RECEIVED, MESSAGE_BYE), STATE_INVITE_1XX_RECEIVED),
     ((STATE_INVITE_2XX_RECEIVED, MESSAGE_ACK), STATE_ESTABLISHED),
     ((STATE_INVITE_NON2XX_RECEIVED, MESSAGE_ACK), STATE_IDLE),
     ((STATE_INVITE_RECEIVED, MESSAGE_1XX), STATE_INVITE_1XX_SENT),
     ((STATE_INVITE_RECEIVED, MESSAGE_2XX), STATE_INVITE_2XX_SENT),
     ((STATE_INVITE_RECEIVED, MESSAGE_NON2XX), STATE_INVITE_NON2XX_SENT),
     ((STATE_INVITE_1XX_SENT, MESSAGE_1XX), STATE_INVITE_1XX_SENT),
     ((STATE_INVITE_1XX_SENT, MESSAGE_2XX), STATE_INVITE_2XX_SENT),
     ((STATE_INVITE_1XX_SENT, MESSAGE_NON2XX), STATE_INVITE_NON2XX_SENT),
     ((STATE_INVITE_2XX_SENT, MESSAGE_BYE), STATE_BYE_SENT),
     ((STATE_REINVITE_SENT, MESSAGE_BYE), STATE_BYE_SENT),
     ((STATE_REINVITE_1XX_RECEIVED, MESSAGE_BYE), STATE_BYE_SENT),
     ((STATE_REINVITE_2XX_RECEIVED, MESSAGE_ACK), STATE_ESTABLISHED),
     ((STATE_REINVITE_NON2XX_RECEIVED, MESSAGE_ACK), STATE_ESTABLISHED),
     ((STATE_REINVITE_RECEIVED, MESSAGE_1XX), STATE_REINVITE_1XX_SENT),
     ((STATE_REINVITE_RECEIVED, MESSAGE_2XX), STATE_REINVITE_2XX_SENT),
     ((STATE_REINVITE_RECEIVED, MESSAGE_NON2XX), STATE_REINVITE_NON2XX_SENT),
     ((STATE_REINVITE_1XX_SENT, MESSAGE_1XX), STATE_REINVITE_1XX_SENT),
     ((STATE_REINVITE_1XX_SENT, MESSAGE_2XX), STATE_REINVITE_2XX_SENT),
     ((STATE_REINVITE_1XX_SENT, MESSAGE_NON2XX), STATE_REINVITE_NON2XX_SENT),
     ((STATE_ESTABLISHED, MESSAGE_INVITE), STATE_REINVITE_SENT),
     ((STATE_ESTABLISHED, MESSAGE_BYE), STATE_BYE_SENT),
     ((STATE_INVITE_CANCELLED, MESSAGE_2XX), STATE_INVITE_2XX_SENT),
     ((STATE_INVITE_CANCELLED, MESSAGE_NON2XX), STATE_INVITE_NON2XX_SENT),
     ((STATE_REINVITE_CANCELLED, MESSAGE_2XX), STATE_REINVITE_2XX_SENT),
     ((STATE_REINVITE_CANCELLED, MESSAGE_NON2XX), STATE_REINVITE_NON2XX_SENT),
     ((STATE_BYE_RECEIVED, MESSAGE_2XX), STATE_TERMINATED),
     ((STATE_BYE_RECEIVED, MESSAGE_NON2XX), STATE_ESTABLISHED)]"

definition STATE_ON_RECEIVED :: "((call_state \<times> call_message) \<times> call_state) list" where
  "STATE_ON_RECEIVED =
    [((STATE_IDLE, MESSAGE_INVITE), STATE_INVITE_RECEIVED),
     ((STATE_INVITE_SENT, MESSAGE_1XX), STATE_INVITE_1XX_RECEIVED),
     ((STATE_INVITE_SENT, MESSAGE_2XX), STATE_INVITE_2XX_RECEIVED),
     ((STATE_INVITE_SENT, MESSAGE_NON2XX), STATE_INVITE_NON2XX_RECEIVED),
     ((STATE_INVITE_1XX_RECEIVED, MESSAGE_1XX), STATE_INVITE_1XX_RECEIVED),
     ((STATE_INVITE_1XX_RECEIVED, MESSAGE_2XX), STATE_INVITE_2XX_RECEIVED),
     ((STATE_INVITE_1XX_RECEIVED, MESSAGE_NON2XX), STATE_INVITE_NON2XX_RECEIVED),
     ((STATE_INVITE_2XX_RECEIVED, MESSAGE_BYE), STATE_BYE_RECEIVED),
     ((STATE_INVITE_RECEIVED, MESSAGE_CANCEL), STATE_INVITE_CANCELLED),
     ((STATE_INVITE_1XX_SENT, MESSAGE_CANCEL), STATE_INVITE_CANCELLED),
     ((STATE_INVITE_1XX_SENT, MESSAGE_BYE), STATE_INVITE_CANCELLED),
     ((STATE_INVITE_2XX_SENT, MESSAGE_CANCEL), STATE_INVITE_2XX_SENT),
     ((STATE_INVITE_2XX_SENT, MESSAGE_ACK), STATE_ESTABLISHED),
     ((STATE_INVITE_2XX_SENT, MESSAGE_BYE), STATE_INVITE_2XX_SENT),
     ((STATE_INVITE_NON2XX_SENT, MESSAGE_CANCEL), STATE_INVITE_NON2XX_SENT),
     ((STATE_INVITE_NON2XX_SENT, MESSAGE_ACK), STATE_IDLE),
     ((STATE_INVITE_NON2XX_SENT, MESSAGE_BYE), STATE_INVITE_NON2XX_SENT),
     ((STATE_REINVITE_SENT, MESSAGE_BYE), STATE_BYE_RECEIVED),
     ((STATE_REINVITE_SENT, MESSAGE_1XX), STATE_REINVITE_1XX_RECEIVED),
     ((STATE_REINVITE_SENT, MESSAGE_2XX), STATE_REINVITE_2XX_RECEIVED),
     ((STATE_REINVITE_SENT, MESSAGE_NON2XX), STATE_REINVITE_NON2XX_RECEIVED),
     ((STATE_REINVITE_1XX_RECEIVED, MESSAGE_BYE), STATE_BYE_RECEIVED),
     ((STATE_REINVITE_1XX_RECEIVED, MESSAGE_1XX), STATE_REINVITE_1XX_RECEIVED),
     ((STATE_REINVITE_1XX_RECEIVED, MESSAGE_2XX), STATE_REINVITE_2XX_RECEIVED),
     ((STATE_REINVITE_1XX_RECEIVED, MESSAGE_NON2XX), STATE_REINVITE_NON2XX_RECEIVED),
     ((STATE_REINVITE_2XX_RECEIVED, MESSAGE_BYE), STATE_BYE_RECEIVED),
     ((STATE_REINVITE_NON2XX_RECEIVED, MESSAGE_BYE), STATE_BYE_RECEIVED),
     ((STATE_REINVITE_RECEIVED, MESSAGE_CANCEL), STATE_REINVITE_CANCELLED),
     ((STATE_REINVITE_RECEIVED, MESSAGE_BYE), STATE_BYE_RECEIVED),
     ((STATE_REINVITE_1XX_SENT, MESSAGE_CANCEL), STATE_REINVITE_CANCELLED),
     ((STATE_REINVITE_1XX_SENT, MESSAGE_BYE), STATE_BYE_RECEIVED),
     ((STATE_REINVITE_2XX_SENT, MESSAGE_CANCEL), STATE_REINVITE_2XX_SENT),
     ((STATE_REINVITE_2XX_SENT, MESSAGE_ACK), STATE_ESTABLISHED),
     ((STATE_REINVITE_2XX_SENT, MESSAGE_BYE), STATE_REINVITE_2XX_SENT),
     ((STATE_REINVITE_NON2XX_SENT, MESSAGE_CANCEL), STATE_REINVITE_NON2XX_SENT),
     ((STATE_REINVITE_NON2XX_SENT, MESSAGE_ACK), STATE_ESTABLISHED),
     ((STATE_REINVITE_NON2XX_SENT, MESSAGE_BYE), STATE_REINVITE_NON2XX_SENT),
     ((STATE_ESTABLISHED, MESSAGE_INVITE), STATE_REINVITE_RECEIVED),
     ((STATE_ESTABLISHED, MESSAGE_CANCEL), STATE_ESTABLISHED),
     ((STATE_ESTABLISHED, MESSAGE_ACK), STATE_ESTABLISHED),
     ((STATE_ESTABLISHED, MESSAGE_BYE), STATE_BYE_RECEIVED),
     ((STATE_INVITE_CANCELLED, MESSAGE_BYE), STATE_INVITE_CANCELLED),
     ((STATE_INVITE_CANCELLED, MESSAGE_CANCEL), STATE_INVITE_CANCELLED),
     ((STATE_BYE_SENT, MESSAGE_ACK), STATE_BYE_SENT),
     ((STATE_BYE_SENT, MESSAGE_BYE), STATE_BYE_RECEIVED),
     ((STATE_BYE_SENT, MESSAGE_2XX), STATE_TERMINATED),
     ((STATE_BYE_SENT, MESSAGE_NON2XX), STATE_ESTABLISHED)]"

definition state_table :: "((call_state \<times> call_message) \<times> call_state) list \<Rightarrow> call_state \<Rightarrow> call_message \<Rightarrow> call_state" where
  "state_table assignments nState nSipMsg =
     (case map_of assignments (nState, nSipMsg) of None \<Rightarrow> STATE_INVALID | Some nNextState \<Rightarrow> nNextState)"

abbreviation s_nStateOnSent :: "call_state \<Rightarrow> call_message \<Rightarrow> call_state" where
  "s_nStateOnSent \<equiv> state_table STATE_ON_SENT"

abbreviation s_nStateOnReceived :: "call_state \<Rightarrow> call_message \<Rightarrow> call_state" where
  "s_nStateOnReceived \<equiv> state_table STATE_ON_RECEIVED"

subsection \<open>Operations\<close>

text \<open>\<open>MESSAGE_INVALID\<close> is \<open>None\<close>.\<close>

definition TranslateMessage :: "ISipMessage \<Rightarrow> call_message option" where
  "TranslateMessage piSipMsg =
     (let nMsgType = GetType piSipMsg; objMethod = GetMethod piSipMsg
      in if nMsgType = TYPE_REQUEST then
           (if SipMethod_Equals objMethod SipMethod_INVITE then Some MESSAGE_INVITE
            else if SipMethod_Equals objMethod SipMethod_CANCEL then Some MESSAGE_CANCEL
            else if SipMethod_Equals objMethod SipMethod_ACK then Some MESSAGE_ACK
            else if SipMethod_Equals objMethod SipMethod_BYE then Some MESSAGE_BYE
            else None)
         else if nMsgType = TYPE_RESPONSE then
           (if \<not> SipMethod_Equals objMethod SipMethod_INVITE \<and> \<not> SipMethod_Equals objMethod SipMethod_CANCEL \<and>
               \<not> SipMethod_Equals objMethod SipMethod_ACK \<and> \<not> SipMethod_Equals objMethod SipMethod_BYE
            then None
            else if Is1XX (GetStatusCode piSipMsg) then Some MESSAGE_1XX
            else if IsFinalSuccess (GetStatusCode piSipMsg) then Some MESSAGE_2XX
            else Some MESSAGE_NON2XX)
         else None)"

text \<open>The responses that must not modify the state: to a CANCEL, or to a BYE that cancels the INVITE.\<close>

definition response_to_cancelling :: "ISipMessage \<Rightarrow> call_state \<Rightarrow> bool" where
  "response_to_cancelling piSipMsg nState \<longleftrightarrow>
     GetType piSipMsg = TYPE_RESPONSE \<and>
     (SipMethod_Equals (GetMethod piSipMsg) SipMethod_CANCEL \<or>
      SipMethod_Equals (GetMethod piSipMsg) SipMethod_BYE \<and> nState \<noteq> STATE_BYE_SENT \<and> nState \<noteq> STATE_BYE_RECEIVED)"

definition call_sent :: "call_message \<Rightarrow> call_state \<Rightarrow> call_state" where
  "call_sent nSipMsg nState =
     (if s_nStateOnSent nState nSipMsg \<noteq> STATE_INVALID then
        (let nState = s_nStateOnSent nState nSipMsg
         in if nState = STATE_REINVITE_NON2XX_SENT \<and> s_nStateOnReceived nState MESSAGE_ACK \<noteq> STATE_INVALID
            then s_nStateOnReceived nState MESSAGE_ACK else nState)
      else nState)"

definition call_received :: "call_message \<Rightarrow> call_state \<Rightarrow> call_state" where
  "call_received nSipMsg nState =
     (if s_nStateOnReceived nState nSipMsg \<noteq> STATE_INVALID then
        (let nState = s_nStateOnReceived nState nSipMsg
         in if (nState = STATE_INVITE_NON2XX_RECEIVED \<or> nState = STATE_REINVITE_NON2XX_RECEIVED) \<and>
               s_nStateOnSent nState MESSAGE_ACK \<noteq> STATE_INVALID
            then s_nStateOnSent nState MESSAGE_ACK else nState)
      else nState)"

definition UpdateState_call :: "ISipMessage \<Rightarrow> call_mode \<Rightarrow> call_state \<Rightarrow> bool \<times> call_state" where
  "UpdateState_call piSipMsg nMode m_nState =
     (case TranslateMessage piSipMsg of
        None \<Rightarrow> (True, m_nState)
      | Some nSipMsg \<Rightarrow>
          if response_to_cancelling piSipMsg m_nState then (True, m_nState)
          else if nMode = MODE_SENT then (True, call_sent nSipMsg m_nState)
          else if nMode = MODE_RECEIVED then (True, call_received nSipMsg m_nState)
          else (True, m_nState))"

subsection \<open>Reachable states\<close>

text \<open>A call starts idle; any message may be sent or received, in any order.\<close>

inductive call_reachable :: "call_state \<Rightarrow> bool" where
  call_start: "call_reachable STATE_IDLE"
| call_update: "call_reachable s \<Longrightarrow> call_reachable (snd (UpdateState_call msg mode s))"

text \<open>The states a call rests in: the others are left in the same step.\<close>

definition call_rests :: "call_state \<Rightarrow> bool" where
  "call_rests s \<longleftrightarrow> s \<notin> {STATE_INVALID, STATE_INVITE_NON2XX_RECEIVED, STATE_REINVITE_NON2XX_RECEIVED, STATE_REINVITE_NON2XX_SENT}"

text \<open>The rows of the tables, for each state a call rests in.\<close>

lemmas call_tables = state_table_def STATE_ON_SENT_def STATE_ON_RECEIVED_def

lemma call_sent_rests: "call_rests s \<Longrightarrow> call_rests (call_sent m s)"
  by (cases s; cases m) (simp_all add: call_rests_def call_sent_def call_tables)

lemma call_received_rests: "call_rests s \<Longrightarrow> call_rests (call_received m s)"
  by (cases s; cases m) (simp_all add: call_rests_def call_received_def call_tables)

lemma UpdateState_call_cases:
  obtains "UpdateState_call msg mode s = (True, s)"
  | m where "TranslateMessage msg = Some m" "\<not> response_to_cancelling msg s" "mode = MODE_SENT"
      "UpdateState_call msg mode s = (True, call_sent m s)"
  | m where "TranslateMessage msg = Some m" "\<not> response_to_cancelling msg s" "mode = MODE_RECEIVED"
      "UpdateState_call msg mode s = (True, call_received m s)"
proof (cases "TranslateMessage msg")
  case None
  then show ?thesis using that(1) by (simp add: UpdateState_call_def)
next
  case (Some m)
  then show ?thesis
    using that by (cases "response_to_cancelling msg s"; cases mode) (simp_all add: UpdateState_call_def)
qed

lemma call_reachable_rests: "call_reachable s \<Longrightarrow> call_rests s"
proof (induction rule: call_reachable.induct)
  case call_start
  show ?case by (simp add: call_rests_def)
next
  case (call_update s msg mode)
  show ?case
    by (cases rule: UpdateState_call_cases [of msg mode s])
      (use call_update in \<open>auto simp: call_sent_rests call_received_rests\<close>)
qed

subsection \<open>The life cycle of a call\<close>

text \<open>
  The abstract states: before the INVITE is answered, after its refusal, its acceptance and its ACK,
  the same for a re-INVITE, and the end by BYE.
\<close>

datatype phase = No_Call | Inviting | Refused | Answered | Confirmed | Reinviting | Reanswered | Closing | Closed

fun phase_of :: "call_state \<Rightarrow> phase" where
  "phase_of STATE_INVALID = No_Call"
| "phase_of STATE_IDLE = No_Call"
| "phase_of STATE_INVITE_SENT = Inviting"
| "phase_of STATE_INVITE_1XX_RECEIVED = Inviting"
| "phase_of STATE_INVITE_2XX_RECEIVED = Answered"
| "phase_of STATE_INVITE_NON2XX_RECEIVED = Refused"
| "phase_of STATE_INVITE_RECEIVED = Inviting"
| "phase_of STATE_INVITE_1XX_SENT = Inviting"
| "phase_of STATE_INVITE_2XX_SENT = Answered"
| "phase_of STATE_INVITE_NON2XX_SENT = Refused"
| "phase_of STATE_REINVITE_SENT = Reinviting"
| "phase_of STATE_REINVITE_1XX_RECEIVED = Reinviting"
| "phase_of STATE_REINVITE_2XX_RECEIVED = Reanswered"
| "phase_of STATE_REINVITE_NON2XX_RECEIVED = Reanswered"
| "phase_of STATE_REINVITE_RECEIVED = Reinviting"
| "phase_of STATE_REINVITE_1XX_SENT = Reinviting"
| "phase_of STATE_REINVITE_2XX_SENT = Reanswered"
| "phase_of STATE_REINVITE_NON2XX_SENT = Reanswered"
| "phase_of STATE_ESTABLISHED = Confirmed"
| "phase_of STATE_INVITE_CANCELLED = Inviting"
| "phase_of STATE_REINVITE_CANCELLED = Reinviting"
| "phase_of STATE_BYE_SENT = Closing"
| "phase_of STATE_BYE_RECEIVED = Closing"
| "phase_of STATE_TERMINATED = Closed"

inductive lifecycle :: "phase \<Rightarrow> call_message \<Rightarrow> phase \<Rightarrow> bool" where
  "lifecycle No_Call MESSAGE_INVITE Inviting"
| "lifecycle Inviting MESSAGE_2XX Answered"
| "lifecycle Inviting MESSAGE_NON2XX Refused"
| "lifecycle Inviting MESSAGE_NON2XX No_Call"
| "lifecycle Refused MESSAGE_ACK No_Call"
| "lifecycle Answered MESSAGE_ACK Confirmed"
| "lifecycle Answered MESSAGE_BYE Closing"
| "lifecycle Confirmed MESSAGE_INVITE Reinviting"
| "lifecycle Confirmed MESSAGE_BYE Closing"
| "lifecycle Reinviting MESSAGE_2XX Reanswered"
| "lifecycle Reinviting MESSAGE_NON2XX Confirmed"
| "lifecycle Reinviting MESSAGE_BYE Closing"
| "lifecycle Reanswered MESSAGE_ACK Confirmed"
| "lifecycle Reanswered MESSAGE_BYE Closing"
| "lifecycle Closing MESSAGE_2XX Closed"
| "lifecycle Closing MESSAGE_NON2XX Confirmed"

inductive_simps lifecycle_simps [simp]: "lifecycle p m q"

code_pred lifecycle .

lemma call_sent_lifecycle:
  "call_rests s \<Longrightarrow> phase_of (call_sent m s) = phase_of s \<or> lifecycle (phase_of s) m (phase_of (call_sent m s))"
  by (cases s; cases m) (simp_all add: call_rests_def call_sent_def call_tables)

lemma call_received_lifecycle:
  "call_rests s \<Longrightarrow>
   phase_of (call_received m s) = phase_of s \<or> lifecycle (phase_of s) m (phase_of (call_received m s))"
  by (cases s; cases m) (simp_all add: call_rests_def call_received_def call_tables)

lemma UpdateState_call_lifecycle:
  assumes "call_rests s" and "phase_of (snd (UpdateState_call msg mode s)) \<noteq> phase_of s"
  obtains m where "TranslateMessage msg = Some m"
    "lifecycle (phase_of s) m (phase_of (snd (UpdateState_call msg mode s)))"
  using assms by (cases rule: UpdateState_call_cases [of msg mode s])
    (auto dest: call_sent_lifecycle call_received_lifecycle simp del: lifecycle_simps)

subsection \<open>What a closed call has exchanged\<close>

definition call_run :: "(call_mode \<times> ISipMessage) list \<Rightarrow> call_state" where
  "call_run ms = fold (\<lambda>(mode, msg) s. snd (UpdateState_call msg mode s)) ms STATE_IDLE"

definition exchanged :: "(call_mode \<times> ISipMessage) list \<Rightarrow> call_message list" where
  "exchanged ms = List.map_filter (\<lambda>(_, msg). TranslateMessage msg) ms"

lemma call_run_snoc: "call_run (ms @ [(mode, msg)]) = snd (UpdateState_call msg mode (call_run ms))"
  by (simp add: call_run_def)

lemma call_run_reachable: "call_reachable (call_run ms)"
  by (induction ms rule: rev_induct) (auto simp: call_run_snoc simp: call_run_def intro: call_reachable.intros)

lemma exchanged_snoc:
  "exchanged (ms @ [(mode, msg)]) = exchanged ms @ (case TranslateMessage msg of None \<Rightarrow> [] | Some m \<Rightarrow> [m])"
  by (simp add: exchanged_def map_filter_def split: option.split)

text \<open>The messages a call in each phase has exchanged, in order, among others.\<close>

fun needed :: "phase \<Rightarrow> call_message list" where
  "needed No_Call = []"
| "needed Inviting = [MESSAGE_INVITE]"
| "needed Refused = [MESSAGE_INVITE]"
| "needed Answered = [MESSAGE_INVITE, MESSAGE_2XX]"
| "needed Confirmed = [MESSAGE_INVITE, MESSAGE_2XX]"
| "needed Reinviting = [MESSAGE_INVITE, MESSAGE_2XX]"
| "needed Reanswered = [MESSAGE_INVITE, MESSAGE_2XX]"
| "needed Closing = [MESSAGE_INVITE, MESSAGE_2XX, MESSAGE_BYE]"
| "needed Closed = [MESSAGE_INVITE, MESSAGE_2XX, MESSAGE_BYE, MESSAGE_2XX]"

lemma lifecycle_needed:
  assumes "lifecycle p m q" and "subseq (needed p) ms"
  shows "subseq (needed q) (ms @ [m])"
proof -
  have "subseq (needed p @ [m]) (ms @ [m])" "subseq (needed p) (ms @ [m])"
    using list_emb_append_mono [OF assms(2), of "[m]" "[m]"] list_emb_append_mono [OF assms(2), of "[]" "[m]"]
    by simp_all
  moreover have "needed q = needed p @ [m] \<or> subseq (needed q) (needed p)"
    using assms(1) by (auto simp: subseq_Cons')
  ultimately show ?thesis using subseq_order.order_trans by metis
qed

lemma call_run_needed: "subseq (needed (phase_of (call_run ms))) (exchanged ms)"
proof (induction ms rule: rev_induct)
  case Nil
  show ?case by (simp add: call_run_def)
next
  case (snoc x ms)
  obtain mode msg where x: "x = (mode, msg)" by (cases x)
  have rests: "call_rests (call_run ms)" by (rule call_reachable_rests [OF call_run_reachable])
  show ?case
  proof (cases "phase_of (call_run (ms @ [x])) = phase_of (call_run ms)")
    case True
    then show ?thesis using snoc.IH by (auto simp: x exchanged_snoc intro: subseq_order.order_trans)
  next
    case False
    then obtain m where "TranslateMessage msg = Some m" "lifecycle (phase_of (call_run ms)) m (phase_of (call_run (ms @ [x])))"
      using UpdateState_call_lifecycle [OF rests, of msg mode] by (auto simp: x call_run_snoc simp del: lifecycle_simps)
    then show ?thesis using lifecycle_needed snoc.IH by (simp add: x exchanged_snoc del: lifecycle_simps)
  qed
qed

end
