(* ===== verification/Call_Peers.thy ===== *)
theory Call_Peers
  imports Call_State
begin

text \<open>
  The two ends of a call, each with a \<open>CallState\<close> of its own: a message is sent by one and received
  by the other. A user agent sends what RFC 3261 lets it send in its state; it does not send a BYE
  while an INVITE of its own or of the peer is pending.
\<close>

definition may_request :: "call_state \<Rightarrow> call_state \<Rightarrow> call_message \<Rightarrow> bool" where
  "may_request a b m \<longleftrightarrow>
     m = MESSAGE_INVITE \<and> (a = STATE_IDLE \<and> b = STATE_IDLE \<or> a = STATE_ESTABLISHED) \<or>
     m = MESSAGE_CANCEL \<and> a \<in> {STATE_INVITE_1XX_RECEIVED, STATE_REINVITE_1XX_RECEIVED} \<or>
     m = MESSAGE_ACK \<and> a \<in> {STATE_INVITE_2XX_RECEIVED, STATE_REINVITE_2XX_RECEIVED} \<or>
     m = MESSAGE_BYE \<and> a = STATE_ESTABLISHED"

definition may_respond :: "call_state \<Rightarrow> int \<Rightarrow> call_message \<Rightarrow> bool" where
  "may_respond a nMethod m \<longleftrightarrow>
     nMethod = SipMethod_CANCEL \<or>
     nMethod = SipMethod_INVITE \<and>
       (a \<in> {STATE_INVITE_RECEIVED, STATE_INVITE_1XX_SENT, STATE_REINVITE_RECEIVED, STATE_REINVITE_1XX_SENT} \<or>
        m \<noteq> MESSAGE_1XX \<and> a \<in> {STATE_INVITE_CANCELLED, STATE_REINVITE_CANCELLED}) \<or>
     nMethod = SipMethod_BYE \<and> a = STATE_BYE_RECEIVED"

definition may_send :: "call_state \<Rightarrow> call_state \<Rightarrow> ISipMessage \<Rightarrow> bool" where
  "may_send a b msg \<longleftrightarrow>
     (case TranslateMessage msg of
        None \<Rightarrow> True
      | Some m \<Rightarrow> if GetType msg = TYPE_REQUEST then may_request a b m else may_respond a (m_nMethod (GetMethod msg)) m)"

inductive peers :: "call_state \<Rightarrow> call_state \<Rightarrow> bool" where
  peers_idle: "peers STATE_IDLE STATE_IDLE"
| peers_left: "peers a b \<Longrightarrow> may_send a b msg \<Longrightarrow>
    peers (snd (UpdateState_call msg MODE_SENT a)) (snd (UpdateState_call msg MODE_RECEIVED b))"
| peers_right: "peers a b \<Longrightarrow> may_send b a msg \<Longrightarrow>
    peers (snd (UpdateState_call msg MODE_RECEIVED a)) (snd (UpdateState_call msg MODE_SENT b))"

text \<open>The pairs of states the two ends can be in, the caller of the pending INVITE on the left.\<close>

fun mirrored :: "call_state \<Rightarrow> call_state \<Rightarrow> bool" where
  "mirrored STATE_IDLE b \<longleftrightarrow> b \<in> {STATE_IDLE, STATE_INVITE_NON2XX_SENT}"
| "mirrored STATE_INVITE_SENT b \<longleftrightarrow> b = STATE_INVITE_RECEIVED"
| "mirrored STATE_INVITE_1XX_RECEIVED b \<longleftrightarrow> b \<in> {STATE_INVITE_1XX_SENT, STATE_INVITE_CANCELLED}"
| "mirrored STATE_INVITE_2XX_RECEIVED b \<longleftrightarrow> b = STATE_INVITE_2XX_SENT"
| "mirrored STATE_ESTABLISHED b \<longleftrightarrow> b = STATE_ESTABLISHED"
| "mirrored STATE_REINVITE_SENT b \<longleftrightarrow> b = STATE_REINVITE_RECEIVED"
| "mirrored STATE_REINVITE_1XX_RECEIVED b \<longleftrightarrow> b \<in> {STATE_REINVITE_1XX_SENT, STATE_REINVITE_CANCELLED}"
| "mirrored STATE_REINVITE_2XX_RECEIVED b \<longleftrightarrow> b = STATE_REINVITE_2XX_SENT"
| "mirrored STATE_BYE_SENT b \<longleftrightarrow> b = STATE_BYE_RECEIVED"
| "mirrored STATE_TERMINATED b \<longleftrightarrow> b = STATE_TERMINATED"
| "mirrored _ b \<longleftrightarrow> False"

definition sides_agree :: "call_state \<Rightarrow> call_state \<Rightarrow> bool" where
  "sides_agree a b \<longleftrightarrow> mirrored a b \<or> mirrored b a"

text \<open>A message that may be sent keeps the pair, whichever end sends it.\<close>

lemma TranslateMessage_kind:
  "TranslateMessage msg = Some m \<Longrightarrow> GetType msg = TYPE_REQUEST \<longleftrightarrow> m \<in> {MESSAGE_INVITE, MESSAGE_CANCEL, MESSAGE_ACK, MESSAGE_BYE}"
  "TranslateMessage msg = Some m \<Longrightarrow> GetType msg = TYPE_RESPONSE \<longleftrightarrow> m \<in> {MESSAGE_1XX, MESSAGE_2XX, MESSAGE_NON2XX}"
  by (auto simp: TranslateMessage_def Let_def split: if_splits)

lemma UpdateState_call_modes:
  assumes "TranslateMessage msg = Some m"
  shows "snd (UpdateState_call msg MODE_SENT s) = (if response_to_cancelling msg s then s else call_sent m s)"
    and "snd (UpdateState_call msg MODE_RECEIVED s) = (if response_to_cancelling msg s then s else call_received m s)"
  using assms by (simp_all add: UpdateState_call_def)

lemma request_agrees_all:
  "\<forall>a b. mirrored a b \<longrightarrow> (\<forall>m. (may_request a b m \<longrightarrow> sides_agree (call_sent m a) (call_received m b)) \<and>
     (may_request b a m \<longrightarrow> sides_agree (call_received m a) (call_sent m b)))"
  by code_simp

lemma response_agrees_all:
  "\<forall>a b. mirrored a b \<longrightarrow> (\<forall>m. m \<in> {MESSAGE_1XX, MESSAGE_2XX, MESSAGE_NON2XX} \<longrightarrow>
     (may_respond a SipMethod_INVITE m \<or> may_respond a SipMethod_BYE m \<longrightarrow> sides_agree (call_sent m a) (call_received m b)) \<and>
     (may_respond b SipMethod_INVITE m \<or> may_respond b SipMethod_BYE m \<longrightarrow> sides_agree (call_received m a) (call_sent m b)))"
  by code_simp

text \<open>One exchange keeps the agreement.\<close>

lemma may_send_kind:
  assumes "may_send a b msg" and "TranslateMessage msg = Some m"
  shows "may_request a b m \<or> m \<in> {MESSAGE_1XX, MESSAGE_2XX, MESSAGE_NON2XX} \<and>
    (m_nMethod (GetMethod msg) = SipMethod_CANCEL \<or>
     m_nMethod (GetMethod msg) = SipMethod_INVITE \<and> may_respond a SipMethod_INVITE m \<or>
     m_nMethod (GetMethod msg) = SipMethod_BYE \<and> may_respond a SipMethod_BYE m)"
proof (cases "GetType msg = TYPE_REQUEST")
  case False
  then have "GetType msg = TYPE_RESPONSE" using assms(2) by (auto simp: TranslateMessage_def Let_def split: if_splits)
  then have "m \<in> {MESSAGE_1XX, MESSAGE_2XX, MESSAGE_NON2XX}" using TranslateMessage_kind(2) [OF assms(2)] by blast
  then show ?thesis using assms False by (auto simp: may_send_def may_respond_def)
qed (use assms in \<open>simp add: may_send_def\<close>)

lemma exchange_agrees:
  assumes "sides_agree a b" and "may_send a b msg"
  shows "sides_agree (snd (UpdateState_call msg MODE_SENT a)) (snd (UpdateState_call msg MODE_RECEIVED b))"
proof (cases "TranslateMessage msg")
  case None
  then show ?thesis using assms(1) by (simp add: UpdateState_call_def)
next
  case (Some m)
  note upd = UpdateState_call_modes [OF Some]
  have both: "sides_agree (call_sent m a) (call_received m b)"
    if "may_request a b m \<or> m \<in> {MESSAGE_1XX, MESSAGE_2XX, MESSAGE_NON2XX} \<and>
      (may_respond a SipMethod_INVITE m \<or> may_respond a SipMethod_BYE m)"
    using that assms(1) request_agrees_all response_agrees_all unfolding sides_agree_def by metis
  from may_send_kind [OF assms(2) Some] consider "may_request a b m"
    | "m \<in> {MESSAGE_1XX, MESSAGE_2XX, MESSAGE_NON2XX}" "m_nMethod (GetMethod msg) = SipMethod_CANCEL"
    | "m \<in> {MESSAGE_1XX, MESSAGE_2XX, MESSAGE_NON2XX}" "m_nMethod (GetMethod msg) = SipMethod_INVITE" "may_respond a SipMethod_INVITE m"
    | "m \<in> {MESSAGE_1XX, MESSAGE_2XX, MESSAGE_NON2XX}" "m_nMethod (GetMethod msg) = SipMethod_BYE" "may_respond a SipMethod_BYE m"
    by blast
  then show ?thesis
  proof cases
    case 1
    then have "GetType msg = TYPE_REQUEST" using TranslateMessage_kind(1) [OF Some] by (auto simp: may_request_def)
    then show ?thesis using both 1 by (simp add: upd response_to_cancelling_def)
  next
    case 2
    then have "GetType msg = TYPE_RESPONSE" using TranslateMessage_kind(2) [OF Some] by blast
    then show ?thesis using 2 assms(1) by (simp add: upd response_to_cancelling_def SipMethod_Equals_def)
  next
    case 3
    then have "\<not> response_to_cancelling msg s" for s by (simp add: response_to_cancelling_def SipMethod_Equals_def)
    then show ?thesis using both 3 by (simp add: upd)
  next
    case 4
    then have "a = STATE_BYE_RECEIVED" by (simp add: may_respond_def)
    moreover from this have "b = STATE_BYE_SENT" using assms(1) by (cases b) (auto simp: sides_agree_def)
    ultimately have "\<not> response_to_cancelling msg a" "\<not> response_to_cancelling msg b"
      using 4 by (auto simp: response_to_cancelling_def SipMethod_Equals_def)
    then show ?thesis using both 4 by (simp add: upd)
  qed
qed

lemma sides_agree_sym: "sides_agree a b \<Longrightarrow> sides_agree b a"
  by (auto simp: sides_agree_def)

lemma peers_agree: "peers a b \<Longrightarrow> sides_agree a b"
proof (induction rule: peers.induct)
  case peers_idle
  show ?case by (simp add: sides_agree_def)
next
  case (peers_left a b msg)
  then show ?case by (simp add: exchange_agrees)
next
  case (peers_right a b msg)
  then show ?case using exchange_agrees [of b a msg] by (simp add: sides_agree_sym)
qed

lemma sides_agree_phase:
  "sides_agree a b \<Longrightarrow> phase_of a = phase_of b \<or> {phase_of a, phase_of b} = {No_Call, Refused}"
  by (cases a; cases b) (auto simp: sides_agree_def)

subsection \<open>A BYE while a re-INVITE is pending\<close>

definition from_caller :: "ISipMessage \<Rightarrow> call_state \<times> call_state \<Rightarrow> call_state \<times> call_state" where
  "from_caller msg ab =
     (snd (UpdateState_call msg MODE_SENT (fst ab)), snd (UpdateState_call msg MODE_RECEIVED (snd ab)))"

definition from_callee :: "ISipMessage \<Rightarrow> call_state \<times> call_state \<Rightarrow> call_state \<times> call_state" where
  "from_callee msg ab =
     (snd (UpdateState_call msg MODE_RECEIVED (fst ab)), snd (UpdateState_call msg MODE_SENT (snd ab)))"

lemma TranslateMessage_examples [simp]:
  "TranslateMessage (request SipMethod_BYE) = Some MESSAGE_BYE"
  "TranslateMessage (request SipMethod_INVITE) = Some MESSAGE_INVITE"
  "TranslateMessage (request SipMethod_ACK) = Some MESSAGE_ACK"
  "200 \<le> code \<Longrightarrow> code < 300 \<Longrightarrow> TranslateMessage (response SipMethod_INVITE code) = Some MESSAGE_2XX"
  "200 \<le> code \<Longrightarrow> code < 300 \<Longrightarrow> TranslateMessage (response SipMethod_BYE code) = Some MESSAGE_2XX"
  "300 \<le> code \<Longrightarrow> TranslateMessage (response SipMethod_INVITE code) = Some MESSAGE_NON2XX"
  by (simp_all add: TranslateMessage_def request_def response_def SipMethod_of_int_def SipMethod_Equals_def
      Is1XX_def IsFinalSuccess_def)

lemma response_to_cancelling_examples [simp]:
  "\<not> response_to_cancelling (request n) s"
  "\<not> response_to_cancelling (response SipMethod_INVITE code) s"
  "response_to_cancelling (response SipMethod_BYE code) s \<longleftrightarrow> s \<noteq> STATE_BYE_SENT \<and> s \<noteq> STATE_BYE_RECEIVED"
  by (simp_all add: response_to_cancelling_def request_def response_def SipMethod_of_int_def SipMethod_Equals_def)

end
