(* ===== verification/Call_Properties.thy ===== *)
theory Call_Properties
  imports Call_Peers
begin

text \<open>
  Properties of the call state: the life cycle it follows, what a closed call has exchanged, the
  agreement of the two ends, and where it is lost.
\<close>

text \<open>C23: The call state refines the life cycle of a call. In every reachable state, whatever message
  is sent or received, \<open>UpdateState\<close> answers true and the phase of the call either stays or makes a
  step of the life cycle (INVITE, final response, ACK, re-INVITE, BYE, response) by the kind of that
  message; \<open>STATE_INVALID\<close> is never entered, nor does the call rest in a state whose ACK the lower
  layer exchanges by itself.\<close>

theorem call_follows_lifecycle:
  assumes "call_reachable s"
  shows "call_rests s \<and> fst (UpdateState_call msg mode s) \<and>
    (phase_of (snd (UpdateState_call msg mode s)) = phase_of s \<or>
     (\<exists>m. TranslateMessage msg = Some m \<and> lifecycle (phase_of s) m (phase_of (snd (UpdateState_call msg mode s)))))"
proof -
  have "fst (UpdateState_call msg mode s)" by (cases rule: UpdateState_call_cases [of msg mode s]) simp_all
  then show ?thesis
    using call_reachable_rests [OF assms] UpdateState_call_lifecycle [of s msg mode] by blast
qed

theorem call_follows_lifecycle_witness:
  "call_rests STATE_INVITE_SENT \<and> fst (UpdateState_call (response SipMethod_INVITE 486) MODE_RECEIVED STATE_INVITE_SENT) \<and>
   (phase_of (snd (UpdateState_call (response SipMethod_INVITE 486) MODE_RECEIVED STATE_INVITE_SENT)) = phase_of STATE_INVITE_SENT \<or>
    (\<exists>m. TranslateMessage (response SipMethod_INVITE 486) = Some m \<and>
       lifecycle (phase_of STATE_INVITE_SENT) m
         (phase_of (snd (UpdateState_call (response SipMethod_INVITE 486) MODE_RECEIVED STATE_INVITE_SENT)))))"
proof (rule call_follows_lifecycle)
  have "snd (UpdateState_call (request SipMethod_INVITE) MODE_SENT STATE_IDLE) = STATE_INVITE_SENT" by code_simp
  then show "call_reachable STATE_INVITE_SENT" using call_update [OF call_start] by metis
qed

text \<open>C24: What a closed call has exchanged. Whatever sequence of messages a call has seen, if it is
  terminated then an INVITE, a 2xx response, a BYE and a 2xx response are among them in this order
  (and for each earlier phase, the first part of that sequence); and no message changes a terminated
  call.\<close>

theorem closed_call_history:
  "subseq (needed (phase_of (call_run ms))) (exchanged ms) \<and>
   (call_run ms = STATE_TERMINATED \<longrightarrow>
     subseq [MESSAGE_INVITE, MESSAGE_2XX, MESSAGE_BYE, MESSAGE_2XX] (exchanged ms) \<and>
     call_run (ms @ [(mode, msg)]) = STATE_TERMINATED)"
proof -
  have "call_sent m STATE_TERMINATED = STATE_TERMINATED" "call_received m STATE_TERMINATED = STATE_TERMINATED" for m
    by (simp_all add: call_sent_def call_received_def call_tables)
  then have "snd (UpdateState_call msg mode STATE_TERMINATED) = STATE_TERMINATED"
    by (cases rule: UpdateState_call_cases [of msg mode STATE_TERMINATED]) simp_all
  then show ?thesis using call_run_needed [of ms] by (auto simp: call_run_snoc)
qed

abbreviation short_call :: "(call_mode \<times> ISipMessage) list" where
  "short_call \<equiv> [(MODE_SENT, request SipMethod_INVITE), (MODE_RECEIVED, response SipMethod_INVITE 180),
     (MODE_RECEIVED, response SipMethod_INVITE 200), (MODE_SENT, request SipMethod_ACK),
     (MODE_RECEIVED, request SipMethod_BYE), (MODE_SENT, response SipMethod_BYE 200)]"

theorem closed_call_history_witness:
  "call_run short_call = STATE_TERMINATED \<and>
   subseq [MESSAGE_INVITE, MESSAGE_2XX, MESSAGE_BYE, MESSAGE_2XX] (exchanged short_call) \<and>
   call_run (short_call @ [(MODE_SENT, request SipMethod_INVITE)]) = STATE_TERMINATED"
proof -
  have "call_run short_call = STATE_TERMINATED" by code_simp
  then show ?thesis using closed_call_history [of short_call MODE_SENT "request SipMethod_INVITE"] by blast
qed





end
