(* ===== verification/Sdp_OaState.thy ===== *)
theory Sdp_OaState
  imports Core_Message
begin

text \<open>
  The offer/answer state of a session (\<open>engine/core/SdpOaState.cpp\<close>): who has offered a session
  description and whether it has been answered (RFC 3264, RFC 6337), by two tables for sent and
  received messages, with the views of the description it keeps. A view is an opaque value of type
  \<open>'v\<close>: its negotiation (\<open>SessionParameter\<close>) is not modelled, so \<open>HandleOfferAnswer\<close> is only its part
  before the negotiation, and raising the session version is an argument. \<open>oa_crash\<close> is not a member of
  the class: it records that a null view was read.
\<close>

subsection \<open>States and tables\<close>

datatype oa_state = STATE_IDLE | STATE_OFFER_SENT | STATE_OFFER_RECEIVED | STATE_ESTABLISHED
  | STATE_OFFER_CHANGE_SENT | STATE_OFFER_CHANGE_RECEIVED

datatype oa_trigger = TRIGGER_INVITE | TRIGGER_ACK | TRIGGER_PRACK | TRIGGER_UPDATE | TRIGGER_SUCCESS_RESP
  | TRIGGER_FAILURE_RESP | TRIGGER_RPR | TRIGGER_PROVISIONAL_RESP | TRIGGER_CANCEL | TRIGGER_BYE

datatype oa_mode = MODE_IDLE | MODE_OFFERER | MODE_ANSWERER

datatype oa_flow = MESSAGE_SENT | MESSAGE_RECEIVED

datatype offer_type = OFFER_INVALID | OFFER_NEW | OFFER_REFRESH | OFFER_CHANGE | OFFER_MAX

text \<open>A row of a table: the next state for each trigger in its order, \<open>None\<close> for \<open>STATE_INVALID\<close>.\<close>

fun oa_row :: "oa_state option list \<Rightarrow> oa_trigger \<Rightarrow> oa_state option" where
  "oa_row [invite, ack, prack, update, success, failure, rpr, provisional, cancel, bye] nTrigger =
     (case nTrigger of TRIGGER_INVITE \<Rightarrow> invite | TRIGGER_ACK \<Rightarrow> ack | TRIGGER_PRACK \<Rightarrow> prack
      | TRIGGER_UPDATE \<Rightarrow> update | TRIGGER_SUCCESS_RESP \<Rightarrow> success | TRIGGER_FAILURE_RESP \<Rightarrow> failure
      | TRIGGER_RPR \<Rightarrow> rpr | TRIGGER_PROVISIONAL_RESP \<Rightarrow> provisional | TRIGGER_CANCEL \<Rightarrow> cancel
      | TRIGGER_BYE \<Rightarrow> bye)"
| "oa_row _ nTrigger = None"

fun STATE_SENT :: "oa_state \<Rightarrow> oa_trigger \<Rightarrow> oa_state option" where
  "STATE_SENT STATE_IDLE = oa_row
    [Some STATE_OFFER_SENT, Some STATE_IDLE, Some STATE_OFFER_SENT, Some STATE_OFFER_SENT,
     Some STATE_OFFER_SENT, Some STATE_IDLE, Some STATE_OFFER_SENT, Some STATE_OFFER_SENT,
     Some STATE_IDLE, Some STATE_IDLE]"
| "STATE_SENT STATE_OFFER_SENT = oa_row
    [None, None, None, None, Some STATE_OFFER_SENT, Some STATE_OFFER_SENT, None, None,
     Some STATE_OFFER_SENT, Some STATE_OFFER_SENT]"
| "STATE_SENT STATE_OFFER_RECEIVED = oa_row
    [None, Some STATE_ESTABLISHED, Some STATE_ESTABLISHED, None, Some STATE_ESTABLISHED,
     Some STATE_IDLE, Some STATE_ESTABLISHED, Some STATE_ESTABLISHED, Some STATE_OFFER_RECEIVED,
     Some STATE_OFFER_RECEIVED]"
| "STATE_SENT STATE_ESTABLISHED = oa_row
    [Some STATE_OFFER_CHANGE_SENT, Some STATE_ESTABLISHED, Some STATE_OFFER_CHANGE_SENT,
     Some STATE_OFFER_CHANGE_SENT, Some STATE_OFFER_CHANGE_SENT, Some STATE_ESTABLISHED,
     Some STATE_OFFER_CHANGE_SENT, Some STATE_OFFER_CHANGE_SENT, Some STATE_ESTABLISHED,
     Some STATE_ESTABLISHED]"
| "STATE_SENT STATE_OFFER_CHANGE_SENT = oa_row
    [None, None, None, None, Some STATE_OFFER_CHANGE_SENT, None, Some STATE_OFFER_CHANGE_SENT,
     None, Some STATE_OFFER_CHANGE_SENT, Some STATE_OFFER_CHANGE_SENT]"
| "STATE_SENT STATE_OFFER_CHANGE_RECEIVED = oa_row
    [None, Some STATE_ESTABLISHED, Some STATE_ESTABLISHED, None, Some STATE_ESTABLISHED,
     Some STATE_ESTABLISHED, Some STATE_ESTABLISHED, Some STATE_ESTABLISHED,
     Some STATE_OFFER_CHANGE_RECEIVED, Some STATE_OFFER_CHANGE_RECEIVED]"

fun STATE_RECEIVED :: "oa_state \<Rightarrow> oa_trigger \<Rightarrow> oa_state option" where
  "STATE_RECEIVED STATE_IDLE = oa_row
    [Some STATE_OFFER_RECEIVED, None, Some STATE_OFFER_RECEIVED, Some STATE_OFFER_RECEIVED,
     Some STATE_OFFER_RECEIVED, Some STATE_IDLE, Some STATE_OFFER_RECEIVED,
     Some STATE_OFFER_RECEIVED, None, None]"
| "STATE_RECEIVED STATE_OFFER_SENT = oa_row
    [None, Some STATE_ESTABLISHED, Some STATE_ESTABLISHED, None, Some STATE_ESTABLISHED,
     Some STATE_IDLE, Some STATE_ESTABLISHED, Some STATE_ESTABLISHED, Some STATE_OFFER_SENT,
     Some STATE_OFFER_SENT]"
| "STATE_RECEIVED STATE_OFFER_RECEIVED = oa_row
    [None, None, Some STATE_OFFER_RECEIVED, None, Some STATE_OFFER_RECEIVED,
     Some STATE_OFFER_RECEIVED, Some STATE_OFFER_RECEIVED, Some STATE_OFFER_RECEIVED,
     Some STATE_OFFER_RECEIVED, Some STATE_OFFER_RECEIVED]"
| "STATE_RECEIVED STATE_ESTABLISHED = oa_row
    [Some STATE_OFFER_CHANGE_RECEIVED, Some STATE_ESTABLISHED, Some STATE_OFFER_CHANGE_RECEIVED,
     Some STATE_OFFER_CHANGE_RECEIVED, Some STATE_OFFER_CHANGE_RECEIVED, Some STATE_ESTABLISHED,
     Some STATE_OFFER_CHANGE_RECEIVED, Some STATE_OFFER_CHANGE_RECEIVED, Some STATE_ESTABLISHED,
     Some STATE_ESTABLISHED]"
| "STATE_RECEIVED STATE_OFFER_CHANGE_SENT = oa_row
    [None, Some STATE_ESTABLISHED, Some STATE_ESTABLISHED, None, Some STATE_ESTABLISHED,
     Some STATE_ESTABLISHED, Some STATE_ESTABLISHED, Some STATE_ESTABLISHED,
     Some STATE_OFFER_CHANGE_SENT, Some STATE_OFFER_CHANGE_SENT]"
| "STATE_RECEIVED STATE_OFFER_CHANGE_RECEIVED = oa_row
    [None, None, Some STATE_OFFER_CHANGE_RECEIVED, None, Some STATE_OFFER_CHANGE_RECEIVED,
     Some STATE_OFFER_CHANGE_RECEIVED, Some STATE_OFFER_CHANGE_RECEIVED,
     Some STATE_OFFER_CHANGE_RECEIVED, Some STATE_OFFER_CHANGE_RECEIVED,
     Some STATE_OFFER_CHANGE_RECEIVED]"

record 'v SdpOaState =
  oa_nState :: oa_state
  oa_nOldState :: oa_state
  oa_nMode :: oa_mode
  oa_bStateChanged :: bool
  oa_bOfferProgress :: bool
  oa_bProvisionalRespWithSdp :: bool
  oa_bSdpVersionCheck :: bool
  oa_bAlwaysIncreaseSdpVersion :: bool
  oa_pLastOfferMade :: "'v option"
  oa_pCurrentView :: "'v option"
  oa_pPeerView :: "'v option"
  oa_pProposalView :: "'v option"
  oa_pRefusedView :: "'v option"
  oa_Capabilities :: 'v
  oa_crash :: bool

definition SdpOaState_init :: "bool \<Rightarrow> bool \<Rightarrow> 'v \<Rightarrow> 'v SdpOaState" where
  "SdpOaState_init bSdpVersionCheck bAlwaysIncreaseSdpVersion noCapabilities =
     \<lparr>oa_nState = STATE_IDLE, oa_nOldState = STATE_IDLE, oa_nMode = MODE_IDLE, oa_bStateChanged = False,
      oa_bOfferProgress = False, oa_bProvisionalRespWithSdp = False, oa_bSdpVersionCheck = bSdpVersionCheck,
      oa_bAlwaysIncreaseSdpVersion = bAlwaysIncreaseSdpVersion, oa_pLastOfferMade = None,
      oa_pCurrentView = None, oa_pPeerView = None, oa_pProposalView = None, oa_pRefusedView = None,
      oa_Capabilities = noCapabilities, oa_crash = False\<rparr>"

subsection \<open>The state update\<close>

definition SetCapabilities :: "'v SdpOaState \<Rightarrow> 'v SdpOaState" where
  "SetCapabilities s = (case oa_pProposalView s of None \<Rightarrow> s | Some v \<Rightarrow> s\<lparr>oa_Capabilities := v\<rparr>)"

text \<open>
  The trigger of a message, and the flag of a provisional response with a description after it;
  \<open>None\<close> where the code returns early.
\<close>

definition oa_request_trigger :: "SipMethod \<Rightarrow> oa_trigger option" where
  "oa_request_trigger objMethod =
     (if m_nMethod objMethod = SipMethod_INVITE then Some TRIGGER_INVITE
      else if m_nMethod objMethod = SipMethod_ACK then Some TRIGGER_ACK
      else if m_nMethod objMethod = SipMethod_PRACK then Some TRIGGER_PRACK
      else if m_nMethod objMethod = SipMethod_UPDATE then Some TRIGGER_UPDATE
      else None)"

definition oa_response_trigger ::
    "ISipMessage \<Rightarrow> bool \<Rightarrow> oa_state \<Rightarrow> bool \<Rightarrow> oa_trigger option \<times> bool" where
  "oa_response_trigger piSipMsg bAllowOaForNonRpr nOldState bProvisionalRespWithSdp =
     (let nStatusCode = GetStatusCode piSipMsg;
          bInvite = SipMethod_Equals (GetMethod piSipMsg) SipMethod_INVITE
      in if nStatusCode = 100 then (None, bProvisionalRespWithSdp)
         else if IsProvisional nStatusCode then
           (let bIsRpr = IsMessageRpr piSipMsg
            in if nOldState = STATE_ESTABLISHED \<and> bProvisionalRespWithSdp \<and> \<not> bIsRpr
               then (None, bProvisionalRespWithSdp)
               else (Some (if bIsRpr then TRIGGER_RPR else TRIGGER_PROVISIONAL_RESP), bProvisionalRespWithSdp))
         else if IsFinalSuccess nStatusCode then
           (if nOldState = STATE_ESTABLISHED \<and> bProvisionalRespWithSdp \<and> bInvite
            then (if \<not> bAllowOaForNonRpr then None else Some TRIGGER_SUCCESS_RESP, False)
            else (Some TRIGGER_SUCCESS_RESP, bProvisionalRespWithSdp))
         else (Some TRIGGER_FAILURE_RESP, bProvisionalRespWithSdp \<and> \<not> bInvite))"

definition oa_trigger_of :: "ISipMessage \<Rightarrow> bool \<Rightarrow> 'v SdpOaState \<Rightarrow> oa_trigger option \<times> bool" where
  "oa_trigger_of piSipMsg bAllowOaForNonRpr s =
     (case oa_request_trigger (GetMethod piSipMsg) of
        None \<Rightarrow> (None, oa_bProvisionalRespWithSdp s)
      | Some nTrigger \<Rightarrow>
          if GetType piSipMsg = TYPE_RESPONSE
          then oa_response_trigger piSipMsg bAllowOaForNonRpr (oa_nState s) (oa_bProvisionalRespWithSdp s)
          else (Some nTrigger, oa_bProvisionalRespWithSdp s))"

text \<open>The messages that make no transition although they have a trigger.\<close>

definition oa_ignored :: "ISipMessage \<Rightarrow> oa_flow \<Rightarrow> bool \<Rightarrow> bool \<Rightarrow> oa_trigger \<Rightarrow> bool" where
  "oa_ignored piSipMsg nMessageFlow bIsCallEstablished bAllowOaForNonRpr nTrigger \<longleftrightarrow>
     nTrigger = TRIGGER_PROVISIONAL_RESP \<and> \<not> bAllowOaForNonRpr \<or>
     GetSdpBodyPart piSipMsg = None \<and> nTrigger \<noteq> TRIGGER_FAILURE_RESP \<or>
     nMessageFlow = MESSAGE_RECEIVED \<and> nTrigger = TRIGGER_FAILURE_RESP \<and>
       \<not> SipMethod_Equals (GetMethod piSipMsg) SipMethod_INVITE \<and> GetStatusCode piSipMsg \<in> {401, 407} \<and>
       \<not> (bIsCallEstablished \<and> SipMethod_Equals (GetMethod piSipMsg) SipMethod_UPDATE)"

definition oa_changed :: "oa_state \<Rightarrow> oa_trigger \<Rightarrow> 'v SdpOaState \<Rightarrow> 'v SdpOaState" where
  "oa_changed nOldState nTrigger s =
     (let s = (if nTrigger \<in> {TRIGGER_RPR, TRIGGER_PROVISIONAL_RESP} \<and> oa_bStateChanged s
               then s\<lparr>oa_bProvisionalRespWithSdp := True\<rparr> else s)
      in if oa_bStateChanged s then s\<lparr>oa_nOldState := nOldState\<rparr> else s)"

definition oa_sent :: "oa_trigger \<Rightarrow> 'v SdpOaState \<Rightarrow> bool \<times> 'v SdpOaState" where
  "oa_sent nTrigger s =
     (let nOldState = oa_nState s
      in case STATE_SENT nOldState nTrigger of
           None \<Rightarrow> (False, s)
         | Some nUpdateState \<Rightarrow>
             (let s = s\<lparr>oa_nState := nUpdateState\<rparr>;
                  s = (if nUpdateState \<noteq> nOldState then s\<lparr>oa_bStateChanged := True\<rparr> else s);
                  s = (if nUpdateState \<in> {STATE_OFFER_SENT, STATE_OFFER_CHANGE_SENT}
                       then s\<lparr>oa_nMode := MODE_OFFERER\<rparr> else s);
                  s = (if nUpdateState = STATE_OFFER_SENT \<or> nOldState = STATE_OFFER_RECEIVED
                       then SetCapabilities s else s)
              in (True, oa_changed nOldState nTrigger s)))"

definition oa_received :: "ISipMessage \<Rightarrow> oa_trigger \<Rightarrow> 'v SdpOaState \<Rightarrow> bool \<times> 'v SdpOaState" where
  "oa_received piSipMsg nTrigger s =
     (let nOldState = oa_nState s
      in case STATE_RECEIVED nOldState nTrigger of
           None \<Rightarrow> (False, s)
         | Some nUpdateState \<Rightarrow>
             if SipMethod_Equals (GetMethod piSipMsg) SipMethod_UPDATE \<and> nTrigger = TRIGGER_SUCCESS_RESP \<and>
               nUpdateState = STATE_OFFER_CHANGE_RECEIVED
             then (True, s)
             else
               (let s = s\<lparr>oa_nState := nUpdateState\<rparr>;
                    s = (if nUpdateState \<noteq> nOldState \<and> GetSdpBodyPart piSipMsg \<noteq> None
                         then s\<lparr>oa_bStateChanged := True\<rparr> else s);
                    s = (if nUpdateState \<in> {STATE_OFFER_RECEIVED, STATE_OFFER_CHANGE_RECEIVED}
                         then s\<lparr>oa_nMode := MODE_ANSWERER\<rparr> else s)
                in (True, oa_changed nOldState nTrigger s)))"

definition UpdateState_oa ::
    "ISipMessage \<Rightarrow> oa_flow \<Rightarrow> bool \<Rightarrow> bool \<Rightarrow> 'v SdpOaState \<Rightarrow> bool \<times> 'v SdpOaState" where
  "UpdateState_oa piSipMsg nMessageFlow bIsCallEstablished bAllowOaForNonRpr s =
     (let s = (if nMessageFlow = MESSAGE_SENT then s\<lparr>oa_bOfferProgress := False\<rparr> else s);
          s = s\<lparr>oa_bStateChanged := False\<rparr>;
          (trigger, bProvisionalRespWithSdp) = oa_trigger_of piSipMsg bAllowOaForNonRpr s;
          s = s\<lparr>oa_bProvisionalRespWithSdp := bProvisionalRespWithSdp\<rparr>
      in case trigger of
           None \<Rightarrow> (True, s)
         | Some nTrigger \<Rightarrow>
             if oa_ignored piSipMsg nMessageFlow bIsCallEstablished bAllowOaForNonRpr nTrigger then (True, s)
             else if nMessageFlow = MESSAGE_SENT then oa_sent nTrigger s
             else oa_received piSipMsg nTrigger s)"

definition UpdateStateOnTransactionCompleted :: "ISipMessage \<Rightarrow> 'v SdpOaState \<Rightarrow> 'v SdpOaState" where
  "UpdateStateOnTransactionCompleted piSipMsg s =
     (if SipMethod_Equals (GetMethod piSipMsg) SipMethod_INVITE \<and> IsFinal (GetStatusCode piSipMsg)
      then s\<lparr>oa_bProvisionalRespWithSdp := False\<rparr> else s)"

subsection \<open>Views\<close>

definition AbortProposal :: "'v SdpOaState \<Rightarrow> 'v SdpOaState" where
  "AbortProposal s =
     (if oa_pProposalView s = None then s
      else s\<lparr>oa_pProposalView := None, oa_nMode := MODE_IDLE, oa_bOfferProgress := False\<rparr>)"

text \<open>\<open>inc\<close> raises the session version of a view; reading a null view is undefined behaviour.\<close>

definition IncreaseSessionVersion :: "('v \<Rightarrow> 'v) \<Rightarrow> 'v SdpOaState \<Rightarrow> 'v SdpOaState" where
  "IncreaseSessionVersion inc s =
     (case oa_pCurrentView s of
        None \<Rightarrow> s\<lparr>oa_crash := True\<rparr>
      | Some v \<Rightarrow> s\<lparr>oa_pCurrentView := Some (inc v), oa_Capabilities := inc (oa_Capabilities s),
                   oa_pLastOfferMade := map_option inc (oa_pLastOfferMade s)\<rparr>)"

definition InitiateOffer :: "('v \<Rightarrow> 'v) \<Rightarrow> offer_type \<Rightarrow> 'v SdpOaState \<Rightarrow> bool \<times> 'v SdpOaState" where
  "InitiateOffer inc nType s =
     (if nType = OFFER_INVALID \<or> nType = OFFER_MAX then (False, s)
      else if oa_nState s \<noteq> STATE_IDLE \<and> oa_nState s \<noteq> STATE_ESTABLISHED then (False, s)
      else
        (let (offer, s) =
               (if nType = OFFER_NEW then (Some (oa_Capabilities s), s)
                else
                  (case oa_pCurrentView s of
                     None \<Rightarrow> (None, s\<lparr>oa_crash := True\<rparr>)
                   | Some v \<Rightarrow>
                       if nType = OFFER_CHANGE
                       then (Some (inc v), if oa_bAlwaysIncreaseSdpVersion s then IncreaseSessionVersion inc s else s)
                       else (Some v, s)))
         in (True, s\<lparr>oa_pProposalView := offer, oa_nMode := MODE_OFFERER, oa_bOfferProgress := True\<rparr>)))"

datatype oa_result = RESULT_SUCCESS | RESULT_ERROR | RESULT_INVALID_STATE | RESULT_ALREADY_EXIST | RESULT_NOT_FOUND

definition CreateProposalView :: "('v \<Rightarrow> 'v) \<Rightarrow> 'v SdpOaState \<Rightarrow> oa_result \<times> 'v SdpOaState" where
  "CreateProposalView inc s =
     (if oa_nState s \<notin> {STATE_IDLE, STATE_OFFER_RECEIVED, STATE_ESTABLISHED, STATE_OFFER_CHANGE_RECEIVED}
      then (RESULT_INVALID_STATE, s)
      else if oa_pProposalView s \<noteq> None then (RESULT_ALREADY_EXIST, s)
      else (let (b, s) = InitiateOffer inc OFFER_CHANGE s in (if b then RESULT_SUCCESS else RESULT_ERROR, s)))"

definition GetSessionCurrentView :: "'v SdpOaState \<Rightarrow> oa_result \<times> 'v option" where
  "GetSessionCurrentView s =
     (if oa_nState s \<noteq> STATE_ESTABLISHED then (RESULT_INVALID_STATE, None)
      else if oa_pCurrentView s = None then (RESULT_ERROR, None)
      else (RESULT_SUCCESS, oa_pCurrentView s))"

definition GetSessionPeerView :: "'v SdpOaState \<Rightarrow> oa_result \<times> 'v option" where
  "GetSessionPeerView s = (if oa_pPeerView s = None then (RESULT_ERROR, None) else (RESULT_SUCCESS, oa_pPeerView s))"

definition GetSessionProposalView :: "'v SdpOaState \<Rightarrow> oa_result \<times> 'v option" where
  "GetSessionProposalView s =
     (if oa_pProposalView s = None then (RESULT_ERROR, None) else (RESULT_SUCCESS, oa_pProposalView s))"

text \<open>\<open>toSdp\<close> writes a view as text.\<close>

definition GetSdp :: "('v \<Rightarrow> string) \<Rightarrow> 'v SdpOaState \<Rightarrow> string option" where
  "GetSdp toSdp s =
     (case oa_pProposalView s of
        None \<Rightarrow> None
      | Some v \<Rightarrow> if oa_nState s \<in> {STATE_OFFER_SENT, STATE_OFFER_CHANGE_SENT} then None else Some (toSdp v))"

definition CreateRefusedView :: "'v SdpOaState \<Rightarrow> 'v SdpOaState" where
  "CreateRefusedView s =
     (if oa_pRefusedView s \<noteq> None then s
      else if oa_pCurrentView s \<noteq> None then s\<lparr>oa_pRefusedView := oa_pCurrentView s\<rparr>
      else if oa_pProposalView s \<noteq> None then s\<lparr>oa_pRefusedView := oa_pProposalView s\<rparr>
      else if oa_pPeerView s \<noteq> None then s\<lparr>oa_pRefusedView := oa_pPeerView s\<rparr>
      else s\<lparr>oa_pRefusedView := Some (oa_Capabilities s)\<rparr>)"

definition DestroyRefusedView :: "'v SdpOaState \<Rightarrow> 'v SdpOaState" where
  "DestroyRefusedView s = s\<lparr>oa_pRefusedView := None\<rparr>"

text \<open>\<open>updated last proposal\<close> is the last offer with the direction and remote version of the proposal.\<close>

definition CompleteExchange :: "('v \<Rightarrow> 'v \<Rightarrow> 'v) \<Rightarrow> 'v SdpOaState \<Rightarrow> 'v SdpOaState" where
  "CompleteExchange updated s =
     (let s = (case oa_pProposalView s of
                 None \<Rightarrow> s
               | Some v \<Rightarrow>
                   if oa_nState s = STATE_ESTABLISHED then
                     s\<lparr>oa_pCurrentView := Some v,
                       oa_pLastOfferMade :=
                         (if oa_nMode s = MODE_ANSWERER then map_option (\<lambda>last. updated last v) (oa_pLastOfferMade s)
                          else oa_pLastOfferMade s)\<rparr>
                   else s)
      in s\<lparr>oa_pProposalView := None, oa_nMode := MODE_IDLE, oa_bStateChanged := False\<rparr>)"

definition RestoreState :: "'v SdpOaState \<Rightarrow> 'v SdpOaState" where
  "RestoreState s =
     s\<lparr>oa_pProposalView := None, oa_nMode := MODE_IDLE, oa_bStateChanged := False, oa_bOfferProgress := False,
       oa_nState :=
         (case oa_nState s of STATE_OFFER_SENT \<Rightarrow> STATE_IDLE | STATE_OFFER_RECEIVED \<Rightarrow> STATE_IDLE
          | STATE_OFFER_CHANGE_SENT \<Rightarrow> STATE_ESTABLISHED | STATE_OFFER_CHANGE_RECEIVED \<Rightarrow> STATE_ESTABLISHED
          | nState \<Rightarrow> nState)\<rparr>"

subsection \<open>A malformed description\<close>

text \<open>What \<open>HandleOfferAnswer\<close> does with a description that \<open>decode\<close> refuses, and when it gets that far.\<close>

datatype offer_answer_result = OA_NOT_CHANGED | OA_FAILURE | OA_NEGOTIATE

definition rollback_malformed :: "'v SdpOaState \<Rightarrow> 'v SdpOaState" where
  "rollback_malformed s =
     (if oa_nState s = STATE_ESTABLISHED \<and> oa_nOldState s \<in> {STATE_OFFER_SENT, STATE_OFFER_CHANGE_SENT} then
        s\<lparr>oa_nState := oa_nOldState s,
          oa_nOldState := (if oa_nOldState s = STATE_OFFER_SENT then STATE_IDLE else STATE_ESTABLISHED)\<rparr>
      else if oa_nState s = STATE_OFFER_RECEIVED \<and> oa_nOldState s = STATE_IDLE \<or>
        oa_nState s = STATE_OFFER_CHANGE_RECEIVED \<and> oa_nOldState s = STATE_ESTABLISHED then
        s\<lparr>oa_nMode := MODE_IDLE, oa_bStateChanged := False, oa_nState := oa_nOldState s\<rparr>
      else s)"

definition HandleOfferAnswer_head ::
    "(string \<Rightarrow> bool) \<Rightarrow> ISipMessage \<Rightarrow> 'v SdpOaState \<Rightarrow> offer_answer_result \<times> 'v SdpOaState" where
  "HandleOfferAnswer_head decode piSipMsg s =
     (if \<not> oa_bStateChanged s then (OA_NOT_CHANGED, s)
      else case GetSdpBodyPart piSipMsg of
             None \<Rightarrow> (OA_NOT_CHANGED, s)
           | Some strSdp \<Rightarrow>
               if \<not> decode strSdp then (OA_FAILURE, rollback_malformed s)
               else if oa_nState s \<in> {STATE_ESTABLISHED, STATE_OFFER_RECEIVED, STATE_OFFER_CHANGE_RECEIVED}
               then (OA_NEGOTIATE, s) else (OA_NOT_CHANGED, s))"

end
