(* ===== verification/Sdp_OaPeers.thy ===== *)
theory Sdp_OaPeers
  imports Sdp_OaState
begin

text \<open>
  The two ends of an offer/answer exchange: a message is sent by one and received by the other, each
  with a \<open>SdpOaState\<close> of its own. The states of the two ends mirror each other.
\<close>

fun oa_mirror :: "oa_state \<Rightarrow> oa_state" where
  "oa_mirror STATE_IDLE = STATE_IDLE"
| "oa_mirror STATE_OFFER_SENT = STATE_OFFER_RECEIVED"
| "oa_mirror STATE_OFFER_RECEIVED = STATE_OFFER_SENT"
| "oa_mirror STATE_ESTABLISHED = STATE_ESTABLISHED"
| "oa_mirror STATE_OFFER_CHANGE_SENT = STATE_OFFER_CHANGE_RECEIVED"
| "oa_mirror STATE_OFFER_CHANGE_RECEIVED = STATE_OFFER_CHANGE_SENT"

lemma oa_mirror_twice [simp]: "oa_mirror (oa_mirror st) = st"
  by (cases st) simp_all

lemma oa_mirror_established [simp]: "oa_mirror st = STATE_ESTABLISHED \<longleftrightarrow> st = STATE_ESTABLISHED"
  by (cases st) simp_all

definition next_state :: "oa_state \<Rightarrow> oa_state option \<Rightarrow> oa_state" where
  "next_state st entry = (case entry of None \<Rightarrow> st | Some st' \<Rightarrow> st')"

text \<open>The two tables describe the two ends of the same exchange.\<close>

lemma tables_mirror:
  "next_state (oa_mirror st) (STATE_RECEIVED (oa_mirror st) tr) = oa_mirror (next_state st (STATE_SENT st tr))"
  by (cases st; cases tr) (simp_all add: next_state_def)

definition oa_agree :: "'v SdpOaState \<Rightarrow> 'w SdpOaState \<Rightarrow> bool" where
  "oa_agree s t \<longleftrightarrow>
     oa_nState t = oa_mirror (oa_nState s) \<and> oa_bProvisionalRespWithSdp t = oa_bProvisionalRespWithSdp s"

text \<open>
  The messages that break the symmetry: a 401 or 407 to a PRACK or an early UPDATE, which the
  receiver expects to be resubmitted, and a 2xx to an UPDATE with a description that answers nothing.
\<close>

definition oa_regular :: "ISipMessage \<Rightarrow> bool \<Rightarrow> oa_state \<Rightarrow> bool" where
  "oa_regular msg bIsCallEstablished st \<longleftrightarrow>
     \<not> (GetType msg = TYPE_RESPONSE \<and> GetStatusCode msg \<in> {401, 407} \<and> m_nMethod (GetMethod msg) \<noteq> SipMethod_INVITE \<and>
        \<not> (bIsCallEstablished \<and> m_nMethod (GetMethod msg) = SipMethod_UPDATE)) \<and>
     \<not> (GetType msg = TYPE_RESPONSE \<and> IsFinalSuccess (GetStatusCode msg) \<and>
        m_nMethod (GetMethod msg) = SipMethod_UPDATE \<and> GetSdpBodyPart msg \<noteq> None \<and> st = STATE_ESTABLISHED)"

lemma oa_sent_effect:
  "oa_nState (snd (oa_sent tr s)) = next_state (oa_nState s) (STATE_SENT (oa_nState s) tr)"
  "\<not> oa_bStateChanged s \<Longrightarrow> oa_bProvisionalRespWithSdp (snd (oa_sent tr s)) \<longleftrightarrow>
     oa_bProvisionalRespWithSdp s \<or>
     tr \<in> {TRIGGER_RPR, TRIGGER_PROVISIONAL_RESP} \<and> next_state (oa_nState s) (STATE_SENT (oa_nState s) tr) \<noteq> oa_nState s"
  by (auto simp: oa_sent_def oa_changed_def SetCapabilities_def next_state_def Let_def split: option.split)

lemma oa_received_effect:
  assumes "\<not> (m_nMethod (GetMethod msg) = SipMethod_UPDATE \<and> tr = TRIGGER_SUCCESS_RESP \<and> oa_nState s = STATE_ESTABLISHED)"
  shows "oa_nState (snd (oa_received msg tr s)) = next_state (oa_nState s) (STATE_RECEIVED (oa_nState s) tr)"
    and "\<not> oa_bStateChanged s \<Longrightarrow> GetSdpBodyPart msg \<noteq> None \<Longrightarrow> oa_bProvisionalRespWithSdp (snd (oa_received msg tr s)) \<longleftrightarrow>
      oa_bProvisionalRespWithSdp s \<or>
      tr \<in> {TRIGGER_RPR, TRIGGER_PROVISIONAL_RESP} \<and> next_state (oa_nState s) (STATE_RECEIVED (oa_nState s) tr) \<noteq> oa_nState s"
    and "\<not> oa_bStateChanged s \<Longrightarrow> tr = TRIGGER_FAILURE_RESP \<Longrightarrow>
      oa_bProvisionalRespWithSdp (snd (oa_received msg tr s)) = oa_bProvisionalRespWithSdp s"
proof -
  have stray: "STATE_RECEIVED st TRIGGER_SUCCESS_RESP = Some STATE_OFFER_CHANGE_RECEIVED \<Longrightarrow>
      st \<in> {STATE_ESTABLISHED, STATE_OFFER_CHANGE_RECEIVED}" for st
    by (cases st) simp_all
  show "oa_nState (snd (oa_received msg tr s)) = next_state (oa_nState s) (STATE_RECEIVED (oa_nState s) tr)"
    using assms stray [of "oa_nState s"]
    by (auto simp: oa_received_def oa_changed_def next_state_def Let_def SipMethod_Equals_def split: option.split)
  show "\<not> oa_bStateChanged s \<Longrightarrow> GetSdpBodyPart msg \<noteq> None \<Longrightarrow> oa_bProvisionalRespWithSdp (snd (oa_received msg tr s)) \<longleftrightarrow>
      oa_bProvisionalRespWithSdp s \<or>
      tr \<in> {TRIGGER_RPR, TRIGGER_PROVISIONAL_RESP} \<and> next_state (oa_nState s) (STATE_RECEIVED (oa_nState s) tr) \<noteq> oa_nState s"
    by (auto simp: oa_received_def oa_changed_def next_state_def Let_def split: option.split)
  show "\<not> oa_bStateChanged s \<Longrightarrow> tr = TRIGGER_FAILURE_RESP \<Longrightarrow>
      oa_bProvisionalRespWithSdp (snd (oa_received msg tr s)) = oa_bProvisionalRespWithSdp s"
    by (auto simp: oa_received_def oa_changed_def Let_def split: option.split)
qed

text \<open>Both ends read the same trigger, and the same flag, from a message.\<close>

lemma oa_trigger_cong:
  "oa_nState s' = oa_nState s \<Longrightarrow> oa_bProvisionalRespWithSdp s' = oa_bProvisionalRespWithSdp s \<Longrightarrow>
   oa_trigger_of msg allow s' = oa_trigger_of msg allow s"
  by (simp add: oa_trigger_of_def split: option.split)

lemma oa_trigger_mirror:
  assumes "oa_agree s t"
  shows "oa_trigger_of msg allow t = oa_trigger_of msg allow s"
  using assms
  by (cases "oa_request_trigger (GetMethod msg)") (simp_all add: oa_trigger_of_def oa_response_trigger_def oa_agree_def Let_def)

lemma oa_trigger_kinds:
  assumes "oa_trigger_of msg allow s = (Some tr, flag)"
  shows "tr = TRIGGER_FAILURE_RESP \<Longrightarrow> GetType msg = TYPE_RESPONSE"
    and "tr = TRIGGER_SUCCESS_RESP \<Longrightarrow> GetType msg = TYPE_RESPONSE \<and> IsFinalSuccess (GetStatusCode msg)"
  using assms
  by (auto simp: oa_trigger_of_def oa_response_trigger_def oa_request_trigger_def Let_def split: if_splits option.splits)

lemma oa_exchange_agrees:
  assumes "oa_agree s t" and "oa_regular msg est (oa_nState s)"
  shows "oa_agree (snd (UpdateState_oa msg MESSAGE_SENT est' allow s)) (snd (UpdateState_oa msg MESSAGE_RECEIVED est allow t))"
proof -
  obtain trigger flag where tr: "oa_trigger_of msg allow s = (trigger, flag)" by (cases "oa_trigger_of msg allow s")
  define s1 where "s1 = s\<lparr>oa_bOfferProgress := False, oa_bStateChanged := False, oa_bProvisionalRespWithSdp := flag\<rparr>"
  define t1 where "t1 = t\<lparr>oa_bStateChanged := False, oa_bProvisionalRespWithSdp := flag\<rparr>"
  have agree1: "oa_agree s1 t1" using assms(1) by (simp add: oa_agree_def s1_def t1_def)
  have same: "oa_trigger_of msg allow (s\<lparr>oa_bOfferProgress := False, oa_bStateChanged := False\<rparr>) = (trigger, flag)"
    "oa_trigger_of msg allow (t\<lparr>oa_bStateChanged := False\<rparr>) = (trigger, flag)"
    by (rule trans [OF oa_trigger_cong tr]; simp)
      (rule trans [OF oa_trigger_cong trans [OF oa_trigger_mirror [OF assms(1)] tr]]; simp)
  have sent: "UpdateState_oa msg MESSAGE_SENT est' allow s =
      (case trigger of None \<Rightarrow> (True, s1)
       | Some tr \<Rightarrow> if oa_ignored msg MESSAGE_SENT est' allow tr then (True, s1) else oa_sent tr s1)"
    by (simp add: UpdateState_oa_def same s1_def Let_def split: option.split)
  have received: "UpdateState_oa msg MESSAGE_RECEIVED est allow t =
      (case trigger of None \<Rightarrow> (True, t1)
       | Some tr \<Rightarrow> if oa_ignored msg MESSAGE_RECEIVED est allow tr then (True, t1) else oa_received msg tr t1)"
    by (simp add: UpdateState_oa_def same t1_def Let_def split: option.split)
  show ?thesis
  proof (cases trigger)
    case None
    then show ?thesis by (simp add: sent received agree1)
  next
    case (Some tr)
    note kinds = oa_trigger_kinds [OF tr [unfolded Some]]
    have ignored: "oa_ignored msg MESSAGE_RECEIVED est allow tr = oa_ignored msg MESSAGE_SENT est' allow tr"
      using assms(2) kinds(1) by (auto simp: oa_ignored_def oa_regular_def SipMethod_Equals_def)
    show ?thesis
    proof (cases "oa_ignored msg MESSAGE_SENT est' allow tr")
      case True
      then show ?thesis by (simp add: Some sent received agree1 ignored)
    next
      case False
      then have sdp: "GetSdpBodyPart msg \<noteq> None \<or> tr = TRIGGER_FAILURE_RESP" by (auto simp: oa_ignored_def)
      have st: "oa_nState t1 = oa_mirror (oa_nState s1)" "oa_nState s1 = oa_nState s"
        using agree1 by (auto simp: oa_agree_def s1_def)
      have regular: "\<not> (m_nMethod (GetMethod msg) = SipMethod_UPDATE \<and> tr = TRIGGER_SUCCESS_RESP \<and> oa_nState t1 = STATE_ESTABLISHED)"
        using assms(2) kinds(2) sdp st by (auto simp: oa_regular_def)
      have changed: "\<not> oa_bStateChanged s1" "\<not> oa_bStateChanged t1" by (simp_all add: s1_def t1_def)
      have mirror: "next_state (oa_nState t1) (STATE_RECEIVED (oa_nState t1) tr) =
          oa_mirror (next_state (oa_nState s1) (STATE_SENT (oa_nState s1) tr))"
        unfolding st(1) by (rule tables_mirror)
      have "oa_mirror x = oa_mirror y \<longleftrightarrow> x = y" for x y by (metis oa_mirror_twice)
      then have "oa_agree (snd (oa_sent tr s1)) (snd (oa_received msg tr t1))"
        using oa_sent_effect [where tr = tr and s = s1] oa_received_effect [OF regular] changed sdp agree1 mirror st(1)
        by (auto simp: oa_agree_def)
      then show ?thesis using False by (simp add: Some sent received ignored)
    qed
  qed
qed

subsection \<open>Sequences of exchanges\<close>

text \<open>
  Each step: whether the left end sends, the message, and whether the two calls are established.
  \<open>oa_regular_steps\<close> holds when every message is regular for the state of its sender.
\<close>

fun oa_step :: "bool \<Rightarrow> bool \<times> ISipMessage \<times> bool \<times> bool \<Rightarrow> 'v SdpOaState \<times> 'w SdpOaState \<Rightarrow> 'v SdpOaState \<times> 'w SdpOaState" where
  "oa_step allow (left, msg, estL, estR) (s, t) =
     (if left then (snd (UpdateState_oa msg MESSAGE_SENT estL allow s), snd (UpdateState_oa msg MESSAGE_RECEIVED estR allow t))
      else (snd (UpdateState_oa msg MESSAGE_RECEIVED estL allow s), snd (UpdateState_oa msg MESSAGE_SENT estR allow t)))"

fun oa_regular_steps :: "bool \<Rightarrow> (bool \<times> ISipMessage \<times> bool \<times> bool) list \<Rightarrow> 'v SdpOaState \<times> 'w SdpOaState \<Rightarrow> bool" where
  "oa_regular_steps allow [] st \<longleftrightarrow> True"
| "oa_regular_steps allow ((left, msg, estL, estR) # steps) (s, t) \<longleftrightarrow>
     (if left then oa_regular msg estR (oa_nState s) else oa_regular msg estL (oa_nState t)) \<and>
     oa_regular_steps allow steps (oa_step allow (left, msg, estL, estR) (s, t))"

lemma oa_agree_sym: "oa_agree s t \<longleftrightarrow> oa_agree t s"
  by (metis oa_agree_def oa_mirror_twice)

lemma oa_steps_agree:
  "oa_agree (fst st) (snd st) \<Longrightarrow> oa_regular_steps allow steps st \<Longrightarrow>
   oa_agree (fst (fold (oa_step allow) steps st)) (snd (fold (oa_step allow) steps st))"
proof (induction steps arbitrary: st)
  case (Cons x steps)
  obtain left msg estL estR where x: "x = (left, msg, estL, estR)" by (cases x)
  obtain s t where st: "st = (s, t)" by (cases st)
  have "oa_agree (fst (oa_step allow x st)) (snd (oa_step allow x st))"
  proof (cases left)
    case True
    then show ?thesis using Cons.prems oa_exchange_agrees [of s t msg estR estL allow] by (simp add: x st)
  next
    case False
    then show ?thesis
      using Cons.prems oa_exchange_agrees [of t s msg estL estR allow] by (simp add: x st oa_agree_sym [of s] oa_agree_sym [of "snd (UpdateState_oa msg MESSAGE_RECEIVED estL allow s)"])
  qed
  then show ?case using Cons.IH [of "oa_step allow x st"] Cons.prems(2) by (simp add: x st)
qed simp

subsection \<open>One offer at a time\<close>

text \<open>While its own offer is unanswered, an end cannot make another one, nor does it write one.\<close>

lemma no_second_offer:
  assumes "oa_nState s \<in> {STATE_OFFER_SENT, STATE_OFFER_CHANGE_SENT}"
    and "GetType msg = TYPE_REQUEST" and "GetSdpBodyPart msg \<noteq> None"
    and "m_nMethod (GetMethod msg) \<in> {SipMethod_INVITE, SipMethod_PRACK, SipMethod_UPDATE}"
  shows "\<not> fst (UpdateState_oa msg MESSAGE_SENT est allow s) \<and>
    oa_nState (snd (UpdateState_oa msg MESSAGE_SENT est allow s)) = oa_nState s \<and> GetSdp toSdp s = None"
  using assms
  by (auto simp: UpdateState_oa_def oa_trigger_of_def oa_request_trigger_def oa_ignored_def oa_sent_def GetSdp_def
      Let_def split: option.split)

subsection \<open>Malformed descriptions\<close>

lemma received_changes:
  assumes "oa_bStateChanged (snd (oa_received msg tr s))" and "\<not> oa_bStateChanged s" and "tr \<noteq> TRIGGER_FAILURE_RESP"
  shows "oa_nOldState (snd (oa_received msg tr s)) = oa_nState s"
    and "(oa_nState s, oa_nState (snd (oa_received msg tr s))) \<in>
      {(STATE_IDLE, STATE_OFFER_RECEIVED), (STATE_OFFER_SENT, STATE_ESTABLISHED),
       (STATE_ESTABLISHED, STATE_OFFER_CHANGE_RECEIVED), (STATE_OFFER_CHANGE_SENT, STATE_ESTABLISHED)}"
proof -
  have table: "STATE_RECEIVED st tr = Some st' \<Longrightarrow> st' \<noteq> st \<Longrightarrow> (st, st') \<in>
      {(STATE_IDLE, STATE_OFFER_RECEIVED), (STATE_OFFER_SENT, STATE_ESTABLISHED),
       (STATE_ESTABLISHED, STATE_OFFER_CHANGE_RECEIVED), (STATE_OFFER_CHANGE_SENT, STATE_ESTABLISHED)}" for st st'
    using assms(3) by (cases st; cases tr) auto
  obtain st' where st': "STATE_RECEIVED (oa_nState s) tr = Some st'"
    using assms(1,2) by (cases "STATE_RECEIVED (oa_nState s) tr") (auto simp: oa_received_def Let_def)
  moreover have "st' \<noteq> oa_nState s" "oa_nState (snd (oa_received msg tr s)) = st'"
    "oa_nOldState (snd (oa_received msg tr s)) = oa_nState s"
    using assms(1,2) st' by (auto simp: oa_received_def oa_changed_def Let_def split: if_splits)
  ultimately show "oa_nOldState (snd (oa_received msg tr s)) = oa_nState s"
    "(oa_nState s, oa_nState (snd (oa_received msg tr s))) \<in>
      {(STATE_IDLE, STATE_OFFER_RECEIVED), (STATE_OFFER_SENT, STATE_ESTABLISHED),
       (STATE_ESTABLISHED, STATE_OFFER_CHANGE_RECEIVED), (STATE_OFFER_CHANGE_SENT, STATE_ESTABLISHED)}"
    using table by simp_all
qed

lemma malformed_rolled_back:
  assumes "oa_bStateChanged (snd (UpdateState_oa msg MESSAGE_RECEIVED est allow s))"
    and "GetType msg = TYPE_RESPONSE \<longrightarrow> 100 \<le> GetStatusCode msg \<and> GetStatusCode msg < 300"
    and "GetSdpBodyPart msg = Some sdp" and "\<not> decode sdp"
  shows "fst (HandleOfferAnswer_head decode msg (snd (UpdateState_oa msg MESSAGE_RECEIVED est allow s))) = OA_FAILURE"
    and "oa_nState (snd (HandleOfferAnswer_head decode msg (snd (UpdateState_oa msg MESSAGE_RECEIVED est allow s)))) = oa_nState s"
proof -
  let ?s1 = "snd (UpdateState_oa msg MESSAGE_RECEIVED est allow s)"
  obtain trigger flag where tr: "oa_trigger_of msg allow (s\<lparr>oa_bStateChanged := False\<rparr>) = (trigger, flag)"
    by (cases "oa_trigger_of msg allow (s\<lparr>oa_bStateChanged := False\<rparr>)")
  define s0 where "s0 = s\<lparr>oa_bStateChanged := False, oa_bProvisionalRespWithSdp := flag\<rparr>"
  obtain t where t: "trigger = Some t" "?s1 = snd (oa_received msg t s0)"
    using assms(1) by (cases trigger) (auto simp: UpdateState_oa_def tr s0_def Let_def split: if_splits)
  have "t \<noteq> TRIGGER_FAILURE_RESP"
    using tr assms(2) unfolding t(1)
    by (auto simp: oa_trigger_of_def oa_response_trigger_def oa_request_trigger_def IsProvisional_def IsFinalSuccess_def
        Let_def split: if_splits option.splits)
  then have "oa_nOldState ?s1 = oa_nState s" "(oa_nState s, oa_nState ?s1) \<in>
      {(STATE_IDLE, STATE_OFFER_RECEIVED), (STATE_OFFER_SENT, STATE_ESTABLISHED),
       (STATE_ESTABLISHED, STATE_OFFER_CHANGE_RECEIVED), (STATE_OFFER_CHANGE_SENT, STATE_ESTABLISHED)}"
    using received_changes [of msg t s0] assms(1) unfolding t(2) by (auto simp: s0_def)
  then show "fst (HandleOfferAnswer_head decode msg ?s1) = OA_FAILURE"
    "oa_nState (snd (HandleOfferAnswer_head decode msg ?s1)) = oa_nState s"
    using assms(1,3,4) by (auto simp: HandleOfferAnswer_head_def rollback_malformed_def)
qed

text \<open>A proposal view that is created before any offer has been answered reads a null view.\<close>

lemma proposal_before_answer_crashes:
  assumes "oa_nState s = STATE_IDLE" and "oa_pProposalView s = None" and "oa_pCurrentView s = None"
  shows "oa_crash (snd (CreateProposalView inc s))"
  using assms by (simp add: CreateProposalView_def InitiateOffer_def Let_def)

end
