(* ===== verification/Offer_Properties.thy ===== *)
theory Offer_Properties
  imports Sdp_OaPeers
begin

text \<open>
  Properties of the offer/answer state: the agreement of the two ends and the treatment of malformed
  descriptions. In the witnesses a view is a number.
\<close>

abbreviation with_sdp :: "ISipMessage \<Rightarrow> ISipMessage" where
  "with_sdp msg \<equiv> msg\<lparr>GetSdpBodyPart := Some ''v=0''\<rparr>"

text \<open>C27: The two ends of an offer/answer exchange agree. Starting from new states, after any
  sequence of regular messages sent by one end and received by the other, the state of one end
  mirrors the other's: an offer sent is an offer received, and both are established at the same time.
  (Irregular are a 401 or 407 to a PRACK or an early UPDATE, and a 2xx to an UPDATE whose
  description answers nothing.) An end with an unanswered offer cannot send another one.\<close>

theorem offer_answer_ends_agree:
  fixes s :: "'v SdpOaState" and t :: "'w SdpOaState"
  assumes "oa_regular_steps allow steps (SdpOaState_init c i v, SdpOaState_init c' i' v')"
    and "fold (oa_step allow) steps (SdpOaState_init c i v, SdpOaState_init c' i' v') = (s, t)"
  shows "oa_nState t = oa_mirror (oa_nState s) \<and>
    (oa_nState s \<in> {STATE_OFFER_SENT, STATE_OFFER_CHANGE_SENT} \<and> GetType msg = TYPE_REQUEST \<and>
     GetSdpBodyPart msg \<noteq> None \<and> m_nMethod (GetMethod msg) \<in> {SipMethod_INVITE, SipMethod_PRACK, SipMethod_UPDATE} \<longrightarrow>
     \<not> fst (UpdateState_oa msg MESSAGE_SENT est allow s) \<and>
     oa_nState (snd (UpdateState_oa msg MESSAGE_SENT est allow s)) = oa_nState s \<and> GetSdp toSdp s = None)"
proof -
  have "oa_agree (SdpOaState_init c i v) (SdpOaState_init c' i' v')" by (simp add: oa_agree_def SdpOaState_init_def)
  then have "oa_agree s t" using oa_steps_agree [OF _ assms(1)] assms(2) by simp
  then show ?thesis using no_second_offer [of s msg est allow toSdp] by (auto simp: oa_agree_def)
qed

abbreviation some_steps :: "(bool \<times> ISipMessage \<times> bool \<times> bool) list" where
  "some_steps \<equiv> [(True, with_sdp (request SipMethod_INVITE), False, False),
     (False, with_sdp ((response SipMethod_INVITE 183)\<lparr>IsMessageRpr := True\<rparr>), False, False),
     (False, with_sdp (response SipMethod_INVITE 200), False, False),
     (False, with_sdp (request SipMethod_UPDATE), True, True)]"

theorem offer_answer_ends_agree_witness:
  "oa_nState (snd (fold (oa_step False) some_steps (SdpOaState_init True False (0::nat), SdpOaState_init True False (1::nat)))) =
     oa_mirror (oa_nState (fst (fold (oa_step False) some_steps (SdpOaState_init True False (0::nat), SdpOaState_init True False (1::nat)))))"
proof -
  define ends where "ends = fold (oa_step False) some_steps (SdpOaState_init True False (0::nat), SdpOaState_init True False (1::nat))"
  have "oa_regular_steps False some_steps (SdpOaState_init True False (0::nat), SdpOaState_init True False (1::nat))"
    by code_simp
  moreover have "fold (oa_step False) some_steps (SdpOaState_init True False (0::nat), SdpOaState_init True False (1::nat)) =
      (fst ends, snd ends)"
    by (simp only: ends_def prod.collapse)
  ultimately have "oa_nState (snd ends) = oa_mirror (oa_nState (fst ends))"
    by (rule offer_answer_ends_agree [THEN conjunct1])
  then show ?thesis by (simp only: ends_def)
qed

text \<open>C28: A malformed description leaves the offer/answer state as it was. When a received request,
  provisional or successful response has changed the state and its description cannot be decoded,
  \<open>HandleOfferAnswer\<close> fails and the state is the one before the message: an offer is as if it had not
  come, and an offer that was sent still waits for its answer.\<close>

theorem malformed_description_rolled_back:
  assumes "oa_bStateChanged (snd (UpdateState_oa msg MESSAGE_RECEIVED est allow s))"
    and "GetType msg = TYPE_RESPONSE \<longrightarrow> 100 \<le> GetStatusCode msg \<and> GetStatusCode msg < 300"
    and "GetSdpBodyPart msg = Some sdp" and "\<not> decode sdp"
  shows "fst (HandleOfferAnswer_head decode msg (snd (UpdateState_oa msg MESSAGE_RECEIVED est allow s))) = OA_FAILURE \<and>
    oa_nState (snd (HandleOfferAnswer_head decode msg (snd (UpdateState_oa msg MESSAGE_RECEIVED est allow s)))) = oa_nState s"
  by (intro conjI malformed_rolled_back [where sdp = sdp and decode = decode] assms)

theorem malformed_description_rolled_back_witness:
  "oa_nState (snd (HandleOfferAnswer_head (\<lambda>_. False) (with_sdp (response SipMethod_INVITE 200))
     (snd (UpdateState_oa (with_sdp (response SipMethod_INVITE 200)) MESSAGE_RECEIVED False False
       ((SdpOaState_init True False (0::nat))\<lparr>oa_nState := STATE_OFFER_SENT\<rparr>))))) = STATE_OFFER_SENT"
  using malformed_description_rolled_back [of "with_sdp (response SipMethod_INVITE 200)" False False
      "(SdpOaState_init True False (0::nat))\<lparr>oa_nState := STATE_OFFER_SENT\<rparr>" "''v=0''" "\<lambda>_. False"]
  by (simp add: response_def request_def SdpOaState_init_def UpdateState_oa_def oa_trigger_of_def oa_request_trigger_def
      oa_response_trigger_def oa_ignored_def oa_received_def oa_changed_def IsProvisional_def IsFinalSuccess_def
      SipMethod_of_int_def SipMethod_Equals_def Let_def)

end
