(* ===== verification/Ims_Map.thy ===== *)
theory Ims_Map
  imports Sip_String
begin

text \<open>
  The containers under the transaction pool: \<open>ImsSortedVector\<close> and \<open>ImsMap\<close> of
  \<open>platform/interface/util\<close>, a vector of key/value pairs kept in key order, and the string
  hash \<open>AString::GetHashCode\<close> whose value is the key. The locale \<open>key_value_map\<close> is what
  the pool relies on; it is interpreted on the vector operations.
\<close>

unbundle bit_operations_syntax

type_synonym ('k, 'v) ims_map = "('k \<times> 'v) list"

subsection \<open>The sorted vector\<close>

text \<open>\<open>GetIndexOf\<close> scans for an equal key and answers -1 when there is none.\<close>

definition ImsMap_GetIndexOfKey :: "'k \<Rightarrow> ('k, 'v) ims_map \<Rightarrow> int" where
  "ImsMap_GetIndexOfKey k m =
     (case find_index (\<lambda>e. fst e = k) m of None \<Rightarrow> -1 | Some i \<Rightarrow> int i)"

text \<open>\<open>GetOrderOf\<close>: the position \<open>std::upper_bound\<close> finds in a sorted vector.\<close>

definition ImsMap_GetOrderOf :: "'k :: linorder \<Rightarrow> ('k, 'v) ims_map \<Rightarrow> nat" where
  "ImsMap_GetOrderOf k m =
     (if m = [] then 0 else length (takeWhile (\<lambda>e. \<not> k < fst e) m))"

definition ImsMap_Add :: "'k :: linorder \<Rightarrow> 'v \<Rightarrow> ('k, 'v) ims_map \<Rightarrow> ('k, 'v) ims_map" where
  "ImsMap_Add k v m =
     (let i = ImsMap_GetIndexOfKey k m
      in if i < 0 then
           (let n = ImsMap_GetOrderOf k m in take n m @ (k, v) # drop n m)
         else m[nat i := (k, v)])"

definition ImsMap_RemoveAt :: "nat \<Rightarrow> ('k, 'v) ims_map \<Rightarrow> ('k, 'v) ims_map" where
  "ImsMap_RemoveAt i m = (if i = 0 \<and> length m = 1 then [] else remove_nth i m)"

definition ImsMap_GetValueAt :: "nat \<Rightarrow> ('k, 'v) ims_map \<Rightarrow> 'v" where
  "ImsMap_GetValueAt i m = snd (m ! i)"

definition ImsMap_SetValueAt :: "nat \<Rightarrow> 'v \<Rightarrow> ('k, 'v) ims_map \<Rightarrow> ('k, 'v) ims_map" where
  "ImsMap_SetValueAt i v m = (if i < length m then m[i := (fst (m ! i), v)] else m)"

text \<open>
  The two accesses by key that the pool performs: read the value found by index, and erase
  the pair found by index.
\<close>

definition ImsMap_lookup :: "('k, 'v) ims_map \<Rightarrow> 'k \<Rightarrow> 'v option" where
  "ImsMap_lookup m k =
     (let i = ImsMap_GetIndexOfKey k m
      in if i < 0 then None else Some (ImsMap_GetValueAt (nat i) m))"

definition ImsMap_Remove :: "'k \<Rightarrow> ('k, 'v) ims_map \<Rightarrow> ('k, 'v) ims_map" where
  "ImsMap_Remove k m =
     (let i = ImsMap_GetIndexOfKey k m in if i < 0 then m else ImsMap_RemoveAt (nat i) m)"

definition ImsMap_inv :: "('k :: linorder, 'v) ims_map \<Rightarrow> bool" where
  "ImsMap_inv m \<longleftrightarrow> sorted (map fst m) \<and> distinct (map fst m)"

subsection \<open>The interface of a map\<close>

locale key_value_map =
  fixes lookup :: "'m \<Rightarrow> 'k \<Rightarrow> 'v option"
    and put :: "'k \<Rightarrow> 'v \<Rightarrow> 'm \<Rightarrow> 'm"
    and del :: "'k \<Rightarrow> 'm \<Rightarrow> 'm"
    and empty :: 'm
    and inv :: "'m \<Rightarrow> bool"
  assumes inv_empty: "inv empty"
    and lookup_empty: "lookup empty k = None"
    and inv_put: "inv m \<Longrightarrow> inv (put k v m)"
    and inv_del: "inv m \<Longrightarrow> inv (del k m)"
    and lookup_put: "inv m \<Longrightarrow> lookup (put k v m) k' = (if k' = k then Some v else lookup m k')"
    and lookup_del: "inv m \<Longrightarrow> lookup (del k m) k' = (if k' = k then None else lookup m k')"
begin

lemma put_overrides: "inv m \<Longrightarrow> lookup (put k v (put k u m)) = lookup (put k v m)"
  by (simp add: fun_eq_iff inv_put lookup_put)

lemma put_commute:
  "inv m \<Longrightarrow> k \<noteq> l \<Longrightarrow> lookup (put k u (put l v m)) = lookup (put l v (put k u m))"
  by (simp add: fun_eq_iff inv_put lookup_put)

lemma del_put: "inv m \<Longrightarrow> lookup (del k (put k v m)) = lookup (del k m)"
  by (simp add: fun_eq_iff inv_put lookup_put lookup_del)

lemma del_absent: "inv m \<Longrightarrow> lookup m k = None \<Longrightarrow> lookup (del k m) = lookup m"
  by (auto simp: fun_eq_iff lookup_del)

end

subsection \<open>The vector implements the map\<close>

lemma GetIndexOfKey_neg: "ImsMap_GetIndexOfKey k m < 0 \<longleftrightarrow> k \<notin> fst ` set m"
proof (cases "find_index (\<lambda>e. fst e = k) m")
  case None
  then have "k \<notin> fst ` set m" by auto
  with None show ?thesis by (simp add: ImsMap_GetIndexOfKey_def del: find_index_None)
next
  case (Some i)
  then have "fst (m ! i) = k" "i < length m" using find_index_SomeD [OF Some] by auto
  then have "k \<in> fst ` set m" by auto
  with Some show ?thesis by (simp add: ImsMap_GetIndexOfKey_def)
qed

lemma map_of_find_index:
  "find_index (\<lambda>e. fst e = k) m = Some i \<Longrightarrow> map_of m k = Some (snd (m ! i))"
proof (induction m arbitrary: i)
  case Nil
  then show ?case by simp
next
  case (Cons e m)
  then show ?case by (cases e) (auto split: if_splits)
qed

lemma lookup_map_of: "ImsMap_lookup m k = map_of m k"
proof (cases "find_index (\<lambda>e. fst e = k) m")
  case None
  then have "map_of m k = None" by (auto simp: map_of_eq_None_iff)
  with None show ?thesis by (simp add: ImsMap_lookup_def ImsMap_GetIndexOfKey_def del: find_index_None)
next
  case (Some i)
  then show ?thesis
    by (simp add: ImsMap_lookup_def ImsMap_GetIndexOfKey_def ImsMap_GetValueAt_def map_of_find_index)
qed

lemma remove_index_filter:
  "distinct (map fst m) \<Longrightarrow> find_index (\<lambda>e. fst e = k) m = Some i \<Longrightarrow>
     remove_nth i m = filter (\<lambda>e. fst e \<noteq> k) m"
proof (induction m arbitrary: i)
  case Nil
  then show ?case by simp
next
  case (Cons e m)
  have "filter (\<lambda>x. fst x \<noteq> k) m = m" if "k \<notin> fst ` set m"
    using that by (intro filter_True) auto
  with Cons show ?case by (auto split: if_splits)
qed

lemma RemoveAt_remove_nth: "i < length m \<Longrightarrow> ImsMap_RemoveAt i m = remove_nth i m"
  by (cases m) (auto simp: ImsMap_RemoveAt_def)

lemma Remove_filter:
  assumes "distinct (map fst m)"
  shows "ImsMap_Remove k m = filter (\<lambda>e. fst e \<noteq> k) m"
proof (cases "find_index (\<lambda>e. fst e = k) m")
  case None
  then have "filter (\<lambda>e. fst e \<noteq> k) m = m" by (intro filter_True) simp
  with None show ?thesis
    by (simp add: ImsMap_Remove_def ImsMap_GetIndexOfKey_def del: find_index_None)
next
  case (Some i)
  then show ?thesis using assms
    by (simp add: ImsMap_Remove_def ImsMap_GetIndexOfKey_def RemoveAt_remove_nth find_index_less
        remove_index_filter)
qed

lemma map_of_filter_neq:
  "map_of (filter (\<lambda>e. fst e \<noteq> k) m) k' = (if k' = k then None else map_of m k')"
  by (induction m) auto

lemma Add_update:
  assumes "distinct (map fst m)" and "find_index (\<lambda>e. fst e = k) m = Some i"
  shows "map fst (m[i := (k, v)]) = map fst m"
    and "map_of (m[i := (k, v)]) = (map_of m)(k \<mapsto> v)"
  using assms
proof (induction m arbitrary: i)
  case (Cons e m)
  {
    case 1 with Cons show ?case by (auto split: if_splits)
  next
    case 2 with Cons show ?case by (cases e) (auto split: if_splits)
  }
qed auto

lemma sorted_insert_order:
  assumes "sorted (map fst m)" and "k \<notin> fst ` set m"
  defines "n \<equiv> length (takeWhile (\<lambda>e. \<not> k < fst e) m)"
  shows "sorted (map fst (take n m @ (k, v) # drop n m))"
proof -
  have tk: "take n m = takeWhile (\<lambda>e. \<not> k < fst e) m"
    unfolding n_def by (metis takeWhile_eq_take)
  have dr: "drop n m = dropWhile (\<lambda>e. \<not> k < fst e) m"
    unfolding n_def by (metis dropWhile_eq_drop)
  have lo: "\<forall>x\<in>set (take n m). fst x \<le> k"
    unfolding tk by (auto dest: set_takeWhileD)
  have hi: "\<forall>x\<in>set (drop n m). k \<le> fst x"
  proof (cases "drop n m")
    case (Cons y ys)
    then have "k < fst y" using hd_dropWhile [of "\<lambda>e. \<not> k < fst e" m] dr by auto
    moreover have "sorted (map fst (y # ys))"
      using assms(1) Cons by (metis drop_map sorted_wrt_drop)
    ultimately show ?thesis unfolding Cons by auto
  qed simp
  have st: "sorted (map fst (take n m))" "sorted (map fst (drop n m))"
    using assms(1) by (simp_all add: take_map [symmetric] drop_map [symmetric] sorted_wrt_take
        sorted_wrt_drop)
  show ?thesis using lo hi st by (auto simp: sorted_append intro: order.trans)
qed

lemma map_of_insert_order:
  "k \<notin> fst ` set m \<Longrightarrow> map_of (take n m @ (k, v) # drop n m) = (map_of m)(k \<mapsto> v)"
proof -
  assume k: "k \<notin> fst ` set m"
  then have t: "map_of (take n m) k = None"
    by (auto simp: map_of_eq_None_iff dest: in_set_takeD)
  have "map_of m = map_of (take n m @ drop n m)" by simp
  then have m: "map_of m = map_of (drop n m) ++ map_of (take n m)" by (simp only: map_of_append)
  show ?thesis
  proof
    fix x
    show "map_of (take n m @ (k, v) # drop n m) x = ((map_of m)(k \<mapsto> v)) x"
      using t by (cases "x = k") (simp_all add: m map_add_def split: option.splits)
  qed
qed

lemma ImsMap_inv_put: "ImsMap_inv m \<Longrightarrow> ImsMap_inv (ImsMap_Add k v m)"
proof (cases "find_index (\<lambda>e. fst e = k) m")
  case None
  assume inv: "ImsMap_inv m"
  from None have k: "k \<notin> fst ` set m" by auto
  let ?n = "length (takeWhile (\<lambda>e. \<not> k < fst e) m)"
  have "ImsMap_Add k v m = take ?n m @ (k, v) # drop ?n m"
    using k by (cases m) (auto simp: ImsMap_Add_def ImsMap_GetOrderOf_def GetIndexOfKey_neg Let_def)
  moreover have "distinct (map fst (take ?n m @ (k, v) # drop ?n m))"
  proof -
    have "distinct (map fst (take ?n m @ drop ?n m))" using inv by (simp add: ImsMap_inv_def)
    then show ?thesis using k by (auto simp del: append_take_drop_id dest: in_set_takeD in_set_dropD)
  qed
  moreover have "sorted (map fst (take ?n m @ (k, v) # drop ?n m))"
    using inv k by (intro sorted_insert_order) (auto simp: ImsMap_inv_def)
  ultimately show ?thesis by (simp add: ImsMap_inv_def del: map_append)
next
  case (Some i)
  assume "ImsMap_inv m"
  with Some show ?thesis
    by (auto simp: ImsMap_Add_def ImsMap_GetIndexOfKey_def ImsMap_inv_def Let_def Add_update)
qed

lemma ImsMap_lookup_put:
  "ImsMap_inv m \<Longrightarrow>
     ImsMap_lookup (ImsMap_Add k v m) k' = (if k' = k then Some v else ImsMap_lookup m k')"
proof (cases "find_index (\<lambda>e. fst e = k) m")
  case None
  then have "k \<notin> fst ` set m" by auto
  then show ?thesis
    by (simp add: ImsMap_Add_def GetIndexOfKey_neg Let_def lookup_map_of map_of_insert_order
        del: map_of_append)
next
  case (Some i)
  assume "ImsMap_inv m"
  with Some show ?thesis
    by (auto simp: ImsMap_Add_def ImsMap_GetIndexOfKey_def ImsMap_inv_def Let_def lookup_map_of
        Add_update)
qed

interpretation ims: key_value_map
  "ImsMap_lookup :: ('k :: linorder, 'v) ims_map \<Rightarrow> 'k \<Rightarrow> 'v option" ImsMap_Add ImsMap_Remove
  "[]" ImsMap_inv
proof unfold_locales
  fix k k' :: 'k and v :: 'v and m :: "('k, 'v) ims_map"
  show "ImsMap_inv ([] :: ('k, 'v) ims_map)" by (simp add: ImsMap_inv_def)
  show "ImsMap_lookup ([] :: ('k, 'v) ims_map) k = None" by (simp add: lookup_map_of)
  assume inv: "ImsMap_inv m"
  show "ImsMap_inv (ImsMap_Add k v m)" using inv by (rule ImsMap_inv_put)
  show "ImsMap_inv (ImsMap_Remove k m)"
    using inv by (simp add: ImsMap_inv_def Remove_filter distinct_map_filter sorted_filter)
  show "ImsMap_lookup (ImsMap_Add k v m) k' = (if k' = k then Some v else ImsMap_lookup m k')"
    using inv by (rule ImsMap_lookup_put)
  show "ImsMap_lookup (ImsMap_Remove k m) k' = (if k' = k then None else ImsMap_lookup m k')"
    using inv by (simp add: ImsMap_inv_def Remove_filter lookup_map_of map_of_filter_neq)
qed

subsection \<open>The string hash\<close>

text \<open>\<open>AString::GetHashCode\<close>: the shift-and-fold hash of a null-able string.\<close>

fun hash_loop :: "string \<Rightarrow> u32 \<Rightarrow> u32" where
  "hash_loop [] nHValue = nHValue"
| "hash_loop (c # cs) nHValue =
     (let nHValue = push_bit 4 nHValue + of_char c;
          nHTmp = nHValue AND 0xF0000000;
          nHValue = (if nHTmp \<noteq> 0 then nHValue XOR drop_bit 24 nHTmp else nHValue)
      in hash_loop cs (nHValue AND NOT nHTmp))"

definition GetHashCode :: "cstr \<Rightarrow> u32" where
  "GetHashCode pszValue = (case pszValue of None \<Rightarrow> 0 | Some s \<Rightarrow> hash_loop s 0)"

lemma clear_top_nibble: "((h :: u32) XOR drop_bit 24 t) AND NOT (h AND 0xF0000000) < 2 ^ 28"
proof -
  define x where "x = (h XOR drop_bit 24 t) AND NOT (h AND 0xF0000000)"
  have hi: "\<not> bit x n" if "28 \<le> n" "n < 32" for n
  proof -
    have "n = 28 \<or> n = 29 \<or> n = 30 \<or> n = 31" using that by auto
    then have "bit (0xF0000000 :: u32) n" by auto
    moreover have "\<not> bit t (24 + n)" using that by (auto dest: bit_imp_le_length)
    ultimately show ?thesis unfolding x_def bit_and_iff bit_xor_iff bit_not_iff bit_drop_bit_eq comp_apply
      by blast
  qed
  have "take_bit 28 x = x"
  proof (rule bit_word_eqI)
    fix n assume "n < LENGTH(32)"
    then show "bit (take_bit 28 x) n \<longleftrightarrow> bit x n"
      using hi [of n] by (cases "28 \<le> n") (simp_all only: bit_take_bit_iff, simp_all)
  qed
  then have "unat x = take_bit 28 (unat x)" by (metis unsigned_take_bit_eq)
  then have "unat x < 2 ^ 28" by (metis take_bit_nat_less_exp)
  then have "x < 2 ^ 28" by (simp add: word_less_nat_alt)
  then show ?thesis by (simp only: x_def)
qed

lemma hash_loop_bound: "nHValue < 2 ^ 28 \<Longrightarrow> hash_loop s nHValue < 2 ^ 28"
proof (induction s arbitrary: nHValue)
  case Nil
  then show ?case by simp
next
  case (Cons c cs)
  let ?h = "push_bit 4 nHValue + of_char c :: u32"
  let ?t = "?h AND 0xF0000000"
  have "((if ?t \<noteq> 0 then ?h XOR drop_bit 24 ?t else ?h) AND NOT ?t) < 2 ^ 28"
    using clear_top_nibble [of ?h ?t] clear_top_nibble [of ?h 0] by (auto split: if_splits)
  then have "hash_loop cs ((if ?t \<noteq> 0 then ?h XOR drop_bit 24 ?t else ?h) AND NOT ?t) < 2 ^ 28"
    by (rule Cons.IH)
  then show ?case by (simp only: hash_loop.simps Let_def)
qed

lemma GetHashCode_bound: "GetHashCode s < 2 ^ 28"
proof (cases s)
  case (Some xs)
  have "hash_loop xs 0 < 2 ^ 28" by (rule hash_loop_bound) simp
  with Some show ?thesis by (simp only: GetHashCode_def option.case)
qed (simp add: GetHashCode_def)

end
