(* ===== verification/Sip_Message.thy ===== *)
theory Sip_Message
  imports Sip_String
begin

text \<open>
  The part of \<open>SipMessage\<close> (\<open>protocol/sip/msg/SipMessage.cpp\<close>, \<open>SipStatusLine.cpp\<close>) that
  the transaction and transport layers read: the start line, the headers that identify a
  transaction and the headers an ACK copies. A header that is absent is \<open>None\<close> (or no
  element of the list of Via headers); parsing and encoding of the text form are not here.
\<close>

unbundle bit_operations_syntax

subsection \<open>Data\<close>

datatype msg_type = REQ_TYPE | RESP_TYPE | TYPE_INVALID

datatype msg_method =
    METHOD_INVITE | METHOD_ACK | METHOD_OPTIONS | METHOD_BYE | METHOD_CANCEL | METHOD_REGISTER
  | METHOD_INFO | METHOD_PRACK | METHOD_SUBSCRIBE | METHOD_NOTIFY | METHOD_UPDATE
  | METHOD_MESSAGE | METHOD_REFER | METHOD_PUBLISH | METHOD_UNKNOWN | METHOD_INVALID

abbreviation (input) INVITE_METHOD :: cstr where "INVITE_METHOD \<equiv> Some ''INVITE''"
abbreviation (input) ACK_METHOD :: cstr where "ACK_METHOD \<equiv> Some ''ACK''"
abbreviation (input) CANCEL_METHOD :: cstr where "CANCEL_METHOD \<equiv> Some ''CANCEL''"

abbreviation (input) SIP_SC_INVALID :: u16 where "SIP_SC_INVALID \<equiv> 0"

record SipRequestLine =
  rl_method :: cstr
  rl_uri :: string

record SipViaHeader =
  via_protocol :: string
  via_branch :: cstr
  via_host :: cstr
  via_port :: u16

record SipNameAddrHeader =
  na_value :: string
  na_tag :: cstr

record SipCSeqHeader =
  cseq_num :: u32
  cseq_method :: cstr

record SipMessage =
  m_eSipMsgType :: msg_type
  m_pReqLine :: "SipRequestLine option"
  m_pStatusLine :: "cstr option"
  hdr_via :: "SipViaHeader list"
  hdr_from :: "SipNameAddrHeader option"
  hdr_to :: "SipNameAddrHeader option"
  hdr_call_id :: "cstr option"
  hdr_cseq :: "SipCSeqHeader option"
  hdr_rseq :: "u32 option"
  hdr_rack :: "u32 option"
  hdr_max_forwards :: "string option"
  hdr_user_agent :: "string option"
  hdr_pani :: "string option"
  hdr_route :: "string list"

text \<open>\<open>new SipMessage(type)\<close>: no start line and no header.\<close>

definition SipMessage_new :: "msg_type \<Rightarrow> SipMessage" where
  "SipMessage_new t =
     \<lparr>m_eSipMsgType = t, m_pReqLine = None, m_pStatusLine = None, hdr_via = [], hdr_from = None,
      hdr_to = None, hdr_call_id = None, hdr_cseq = None, hdr_rseq = None, hdr_rack = None,
      hdr_max_forwards = None, hdr_user_agent = None, hdr_pani = None, hdr_route = []\<rparr>"

subsection \<open>Operations\<close>

text \<open>
  The status code: \<open>SipStatusLine::GetStatusCode\<close> stores the number into a \<open>SIP_INT16\<close>
  and leaves it alone when there is no text; \<open>GetStatusCodeAsInt\<close> truncates to 16 bits.
\<close>

definition SipStatusLine_GetStatusCode :: "cstr \<Rightarrow> int \<Rightarrow> bool \<times> int" where
  "SipStatusLine_GetStatusCode code cell =
     (case code of
        Some _ \<Rightarrow> (True, sint (word_of_int (SipPf_Atoi code) :: u16))
      | None \<Rightarrow> (False, cell))"

definition SipStatusLine_GetStatusCodeAsInt :: "cstr \<Rightarrow> u16" where
  "SipStatusLine_GetStatusCodeAsInt code =
     (case code of Some _ \<Rightarrow> word_of_int (SipPf_Atoi code) | None \<Rightarrow> SIP_SC_INVALID)"

definition GetStatusCode :: "SipMessage \<Rightarrow> u16" where
  "GetStatusCode m =
     (if m_eSipMsgType m \<noteq> RESP_TYPE then SIP_SC_INVALID
      else case m_pStatusLine m of
        None \<Rightarrow> SIP_SC_INVALID
      | Some code \<Rightarrow> SipStatusLine_GetStatusCodeAsInt code)"

definition GetMethod :: "SipMessage \<Rightarrow> cstr" where
  "GetMethod m =
     (if m_eSipMsgType m = REQ_TYPE then
        (case m_pReqLine m of None \<Rightarrow> None | Some rl \<Rightarrow> rl_method rl)
      else if m_pStatusLine m = None then None
      else (case hdr_cseq m of None \<Rightarrow> None | Some c \<Rightarrow> cseq_method c))"

definition SipMethodArray :: "(string \<times> msg_method) list" where
  "SipMethodArray =
     [(''INVITE'', METHOD_INVITE), (''ACK'', METHOD_ACK), (''OPTIONS'', METHOD_OPTIONS),
      (''BYE'', METHOD_BYE), (''CANCEL'', METHOD_CANCEL), (''REGISTER'', METHOD_REGISTER),
      (''INFO'', METHOD_INFO), (''PRACK'', METHOD_PRACK), (''SUBSCRIBE'', METHOD_SUBSCRIBE),
      (''NOTIFY'', METHOD_NOTIFY), (''UPDATE'', METHOD_UPDATE), (''MESSAGE'', METHOD_MESSAGE),
      (''REFER'', METHOD_REFER), (''PUBLISH'', METHOD_PUBLISH)]"

definition GetMethodType :: "SipMessage \<Rightarrow> msg_method" where
  "GetMethodType m =
     (case GetMethod m of
        None \<Rightarrow> METHOD_INVALID
      | Some s \<Rightarrow>
          (case find_index (\<lambda>e. SipPf_Stricmp (Some s) (Some (fst e)) = SIP_EQUALS) SipMethodArray of
             Some i \<Rightarrow> snd (SipMethodArray ! i)
           | None \<Rightarrow> METHOD_UNKNOWN))"

datatype hdr_type = H_TO | H_FROM | H_CSEQ | H_CALL_ID | H_VIA | H_RSEQ | H_RACK

definition HasHeader :: "SipMessage \<Rightarrow> hdr_type \<Rightarrow> bool" where
  "HasHeader m t =
     (case t of
        H_TO \<Rightarrow> hdr_to m \<noteq> None
      | H_FROM \<Rightarrow> hdr_from m \<noteq> None
      | H_CSEQ \<Rightarrow> hdr_cseq m \<noteq> None
      | H_CALL_ID \<Rightarrow> hdr_call_id m \<noteq> None
      | H_VIA \<Rightarrow> hdr_via m \<noteq> []
      | H_RSEQ \<Rightarrow> hdr_rseq m \<noteq> None
      | H_RACK \<Rightarrow> hdr_rack m \<noteq> None)"

text \<open>
  \<open>CheckTxnMandatoryParams\<close> yields the message and method type, or nothing when it answers
  false.
\<close>

definition CheckTxnMandatoryParams :: "SipMessage \<Rightarrow> (msg_type \<times> msg_method) option" where
  "CheckTxnMandatoryParams m =
     (if m_eSipMsgType m = TYPE_INVALID then None
      else if GetMethodType m = METHOD_INVALID then None
      else if \<not> HasHeader m H_TO then None
      else if \<not> HasHeader m H_FROM then None
      else if \<not> HasHeader m H_CSEQ then None
      else if \<not> HasHeader m H_CALL_ID then None
      else if \<not> HasHeader m H_VIA then None
      else if m_eSipMsgType m = REQ_TYPE then
        (if m_pReqLine m = None then None else Some (m_eSipMsgType m, GetMethodType m))
      else
        (if m_pStatusLine m = None then None else Some (m_eSipMsgType m, GetMethodType m)))"

definition GetRSeqNum :: "SipMessage \<Rightarrow> hdr_type \<Rightarrow> u32" where
  "GetRSeqNum m t =
     (case t of
        H_RSEQ \<Rightarrow> (case hdr_rseq m of None \<Rightarrow> 0 | Some n \<Rightarrow> n)
      | H_RACK \<Rightarrow> (case hdr_rack m of None \<Rightarrow> 0 | Some n \<Rightarrow> n)
      | _ \<Rightarrow> 0)"

subsection \<open>The classes of status codes\<close>

definition SIP_PROVISIONAL_RESP :: "u16 \<Rightarrow> bool" where
  "SIP_PROVISIONAL_RESP c \<longleftrightarrow> c \<ge> 100 \<and> c < 200"

definition SIP_SUCCESSFUL_RESP :: "u16 \<Rightarrow> bool" where
  "SIP_SUCCESSFUL_RESP c \<longleftrightarrow> c \<ge> 200 \<and> c < 300"

definition SIP_FAILURE_RESP :: "u16 \<Rightarrow> bool" where
  "SIP_FAILURE_RESP c \<longleftrightarrow> c \<ge> 300"

definition SIP_NONPROVISIONAL_RESP :: "u16 \<Rightarrow> bool" where
  "SIP_NONPROVISIONAL_RESP c \<longleftrightarrow> c \<ge> 200"

lemmas status_class_defs =
  SIP_PROVISIONAL_RESP_def SIP_SUCCESSFUL_RESP_def SIP_FAILURE_RESP_def
  SIP_NONPROVISIONAL_RESP_def

subsection \<open>Facts\<close>

lemma CheckTxnMandatoryParams_SomeD:
  assumes "CheckTxnMandatoryParams m = Some (t, mt)"
  shows "t = m_eSipMsgType m" and "mt = GetMethodType m" and "t \<noteq> TYPE_INVALID"
    and "mt \<noteq> METHOD_INVALID" and "hdr_to m \<noteq> None" and "hdr_from m \<noteq> None"
    and "hdr_cseq m \<noteq> None" and "hdr_call_id m \<noteq> None" and "hdr_via m \<noteq> []"
    and "t = REQ_TYPE \<Longrightarrow> m_pReqLine m \<noteq> None" and "t \<noteq> REQ_TYPE \<Longrightarrow> m_pStatusLine m \<noteq> None"
  using assms by (auto simp: CheckTxnMandatoryParams_def HasHeader_def split: if_splits)

lemma GetMethodType_INVALID: "GetMethodType m = METHOD_INVALID \<longleftrightarrow> GetMethod m = None"
proof (cases "GetMethod m")
  case None
  then show ?thesis by (simp add: GetMethodType_def)
next
  case (Some s)
  have "snd (SipMethodArray ! i) \<noteq> METHOD_INVALID" if "i < length SipMethodArray" for i
  proof -
    have "\<forall>e\<in>set SipMethodArray. snd e \<noteq> METHOD_INVALID" by (simp add: SipMethodArray_def)
    with that show ?thesis by (meson nth_mem)
  qed
  with Some show ?thesis
    by (auto simp: GetMethodType_def dest: find_index_less simp del: find_index_None
        split: option.splits)
qed

lemma GetMethodType_Some:
  "GetMethod m = Some s \<Longrightarrow> GetMethodType m =
     (case find_index (\<lambda>e. SipPf_Stricmp (Some s) (Some (fst e)) = SIP_EQUALS) SipMethodArray of
        Some i \<Rightarrow> snd (SipMethodArray ! i) | None \<Rightarrow> METHOD_UNKNOWN)"
  by (simp add: GetMethodType_def)

end
