(* ===== verification/Txn_Key.thy ===== *)
theory Txn_Key
  imports Sip_Message
begin

text \<open>
  \<open>SipTxnKey\<close> (\<open>protocol/sip/txn/SipTxnKey.cpp\<close>): the key that matches a message to a
  transaction, its construction from a message and from another key, and the two
  comparisons. \<open>txn_matches\<close> restates the comparison as one condition.
\<close>

unbundle bit_operations_syntax

subsection \<open>Data\<close>

datatype txn_type = INV_CLI_TXN | INV_SER_TXN | NON_INV_CLI_TXN | NON_INV_SER_TXN | INVALID_TXN

abbreviation (input) RULE_NONE :: u32 where "RULE_NONE \<equiv> 0"
abbreviation (input) RULE_COMPARE_TO_TAG :: u32 where "RULE_COMPARE_TO_TAG \<equiv> 1"
abbreviation (input) RULE_COMPARE_VIA_BRANCH :: u32 where "RULE_COMPARE_VIA_BRANCH \<equiv> 2"
abbreviation (input) RULE_COMPARE_RSEQ :: u32 where "RULE_COMPARE_RSEQ \<equiv> 4"

text \<open>The error codes of \<open>SipStackError.h\<close> that the transaction layer sets.\<close>

abbreviation (input) EERR_MALLOCFAILED :: u16 where "EERR_MALLOCFAILED \<equiv> 101"
abbreviation (input) E_ERR_PF_MALLOCFAILED :: u16 where "E_ERR_PF_MALLOCFAILED \<equiv> 130"
abbreviation (input) ETXN_ALREADYTRANSACTIONINPROCESSERROR :: u16
  where "ETXN_ALREADYTRANSACTIONINPROCESSERROR \<equiv> 0"
abbreviation (input) ETXN_FSMEVENTERROR :: u16 where "ETXN_FSMEVENTERROR \<equiv> 10"
abbreviation (input) ETXN_STACKERROR :: u16 where "ETXN_STACKERROR \<equiv> 11"
abbreviation (input) EMSGERR_INVALIDMSGTYPE :: u16 where "EMSGERR_INVALIDMSGTYPE \<equiv> 312"
abbreviation (input) EMSGERR_INVALIDSTATUSCODE :: u16 where "EMSGERR_INVALIDSTATUSCODE \<equiv> 319"
abbreviation (input) EMSGERR_REQLINEMISSING :: u16 where "EMSGERR_REQLINEMISSING \<equiv> 371"
abbreviation (input) EMSGERR_FROMMISSING :: u16 where "EMSGERR_FROMMISSING \<equiv> 392"
abbreviation (input) EMSGERR_TOMISSING :: u16 where "EMSGERR_TOMISSING \<equiv> 393"

record SipTxnKey =
  m_nRSeqNum :: u32
  m_eMsgType :: msg_type
  m_pszViaBranchParam :: cstr
  m_pszViaHost :: cstr
  m_nViaHostPort :: u16
  m_pszMethod :: cstr
  m_nCseqNum :: u32
  m_pRequestUri :: "string option"
  m_pszToTag :: cstr
  m_pszFromTag :: cstr
  m_pszCallId :: cstr
  m_nRespCode :: u16
  key_eTxnType :: txn_type
  m_nRules :: u32

definition SipTxnKey_new :: SipTxnKey where
  "SipTxnKey_new =
     \<lparr>m_nRSeqNum = 0, m_eMsgType = TYPE_INVALID, m_pszViaBranchParam = None, m_pszViaHost = None,
      m_nViaHostPort = 0, m_pszMethod = None, m_nCseqNum = 0, m_pRequestUri = None,
      m_pszToTag = None, m_pszFromTag = None, m_pszCallId = None, m_nRespCode = 0,
      key_eTxnType = INVALID_TXN, m_nRules = RULE_COMPARE_TO_TAG OR RULE_COMPARE_VIA_BRANCH\<rparr>"

subsection \<open>Rules\<close>

definition AddRule :: "u32 \<Rightarrow> SipTxnKey \<Rightarrow> SipTxnKey" where
  "AddRule r k = k\<lparr>m_nRules := m_nRules k OR r\<rparr>"

definition RemoveRule :: "u32 \<Rightarrow> SipTxnKey \<Rightarrow> SipTxnKey" where
  "RemoveRule r k = k\<lparr>m_nRules := m_nRules k AND (NOT r)\<rparr>"

definition HasRule :: "u32 \<Rightarrow> SipTxnKey \<Rightarrow> bool" where
  "HasRule r k \<longleftrightarrow> m_nRules k AND r \<noteq> 0"

definition SetRules :: "u32 \<Rightarrow> SipTxnKey \<Rightarrow> SipTxnKey" where
  "SetRules r k = k\<lparr>m_nRules := r\<rparr>"

definition SetMethod :: "cstr \<Rightarrow> SipTxnKey \<Rightarrow> SipTxnKey" where
  "SetMethod s k = k\<lparr>m_pszMethod := SipPf_Strdup s\<rparr>"

subsection \<open>Construction\<close>

text \<open>
  The constructor from a message. The pair holds the key and the caller's error cell; an
  early return leaves the fields after it at their initial values.
\<close>

definition SipTxnKey_fill_tags :: "SipMessage \<Rightarrow> SipTxnKey \<Rightarrow> u16 \<Rightarrow> SipTxnKey \<times> u16" where
  "SipTxnKey_fill_tags msg k err =
     (case hdr_to msg of
        None \<Rightarrow> (k, EMSGERR_TOMISSING)
      | Some to \<Rightarrow>
          let k = k\<lparr>m_pszToTag := na_tag to\<rparr>
          in case hdr_from msg of
               None \<Rightarrow> (k, EMSGERR_FROMMISSING)
             | Some from \<Rightarrow>
                 let k = k\<lparr>m_pszFromTag := na_tag from\<rparr>;
                     k = (case hdr_call_id msg of None \<Rightarrow> k
                          | Some v \<Rightarrow> k\<lparr>m_pszCallId := SipPf_Strdup v\<rparr>);
                     k = (case hdr_rseq msg of None \<Rightarrow> k | Some n \<Rightarrow> k\<lparr>m_nRSeqNum := n\<rparr>)
                 in (k, err))"

definition SipTxnKey_of_msg :: "SipMessage \<Rightarrow> u16 \<Rightarrow> SipTxnKey \<times> u16" where
  "SipTxnKey_of_msg msg err =
     (let k = SipTxnKey_new\<lparr>m_eMsgType := m_eSipMsgType msg\<rparr>
      in if m_eMsgType k = TYPE_INVALID then (k, EMSGERR_INVALIDMSGTYPE)
         else case hdr_via msg of
           [] \<Rightarrow> (k, err)
         | via # _ \<Rightarrow>
             let k = k\<lparr>m_pszViaBranchParam := via_branch via,
                       m_pszViaHost := SipPf_Strdup (via_host via),
                       m_nViaHostPort := via_port via\<rparr>
             in if m_eMsgType k = REQ_TYPE then
                  (case m_pReqLine msg of
                     None \<Rightarrow> (k, EMSGERR_REQLINEMISSING)
                   | Some rl \<Rightarrow>
                       let k = k\<lparr>m_pRequestUri := Some (rl_uri rl),
                                 m_pszMethod := SipPf_Strdup (rl_method rl)\<rparr>;
                           k = (case hdr_cseq msg of None \<Rightarrow> k
                                | Some c \<Rightarrow> k\<lparr>m_nCseqNum := cseq_num c\<rparr>)
                       in SipTxnKey_fill_tags msg k err)
                else
                  let k = (case hdr_cseq msg of None \<Rightarrow> k
                           | Some c \<Rightarrow> k\<lparr>m_pszMethod := SipPf_Strdup (cseq_method c),
                                         m_nCseqNum := cseq_num c\<rparr>);
                      k = k\<lparr>m_nRespCode := GetStatusCode msg\<rparr>
                  in SipTxnKey_fill_tags msg k err)"

text \<open>
  \<open>Init\<close> copies another key. It stops with \<open>E_ERR_PF_MALLOCFAILED\<close> at the first string it
  cannot duplicate, which a null string also is; all but the first of these stops clear the
  key. \<open>SipTxnKey_Clear\<close> resets every field.
\<close>

definition SipTxnKey_Clear :: "SipTxnKey \<Rightarrow> SipTxnKey" where
  "SipTxnKey_Clear k =
     k\<lparr>m_pszViaBranchParam := None, m_pszViaHost := None, m_pszMethod := None,
       m_pRequestUri := None, m_pszToTag := None, m_pszFromTag := None, m_pszCallId := None,
       m_nRSeqNum := 0, m_eMsgType := TYPE_INVALID, m_nViaHostPort := 0, m_nCseqNum := 0,
       m_nRespCode := 0, key_eTxnType := INVALID_TXN,
       m_nRules := RULE_COMPARE_TO_TAG OR RULE_COMPARE_VIA_BRANCH\<rparr>"

definition SipTxnKey_Init :: "SipTxnKey option \<Rightarrow> SipTxnKey \<Rightarrow> u16 \<Rightarrow> SipTxnKey \<times> u16" where
  "SipTxnKey_Init src k err =
     (case src of
        None \<Rightarrow> (k, err)
      | Some s \<Rightarrow>
          let k = SipTxnKey_Clear k;
              k = k\<lparr>m_nRSeqNum := m_nRSeqNum s, m_eMsgType := m_eMsgType s,
                    m_nRespCode := m_nRespCode s, key_eTxnType := key_eTxnType s,
                    m_nRules := m_nRules s,
                    m_pszViaBranchParam := SipPf_Strdup (m_pszViaBranchParam s)\<rparr>
          in if m_pszViaBranchParam k = None then (k, E_ERR_PF_MALLOCFAILED) else
          let k = k\<lparr>m_pszViaHost := SipPf_Strdup (m_pszViaHost s)\<rparr>
          in if m_pszViaHost k = None then (SipTxnKey_Clear k, E_ERR_PF_MALLOCFAILED) else
          let k = k\<lparr>m_nViaHostPort := m_nViaHostPort s,
                    m_pszMethod := SipPf_Strdup (m_pszMethod s)\<rparr>
          in if m_pszMethod k = None then (SipTxnKey_Clear k, E_ERR_PF_MALLOCFAILED) else
          let k = k\<lparr>m_nCseqNum := m_nCseqNum s\<rparr>;
              k = (if m_pRequestUri s \<noteq> None then k\<lparr>m_pRequestUri := m_pRequestUri s\<rparr> else k);
              k = (if m_pszToTag s \<noteq> None then k\<lparr>m_pszToTag := SipPf_Strdup (m_pszToTag s)\<rparr> else k);
              k = k\<lparr>m_pszFromTag := SipPf_Strdup (m_pszFromTag s)\<rparr>
          in if m_pszFromTag k = None then (SipTxnKey_Clear k, E_ERR_PF_MALLOCFAILED) else
          let k = k\<lparr>m_pszCallId := SipPf_Strdup (m_pszCallId s)\<rparr>
          in if m_pszCallId k = None then (SipTxnKey_Clear k, E_ERR_PF_MALLOCFAILED)
             else (k, err))"

definition SipTxnKey_copy :: "SipTxnKey option \<Rightarrow> u16 \<Rightarrow> SipTxnKey \<times> u16" where
  "SipTxnKey_copy src err = SipTxnKey_Init src SipTxnKey_new err"

subsection \<open>Comparison\<close>

text \<open>
  The answers \<open>SIP_MATCHES\<close> and \<open>SIP_NOT_MATCH\<close> are \<open>True\<close> and \<open>False\<close>. The first argument
  is the stored key, the receiver of the call.
\<close>

definition CompareKeys :: "SipTxnKey \<Rightarrow> SipTxnKey option \<Rightarrow> bool" where
  "CompareKeys k pGeneratedKey =
     (case pGeneratedKey of
        None \<Rightarrow> False
      | Some g \<Rightarrow>
          if HasRule RULE_COMPARE_VIA_BRANCH g \<and>
             SipPf_Stricmp (m_pszViaBranchParam k) (m_pszViaBranchParam g) \<noteq> SIP_EQUALS then False
          else if m_nCseqNum k \<noteq> m_nCseqNum g then False
          else
            let isAck = (SipPf_Strcmp ACK_METHOD (m_pszMethod g) = SIP_EQUALS);
                bACKFor2xxSent =
                  (isAck \<and> key_eTxnType g = INV_SER_TXN \<and> key_eTxnType k = INV_SER_TXN \<and>
                   SIP_SUCCESSFUL_RESP (m_nRespCode k))
            in if \<not> isAck \<and> SipPf_Strcmp (m_pszMethod k) (m_pszMethod g) \<noteq> SIP_EQUALS then False
               else if isAck \<and> SipPf_Strcmp (m_pszMethod k) CANCEL_METHOD = SIP_EQUALS then False
               else if SipPf_Strcmp (m_pszCallId k) (m_pszCallId g) \<noteq> SIP_EQUALS then False
               else if SipPf_Stricmp (m_pszFromTag k) (m_pszFromTag g) \<noteq> SIP_EQUALS then False
               else if HasRule RULE_COMPARE_TO_TAG k \<and> HasRule RULE_COMPARE_TO_TAG g \<and>
                       m_pszToTag k \<noteq> None \<and> m_pszToTag g \<noteq> None \<and>
                       SipPf_Stricmp (m_pszToTag k) (m_pszToTag g) \<noteq> SIP_EQUALS then False
               else if HasRule RULE_COMPARE_RSEQ g \<and> m_nRSeqNum k \<noteq> 0 \<and> m_nRSeqNum g \<noteq> 0 \<and>
                       m_nRSeqNum k \<noteq> m_nRSeqNum g then False
               else if bACKFor2xxSent then False
               else True)"

definition CompareKeysForRPR :: "SipTxnKey \<Rightarrow> SipTxnKey option \<Rightarrow> bool" where
  "CompareKeysForRPR k pGeneratedKey =
     (case pGeneratedKey of
        None \<Rightarrow> False
      | Some g \<Rightarrow>
          if SipPf_Strcmp (m_pszMethod k) INVITE_METHOD \<noteq> SIP_EQUALS then False
          else if SipPf_Strcmp (m_pszCallId k) (m_pszCallId g) \<noteq> SIP_EQUALS then False
          else if SipPf_Stricmp (m_pszFromTag k) (m_pszFromTag g) \<noteq> SIP_EQUALS then False
          else if HasRule RULE_COMPARE_TO_TAG g \<and> m_pszToTag k \<noteq> None \<and> m_pszToTag g \<noteq> None \<and>
                  SipPf_Stricmp (m_pszToTag k) (m_pszToTag g) \<noteq> SIP_EQUALS then False
          else if HasRule RULE_COMPARE_RSEQ g \<and> m_nRSeqNum k \<noteq> 0 \<and> m_nRSeqNum g \<noteq> 0 \<and>
                  m_nRSeqNum k \<noteq> m_nRSeqNum g then False
          else True)"

subsection \<open>What the comparison decides\<close>

text \<open>Two null-able strings that are both present and equal up to letter case.\<close>

definition same_nocase :: "cstr \<Rightarrow> cstr \<Rightarrow> bool" where
  "same_nocase a b \<longleftrightarrow> (\<exists>x y. a = Some x \<and> b = Some y \<and> lower x = lower y)"

text \<open>Tags that do not contradict each other: one is missing, or they agree.\<close>

definition compatible_tags :: "cstr \<Rightarrow> cstr \<Rightarrow> bool" where
  "compatible_tags a b \<longleftrightarrow> a = None \<or> b = None \<or> same_nocase a b"

definition compatible_rseq :: "u32 \<Rightarrow> u32 \<Rightarrow> bool" where
  "compatible_rseq a b \<longleftrightarrow> a = 0 \<or> b = 0 \<or> a = b"

definition same_method :: "SipTxnKey \<Rightarrow> SipTxnKey \<Rightarrow> bool" where
  "same_method k g \<longleftrightarrow>
     (if m_pszMethod g = ACK_METHOD then
        m_pszMethod k \<noteq> CANCEL_METHOD \<and>
        \<not> (key_eTxnType g = INV_SER_TXN \<and> key_eTxnType k = INV_SER_TXN \<and>
           SIP_SUCCESSFUL_RESP (m_nRespCode k))
      else m_pszMethod g \<noteq> None \<and> m_pszMethod k = m_pszMethod g)"

definition txn_matches :: "SipTxnKey \<Rightarrow> SipTxnKey \<Rightarrow> bool" where
  "txn_matches k g \<longleftrightarrow>
     (HasRule RULE_COMPARE_VIA_BRANCH g \<longrightarrow>
        same_nocase (m_pszViaBranchParam k) (m_pszViaBranchParam g)) \<and>
     m_nCseqNum k = m_nCseqNum g \<and> same_method k g \<and>
     m_pszCallId g \<noteq> None \<and> m_pszCallId k = m_pszCallId g \<and>
     same_nocase (m_pszFromTag k) (m_pszFromTag g) \<and>
     (HasRule RULE_COMPARE_TO_TAG k \<and> HasRule RULE_COMPARE_TO_TAG g \<longrightarrow>
        compatible_tags (m_pszToTag k) (m_pszToTag g)) \<and>
     (HasRule RULE_COMPARE_RSEQ g \<longrightarrow> compatible_rseq (m_nRSeqNum k) (m_nRSeqNum g))"

lemma Stricmp_same_nocase: "SipPf_Stricmp a b = 0 \<longleftrightarrow> same_nocase a b"
  by (simp add: SipPf_Stricmp_equals same_nocase_def)

lemma Strcmp_same: "SipPf_Strcmp a b = 0 \<longleftrightarrow> b \<noteq> None \<and> a = b"
  by (auto simp: SipPf_Strcmp_equals)

lemma CompareKeys_iff: "CompareKeys k (Some g) \<longleftrightarrow> txn_matches k g"
  unfolding CompareKeys_def txn_matches_def same_method_def compatible_tags_def
    compatible_rseq_def Let_def option.case Stricmp_same_nocase Strcmp_same
  by auto

lemma CompareKeys_None [simp]: "\<not> CompareKeys k None"
  by (simp add: CompareKeys_def)

definition rpr_matches :: "SipTxnKey \<Rightarrow> SipTxnKey \<Rightarrow> bool" where
  "rpr_matches k g \<longleftrightarrow>
     m_pszMethod k = INVITE_METHOD \<and> m_pszCallId g \<noteq> None \<and> m_pszCallId k = m_pszCallId g \<and>
     same_nocase (m_pszFromTag k) (m_pszFromTag g) \<and>
     (HasRule RULE_COMPARE_TO_TAG g \<longrightarrow> compatible_tags (m_pszToTag k) (m_pszToTag g)) \<and>
     (HasRule RULE_COMPARE_RSEQ g \<longrightarrow> compatible_rseq (m_nRSeqNum k) (m_nRSeqNum g))"

lemma CompareKeysForRPR_iff: "CompareKeysForRPR k (Some g) \<longleftrightarrow> rpr_matches k g"
  unfolding CompareKeysForRPR_def rpr_matches_def compatible_tags_def compatible_rseq_def
    option.case Stricmp_same_nocase Strcmp_same
  by auto

lemma same_nocase_refl [simp]: "same_nocase a a \<longleftrightarrow> a \<noteq> None"
  by (auto simp: same_nocase_def)

lemma compatible_refl [simp]: "compatible_tags a a" "compatible_rseq n n"
  by (auto simp: compatible_tags_def compatible_rseq_def)

lemma same_nocase_sym: "same_nocase a b \<Longrightarrow> same_nocase b a"
  by (auto simp: same_nocase_def)

lemma same_nocase_trans: "same_nocase a b \<Longrightarrow> same_nocase b c \<Longrightarrow> same_nocase a c"
  by (auto simp: same_nocase_def)

subsection \<open>Complete keys and their copies\<close>

text \<open>The strings a copy needs; \<open>matchable\<close> keys also match themselves.\<close>

definition copyable :: "SipTxnKey \<Rightarrow> bool" where
  "copyable k \<longleftrightarrow> m_pszViaBranchParam k \<noteq> None \<and> m_pszViaHost k \<noteq> None \<and> m_pszMethod k \<noteq> None \<and>
     m_pszFromTag k \<noteq> None \<and> m_pszCallId k \<noteq> None"

lemma copy_complete: "copyable k \<Longrightarrow> SipTxnKey_copy (Some k) err = (k, err)"
  by (cases k) (auto simp: copyable_def SipTxnKey_copy_def SipTxnKey_Init_def SipTxnKey_Clear_def
      SipTxnKey_new_def Let_def)

lemma copy_incomplete: "\<not> copyable k \<Longrightarrow> snd (SipTxnKey_copy (Some k) err) = E_ERR_PF_MALLOCFAILED"
  unfolding copyable_def SipTxnKey_copy_def SipTxnKey_Init_def Let_def option.case SipPf_Strdup_id
  by (auto simp: SipTxnKey_Clear_def SipTxnKey_new_def)

lemma copy_null [simp]: "SipTxnKey_copy None err = (SipTxnKey_new, err)"
  by (simp add: SipTxnKey_copy_def SipTxnKey_Init_def)

lemma copy_cases:
  "err \<noteq> E_ERR_PF_MALLOCFAILED \<Longrightarrow>
     snd (SipTxnKey_copy (Some k) err) \<noteq> E_ERR_PF_MALLOCFAILED \<longleftrightarrow> copyable k"
  by (cases "copyable k") (simp_all add: copy_complete copy_incomplete)

lemma self_match:
  "copyable k \<Longrightarrow> m_pszMethod k \<noteq> ACK_METHOD \<Longrightarrow> txn_matches k k"
  by (auto simp: copyable_def txn_matches_def same_method_def)

end
