(* ===== verification/Txn_KeyList.thy ===== *)
theory Txn_KeyList
  imports Txn_Key
begin

text \<open>
  \<open>SipTxnUtil\<close> (\<open>protocol/sip/txn/SipTxnUtil.cpp\<close>): the list of keys of provisional
  responses sent or received reliably, which matches a PRACK or a repeated response to its
  INVITE. A stored key is named by its index, since the callers update it in place.
\<close>

unbundle bit_operations_syntax

subsection \<open>Operations\<close>

definition IsTxnKeyMatched :: "SipTxnKey \<Rightarrow> SipTxnKey \<Rightarrow> bool" where
  "IsTxnKeyMatched pUserTxnkey pStoredTxnKey = CompareKeysForRPR pStoredTxnKey (Some pUserTxnkey)"

text \<open>
  The search loop. Its index is a 16-bit integer while the size has 32 bits, so the loop
  does not end on a list of 65536 or more keys without a match: \<open>None\<close> is that outcome, and
  the inner option is the pointer the function returns.
\<close>

partial_function (option) search_loop :: "SipTxnKey \<Rightarrow> SipTxnKey list \<Rightarrow> u16 \<Rightarrow> nat option option" where
  "search_loop user keys nIndex =
     (if unat nIndex < length keys then
        (if CompareKeysForRPR (keys ! unat nIndex) (Some user) then Some (Some (unat nIndex))
         else search_loop user keys (nIndex + 1))
      else Some None)"

text \<open>
  \<open>SearchTxnKey\<close> changes the rules of the caller's key while it searches and puts them back:
  the second component is that key after the call.
\<close>

definition SearchTxnKey ::
    "SipTxnKey \<Rightarrow> bool \<Rightarrow> SipTxnKey list \<Rightarrow> (nat option \<times> SipTxnKey) option" where
  "SearchTxnKey user bCheckRSeq keys =
     (if keys = [] then Some (None, user)
      else
        let nStoredRules = m_nRules user;
            user = SetRules RULE_COMPARE_TO_TAG user;
            user = (if bCheckRSeq then AddRule RULE_COMPARE_RSEQ user else user)
        in case search_loop user keys 0 of
             None \<Rightarrow> None
           | Some r \<Rightarrow> Some (r, SetRules nStoredRules user))"

definition AddTxnKey :: "SipTxnKey \<Rightarrow> SipTxnKey list \<Rightarrow> SipTxnKey list" where
  "AddTxnKey k keys = keys @ [k]"

function delete_loop :: "SipTxnKey \<Rightarrow> SipTxnKey list \<Rightarrow> nat \<Rightarrow> SipTxnKey list" where
  "delete_loop user keys nIndex =
     (if nIndex < length keys then
        (if IsTxnKeyMatched user (keys ! nIndex) then
           delete_loop user (remove_nth nIndex keys) nIndex
         else delete_loop user keys (nIndex + 1))
      else keys)"
  by pat_completeness auto
termination
  by (relation "measure (\<lambda>(user, keys, i). length keys - i)") (auto simp: length_remove_nth)

declare delete_loop.simps [simp del]

definition DeleteTxnKey ::
    "SipTxnKey option \<Rightarrow> bool \<Rightarrow> SipTxnKey list \<Rightarrow> bool \<times> SipTxnKey option \<times> SipTxnKey list" where
  "DeleteTxnKey pUserTxnkey bCheckToTag keys =
     (case pUserTxnkey of
        None \<Rightarrow> (False, pUserTxnkey, keys)
      | Some user \<Rightarrow>
          if keys = [] then (False, pUserTxnkey, keys)
          else
            let nStoredRules = m_nRules user;
                user = SetRules RULE_NONE user;
                user = (if bCheckToTag then AddRule RULE_COMPARE_TO_TAG user else user);
                keys = delete_loop user keys 0
            in (True, Some (SetRules nStoredRules user), keys))"

declare search_loop.simps [code]

subsection \<open>What the search finds\<close>

lemma SetRules_restore [simp]:
  "SetRules (m_nRules k) (SetRules r k) = k"
  "SetRules (m_nRules k) (AddRule r' (SetRules r k)) = k"
  by (simp_all add: SetRules_def AddRule_def)

text \<open>The keys a search with and without the RSeq looks for.\<close>

definition search_matches :: "bool \<Rightarrow> SipTxnKey \<Rightarrow> SipTxnKey \<Rightarrow> bool" where
  "search_matches bCheckRSeq user k \<longleftrightarrow>
     m_pszMethod k = INVITE_METHOD \<and> m_pszCallId user \<noteq> None \<and> m_pszCallId k = m_pszCallId user \<and>
     same_nocase (m_pszFromTag k) (m_pszFromTag user) \<and>
     compatible_tags (m_pszToTag k) (m_pszToTag user) \<and>
     (bCheckRSeq \<longrightarrow> compatible_rseq (m_nRSeqNum k) (m_nRSeqNum user))"

lemma search_user_matches:
  "CompareKeysForRPR k (Some (if b then AddRule RULE_COMPARE_RSEQ (SetRules RULE_COMPARE_TO_TAG user)
      else SetRules RULE_COMPARE_TO_TAG user)) = search_matches b user k"
  by (simp add: CompareKeysForRPR_iff rpr_matches_def search_matches_def HasRule_def AddRule_def
      SetRules_def)

lemma search_loop_from:
  assumes "length keys < 2 ^ 16" and "unat i \<le> length keys"
  shows "search_loop user keys i =
           Some (map_option (\<lambda>j. unat i + j)
             (find_index (\<lambda>k. CompareKeysForRPR k (Some user)) (drop (unat i) keys)))"
  using assms(2)
proof (induction "length keys - unat i" arbitrary: i)
  case 0
  then show ?case by (subst search_loop.simps) simp
next
  case (Suc n)
  then have lt: "unat i < length keys" by simp
  have "unat (i + 1) = unat i + 1"
    using lt assms(1) by (simp add: unat_word_ariths)
  moreover have "drop (unat i) keys = keys ! unat i # drop (unat i + 1) keys"
    using lt by (simp add: Cons_nth_drop_Suc)
  moreover have "search_loop user keys (i + 1) =
      Some (map_option (\<lambda>j. unat (i + 1) + j)
        (find_index (\<lambda>k. CompareKeysForRPR k (Some user)) (drop (unat (i + 1)) keys)))"
    using Suc calculation lt by (intro Suc.hyps(1)) auto
  ultimately show ?case
    using lt by (subst search_loop.simps) (simp add: option.map_comp comp_def)
qed

lemma SearchTxnKey_find_index:
  assumes "length keys < 2 ^ 16"
  shows "SearchTxnKey user b keys = Some (find_index (search_matches b user) keys, user)"
proof -
  let ?u = "if b then AddRule RULE_COMPARE_RSEQ (SetRules RULE_COMPARE_TO_TAG user)
    else SetRules RULE_COMPARE_TO_TAG user"
  have "search_loop ?u keys 0 = Some (find_index (\<lambda>k. CompareKeysForRPR k (Some ?u)) keys)"
    using search_loop_from [OF assms, of 0 ?u] by (simp add: option.map_ident)
  also have "(\<lambda>k. CompareKeysForRPR k (Some ?u)) = search_matches b user"
    by (rule ext) (rule search_user_matches)
  finally show ?thesis by (auto simp: SearchTxnKey_def Let_def)
qed

subsection \<open>What the deletion removes\<close>

definition delete_matches :: "bool \<Rightarrow> SipTxnKey \<Rightarrow> SipTxnKey \<Rightarrow> bool" where
  "delete_matches bCheckToTag user k \<longleftrightarrow>
     m_pszMethod k = INVITE_METHOD \<and> m_pszCallId user \<noteq> None \<and> m_pszCallId k = m_pszCallId user \<and>
     same_nocase (m_pszFromTag k) (m_pszFromTag user) \<and>
     (bCheckToTag \<longrightarrow> compatible_tags (m_pszToTag k) (m_pszToTag user))"

lemma delete_loop_filter:
  "delete_loop user keys i =
     take i keys @ filter (\<lambda>k. \<not> IsTxnKeyMatched user k) (drop i keys)"
proof (induction user keys i rule: delete_loop.induct)
  case (1 user keys i)
  show ?case
  proof (cases "i < length keys")
    case True
    then have d: "drop i keys = keys ! i # drop (Suc i) keys" by (simp add: Cons_nth_drop_Suc)
    show ?thesis
    proof (cases "IsTxnKeyMatched user (keys ! i)")
      case m: True
      have "take i (remove_nth i keys) = take i keys" "drop i (remove_nth i keys) = drop (Suc i) keys"
        using True by (simp_all add: remove_nth_def)
      with m True 1(1) show ?thesis by (subst delete_loop.simps) (simp add: d)
    next
      case False
      with True 1(2) show ?thesis
        by (subst delete_loop.simps) (simp add: d take_Suc_conv_app_nth)
    qed
  next
    case False
    then show ?thesis by (subst delete_loop.simps) simp
  qed
qed

lemma DeleteTxnKey_filter:
  "DeleteTxnKey (Some user) b keys =
     (keys \<noteq> [], Some user, filter (\<lambda>k. \<not> delete_matches b user k) keys)"
proof -
  let ?u = "if b then AddRule RULE_COMPARE_TO_TAG (SetRules RULE_NONE user) else SetRules RULE_NONE user"
  have "IsTxnKeyMatched ?u k = delete_matches b user k" for k
    by (simp add: IsTxnKeyMatched_def CompareKeysForRPR_iff rpr_matches_def delete_matches_def
        HasRule_def AddRule_def SetRules_def)
  then show ?thesis
    by (auto simp: DeleteTxnKey_def Let_def delete_loop_filter split: if_splits)
qed

lemma DeleteTxnKey_None [simp]: "DeleteTxnKey None b keys = (False, None, keys)"
  by (simp add: DeleteTxnKey_def)

end
