(* ===== verification/Txn_TimerValues.thy ===== *)
theory Txn_TimerValues
  imports Prelude
begin

text \<open>
  \<open>SipTxnTimerValues\<close> (\<open>protocol/sip/txn/SipTxnTimerValues.cpp\<close>): the thirteen timer
  values of a transaction, initialised from \<open>SipConfiguration\<close> and overridden by the
  options of a timer context.
\<close>

unbundle bit_operations_syntax

subsection \<open>Data\<close>

text \<open>The timer enumerators of \<open>SipTxn\<close>.\<close>

abbreviation (input) TIMER_T1 :: u32 where "TIMER_T1 \<equiv> 0"
abbreviation (input) TIMER_T2 :: u32 where "TIMER_T2 \<equiv> 1"
abbreviation (input) TIMER_T4 :: u32 where "TIMER_T4 \<equiv> 2"
abbreviation (input) TIMER_A :: u32 where "TIMER_A \<equiv> 3"
abbreviation (input) TIMER_B :: u32 where "TIMER_B \<equiv> 4"
abbreviation (input) TIMER_D :: u32 where "TIMER_D \<equiv> 6"
abbreviation (input) TIMER_E :: u32 where "TIMER_E \<equiv> 7"
abbreviation (input) TIMER_F :: u32 where "TIMER_F \<equiv> 8"
abbreviation (input) TIMER_G :: u32 where "TIMER_G \<equiv> 9"
abbreviation (input) TIMER_H :: u32 where "TIMER_H \<equiv> 10"
abbreviation (input) TIMER_I :: u32 where "TIMER_I \<equiv> 11"
abbreviation (input) TIMER_J :: u32 where "TIMER_J \<equiv> 12"
abbreviation (input) TIMER_K :: u32 where "TIMER_K \<equiv> 13"
abbreviation (input) TIMER_TYPE_INVALID :: u32 where "TIMER_TYPE_INVALID \<equiv> 15"

text \<open>The option bits.\<close>

abbreviation (input) TV_T1 :: u32 where "TV_T1 \<equiv> 0x0001"
abbreviation (input) TV_T2 :: u32 where "TV_T2 \<equiv> 0x0002"
abbreviation (input) TV_T4 :: u32 where "TV_T4 \<equiv> 0x0004"
abbreviation (input) TV_TIMER_A :: u32 where "TV_TIMER_A \<equiv> 0x0008"
abbreviation (input) TV_TIMER_B :: u32 where "TV_TIMER_B \<equiv> 0x0010"
abbreviation (input) TV_TIMER_D :: u32 where "TV_TIMER_D \<equiv> 0x0020"
abbreviation (input) TV_TIMER_E :: u32 where "TV_TIMER_E \<equiv> 0x0040"
abbreviation (input) TV_TIMER_F :: u32 where "TV_TIMER_F \<equiv> 0x0080"
abbreviation (input) TV_TIMER_G :: u32 where "TV_TIMER_G \<equiv> 0x0100"
abbreviation (input) TV_TIMER_H :: u32 where "TV_TIMER_H \<equiv> 0x0200"
abbreviation (input) TV_TIMER_I :: u32 where "TV_TIMER_I \<equiv> 0x0400"
abbreviation (input) TV_TIMER_J :: u32 where "TV_TIMER_J \<equiv> 0x0800"
abbreviation (input) TV_TIMER_K :: u32 where "TV_TIMER_K \<equiv> 0x1000"
abbreviation (input) TV_ALL :: u32 where "TV_ALL \<equiv> 0x1FFF"

record SipConfiguration =
  bPANIHeaderForACK :: bool
  m_nT1 :: u32
  m_nT2 :: u32
  m_nT4 :: u32
  m_nTimerB :: u32
  m_nTimerD_T3 :: u32
  m_nTimerF_T3 :: u32
  m_nTimerH :: u32
  m_nTimerI_T4 :: u32
  m_nTimerJ_T3 :: u32
  m_nTimerK_T4 :: u32

text \<open>\<open>SipConfiguration::SipConfiguration()\<close>; \<open>DEFAULT_T1\<close> and \<open>DEFAULT_T2\<close> are its macros.\<close>

abbreviation (input) DEFAULT_T1 :: u32 where "DEFAULT_T1 \<equiv> 2000"
abbreviation (input) DEFAULT_T2 :: u32 where "DEFAULT_T2 \<equiv> 16000"

definition SipConfiguration_new :: SipConfiguration where
  "SipConfiguration_new =
     \<lparr>bPANIHeaderForACK = False, m_nT1 = DEFAULT_T1, m_nT2 = DEFAULT_T2, m_nT4 = DEFAULT_T2 + 1000,
      m_nTimerB = 64 * DEFAULT_T1, m_nTimerD_T3 = 64 * DEFAULT_T1, m_nTimerF_T3 = 64 * DEFAULT_T1,
      m_nTimerH = 64 * DEFAULT_T1, m_nTimerI_T4 = DEFAULT_T2 + 1000,
      m_nTimerJ_T3 = 64 * DEFAULT_T1, m_nTimerK_T4 = DEFAULT_T2 + 1000\<rparr>"

record SipTxnTimerValues =
  m_nT1Value :: u32
  m_nT2Value :: u32
  m_nT4Value :: u32
  m_nTimerA_Value :: u32
  m_nTimerB_Value :: u32
  m_nTimerD_Value :: u32
  m_nTimerE_Value :: u32
  m_nTimerF_Value :: u32
  m_nTimerG_Value :: u32
  m_nTimerH_Value :: u32
  m_nTimerI_Value :: u32
  m_nTimerJ_Value :: u32
  m_nTimerK_Value :: u32

subsection \<open>Operations\<close>

definition SipTxnTimerValues_new :: "SipConfiguration \<Rightarrow> SipTxnTimerValues" where
  "SipTxnTimerValues_new c =
     \<lparr>m_nT1Value = m_nT1 c, m_nT2Value = m_nT2 c, m_nT4Value = m_nT4 c,
      m_nTimerA_Value = m_nT1 c, m_nTimerB_Value = m_nTimerB c, m_nTimerD_Value = m_nTimerD_T3 c,
      m_nTimerE_Value = m_nT1 c, m_nTimerF_Value = m_nTimerF_T3 c, m_nTimerG_Value = m_nT1 c,
      m_nTimerH_Value = m_nTimerH c, m_nTimerI_Value = m_nTimerI_T4 c,
      m_nTimerJ_Value = m_nTimerJ_T3 c, m_nTimerK_Value = m_nTimerK_T4 c\<rparr>"

definition SetTimerValue :: "u32 \<Rightarrow> u32 \<Rightarrow> SipTxnTimerValues \<Rightarrow> SipTxnTimerValues" where
  "SetTimerValue t d v =
     (if t = TIMER_T1 then v\<lparr>m_nT1Value := d\<rparr>
      else if t = TIMER_T2 then v\<lparr>m_nT2Value := d\<rparr>
      else if t = TIMER_T4 then v\<lparr>m_nT4Value := d\<rparr>
      else if t = TIMER_A then v\<lparr>m_nTimerA_Value := d\<rparr>
      else if t = TIMER_B then v\<lparr>m_nTimerB_Value := d\<rparr>
      else if t = TIMER_D then v\<lparr>m_nTimerD_Value := d\<rparr>
      else if t = TIMER_E then v\<lparr>m_nTimerE_Value := d\<rparr>
      else if t = TIMER_F then v\<lparr>m_nTimerF_Value := d\<rparr>
      else if t = TIMER_G then v\<lparr>m_nTimerG_Value := d\<rparr>
      else if t = TIMER_H then v\<lparr>m_nTimerH_Value := d\<rparr>
      else if t = TIMER_I then v\<lparr>m_nTimerI_Value := d\<rparr>
      else if t = TIMER_J then v\<lparr>m_nTimerJ_Value := d\<rparr>
      else if t = TIMER_K then v\<lparr>m_nTimerK_Value := d\<rparr>
      else v)"

definition GetTimerValue :: "u32 \<Rightarrow> SipTxnTimerValues \<Rightarrow> u32" where
  "GetTimerValue t v =
     (if t = TIMER_T1 then m_nT1Value v
      else if t = TIMER_T2 then m_nT2Value v
      else if t = TIMER_T4 then m_nT4Value v
      else if t = TIMER_A then m_nTimerA_Value v
      else if t = TIMER_B then m_nTimerB_Value v
      else if t = TIMER_D then m_nTimerD_Value v
      else if t = TIMER_E then m_nTimerE_Value v
      else if t = TIMER_F then m_nTimerF_Value v
      else if t = TIMER_G then m_nTimerG_Value v
      else if t = TIMER_H then m_nTimerH_Value v
      else if t = TIMER_I then m_nTimerI_Value v
      else if t = TIMER_J then m_nTimerJ_Value v
      else if t = TIMER_K then m_nTimerK_Value v
      else 0)"

definition IsTimerSet :: "u32 \<Rightarrow> u32 \<Rightarrow> bool" where
  "IsTimerSet nTimerOptions nType \<longleftrightarrow> nTimerOptions AND nType \<noteq> 0"

definition UpdateSipTimers ::
    "u32 \<Rightarrow> SipTxnTimerValues option \<Rightarrow> SipTxnTimerValues \<Rightarrow> bool \<times> SipTxnTimerValues" where
  "UpdateSipTimers opts ptr v =
     (case ptr of
        None \<Rightarrow> (False, v)
      | Some p \<Rightarrow>
          if \<not> IsTimerSet opts TV_ALL then (False, v)
          else
            let v = (if IsTimerSet opts TV_T1 then SetTimerValue TIMER_T1 (m_nT1Value p) v else v);
                v = (if IsTimerSet opts TV_T2 then SetTimerValue TIMER_T2 (m_nT2Value p) v else v);
                v = (if IsTimerSet opts TV_T4 then SetTimerValue TIMER_T4 (m_nT4Value p) v else v);
                v = (if IsTimerSet opts TV_TIMER_A then SetTimerValue TIMER_A (m_nTimerA_Value p) v else v);
                v = (if IsTimerSet opts TV_TIMER_B then SetTimerValue TIMER_B (m_nTimerB_Value p) v else v);
                v = (if IsTimerSet opts TV_TIMER_D then SetTimerValue TIMER_D (m_nTimerD_Value p) v else v);
                v = (if IsTimerSet opts TV_TIMER_E then SetTimerValue TIMER_E (m_nTimerE_Value p) v else v);
                v = (if IsTimerSet opts TV_TIMER_F then SetTimerValue TIMER_F (m_nTimerF_Value p) v else v);
                v = (if IsTimerSet opts TV_TIMER_G then SetTimerValue TIMER_G (m_nTimerG_Value p) v else v);
                v = (if IsTimerSet opts TV_TIMER_H then SetTimerValue TIMER_H (m_nTimerH_Value p) v else v);
                v = (if IsTimerSet opts TV_TIMER_I then SetTimerValue TIMER_I (m_nTimerI_Value p) v else v);
                v = (if IsTimerSet opts TV_TIMER_J then SetTimerValue TIMER_J (m_nTimerJ_Value p) v else v);
                v = (if IsTimerSet opts TIMER_K then SetTimerValue TIMER_K (m_nTimerK_Value p) v else v)
            in (True, v))"

subsection \<open>Facts\<close>

text \<open>The enumerators that name a timer value.\<close>

definition timer_ids :: "u32 list" where
  "timer_ids = [TIMER_T1, TIMER_T2, TIMER_T4, TIMER_A, TIMER_B, TIMER_D, TIMER_E, TIMER_F,
     TIMER_G, TIMER_H, TIMER_I, TIMER_J, TIMER_K]"

text \<open>The option bits that make \<open>UpdateSipTimers\<close> overwrite a timer.\<close>

definition update_mask :: "u32 \<Rightarrow> u32" where
  "update_mask t =
     (if t = TIMER_T1 then TV_T1 else if t = TIMER_T2 then TV_T2 else if t = TIMER_T4 then TV_T4
      else if t = TIMER_A then TV_TIMER_A else if t = TIMER_B then TV_TIMER_B
      else if t = TIMER_D then TV_TIMER_D else if t = TIMER_E then TV_TIMER_E
      else if t = TIMER_F then TV_TIMER_F else if t = TIMER_G then TV_TIMER_G
      else if t = TIMER_H then TV_TIMER_H else if t = TIMER_I then TV_TIMER_I
      else if t = TIMER_J then TV_TIMER_J
      else TV_T1 OR TV_T4 OR TV_TIMER_A)"

lemma GetTimerValue_Set:
  "t \<in> set timer_ids \<Longrightarrow>
     GetTimerValue t' (SetTimerValue t d v) = (if t' = t then d else GetTimerValue t' v)"
  unfolding timer_ids_def by (auto simp: SetTimerValue_def GetTimerValue_def)

lemma SetTimerValue_other: "t \<notin> set timer_ids \<Longrightarrow> SetTimerValue t d v = v"
  by (simp add: timer_ids_def SetTimerValue_def)

lemma UpdateSipTimers_result:
  "fst (UpdateSipTimers opts ptr v) \<longleftrightarrow> ptr \<noteq> None \<and> opts AND TV_ALL \<noteq> 0"
  by (auto simp: UpdateSipTimers_def IsTimerSet_def Let_def split: option.splits)

lemma GetTimerValue_cond_Set:
  "t \<in> set timer_ids \<Longrightarrow>
     GetTimerValue t' (if b then SetTimerValue t d v else v) =
       (if b \<and> t' = t then d else GetTimerValue t' v)"
  by (simp add: GetTimerValue_Set)

lemma timer_ids_members:
  "TIMER_T1 \<in> set timer_ids" "TIMER_T2 \<in> set timer_ids" "TIMER_T4 \<in> set timer_ids"
  "TIMER_A \<in> set timer_ids" "TIMER_B \<in> set timer_ids" "TIMER_D \<in> set timer_ids"
  "TIMER_E \<in> set timer_ids" "TIMER_F \<in> set timer_ids" "TIMER_G \<in> set timer_ids"
  "TIMER_H \<in> set timer_ids" "TIMER_I \<in> set timer_ids" "TIMER_J \<in> set timer_ids"
  "TIMER_K \<in> set timer_ids"
  by (simp_all add: timer_ids_def)

lemma UpdateSipTimers_snd:
  assumes "opts AND TV_ALL \<noteq> 0"
  shows "GetTimerValue t (snd (UpdateSipTimers opts (Some p) v)) =
           (if IsTimerSet opts TIMER_K \<and> t = TIMER_K then m_nTimerK_Value p
            else if IsTimerSet opts TV_TIMER_J \<and> t = TIMER_J then m_nTimerJ_Value p
            else if IsTimerSet opts TV_TIMER_I \<and> t = TIMER_I then m_nTimerI_Value p
            else if IsTimerSet opts TV_TIMER_H \<and> t = TIMER_H then m_nTimerH_Value p
            else if IsTimerSet opts TV_TIMER_G \<and> t = TIMER_G then m_nTimerG_Value p
            else if IsTimerSet opts TV_TIMER_F \<and> t = TIMER_F then m_nTimerF_Value p
            else if IsTimerSet opts TV_TIMER_E \<and> t = TIMER_E then m_nTimerE_Value p
            else if IsTimerSet opts TV_TIMER_D \<and> t = TIMER_D then m_nTimerD_Value p
            else if IsTimerSet opts TV_TIMER_B \<and> t = TIMER_B then m_nTimerB_Value p
            else if IsTimerSet opts TV_TIMER_A \<and> t = TIMER_A then m_nTimerA_Value p
            else if IsTimerSet opts TV_T4 \<and> t = TIMER_T4 then m_nT4Value p
            else if IsTimerSet opts TV_T2 \<and> t = TIMER_T2 then m_nT2Value p
            else if IsTimerSet opts TV_T1 \<and> t = TIMER_T1 then m_nT1Value p
            else GetTimerValue t v)"
proof -
  have "IsTimerSet opts TV_ALL" using assms by (simp add: IsTimerSet_def)
  then show ?thesis
    unfolding UpdateSipTimers_def Let_def
    by (simp only: option.case if_False not_True_eq_False snd_conv GetTimerValue_cond_Set
        timer_ids_members)
qed

lemma UpdateSipTimers_get:
  assumes "t \<in> set timer_ids" and "opts AND TV_ALL \<noteq> 0"
  shows "GetTimerValue t (snd (UpdateSipTimers opts (Some p) v)) =
           (if opts AND update_mask t \<noteq> 0 then GetTimerValue t p else GetTimerValue t v)"
proof -
  have "t = TIMER_T1 \<or> t = TIMER_T2 \<or> t = TIMER_T4 \<or> t = TIMER_A \<or> t = TIMER_B \<or> t = TIMER_D \<or>
    t = TIMER_E \<or> t = TIMER_F \<or> t = TIMER_G \<or> t = TIMER_H \<or> t = TIMER_I \<or> t = TIMER_J \<or> t = TIMER_K"
    using assms(1) by (simp add: timer_ids_def)
  then show ?thesis
    unfolding UpdateSipTimers_snd [OF assms(2)]
    by (elim disjE) (simp_all add: IsTimerSet_def update_mask_def GetTimerValue_def)
qed

end
