(* ===== verification/Txn_State.thy ===== *)
theory Txn_State
  imports Ims_Map Txn_KeyList Txn_TimerValues
begin

text \<open>
  The state the transaction layer works on. A \<open>SipTxn\<close> object is shared by pointer (the
  pool, the running timers' callbacks, the handler on the stack), so it lives in a heap and
  carries its reference count; the pool, the key list, the running timers and the objects
  the outside provides are the other fields of \<open>stack\<close>.

  Undefined behaviour of the C++ code (a null pointer read, an index outside a table, a cast
  of the wrong kind, a loop that never ends) stops the program here: it is recorded in
  \<open>s_crash\<close>, and the theorems say when it stays \<open>None\<close>.
\<close>

subsection \<open>Objects\<close>

record SipTimerContext =
  pTxnSipTxnTimers :: "SipTxnTimerValues option"
  nTimerOptions :: u32

text \<open>
  A \<open>SipTxnContext\<close> is owned by whoever holds it last; \<open>ctx_id\<close> is its address and
  \<open>ctx_has_state\<close> says that its \<open>pTxnContextData\<close> carries a transaction state of the
  transaction user.
\<close>

record SipTxnContext =
  ctx_id :: nat
  pSipTimerContext :: "SipTimerContext option"
  ctx_has_state :: bool

record ISipUserData =
  m_nMsgOptions :: u32
  m_bDeleteFlag :: bool
  m_pvUserData :: "SipTxnContext option"

definition ISipUserData_new :: "SipTxnContext option \<Rightarrow> ISipUserData" where
  "ISipUserData_new c = \<lparr>m_nMsgOptions = 0, m_bDeleteFlag = False, m_pvUserData = c\<rparr>"

abbreviation (input) PROTOCOL_INVALID :: int where "PROTOCOL_INVALID \<equiv> -1"
abbreviation (input) PROTOCOL_TCP :: int where "PROTOCOL_TCP \<equiv> 0"
abbreviation (input) PROTOCOL_UDP :: int where "PROTOCOL_UDP \<equiv> 1"
abbreviation (input) PROTOCOL_TLS :: int where "PROTOCOL_TLS \<equiv> 2"

record SipTransportParameter =
  m_pHostAddress :: cstr
  m_nPort :: u16
  m_nTranspProtocol :: int

record SipTransportInfo =
  m_pActualDestParam :: "SipTransportParameter option"
  tp_pTranspParam :: "SipTransportParameter option"
  m_pSentBuffer :: "string option"
  m_pSentSipMsg :: "SipMessage option"

record SipTimeoutData =
  td_eTxnType :: txn_type
  td_eTimerType :: u32
  td_pTxnKey :: "SipTxnKey option"

record SipTxn =
  m_nRefCount :: int
  m_eTxnType :: txn_type
  m_pTxnKey :: "SipTxnKey option"
  m_pSipMsg :: "SipMessage option"
  m_pTranspInfo :: "SipTransportInfo option"
  m_pUserData :: "ISipUserData option"
  m_nTxnState :: nat
  m_nReTxCount :: u16
  m_eTimerType :: u32
  m_pvTimerId :: "nat option"
  m_nMaxDuration :: u32
  m_nDurationExpired :: u32
  m_nCurrentDuration :: u32
  objTxnTimerValues :: SipTxnTimerValues

datatype txn_status =
    STATUS_NEW_REQ_RECVD | STATUS_VALID_MESSAGE | STATUS_IGNORE_REQ | STATUS_IGNORE_RESP
  | STATUS_STRAY_RESP | STATUS_RETRANSMISSION | STATUS_ERROR_ON_SEND | STATUS_INVALID_MESSAGE
  | STATUS_2XX_STRAY_RESP | STATUS_STRAY_PRACK | STATUS_INVALID

subsection \<open>The stack\<close>

text \<open>What the layer tells the outside, in order; a context is named by its \<open>ctx_id\<close>.\<close>

datatype event =
    EvSend "string option" "SipTransportParameter option" nat
  | EvNotifyTimerExpired nat
  | EvDestroyCtx nat
  | EvPreProcess SipMessage
  | EvPostProcess SipMessage "string option"

datatype crash = NullDeref | BadCast | BadIndex | UseAfterFree | Hang

text \<open>
  \<open>sip_util\<close> is the singleton \<open>SipUtil\<close>: whether its timer service and listener are set.
  The last fields are the environment: whether the timer service and the network accept the
  next call, the ACK the transaction user builds, the value an uninitialised local holds.
\<close>

record sip_util =
  u_timer :: bool
  u_listener :: bool

record stack =
  s_heap :: "ptr \<Rightarrow> SipTxn"
  s_next :: ptr
  s_pool :: "(u32, (SipTxnKey \<times> ptr) list) ims_map"
  s_txnKeyList :: "SipTxnKey list"
  s_timers :: "nat \<Rightarrow> (u32 \<times> SipTimeoutData) option"
  s_next_timer :: nat
  s_err :: u16
  s_events :: "event list"
  s_crash :: "crash option"
  s_util :: "sip_util option"
  s_config :: SipConfiguration
  s_timer_ok :: bool
  s_net_ok :: bool
  s_create_ack :: "SipTxnContext \<Rightarrow> SipMessage \<Rightarrow> SipMessage option"
  s_garbage :: u16

definition crash :: "crash \<Rightarrow> stack \<Rightarrow> stack" where
  "crash c s = (if s_crash s = None then s\<lparr>s_crash := Some c\<rparr> else s)"

definition emit :: "event \<Rightarrow> stack \<Rightarrow> stack" where
  "emit e s = s\<lparr>s_events := s_events s @ [e]\<rparr>"

definition set_err :: "u16 \<Rightarrow> stack \<Rightarrow> stack" where
  "set_err e s = s\<lparr>s_err := e\<rparr>"

definition upd_txn :: "ptr \<Rightarrow> (SipTxn \<Rightarrow> SipTxn) \<Rightarrow> stack \<Rightarrow> stack" where
  "upd_txn p f s = s\<lparr>s_heap := (s_heap s)(p := f (s_heap s p))\<rparr>"

abbreviation txn :: "stack \<Rightarrow> ptr \<Rightarrow> SipTxn" where
  "txn s p \<equiv> s_heap s p"

subsection \<open>Reference counts\<close>

text \<open>
  \<open>SipRefBase::SipDelete\<close> with the destructor of \<open>SipTxn\<close>, which frees what the object
  owns when the count reaches zero.
\<close>

definition SipTxn_Increment :: "ptr \<Rightarrow> stack \<Rightarrow> stack" where
  "SipTxn_Increment p = upd_txn p (\<lambda>t. t\<lparr>m_nRefCount := m_nRefCount t + 1\<rparr>)"

definition SipTxn_destroy :: "SipTxn \<Rightarrow> SipTxn" where
  "SipTxn_destroy t =
     t\<lparr>m_pTranspInfo := None, m_pUserData := None, m_pTxnKey := None, m_pSipMsg := None\<rparr>"

definition SipTxn_SipDelete :: "ptr \<Rightarrow> stack \<Rightarrow> stack" where
  "SipTxn_SipDelete p =
     upd_txn p (\<lambda>t. let t = t\<lparr>m_nRefCount := m_nRefCount t - 1\<rparr>
                    in if m_nRefCount t = 0 then SipTxn_destroy t else t)"

text \<open>The constructor of \<open>SipTxn\<close>, its result placed at a fresh address.\<close>

definition SipTxn_init :: "SipConfiguration \<Rightarrow> SipTxn" where
  "SipTxn_init c =
     \<lparr>m_nRefCount = 1, m_eTxnType = INVALID_TXN, m_pTxnKey = None, m_pSipMsg = None,
      m_pTranspInfo = None, m_pUserData = None, m_nTxnState = 0, m_nReTxCount = 0,
      m_eTimerType = TIMER_TYPE_INVALID, m_pvTimerId = None, m_nMaxDuration = 0,
      m_nDurationExpired = 0, m_nCurrentDuration = 0,
      objTxnTimerValues = SipTxnTimerValues_new c\<rparr>"

definition SipTxn_new ::
    "txn_type \<Rightarrow> SipTxnKey \<Rightarrow> SipMessage \<Rightarrow> SipTimerContext option \<Rightarrow> stack \<Rightarrow> ptr \<times> stack" where
  "SipTxn_new ty key msg tctx s =
     (let (k, err) = SipTxnKey_copy (Some key) (s_err s);
          t = (SipTxn_init (s_config s))\<lparr>m_eTxnType := ty, m_pTxnKey := Some k\<rparr>;
          t = (case tctx of
                 Some c \<Rightarrow>
                   (case pTxnSipTxnTimers c of
                      Some p \<Rightarrow> t\<lparr>objTxnTimerValues :=
                        snd (UpdateSipTimers (nTimerOptions c) (Some p) (objTxnTimerValues t))\<rparr>
                    | None \<Rightarrow> t)
               | None \<Rightarrow> t);
          t = (if err = E_ERR_PF_MALLOCFAILED then t\<lparr>m_pTxnKey := None\<rparr> else t);
          t = t\<lparr>m_pSipMsg := Some msg\<rparr>;
          p = s_next s
      in (p, s\<lparr>s_err := err, s_heap := (s_heap s)(p := t), s_next := p + 1\<rparr>))"

end
