(* ===== verification/Txn_Pool.thy ===== *)
theory Txn_Pool
  imports Txn_State "HOL-Library.Multiset"
begin

text \<open>
  The transaction pool: \<open>SipStackState\<close> (\<open>engine/sipcore/SipStackState.cpp\<close>), its entries
  \<open>SipStackTransaction\<close> and the callbacks of \<open>SipStackTxnLayer.cpp\<close> that the protocol stack
  reaches it through. Transactions are bucketed by the hash of their Call-ID. The locale
  \<open>txn_store\<close> is what the handlers rely on: the pool behaves as one collection of entries
  searched with \<open>CompareKeys\<close>.
\<close>

type_synonym txn_pool = "(u32, (SipTxnKey \<times> ptr) list) ims_map"

abbreviation (input) TXN_OPT_FETCH :: int where "TXN_OPT_FETCH \<equiv> 0"
abbreviation (input) TXN_OPT_CREATE :: int where "TXN_OPT_CREATE \<equiv> 1"
abbreviation (input) TXN_OPT_REMOVE :: int where "TXN_OPT_REMOVE \<equiv> 2"

subsection \<open>Operations\<close>

definition pool_key :: "SipTxnKey \<Rightarrow> u32" where
  "pool_key k = GetHashCode (m_pszCallId k)"

definition FindTransaction :: "SipTxnKey \<Rightarrow> txn_pool \<Rightarrow> (SipTxnKey \<times> ptr) option" where
  "FindTransaction pKey pool =
     (let nKeyIndex = ImsMap_GetIndexOfKey (pool_key pKey) pool
      in if nKeyIndex < 0 then None
         else
           let objTransactions = ImsMap_GetValueAt (nat nKeyIndex) pool
           in case find_index (\<lambda>e. CompareKeys (fst e) (Some pKey)) objTransactions of
                None \<Rightarrow> None
              | Some i \<Rightarrow> Some (objTransactions ! i))"

definition AddTransaction_pool :: "SipTxnKey \<Rightarrow> ptr \<Rightarrow> txn_pool \<Rightarrow> txn_pool" where
  "AddTransaction_pool pKey pTxn pool =
     (let nKey = pool_key pKey;
          nKeyIndex = ImsMap_GetIndexOfKey nKey pool
      in if nKeyIndex \<ge> 0 then
           ImsMap_SetValueAt (nat nKeyIndex)
             (ImsMap_GetValueAt (nat nKeyIndex) pool @ [(pKey, pTxn)]) pool
         else ImsMap_Add nKey [(pKey, pTxn)] pool)"

definition RemoveTransaction ::
    "SipTxnKey \<Rightarrow> int \<Rightarrow> txn_pool \<Rightarrow> (SipTxnKey \<times> ptr) option \<times> txn_pool" where
  "RemoveTransaction pKey nOption pool =
     (let nKeyIndex = ImsMap_GetIndexOfKey (pool_key pKey) pool
      in if nKeyIndex < 0 then (None, pool)
         else
           let objTransactions = ImsMap_GetValueAt (nat nKeyIndex) pool
           in case find_index (\<lambda>e. CompareKeys (fst e) (Some pKey)) objTransactions of
                None \<Rightarrow> (None, pool)
              | Some i \<Rightarrow>
                  if nOption = TXN_OPT_REMOVE then
                    let rest = remove_nth i objTransactions
                    in (Some (objTransactions ! i),
                        if rest = [] then ImsMap_RemoveAt (nat nKeyIndex) pool
                        else ImsMap_SetValueAt (nat nKeyIndex) rest pool)
                  else (Some (objTransactions ! i), pool))"

definition GetTransactionCount :: "txn_pool \<Rightarrow> nat" where
  "GetTransactionCount pool = foldl (\<lambda>n e. n + length (snd e)) 0 pool"

text \<open>
  The operations on the state. The entry takes a reference on the transaction; the key of
  an entry is reached through the entry's transaction. A null key is read by the hash.
\<close>

definition AddTransaction :: "SipTxnKey \<Rightarrow> ptr \<Rightarrow> stack \<Rightarrow> stack" where
  "AddTransaction pKey pTxn s =
     (let s = SipTxn_Increment pTxn s
      in s\<lparr>s_pool := AddTransaction_pool pKey pTxn (s_pool s)\<rparr>)"

text \<open>
  \<open>FetchTransaction\<close> through \<open>Sip_Cbk_FetchTransaction\<close>: the answer and the transaction
  pointer after the call, given the one before it.
\<close>

definition FetchTransaction ::
    "SipTxnKey option \<Rightarrow> int \<Rightarrow> ptr option \<Rightarrow> stack \<Rightarrow> bool \<times> ptr option \<times> stack" where
  "FetchTransaction pKey nOption pTxn s =
     (case pKey of
        None \<Rightarrow> (False, pTxn, crash NullDeref s)
      | Some k \<Rightarrow>
          (case FindTransaction k (s_pool s) of
             None \<Rightarrow>
               if nOption = TXN_OPT_CREATE then
                 (case pTxn of
                    None \<Rightarrow> (False, pTxn, crash NullDeref s)
                  | Some p \<Rightarrow> (True, pTxn, AddTransaction k p s))
               else (False, pTxn, s)
           | Some (k', q) \<Rightarrow> (True, Some q, s)))"

definition ReleaseTransaction ::
    "SipTxnKey \<Rightarrow> int \<Rightarrow> stack \<Rightarrow> bool \<times> (SipTxnKey \<times> ptr) option \<times> stack" where
  "ReleaseTransaction pKey nOption s =
     (case RemoveTransaction pKey nOption (s_pool s) of
        (None, _) \<Rightarrow> (False, None, s)
      | (Some (k, p), pool) \<Rightarrow>
          if nOption = TXN_OPT_REMOVE then
            (True, Some (k, p), SipTxn_SipDelete p (s\<lparr>s_pool := pool\<rparr>))
          else (True, None, s))"

text \<open>A write through a pointer to the key that a pool entry holds.\<close>

definition pool_upd_key :: "ptr \<Rightarrow> (SipTxnKey \<Rightarrow> SipTxnKey) \<Rightarrow> txn_pool \<Rightarrow> txn_pool" where
  "pool_upd_key p f pool =
     map (\<lambda>(h, l). (h, map (\<lambda>(k, q). (if q = p then f k else k, q)) l)) pool"

subsection \<open>The pool as one collection\<close>

definition pool_entries :: "txn_pool \<Rightarrow> (SipTxnKey \<times> ptr) list" where
  "pool_entries pool = concat (map snd pool)"

definition bucket_ok :: "u32 \<Rightarrow> (SipTxnKey \<times> ptr) list \<Rightarrow> bool" where
  "bucket_ok h l \<longleftrightarrow> l \<noteq> [] \<and> (\<forall>e\<in>set l. pool_key (fst e) = h)"

definition pool_wf :: "txn_pool \<Rightarrow> bool" where
  "pool_wf pool \<longleftrightarrow> ImsMap_inv pool \<and> (\<forall>b\<in>set pool. bucket_ok (fst b) (snd b))"

lemma CompareKeys_pool_key: "CompareKeys k (Some g) \<Longrightarrow> pool_key k = pool_key g"
  by (simp add: CompareKeys_iff txn_matches_def pool_key_def)

text \<open>
  The contract: a store of entries searched with a match predicate, from which the search
  and the removal take the same entry.
\<close>

locale txn_store =
  fixes entries :: "'m \<Rightarrow> ('k \<times> 'p) list"
    and find :: "'k \<Rightarrow> 'm \<Rightarrow> ('k \<times> 'p) option"
    and ins :: "'k \<Rightarrow> 'p \<Rightarrow> 'm \<Rightarrow> 'm"
    and rem :: "'k \<Rightarrow> 'm \<Rightarrow> ('k \<times> 'p) option \<times> 'm"
    and matches :: "'k \<Rightarrow> 'k \<Rightarrow> bool"
    and wf :: "'m \<Rightarrow> bool"
    and empty :: 'm
  assumes wf_empty: "wf empty"
    and entries_empty: "entries empty = []"
    and find_first: "wf m \<Longrightarrow> find g m = List.find (\<lambda>e. matches (fst e) g) (entries m)"
    and wf_ins: "wf m \<Longrightarrow> wf (ins k p m)"
    and entries_ins: "wf m \<Longrightarrow> mset (entries (ins k p m)) = add_mset (k, p) (mset (entries m))"
    and wf_rem: "wf m \<Longrightarrow> wf (snd (rem g m))"
    and rem_find: "wf m \<Longrightarrow> fst (rem g m) = find g m"
    and entries_rem: "wf m \<Longrightarrow> mset (entries (snd (rem g m))) =
          mset (entries m) - (case find g m of None \<Rightarrow> {#} | Some e \<Rightarrow> {#e#})"
begin

lemma find_SomeD:
  assumes "wf m" and "find g m = Some e"
  shows "e \<in> set (entries m)" and "matches (fst e) g"
proof -
  have "List.find (\<lambda>e. matches (fst e) g) (entries m) = Some e"
    using assms by (simp add: find_first)
  then show "e \<in> set (entries m)" "matches (fst e) g" by (auto simp: find_Some_iff)
qed

lemma find_None_iff: "wf m \<Longrightarrow> find g m = None \<longleftrightarrow> (\<forall>e\<in>set (entries m). \<not> matches (fst e) g)"
  by (simp only: find_first List.find_None_iff) blast

lemma set_ins: "wf m \<Longrightarrow> set (entries (ins k p m)) = insert (k, p) (set (entries m))"
  using entries_ins [of m k p] by (metis set_mset_add_mset_insert set_mset_mset)

text \<open>A stored entry is found by its own key when nothing before it matched.\<close>

lemma find_ins:
  assumes "wf m" and "matches k k" and "find k m = None"
  shows "find k (ins k p m) = Some (k, p)"
proof -
  have none: "\<forall>e\<in>set (entries m). \<not> matches (fst e) k" using assms find_None_iff by blast
  have "find k (ins k p m) \<noteq> None"
    using assms(1,2) by (subst find_None_iff) (auto simp: wf_ins set_ins)
  then obtain e where e: "find k (ins k p m) = Some e" by blast
  have "e \<in> set (entries (ins k p m))" "matches (fst e) k"
    using find_SomeD [OF wf_ins [OF assms(1)] e] by auto
  with none e show ?thesis by (auto simp: set_ins assms(1))
qed

text \<open>Inserting an entry the searched key does not match changes nothing for that key.\<close>

lemma find_ins_other:
  assumes "wf m" and "\<not> matches k g"
  shows "find g (ins k p m) = None \<longleftrightarrow> find g m = None"
  using assms by (auto simp: find_None_iff wf_ins set_ins)

lemma rem_None: "wf m \<Longrightarrow> find g m = None \<Longrightarrow> mset (entries (snd (rem g m))) = mset (entries m)"
  by (simp add: entries_rem)

lemma size_rem: "wf m \<Longrightarrow> find g m = Some e \<Longrightarrow> length (entries (snd (rem g m))) + 1 = length (entries m)"
  using entries_rem [of m g] find_SomeD(1) [of m g e]
  by (metis Suc_eq_plus1 diff_single_trivial insert_DiffM option.simps(5) set_mset_mset size_add_mset
      size_mset)

lemma set_rem_distinct:
  assumes "wf m" and "distinct (entries m)" and "find g m = Some e"
  shows "set (entries (snd (rem g m))) = set (entries m) - {e}"
proof -
  have "mset (entries (snd (rem g m))) = mset (remove1 e (entries m))"
    using assms entries_rem by (simp add: mset_remove1)
  then have "set (entries (snd (rem g m))) = set (remove1 e (entries m))" by (rule mset_eq_setD)
  with assms(2) show ?thesis by simp
qed

end

subsection \<open>The pool implements the contract\<close>

lemma find_of_index: "List.find P l = map_option (nth l) (find_index P l)"
  by (induction l) (auto simp: option.map_comp comp_def)

lemma SetValueAt_Add:
  "ImsMap_GetIndexOfKey k m \<ge> 0 \<Longrightarrow>
     ImsMap_SetValueAt (nat (ImsMap_GetIndexOfKey k m)) v m = ImsMap_Add k v m"
  by (cases "find_index (\<lambda>e. fst e = k) m")
    (auto simp: ImsMap_SetValueAt_def ImsMap_Add_def ImsMap_GetIndexOfKey_def Let_def
      simp del: find_index_None dest: find_index_SomeD)

lemma RemoveAt_Remove:
  "ImsMap_GetIndexOfKey k m \<ge> 0 \<Longrightarrow>
     ImsMap_RemoveAt (nat (ImsMap_GetIndexOfKey k m)) m = ImsMap_Remove k m"
  by (auto simp: ImsMap_Remove_def Let_def)

lemma lookup_GetValueAt:
  "ImsMap_lookup m k = (if ImsMap_GetIndexOfKey k m < 0 then None
     else Some (ImsMap_GetValueAt (nat (ImsMap_GetIndexOfKey k m)) m))"
  by (simp add: ImsMap_lookup_def Let_def)

lemma FindTransaction_lookup:
  "FindTransaction g pool =
     (case ImsMap_lookup pool (pool_key g) of None \<Rightarrow> None
      | Some l \<Rightarrow> List.find (\<lambda>e. CompareKeys (fst e) (Some g)) l)"
  by (auto simp: FindTransaction_def Let_def lookup_GetValueAt find_of_index simp del: find_index_None
      split: option.splits)

lemma AddTransaction_lookup:
  "AddTransaction_pool k p pool =
     ImsMap_Add (pool_key k)
       ((case ImsMap_lookup pool (pool_key k) of None \<Rightarrow> [] | Some l \<Rightarrow> l) @ [(k, p)]) pool"
  by (auto simp: AddTransaction_pool_def Let_def lookup_GetValueAt SetValueAt_Add)

lemma RemoveTransaction_lookup:
  "RemoveTransaction g TXN_OPT_REMOVE pool =
     (case ImsMap_lookup pool (pool_key g) of None \<Rightarrow> (None, pool)
      | Some l \<Rightarrow>
          (case find_index (\<lambda>e. CompareKeys (fst e) (Some g)) l of None \<Rightarrow> (None, pool)
           | Some i \<Rightarrow> (Some (l ! i),
               if remove_nth i l = [] then ImsMap_Remove (pool_key g) pool
               else ImsMap_Add (pool_key g) (remove_nth i l) pool)))"
  unfolding RemoveTransaction_def Let_def lookup_GetValueAt
  by (auto simp: SetValueAt_Add RemoveAt_Remove simp del: find_index_None split: option.splits)

text \<open>The entries as a multiset, one bucket at a time.\<close>

lemma entries_bucket:
  "ImsMap_inv m \<Longrightarrow>
     mset (pool_entries m) = mset (pool_entries (ImsMap_Remove k m)) +
       mset (case ImsMap_lookup m k of None \<Rightarrow> [] | Some l \<Rightarrow> l)"
proof -
  assume "ImsMap_inv m"
  then have d: "distinct (map fst m)" by (simp add: ImsMap_inv_def)
  then show ?thesis unfolding Remove_filter [OF d] lookup_map_of pool_entries_def
  proof (induction m)
    case (Cons e m)
    then show ?case
      by (cases e) (auto simp: map_of_eq_None_iff [THEN iffD2] filter_id_conv image_iff
          intro!: arg_cong [of _ _ "\<lambda>xs. mset (concat (map snd xs))"] split: option.splits)
  qed simp
qed

lemma Remove_Add: "ImsMap_inv m \<Longrightarrow> ImsMap_Remove k (ImsMap_Add k v m) = ImsMap_Remove k m"
proof (cases "find_index (\<lambda>e. fst e = k) m")
  case None
  assume inv: "ImsMap_inv m"
  from None have k: "k \<notin> fst ` set m" by auto
  let ?n = "length (takeWhile (\<lambda>e. \<not> k < fst e) m)"
  have "ImsMap_Add k v m = take ?n m @ (k, v) # drop ?n m"
    using k by (cases m) (auto simp: ImsMap_Add_def ImsMap_GetOrderOf_def GetIndexOfKey_neg Let_def)
  then have "filter (\<lambda>e. fst e \<noteq> k) (ImsMap_Add k v m) =
      filter (\<lambda>e. fst e \<noteq> k) (take ?n m @ drop ?n m)"
    by (simp only: filter_append filter.simps fst_conv not_True_eq_False if_False refl simp_thms)
  then show ?thesis
    using inv ims.inv_put [OF inv, of k v] by (simp add: ImsMap_inv_def Remove_filter)
next
  case (Some i)
  assume inv: "ImsMap_inv m"
  then have d: "distinct (map fst m)" by (simp add: ImsMap_inv_def)
  have i: "i < length m" "fst (m ! i) = k" using find_index_SomeD [OF Some] by auto
  have "filter (\<lambda>e. fst e \<noteq> k) (m[i := (k, v)]) = filter (\<lambda>e. fst e \<noteq> k) m"
    using i arg_cong [OF id_take_nth_drop [OF i(1)], of "filter (\<lambda>e. fst e \<noteq> k)"]
    by (simp add: upd_conv_take_nth_drop)
  moreover have "ImsMap_Add k v m = m[i := (k, v)]"
    using Some by (simp add: ImsMap_Add_def ImsMap_GetIndexOfKey_def Let_def)
  ultimately show ?thesis
    using inv d ims.inv_put [OF inv, of k v] by (simp add: ImsMap_inv_def Remove_filter)
qed

lemma entries_Add:
  "ImsMap_inv m \<Longrightarrow>
     mset (pool_entries (ImsMap_Add k l m)) = mset (pool_entries (ImsMap_Remove k m)) + mset l"
  using entries_bucket [of "ImsMap_Add k l m" k]
  by (simp add: ims.inv_put ims.lookup_put Remove_Add)

lemma pool_wf_iff:
  "pool_wf pool \<longleftrightarrow>
     ImsMap_inv pool \<and> (\<forall>h l. ImsMap_lookup pool h = Some l \<longrightarrow> bucket_ok h l)"
proof -
  have "ImsMap_inv pool \<Longrightarrow> ImsMap_lookup pool h = Some l \<longleftrightarrow> (h, l) \<in> set pool" for h l
    by (simp add: ImsMap_inv_def lookup_map_of map_of_eq_Some_iff)
  then show ?thesis unfolding pool_wf_def by fastforce
qed

lemma pool_wf_ImsMap: "pool_wf pool \<Longrightarrow> ImsMap_inv pool"
  by (simp add: pool_wf_def)

lemma find_concat:
  assumes "distinct (map fst m)" and "\<forall>(h, l)\<in>set m. \<forall>e\<in>set l. P e \<longrightarrow> h = k"
  shows "List.find P (concat (map snd m)) =
           (case map_of m k of None \<Rightarrow> None | Some l \<Rightarrow> List.find P l)"
  using assms
proof (induction m)
  case Nil
  then show ?case by simp
next
  case (Cons b m)
  obtain h l where b: "b = (h, l)" by (cases b)
  have app: "List.find P (l @ xs) = (case List.find P l of None \<Rightarrow> List.find P xs | Some x \<Rightarrow> Some x)"
    for xs by (induction l) auto
  have IH: "List.find P (concat (map snd m)) =
      (case map_of m k of None \<Rightarrow> None | Some l \<Rightarrow> List.find P l)"
    using Cons by auto
  show ?case
  proof (cases "h = k")
    case True
    then have "map_of m k = None" using Cons.prems(1) b by (auto simp: map_of_eq_None_iff)
    with IH True b show ?thesis by (auto simp: app split: option.splits)
  next
    case False
    then have "List.find P l = None" using Cons.prems(2) b by (auto simp: List.find_None_iff)
    with IH False b show ?thesis by (simp add: app)
  qed
qed

lemma pool_find_first:
  assumes "pool_wf pool"
  shows "FindTransaction g pool = List.find (\<lambda>e. CompareKeys (fst e) (Some g)) (pool_entries pool)"
proof -
  have d: "distinct (map fst pool)" using assms by (simp add: pool_wf_def ImsMap_inv_def)
  have "\<forall>(h, l)\<in>set pool. \<forall>e\<in>set l. CompareKeys (fst e) (Some g) \<longrightarrow> h = pool_key g"
    using assms CompareKeys_pool_key by (fastforce simp: pool_wf_def bucket_ok_def)
  from find_concat [OF d this] show ?thesis
    by (simp add: FindTransaction_lookup lookup_map_of pool_entries_def)
qed

lemma pool_wf_add: "pool_wf pool \<Longrightarrow> pool_wf (AddTransaction_pool k p pool)"
  unfolding pool_wf_iff AddTransaction_lookup
  by (cases "ImsMap_lookup pool (pool_key k)")
    (auto simp: ims.inv_put ims.lookup_put bucket_ok_def split: if_splits)

lemma entries_add:
  assumes "pool_wf pool"
  shows "mset (pool_entries (AddTransaction_pool k p pool)) = add_mset (k, p) (mset (pool_entries pool))"
proof -
  have inv: "ImsMap_inv pool" using assms by (rule pool_wf_ImsMap)
  show ?thesis
    unfolding AddTransaction_lookup entries_Add [OF inv]
    using entries_bucket [OF inv, of "pool_key k"] by (simp add: ac_simps)
qed

lemma pool_wf_remove: "pool_wf pool \<Longrightarrow> pool_wf (snd (RemoveTransaction g TXN_OPT_REMOVE pool))"
proof -
  assume wf: "pool_wf pool"
  then have inv: "ImsMap_inv pool" by (rule pool_wf_ImsMap)
  show ?thesis
  proof (cases "ImsMap_lookup pool (pool_key g)")
    case None
    with wf show ?thesis by (simp add: RemoveTransaction_lookup)
  next
    case (Some l)
    have "bucket_ok (pool_key g) (remove_nth i l)" if "remove_nth i l \<noteq> []" for i
      using wf Some that set_remove_nth_subset [of i l] unfolding pool_wf_iff bucket_ok_def by blast
    with wf Some show ?thesis
      by (auto simp: RemoveTransaction_lookup pool_wf_iff ims.inv_put ims.inv_del ims.lookup_put
          ims.lookup_del inv simp del: find_index_None split: option.splits if_splits)
  qed
qed

lemma remove_find: "fst (RemoveTransaction g TXN_OPT_REMOVE pool) = FindTransaction g pool"
  by (auto simp: RemoveTransaction_lookup FindTransaction_lookup find_of_index
      simp del: find_index_None split: option.splits)

lemma mset_remove_nth: "i < length l \<Longrightarrow> mset (remove_nth i l) = mset l - {#l ! i#}"
  unfolding remove_nth_def by (subst (3) id_take_nth_drop) auto

lemma entries_remove:
  assumes "pool_wf pool"
  shows "mset (pool_entries (snd (RemoveTransaction g TXN_OPT_REMOVE pool))) =
           mset (pool_entries pool) - (case FindTransaction g pool of None \<Rightarrow> {#} | Some e \<Rightarrow> {#e#})"
proof -
  have inv: "ImsMap_inv pool" using assms by (rule pool_wf_ImsMap)
  show ?thesis
  proof (cases "ImsMap_lookup pool (pool_key g)")
    case None
    then show ?thesis by (simp add: RemoveTransaction_lookup FindTransaction_lookup)
  next
    case (Some l)
    show ?thesis
    proof (cases "find_index (\<lambda>e. CompareKeys (fst e) (Some g)) l")
      case None
      with Some show ?thesis
        by (simp add: RemoveTransaction_lookup FindTransaction_lookup find_of_index
            del: find_index_None)
    next
      case i: (Some i)
      have lt: "i < length l" using i by (rule find_index_less)
      then have mem: "l ! i \<in># mset l" by simp
      have old: "mset (pool_entries pool) =
          mset (pool_entries (ImsMap_Remove (pool_key g) pool)) + mset l"
        using entries_bucket [OF inv, of "pool_key g"] Some by simp
      have "mset (pool_entries (snd (RemoveTransaction g TXN_OPT_REMOVE pool))) =
          mset (pool_entries (ImsMap_Remove (pool_key g) pool)) + mset (remove_nth i l)"
        using Some i by (auto simp: RemoveTransaction_lookup entries_Add [OF inv])
      then show ?thesis
        using Some i lt mem
        by (simp add: old FindTransaction_lookup find_of_index mset_remove_nth)
    qed
  qed
qed

interpretation txn_db: txn_store pool_entries FindTransaction AddTransaction_pool
  "\<lambda>g. RemoveTransaction g TXN_OPT_REMOVE" "\<lambda>k g. CompareKeys k (Some g)" pool_wf "[]"
proof unfold_locales
  show "pool_wf []" by (simp add: pool_wf_def ImsMap_inv_def)
  show "pool_entries [] = []" by (simp add: pool_entries_def)
qed (simp_all add: pool_find_first pool_wf_add entries_add pool_wf_remove remove_find entries_remove)

end
