(* ===== verification/Txn_Object.thy ===== *)
theory Txn_Object
  imports Txn_Pool
begin

text \<open>
  The operations of \<open>SipTxn\<close> (\<open>protocol/sip/txn/SipTxn.cpp\<close>) that the state machines and
  the handlers call, with the services behind them: the timer service
  (\<open>SipDefTimerUtil\<close>, \<open>SipTransactionTimer\<close>), the network (\<open>SipNetworkUtil\<close>) and the
  listener (\<open>SipTxnListenerProxy\<close>) of \<open>engine/sipcore/SipStack.cpp\<close> and
  \<open>SipStackTxnLayer.cpp\<close>.

  Starting a timer of duration 0 calls \<open>CbkTxnTimeout\<close> at once. That function runs a state
  machine, so it is a parameter \<open>cbk\<close> here and in the state machines; the theory of the
  timeout callback ties the knot.
\<close>

type_synonym timeout_cbk = "SipTimeoutData \<Rightarrow> nat option \<Rightarrow> stack \<Rightarrow> stack"

subsection \<open>Timers\<close>

definition SipTimeoutData_new :: "SipTxn \<Rightarrow> u32 \<Rightarrow> u16 \<Rightarrow> SipTimeoutData" where
  "SipTimeoutData_new t eTimerType garbage =
     (let (k, nError) = SipTxnKey_copy (m_pTxnKey t) garbage
      in \<lparr>td_eTxnType = m_eTxnType t, td_eTimerType = eTimerType,
          td_pTxnKey = (if nError = E_ERR_PF_MALLOCFAILED then None else Some k)\<rparr>)"

definition StartTimer :: "ptr \<Rightarrow> u32 \<Rightarrow> SipTimeoutData \<Rightarrow> stack \<Rightarrow> bool \<times> stack" where
  "StartTimer p nDuration td s =
     (if \<not> s_timer_ok s then (False, s)
      else
        let i = s_next_timer s;
            s = s\<lparr>s_timers := (s_timers s)(i := Some (nDuration, td)), s_next_timer := i + 1\<rparr>
        in (True, upd_txn p (\<lambda>t. t\<lparr>m_pvTimerId := Some i\<rparr>) s))"

text \<open>
  \<open>StopTimerEx\<close> stops and deletes the timer object of a handle, which must be one.
\<close>

definition StopTimerEx :: "nat \<Rightarrow> stack \<Rightarrow> stack" where
  "StopTimerEx i s =
     (case s_timers s i of
        None \<Rightarrow> crash UseAfterFree s
      | Some _ \<Rightarrow> s\<lparr>s_timers := (s_timers s)(i := None)\<rparr>)"

definition StartTxnTimer :: "timeout_cbk \<Rightarrow> ptr \<Rightarrow> u32 \<Rightarrow> u32 \<Rightarrow> stack \<Rightarrow> bool \<times> stack" where
  "StartTxnTimer cbk p eTimerType nDuration s =
     (let td = SipTimeoutData_new (txn s p) eTimerType (s_garbage s)
      in if nDuration > 0 then
           (case s_util s of
              None \<Rightarrow> (False, s)
            | Some u \<Rightarrow>
                if \<not> u_timer u then (False, s)
                else
                  (case StartTimer p nDuration td s of
                     (False, s) \<Rightarrow> (False, s)
                   | (True, s) \<Rightarrow>
                       (True, upd_txn p (\<lambda>t. t\<lparr>m_eTimerType := eTimerType,
                                                m_nCurrentDuration := nDuration\<rparr>) s)))
         else
           let s = upd_txn p (\<lambda>t. t\<lparr>m_eTimerType := eTimerType, m_nCurrentDuration := nDuration,
                                      m_pvTimerId := None\<rparr>) s
           in (True, cbk td None s))"

definition StopTxnTimer :: "ptr \<Rightarrow> stack \<Rightarrow> bool \<times> stack" where
  "StopTxnTimer p s =
     (case m_pvTimerId (txn s p) of
        None \<Rightarrow> (True, s)
      | Some i \<Rightarrow>
          (case s_util s of
             None \<Rightarrow> (False, s)
           | Some u \<Rightarrow>
               if \<not> u_timer u then (False, s)
               else (True, upd_txn p (\<lambda>t. t\<lparr>m_pvTimerId := None\<rparr>) (StopTimerEx i s))))"

definition AbortTxn :: "ptr \<Rightarrow> stack \<Rightarrow> bool \<times> stack" where
  "AbortTxn p s =
     (case s_util s of
        None \<Rightarrow> (False, s)
      | Some u \<Rightarrow>
          (case m_pvTimerId (txn s p) of
             None \<Rightarrow> (True, s)
           | Some i \<Rightarrow>
               if \<not> u_timer u then (False, crash NullDeref s)
               else (True, upd_txn p (\<lambda>t. t\<lparr>m_pvTimerId := None\<rparr>) (StopTimerEx i s))))"

subsection \<open>Fields of the transaction\<close>

definition SetTxnState :: "nat \<Rightarrow> ptr \<Rightarrow> stack \<Rightarrow> stack" where
  "SetTxnState st p = upd_txn p (\<lambda>t. t\<lparr>m_nTxnState := st\<rparr>)"

definition SetMaxDuration :: "u32 \<Rightarrow> ptr \<Rightarrow> stack \<Rightarrow> stack" where
  "SetMaxDuration d p = upd_txn p (\<lambda>t. t\<lparr>m_nMaxDuration := d\<rparr>)"

definition SetCurrentDuration :: "u32 \<Rightarrow> ptr \<Rightarrow> stack \<Rightarrow> stack" where
  "SetCurrentDuration d p = upd_txn p (\<lambda>t. t\<lparr>m_nCurrentDuration := d\<rparr>)"

definition SetTimerId :: "nat option \<Rightarrow> ptr \<Rightarrow> stack \<Rightarrow> stack" where
  "SetTimerId i p = upd_txn p (\<lambda>t. t\<lparr>m_pvTimerId := i\<rparr>)"

definition IncrTxnCount :: "ptr \<Rightarrow> stack \<Rightarrow> stack" where
  "IncrTxnCount p = upd_txn p (\<lambda>t. t\<lparr>m_nReTxCount := m_nReTxCount t + 1\<rparr>)"

definition IncrDurationExpired :: "u32 \<Rightarrow> ptr \<Rightarrow> stack \<Rightarrow> stack" where
  "IncrDurationExpired d p = upd_txn p (\<lambda>t. t\<lparr>m_nDurationExpired := m_nDurationExpired t + d\<rparr>)"

definition InitRetransmissionInfo :: "ptr \<Rightarrow> stack \<Rightarrow> stack" where
  "InitRetransmissionInfo p =
     upd_txn p (\<lambda>t. t\<lparr>m_nReTxCount := 0, m_nMaxDuration := 0, m_nDurationExpired := 0,
                       m_nCurrentDuration := 0\<rparr>)"

definition SetRespCode :: "u16 \<Rightarrow> ptr \<Rightarrow> stack \<Rightarrow> stack" where
  "SetRespCode c p =
     upd_txn p (\<lambda>t. t\<lparr>m_pTxnKey := map_option (\<lambda>k. k\<lparr>m_nRespCode := c\<rparr>) (m_pTxnKey t)\<rparr>)"

definition UpdateTranspInfo :: "SipTransportInfo \<Rightarrow> ptr \<Rightarrow> stack \<Rightarrow> stack" where
  "UpdateTranspInfo ti p = upd_txn p (\<lambda>t. t\<lparr>m_pTranspInfo := Some ti\<rparr>)"

definition SetUserData :: "ISipUserData option \<Rightarrow> ptr \<Rightarrow> stack \<Rightarrow> bool \<times> stack" where
  "SetUserData pUserData p s =
     (case pUserData of
        None \<Rightarrow> (False, s)
      | Some ud \<Rightarrow> (True, upd_txn p (\<lambda>t. t\<lparr>m_pUserData := Some ud\<rparr>) s))"

text \<open>\<open>GetUserData\<close>: the pointer to the user data a transaction owns is the transaction's.\<close>

definition GetUserData :: "ptr \<Rightarrow> stack \<Rightarrow> ptr option" where
  "GetUserData p s = (if m_pUserData (txn s p) = None then None else Some p)"

definition ud_SetUserData :: "ptr \<Rightarrow> SipTxnContext option \<Rightarrow> stack \<Rightarrow> stack" where
  "ud_SetUserData p c =
     upd_txn p (\<lambda>t. t\<lparr>m_pUserData := map_option (\<lambda>u. u\<lparr>m_pvUserData := c\<rparr>) (m_pUserData t)\<rparr>)"

definition ud_SetDeleteFlag :: "ptr \<Rightarrow> bool \<Rightarrow> stack \<Rightarrow> stack" where
  "ud_SetDeleteFlag p b =
     upd_txn p (\<lambda>t. t\<lparr>m_pUserData := map_option (\<lambda>u. u\<lparr>m_bDeleteFlag := b\<rparr>) (m_pUserData t)\<rparr>)"

definition GetMsgSentProto :: "SipTxn \<Rightarrow> int" where
  "GetMsgSentProto t =
     (case m_pTranspInfo t of
        None \<Rightarrow> PROTOCOL_INVALID
      | Some ti \<Rightarrow>
          (case m_pActualDestParam ti of
             None \<Rightarrow> PROTOCOL_INVALID
           | Some tp \<Rightarrow> m_nTranspProtocol tp))"

abbreviation (input) INV_CLI_TERMINATED_ST :: nat where "INV_CLI_TERMINATED_ST \<equiv> 4"
abbreviation (input) INV_SER_TERMINATED_ST :: nat where "INV_SER_TERMINATED_ST \<equiv> 4"
abbreviation (input) NON_INV_CLI_TERMINATED_ST :: nat where "NON_INV_CLI_TERMINATED_ST \<equiv> 4"
abbreviation (input) NON_INV_SER_TERMINATED_ST :: nat where "NON_INV_SER_TERMINATED_ST \<equiv> 4"

definition IsTxnTerminated :: "SipTxn \<Rightarrow> bool" where
  "IsTxnTerminated t =
     (case m_eTxnType t of
        INV_CLI_TXN \<Rightarrow> m_nTxnState t = INV_CLI_TERMINATED_ST
      | NON_INV_CLI_TXN \<Rightarrow> m_nTxnState t = NON_INV_CLI_TERMINATED_ST
      | INV_SER_TXN \<Rightarrow> m_nTxnState t = INV_SER_TERMINATED_ST
      | NON_INV_SER_TXN \<Rightarrow> m_nTxnState t = NON_INV_SER_TERMINATED_ST
      | INVALID_TXN \<Rightarrow> False)"

subsection \<open>The ACK for a failure response\<close>

definition PrepareACK :: "SipConfiguration \<Rightarrow> SipMessage \<Rightarrow> SipMessage \<Rightarrow> SipMessage" where
  "PrepareACK cfg pSipMsg pSipRespMsg =
     (let ack = SipMessage_new REQ_TYPE;
          ack = (case hdr_call_id pSipMsg of None \<Rightarrow> ack | Some v \<Rightarrow> ack\<lparr>hdr_call_id := Some v\<rparr>);
          ack = (case hdr_from pSipRespMsg of None \<Rightarrow> ack | Some v \<Rightarrow> ack\<lparr>hdr_from := Some v\<rparr>);
          ack = (case m_pReqLine pSipMsg of None \<Rightarrow> ack
                 | Some rl \<Rightarrow> ack\<lparr>m_pReqLine := Some \<lparr>rl_method = ACK_METHOD, rl_uri = rl_uri rl\<rparr>\<rparr>);
          ack = (case hdr_to pSipRespMsg of None \<Rightarrow> ack | Some v \<Rightarrow> ack\<lparr>hdr_to := Some v\<rparr>);
          ack = (case hdr_via pSipMsg of [] \<Rightarrow> ack | v # _ \<Rightarrow> ack\<lparr>hdr_via := [v]\<rparr>);
          ack = (case hdr_cseq pSipMsg of None \<Rightarrow> ack
                 | Some c \<Rightarrow> ack\<lparr>hdr_cseq := Some (c\<lparr>cseq_method := Some ''ACK''\<rparr>)\<rparr>);
          ack = ack\<lparr>hdr_max_forwards := Some ''70''\<rparr>;
          ack = (case hdr_user_agent pSipMsg of None \<Rightarrow> ack
                 | Some v \<Rightarrow> ack\<lparr>hdr_user_agent := Some v\<rparr>);
          ack = (if bPANIHeaderForACK cfg then
                   (case hdr_pani pSipMsg of None \<Rightarrow> ack | Some v \<Rightarrow> ack\<lparr>hdr_pani := Some v\<rparr>)
                 else ack);
          ack = (if hdr_route pSipMsg = [] then ack else ack\<lparr>hdr_route := hdr_route pSipMsg\<rparr>)
      in ack)"

subsection \<open>The network, the transaction user and the listener\<close>

text \<open>
  \<open>SipNetworkUtil::SendToNetwork\<close> finds the transaction user through the user data; whether
  its socket accepts the buffer is the environment's.
\<close>

definition SendToNetwork ::
    "string option \<Rightarrow> SipTransportParameter option \<Rightarrow> ISipUserData option \<Rightarrow> stack \<Rightarrow> bool \<times> stack" where
  "SendToNetwork pTransportBuffer pTransportParam pUserData s =
     (case pUserData of
        None \<Rightarrow> (False, s)
      | Some ud \<Rightarrow>
          (case m_pvUserData ud of
             None \<Rightarrow> (False, s)
           | Some c \<Rightarrow>
               if \<not> ctx_has_state c then (False, s)
               else if pTransportBuffer = None then (False, crash NullDeref s)
               else if \<not> s_net_ok s then (False, s)
               else (True, emit (EvSend pTransportBuffer pTransportParam (ctx_id c)) s)))"

definition user_data :: "ptr option \<Rightarrow> stack \<Rightarrow> ISipUserData option" where
  "user_data pUserData s = (case pUserData of None \<Rightarrow> None | Some p \<Rightarrow> m_pUserData (txn s p))"

text \<open>
  \<open>Sip_Cbk_CreateAckRequest\<close> reads the user data without a null check and asks the
  transaction user for the ACK.
\<close>

definition CreateAckRequest :: "SipMessage \<Rightarrow> ptr option \<Rightarrow> stack \<Rightarrow> SipMessage option \<times> stack" where
  "CreateAckRequest pvRespMsg pUserData s =
     (case user_data pUserData s of
        None \<Rightarrow> (None, crash NullDeref s)
      | Some ud \<Rightarrow>
          (case m_pvUserData ud of
             None \<Rightarrow> (None, s)
           | Some c \<Rightarrow> (if ctx_has_state c then s_create_ack s c pvRespMsg else None, s)))"

definition PreProcessMessageSentByStack :: "SipMessage \<Rightarrow> ptr option \<Rightarrow> stack \<Rightarrow> stack" where
  "PreProcessMessageSentByStack pvSipMsg pUserData s =
     (case user_data pUserData s of
        None \<Rightarrow> crash NullDeref s
      | Some ud \<Rightarrow>
          (case m_pvUserData ud of
             None \<Rightarrow> s
           | Some c \<Rightarrow> if ctx_has_state c then emit (EvPreProcess pvSipMsg) s else s))"

definition PostProcessMessageSentByStack ::
    "SipMessage \<Rightarrow> string option \<Rightarrow> ptr option \<Rightarrow> stack \<Rightarrow> stack" where
  "PostProcessMessageSentByStack pvSipMsg pcBuffer pUserData s =
     (case user_data pUserData s of
        None \<Rightarrow> crash NullDeref s
      | Some ud \<Rightarrow>
          (case m_pvUserData ud of
             None \<Rightarrow> s
           | Some c \<Rightarrow> if ctx_has_state c then emit (EvPostProcess pvSipMsg pcBuffer) s else s))"

definition DestroyTxnContext :: "SipTxnContext option \<Rightarrow> stack \<Rightarrow> stack" where
  "DestroyTxnContext pContext s =
     (case pContext of None \<Rightarrow> s | Some c \<Rightarrow> emit (EvDestroyCtx (ctx_id c)) s)"

definition OnTimerExpired :: "ptr option \<Rightarrow> u32 \<Rightarrow> stack \<Rightarrow> stack" where
  "OnTimerExpired pUserData nTimerType s =
     (case pUserData of
        None \<Rightarrow> crash NullDeref s
      | Some p \<Rightarrow>
          (case m_pUserData (txn s p) of
             None \<Rightarrow> crash NullDeref s
           | Some ud \<Rightarrow>
               let pTxnContext = m_pvUserData ud;
                   s = ud_SetUserData p None s
               in if nTimerType = TIMER_D \<or> nTimerType = TIMER_I \<or> nTimerType = TIMER_J \<or>
                     nTimerType = TIMER_K then DestroyTxnContext pTxnContext s
                  else
                    let s = (case pTxnContext of None \<Rightarrow> s
                             | Some c \<Rightarrow> if ctx_has_state c then emit (EvNotifyTimerExpired (ctx_id c)) s
                                         else s)
                    in DestroyTxnContext pTxnContext s))"

definition TxnTerminated :: "ptr option \<Rightarrow> stack \<Rightarrow> stack" where
  "TxnTerminated pUserData s =
     (case pUserData of
        None \<Rightarrow> s
      | Some p \<Rightarrow>
          (case m_pUserData (txn s p) of
             None \<Rightarrow> s
           | Some ud \<Rightarrow>
               if m_bDeleteFlag ud \<and> m_pvUserData ud \<noteq> None then
                 ud_SetUserData p None (DestroyTxnContext (m_pvUserData ud) s)
               else s))"

subsection \<open>Leaving the pool\<close>

definition SipTxn_RemoveFromTxnPool :: "SipTxnKey option \<Rightarrow> stack \<Rightarrow> stack" where
  "SipTxn_RemoveFromTxnPool pTxnKey s =
     (case pTxnKey of
        None \<Rightarrow> crash NullDeref s
      | Some k \<Rightarrow>
          (case ReleaseTransaction k TXN_OPT_REMOVE s of
             (True, Some (_, p), s) \<Rightarrow> SipTxn_SipDelete p s
           | (_, _, s) \<Rightarrow> s))"

definition RemoveFromTxnPool :: "ptr \<Rightarrow> stack \<Rightarrow> stack" where
  "RemoveFromTxnPool p s = SipTxn_RemoveFromTxnPool (m_pTxnKey (txn s p)) s"

end
