(* ===== verification/Txn_Fsm.thy ===== *)
theory Txn_Fsm
  imports Txn_Object
begin

text \<open>
  What the four transaction state machines share: \<open>SipTxnFsmData\<close>, the untyped event data,
  the handler type and the entry of a new transaction into the pool. A transition table is a
  list of rows, one per state, of handlers, one per event, as the C arrays are.
\<close>

record SipTxnFsmData =
  fd_pSipMsgIn :: SipMessage
  fd_pTranspParam :: "SipTransportParameter option"
  fd_pUserData :: "ISipUserData option"
  fd_pSendSipMsg :: "SipMessage option"
  fd_eTxnStatus :: txn_status
  fd_pOutUserData :: "ptr option"
  fd_pTranspInfo :: "SipTransportInfo option"
  fd_bTxnTerminated :: bool
  fd_bTxnCreated :: bool

definition SipTxnFsmData_new ::
    "SipMessage \<Rightarrow> SipTransportParameter option \<Rightarrow> ISipUserData option \<Rightarrow> SipTxnFsmData" where
  "SipTxnFsmData_new pSipMsg pTranspParam pUserData =
     \<lparr>fd_pSipMsgIn = pSipMsg, fd_pTranspParam = pTranspParam, fd_pUserData = pUserData,
      fd_pSendSipMsg = None, fd_eTxnStatus = STATUS_INVALID, fd_pOutUserData = None,
      fd_pTranspInfo = None, fd_bTxnTerminated = False, fd_bTxnCreated = False\<rparr>"

text \<open>
  The \<open>SIP_VOID*\<close> that a handler receives: the data of a message event, of a timeout or a
  transport error. A handler that casts it to the wrong class is undefined.
\<close>

datatype pv_data = PvFsm SipTxnFsmData | PvTimeout SipTimeoutData | PvError int

type_synonym handler = "timeout_cbk \<Rightarrow> ptr \<Rightarrow> pv_data \<Rightarrow> stack \<Rightarrow> bool \<times> pv_data \<times> stack"

definition with_fsm_data ::
    "pv_data \<Rightarrow> stack \<Rightarrow> (SipTxnFsmData \<Rightarrow> bool \<times> pv_data \<times> stack) \<Rightarrow> bool \<times> pv_data \<times> stack" where
  "with_fsm_data pv s f =
     (case pv of PvFsm d \<Rightarrow> f d | _ \<Rightarrow> (False, pv, crash BadCast s))"

lemma with_fsm_data_simps [simp, fsm_eval]:
  "with_fsm_data (PvFsm d) s f = f d"
  "with_fsm_data (PvTimeout td) s f = (False, PvTimeout td, crash BadCast s)"
  "with_fsm_data (PvError e) s f = (False, PvError e, crash BadCast s)"
  by (simp_all add: with_fsm_data_def)

text \<open>The value of a timer of a transaction.\<close>

abbreviation (input) timer_value :: "u32 \<Rightarrow> stack \<Rightarrow> ptr \<Rightarrow> u32" where
  "timer_value ty s p \<equiv> GetTimerValue ty (objTxnTimerValues (txn s p))"

text \<open>
  The first statements of every handler of an idle transaction: copy the key, enter the pool
  with it, take a reference. An entry that already matches replaces the transaction the
  handler works on. The result is the key that was offered and that transaction.
\<close>

definition fsm_enter_pool :: "ptr \<Rightarrow> stack \<Rightarrow> (SipTxnKey \<times> ptr) option \<times> stack" where
  "fsm_enter_pool p s =
     (let (pNewTxnKey, err) = SipTxnKey_copy (m_pTxnKey (txn s p)) (s_err s);
          s = set_err err s
      in if err = E_ERR_PF_MALLOCFAILED then (None, s)
         else
           (case FetchTransaction (Some pNewTxnKey) TXN_OPT_CREATE (Some p) s of
              (True, Some p, s) \<Rightarrow> (Some (pNewTxnKey, p), SipTxn_Increment p s)
            | (_, _, s) \<Rightarrow> (None, s)))"

text \<open>The copy of the caller's user data into the transaction.\<close>

definition fsm_set_user_data :: "SipTxnFsmData \<Rightarrow> ptr \<Rightarrow> stack \<Rightarrow> stack" where
  "fsm_set_user_data d p s =
     (case fd_pUserData d of
        None \<Rightarrow> s
      | Some ud \<Rightarrow> snd (SetUserData (Some (ISipUserData_new (m_pvUserData ud))) p s))"

text \<open>\<open>SipTxnUtil::DeleteTxnKey\<close> on the key of a transaction.\<close>

definition fsm_DeleteTxnKey :: "ptr \<Rightarrow> stack \<Rightarrow> stack" where
  "fsm_DeleteTxnKey p s =
     (let (_, k, keys) = DeleteTxnKey (m_pTxnKey (txn s p)) False (s_txnKeyList s)
      in upd_txn p (\<lambda>t. t\<lparr>m_pTxnKey := k\<rparr>) (s\<lparr>s_txnKeyList := keys\<rparr>))"

text \<open>The status code as the handlers of provisional responses read it.\<close>

definition fsm_status_code :: "SipMessage \<Rightarrow> int" where
  "fsm_status_code m =
     (case m_pStatusLine m of None \<Rightarrow> 0 | Some code \<Rightarrow> snd (SipStatusLine_GetStatusCode code 0))"

definition table_lookup :: "'a list list \<Rightarrow> nat \<Rightarrow> nat \<Rightarrow> 'a option" where
  "table_lookup tbl st ev =
     (if st < length tbl \<and> ev < length (tbl ! st) then Some (tbl ! st ! ev) else None)"

end
