(* ===== verification/Fsm_InvCli.thy ===== *)
theory Fsm_InvCli
  imports Txn_Fsm
begin

text \<open>
  The INVITE client transaction (\<open>protocol/sip/txn/SipTxnInvCliFsm.cpp\<close>), one definition
  per handler and the transition table \<open>gpfSipInvClientTxnFsm\<close>.
\<close>

abbreviation (input) INV_CLI_SEND_INV_REQ_EVT :: nat where "INV_CLI_SEND_INV_REQ_EVT \<equiv> 0"
abbreviation (input) INV_CLI_TIMERA_B_TIME_OUT_EVT :: nat where "INV_CLI_TIMERA_B_TIME_OUT_EVT \<equiv> 1"
abbreviation (input) INV_CLI_TIMERD_TIME_OUT_EVT :: nat where "INV_CLI_TIMERD_TIME_OUT_EVT \<equiv> 2"
abbreviation (input) INV_CLI_RECV_1XX_RESP_EVT :: nat where "INV_CLI_RECV_1XX_RESP_EVT \<equiv> 3"
abbreviation (input) INV_CLI_RECV_2XX_RESP_EVT :: nat where "INV_CLI_RECV_2XX_RESP_EVT \<equiv> 4"
abbreviation (input) INV_CLI_RECV_3XX_6XX_RESP_EVT :: nat where "INV_CLI_RECV_3XX_6XX_RESP_EVT \<equiv> 5"
abbreviation (input) INV_CLI_TRANSP_ERROR_EVT :: nat where "INV_CLI_TRANSP_ERROR_EVT \<equiv> 6"
abbreviation (input) INV_CLI_INVALID_EVT :: nat where "INV_CLI_INVALID_EVT \<equiv> 7"

abbreviation (input) INV_CLI_IDLE_ST :: nat where "INV_CLI_IDLE_ST \<equiv> 0"
abbreviation (input) INV_CLI_CALLING_ST :: nat where "INV_CLI_CALLING_ST \<equiv> 1"
abbreviation (input) INV_CLI_PROCEEDING_ST :: nat where "INV_CLI_PROCEEDING_ST \<equiv> 2"
abbreviation (input) INV_CLI_COMPLETED_ST :: nat where "INV_CLI_COMPLETED_ST \<equiv> 3"

subsection \<open>Handlers\<close>

definition InvCliFsm_NullFxn :: handler where
  "InvCliFsm_NullFxn cbk p pv s = (False, pv, set_err ETXN_FSMEVENTERROR s)"

text \<open>
  \<open>sipInvCli_HandleFailureResp\<close>: the new state and the event data with the ACK, or nothing.
\<close>

definition sipInvCli_HandleFailureResp ::
    "timeout_cbk \<Rightarrow> ptr \<Rightarrow> SipTxnFsmData \<Rightarrow> stack \<Rightarrow> (nat \<times> SipTxnFsmData) option \<times> stack" where
  "sipInvCli_HandleFailureResp cbk p d s =
     (let (ack, s) = CreateAckRequest (fd_pSipMsgIn d) (GetUserData p s) s;
          (ack, s) = (case ack of
              Some m \<Rightarrow> (Some m, s)
            | None \<Rightarrow>
                (case m_pSipMsg (txn s p) of
                   None \<Rightarrow> (None, crash NullDeref s)
                 | Some invite \<Rightarrow> (Some (PrepareACK (s_config s) invite (fd_pSipMsgIn d)), s)))
      in case ack of
           None \<Rightarrow> (None, s)
         | Some m \<Rightarrow>
             if GetMsgSentProto (txn s p) = PROTOCOL_UDP then
               (case StartTxnTimer cbk p TIMER_D (timer_value TIMER_D s p) s of
                  (False, s) \<Rightarrow> (None, s)
                | (True, s) \<Rightarrow> (Some (INV_CLI_COMPLETED_ST, d\<lparr>fd_pSendSipMsg := Some m\<rparr>), s))
             else (Some (INV_CLI_TERMINATED_ST, d\<lparr>fd_pSendSipMsg := Some m\<rparr>), s))"

definition InvCliFsm_IdleStSendInvReqEvt :: handler where
  "InvCliFsm_IdleStSendInvReqEvt cbk p pv s =
     (case fsm_enter_pool p s of
        (None, s) \<Rightarrow> (False, pv, s)
      | (Some (_, p), s) \<Rightarrow>
          with_fsm_data pv s (\<lambda>d.
            case fd_pTranspParam d of
              None \<Rightarrow> (False, pv, crash NullDeref s)
            | Some tp \<Rightarrow>
                let nDurationT1 = timer_value TIMER_T1 s p;
                    nDurationTB = timer_value TIMER_B s p;
                    (ok, s) = (if m_nTranspProtocol tp = PROTOCOL_UDP
                               then StartTxnTimer cbk p TIMER_A nDurationT1 s
                               else StartTxnTimer cbk p TIMER_B nDurationTB s)
                in if \<not> ok then (False, pv, RemoveFromTxnPool p s)
                   else
                     let s = SetMaxDuration nDurationTB p s;
                         s = fsm_set_user_data d p s;
                         d = d\<lparr>fd_pOutUserData := GetUserData p s, fd_bTxnCreated := True\<rparr>;
                         s = SetTxnState INV_CLI_CALLING_ST p s
                     in (True, PvFsm d, s)))"

text \<open>
  The retransmission of an INVITE. \<open>nPow2\<close> is the shift \<open>SIP_ONE << nReTxCount\<close> of the
  \<open>int\<close> 1, so a count above 30 is outside what C defines.
\<close>

definition InvCliFsm_CallingStTimerA_B_TimeoutEvt :: handler where
  "InvCliFsm_CallingStTimerA_B_TimeoutEvt cbk p pv s =
     (let nDurationExpired = m_nDurationExpired (txn s p);
          nT1Val = timer_value TIMER_T1 s p;
          (nDurationExpired, s) =
            (if nDurationExpired = 0 then (nT1Val, IncrDurationExpired nT1Val p s)
             else (nDurationExpired, s));
          nMaxDuration = m_nMaxDuration (txn s p);
          (nDuration, s) =
            (if GetMsgSentProto (txn s p) = PROTOCOL_UDP then
               (if nDurationExpired \<ge> nMaxDuration then (0, SetTxnState INV_CLI_TERMINATED_ST p s)
                else
                  let nReTxCount = m_nReTxCount (txn s p) + 1;
                      nPow2 = (push_bit (unat nReTxCount) 1 :: u32);
                      nDuration = nPow2 * nT1Val
                  in (if nDurationExpired + nDuration \<ge> nMaxDuration
                      then nMaxDuration - nDurationExpired else nDuration, s))
             else (0, SetTxnState INV_CLI_TERMINATED_ST p s))
      in if nDuration > 0 then
           (case StartTxnTimer cbk p TIMER_A nDuration s of
              (False, s) \<Rightarrow> (False, pv, s)
            | (True, s) \<Rightarrow>
                (True, pv, SetCurrentDuration nDuration p
                  (IncrDurationExpired nDuration p (IncrTxnCount p s))))
         else (True, pv, s))"

definition InvCliFsm_CallingStRecv1xxRespEvt :: handler where
  "InvCliFsm_CallingStRecv1xxRespEvt cbk p pv s =
     (let (_, s) = StopTxnTimer p s
      in with_fsm_data pv s (\<lambda>d.
           let d = d\<lparr>fd_pOutUserData := GetUserData p s, fd_eTxnStatus := STATUS_VALID_MESSAGE\<rparr>;
               pMsgIn = fd_pSipMsgIn d;
               s = (if fsm_status_code pMsgIn \<noteq> 100 \<and> HasHeader pMsgIn H_RSEQ then
                      let (pRprTxnKey, err) = SipTxnKey_of_msg pMsgIn (s_err s)
                      in (set_err err s)\<lparr>s_txnKeyList := AddTxnKey pRprTxnKey (s_txnKeyList s)\<rparr>
                    else s)
           in (True, PvFsm d, SetTxnState INV_CLI_PROCEEDING_ST p s)))"

definition InvCliFsm_CallingStRecv2xxRespEvt :: handler where
  "InvCliFsm_CallingStRecv2xxRespEvt cbk p pv s =
     (let (_, s) = StopTxnTimer p s
      in with_fsm_data pv s (\<lambda>d.
           let d = d\<lparr>fd_pOutUserData := GetUserData p s, fd_eTxnStatus := STATUS_VALID_MESSAGE,
                     fd_bTxnTerminated := True\<rparr>
           in (True, PvFsm d, SetTxnState INV_CLI_TERMINATED_ST p s)))"

definition InvCliFsm_RecvFailure :: handler where
  "InvCliFsm_RecvFailure cbk p pv s =
     with_fsm_data pv s (\<lambda>d.
       case sipInvCli_HandleFailureResp cbk p d s of
         (None, s) \<Rightarrow> (False, pv, s)
       | (Some (nNewTxnState, d), s) \<Rightarrow>
           let d = (if nNewTxnState = INV_CLI_TERMINATED_ST then d\<lparr>fd_bTxnTerminated := True\<rparr> else d);
               d = d\<lparr>fd_pOutUserData := GetUserData p s, fd_eTxnStatus := STATUS_VALID_MESSAGE\<rparr>
           in (True, PvFsm d, SetTxnState nNewTxnState p s))"

definition InvCliFsm_CallingStRecv3xx6xxRespEvt :: handler where
  "InvCliFsm_CallingStRecv3xx6xxRespEvt cbk p pv s =
     InvCliFsm_RecvFailure cbk p pv (snd (StopTxnTimer p s))"

definition InvCliFsm_CallingStTranspErrorEvt :: handler where
  "InvCliFsm_CallingStTranspErrorEvt cbk p pv s =
     (True, pv, SetTxnState INV_CLI_TERMINATED_ST p (snd (StopTxnTimer p s)))"

text \<open>
  A provisional response in the Proceeding state: a known RSeq is a retransmission, the
  successor of the known one advances it, any other is a stray response.
\<close>

definition InvCliFsm_ProceedingStRecv1xxRespEvt :: handler where
  "InvCliFsm_ProceedingStRecv1xxRespEvt cbk p pv s =
     with_fsm_data pv s (\<lambda>d.
       let d = d\<lparr>fd_pOutUserData := GetUserData p s, fd_eTxnStatus := STATUS_VALID_MESSAGE\<rparr>;
           pMsgIn = fd_pSipMsgIn d
       in if fsm_status_code pMsgIn \<noteq> 100 \<and> HasHeader pMsgIn H_RSEQ then
            let (pTempTxnKey, err) = SipTxnKey_of_msg pMsgIn (s_err s);
                s = set_err err s
            in case SearchTxnKey pTempTxnKey True (s_txnKeyList s) of
                 None \<Rightarrow> (False, pv, crash Hang s)
               | Some (Some _, _) \<Rightarrow>
                   (True, PvFsm (d\<lparr>fd_eTxnStatus := STATUS_RETRANSMISSION\<rparr>), s)
               | Some (None, pTempTxnKey) \<Rightarrow>
                   (case SearchTxnKey pTempTxnKey False (s_txnKeyList s) of
                      None \<Rightarrow> (False, pv, crash Hang s)
                    | Some (Some i, pTempTxnKey) \<Rightarrow>
                        let nRseq = m_nRSeqNum pTempTxnKey;
                            k = s_txnKeyList s ! i
                        in if m_nRSeqNum k + 1 \<noteq> nRseq then
                             (True, PvFsm (d\<lparr>fd_eTxnStatus := STATUS_STRAY_RESP\<rparr>), s)
                           else
                             (True, PvFsm (d\<lparr>fd_eTxnStatus := STATUS_VALID_MESSAGE\<rparr>),
                              s\<lparr>s_txnKeyList := (s_txnKeyList s)[i := k\<lparr>m_nRSeqNum := nRseq\<rparr>]\<rparr>)
                    | Some (None, pTempTxnKey) \<Rightarrow>
                        (True, PvFsm (d\<lparr>fd_eTxnStatus := STATUS_VALID_MESSAGE\<rparr>),
                         s\<lparr>s_txnKeyList := AddTxnKey pTempTxnKey (s_txnKeyList s)\<rparr>))
          else (True, PvFsm d, s))"

definition InvCliFsm_ProceedingStRecv2xxRespEvt :: handler where
  "InvCliFsm_ProceedingStRecv2xxRespEvt cbk p pv s =
     (let s = fsm_DeleteTxnKey p s
      in with_fsm_data pv s (\<lambda>d.
           let d = d\<lparr>fd_pOutUserData := GetUserData p s, fd_eTxnStatus := STATUS_VALID_MESSAGE,
                     fd_bTxnTerminated := True\<rparr>
           in (True, PvFsm d, SetTxnState INV_CLI_TERMINATED_ST p s)))"

definition InvCliFsm_ProceedingStRecv3xx6xxRespEvt :: handler where
  "InvCliFsm_ProceedingStRecv3xx6xxRespEvt cbk p pv s =
     InvCliFsm_RecvFailure cbk p pv (fsm_DeleteTxnKey p s)"

definition InvCliFsm_ProceedingStTranspErrorEvt :: handler where
  "InvCliFsm_ProceedingStTranspErrorEvt cbk p pv s = (True, pv, SetTxnState INV_CLI_TERMINATED_ST p s)"

definition InvCliFsm_CompletedStTimerD_TimeoutEvt :: handler where
  "InvCliFsm_CompletedStTimerD_TimeoutEvt cbk p pv s =
     (True, pv, SetTxnState INV_CLI_TERMINATED_ST p s)"

definition InvCliFsm_CompletedStRecv1xxRespEvt :: handler where
  "InvCliFsm_CompletedStRecv1xxRespEvt cbk p pv s =
     with_fsm_data pv s (\<lambda>d.
       (True, PvFsm (d\<lparr>fd_pOutUserData := GetUserData p s, fd_eTxnStatus := STATUS_IGNORE_RESP\<rparr>), s))"

definition InvCliFsm_CompletedStRecv3xx6xxRespEvt :: handler where
  "InvCliFsm_CompletedStRecv3xx6xxRespEvt cbk p pv s =
     with_fsm_data pv s (\<lambda>d.
       (True, PvFsm (d\<lparr>fd_eTxnStatus := STATUS_RETRANSMISSION, fd_pOutUserData := GetUserData p s,
                       fd_pTranspInfo := m_pTranspInfo (txn s p)\<rparr>), s))"

definition InvCliFsm_CompletedStTranspErrorEvt :: handler where
  "InvCliFsm_CompletedStTranspErrorEvt cbk p pv s =
     (True, pv, SetTxnState INV_CLI_TERMINATED_ST p (snd (StopTxnTimer p s)))"

subsection \<open>The transition table\<close>

definition gpfSipInvClientTxnFsm :: "handler list list" where
  "gpfSipInvClientTxnFsm =
     [[InvCliFsm_IdleStSendInvReqEvt, InvCliFsm_NullFxn, InvCliFsm_NullFxn, InvCliFsm_NullFxn,
       InvCliFsm_NullFxn, InvCliFsm_NullFxn, InvCliFsm_NullFxn, InvCliFsm_NullFxn],
      [InvCliFsm_NullFxn, InvCliFsm_CallingStTimerA_B_TimeoutEvt, InvCliFsm_NullFxn,
       InvCliFsm_CallingStRecv1xxRespEvt, InvCliFsm_CallingStRecv2xxRespEvt,
       InvCliFsm_CallingStRecv3xx6xxRespEvt, InvCliFsm_CallingStTranspErrorEvt,
       InvCliFsm_NullFxn],
      [InvCliFsm_NullFxn, InvCliFsm_NullFxn, InvCliFsm_NullFxn,
       InvCliFsm_ProceedingStRecv1xxRespEvt, InvCliFsm_ProceedingStRecv2xxRespEvt,
       InvCliFsm_ProceedingStRecv3xx6xxRespEvt, InvCliFsm_ProceedingStTranspErrorEvt,
       InvCliFsm_NullFxn],
      [InvCliFsm_NullFxn, InvCliFsm_NullFxn, InvCliFsm_CompletedStTimerD_TimeoutEvt,
       InvCliFsm_CompletedStRecv1xxRespEvt, InvCliFsm_NullFxn,
       InvCliFsm_CompletedStRecv3xx6xxRespEvt, InvCliFsm_CompletedStTranspErrorEvt,
       InvCliFsm_NullFxn],
      [InvCliFsm_NullFxn, InvCliFsm_NullFxn, InvCliFsm_NullFxn, InvCliFsm_NullFxn,
       InvCliFsm_NullFxn, InvCliFsm_NullFxn, InvCliFsm_NullFxn, InvCliFsm_NullFxn],
      [InvCliFsm_NullFxn, InvCliFsm_NullFxn, InvCliFsm_NullFxn, InvCliFsm_NullFxn,
       InvCliFsm_NullFxn, InvCliFsm_NullFxn, InvCliFsm_NullFxn, InvCliFsm_NullFxn]]"

end
