(* ===== verification/Fsm_InvSer.thy ===== *)
theory Fsm_InvSer
  imports Txn_Fsm
begin

text \<open>
  The INVITE server transaction (\<open>protocol/sip/txn/SipTxnInvSerFsm.cpp\<close>), one definition
  per handler and the transition table \<open>gpfSipInvSerTxnFsm\<close>.
\<close>

abbreviation (input) INV_SER_RECV_INV_REQ_EVT :: nat where "INV_SER_RECV_INV_REQ_EVT \<equiv> 0"
abbreviation (input) INV_SER_SEND_NON_100_PROV_RESP_EVT :: nat
  where "INV_SER_SEND_NON_100_PROV_RESP_EVT \<equiv> 1"
abbreviation (input) INV_SER_SEND_3XX_6XX_FAILURE_RESP_EVT :: nat
  where "INV_SER_SEND_3XX_6XX_FAILURE_RESP_EVT \<equiv> 2"
abbreviation (input) INV_SER_SEND_2XX_SUCCESS_RESP_EVT :: nat
  where "INV_SER_SEND_2XX_SUCCESS_RESP_EVT \<equiv> 3"
abbreviation (input) INV_SER_TRANSP_ERROR_EVT :: nat where "INV_SER_TRANSP_ERROR_EVT \<equiv> 4"
abbreviation (input) INV_SER_RECV_ACK_REQ_EVT :: nat where "INV_SER_RECV_ACK_REQ_EVT \<equiv> 5"
abbreviation (input) INV_SER_TIMER_G_H_TIME_OUT_EVT :: nat where "INV_SER_TIMER_G_H_TIME_OUT_EVT \<equiv> 6"
abbreviation (input) INV_SER_TIMER_I_TIME_OUT_EVT :: nat where "INV_SER_TIMER_I_TIME_OUT_EVT \<equiv> 7"
abbreviation (input) INV_SER_INVALID_EVT :: nat where "INV_SER_INVALID_EVT \<equiv> 8"

abbreviation (input) INV_SER_IDLE_ST :: nat where "INV_SER_IDLE_ST \<equiv> 0"
abbreviation (input) INV_SER_PROCEEDING_ST :: nat where "INV_SER_PROCEEDING_ST \<equiv> 1"
abbreviation (input) INV_SER_COMPLETED_ST :: nat where "INV_SER_COMPLETED_ST \<equiv> 2"
abbreviation (input) INV_SER_CONFIRMED_ST :: nat where "INV_SER_CONFIRMED_ST \<equiv> 3"

subsection \<open>Handlers\<close>

definition InvSerFsm_NullFxn :: handler where
  "InvSerFsm_NullFxn cbk p pv s = (False, pv, s)"

definition InvSerFsm_IdleStRecvInvReqEvt :: handler where
  "InvSerFsm_IdleStRecvInvReqEvt cbk p pv s =
     (case fsm_enter_pool p s of
        (None, s) \<Rightarrow> (False, pv, s)
      | (Some (_, p), s) \<Rightarrow>
          with_fsm_data pv s (\<lambda>d.
            let s = fsm_set_user_data d p s;
                d = d\<lparr>fd_pOutUserData := GetUserData p s, fd_bTxnCreated := True,
                      fd_eTxnStatus := STATUS_NEW_REQ_RECVD\<rparr>
            in (True, PvFsm d, SetTxnState INV_SER_PROCEEDING_ST p s)))"

definition InvSerFsm_ProceedingStRecvInvReqEvt :: handler where
  "InvSerFsm_ProceedingStRecvInvReqEvt cbk p pv s =
     with_fsm_data pv s (\<lambda>d.
       let d = d\<lparr>fd_pOutUserData := GetUserData p s, fd_pTranspInfo := m_pTranspInfo (txn s p)\<rparr>
       in (True, PvFsm (if fd_pTranspInfo d \<noteq> None then d\<lparr>fd_eTxnStatus := STATUS_RETRANSMISSION\<rparr>
                        else d\<lparr>fd_eTxnStatus := STATUS_IGNORE_REQ\<rparr>), s))"

text \<open>
  The three handlers of a response start the same way: stop the timer, forget the keys of
  the provisional responses, reset the retransmission counters.
\<close>

definition InvSerFsm_begin_response :: "ptr \<Rightarrow> stack \<Rightarrow> stack" where
  "InvSerFsm_begin_response p s =
     InitRetransmissionInfo p (fsm_DeleteTxnKey p (snd (StopTxnTimer p s)))"

definition InvSerFsm_ProceedingStSendNon100ProvRespEvt :: handler where
  "InvSerFsm_ProceedingStSendNon100ProvRespEvt cbk p pv s =
     (let s = InvSerFsm_begin_response p s
      in with_fsm_data pv s (\<lambda>d.
           let pMsgIn = fd_pSipMsgIn d;
               nStatusCode = fsm_status_code pMsgIn
           in if nStatusCode > 100 \<and> nStatusCode < 200 \<and> HasHeader pMsgIn H_RSEQ then
                let (k, err) = SipTxnKey_copy (m_pTxnKey (txn s p)) (s_err s);
                    k = k\<lparr>m_nRSeqNum := GetRSeqNum pMsgIn H_RSEQ\<rparr>;
                    s = (set_err err s)\<lparr>s_txnKeyList := AddTxnKey k (s_txnKeyList s)\<rparr>;
                    nDurationT1 = timer_value TIMER_T1 s p;
                    nDurationTH = timer_value TIMER_H s p
                in case StartTxnTimer cbk p TIMER_G nDurationT1 s of
                     (False, s) \<Rightarrow> (False, pv, s)
                   | (True, s) \<Rightarrow>
                       (True, PvFsm (d\<lparr>fd_eTxnStatus := STATUS_VALID_MESSAGE\<rparr>),
                        SetMaxDuration nDurationTH p s)
              else (True, PvFsm (d\<lparr>fd_eTxnStatus := STATUS_VALID_MESSAGE\<rparr>), s)))"

definition InvSerFsm_ProceedingStSend3xx6xxFailureRespEvt :: handler where
  "InvSerFsm_ProceedingStSend3xx6xxFailureRespEvt cbk p pv s =
     (let s = InvSerFsm_begin_response p s;
          nDurationT1 = timer_value TIMER_T1 s p;
          nDurationTH = timer_value TIMER_H s p
      in with_fsm_data pv s (\<lambda>d.
           case fd_pTranspParam d of
             None \<Rightarrow> (False, pv, crash NullDeref s)
           | Some tp \<Rightarrow>
               (case (if m_nTranspProtocol tp = PROTOCOL_UDP
                      then StartTxnTimer cbk p TIMER_G nDurationT1 s
                      else StartTxnTimer cbk p TIMER_H nDurationTH s) of
                  (False, s) \<Rightarrow> (False, pv, s)
                | (True, s) \<Rightarrow>
                    let s = (if m_nTranspProtocol tp = PROTOCOL_UDP then s
                             else IncrDurationExpired nDurationTH p s);
                        s = SetMaxDuration nDurationTH p s
                    in (True, PvFsm (d\<lparr>fd_eTxnStatus := STATUS_VALID_MESSAGE\<rparr>),
                        SetTxnState INV_SER_COMPLETED_ST p s))))"

definition InvSerFsm_ProceedingStSend2xxSuccessRespEvt :: handler where
  "InvSerFsm_ProceedingStSend2xxSuccessRespEvt cbk p pv s =
     (let s = InvSerFsm_begin_response p s;
          nDurationTH = timer_value TIMER_H s p
      in with_fsm_data pv s (\<lambda>d.
           case StartTxnTimer cbk p TIMER_H nDurationTH s of
             (True, s) \<Rightarrow>
               (True, PvFsm (d\<lparr>fd_eTxnStatus := STATUS_VALID_MESSAGE\<rparr>),
                SetTxnState INV_SER_COMPLETED_ST p
                  (IncrDurationExpired nDurationTH p (SetMaxDuration nDurationTH p s)))
           | (False, s) \<Rightarrow>
               (True, PvFsm (d\<lparr>fd_eTxnStatus := STATUS_VALID_MESSAGE, fd_bTxnTerminated := True,
                               fd_pOutUserData := GetUserData p s\<rparr>),
                SetTxnState INV_SER_TERMINATED_ST p s)))"

definition InvSerFsm_ProceedingStTranspErrorEvt :: handler where
  "InvSerFsm_ProceedingStTranspErrorEvt cbk p pv s = (True, pv, SetTxnState INV_SER_TERMINATED_ST p s)"

text \<open>The retransmission of a reliable provisional response: the interval doubles.\<close>

definition InvSerFsm_ProceedingStTimerG_H_TimeoutEvt :: handler where
  "InvSerFsm_ProceedingStTimerG_H_TimeoutEvt cbk p pv s =
     (case pv of
        PvTimeout td \<Rightarrow>
          let nDurationExpired = m_nDurationExpired (txn s p);
              nT1Val = timer_value TIMER_T1 s p;
              (nDurationExpired, s) =
                (if nDurationExpired = 0 then (nT1Val, IncrDurationExpired nT1Val p s)
                 else (nDurationExpired, s));
              nMaxDuration = m_nMaxDuration (txn s p)
          in if td_eTimerType td = TIMER_G then
               (if nDurationExpired \<ge> nMaxDuration then (True, pv, SetTxnState INV_SER_TERMINATED_ST p s)
                else
                  let nDuration = push_bit 1 (m_nCurrentDuration (txn s p));
                      nDuration = (if nDurationExpired + nDuration \<ge> nMaxDuration
                                   then nMaxDuration - nDurationExpired else nDuration)
                  in if nDuration > 0 then
                       (case StartTxnTimer cbk p TIMER_G nDuration s of
                          (False, s) \<Rightarrow> (False, pv, s)
                        | (True, s) \<Rightarrow>
                            (True, pv, SetCurrentDuration nDuration p
                              (IncrDurationExpired nDuration p (IncrTxnCount p s))))
                     else (True, pv, s))
             else (True, pv, s)
      | _ \<Rightarrow> (False, pv, crash BadCast s))"

definition InvSerFsm_CompletedStRecvInvReqEvt :: handler where
  "InvSerFsm_CompletedStRecvInvReqEvt cbk p pv s =
     with_fsm_data pv s (\<lambda>d.
       (True, PvFsm (d\<lparr>fd_eTxnStatus := STATUS_RETRANSMISSION, fd_pOutUserData := GetUserData p s,
                       fd_pTranspInfo := m_pTranspInfo (txn s p)\<rparr>), s))"

definition InvSerFsm_CompletedStTranspErrorEvt :: handler where
  "InvSerFsm_CompletedStTranspErrorEvt cbk p pv s =
     (True, pv, SetTxnState INV_SER_TERMINATED_ST p (snd (StopTxnTimer p s)))"

definition InvSerFsm_CompletedStRecvAckReqEvt :: handler where
  "InvSerFsm_CompletedStRecvAckReqEvt cbk p pv s =
     (let (_, s) = StopTxnTimer p s
      in with_fsm_data pv s (\<lambda>d.
           if GetMsgSentProto (txn s p) = PROTOCOL_UDP then
             let nDurationTI = timer_value TIMER_I s p;
                 d = d\<lparr>fd_eTxnStatus := STATUS_VALID_MESSAGE, fd_pOutUserData := GetUserData p s\<rparr>
             in (case StartTxnTimer cbk p TIMER_I nDurationTI s of
                   (False, s) \<Rightarrow> (False, PvFsm d, s)
                 | (True, s) \<Rightarrow> (True, PvFsm d, SetTxnState INV_SER_CONFIRMED_ST p s))
           else
             (True, PvFsm (d\<lparr>fd_bTxnTerminated := True, fd_pOutUserData := GetUserData p s\<rparr>),
              SetTxnState INV_SER_TERMINATED_ST p s)))"

definition InvSerFsm_CompletedStTimerG_H_TimeoutEvt :: handler where
  "InvSerFsm_CompletedStTimerG_H_TimeoutEvt cbk p pv s =
     (let nDurationExpired = m_nDurationExpired (txn s p);
          nT1Val = timer_value TIMER_T1 s p;
          (nDurationExpired, s) =
            (if nDurationExpired = 0 then (nT1Val, IncrDurationExpired nT1Val p s)
             else (nDurationExpired, s));
          nMaxDuration = m_nMaxDuration (txn s p);
          (nDuration, s) =
            (if GetMsgSentProto (txn s p) = PROTOCOL_UDP then
               (if nDurationExpired \<ge> nMaxDuration then (0, SetTxnState INV_SER_TERMINATED_ST p s)
                else
                  let nNextDuration = push_bit 1 (m_nCurrentDuration (txn s p));
                      nDurationT2 = timer_value TIMER_T2 s p;
                      nDuration = (if nNextDuration < nDurationT2 then nNextDuration else nDurationT2)
                  in (if nDurationExpired + nDuration \<ge> nMaxDuration
                      then nMaxDuration - nDurationExpired else nDuration, s))
             else (0, SetTxnState INV_SER_TERMINATED_ST p s))
      in if nDuration > 0 then
           (case StartTxnTimer cbk p TIMER_G nDuration s of
              (False, s) \<Rightarrow> (False, pv, s)
            | (True, s) \<Rightarrow>
                (True, pv, SetCurrentDuration nDuration p
                  (IncrDurationExpired nDuration p (IncrTxnCount p s))))
         else (True, pv, s))"

definition InvSerFsm_ConfirmedStRecvAckReqEvt :: handler where
  "InvSerFsm_ConfirmedStRecvAckReqEvt cbk p pv s =
     with_fsm_data pv s (\<lambda>d.
       (True, PvFsm (d\<lparr>fd_pOutUserData := GetUserData p s, fd_eTxnStatus := STATUS_VALID_MESSAGE\<rparr>), s))"

definition InvSerFsm_ConfirmedStTimerI_TimeoutEvt :: handler where
  "InvSerFsm_ConfirmedStTimerI_TimeoutEvt cbk p pv s =
     (True, pv, SetTxnState INV_SER_TERMINATED_ST p s)"

subsection \<open>The transition table\<close>

definition gpfSipInvSerTxnFsm :: "handler list list" where
  "gpfSipInvSerTxnFsm =
     [[InvSerFsm_IdleStRecvInvReqEvt, InvSerFsm_NullFxn, InvSerFsm_NullFxn, InvSerFsm_NullFxn,
       InvSerFsm_NullFxn, InvSerFsm_NullFxn, InvSerFsm_NullFxn, InvSerFsm_NullFxn,
       InvSerFsm_NullFxn],
      [InvSerFsm_ProceedingStRecvInvReqEvt, InvSerFsm_ProceedingStSendNon100ProvRespEvt,
       InvSerFsm_ProceedingStSend3xx6xxFailureRespEvt, InvSerFsm_ProceedingStSend2xxSuccessRespEvt,
       InvSerFsm_ProceedingStTranspErrorEvt, InvSerFsm_NullFxn,
       InvSerFsm_ProceedingStTimerG_H_TimeoutEvt, InvSerFsm_NullFxn, InvSerFsm_NullFxn],
      [InvSerFsm_CompletedStRecvInvReqEvt, InvSerFsm_NullFxn, InvSerFsm_NullFxn,
       InvSerFsm_NullFxn, InvSerFsm_CompletedStTranspErrorEvt, InvSerFsm_CompletedStRecvAckReqEvt,
       InvSerFsm_CompletedStTimerG_H_TimeoutEvt, InvSerFsm_NullFxn, InvSerFsm_NullFxn],
      [InvSerFsm_NullFxn, InvSerFsm_NullFxn, InvSerFsm_NullFxn, InvSerFsm_NullFxn,
       InvSerFsm_NullFxn, InvSerFsm_ConfirmedStRecvAckReqEvt, InvSerFsm_NullFxn,
       InvSerFsm_ConfirmedStTimerI_TimeoutEvt, InvSerFsm_NullFxn],
      [InvSerFsm_NullFxn, InvSerFsm_NullFxn, InvSerFsm_NullFxn, InvSerFsm_NullFxn,
       InvSerFsm_NullFxn, InvSerFsm_NullFxn, InvSerFsm_NullFxn, InvSerFsm_NullFxn,
       InvSerFsm_NullFxn],
      [InvSerFsm_NullFxn, InvSerFsm_NullFxn, InvSerFsm_NullFxn, InvSerFsm_NullFxn,
       InvSerFsm_NullFxn, InvSerFsm_NullFxn, InvSerFsm_NullFxn, InvSerFsm_NullFxn,
       InvSerFsm_NullFxn]]"

end
