(* ===== verification/Fsm_NonInvCli.thy ===== *)
theory Fsm_NonInvCli
  imports Txn_Fsm
begin

text \<open>
  The non-INVITE client transaction (\<open>protocol/sip/txn/SipTxnNonInvCliFsm.cpp\<close>), one
  definition per handler and the transition table \<open>gpfSipNonInvClientTxnFsm\<close>.
\<close>

abbreviation (input) NON_INV_CLI_SEND_NON_INV_REQ_EVT :: nat
  where "NON_INV_CLI_SEND_NON_INV_REQ_EVT \<equiv> 0"
abbreviation (input) NON_INV_CLI_TIMER_E_F_TIME_OUT_EVT :: nat
  where "NON_INV_CLI_TIMER_E_F_TIME_OUT_EVT \<equiv> 1"
abbreviation (input) NON_INV_CLI_RECV_1XX_RESP_EVT :: nat where "NON_INV_CLI_RECV_1XX_RESP_EVT \<equiv> 2"
abbreviation (input) NON_INV_CLI_RECV_2XX_6XX_RESP_EVT :: nat
  where "NON_INV_CLI_RECV_2XX_6XX_RESP_EVT \<equiv> 3"
abbreviation (input) NON_INV_CLI_TRANSP_ERROR_EVT :: nat where "NON_INV_CLI_TRANSP_ERROR_EVT \<equiv> 4"
abbreviation (input) NON_INV_CLI_TIMER_K_TIME_OUT_EVT :: nat
  where "NON_INV_CLI_TIMER_K_TIME_OUT_EVT \<equiv> 5"
abbreviation (input) NON_INV_CLI_INVALID_EVT :: nat where "NON_INV_CLI_INVALID_EVT \<equiv> 6"

abbreviation (input) NON_INV_CLI_IDLE_ST :: nat where "NON_INV_CLI_IDLE_ST \<equiv> 0"
abbreviation (input) NON_INV_CLI_TRYING_ST :: nat where "NON_INV_CLI_TRYING_ST \<equiv> 1"
abbreviation (input) NON_INV_CLI_PROCEEDING_ST :: nat where "NON_INV_CLI_PROCEEDING_ST \<equiv> 2"
abbreviation (input) NON_INV_CLI_COMPLETED_ST :: nat where "NON_INV_CLI_COMPLETED_ST \<equiv> 3"

subsection \<open>Handlers\<close>

definition NonInvCliFsm_NullFxn :: handler where
  "NonInvCliFsm_NullFxn cbk p pv s = (False, pv, s)"

text \<open>The retransmission of a request: \<open>MIN(2*T1, T2)\<close> in Trying, \<open>T2\<close> in Proceeding.\<close>

definition NonInvClient_TimeoutHandling :: handler where
  "NonInvClient_TimeoutHandling cbk p pv s =
     (let nT1Val = timer_value TIMER_T1 s p;
          nDurationExpired = m_nDurationExpired (txn s p);
          (nDurationExpired, s) =
            (if nDurationExpired = 0 then (nT1Val, IncrDurationExpired nT1Val p s)
             else (nDurationExpired, s));
          nMaxDuration = m_nMaxDuration (txn s p);
          (nDuration, s) =
            (if GetMsgSentProto (txn s p) = PROTOCOL_UDP then
               (if nDurationExpired \<ge> nMaxDuration then
                  (0, SetTxnState NON_INV_CLI_TERMINATED_ST p s)
                else
                  let nDurationT2 = timer_value TIMER_T2 s p;
                      nDuration =
                        (if m_nTxnState (txn s p) = NON_INV_CLI_TRYING_ST then
                           (let nNextDuration = push_bit 1 (m_nCurrentDuration (txn s p))
                            in if nNextDuration < nDurationT2 then nNextDuration else nDurationT2)
                         else nDurationT2)
                  in (if nDurationExpired + nDuration \<ge> nMaxDuration
                      then nMaxDuration - nDurationExpired else nDuration, s))
             else (0, SetTxnState NON_INV_CLI_TERMINATED_ST p s))
      in if nDuration > 0 then
           (case StartTxnTimer cbk p TIMER_E nDuration s of
              (False, s) \<Rightarrow> (False, pv, s)
            | (True, s) \<Rightarrow>
                (True, pv, SetCurrentDuration nDuration p
                  (IncrDurationExpired nDuration p (IncrTxnCount p s))))
         else (True, pv, s))"

text \<open>\<open>NonInvCli_Recv2xx6xxResp\<close>: the new state, or nothing when the timer does not start.\<close>

definition NonInvCli_Recv2xx6xxResp :: "timeout_cbk \<Rightarrow> ptr \<Rightarrow> stack \<Rightarrow> nat option \<times> stack" where
  "NonInvCli_Recv2xx6xxResp cbk p s =
     (let (_, s) = StopTxnTimer p s
      in if GetMsgSentProto (txn s p) = PROTOCOL_UDP then
           (let nDurationTK = timer_value TIMER_K s p
            in case StartTxnTimer cbk p TIMER_K nDurationTK s of
                 (False, s) \<Rightarrow> (None, s)
               | (True, s) \<Rightarrow> (Some NON_INV_CLI_COMPLETED_ST, SetCurrentDuration nDurationTK p s))
         else (Some NON_INV_CLI_TERMINATED_ST, s))"

definition NonInvCliFsm_IdleStSendNonInvReqEvt :: handler where
  "NonInvCliFsm_IdleStSendNonInvReqEvt cbk p pv s =
     (case fsm_enter_pool p s of
        (None, s) \<Rightarrow> (False, pv, s)
      | (Some (pNewTxnKey, p), s) \<Rightarrow>
          with_fsm_data pv s (\<lambda>d.
            case fd_pTranspParam d of
              None \<Rightarrow> (False, pv, crash NullDeref s)
            | Some tp \<Rightarrow>
                let nDurationT1 = timer_value TIMER_T1 s p;
                    nDurationTF = timer_value TIMER_F s p;
                    (ok, s) = (if m_nTranspProtocol tp = PROTOCOL_UDP
                               then StartTxnTimer cbk p TIMER_E nDurationT1 s
                               else StartTxnTimer cbk p TIMER_F nDurationTF s)
                in if \<not> ok then (False, pv, RemoveFromTxnPool p s)
                   else
                     let s = SetMaxDuration nDurationTF p s;
                         s = fsm_set_user_data d p s;
                         d = d\<lparr>fd_pOutUserData := GetUserData p s, fd_bTxnCreated := True\<rparr>;
                         s = SetTxnState NON_INV_CLI_TRYING_ST p s;
                         s = (if SipPf_Strcmp (m_pszMethod pNewTxnKey) CANCEL_METHOD = SIP_EQUALS
                              then fsm_DeleteTxnKey p s else s)
                     in (True, PvFsm d, s)))"

definition NonInvCliFsm_TryingStTimer_E_F_TimeoutEvt :: handler where
  "NonInvCliFsm_TryingStTimer_E_F_TimeoutEvt cbk p pv s = NonInvClient_TimeoutHandling cbk p pv s"

definition NonInvCliFsm_TryingStRecv1xxRespEvt :: handler where
  "NonInvCliFsm_TryingStRecv1xxRespEvt cbk p pv s =
     with_fsm_data pv s (\<lambda>d.
       (True, PvFsm (d\<lparr>fd_pOutUserData := GetUserData p s, fd_eTxnStatus := STATUS_VALID_MESSAGE\<rparr>),
        SetTxnState NON_INV_CLI_PROCEEDING_ST p s))"

definition NonInvCliFsm_RecvFinal :: handler where
  "NonInvCliFsm_RecvFinal cbk p pv s =
     (case NonInvCli_Recv2xx6xxResp cbk p s of
        (None, s) \<Rightarrow> (False, pv, s)
      | (Some nNewTxnState, s) \<Rightarrow>
          with_fsm_data pv s (\<lambda>d.
            let d = (if nNewTxnState = NON_INV_CLI_TERMINATED_ST then d\<lparr>fd_bTxnTerminated := True\<rparr>
                     else d);
                d = d\<lparr>fd_pOutUserData := GetUserData p s, fd_eTxnStatus := STATUS_VALID_MESSAGE\<rparr>
            in (True, PvFsm d, SetTxnState nNewTxnState p s)))"

definition NonInvCliFsm_TryingStRecv2xx6xxRespEvt :: handler where
  "NonInvCliFsm_TryingStRecv2xx6xxRespEvt cbk p pv s = NonInvCliFsm_RecvFinal cbk p pv s"

definition NonInvCliFsm_TryingStTranspErrorEvt :: handler where
  "NonInvCliFsm_TryingStTranspErrorEvt cbk p pv s =
     (True, pv, SetTxnState NON_INV_CLI_TERMINATED_ST p (snd (StopTxnTimer p s)))"

definition NonInvCliFsm_ProceedingStTimer_E_F_TimeoutEvt :: handler where
  "NonInvCliFsm_ProceedingStTimer_E_F_TimeoutEvt cbk p pv s = NonInvClient_TimeoutHandling cbk p pv s"

definition NonInvCliFsm_ProceedingStRecv1xxRespEvt :: handler where
  "NonInvCliFsm_ProceedingStRecv1xxRespEvt cbk p pv s =
     with_fsm_data pv s (\<lambda>d.
       (True, PvFsm (d\<lparr>fd_pOutUserData := GetUserData p s, fd_eTxnStatus := STATUS_VALID_MESSAGE\<rparr>), s))"

definition NonInvCliFsm_ProceedingStRecv2xx6xxRespEvt :: handler where
  "NonInvCliFsm_ProceedingStRecv2xx6xxRespEvt cbk p pv s = NonInvCliFsm_RecvFinal cbk p pv s"

definition NonInvCliFsm_ProceedingStTranspErrorEvt :: handler where
  "NonInvCliFsm_ProceedingStTranspErrorEvt cbk p pv s =
     (True, pv, SetTxnState NON_INV_CLI_TERMINATED_ST p (snd (StopTxnTimer p s)))"

definition NonInvCliFsm_CompletedStTimer_K_TimeoutEvt :: handler where
  "NonInvCliFsm_CompletedStTimer_K_TimeoutEvt cbk p pv s =
     (True, pv, SetTxnState NON_INV_CLI_TERMINATED_ST p s)"

definition NonInvCliFsm_CompletedStRecv1xxRespEvt :: handler where
  "NonInvCliFsm_CompletedStRecv1xxRespEvt cbk p pv s =
     with_fsm_data pv s (\<lambda>d.
       (True, PvFsm (d\<lparr>fd_pOutUserData := GetUserData p s, fd_eTxnStatus := STATUS_IGNORE_RESP\<rparr>), s))"

definition NonInvCliFsm_CompletedStRecv2xx6xxRespEvt :: handler where
  "NonInvCliFsm_CompletedStRecv2xx6xxRespEvt cbk p pv s =
     with_fsm_data pv s (\<lambda>d.
       (True, PvFsm (d\<lparr>fd_pOutUserData := GetUserData p s, fd_eTxnStatus := STATUS_IGNORE_RESP\<rparr>), s))"

definition NonInvCliFsm_CompletedStTranspErrorEvt :: handler where
  "NonInvCliFsm_CompletedStTranspErrorEvt cbk p pv s =
     (True, pv, SetTxnState NON_INV_CLI_TERMINATED_ST p (snd (StopTxnTimer p s)))"

subsection \<open>The transition table\<close>

definition gpfSipNonInvClientTxnFsm :: "handler list list" where
  "gpfSipNonInvClientTxnFsm =
     [[NonInvCliFsm_IdleStSendNonInvReqEvt, NonInvCliFsm_NullFxn, NonInvCliFsm_NullFxn,
       NonInvCliFsm_NullFxn, NonInvCliFsm_NullFxn, NonInvCliFsm_NullFxn, NonInvCliFsm_NullFxn],
      [NonInvCliFsm_NullFxn, NonInvCliFsm_TryingStTimer_E_F_TimeoutEvt,
       NonInvCliFsm_TryingStRecv1xxRespEvt, NonInvCliFsm_TryingStRecv2xx6xxRespEvt,
       NonInvCliFsm_TryingStTranspErrorEvt, NonInvCliFsm_NullFxn, NonInvCliFsm_NullFxn],
      [NonInvCliFsm_NullFxn, NonInvCliFsm_ProceedingStTimer_E_F_TimeoutEvt,
       NonInvCliFsm_ProceedingStRecv1xxRespEvt, NonInvCliFsm_ProceedingStRecv2xx6xxRespEvt,
       NonInvCliFsm_ProceedingStTranspErrorEvt, NonInvCliFsm_NullFxn, NonInvCliFsm_NullFxn],
      [NonInvCliFsm_NullFxn, NonInvCliFsm_NullFxn, NonInvCliFsm_CompletedStRecv1xxRespEvt,
       NonInvCliFsm_CompletedStRecv2xx6xxRespEvt, NonInvCliFsm_CompletedStTranspErrorEvt,
       NonInvCliFsm_CompletedStTimer_K_TimeoutEvt, NonInvCliFsm_NullFxn],
      [NonInvCliFsm_NullFxn, NonInvCliFsm_NullFxn, NonInvCliFsm_NullFxn, NonInvCliFsm_NullFxn,
       NonInvCliFsm_NullFxn, NonInvCliFsm_NullFxn, NonInvCliFsm_NullFxn],
      [NonInvCliFsm_NullFxn, NonInvCliFsm_NullFxn, NonInvCliFsm_NullFxn, NonInvCliFsm_NullFxn,
       NonInvCliFsm_NullFxn, NonInvCliFsm_NullFxn, NonInvCliFsm_NullFxn]]"

end
