(* ===== verification/Fsm_NonInvSer.thy ===== *)
theory Fsm_NonInvSer
  imports Txn_Fsm
begin

text \<open>
  The non-INVITE server transaction (\<open>protocol/sip/txn/SipTxnNonInvSerFsm.cpp\<close>), one
  definition per handler and the transition table \<open>gpfSipNonInvSerTxnFsm\<close>.
\<close>

abbreviation (input) NON_INV_SER_RECV_NON_INV_REQ_EVT :: nat
  where "NON_INV_SER_RECV_NON_INV_REQ_EVT \<equiv> 0"
abbreviation (input) NON_INV_SER_SEND_1XX_RESP_EVT :: nat where "NON_INV_SER_SEND_1XX_RESP_EVT \<equiv> 1"
abbreviation (input) NON_INV_SER_SEND_2XX_6XX_RESP_EVT :: nat
  where "NON_INV_SER_SEND_2XX_6XX_RESP_EVT \<equiv> 2"
abbreviation (input) NON_INV_SER_TRANSP_ERROR_EVT :: nat where "NON_INV_SER_TRANSP_ERROR_EVT \<equiv> 3"
abbreviation (input) NON_INV_SER_TIMER_J_TIME_OUT_EVT :: nat
  where "NON_INV_SER_TIMER_J_TIME_OUT_EVT \<equiv> 4"
abbreviation (input) NON_INV_SER_INVALID_EVT :: nat where "NON_INV_SER_INVALID_EVT \<equiv> 5"

abbreviation (input) NON_INV_SER_IDLE_ST :: nat where "NON_INV_SER_IDLE_ST \<equiv> 0"
abbreviation (input) NON_INV_SER_TRYING_ST :: nat where "NON_INV_SER_TRYING_ST \<equiv> 1"
abbreviation (input) NON_INV_SER_PROCEEDING_ST :: nat where "NON_INV_SER_PROCEEDING_ST \<equiv> 2"
abbreviation (input) NON_INV_SER_COMPLETED_ST :: nat where "NON_INV_SER_COMPLETED_ST \<equiv> 3"

subsection \<open>Handlers\<close>

definition NonInvSerFsm_NullFxn :: handler where
  "NonInvSerFsm_NullFxn cbk p pv s = (False, pv, s)"

definition NonInvSer_Send2xx6xxResp ::
    "timeout_cbk \<Rightarrow> ptr \<Rightarrow> SipTxnFsmData \<Rightarrow> stack \<Rightarrow> nat option \<times> stack" where
  "NonInvSer_Send2xx6xxResp cbk p d s =
     (case fd_pTranspParam d of
        None \<Rightarrow> (None, crash NullDeref s)
      | Some tp \<Rightarrow>
          let nDurationTJ = timer_value TIMER_J s p
          in if m_nTranspProtocol tp = PROTOCOL_UDP then
               (case StartTxnTimer cbk p TIMER_J nDurationTJ s of
                  (False, s) \<Rightarrow> (None, s)
                | (True, s) \<Rightarrow> (Some NON_INV_SER_COMPLETED_ST, SetCurrentDuration nDurationTJ p s))
             else (Some NON_INV_SER_TERMINATED_ST, s))"

text \<open>
  A PRACK stops the retransmission of the provisional response it acknowledges. Its RSeq is
  written into the offered key, which the pool holds when the transaction entered it
  (\<open>entered\<close>) rather than being replaced by an existing one; the search then uses that key.
\<close>

definition NonInvSer_recv_prack ::
    "SipTxnKey \<Rightarrow> bool \<Rightarrow> ptr \<Rightarrow> SipTxnFsmData \<Rightarrow> stack \<Rightarrow> bool \<times> pv_data \<times> stack" where
  "NonInvSer_recv_prack pNewTxnKey entered p d s =
     (let nRseqNum = GetRSeqNum (fd_pSipMsgIn d) H_RACK;
          pNewTxnKey = pNewTxnKey\<lparr>m_nRSeqNum := nRseqNum\<rparr>;
          s = (if entered
               then s\<lparr>s_pool := pool_upd_key p (\<lambda>k. k\<lparr>m_nRSeqNum := nRseqNum\<rparr>) (s_pool s)\<rparr>
               else s)
      in case SearchTxnKey pNewTxnKey True (s_txnKeyList s) of
           None \<Rightarrow> (False, PvFsm d, crash Hang s)
         | Some (Some i, pNewTxnKey) \<Rightarrow>
             (case FetchTransaction (Some (s_txnKeyList s ! i)) TXN_OPT_FETCH None s of
                (True, pInvSerTxn, s) \<Rightarrow>
                  let s = (case pInvSerTxn of None \<Rightarrow> s | Some q \<Rightarrow> snd (StopTxnTimer q s));
                      (_, _, keys) = DeleteTxnKey (Some pNewTxnKey) True (s_txnKeyList s)
                  in (True, PvFsm d, s\<lparr>s_txnKeyList := keys\<rparr>)
              | (False, _, s) \<Rightarrow> (True, PvFsm d, s))
         | Some (None, pNewTxnKey) \<Rightarrow>
             (case SearchTxnKey pNewTxnKey False (s_txnKeyList s) of
                None \<Rightarrow> (False, PvFsm d, crash Hang s)
              | Some (Some _, _) \<Rightarrow> (True, PvFsm (d\<lparr>fd_eTxnStatus := STATUS_STRAY_PRACK\<rparr>), s)
              | Some (None, _) \<Rightarrow> (True, PvFsm d, s)))"

definition NonInvSerFsm_IdleStRecvNonInvReqEvt :: handler where
  "NonInvSerFsm_IdleStRecvNonInvReqEvt cbk p pv s =
     (case fsm_enter_pool p s of
        (None, s) \<Rightarrow> (False, pv, s)
      | (Some (pNewTxnKey, q), s) \<Rightarrow>
          with_fsm_data pv s (\<lambda>d.
            let entered = (q = p);
                p = q;
                s = fsm_set_user_data d p s;
                d = d\<lparr>fd_pOutUserData := GetUserData p s, fd_bTxnCreated := True,
                      fd_eTxnStatus := STATUS_NEW_REQ_RECVD\<rparr>;
                s = SetTxnState NON_INV_SER_TRYING_ST p s
            in if GetMethodType (fd_pSipMsgIn d) = METHOD_PRACK
               then NonInvSer_recv_prack pNewTxnKey entered p d s
               else (True, PvFsm d, s)))"

definition NonInvSerFsm_TryingStRecvNonInvReqEvt :: handler where
  "NonInvSerFsm_TryingStRecvNonInvReqEvt cbk p pv s =
     with_fsm_data pv s (\<lambda>d.
       (True, PvFsm (d\<lparr>fd_pOutUserData := GetUserData p s, fd_eTxnStatus := STATUS_IGNORE_REQ\<rparr>), s))"

definition NonInvSerFsm_TryingStSend1xxRespEvt :: handler where
  "NonInvSerFsm_TryingStSend1xxRespEvt cbk p pv s =
     with_fsm_data pv s (\<lambda>d.
       (True, PvFsm (d\<lparr>fd_eTxnStatus := STATUS_VALID_MESSAGE\<rparr>),
        SetTxnState NON_INV_SER_PROCEEDING_ST p s))"

definition NonInvSerFsm_SendFinal :: handler where
  "NonInvSerFsm_SendFinal cbk p pv s =
     with_fsm_data pv s (\<lambda>d.
       case NonInvSer_Send2xx6xxResp cbk p d s of
         (None, s) \<Rightarrow> (False, pv, s)
       | (Some nNewTxnState, s) \<Rightarrow>
           let d = (if nNewTxnState = NON_INV_SER_TERMINATED_ST
                    then d\<lparr>fd_bTxnTerminated := True, fd_pOutUserData := GetUserData p s\<rparr> else d);
               d = d\<lparr>fd_eTxnStatus := STATUS_VALID_MESSAGE\<rparr>
           in (True, PvFsm d, SetTxnState nNewTxnState p s))"

definition NonInvSerFsm_TryingStSend2xx6xxRespEvt :: handler where
  "NonInvSerFsm_TryingStSend2xx6xxRespEvt cbk p pv s = NonInvSerFsm_SendFinal cbk p pv s"

definition NonInvSerFsm_TryingStTranspErrorEvt :: handler where
  "NonInvSerFsm_TryingStTranspErrorEvt cbk p pv s =
     (True, pv, SetTxnState NON_INV_SER_TERMINATED_ST p s)"

definition NonInvSerFsm_ProceedingStRecvNonInvReqEvt :: handler where
  "NonInvSerFsm_ProceedingStRecvNonInvReqEvt cbk p pv s =
     with_fsm_data pv s (\<lambda>d.
       (True, PvFsm (d\<lparr>fd_eTxnStatus := STATUS_RETRANSMISSION, fd_pOutUserData := GetUserData p s,
                       fd_pTranspInfo := m_pTranspInfo (txn s p)\<rparr>), s))"

definition NonInvSerFsm_ProceedingStSend1xxRespEvt :: handler where
  "NonInvSerFsm_ProceedingStSend1xxRespEvt cbk p pv s =
     with_fsm_data pv s (\<lambda>d. (True, PvFsm (d\<lparr>fd_eTxnStatus := STATUS_VALID_MESSAGE\<rparr>), s))"

definition NonInvSerFsm_ProceedingStSend2xx6xxRespEvt :: handler where
  "NonInvSerFsm_ProceedingStSend2xx6xxRespEvt cbk p pv s = NonInvSerFsm_SendFinal cbk p pv s"

definition NonInvSerFsm_ProceedingStTranspErrorEvt :: handler where
  "NonInvSerFsm_ProceedingStTranspErrorEvt cbk p pv s =
     (True, pv, SetTxnState NON_INV_SER_TERMINATED_ST p s)"

definition NonInvSerFsm_CompletedStRecvNonInvReqEvt :: handler where
  "NonInvSerFsm_CompletedStRecvNonInvReqEvt cbk p pv s =
     with_fsm_data pv s (\<lambda>d.
       (True, PvFsm (d\<lparr>fd_eTxnStatus := STATUS_RETRANSMISSION, fd_pOutUserData := GetUserData p s,
                       fd_pTranspInfo := m_pTranspInfo (txn s p)\<rparr>), s))"

definition NonInvSerFsm_CompletedStTranspErrorEvt :: handler where
  "NonInvSerFsm_CompletedStTranspErrorEvt cbk p pv s =
     (True, pv, SetTxnState NON_INV_SER_TERMINATED_ST p (snd (StopTxnTimer p s)))"

definition NonInvSerFsm_CompletedStTimer_J_TimeoutEvt :: handler where
  "NonInvSerFsm_CompletedStTimer_J_TimeoutEvt cbk p pv s =
     (True, pv, SetTxnState NON_INV_SER_TERMINATED_ST p s)"

subsection \<open>The transition table\<close>

definition gpfSipNonInvSerTxnFsm :: "handler list list" where
  "gpfSipNonInvSerTxnFsm =
     [[NonInvSerFsm_IdleStRecvNonInvReqEvt, NonInvSerFsm_NullFxn, NonInvSerFsm_NullFxn,
       NonInvSerFsm_NullFxn, NonInvSerFsm_NullFxn, NonInvSerFsm_NullFxn],
      [NonInvSerFsm_TryingStRecvNonInvReqEvt, NonInvSerFsm_TryingStSend1xxRespEvt,
       NonInvSerFsm_TryingStSend2xx6xxRespEvt, NonInvSerFsm_TryingStTranspErrorEvt,
       NonInvSerFsm_NullFxn, NonInvSerFsm_NullFxn],
      [NonInvSerFsm_ProceedingStRecvNonInvReqEvt, NonInvSerFsm_ProceedingStSend1xxRespEvt,
       NonInvSerFsm_ProceedingStSend2xx6xxRespEvt, NonInvSerFsm_ProceedingStTranspErrorEvt,
       NonInvSerFsm_NullFxn, NonInvSerFsm_NullFxn],
      [NonInvSerFsm_CompletedStRecvNonInvReqEvt, NonInvSerFsm_NullFxn, NonInvSerFsm_NullFxn,
       NonInvSerFsm_CompletedStTranspErrorEvt, NonInvSerFsm_CompletedStTimer_J_TimeoutEvt,
       NonInvSerFsm_NullFxn],
      [NonInvSerFsm_NullFxn, NonInvSerFsm_NullFxn, NonInvSerFsm_NullFxn, NonInvSerFsm_NullFxn,
       NonInvSerFsm_NullFxn, NonInvSerFsm_NullFxn],
      [NonInvSerFsm_NullFxn, NonInvSerFsm_NullFxn, NonInvSerFsm_NullFxn, NonInvSerFsm_NullFxn,
       NonInvSerFsm_NullFxn, NonInvSerFsm_NullFxn]]"

end
