(* ===== verification/Txn_Timeout.thy ===== *)
theory Txn_Timeout
  imports Fsm_InvCli Fsm_InvSer Fsm_NonInvCli Fsm_NonInvSer
begin

text \<open>
  \<open>SipTxn::InvokeFsm\<close> and the timer callback \<open>CbkTxnTimeout\<close>
  (\<open>protocol/sip/txn/SipTxn.cpp\<close>), with the expiry of a running timer
  (\<open>SipTransactionTimer::Timer_TimerExpired\<close>).

  The callback runs a state machine whose handlers may start a timer of duration 0, which
  runs the callback again. \<open>CbkTxnTimeout_fuel\<close> bounds that nesting, and out of fuel is a
  \<open>Hang\<close>. The handlers of timeout events only start timers of positive duration, so the
  nesting is never deeper than one: \<open>CbkTxnTimeout_fuel_enough\<close> shows that every positive
  fuel gives the same result.
\<close>

subsection \<open>Dispatch\<close>

definition fsm_table :: "txn_type \<Rightarrow> handler list list" where
  "fsm_table ty =
     (case ty of
        INV_CLI_TXN \<Rightarrow> gpfSipInvClientTxnFsm
      | INV_SER_TXN \<Rightarrow> gpfSipInvSerTxnFsm
      | NON_INV_CLI_TXN \<Rightarrow> gpfSipNonInvClientTxnFsm
      | NON_INV_SER_TXN \<Rightarrow> gpfSipNonInvSerTxnFsm
      | INVALID_TXN \<Rightarrow> [])"

definition InvokeFsm ::
    "timeout_cbk \<Rightarrow> nat \<Rightarrow> ptr \<Rightarrow> pv_data \<Rightarrow> stack \<Rightarrow> bool \<times> pv_data \<times> stack" where
  "InvokeFsm cbk nEvent p pv s =
     (if m_eTxnType (txn s p) = INVALID_TXN then (False, pv, s)
      else
        (case table_lookup (fsm_table (m_eTxnType (txn s p))) (m_nTxnState (txn s p)) nEvent of
           None \<Rightarrow> (False, pv, crash BadIndex s)
         | Some h \<Rightarrow> h cbk p pv s))"

text \<open>The event of a timeout, or nothing when the timer does not belong to the machine.\<close>

definition timeout_event :: "txn_type \<Rightarrow> u32 \<Rightarrow> nat option" where
  "timeout_event ty eTimerType =
     (case ty of
        INV_CLI_TXN \<Rightarrow>
          if eTimerType = TIMER_A \<or> eTimerType = TIMER_B then Some INV_CLI_TIMERA_B_TIME_OUT_EVT
          else if eTimerType = TIMER_D then Some INV_CLI_TIMERD_TIME_OUT_EVT
          else None
      | NON_INV_CLI_TXN \<Rightarrow>
          if eTimerType = TIMER_E \<or> eTimerType = TIMER_F then Some NON_INV_CLI_TIMER_E_F_TIME_OUT_EVT
          else if eTimerType = TIMER_K then Some NON_INV_CLI_TIMER_K_TIME_OUT_EVT
          else None
      | INV_SER_TXN \<Rightarrow>
          if eTimerType = TIMER_G \<or> eTimerType = TIMER_H then Some INV_SER_TIMER_G_H_TIME_OUT_EVT
          else if eTimerType = TIMER_I then Some INV_SER_TIMER_I_TIME_OUT_EVT
          else None
      | NON_INV_SER_TXN \<Rightarrow>
          if eTimerType = TIMER_J then Some NON_INV_SER_TIMER_J_TIME_OUT_EVT else None
      | INVALID_TXN \<Rightarrow> None)"

subsection \<open>The callback\<close>

text \<open>The notification and the removal of a terminated transaction.\<close>

definition timeout_terminated ::
    "SipTxnKey option \<Rightarrow> bool \<Rightarrow> ptr option \<Rightarrow> u32 \<Rightarrow> ptr \<Rightarrow> stack \<Rightarrow> stack" where
  "timeout_terminated pTxnKey listener pUserData eTimerType p s =
     (let s = (if listener then OnTimerExpired pUserData eTimerType s else s)
      in SipTxn_SipDelete p (SipTxn_RemoveFromTxnPool pTxnKey s))"

text \<open>The retransmission of the message last sent.\<close>

definition timeout_resend :: "ptr option \<Rightarrow> ptr \<Rightarrow> stack \<Rightarrow> stack" where
  "timeout_resend pUserData p s =
     (case m_pTranspInfo (txn s p) of
        None \<Rightarrow> SipTxn_SipDelete p s
      | Some ti \<Rightarrow>
          let (_, s) = SendToNetwork (m_pSentBuffer ti) (m_pActualDestParam ti)
                         (user_data pUserData s) s
          in SipTxn_SipDelete p s)"

definition CbkTxnTimeout_body :: "timeout_cbk \<Rightarrow> timeout_cbk" where
  "CbkTxnTimeout_body cbk pTimeoutData pvTimerId s =
     (let pTxnKey = td_pTxnKey pTimeoutData
      in case FetchTransaction pTxnKey TXN_OPT_FETCH None s of
           (True, Some p, s) \<Rightarrow>
             let s = SipTxn_Increment p s
             in if pvTimerId \<noteq> m_pvTimerId (txn s p) then SipTxn_SipDelete p s
                else
                  let s = SetTimerId None p s
                  in (case s_util s of
                        None \<Rightarrow> SipTxn_SipDelete p s
                      | Some u \<Rightarrow>
                          let pUserData = GetUserData p s
                          in if IsTxnTerminated (txn s p) then
                               timeout_terminated pTxnKey (u_listener u) pUserData
                                 TIMER_TYPE_INVALID p s
                             else
                               (case timeout_event (m_eTxnType (txn s p))
                                       (td_eTimerType pTimeoutData) of
                                  None \<Rightarrow> SipTxn_SipDelete p s
                                | Some nEvent \<Rightarrow>
                                    let pnError = s_err s;
                                        (ok, _, s) = InvokeFsm cbk nEvent p
                                          (PvTimeout pTimeoutData) (set_err 0 s);
                                        s = set_err pnError s
                                    in if \<not> ok then SipTxn_SipDelete p s
                                       else if IsTxnTerminated (txn s p) then
                                         timeout_terminated pTxnKey (u_listener u) pUserData
                                           (td_eTimerType pTimeoutData) p s
                                       else timeout_resend pUserData p s))
         | (_, _, s) \<Rightarrow> s)"

fun CbkTxnTimeout_fuel :: "nat \<Rightarrow> timeout_cbk" where
  "CbkTxnTimeout_fuel 0 td i s = crash Hang s"
| "CbkTxnTimeout_fuel (Suc n) td i s = CbkTxnTimeout_body (CbkTxnTimeout_fuel n) td i s"

definition CbkTxnTimeout :: timeout_cbk where
  "CbkTxnTimeout = CbkTxnTimeout_fuel 1"

text \<open>The expiry of a running timer: it stops and its callback runs with its handle.\<close>

definition Timer_TimerExpired :: "nat \<Rightarrow> stack \<Rightarrow> stack" where
  "Timer_TimerExpired i s =
     (case s_timers s i of
        None \<Rightarrow> s
      | Some (_, td) \<Rightarrow> CbkTxnTimeout td (Some i) (s\<lparr>s_timers := (s_timers s)(i := None)\<rparr>))"

subsection \<open>The callback is never nested\<close>

text \<open>A timer of positive duration does not run the callback.\<close>

lemma StartTxnTimer_pos: "d > 0 \<Longrightarrow> StartTxnTimer cbk p ty d s = StartTxnTimer cbk' p ty d s"
  by (simp add: StartTxnTimer_def Let_def)

lemma InvCli_timeout_cbk:
  "InvCliFsm_CallingStTimerA_B_TimeoutEvt cbk p pv s = InvCliFsm_CallingStTimerA_B_TimeoutEvt cbk' p pv s"
  unfolding InvCliFsm_CallingStTimerA_B_TimeoutEvt_def Let_def
  by (simp add: StartTxnTimer_pos [of _ cbk p _ _ cbk'] split: prod.split)

lemma InvSer_proceeding_timeout_cbk:
  "InvSerFsm_ProceedingStTimerG_H_TimeoutEvt cbk p pv s =
   InvSerFsm_ProceedingStTimerG_H_TimeoutEvt cbk' p pv s"
  unfolding InvSerFsm_ProceedingStTimerG_H_TimeoutEvt_def Let_def
  by (simp add: StartTxnTimer_pos [of _ cbk p _ _ cbk'] split: prod.split pv_data.split)

lemma InvSer_completed_timeout_cbk:
  "InvSerFsm_CompletedStTimerG_H_TimeoutEvt cbk p pv s =
   InvSerFsm_CompletedStTimerG_H_TimeoutEvt cbk' p pv s"
  unfolding InvSerFsm_CompletedStTimerG_H_TimeoutEvt_def Let_def
  by (simp add: StartTxnTimer_pos [of _ cbk p _ _ cbk'] split: prod.split)

lemma NonInvCli_timeout_cbk:
  "NonInvClient_TimeoutHandling cbk p pv s = NonInvClient_TimeoutHandling cbk' p pv s"
  unfolding NonInvClient_TimeoutHandling_def Let_def
  by (simp add: StartTxnTimer_pos [of _ cbk p _ _ cbk'] split: prod.split)

lemma less_6_cases: "(n :: nat) < 6 \<longleftrightarrow> n = 0 \<or> n = 1 \<or> n = 2 \<or> n = 3 \<or> n = 4 \<or> n = 5"
  by linarith

text \<open>The columns of the timeout events.\<close>

lemma InvCli_timeout_columns:
  "table_lookup gpfSipInvClientTxnFsm st INV_CLI_TIMERA_B_TIME_OUT_EVT =
     (if st = INV_CLI_CALLING_ST then Some InvCliFsm_CallingStTimerA_B_TimeoutEvt
      else if st < 6 then Some InvCliFsm_NullFxn else None)"
  "table_lookup gpfSipInvClientTxnFsm st INV_CLI_TIMERD_TIME_OUT_EVT =
     (if st = INV_CLI_COMPLETED_ST then Some InvCliFsm_CompletedStTimerD_TimeoutEvt
      else if st < 6 then Some InvCliFsm_NullFxn else None)"
  by (auto simp: table_lookup_def gpfSipInvClientTxnFsm_def less_6_cases)

lemma InvSer_timeout_columns:
  "table_lookup gpfSipInvSerTxnFsm st INV_SER_TIMER_G_H_TIME_OUT_EVT =
     (if st = INV_SER_PROCEEDING_ST then Some InvSerFsm_ProceedingStTimerG_H_TimeoutEvt
      else if st = INV_SER_COMPLETED_ST then Some InvSerFsm_CompletedStTimerG_H_TimeoutEvt
      else if st < 6 then Some InvSerFsm_NullFxn else None)"
  "table_lookup gpfSipInvSerTxnFsm st INV_SER_TIMER_I_TIME_OUT_EVT =
     (if st = INV_SER_CONFIRMED_ST then Some InvSerFsm_ConfirmedStTimerI_TimeoutEvt
      else if st < 6 then Some InvSerFsm_NullFxn else None)"
  by (auto simp: table_lookup_def gpfSipInvSerTxnFsm_def less_6_cases)

lemma NonInvCli_timeout_columns:
  "table_lookup gpfSipNonInvClientTxnFsm st NON_INV_CLI_TIMER_E_F_TIME_OUT_EVT =
     (if st = NON_INV_CLI_TRYING_ST then Some NonInvCliFsm_TryingStTimer_E_F_TimeoutEvt
      else if st = NON_INV_CLI_PROCEEDING_ST then Some NonInvCliFsm_ProceedingStTimer_E_F_TimeoutEvt
      else if st < 6 then Some NonInvCliFsm_NullFxn else None)"
  "table_lookup gpfSipNonInvClientTxnFsm st NON_INV_CLI_TIMER_K_TIME_OUT_EVT =
     (if st = NON_INV_CLI_COMPLETED_ST then Some NonInvCliFsm_CompletedStTimer_K_TimeoutEvt
      else if st < 6 then Some NonInvCliFsm_NullFxn else None)"
  by (auto simp: table_lookup_def gpfSipNonInvClientTxnFsm_def less_6_cases)

lemma NonInvSer_timeout_column:
  "table_lookup gpfSipNonInvSerTxnFsm st NON_INV_SER_TIMER_J_TIME_OUT_EVT =
     (if st = NON_INV_SER_COMPLETED_ST then Some NonInvSerFsm_CompletedStTimer_J_TimeoutEvt
      else if st < 6 then Some NonInvSerFsm_NullFxn else None)"
  by (auto simp: table_lookup_def gpfSipNonInvSerTxnFsm_def less_6_cases)

lemmas timeout_columns =
  InvCli_timeout_columns InvSer_timeout_columns NonInvCli_timeout_columns NonInvSer_timeout_column

lemma timeout_event_cases:
  assumes "timeout_event ty tt = Some ev"
  obtains "ty = INV_CLI_TXN" "ev = INV_CLI_TIMERA_B_TIME_OUT_EVT"
    | "ty = INV_CLI_TXN" "ev = INV_CLI_TIMERD_TIME_OUT_EVT"
    | "ty = INV_SER_TXN" "ev = INV_SER_TIMER_G_H_TIME_OUT_EVT"
    | "ty = INV_SER_TXN" "ev = INV_SER_TIMER_I_TIME_OUT_EVT"
    | "ty = NON_INV_CLI_TXN" "ev = NON_INV_CLI_TIMER_E_F_TIME_OUT_EVT"
    | "ty = NON_INV_CLI_TXN" "ev = NON_INV_CLI_TIMER_K_TIME_OUT_EVT"
    | "ty = NON_INV_SER_TXN" "ev = NON_INV_SER_TIMER_J_TIME_OUT_EVT"
  using assms by (cases ty) (auto simp: timeout_event_def split: if_splits)

lemmas timeout_handlers =
  InvCliFsm_NullFxn_def InvSerFsm_NullFxn_def NonInvCliFsm_NullFxn_def NonInvSerFsm_NullFxn_def
  InvCliFsm_CompletedStTimerD_TimeoutEvt_def InvSerFsm_ConfirmedStTimerI_TimeoutEvt_def
  NonInvCliFsm_CompletedStTimer_K_TimeoutEvt_def NonInvSerFsm_CompletedStTimer_J_TimeoutEvt_def
  NonInvCliFsm_TryingStTimer_E_F_TimeoutEvt_def NonInvCliFsm_ProceedingStTimer_E_F_TimeoutEvt_def

lemma timeout_cbk_irrelevant:
  assumes "timeout_event (m_eTxnType (txn s p)) tt = Some ev"
  shows "InvokeFsm cbk ev p pv s = InvokeFsm cbk' ev p pv s"
  using assms
  by (cases rule: timeout_event_cases)
    (simp_all add: InvokeFsm_def fsm_table_def timeout_columns timeout_handlers
      InvCli_timeout_cbk [of cbk p pv s cbk'] InvSer_proceeding_timeout_cbk [of cbk p pv s cbk']
      InvSer_completed_timeout_cbk [of cbk p pv s cbk'] NonInvCli_timeout_cbk [of cbk p pv s cbk']
      del: One_nat_def)

lemma CbkTxnTimeout_body_cbk: "CbkTxnTimeout_body cbk td i s = CbkTxnTimeout_body cbk' td i s"
proof -
  have irr: "InvokeFsm cbk ev p (PvTimeout td) (set_err 0 s') = InvokeFsm cbk' ev p (PvTimeout td) (set_err 0 s')"
    if "timeout_event (m_eTxnType (txn s' p)) tt = Some ev" for ev p s' tt
    by (rule timeout_cbk_irrelevant [of _ _ tt]) (use that in \<open>simp add: set_err_def\<close>)
  obtain b q s1 where f: "FetchTransaction (td_pTxnKey td) TXN_OPT_FETCH None s = (b, q, s1)"
    by (metis prod_cases3)
  show ?thesis
  proof (cases "b \<and> q \<noteq> None")
    case False
    with f show ?thesis by (cases b; cases q) (simp_all add: CbkTxnTimeout_body_def)
  next
    case True
    then obtain p where p: "b = True" "q = Some p" by auto
    let ?s = "SetTimerId None p (SipTxn_Increment p s1)"
    show ?thesis
    proof (cases "timeout_event (m_eTxnType (txn ?s p)) (td_eTimerType td)")
      case None
      with f p show ?thesis by (simp add: CbkTxnTimeout_body_def Let_def split: option.split)
    next
      case (Some ev)
      from irr [OF Some] Some f p show ?thesis
        by (simp add: CbkTxnTimeout_body_def Let_def split: option.split)
    qed
  qed
qed

lemma CbkTxnTimeout_fuel_enough: "CbkTxnTimeout_fuel (Suc n) = CbkTxnTimeout"
proof (rule ext)+
  fix td i s
  have "CbkTxnTimeout_fuel (Suc n) td i s = CbkTxnTimeout_body (CbkTxnTimeout_fuel n) td i s" by simp
  also have "\<dots> = CbkTxnTimeout_body (CbkTxnTimeout_fuel 0) td i s" by (rule CbkTxnTimeout_body_cbk)
  finally show "CbkTxnTimeout_fuel (Suc n) td i s = CbkTxnTimeout td i s"
    by (simp add: CbkTxnTimeout_def)
qed

text \<open>Without fuel: the callback satisfies the equation of the code.\<close>

lemma CbkTxnTimeout_unfold: "CbkTxnTimeout td i s = CbkTxnTimeout_body CbkTxnTimeout td i s"
proof -
  have "CbkTxnTimeout td i s = CbkTxnTimeout_body (CbkTxnTimeout_fuel 0) td i s"
    by (simp add: CbkTxnTimeout_def)
  also have "\<dots> = CbkTxnTimeout_body CbkTxnTimeout td i s" by (rule CbkTxnTimeout_body_cbk)
  finally show ?thesis .
qed

end
