(* ===== verification/Txn_Handler.thy ===== *)
theory Txn_Handler
  imports Txn_Timeout
begin

text \<open>
  \<open>SipTxnHandler\<close> (\<open>protocol/sip/txn/SipTxnHandler.cpp\<close>): the entry points of the
  transaction layer. Messages and keys that the code dereferences without a test are plain
  arguments, pointers it tests are optional; \<open>pnError\<close> is the field \<open>s_err\<close>.
\<close>

record SipTxnInfo =
  in_pSendSipMsg :: "SipMessage option"
  in_pUserData :: "ptr option"
  in_pTranspInfo :: "SipTransportInfo option"
  in_eTxnStatus :: txn_status
  in_bTxnTerminated :: bool
  in_bTxnCreated :: bool

definition SipTxnInfo_new :: SipTxnInfo where
  "SipTxnInfo_new =
     \<lparr>in_pSendSipMsg = None, in_pUserData = None, in_pTranspInfo = None,
      in_eTxnStatus = STATUS_INVALID, in_bTxnTerminated = False, in_bTxnCreated = False\<rparr>"

datatype txn_dir = SEND | RECV | INVALID_DIR

subsection \<open>Classification\<close>

definition GetTxnType :: "txn_dir \<Rightarrow> msg_method \<Rightarrow> msg_type \<Rightarrow> txn_type" where
  "GetTxnType eMsgDir eMethodType eMsgType =
     (if eMsgDir = INVALID_DIR \<or> eMethodType = METHOD_INVALID \<or> eMsgType = TYPE_INVALID then INVALID_TXN
      else if eMsgDir = SEND then
        (if eMsgType = REQ_TYPE then
           (if eMethodType = METHOD_INVITE \<or> eMethodType = METHOD_ACK then INV_CLI_TXN
            else NON_INV_CLI_TXN)
         else if eMethodType = METHOD_INVITE then INV_SER_TXN
         else NON_INV_SER_TXN)
      else
        (if eMsgType = REQ_TYPE then
           (if eMethodType = METHOD_INVITE \<or> eMethodType = METHOD_ACK then INV_SER_TXN
            else NON_INV_SER_TXN)
         else if eMethodType = METHOD_INVITE then INV_CLI_TXN
         else NON_INV_CLI_TXN))"

definition GetNonInvCliFsmEvt :: "u16 \<Rightarrow> nat" where
  "GetNonInvCliFsmEvt c =
     (if SIP_PROVISIONAL_RESP c then NON_INV_CLI_RECV_1XX_RESP_EVT
      else if SIP_NONPROVISIONAL_RESP c then NON_INV_CLI_RECV_2XX_6XX_RESP_EVT
      else NON_INV_CLI_INVALID_EVT)"

definition GetNonInvSerFsmEvt :: "u16 \<Rightarrow> nat" where
  "GetNonInvSerFsmEvt c =
     (if SIP_PROVISIONAL_RESP c then NON_INV_SER_SEND_1XX_RESP_EVT
      else if SIP_NONPROVISIONAL_RESP c then NON_INV_SER_SEND_2XX_6XX_RESP_EVT
      else NON_INV_SER_INVALID_EVT)"

definition GetInvCliFsmEvt :: "u16 \<Rightarrow> nat" where
  "GetInvCliFsmEvt c =
     (if SIP_PROVISIONAL_RESP c then INV_CLI_RECV_1XX_RESP_EVT
      else if SIP_SUCCESSFUL_RESP c then INV_CLI_RECV_2XX_RESP_EVT
      else if SIP_FAILURE_RESP c then INV_CLI_RECV_3XX_6XX_RESP_EVT
      else INV_CLI_INVALID_EVT)"

definition GetInvSerFsmEvt :: "u16 \<Rightarrow> nat" where
  "GetInvSerFsmEvt c =
     (if SIP_PROVISIONAL_RESP c then INV_SER_SEND_NON_100_PROV_RESP_EVT
      else if SIP_SUCCESSFUL_RESP c then INV_SER_SEND_2XX_SUCCESS_RESP_EVT
      else if SIP_FAILURE_RESP c then INV_SER_SEND_3XX_6XX_FAILURE_RESP_EVT
      else INV_SER_INVALID_EVT)"

definition ValidateRecvTxn :: "SipMessage \<Rightarrow> txn_type option" where
  "ValidateRecvTxn pSipMsg =
     (case CheckTxnMandatoryParams pSipMsg of
        None \<Rightarrow> None
      | Some (eMsgType, eMethodType) \<Rightarrow>
          let ty = GetTxnType RECV eMethodType eMsgType
          in if ty = INVALID_TXN then None else Some ty)"

definition ValidateSendTxn :: "SipMessage \<Rightarrow> stack \<Rightarrow> (txn_type \<times> SipTxnKey) option \<times> stack" where
  "ValidateSendTxn pSipMsg s =
     (case CheckTxnMandatoryParams pSipMsg of
        None \<Rightarrow> (None, s)
      | Some (eMsgType, eMethodType) \<Rightarrow>
          let ty = GetTxnType SEND eMethodType eMsgType
          in if ty = INVALID_TXN then (None, s)
             else
               let (k, err) = SipTxnKey_of_msg pSipMsg (s_err s);
                   s = set_err err s
               in if err = EERR_MALLOCFAILED then (None, s) else (Some (ty, k), s))"

subsection \<open>Access to the pool\<close>

text \<open>The status and the transaction pointer, which is null when there is none.\<close>

definition GetTxnObjFromDb :: "SipTxnKey \<Rightarrow> stack \<Rightarrow> bool \<times> ptr option \<times> stack" where
  "GetTxnObjFromDb pTxnKey s =
     (case FetchTransaction (Some pTxnKey) TXN_OPT_FETCH None s of
        (True, None, s) \<Rightarrow> (False, None, set_err ETXN_STACKERROR s)
      | (_, pTxn, s) \<Rightarrow> (True, pTxn, s))"

definition NotifyTxnTermination :: "ptr \<Rightarrow> stack \<Rightarrow> stack" where
  "NotifyTxnTermination p s =
     (case s_util s of
        None \<Rightarrow> s
      | Some u \<Rightarrow> if u_listener u then TxnTerminated (GetUserData p s) s else s)"

definition TerminateTxn :: "SipTxnKey option \<Rightarrow> stack \<Rightarrow> bool \<times> stack" where
  "TerminateTxn pTxnKey s =
     (case pTxnKey of
        None \<Rightarrow> (False, s)
      | Some k \<Rightarrow>
          (case ReleaseTransaction k TXN_OPT_REMOVE s of
             (True, Some (_, p), s) \<Rightarrow>
               let s = snd (AbortTxn p s);
                   s = (if GetUserData p s \<noteq> None then ud_SetDeleteFlag p True s else s);
                   s = NotifyTxnTermination p s
               in (True, SipTxn_SipDelete p s)
           | (_, _, s) \<Rightarrow> (False, s)))"

definition DeleteTxn :: "SipTxnKey option \<Rightarrow> stack \<Rightarrow> bool \<times> stack" where
  "DeleteTxn pTxnKey s =
     (case pTxnKey of
        None \<Rightarrow> (False, s)
      | Some k \<Rightarrow>
          (case ReleaseTransaction k TXN_OPT_REMOVE s of
             (True, Some (_, p), s) \<Rightarrow> (True, SipTxn_SipDelete p (NotifyTxnTermination p s))
           | (_, _, s) \<Rightarrow> (False, s)))"

definition UpdateTxnDetails :: "SipTxnKey option \<Rightarrow> SipTransportInfo \<Rightarrow> stack \<Rightarrow> bool \<times> stack" where
  "UpdateTxnDetails pTxnKey pTranspInfo s =
     (case pTxnKey of
        None \<Rightarrow> (False, s)
      | Some k \<Rightarrow>
          (case GetTxnObjFromDb k s of
             (False, _, s) \<Rightarrow> (False, s)
           | (True, None, s) \<Rightarrow> (False, s)
           | (True, Some p, s) \<Rightarrow>
               (True, SipTxn_SipDelete p (UpdateTranspInfo pTranspInfo p (SipTxn_Increment p s)))))"

subsection \<open>Sending\<close>

definition fd_timer_context :: "SipTxnFsmData \<Rightarrow> SipTimerContext option" where
  "fd_timer_context d =
     (case fd_pUserData d of
        None \<Rightarrow> None
      | Some ud \<Rightarrow> (case m_pvUserData ud of None \<Rightarrow> None | Some c \<Rightarrow> pSipTimerContext c))"

definition HandleClientTxnSend ::
    "txn_type \<Rightarrow> SipTxnKey \<Rightarrow> SipTxnFsmData \<Rightarrow> stack \<Rightarrow> bool \<times> pv_data \<times> stack" where
  "HandleClientTxnSend eTxnType pTxnKey d s =
     (let (p, s) = SipTxn_new eTxnType pTxnKey (fd_pSipMsgIn d) (fd_timer_context d) s
      in if s_err s = E_ERR_PF_MALLOCFAILED then (False, PvFsm d, SipTxn_SipDelete p s)
         else
           let nEvent = (if eTxnType = INV_CLI_TXN then INV_CLI_SEND_INV_REQ_EVT
                         else NON_INV_CLI_SEND_NON_INV_REQ_EVT);
               (ok, pv, s) = InvokeFsm CbkTxnTimeout nEvent p (PvFsm d) s
           in (ok, pv, SipTxn_SipDelete p s))"

definition HandleServerTxnSend ::
    "txn_type \<Rightarrow> SipTxnKey \<Rightarrow> SipTxnFsmData \<Rightarrow> stack \<Rightarrow> bool \<times> pv_data \<times> stack" where
  "HandleServerTxnSend eTxnType pTxnKey d s =
     (case GetTxnObjFromDb pTxnKey s of
        (False, _, s) \<Rightarrow> (False, PvFsm d, s)
      | (True, None, s) \<Rightarrow> (False, PvFsm d, s)
      | (True, Some p, s) \<Rightarrow>
          let s = SipTxn_Increment p s;
              nStatusCode = GetStatusCode (fd_pSipMsgIn d);
              (nEvent, s) =
                (if eTxnType = INV_SER_TXN then
                   (GetInvSerFsmEvt nStatusCode,
                    (SetRespCode nStatusCode p s)\<lparr>s_pool :=
                       pool_upd_key p (\<lambda>k. k\<lparr>m_nRespCode := nStatusCode\<rparr>) (s_pool s)\<rparr>)
                 else (GetNonInvSerFsmEvt nStatusCode, s))
          in if nEvent = INV_SER_INVALID_EVT \<or> nEvent = NON_INV_SER_INVALID_EVT then
               (False, PvFsm d, set_err EMSGERR_INVALIDSTATUSCODE (SipTxn_SipDelete p s))
             else
               let s = (case fd_timer_context d of
                          None \<Rightarrow> s
                        | Some c \<Rightarrow>
                            upd_txn p (\<lambda>t. t\<lparr>objTxnTimerValues :=
                              snd (UpdateSipTimers (nTimerOptions c) (pTxnSipTxnTimers c)
                                (objTxnTimerValues t))\<rparr>) s);
                   (ok, pv, s) = InvokeFsm CbkTxnTimeout nEvent p (PvFsm d) s
               in (ok, pv, SipTxn_SipDelete p s))"

text \<open>What the caller learns of the event data after a send.\<close>

definition send_info :: "SipTxnFsmData \<Rightarrow> SipTxnInfo" where
  "send_info d =
     (let info = SipTxnInfo_new\<lparr>in_bTxnTerminated := fd_bTxnTerminated d,
                                 in_bTxnCreated := fd_bTxnCreated d\<rparr>
      in if fd_bTxnCreated d \<or> fd_bTxnTerminated d then info\<lparr>in_pUserData := fd_pOutUserData d\<rparr>
         else info)"

text \<open>
  \<open>OnSendTxn\<close> answers the status, the key it made for the caller and what it did. An ACK
  that matches no transaction, and a 2xx for an INVITE that matches none, pass through with
  their key.
\<close>

definition OnSendTxn ::
    "SipMessage \<Rightarrow> SipTransportParameter \<Rightarrow> ISipUserData option \<Rightarrow> stack \<Rightarrow>
       bool \<times> SipTxnKey option \<times> SipTxnInfo \<times> stack" where
  "OnSendTxn pSipMsg pTranspParam pUserData s =
     (let d = SipTxnFsmData_new pSipMsg (Some pTranspParam) pUserData
      in case ValidateSendTxn pSipMsg s of
           (None, s) \<Rightarrow> (False, None, SipTxnInfo_new, s)
         | (Some (eTxnType, pTxnKey), s) \<Rightarrow>
             let pTxnKey = pTxnKey\<lparr>key_eTxnType := eTxnType\<rparr>
             in case GetTxnObjFromDb pTxnKey s of
                  (False, _, s) \<Rightarrow> (False, None, SipTxnInfo_new, s)
                | (True, pTxn, s) \<Rightarrow>
                    if pTxn \<noteq> None \<and> m_eMsgType pTxnKey = REQ_TYPE then
                      (False, None, SipTxnInfo_new, set_err ETXN_ALREADYTRANSACTIONINPROCESSERROR s)
                    else if pTxn = None \<and> m_eMsgType pTxnKey = RESP_TYPE then
                      (if GetMethodType pSipMsg = METHOD_INVITE \<and>
                          SIP_SUCCESSFUL_RESP (GetStatusCode pSipMsg)
                       then (True, Some pTxnKey, SipTxnInfo_new, s)
                       else (False, None, SipTxnInfo_new, s))
                    else if pTxn = None \<and> m_eMsgType pTxnKey = REQ_TYPE \<and>
                            GetMethodType pSipMsg = METHOD_ACK then
                      (True, Some pTxnKey, SipTxnInfo_new, s)
                    else
                      (case (case eTxnType of
                               INV_CLI_TXN \<Rightarrow> HandleClientTxnSend eTxnType pTxnKey d s
                             | NON_INV_CLI_TXN \<Rightarrow> HandleClientTxnSend eTxnType pTxnKey d s
                             | INV_SER_TXN \<Rightarrow> HandleServerTxnSend eTxnType pTxnKey d s
                             | NON_INV_SER_TXN \<Rightarrow> HandleServerTxnSend eTxnType pTxnKey d s
                             | INVALID_TXN \<Rightarrow> (False, PvFsm d, set_err 4 s)) of
                         (True, PvFsm d, s) \<Rightarrow> (True, Some pTxnKey, send_info d, s)
                       | (_, _, s) \<Rightarrow> (False, None, SipTxnInfo_new, s)))"

subsection \<open>Receiving\<close>

definition HandleClientTxnRecv ::
    "txn_type \<Rightarrow> SipTxnKey \<Rightarrow> SipTxnFsmData \<Rightarrow> stack \<Rightarrow> bool \<times> pv_data \<times> stack" where
  "HandleClientTxnRecv eTxnType pTxnKey d s =
     (case GetTxnObjFromDb pTxnKey s of
        (False, _, s) \<Rightarrow> (False, PvFsm d, s)
      | (True, None, s) \<Rightarrow> (False, PvFsm d, s)
      | (True, Some p, s) \<Rightarrow>
          let s = SipTxn_Increment p s;
              nStatusCode = GetStatusCode (fd_pSipMsgIn d);
              nEvent = (if eTxnType = INV_CLI_TXN then GetInvCliFsmEvt nStatusCode
                        else GetNonInvCliFsmEvt nStatusCode)
          in if nEvent = INV_CLI_INVALID_EVT \<or> nEvent = NON_INV_CLI_INVALID_EVT then
               (False, PvFsm d, set_err EMSGERR_INVALIDSTATUSCODE (SipTxn_SipDelete p s))
             else
               let (ok, pv, s) = InvokeFsm CbkTxnTimeout nEvent p (PvFsm d) s
               in (ok, pv, SipTxn_SipDelete p s))"

text \<open>The key is the caller's, which learns the response code of the INVITE from an ACK.\<close>

definition HandleServerTxnRecv ::
    "txn_type \<Rightarrow> SipTxnKey \<Rightarrow> SipTxnFsmData \<Rightarrow> stack \<Rightarrow> bool \<times> pv_data \<times> SipTxnKey \<times> stack" where
  "HandleServerTxnRecv eTxnType pTxnKey d s =
     (case GetTxnObjFromDb pTxnKey s of
        (False, _, s) \<Rightarrow> (False, PvFsm d, pTxnKey, s)
      | (True, pTxn, s) \<Rightarrow>
          let s = (case pTxn of None \<Rightarrow> s | Some p \<Rightarrow> SipTxn_Increment p s);
              eMethod = GetMethodType (fd_pSipMsgIn d);
              nEvent = (if eTxnType = INV_SER_TXN then
                          (if eMethod = METHOD_INVITE then INV_SER_RECV_INV_REQ_EVT
                           else INV_SER_RECV_ACK_REQ_EVT)
                        else NON_INV_SER_RECV_NON_INV_REQ_EVT);
              pInviteTxnKey = (case pTxn of None \<Rightarrow> None | Some p \<Rightarrow> m_pTxnKey (txn s p));
              pTxnKey = (if eTxnType = INV_SER_TXN \<and> eMethod \<noteq> METHOD_INVITE then
                           (case pInviteTxnKey of None \<Rightarrow> pTxnKey
                            | Some k \<Rightarrow> pTxnKey\<lparr>m_nRespCode := m_nRespCode k\<rparr>)
                         else pTxnKey);
              (p, s) = (case pTxn of
                          Some p \<Rightarrow> (p, s)
                        | None \<Rightarrow> SipTxn_new eTxnType pTxnKey (fd_pSipMsgIn d) (fd_timer_context d) s);
              (ok, pv, s) = InvokeFsm CbkTxnTimeout nEvent p (PvFsm d) s
          in (ok, pv, pTxnKey, SipTxn_SipDelete p s))"

definition recv_info :: "txn_type \<Rightarrow> SipTxnFsmData \<Rightarrow> SipTxnInfo" where
  "recv_info eTxnType d =
     \<lparr>in_pSendSipMsg =
        (if eTxnType = INV_CLI_TXN \<or> eTxnType = INV_SER_TXN then fd_pSendSipMsg d else None),
      in_pUserData = fd_pOutUserData d,
      in_pTranspInfo = (if fd_eTxnStatus d = STATUS_RETRANSMISSION then fd_pTranspInfo d else None),
      in_eTxnStatus = fd_eTxnStatus d, in_bTxnTerminated = fd_bTxnTerminated d,
      in_bTxnCreated = fd_bTxnCreated d\<rparr>"

definition OnRecvTxn ::
    "SipMessage \<Rightarrow> SipTxnKey \<Rightarrow> ISipUserData option \<Rightarrow> stack \<Rightarrow>
       bool \<times> SipTxnKey \<times> SipTxnInfo \<times> stack" where
  "OnRecvTxn pSipMsg pTxnKey pUserData s =
     (let d = SipTxnFsmData_new pSipMsg None pUserData
      in case ValidateRecvTxn pSipMsg of
           None \<Rightarrow> (False, pTxnKey, SipTxnInfo_new, s)
         | Some eTxnType \<Rightarrow>
             let pTxnKey = pTxnKey\<lparr>key_eTxnType := eTxnType\<rparr>;
                 (ok, pv, pTxnKey, s) =
                   (if eTxnType = INV_CLI_TXN \<or> eTxnType = NON_INV_CLI_TXN then
                      (let (ok, pv, s) = HandleClientTxnRecv eTxnType pTxnKey d s
                       in (ok, pv, pTxnKey, s))
                    else if eTxnType = INV_SER_TXN \<or> eTxnType = NON_INV_SER_TXN then
                      HandleServerTxnRecv eTxnType pTxnKey d s
                    else (False, PvFsm d, pTxnKey, set_err 4 s))
             in (case (ok, pv) of
                   (True, PvFsm d) \<Rightarrow> (True, pTxnKey, recv_info eTxnType d, s)
                 | _ \<Rightarrow> (False, pTxnKey, SipTxnInfo_new, s)))"

subsection \<open>Transport errors\<close>

definition OnRecvTranspError :: "int \<Rightarrow> SipTxnKey option \<Rightarrow> stack \<Rightarrow> bool \<times> stack" where
  "OnRecvTranspError eTransError pTxnKey s =
     (case pTxnKey of
        None \<Rightarrow> (False, s)
      | Some k \<Rightarrow>
          (case GetTxnObjFromDb k s of
             (False, _, s) \<Rightarrow> (False, s)
           | (True, None, s) \<Rightarrow> (False, s)
           | (True, Some p, s) \<Rightarrow>
               let (ok, s) =
                 (case m_eTxnType (txn s p) of
                    INVALID_TXN \<Rightarrow> (True, set_err 4 s)
                  | ty \<Rightarrow>
                      let nEvent = (case ty of
                            INV_CLI_TXN \<Rightarrow> INV_CLI_TRANSP_ERROR_EVT
                          | NON_INV_CLI_TXN \<Rightarrow> NON_INV_CLI_TRANSP_ERROR_EVT
                          | INV_SER_TXN \<Rightarrow> INV_SER_TRANSP_ERROR_EVT
                          | _ \<Rightarrow> NON_INV_SER_TRANSP_ERROR_EVT);
                          (ok, _, s) = InvokeFsm CbkTxnTimeout nEvent p (PvError eTransError) s
                      in (ok, s))
               in if \<not> ok then (False, s)
                  else if IsTxnTerminated (txn s p) then (True, snd (DeleteTxn pTxnKey s))
                  else (True, s)))"

definition OnSendTranspError :: "SipTxnKey option \<Rightarrow> stack \<Rightarrow> bool \<times> stack" where
  "OnSendTranspError pTxnKey s =
     (case pTxnKey of None \<Rightarrow> (False, s) | Some k \<Rightarrow> TerminateTxn (Some k) s)"

end
