(* ===== verification/Transp_Handler.thy ===== *)
theory Transp_Handler
  imports Txn_Handler
begin

text \<open>
  \<open>SipTransportHandler\<close> (\<open>protocol/sip/transport/SipTransportHandler.cpp\<close>): the transport
  information of a sent message, the first decision on a received one and the switch back to
  UDP after a transport error.
\<close>

subsection \<open>Sending\<close>

text \<open>The copy constructor and the information built for a message that was sent.\<close>

definition SipTransportParameter_copy :: "SipTransportParameter \<Rightarrow> SipTransportParameter" where
  "SipTransportParameter_copy p =
     \<lparr>m_pHostAddress = SipPf_Strdup (m_pHostAddress p), m_nPort = m_nPort p,
      m_nTranspProtocol = m_nTranspProtocol p\<rparr>"

definition OnSendTransp ::
    "SipMessage option \<Rightarrow> SipTransportParameter option \<Rightarrow> string \<Rightarrow> SipTransportInfo option" where
  "OnSendTransp pSipMsg pTranspParam pSipBuffer =
     (case (pSipMsg, pTranspParam) of
        (Some m, Some tp) \<Rightarrow>
          Some \<lparr>m_pActualDestParam = Some (SipTransportParameter_copy tp),
                tp_pTranspParam = Some (SipTransportParameter_copy tp),
                m_pSentBuffer = Some pSipBuffer, m_pSentSipMsg = Some m\<rparr>
      | _ \<Rightarrow> None)"

subsection \<open>Receiving\<close>

definition GetTxnKeyFromSipMsg :: "SipMessage \<Rightarrow> stack \<Rightarrow> SipTxnKey option \<times> stack" where
  "GetTxnKeyFromSipMsg pSipMsg s =
     (case CheckTxnMandatoryParams pSipMsg of
        None \<Rightarrow> (None, s)
      | Some _ \<Rightarrow>
          let (k, err) = SipTxnKey_of_msg pSipMsg (s_err s);
              s = set_err err s
          in if err = EERR_MALLOCFAILED then (None, s) else (Some k, s))"

definition recv_key_type :: "SipTxnKey \<Rightarrow> txn_type" where
  "recv_key_type k =
     (if m_eMsgType k = REQ_TYPE then
        (if SipPf_Strcmp ACK_METHOD (m_pszMethod k) = SIP_EQUALS \<or>
            SipPf_Strcmp INVITE_METHOD (m_pszMethod k) = SIP_EQUALS then INV_SER_TXN
         else NON_INV_SER_TXN)
      else if SipPf_Strcmp INVITE_METHOD (m_pszMethod k) = SIP_EQUALS then INV_CLI_TXN
      else NON_INV_CLI_TXN)"

text \<open>The status, whether the transaction exists, and the key of the message.\<close>

definition OnRecvTransp ::
    "SipMessage \<Rightarrow> stack \<Rightarrow> (txn_status \<times> bool \<times> SipTxnKey) option \<times> stack" where
  "OnRecvTransp pSipMsg s =
     (case GetTxnKeyFromSipMsg pSipMsg s of
        (None, s) \<Rightarrow> (None, s)
      | (Some k, s) \<Rightarrow>
          let k = k\<lparr>key_eTxnType := recv_key_type k\<rparr>
          in case GetTxnObjFromDb k s of
               (False, _, s) \<Rightarrow> (None, s)
             | (True, None, s) \<Rightarrow>
                 if m_eMsgType k = RESP_TYPE then
                   (if GetMethodType pSipMsg = METHOD_INVITE \<and>
                       SIP_SUCCESSFUL_RESP (GetStatusCode pSipMsg)
                    then (Some (STATUS_VALID_MESSAGE, False, k), s)
                    else (Some (STATUS_STRAY_RESP, False, k), s))
                 else (Some (STATUS_NEW_REQ_RECVD, False, k), s)
             | (True, Some _, s) \<Rightarrow> (Some (STATUS_VALID_MESSAGE, True, k), s))"

definition IsInviteTxnPresentForAckTxn :: "SipTxnKey \<Rightarrow> stack \<Rightarrow> bool \<times> stack" where
  "IsInviteTxnPresentForAckTxn pAckTxnKey s =
     (let (k, nError) = SipTxnKey_copy (Some pAckTxnKey) 0;
          k = RemoveRule RULE_COMPARE_VIA_BRANCH (SetMethod INVITE_METHOD k)
      in case GetTxnObjFromDb k (set_err nError s) of
           (False, _, s') \<Rightarrow> (False, set_err (s_err s) s')
         | (True, pTxn, s') \<Rightarrow> (pTxn \<noteq> None, set_err (s_err s) s'))"

subsection \<open>Transport errors\<close>

text \<open>
  \<open>strstr\<close> on the sent buffer: the offset of the first occurrence at or after an offset.
\<close>

fun strstr_from :: "string \<Rightarrow> string \<Rightarrow> nat \<Rightarrow> nat option" where
  "strstr_from [] pat i = (if pat = [] then Some i else None)"
| "strstr_from (c # cs) pat i =
     (if take (length pat) (c # cs) = pat then Some i else strstr_from cs pat (i + 1))"

definition UpdateViaSipMsg ::
    "SipMessage option \<Rightarrow> string \<Rightarrow> int \<Rightarrow> bool \<times> SipMessage option \<times> string" where
  "UpdateViaSipMsg pSipMsg buf eChangeProto =
     (let pos = (case strstr_from buf ([CHR 0x0D, CHR 0x0A] @ ''Via:'') 0 of
                   Some i \<Rightarrow> Some i
                 | None \<Rightarrow> strstr_from buf ([CHR 0x0D, CHR 0x0A] @ ''v:'') 0)
      in case pos of
           None \<Rightarrow> (False, pSipMsg, buf)
         | Some i \<Rightarrow>
             let edit = (if eChangeProto = PROTOCOL_TCP then
                           map_option (\<lambda>j. buf[j + 1 := CHR ''T'', j + 2 := CHR ''C''])
                             (strstr_from (drop i buf) ''/UDP'' i)
                         else if eChangeProto = PROTOCOL_UDP then
                           map_option (\<lambda>j. buf[j + 1 := CHR ''U'', j + 2 := CHR ''D''])
                             (strstr_from (drop i buf) ''/TCP'' i)
                         else None)
             in case edit of
                  None \<Rightarrow> (False, pSipMsg, buf)
                | Some buf \<Rightarrow>
                    (case pSipMsg of
                       None \<Rightarrow> (True, None, buf)
                     | Some m \<Rightarrow>
                         (case hdr_via m of
                            [] \<Rightarrow> (False, Some m, buf)
                          | v # vs \<Rightarrow>
                              let name = (if eChangeProto = PROTOCOL_TCP then ''TCP'' else ''UDP'')
                              in (True, Some (m\<lparr>hdr_via := v\<lparr>via_protocol := name\<rparr> # vs\<rparr>), buf))))"

text \<open>
  \<open>OnRecvTanspError\<close> answers the status it sets, if it sets one, and the transport
  information to send. The message of that information is the transaction's own message
  object when the two are the same request, so an edit of one is an edit of both. The code
  stops at a null buffer; the model gives the reference back there as on the other paths.
\<close>

definition SetSentVia :: "SipMessage option \<Rightarrow> string \<Rightarrow> ptr \<Rightarrow> stack \<Rightarrow> stack" where
  "SetSentVia m buf p =
     upd_txn p (\<lambda>t. case m_pTranspInfo t of
        None \<Rightarrow> t
      | Some ti \<Rightarrow>
          let t' = (if m_pSentSipMsg ti \<noteq> None \<and> m_pSipMsg t = m_pSentSipMsg ti
                    then t\<lparr>m_pSipMsg := m\<rparr> else t)
          in t'\<lparr>m_pTranspInfo := Some (ti\<lparr>m_pSentSipMsg := m, m_pSentBuffer := Some buf\<rparr>)\<rparr>)"

definition SetSentProto :: "int \<Rightarrow> ptr \<Rightarrow> stack \<Rightarrow> stack" where
  "SetSentProto proto p =
     upd_txn p (\<lambda>t. t\<lparr>m_pTranspInfo := map_option (\<lambda>ti. ti\<lparr>m_pActualDestParam :=
       map_option (\<lambda>tp. tp\<lparr>m_nTranspProtocol := proto\<rparr>) (m_pActualDestParam ti)\<rparr>)
       (m_pTranspInfo t)\<rparr>)"

definition OnRecvTanspError_switch ::
    "ptr \<Rightarrow> SipTransportInfo \<Rightarrow> stack \<Rightarrow>
       bool \<times> txn_status option \<times> SipTransportInfo option \<times> stack" where
  "OnRecvTanspError_switch p ti s =
     (case m_pSentBuffer ti of
        None \<Rightarrow> (False, None, None, SipTxn_SipDelete p (crash NullDeref s))
      | Some buf \<Rightarrow>
          (case UpdateViaSipMsg (m_pSentSipMsg ti) buf PROTOCOL_UDP of
             (False, m, buf) \<Rightarrow> (False, None, None, SipTxn_SipDelete p (SetSentVia m buf p s))
           | (True, m, buf) \<Rightarrow>
               let s = SetSentProto PROTOCOL_UDP p (SetSentVia m buf p s)
               in (True, Some STATUS_RETRANSMISSION, m_pTranspInfo (txn s p),
                   SipTxn_SipDelete p s)))"

definition OnRecvTanspError_transp ::
    "SipTxnKey \<Rightarrow> stack \<Rightarrow> bool \<times> txn_status option \<times> SipTransportInfo option \<times> stack" where
  "OnRecvTanspError_transp pTxnKey s =
     (case GetTxnObjFromDb pTxnKey s of
        (False, _, s) \<Rightarrow> (False, None, None, s)
      | (True, None, s) \<Rightarrow> (False, None, None, s)
      | (True, Some p, s) \<Rightarrow>
          let s = SipTxn_Increment p s
          in (case m_pTranspInfo (txn s p) of
                None \<Rightarrow> (False, None, None, set_err ETXN_STACKERROR (SipTxn_SipDelete p s))
              | Some ti \<Rightarrow>
                  (case m_pActualDestParam ti of
                     None \<Rightarrow> (False, None, None, set_err ETXN_STACKERROR (SipTxn_SipDelete p s))
                   | Some tp \<Rightarrow>
                       if m_nTranspProtocol tp = PROTOCOL_INVALID then
                         (False, None, None, SipTxn_SipDelete p s)
                       else if m_nTranspProtocol tp = PROTOCOL_TCP then
                         OnRecvTanspError_switch p ti s
                       else (True, None, None, SipTxn_SipDelete p s))))"

end
