(* ===== verification/Stack_Manager.thy ===== *)
theory Stack_Manager
  imports Transp_Handler
begin

text \<open>
  \<open>SipStackManager\<close> (\<open>protocol/sip/SipStackManager.cpp\<close>): the public operations of the
  protocol stack, composed of the transaction and the transport handler. The user data of
  the caller is an argument and a result, since the caller reads what the call left in it.
  The encoder of messages (\<open>SipMessage::EncodeMsg\<close>) is another component: it is a parameter
  of \<open>OnRecvMessage\<close>, from a message and the message options to the text, if it succeeds.
\<close>

subsection \<open>Pointers to user data\<close>

text \<open>\<open>SetUserData(SIP_NULL)\<close> on the transaction's user data, through \<open>SipTxnInfo\<close>.\<close>

definition clear_info_user_data :: "SipTxnInfo \<Rightarrow> stack \<Rightarrow> stack" where
  "clear_info_user_data info s =
     (case in_pUserData info of
        None \<Rightarrow> crash NullDeref s
      | Some p \<Rightarrow> if m_pUserData (txn s p) = None then crash UseAfterFree s
                  else ud_SetUserData p None s)"

definition with_user_data ::
    "ISipUserData option \<Rightarrow> (ISipUserData \<Rightarrow> ISipUserData) \<Rightarrow> stack \<Rightarrow> ISipUserData option \<times> stack" where
  "with_user_data pUserData f s =
     (case pUserData of None \<Rightarrow> (None, crash NullDeref s) | Some ud \<Rightarrow> (Some (f ud), s))"

definition info_context :: "SipTxnInfo \<Rightarrow> stack \<Rightarrow> SipTxnContext option" where
  "info_context info s =
     (case user_data (in_pUserData info) s of None \<Rightarrow> None | Some ud \<Rightarrow> m_pvUserData ud)"

subsection \<open>The network\<close>

definition SendToNetwork_mgr :: "SipTransportInfo option \<Rightarrow> ISipUserData option \<Rightarrow> stack \<Rightarrow> bool \<times> stack" where
  "SendToNetwork_mgr pTranspInfo pUserData s =
     (case pTranspInfo of
        None \<Rightarrow> (False, s)
      | Some ti \<Rightarrow>
          if s_util s = None then (False, crash NullDeref s)
          else SendToNetwork (m_pSentBuffer ti) (m_pActualDestParam ti) pUserData s)"

subsection \<open>Sending\<close>

definition SendMsg_undo :: "SipTxnInfo \<Rightarrow> stack \<Rightarrow> stack" where
  "SendMsg_undo info s = (if in_bTxnCreated info then clear_info_user_data info s else s)"

definition SendMsg_terminated ::
    "SipTxnInfo \<Rightarrow> SipTxnKey option \<Rightarrow> ISipUserData option \<Rightarrow> stack \<Rightarrow> ISipUserData option \<times> stack" where
  "SendMsg_terminated info pTxnKey pUserData s =
     (let (pUserData, s) = with_user_data pUserData
            (\<lambda>ud. ud\<lparr>m_pvUserData := info_context info s, m_bDeleteFlag := True\<rparr>) s;
          s = clear_info_user_data info s
      in (pUserData, snd (DeleteTxn pTxnKey s)))"

definition SendMsg_sent ::
    "SipMessage \<Rightarrow> SipTxnKey option \<Rightarrow> SipTxnInfo \<Rightarrow> SipTransportInfo \<Rightarrow> ISipUserData option \<Rightarrow> stack \<Rightarrow>
       bool \<times> SipTxnKey option \<times> ISipUserData option \<times> stack" where
  "SendMsg_sent pSipMsg pTxnKey info pTranspInfo pUserData s =
     (let (ok, key, pUserData, s) =
            (if in_bTxnTerminated info then
               (let (ud, s) = SendMsg_terminated info pTxnKey pUserData s in (True, None, ud, s))
             else
               (case pTxnKey of
                  None \<Rightarrow> (True, None, pUserData, s)
                | Some k \<Rightarrow>
                    (let (updated, s) = UpdateTxnDetails (Some k) pTranspInfo s
                     in if \<not> updated \<and> GetMethodType pSipMsg \<noteq> METHOD_ACK then
                          (False, None, pUserData, SendMsg_undo info s)
                        else (True, if in_bTxnCreated info then Some k else None, pUserData, s))))
      in if ok \<and> in_bTxnCreated info then
           (let (ud, s) = with_user_data pUserData (\<lambda>ud. ud\<lparr>m_pvUserData := None\<rparr>) s
            in (True, key, ud, s))
         else (ok, key, pUserData, s))"

text \<open>The answer, the key of a new transaction, the caller's user data after the call.\<close>

definition SendMsg ::
    "SipMessage option \<Rightarrow> SipTransportParameter option \<Rightarrow> ISipUserData option \<Rightarrow> string \<Rightarrow> stack \<Rightarrow>
       bool \<times> SipTxnKey option \<times> ISipUserData option \<times> stack" where
  "SendMsg pSipMsg pTranspParam pUserData pSipBuffer s =
     (case (pSipMsg, pTranspParam) of
        (Some m, Some tp) \<Rightarrow>
          (case OnSendTxn m tp pUserData s of
             (False, _, _, s) \<Rightarrow> (False, None, pUserData, s)
           | (True, pTxnKey, info, s) \<Rightarrow>
               (case OnSendTransp (Some m) (Some tp) pSipBuffer of
                  None \<Rightarrow>
                    (False, None, pUserData, SendMsg_undo info (snd (OnSendTranspError pTxnKey s)))
                | Some ti \<Rightarrow>
                    (case SendToNetwork_mgr (Some ti) pUserData s of
                       (False, s) \<Rightarrow> (False, None, pUserData, SendMsg_undo info s)
                     | (True, s) \<Rightarrow> SendMsg_sent m pTxnKey info ti pUserData s)))
      | _ \<Rightarrow> (False, None, pUserData, s))"

subsection \<open>Receiving\<close>

text \<open>
  The message the state machine produced (the ACK of a failure response): whether processing
  goes on with \<open>None\<close>, or ends the call with true.
\<close>

definition OnRecvMessage_send ::
    "(SipMessage \<Rightarrow> u32 \<Rightarrow> string option) \<Rightarrow> SipTransportParameter \<Rightarrow> SipTxnKey \<Rightarrow> SipTxnInfo \<Rightarrow>
       ISipUserData option \<Rightarrow> stack \<Rightarrow> bool \<times> stack" where
  "OnRecvMessage_send encode pTranspParam pTxnKey info pUserData s =
     (case (in_pSendSipMsg info, in_pUserData info) of
        (Some m, Some p) \<Rightarrow>
          (case pUserData of
             None \<Rightarrow> (False, crash NullDeref s)
           | Some ud \<Rightarrow>
               (case encode m (m_nMsgOptions ud) of
                  None \<Rightarrow> (False, snd (OnSendTranspError (Some pTxnKey) s))
                | Some buf \<Rightarrow>
                    (case OnSendTransp (Some m) (Some pTranspParam) buf of
                       None \<Rightarrow> (False, snd (OnSendTranspError (Some pTxnKey) s))
                     | Some ti \<Rightarrow>
                         let s = PreProcessMessageSentByStack m (Some p) s
                         in (case SendToNetwork_mgr (Some ti) (user_data (Some p) s) s of
                               (False, s) \<Rightarrow> (False, s)
                             | (True, s) \<Rightarrow>
                                 let s = PostProcessMessageSentByStack m (m_pSentBuffer ti) (Some p) s
                                 in (True, snd (UpdateTxnDetails (Some pTxnKey) ti s))))))
      | _ \<Rightarrow> (True, s))"

definition OnRecvMessage_end ::
    "SipMessage \<Rightarrow> SipTxnKey \<Rightarrow> SipTxnInfo \<Rightarrow> ISipUserData option \<Rightarrow> stack \<Rightarrow>
       SipTxnKey option \<times> ISipUserData option \<times> stack" where
  "OnRecvMessage_end pSipMsg pTxnKey info pUserData s =
     (if in_bTxnTerminated info then
        let s = (if in_pUserData info \<noteq> None then clear_info_user_data info s else s);
            (ud, s) = with_user_data pUserData (\<lambda>ud. ud\<lparr>m_bDeleteFlag := True\<rparr>) s;
            s = snd (DeleteTxn (Some pTxnKey) s)
        in (if GetMethodType pSipMsg = METHOD_INVITE then Some pTxnKey else None, ud, s)
      else if in_bTxnCreated info \<or> GetMethodType pSipMsg = METHOD_ACK then
        (Some pTxnKey, pUserData, s)
      else (None, pUserData, s))"

text \<open>The user data the caller gets back: the transaction's context, unless it keeps it.\<close>

definition OnRecvMessage_user_data ::
    "SipTxnInfo \<Rightarrow> ISipUserData option \<Rightarrow> stack \<Rightarrow> ISipUserData option \<times> stack" where
  "OnRecvMessage_user_data info pUserData s =
     (if in_bTxnCreated info then with_user_data pUserData (\<lambda>ud. ud\<lparr>m_pvUserData := None\<rparr>) s
      else if in_pUserData info \<noteq> None then
        with_user_data pUserData (\<lambda>ud. ud\<lparr>m_pvUserData := info_context info s\<rparr>) s
      else (pUserData, s))"

text \<open>What follows a successful \<open>OnRecvTxn\<close>, in the order of the status it left.\<close>

definition OnRecvMessage_txn ::
    "(SipMessage \<Rightarrow> u32 \<Rightarrow> string option) \<Rightarrow> SipMessage \<Rightarrow> SipTransportParameter \<Rightarrow> SipTxnKey \<Rightarrow>
       SipTxnInfo \<Rightarrow> ISipUserData option \<Rightarrow> stack \<Rightarrow>
       bool \<times> txn_status \<times> SipTxnKey option \<times> ISipUserData option \<times> stack" where
  "OnRecvMessage_txn encode pSipMsg pTranspParam pTxnKey info pUserData s =
     (let st = in_eTxnStatus info;
          (pUserData, s) = OnRecvMessage_user_data info pUserData s
      in if st \<in> {STATUS_IGNORE_REQ, STATUS_IGNORE_RESP, STATUS_STRAY_RESP, STATUS_STRAY_PRACK} then
           (True, st, None, pUserData, s)
         else if st = STATUS_RETRANSMISSION then
           (True, st, None, pUserData,
            snd (SendToNetwork_mgr (in_pTranspInfo info) (user_data (in_pUserData info) s) s))
         else if st = STATUS_NEW_REQ_RECVD \<or> st = STATUS_VALID_MESSAGE then
           (case OnRecvMessage_send encode pTranspParam pTxnKey info pUserData s of
              (False, s) \<Rightarrow> (True, st, None, pUserData, s)
            | (True, s) \<Rightarrow>
                let (key, ud, s) = OnRecvMessage_end pSipMsg pTxnKey info pUserData s
                in (True, st, key, ud, s))
         else (False, st, None, pUserData, s))"

text \<open>The answer, the status, the key, the caller's user data after the call.\<close>

definition OnRecvMessage ::
    "(SipMessage \<Rightarrow> u32 \<Rightarrow> string option) \<Rightarrow> SipMessage option \<Rightarrow> SipTransportParameter option \<Rightarrow>
       ISipUserData option \<Rightarrow> stack \<Rightarrow>
       bool \<times> txn_status \<times> SipTxnKey option \<times> ISipUserData option \<times> stack" where
  "OnRecvMessage encode pSipMsg pTranspParam pUserData s =
     (case (pSipMsg, pTranspParam) of
        (Some m, Some tp) \<Rightarrow>
          (case OnRecvTransp m s of
             (None, s) \<Rightarrow> (False, STATUS_INVALID, None, pUserData, s)
           | (Some (st, bTxnExist, k), s) \<Rightarrow>
               if st = STATUS_STRAY_RESP then (True, st, None, pUserData, s)
               else if st = STATUS_NEW_REQ_RECVD \<and> GetMethodType m = METHOD_ACK then
                 (let (present, s) = IsInviteTxnPresentForAckTxn k s
                  in (True, if present then st else STATUS_RETRANSMISSION,
                      Some (k\<lparr>key_eTxnType := INV_SER_TXN, m_nRespCode := 200\<rparr>), pUserData, s))
               else if \<not> bTxnExist \<and> m_eSipMsgType m = RESP_TYPE \<and>
                       GetMethodType m = METHOD_INVITE \<and> SIP_SUCCESSFUL_RESP (GetStatusCode m) then
                 (True, STATUS_2XX_STRAY_RESP, None, pUserData, s)
               else
                 (case OnRecvTxn m k pUserData s of
                    (False, _, _, s) \<Rightarrow> (False, STATUS_INVALID_MESSAGE, None, pUserData, s)
                  | (True, k, info, s) \<Rightarrow> OnRecvMessage_txn encode m tp k info pUserData s))
      | _ \<Rightarrow> (False, STATUS_INVALID, None, pUserData, s))"

subsection \<open>Transport errors and termination\<close>

text \<open>The user data passed to the network is a local object without a context.\<close>

definition OnRecvTanspError :: "int \<Rightarrow> SipTxnKey \<Rightarrow> stack \<Rightarrow> bool \<times> stack" where
  "OnRecvTanspError eTranspError pTxnKey s =
     (case OnRecvTanspError_transp pTxnKey s of
        (False, _, _, s) \<Rightarrow> (False, s)
      | (True, st, ti, s) \<Rightarrow>
          let (sent, s) = (if st = Some STATUS_RETRANSMISSION
                           then SendToNetwork_mgr ti (Some (ISipUserData_new None)) s
                           else (False, s))
          in if sent then (True, s) else OnRecvTranspError (uint (s_err s)) (Some pTxnKey) s)"

definition TerminateTxn_mgr :: "SipTxnKey option \<Rightarrow> stack \<Rightarrow> bool \<times> stack" where
  "TerminateTxn_mgr pTxnKey s = TerminateTxn pTxnKey s"

end
