(* ===== verification/Stack_Invariant.thy ===== *)
theory Stack_Invariant
  imports Stack_Manager
begin

text \<open>
  The invariant of the transaction layer and what every operation on the state keeps of it.
  \<open>good\<close> says that the pool is well formed, that every entry is found by its own key, that
  its transaction is allocated, knows its key and is in a state its table has a row for, and
  that the timer a transaction waits for is running and leads back to it. \<open>slack\<close> counts the
  references to a transaction beyond the two a pool entry stands for; an operation that gives
  back every reference it takes leaves it alone.
\<close>

subsection \<open>Keys that name the same transaction\<close>

text \<open>The response code and the RSeq of a key change while it is stored.\<close>

definition same_id :: "SipTxnKey \<Rightarrow> SipTxnKey \<Rightarrow> bool" where
  "same_id a b \<longleftrightarrow> a\<lparr>m_nRSeqNum := 0, m_nRespCode := 0\<rparr> = b\<lparr>m_nRSeqNum := 0, m_nRespCode := 0\<rparr>"

definition key_ok :: "SipTxnKey \<Rightarrow> bool" where
  "key_ok k \<longleftrightarrow> copyable k \<and> m_pszMethod k \<noteq> ACK_METHOD \<and> \<not> HasRule RULE_COMPARE_RSEQ k"

lemma same_id_refl [simp]: "same_id k k"
  by (simp add: same_id_def)

lemma same_id_upd [simp]:
  "same_id (k\<lparr>m_nRSeqNum := n\<rparr>) k' = same_id k k'" "same_id (k\<lparr>m_nRespCode := c\<rparr>) k' = same_id k k'"
  "same_id k (k'\<lparr>m_nRSeqNum := n\<rparr>) = same_id k k'" "same_id k (k'\<lparr>m_nRespCode := c\<rparr>) = same_id k k'"
  by (simp_all add: same_id_def)

lemma same_id_iff:
  "same_id a b \<longleftrightarrow>
     m_eMsgType a = m_eMsgType b \<and> m_pszViaBranchParam a = m_pszViaBranchParam b \<and>
     m_pszViaHost a = m_pszViaHost b \<and> m_nViaHostPort a = m_nViaHostPort b \<and>
     m_pszMethod a = m_pszMethod b \<and> m_nCseqNum a = m_nCseqNum b \<and>
     m_pRequestUri a = m_pRequestUri b \<and> m_pszToTag a = m_pszToTag b \<and>
     m_pszFromTag a = m_pszFromTag b \<and> m_pszCallId a = m_pszCallId b \<and>
     key_eTxnType a = key_eTxnType b \<and> m_nRules a = m_nRules b"
  by (cases a; cases b) (simp add: same_id_def)

lemma same_id_sym: "same_id a b \<Longrightarrow> same_id b a"
  by (simp add: same_id_def)

lemma same_id_trans: "same_id a b \<Longrightarrow> same_id b c \<Longrightarrow> same_id a c"
  by (simp add: same_id_def)

lemma same_id_key_ok: "same_id a b \<Longrightarrow> key_ok a = key_ok b"
  by (simp add: same_id_iff key_ok_def copyable_def HasRule_def)

lemma same_id_pool_key: "same_id a b \<Longrightarrow> pool_key a = pool_key b"
  by (simp add: same_id_iff pool_key_def)

lemma same_id_CompareKeys:
  assumes "same_id a b" and "same_id g h" and "key_ok g"
  shows "CompareKeys a (Some g) = CompareKeys b (Some h)"
  using assms by (auto simp: CompareKeys_iff txn_matches_def same_method_def same_id_iff key_ok_def HasRule_def)

lemma key_ok_self: "key_ok k \<Longrightarrow> CompareKeys k (Some k)"
  by (auto simp: key_ok_def CompareKeys_iff self_match)

subsection \<open>The invariant\<close>

abbreviation entries :: "stack \<Rightarrow> (SipTxnKey \<times> ptr) list" where
  "entries s \<equiv> pool_entries (s_pool s)"

definition in_pool :: "stack \<Rightarrow> ptr \<Rightarrow> bool" where
  "in_pool s p \<longleftrightarrow> p \<in> snd ` set (entries s)"

definition pool_refs :: "stack \<Rightarrow> ptr \<Rightarrow> nat" where
  "pool_refs s p = count (image_mset snd (mset (entries s))) p"

definition slack :: "stack \<Rightarrow> ptr \<Rightarrow> int" where
  "slack s p = m_nRefCount (txn s p) - 2 * int (pool_refs s p)"

definition timer_ok :: "(nat \<Rightarrow> (u32 \<times> SipTimeoutData) option) \<Rightarrow> SipTxnKey \<Rightarrow> nat \<Rightarrow> bool" where
  "timer_ok timers k i \<longleftrightarrow>
     (\<exists>d td k'. timers i = Some (d, td) \<and> td_pTxnKey td = Some k' \<and> same_id k' k)"

text \<open>A transaction and the key under which the pool stores it.\<close>

definition txn_ok :: "(nat \<Rightarrow> (u32 \<times> SipTimeoutData) option) \<Rightarrow> SipTxn \<Rightarrow> SipTxnKey \<Rightarrow> bool" where
  "txn_ok timers t k \<longleftrightarrow>
     key_ok k \<and> (\<exists>k'. m_pTxnKey t = Some k' \<and> same_id k' k) \<and> m_eTxnType t \<noteq> INVALID_TXN \<and>
     m_nTxnState t \<le> 4 \<and> (\<forall>i. m_pvTimerId t = Some i \<longrightarrow> timer_ok timers k i)"

definition safe_crash :: "crash option \<Rightarrow> bool" where
  "safe_crash c \<longleftrightarrow> c \<in> {None, Some NullDeref, Some Hang}"

text \<open>
  Between operations every pooled transaction has left the idle state; inside the handler of
  a new transaction \<open>X\<close> holds the one that has not.
\<close>

definition good :: "ptr set \<Rightarrow> stack \<Rightarrow> bool" where
  "good X s \<longleftrightarrow>
     pool_wf (s_pool s) \<and>
     (\<forall>e\<in>set (entries s). FindTransaction (fst e) (s_pool s) = Some e) \<and>
     (\<forall>p. pool_refs s p \<le> 1) \<and>
     (\<forall>p. slack s p \<ge> 0) \<and>
     (\<forall>e\<in>set (entries s). snd e < s_next s \<and> txn_ok (s_timers s) (txn s (snd e)) (fst e)) \<and>
     (\<forall>p q i. in_pool s p \<longrightarrow> in_pool s q \<longrightarrow> m_pvTimerId (txn s p) = Some i \<longrightarrow>
        m_pvTimerId (txn s q) = Some i \<longrightarrow> p = q) \<and>
     (\<forall>i\<ge>s_next_timer s. s_timers s i = None) \<and>
     (\<forall>p. in_pool s p \<longrightarrow> p \<notin> X \<longrightarrow> m_nTxnState (txn s p) \<ge> 1) \<and>
     safe_crash (s_crash s) \<and>
     s_garbage s \<noteq> E_ERR_PF_MALLOCFAILED"

lemma goodD:
  assumes "good X s"
  shows good_wf: "pool_wf (s_pool s)"
    and good_found: "e \<in> set (entries s) \<Longrightarrow> FindTransaction (fst e) (s_pool s) = Some e"
    and good_refs: "pool_refs s p \<le> 1"
    and good_slack: "slack s p \<ge> 0"
    and good_alloc: "e \<in> set (entries s) \<Longrightarrow> snd e < s_next s"
    and good_txn: "e \<in> set (entries s) \<Longrightarrow> txn_ok (s_timers s) (txn s (snd e)) (fst e)"
    and good_inj: "in_pool s p \<Longrightarrow> in_pool s q \<Longrightarrow> m_pvTimerId (txn s p) = Some i \<Longrightarrow>
          m_pvTimerId (txn s q) = Some i \<Longrightarrow> p = q"
    and good_fresh: "i \<ge> s_next_timer s \<Longrightarrow> s_timers s i = None"
    and good_started: "in_pool s p \<Longrightarrow> p \<notin> X \<Longrightarrow> m_nTxnState (txn s p) \<ge> 1"
    and good_crash: "safe_crash (s_crash s)"
    and good_garbage: "s_garbage s \<noteq> E_ERR_PF_MALLOCFAILED"
  using assms unfolding good_def by blast+

lemma in_poolE: "in_pool s p \<Longrightarrow> (\<And>k. (k, p) \<in> set (entries s) \<Longrightarrow> P) \<Longrightarrow> P"
  by (auto simp: in_pool_def)

lemma in_poolI: "(k, p) \<in> set (entries s) \<Longrightarrow> in_pool s p"
  by (force simp: in_pool_def)

lemma in_pool_refs: "in_pool s p \<longleftrightarrow> pool_refs s p > 0"
  unfolding in_pool_def pool_refs_def by (metis count_greater_zero_iff set_image_mset set_mset_mset)

text \<open>One entry per transaction.\<close>

lemma good_unique:
  assumes "good X s" and "e \<in> set (entries s)" and "e' \<in> set (entries s)" and "snd e = snd e'"
  shows "e = e'"
proof (rule ccontr)
  assume ne: "e \<noteq> e'"
  let ?M = "mset (entries s)"
  have "e' \<in># ?M - {#e#}" using assms(3) ne by (simp add: in_diff_count)
  then have "{#e, e'#} \<subseteq># ?M" using assms(2)
    by (metis add_mset_remove_trivial insert_DiffM insert_subset_eq_iff mset_subset_eq_add_mset_cancel
        mset_subset_eq_single set_mset_mset)
  then have "count (image_mset snd {#e, e'#}) (snd e) \<le> count (image_mset snd ?M) (snd e)"
    by (intro mset_subset_eq_count image_mset_subseteq_mono)
  with assms(4) good_refs [OF assms(1), of "snd e"] show False by (simp add: pool_refs_def)
qed

subsection \<open>Writes to a transaction\<close>

lemma txn_upd_txn [simp]: "txn (upd_txn p f s) q = (if q = p then f (txn s p) else txn s q)"
  by (simp add: upd_txn_def)

lemma upd_txn_sel [simp]:
  "s_next (upd_txn p f s) = s_next s" "s_pool (upd_txn p f s) = s_pool s"
  "s_txnKeyList (upd_txn p f s) = s_txnKeyList s" "s_timers (upd_txn p f s) = s_timers s"
  "s_next_timer (upd_txn p f s) = s_next_timer s" "s_err (upd_txn p f s) = s_err s"
  "s_events (upd_txn p f s) = s_events s" "s_crash (upd_txn p f s) = s_crash s"
  "s_util (upd_txn p f s) = s_util s" "s_config (upd_txn p f s) = s_config s"
  "s_timer_ok (upd_txn p f s) = s_timer_ok s" "s_net_ok (upd_txn p f s) = s_net_ok s"
  "s_create_ack (upd_txn p f s) = s_create_ack s" "s_garbage (upd_txn p f s) = s_garbage s"
  by (simp_all add: upd_txn_def)

lemma in_pool_cong: "s_pool s' = s_pool s \<Longrightarrow> in_pool s' p = in_pool s p"
  by (simp add: in_pool_def)

lemma in_pool_upd [simp]: "in_pool (upd_txn p f s) q = in_pool s q"
  by (simp add: in_pool_def)

lemma pool_refs_upd [simp]: "pool_refs (upd_txn p f s) q = pool_refs s q"
  by (simp add: pool_refs_def)

lemma slack_upd_ref:
  "slack (upd_txn p f s) = (slack s)(p := slack s p + m_nRefCount (f (txn s p)) - m_nRefCount (txn s p))"
  by (rule ext) (simp add: slack_def)

lemma good_upd:
  assumes "good X s"
    and "slack s p + m_nRefCount (f (txn s p)) \<ge> m_nRefCount (txn s p)"
    and "\<And>k. (k, p) \<in> set (entries s) \<Longrightarrow> txn_ok (s_timers s) (txn s p) k \<Longrightarrow>
           txn_ok (s_timers s) (f (txn s p)) k"
    and "in_pool s p \<Longrightarrow> m_pvTimerId (f (txn s p)) \<in> {None, m_pvTimerId (txn s p)}"
    and "m_nTxnState (txn s p) \<ge> 1 \<Longrightarrow> m_nTxnState (f (txn s p)) \<ge> 1"
  shows "good X (upd_txn p f s)"
  unfolding good_def slack_upd_ref
proof (intro conjI)
  show "\<forall>e\<in>set (entries (upd_txn p f s)).
          snd e < s_next (upd_txn p f s) \<and>
          txn_ok (s_timers (upd_txn p f s)) (txn (upd_txn p f s) (snd e)) (fst e)"
    using assms(3) good_alloc [OF assms(1)] good_txn [OF assms(1)] by fastforce
  show "\<forall>q r i. in_pool (upd_txn p f s) q \<longrightarrow> in_pool (upd_txn p f s) r \<longrightarrow>
          m_pvTimerId (txn (upd_txn p f s) q) = Some i \<longrightarrow>
          m_pvTimerId (txn (upd_txn p f s) r) = Some i \<longrightarrow> q = r"
  proof (intro allI impI)
    fix q r i
    assume in_p: "in_pool (upd_txn p f s) q" "in_pool (upd_txn p f s) r"
      and ids: "m_pvTimerId (txn (upd_txn p f s) q) = Some i"
        "m_pvTimerId (txn (upd_txn p f s) r) = Some i"
    have "m_pvTimerId (txn s x) = Some i"
      if "in_pool s x" "m_pvTimerId (txn (upd_txn p f s) x) = Some i" for x
      using that assms(4) by (auto split: if_splits)
    with in_p ids show "q = r" using good_inj [OF assms(1)] by (metis in_pool_upd)
  qed
  show "\<forall>q. 0 \<le> ((slack s)(p := slack s p + m_nRefCount (f (txn s p)) - m_nRefCount (txn s p))) q"
    using assms(2) good_slack [OF assms(1)] by simp
  show "\<forall>q. in_pool (upd_txn p f s) q \<longrightarrow> q \<notin> X \<longrightarrow> m_nTxnState (txn (upd_txn p f s) q) \<ge> 1"
    using assms(5) good_started [OF assms(1)] by simp
qed (use assms(1) in \<open>simp_all add: good_def\<close>)

text \<open>A write that keeps the fields the invariant reads.\<close>

lemma good_upd_same:
  assumes "good X s" and "\<And>t. m_nRefCount (f t) = m_nRefCount t"
    and "\<And>t. m_pTxnKey (f t) = m_pTxnKey t" and "\<And>t. m_eTxnType (f t) = m_eTxnType t"
    and "\<And>t. m_pvTimerId (f t) = m_pvTimerId t" and "\<And>t. m_nTxnState (f t) = m_nTxnState t \<or> 1 \<le> m_nTxnState (f t) \<and> m_nTxnState (f t) \<le> 4"
  shows "good X (upd_txn p f s)"
proof (rule good_upd)
  fix k assume "(k, p) \<in> set (entries s)" "txn_ok (s_timers s) (txn s p) k"
  with assms(6) [of "txn s p"] assms(3-5) show "txn_ok (s_timers s) (f (txn s p)) k" by (auto simp: txn_ok_def)
next
  show "1 \<le> m_nTxnState (txn s p) \<Longrightarrow> 1 \<le> m_nTxnState (f (txn s p))" using assms(6) [of "txn s p"] by auto
qed (use assms in \<open>simp_all add: good_slack\<close>)

lemma slack_upd_same: "(\<And>t. m_nRefCount (f t) = m_nRefCount t) \<Longrightarrow> slack (upd_txn p f s) = slack s"
  by (rule ext) (simp add: slack_def)

lemma good_SetTxnState [keeps_good]: "good X s \<Longrightarrow> 1 \<le> st \<Longrightarrow> st \<le> 4 \<Longrightarrow> good X (SetTxnState st p s)"
  unfolding SetTxnState_def by (rule good_upd_same) simp_all

lemma good_fields [keeps_good]:
  assumes "good X s"
  shows "good X (SetMaxDuration d p s)" and "good X (SetCurrentDuration d p s)" and "good X (IncrTxnCount p s)"
    and "good X (IncrDurationExpired d p s)" and "good X (InitRetransmissionInfo p s)"
    and "good X (UpdateTranspInfo ti p s)" and "good X (ud_SetUserData p c s)" and "good X (ud_SetDeleteFlag p b s)"
    and "good X (SetSentProto proto p s)"
  using assms unfolding SetMaxDuration_def SetCurrentDuration_def IncrTxnCount_def IncrDurationExpired_def
    InitRetransmissionInfo_def UpdateTranspInfo_def ud_SetUserData_def ud_SetDeleteFlag_def SetSentProto_def
  by (auto intro!: good_upd_same)

lemma slack_fields [keeps_slack]:
  "slack (SetTxnState st p s) = slack s" "slack (SetMaxDuration d p s) = slack s"
  "slack (SetCurrentDuration d p s) = slack s" "slack (IncrTxnCount p s) = slack s"
  "slack (IncrDurationExpired d p s) = slack s" "slack (InitRetransmissionInfo p s) = slack s"
  "slack (UpdateTranspInfo ti p s) = slack s" "slack (ud_SetUserData p c s) = slack s"
  "slack (ud_SetDeleteFlag p b s) = slack s" "slack (SetSentProto proto p s) = slack s"
  "slack (SetTimerId i p s) = slack s" "slack (SetRespCode rc p s) = slack s"
  unfolding SetTxnState_def SetMaxDuration_def SetCurrentDuration_def IncrTxnCount_def
    IncrDurationExpired_def InitRetransmissionInfo_def UpdateTranspInfo_def ud_SetUserData_def
    ud_SetDeleteFlag_def SetSentProto_def SetTimerId_def SetRespCode_def
  by (simp_all add: slack_upd_same)

lemma good_SetTimerId_None [keeps_good]: "good X s \<Longrightarrow> good X (SetTimerId None p s)"
  unfolding SetTimerId_def by (rule good_upd) (auto simp: txn_ok_def good_slack)

lemma good_SetRespCode [keeps_good]: "good X s \<Longrightarrow> good X (SetRespCode c p s)"
  unfolding SetRespCode_def by (rule good_upd) (auto simp: txn_ok_def good_slack)

lemma good_SetUserData [keeps_good]: "good X s \<Longrightarrow> good X (snd (SetUserData ud p s))"
  unfolding SetUserData_def by (auto split: option.split intro!: good_upd_same)

lemma slack_SetUserData [keeps_slack]: "slack (snd (SetUserData ud p s)) = slack s"
  unfolding SetUserData_def by (auto split: option.split simp: slack_upd_same)

text \<open>Parts of the state the invariant does not read.\<close>

lemma good_irrelevant [keeps_good, simp]:
  "good X (s\<lparr>s_err := e\<rparr>) = good X s" "good X (s\<lparr>s_events := ev\<rparr>) = good X s"
  "good X (s\<lparr>s_txnKeyList := ks\<rparr>) = good X s" "good X (set_err e s) = good X s" "good X (emit x s) = good X s"
  by (simp_all add: good_def slack_def pool_refs_def in_pool_def set_err_def emit_def)

lemma slack_irrelevant [keeps_slack, simp]:
  "slack (s\<lparr>s_err := e\<rparr>) = slack s" "slack (s\<lparr>s_events := ev\<rparr>) = slack s"
  "slack (s\<lparr>s_txnKeyList := ks\<rparr>) = slack s" "slack (set_err e s) = slack s" "slack (emit x s) = slack s"
  by (simp_all add: slack_def pool_refs_def set_err_def emit_def fun_eq_iff)

lemma good_crash_safe [keeps_good]:
  "good X s \<Longrightarrow> safe_crash (Some c) \<Longrightarrow> good X (crash c s)"
  by (simp add: good_def slack_def pool_refs_def in_pool_def crash_def)

lemma slack_crash [keeps_slack, simp]: "slack (crash c s) = slack s"
  by (simp add: slack_def pool_refs_def crash_def fun_eq_iff)

lemma safe_crash_simps [simp]: "safe_crash None" "safe_crash (Some NullDeref)" "safe_crash (Some Hang)"
  by (simp_all add: safe_crash_def)

lemma in_pool_irrelevant [simp]:
  "in_pool (s\<lparr>s_err := e\<rparr>) p = in_pool s p" "in_pool (s\<lparr>s_events := ev\<rparr>) p = in_pool s p"
  "in_pool (s\<lparr>s_txnKeyList := ks\<rparr>) p = in_pool s p" "in_pool (set_err e' s) p = in_pool s p"
  "in_pool (emit x s) p = in_pool s p" "in_pool (crash c s) p = in_pool s p"
  "in_pool (s\<lparr>s_timers := tm\<rparr>) p = in_pool s p" "in_pool (s\<lparr>s_next_timer := nt\<rparr>) p = in_pool s p"
  by (simp_all add: in_pool_def set_err_def emit_def crash_def)

subsection \<open>References\<close>

lemma slack_Increment [simp]: "slack (SipTxn_Increment p s) = (slack s)(p := slack s p + 1)"
  by (simp add: SipTxn_Increment_def slack_upd_ref fun_eq_iff)

lemma slack_SipDelete [simp]: "slack (SipTxn_SipDelete p s) = (slack s)(p := slack s p - 1)"
  by (simp add: SipTxn_SipDelete_def slack_upd_ref SipTxn_destroy_def Let_def fun_eq_iff)

lemma good_Increment [keeps_good]: "good X s \<Longrightarrow> good X (SipTxn_Increment p s)"
  unfolding SipTxn_Increment_def by (rule good_upd) (auto simp: txn_ok_def good_slack)

lemma good_SipDelete [keeps_good]:
  assumes "good X s" and "slack s p \<ge> 1"
  shows "good X (SipTxn_SipDelete p s)"
  unfolding SipTxn_SipDelete_def
proof (rule good_upd [OF assms(1)])
  fix k assume k: "(k, p) \<in> set (entries s)" and ok: "txn_ok (s_timers s) (txn s p) k"
  have "pool_refs s p > 0" using in_poolI [OF k] by (simp add: in_pool_refs)
  then have "m_nRefCount (txn s p) - 1 \<noteq> 0" using assms(2) unfolding slack_def by linarith
  with ok show "txn_ok (s_timers s) (let t = txn s p\<lparr>m_nRefCount := m_nRefCount (txn s p) - 1\<rparr>
      in if m_nRefCount t = 0 then SipTxn_destroy t else t) k"
    by (simp add: txn_ok_def Let_def)
qed (use assms in \<open>auto simp: SipTxn_destroy_def Let_def\<close>)

lemma in_pool_refs_ops [simp]:
  "in_pool (SipTxn_Increment p s) q = in_pool s q" "in_pool (SipTxn_SipDelete p s) q = in_pool s q"
  by (simp_all add: SipTxn_Increment_def SipTxn_SipDelete_def)

subsection \<open>Timers\<close>

lemma txn_ok_timer_other:
  "txn_ok timers t k \<Longrightarrow> m_pvTimerId t \<noteq> Some i \<Longrightarrow> txn_ok (timers(i := x)) t k"
  by (auto simp: txn_ok_def timer_ok_def)

text \<open>A timer that no pooled transaction waits for can stop.\<close>

lemma good_drop_timer:
  assumes "good X s" and "\<And>q. in_pool s q \<Longrightarrow> m_pvTimerId (txn s q) \<noteq> Some i"
  shows "good X (s\<lparr>s_timers := (s_timers s)(i := None)\<rparr>)"
proof -
  have "txn_ok ((s_timers s)(i := None)) (txn s (snd e)) (fst e)" if "e \<in> set (entries s)" for e
    using good_txn [OF assms(1) that] assms(2) [of "snd e"] that
    by (intro txn_ok_timer_other) (auto simp: in_pool_def)
  with assms(1) show ?thesis by (simp add: good_def slack_def pool_refs_def in_pool_def)
qed

text \<open>The timer of a transaction stops together with its handle.\<close>

lemma good_stop_timer:
  assumes "good X s" and "in_pool s p" and "m_pvTimerId (txn s p) = Some i"
  shows "good X (upd_txn p (\<lambda>t. t\<lparr>m_pvTimerId := None\<rparr>) (s\<lparr>s_timers := (s_timers s)(i := None)\<rparr>))"
proof -
  have "good X (upd_txn p (\<lambda>t. t\<lparr>m_pvTimerId := None\<rparr>) s)"
    using good_SetTimerId_None [OF assms(1), of p] by (simp add: SetTimerId_def)
  then have "good X ((upd_txn p (\<lambda>t. t\<lparr>m_pvTimerId := None\<rparr>) s)\<lparr>s_timers :=
      (s_timers (upd_txn p (\<lambda>t. t\<lparr>m_pvTimerId := None\<rparr>) s))(i := None)\<rparr>)"
  proof (rule good_drop_timer)
    fix q
    assume "in_pool (upd_txn p (\<lambda>t. t\<lparr>m_pvTimerId := None\<rparr>) s) q"
    then have "in_pool s q" by simp
    then show "m_pvTimerId (txn (upd_txn p (\<lambda>t. t\<lparr>m_pvTimerId := None\<rparr>) s) q) \<noteq> Some i"
      using good_inj [OF assms(1,2) _ assms(3)] by auto
  qed
  then show ?thesis by (cases s) (simp add: upd_txn_def)
qed

lemma in_pool_timer:
  assumes "good X s" and "in_pool s p" and "m_pvTimerId (txn s p) = Some i"
  shows "\<exists>d td k' k. s_timers s i = Some (d, td) \<and> td_pTxnKey td = Some k' \<and> same_id k' k \<and>
           (k, p) \<in> set (entries s)"
proof -
  obtain k where k: "(k, p) \<in> set (entries s)" using assms(2) by (rule in_poolE)
  with good_txn [OF assms(1) k] assms(3) show ?thesis by (auto simp: txn_ok_def timer_ok_def)
qed

lemma good_StopTxnTimer [keeps_good]:
  assumes "good X s" and "in_pool s p"
  shows "good X (snd (StopTxnTimer p s))"
proof (cases "m_pvTimerId (txn s p)")
  case None
  with assms show ?thesis by (simp add: StopTxnTimer_def)
next
  case (Some i)
  obtain x where x: "s_timers s i = Some x" using in_pool_timer [OF assms Some] by blast
  show ?thesis
    using assms good_stop_timer [OF assms Some] Some x
    by (auto simp: StopTxnTimer_def StopTimerEx_def split: option.split)
qed

lemma slack_timers [keeps_slack, simp]: "slack (s\<lparr>s_timers := t\<rparr>) = slack s"
  "slack (s\<lparr>s_next_timer := n\<rparr>) = slack s"
  by (simp_all add: slack_def pool_refs_def fun_eq_iff)

lemma slack_StopTimerEx [keeps_slack]: "slack (StopTimerEx i s) = slack s"
  by (simp add: StopTimerEx_def split: option.split)

lemma slack_StopTxnTimer [keeps_slack]: "slack (snd (StopTxnTimer p s)) = slack s"
  by (auto simp: StopTxnTimer_def slack_upd_same slack_StopTimerEx split: option.split)

lemma good_AbortTxn [keeps_good]:
  assumes "good X s" and "in_pool s p"
  shows "good X (snd (AbortTxn p s))"
proof (cases "m_pvTimerId (txn s p)")
  case None
  with assms show ?thesis by (simp add: AbortTxn_def split: option.split)
next
  case (Some i)
  obtain x where x: "s_timers s i = Some x" using in_pool_timer [OF assms Some] by blast
  show ?thesis
    using assms good_stop_timer [OF assms Some] Some x
    by (auto simp: AbortTxn_def StopTimerEx_def good_crash_safe split: option.split)
qed

lemma slack_AbortTxn [keeps_slack]: "slack (snd (AbortTxn p s)) = slack s"
  by (auto simp: AbortTxn_def slack_upd_same slack_StopTimerEx split: option.split)

text \<open>Starting a timer of positive duration.\<close>

lemma good_start_timer:
  assumes "good X s"
  shows "good X (upd_txn p (\<lambda>t. t\<lparr>m_pvTimerId := Some (s_next_timer s)\<rparr>)
           (s\<lparr>s_timers := (s_timers s)(s_next_timer s := Some (d, SipTimeoutData_new (txn s p) ty (s_garbage s))),
              s_next_timer := s_next_timer s + 1\<rparr>))" (is "good X ?s'")
  unfolding good_def
proof (intro conjI)
  let ?i = "s_next_timer s"
  have notfresh: "m_pvTimerId (txn s q) \<noteq> Some ?i" if "in_pool s q" for q
    using in_pool_timer [OF assms that] good_fresh [OF assms, of ?i] by auto
  have pool: "s_pool ?s' = s_pool s" by simp
  show "\<forall>e\<in>set (entries ?s'). snd e < s_next ?s' \<and> txn_ok (s_timers ?s') (txn ?s' (snd e)) (fst e)"
  proof
    fix e assume "e \<in> set (entries ?s')"
    then have e: "e \<in> set (entries s)" by simp
    have ok: "txn_ok (s_timers s) (txn s (snd e)) (fst e)" by (rule good_txn [OF assms e])
    have in_p: "in_pool s (snd e)" using e by (simp add: in_pool_def)
    have "txn_ok (s_timers ?s') (txn ?s' (snd e)) (fst e)"
    proof (cases "snd e = p")
      case False
      with ok notfresh [OF in_p] show ?thesis by (auto intro: txn_ok_timer_other)
    next
      case True
      from ok obtain k' where k': "m_pTxnKey (txn s p) = Some k'" "same_id k' (fst e)"
        and kok: "key_ok (fst e)" using True by (auto simp: txn_ok_def)
      have "copyable k'" using same_id_key_ok [OF k'(2)] kok by (simp add: key_ok_def)
      then have "td_pTxnKey (SipTimeoutData_new (txn s p) ty (s_garbage s)) = Some k'"
        using k'(1) good_garbage [OF assms] by (simp add: SipTimeoutData_new_def copy_complete)
      with ok True k' show ?thesis by (auto simp: txn_ok_def timer_ok_def)
    qed
    then show "snd e < s_next ?s' \<and> txn_ok (s_timers ?s') (txn ?s' (snd e)) (fst e)"
      using good_alloc [OF assms e] by simp
  qed
  show "\<forall>q r j. in_pool ?s' q \<longrightarrow> in_pool ?s' r \<longrightarrow> m_pvTimerId (txn ?s' q) = Some j \<longrightarrow>
          m_pvTimerId (txn ?s' r) = Some j \<longrightarrow> q = r"
  proof (intro allI impI)
    fix q r j
    assume in_p: "in_pool ?s' q" "in_pool ?s' r"
      and ids: "m_pvTimerId (txn ?s' q) = Some j" "m_pvTimerId (txn ?s' r) = Some j"
    have in_s: "in_pool s q" "in_pool s r" using in_p by simp_all
    with ids notfresh [OF in_s(1)] notfresh [OF in_s(2)] good_inj [OF assms in_s, of j]
    show "q = r" by (auto split: if_splits)
  qed
qed (use assms in \<open>auto simp: good_def slack_def pool_refs_def\<close>)

lemma good_StartTxnTimer_pos:
  assumes "good X s" and "d > 0"
  shows "good X (snd (StartTxnTimer cbk p ty d s))"
proof -
  have eq: "upd_txn p (\<lambda>t. t\<lparr>m_eTimerType := ty, m_nCurrentDuration := d\<rparr>)
      (upd_txn p (\<lambda>t. t\<lparr>m_pvTimerId := Some i\<rparr>) s') =
    upd_txn p (\<lambda>t. t\<lparr>m_eTimerType := ty, m_nCurrentDuration := d\<rparr>)
      (upd_txn p (\<lambda>t. t\<lparr>m_pvTimerId := Some i\<rparr>) s')" for i s' ..
  have "good X (upd_txn p (\<lambda>t. t\<lparr>m_eTimerType := ty, m_nCurrentDuration := d\<rparr>) s')" if "good X s'" for s'
    using that by (rule good_upd_same) simp_all
  with assms good_start_timer [OF assms(1)] show ?thesis
    by (auto simp: StartTxnTimer_def StartTimer_def Let_def split: option.split)
qed

lemma slack_StartTxnTimer_pos: "d > 0 \<Longrightarrow> slack (snd (StartTxnTimer cbk p ty d s)) = slack s"
  by (auto simp: StartTxnTimer_def StartTimer_def Let_def slack_upd_same split: option.split)

subsection \<open>The pool\<close>

lemma good_pool_cong:
  assumes "good X s" and "s_pool s' = s_pool s" and "\<And>q. m_nRefCount (txn s' q) = m_nRefCount (txn s q)"
  shows "slack s' = slack s"
  using assms(2,3) by (simp add: slack_def pool_refs_def fun_eq_iff)

lemma find_remove_nth:
  "List.find P l = Some e \<Longrightarrow> i < length l \<Longrightarrow> e \<noteq> l ! i \<Longrightarrow> List.find P (remove_nth i l) = Some e"
proof (induction l arbitrary: i)
  case (Cons x l)
  then show ?case by (cases i) (auto split: if_splits)
qed simp

lemma find_remove_other:
  assumes "pool_wf pool" and "FindTransaction g pool = Some x" and "FindTransaction h pool = Some e" and "e \<noteq> x"
  shows "FindTransaction h (snd (RemoveTransaction g TXN_OPT_REMOVE pool)) = Some e"
proof -
  have inv: "ImsMap_inv pool" using assms(1) by (rule pool_wf_ImsMap)
  obtain l where l: "ImsMap_lookup pool (pool_key g) = Some l"
    and f: "List.find (\<lambda>e. CompareKeys (fst e) (Some g)) l = Some x"
    using assms(2) by (auto simp: FindTransaction_lookup split: option.splits)
  obtain i where i: "find_index (\<lambda>e. CompareKeys (fst e) (Some g)) l = Some i" "x = l ! i" "i < length l"
    using f by (auto simp: find_of_index dest: find_index_less)
  show ?thesis
  proof (cases "pool_key h = pool_key g")
    case False
    with assms(3) l i(1) show ?thesis
      by (simp add: RemoveTransaction_lookup FindTransaction_lookup ims.lookup_del ims.lookup_put inv)
  next
    case True
    have "List.find (\<lambda>e. CompareKeys (fst e) (Some h)) l = Some e"
      using assms(3) True l by (simp add: FindTransaction_lookup)
    then have "List.find (\<lambda>e. CompareKeys (fst e) (Some h)) (remove_nth i l) = Some e"
      using i(2,3) assms(4) by (intro find_remove_nth) auto
    moreover from this have "remove_nth i l \<noteq> []" by auto
    ultimately show ?thesis
      using True l i(1) by (simp add: RemoveTransaction_lookup FindTransaction_lookup ims.lookup_put inv)
  qed
qed

lemma find_add_old:
  assumes "pool_wf pool" and "FindTransaction h pool = Some e"
  shows "FindTransaction h (AddTransaction_pool k p pool) = Some e"
proof -
  have app: "List.find P (l @ xs) = Some y" if "List.find P l = Some y" for P l xs and y :: "SipTxnKey \<times> ptr"
    using that by (induction l) (auto split: if_splits)
  show ?thesis
    using assms pool_wf_ImsMap [OF assms(1)]
    by (auto simp: FindTransaction_lookup AddTransaction_lookup ims.lookup_put intro: app split: option.splits)
qed

lemma pool_refs_mset:
  "mset (entries s') = add_mset e (mset (entries s)) \<Longrightarrow>
     pool_refs s' q = pool_refs s q + (if q = snd e then 1 else 0)"
  by (simp add: pool_refs_def)

text \<open>A new entry takes the two references it stands for: one of them the constructor's.\<close>

lemma AddTransaction_state:
  assumes "good X s"
  shows "slack (AddTransaction k p s) = (slack s)(p := slack s p - 1)"
    and "in_pool (AddTransaction k p s) q \<longleftrightarrow> in_pool s q \<or> q = p"
    and "set (entries (AddTransaction k p s)) = insert (k, p) (set (entries s))"
    and "pool_refs (AddTransaction k p s) q = pool_refs s q + (if q = p then 1 else 0)"
proof -
  have m: "mset (entries (AddTransaction k p s)) = add_mset (k, p) (mset (entries s))"
    using txn_db.entries_ins [OF good_wf [OF assms], of k p]
    by (simp add: AddTransaction_def SipTxn_Increment_def)
  show r: "pool_refs (AddTransaction k p s) q = pool_refs s q + (if q = p then 1 else 0)" for q
    using pool_refs_mset [OF m] by simp
  show "set (entries (AddTransaction k p s)) = insert (k, p) (set (entries s))"
    using m by (metis set_mset_add_mset_insert set_mset_mset)
  then show "in_pool (AddTransaction k p s) q \<longleftrightarrow> in_pool s q \<or> q = p" by (auto simp: in_pool_def)
  show "slack (AddTransaction k p s) = (slack s)(p := slack s p - 1)"
    by (rule ext) (simp add: slack_def r, simp add: AddTransaction_def SipTxn_Increment_def)
qed

lemma txn_ok_Increment [simp]:
  "txn_ok tm (t\<lparr>m_nRefCount := n\<rparr>) k = txn_ok tm t k"
  by (simp add: txn_ok_def)

lemma good_AddTransaction:
  assumes "good X s" and "p \<in> X" and "FindTransaction k (s_pool s) = None" and "\<not> in_pool s p" and "slack s p \<ge> 1"
    and "p < s_next s" and "txn_ok (s_timers s) (txn s p) k" and "m_pvTimerId (txn s p) = None"
  shows "good X (AddTransaction k p s)" (is "good X ?s'")
  unfolding good_def
proof (intro conjI)
  note state = AddTransaction_state [OF assms(1), of k p]
  have sel: "s_pool ?s' = AddTransaction_pool k p (s_pool s)" "s_next ?s' = s_next s"
    "s_timers ?s' = s_timers s" "s_next_timer ?s' = s_next_timer s" "s_crash ?s' = s_crash s"
    "s_garbage ?s' = s_garbage s"
    "txn ?s' q = (if q = p then txn s p\<lparr>m_nRefCount := m_nRefCount (txn s p) + 1\<rparr> else txn s q)" for q
    by (simp_all add: AddTransaction_def SipTxn_Increment_def)
  have wf: "pool_wf (s_pool s)" by (rule good_wf [OF assms(1)])
  show "pool_wf (s_pool ?s')" using wf by (simp add: sel pool_wf_add)
  have "key_ok k" using assms(7) by (simp add: txn_ok_def)
  then have "FindTransaction k (s_pool ?s') = Some (k, p)"
    using txn_db.find_ins [OF wf key_ok_self assms(3)] by (simp add: sel)
  then show "\<forall>e\<in>set (entries ?s'). FindTransaction (fst e) (s_pool ?s') = Some e"
    using good_found [OF assms(1)] find_add_old [OF wf] unfolding state(3) by (auto simp: sel)
  show "\<forall>q. pool_refs ?s' q \<le> 1"
    using assms(4) good_refs [OF assms(1)] by (simp add: state(4) in_pool_refs)
  show "\<forall>q. 0 \<le> slack ?s' q" using assms(5) good_slack [OF assms(1)] by (simp add: state(1))
  show "\<forall>e\<in>set (entries ?s'). snd e < s_next ?s' \<and> txn_ok (s_timers ?s') (txn ?s' (snd e)) (fst e)"
    using assms(6,7) good_alloc [OF assms(1)] good_txn [OF assms(1)] unfolding state(3) by (auto simp: sel)
  show "\<forall>q r i. in_pool ?s' q \<longrightarrow> in_pool ?s' r \<longrightarrow> m_pvTimerId (txn ?s' q) = Some i \<longrightarrow>
          m_pvTimerId (txn ?s' r) = Some i \<longrightarrow> q = r"
    using assms(8) good_inj [OF assms(1)] by (auto simp: state(2) sel)
  show "\<forall>i\<ge>s_next_timer ?s'. s_timers ?s' i = None" using good_fresh [OF assms(1)] by (simp add: sel)
  show "\<forall>q. in_pool ?s' q \<longrightarrow> q \<notin> X \<longrightarrow> m_nTxnState (txn ?s' q) \<ge> 1"
    using assms(2) good_started [OF assms(1)] by (auto simp: state(2) sel)
  show "safe_crash (s_crash ?s')" using good_crash [OF assms(1)] by (simp add: sel)
  show "s_garbage ?s' \<noteq> E_ERR_PF_MALLOCFAILED" using good_garbage [OF assms(1)] by (simp add: sel)
qed

text \<open>Removing an entry leaves the caller with one reference.\<close>

lemma ReleaseTransaction_cases:
  "ReleaseTransaction g TXN_OPT_REMOVE s =
     (case FindTransaction g (s_pool s) of
        None \<Rightarrow> (False, None, s)
      | Some (k, p) \<Rightarrow> (True, Some (k, p),
          SipTxn_SipDelete p (s\<lparr>s_pool := snd (RemoveTransaction g TXN_OPT_REMOVE (s_pool s))\<rparr>)))"
proof -
  obtain x pool' where r: "RemoveTransaction g TXN_OPT_REMOVE (s_pool s) = (x, pool')" by fastforce
  then have "FindTransaction g (s_pool s) = x" using remove_find [of g "s_pool s"] by simp
  with r show ?thesis by (auto simp: ReleaseTransaction_def split: option.split)
qed

lemma good_without_entry:
  assumes "good X s" and "FindTransaction g (s_pool s) = Some (k, p)"
  defines "s' \<equiv> s\<lparr>s_pool := snd (RemoveTransaction g TXN_OPT_REMOVE (s_pool s))\<rparr>"
  shows "good X s'" and "slack s' = (slack s)(p := slack s p + 2)" and "\<not> in_pool s' p"
    and "\<And>q. q \<noteq> p \<Longrightarrow> in_pool s' q = in_pool s q"
proof -
  let ?pool' = "snd (RemoveTransaction g TXN_OPT_REMOVE (s_pool s))"
  have wf: "pool_wf (s_pool s)" by (rule good_wf [OF assms(1)])
  have mem: "(k, p) \<in> set (entries s)" by (rule txn_db.find_SomeD(1) [OF wf assms(2)])
  have m: "mset (pool_entries ?pool') = mset (entries s) - {#(k, p)#}"
    using txn_db.entries_rem [OF wf, of g] assms(2) by simp
  then have m': "mset (entries s) = add_mset (k, p) (mset (entries s'))"
    using mem by (simp add: s'_def)
  have refs: "pool_refs s q = pool_refs s' q + (if q = p then 1 else 0)" for q
    using pool_refs_mset [OF m'] by simp
  have sub: "e \<in> set (entries s)" "e \<noteq> (k, p)" if "e \<in> set (entries s')" for e
  proof -
    show "e \<in> set (entries s)" using that m' by (metis in_multiset_in_set insert_iff set_mset_add_mset_insert)
    show "e \<noteq> (k, p)"
    proof
      assume "e = (k, p)"
      with that have "in_pool s' p" by (auto intro: in_poolI)
      with refs [of p] good_refs [OF assms(1), of p] show False by (simp add: in_pool_refs)
    qed
  qed
  show slack: "slack s' = (slack s)(p := slack s p + 2)"
    by (rule ext) (simp add: slack_def refs, simp add: s'_def)
  show notin: "\<not> in_pool s' p" using refs [of p] good_refs [OF assms(1), of p] by (simp add: in_pool_refs)
  show in_p: "in_pool s' q = in_pool s q" if "q \<noteq> p" for q using refs [of q] that by (simp add: in_pool_refs)
  have found: "\<forall>e\<in>set (entries s'). FindTransaction (fst e) (s_pool s') = Some e"
    using find_remove_other [OF wf assms(2) good_found [OF assms(1)]] sub by (auto simp: s'_def)
  have sel: "s_next s' = s_next s" "s_timers s' = s_timers s" "s_next_timer s' = s_next_timer s"
    "s_crash s' = s_crash s" "s_garbage s' = s_garbage s" "txn s' = txn s"
    by (simp_all add: s'_def)
  have old: "in_pool s q" if "in_pool s' q" for q using that in_p notin by (cases "q = p") auto
  show "good X s'"
    unfolding good_def
  proof (intro conjI)
    show "pool_wf (s_pool s')" using pool_wf_remove [OF wf] by (simp add: s'_def)
    show "\<forall>e\<in>set (entries s'). FindTransaction (fst e) (s_pool s') = Some e" by (rule found)
    show "\<forall>q. pool_refs s' q \<le> 1"
      using refs good_refs [OF assms(1)] by (metis le_add1 le_trans)
    show "\<forall>q. 0 \<le> slack s' q" using good_slack [OF assms(1)] by (simp add: slack)
    show "\<forall>e\<in>set (entries s'). snd e < s_next s' \<and> txn_ok (s_timers s') (txn s' (snd e)) (fst e)"
      using sub(1) good_alloc [OF assms(1)] good_txn [OF assms(1)] by (simp add: sel)
    show "\<forall>q r i. in_pool s' q \<longrightarrow> in_pool s' r \<longrightarrow> m_pvTimerId (txn s' q) = Some i \<longrightarrow>
            m_pvTimerId (txn s' r) = Some i \<longrightarrow> q = r"
      using old good_inj [OF assms(1)] by (simp add: sel)
    show "\<forall>i\<ge>s_next_timer s'. s_timers s' i = None" using good_fresh [OF assms(1)] by (simp add: sel)
    show "\<forall>q. in_pool s' q \<longrightarrow> q \<notin> X \<longrightarrow> m_nTxnState (txn s' q) \<ge> 1"
      using old good_started [OF assms(1)] by (simp add: sel)
    show "safe_crash (s_crash s')" using good_crash [OF assms(1)] by (simp add: sel)
    show "s_garbage s' \<noteq> E_ERR_PF_MALLOCFAILED" using good_garbage [OF assms(1)] by (simp add: sel)
  qed
qed

lemma Release_state:
  assumes "good X s" and "ReleaseTransaction g TXN_OPT_REMOVE s = (b, x, s')"
  shows "good X s'" and "x = None \<Longrightarrow> s' = s" and "x = Some (k, p) \<Longrightarrow> slack s' = (slack s)(p := slack s p + 1)"
    and "x = Some (k, p) \<Longrightarrow> \<not> in_pool s' p" and "x = Some (k, p) \<Longrightarrow> in_pool s p"
    and "x = Some (k, p) \<Longrightarrow> q \<noteq> p \<Longrightarrow> in_pool s' q = in_pool s q"
proof -
  have c: "(b, x, s') = (case FindTransaction g (s_pool s) of
        None \<Rightarrow> (False, None, s)
      | Some (k, p) \<Rightarrow> (True, Some (k, p),
          SipTxn_SipDelete p (s\<lparr>s_pool := snd (RemoveTransaction g TXN_OPT_REMOVE (s_pool s))\<rparr>)))"
    using assms(2) by (simp add: ReleaseTransaction_cases)
  show "good X s'"
  proof (cases "FindTransaction g (s_pool s)")
    case None
    with c assms(1) show ?thesis by simp
  next
    case (Some e)
    obtain k p where e: "e = (k, p)" by fastforce
    note w = good_without_entry [OF assms(1) Some [unfolded e]]
    have "slack (s\<lparr>s_pool := snd (RemoveTransaction g TXN_OPT_REMOVE (s_pool s))\<rparr>) p \<ge> 1"
      using good_slack [OF assms(1), of p] by (simp add: w(2))
    with c Some e w(1) show ?thesis by (simp add: good_SipDelete)
  qed
  show "x = None \<Longrightarrow> s' = s" using c by (auto split: option.splits prod.splits)
  assume "x = Some (k, p)"
  with c have f: "FindTransaction g (s_pool s) = Some (k, p)"
    and s': "s' = SipTxn_SipDelete p (s\<lparr>s_pool := snd (RemoveTransaction g TXN_OPT_REMOVE (s_pool s))\<rparr>)"
    by (auto split: option.splits prod.splits)
  note w = good_without_entry [OF assms(1) f]
  show "slack s' = (slack s)(p := slack s p + 1)" by (simp add: s' w(2) fun_eq_iff)
  show "\<not> in_pool s' p" using w(3) by (simp add: s')
  show "in_pool s p" using txn_db.find_SomeD(1) [OF good_wf [OF assms(1)] f] by (rule in_poolI)
  show "q \<noteq> p \<Longrightarrow> in_pool s' q = in_pool s q" using w(4) by (simp add: s')
qed

subsection \<open>A transaction leaves the idle state\<close>

lemma good_mono: "good X s \<Longrightarrow> X \<subseteq> Y \<Longrightarrow> good Y s"
  unfolding good_def by blast

lemma good_shrink: "good (insert p X) s \<Longrightarrow> (in_pool s p \<Longrightarrow> m_nTxnState (txn s p) \<ge> 1) \<Longrightarrow> good X s"
  unfolding good_def by blast

lemma good_SetTxnState_idle:
  assumes "good (insert p X) s" and "1 \<le> st" and "st \<le> 4"
  shows "good X (SetTxnState st p s)"
proof (rule good_shrink)
  show "good (insert p X) (SetTxnState st p s)" using assms by (rule good_SetTxnState)
  show "1 \<le> m_nTxnState (txn (SetTxnState st p s) p)" using assms(2) by (simp add: SetTxnState_def)
qed

end
