(* ===== verification/Fsm_Invariant.thy ===== *)
theory Fsm_Invariant
  imports Stack_Invariant
begin

text \<open>
  The state machines keep the invariant: every handler of a transaction in the pool, and the
  handlers of an idle transaction, which put it there. The timeout callback that a timer of
  duration 0 runs is a parameter of the handlers; the locale \<open>timeout_callback\<close> states what
  they need of it, and the interpretation shows that \<open>CbkTxnTimeout\<close> provides it.
\<close>

subsection \<open>Operations the handlers share\<close>

lemma fsm_DeleteTxnKey_eq:
  "fsm_DeleteTxnKey p s = s\<lparr>s_txnKeyList := snd (snd (DeleteTxnKey (m_pTxnKey (txn s p)) False (s_txnKeyList s)))\<rparr>"
proof (cases "m_pTxnKey (txn s p)")
  case None
  then have "upd_txn p (\<lambda>t. t\<lparr>m_pTxnKey := None\<rparr>) s' = s'" if "s_heap s' = s_heap s" for s'
    using that by (cases s') (simp add: upd_txn_def fun_eq_iff)
  with None show ?thesis by (simp add: fsm_DeleteTxnKey_def)
next
  case (Some k)
  then have "upd_txn p (\<lambda>t. t\<lparr>m_pTxnKey := Some k\<rparr>) s' = s'" if "s_heap s' = s_heap s" for s'
    using that by (cases s') (simp add: upd_txn_def fun_eq_iff)
  with Some show ?thesis by (simp add: fsm_DeleteTxnKey_def DeleteTxnKey_filter)
qed

lemma fsm_DeleteTxnKey_keeps [keeps_good, keeps_slack, simp]:
  "good X (fsm_DeleteTxnKey p s) = good X s" "slack (fsm_DeleteTxnKey p s) = slack s"
  "in_pool (fsm_DeleteTxnKey p s) q = in_pool s q"
  by (simp_all add: fsm_DeleteTxnKey_eq)

lemma fsm_set_user_data_keeps [keeps_good, keeps_slack]:
  "good X s \<Longrightarrow> good X (fsm_set_user_data d p s)" "slack (fsm_set_user_data d p s) = slack s"
  by (auto simp: fsm_set_user_data_def keeps_good keeps_slack split: option.split)

lemma SendToNetwork_keeps [keeps_good, keeps_slack]:
  "good X s \<Longrightarrow> good X (snd (SendToNetwork b tp ud s))" "slack (snd (SendToNetwork b tp ud s)) = slack s"
  by (auto simp: SendToNetwork_def good_crash_safe split: option.split)

lemma CreateAckRequest_keeps [keeps_good, keeps_slack]:
  "good X s \<Longrightarrow> good X (snd (CreateAckRequest m ud s))" "slack (snd (CreateAckRequest m ud s)) = slack s"
  by (auto simp: CreateAckRequest_def good_crash_safe split: option.split)

lemma MessageSentByStack_keeps [keeps_good, keeps_slack]:
  "good X s \<Longrightarrow> good X (PreProcessMessageSentByStack m ud s)" "slack (PreProcessMessageSentByStack m ud s) = slack s"
  "good X s \<Longrightarrow> good X (PostProcessMessageSentByStack m b ud s)"
  "slack (PostProcessMessageSentByStack m b ud s) = slack s"
  by (auto simp: PreProcessMessageSentByStack_def PostProcessMessageSentByStack_def good_crash_safe
      split: option.split)

lemma DestroyTxnContext_keeps [keeps_good, keeps_slack, simp]:
  "good X (DestroyTxnContext c s) = good X s" "slack (DestroyTxnContext c s) = slack s"
  "in_pool (DestroyTxnContext c s) q = in_pool s q"
  by (auto simp: DestroyTxnContext_def split: option.split)

lemma OnTimerExpired_keeps [keeps_good, keeps_slack]:
  "good X s \<Longrightarrow> good X (OnTimerExpired ud ty s)" "slack (OnTimerExpired ud ty s) = slack s"
  by (auto simp: OnTimerExpired_def Let_def good_crash_safe keeps_good keeps_slack split: option.split)

lemma TxnTerminated_keeps [keeps_good, keeps_slack]:
  "good X s \<Longrightarrow> good X (TxnTerminated ud s)" "slack (TxnTerminated ud s) = slack s"
  by (auto simp: TxnTerminated_def keeps_good keeps_slack split: option.split)

lemma in_pool_ud [simp]: "in_pool (ud_SetUserData p c s) q = in_pool s q"
  by (simp add: ud_SetUserData_def)

lemma RemoveFromTxnPool_keeps [keeps_good]:
  assumes "good X s"
  shows "good X (SipTxn_RemoveFromTxnPool k s)" and "slack (SipTxn_RemoveFromTxnPool k s) = slack s"
proof -
  have "good X (SipTxn_RemoveFromTxnPool k s) \<and> slack (SipTxn_RemoveFromTxnPool k s) = slack s"
  proof (cases k)
    case None
    with assms show ?thesis by (simp add: SipTxn_RemoveFromTxnPool_def good_crash_safe)
  next
    case (Some g)
    obtain b x s' where r: "ReleaseTransaction g TXN_OPT_REMOVE s = (b, x, s')" by (metis prod_cases3)
    note st = Release_state [OF assms r]
    show ?thesis
    proof (cases "b \<and> x \<noteq> None")
      case True
      then obtain h q where x: "b = True" "x = Some (h, q)" by auto
      have "slack s' q \<ge> 1" using st(3) [OF x(2)] good_slack [OF assms, of q] by simp
      with st(1) st(3) [OF x(2)] Some r x show ?thesis
        by (simp add: SipTxn_RemoveFromTxnPool_def good_SipDelete fun_eq_iff)
    next
      case False
      have "s' = s" if "b = False"
        using r that by (auto simp: ReleaseTransaction_cases split: option.splits prod.splits)
      moreover have "s' = s" if "x = None" using st(2) that by simp
      ultimately show ?thesis using False Some r assms
        by (cases b; cases x) (auto simp: SipTxn_RemoveFromTxnPool_def)
    qed
  qed
  then show "good X (SipTxn_RemoveFromTxnPool k s)" "slack (SipTxn_RemoveFromTxnPool k s) = slack s" by auto
qed

text \<open>A change of the response code or the RSeq of a stored key.\<close>

lemma entries_upd_key:
  "pool_entries (pool_upd_key p f pool) = map (\<lambda>(k, q). (if q = p then f k else k, q)) (pool_entries pool)"
  by (induction pool) (auto simp: pool_entries_def pool_upd_key_def)

lemma pool_wf_upd_key:
  assumes "pool_wf pool" and "\<And>k. pool_key (f k) = pool_key k"
  shows "pool_wf (pool_upd_key p f pool)"
proof -
  have "map fst (pool_upd_key p f pool) = map fst pool"
    by (auto simp: pool_upd_key_def)
  then have "ImsMap_inv (pool_upd_key p f pool)" using assms(1) by (simp add: pool_wf_def ImsMap_inv_def)
  moreover have "bucket_ok (fst b) (snd b)" if b: "b \<in> set (pool_upd_key p f pool)" for b
  proof -
    obtain h l where "(h, l) \<in> set pool" and eq: "b = (h, map (\<lambda>(k, q). (if q = p then f k else k, q)) l)"
      using b by (auto simp: pool_upd_key_def)
    then have "bucket_ok h l" using assms(1) by (auto simp: pool_wf_def)
    with eq assms(2) show ?thesis by (auto simp: bucket_ok_def)
  qed
  ultimately show ?thesis by (simp add: pool_wf_def)
qed

lemma find_map_same: "(\<And>x. P (h x) = P x) \<Longrightarrow> List.find P (map h l) = map_option h (List.find P l)"
  by (induction l) auto

lemma find_upd_key:
  assumes "pool_wf pool" and "\<And>k. same_id (f k) k" and "key_ok g"
  shows "FindTransaction g (pool_upd_key p f pool) =
           map_option (\<lambda>(k, q). (if q = p then f k else k, q)) (FindTransaction g pool)"
proof -
  have "pool_wf (pool_upd_key p f pool)"
    using assms(1,2) same_id_pool_key by (intro pool_wf_upd_key) blast+
  moreover have "CompareKeys (fst (if snd e = p then f (fst e) else fst e, snd e)) (Some g) =
      CompareKeys (fst e) (Some g)" for e :: "SipTxnKey \<times> ptr"
    using same_id_CompareKeys [OF assms(2) same_id_refl assms(3), of "fst e"] by simp
  ultimately show ?thesis using assms(1)
    by (simp add: pool_find_first entries_upd_key case_prod_beta find_map_same
        [of "\<lambda>e. CompareKeys (fst e) (Some g)"])
qed

lemma good_pool_upd_key:
  assumes "good X s" and "\<And>k. same_id (f k) k"
  shows "good X (s\<lparr>s_pool := pool_upd_key p f (s_pool s)\<rparr>)" (is "good X ?s'")
    and "slack (s\<lparr>s_pool := pool_upd_key p f (s_pool s)\<rparr>) = slack s"
    and "in_pool (s\<lparr>s_pool := pool_upd_key p f (s_pool s)\<rparr>) q = in_pool s q"
proof -
  let ?g = "\<lambda>e. (if snd e = p then f (fst e) else fst e, snd e)"
  have g: "(\<lambda>(k, q). (if q = p then f k else k, q)) = ?g" by (auto simp: fun_eq_iff)
  have ent: "entries ?s' = map ?g (entries s)" by (simp add: entries_upd_key g)
  have refs: "pool_refs ?s' q = pool_refs s q" for q
    unfolding pool_refs_def ent by (simp add: image_mset.compositionality comp_def)
  show inp: "in_pool ?s' q = in_pool s q" for q by (simp add: in_pool_refs refs)
  show slack: "slack ?s' = slack s" by (simp add: slack_def refs fun_eq_iff)
  have wf: "pool_wf (s_pool s)" by (rule good_wf [OF assms(1)])
  have sid: "same_id (fst (?g e)) (fst e)" for e using assms(2) by simp
  have kok: "key_ok (fst (?g e))" if "e \<in> set (entries s)" for e
    using good_txn [OF assms(1) that] same_id_key_ok [OF sid] by (simp add: txn_ok_def)
  show "good X ?s'"
    unfolding good_def slack inp
  proof (intro conjI)
    show "pool_wf (s_pool ?s')" using pool_wf_upd_key [OF wf] same_id_pool_key [OF assms(2)] by simp
    show "\<forall>e\<in>set (entries ?s'). FindTransaction (fst e) (s_pool ?s') = Some e"
    proof
      fix e' assume "e' \<in> set (entries ?s')"
      then obtain e where e: "e \<in> set (entries s)" "e' = ?g e" by (auto simp only: ent set_map)
      have "FindTransaction (fst e') (s_pool s) = FindTransaction (fst e) (s_pool s)"
        using same_id_CompareKeys [OF same_id_refl sid kok [OF e(1)]] e
        by (simp add: pool_find_first [OF wf])
      also have "\<dots> = Some e" by (rule good_found [OF assms(1) e(1)])
      finally show "FindTransaction (fst e') (s_pool ?s') = Some e'"
        using find_upd_key [OF wf assms(2) kok [OF e(1)], of p] e by (simp add: case_prod_beta)
    qed
    show "\<forall>e\<in>set (entries ?s'). snd e < s_next ?s' \<and> txn_ok (s_timers ?s') (txn ?s' (snd e)) (fst e)"
    proof
      fix e' assume "e' \<in> set (entries ?s')"
      then obtain e where e: "e \<in> set (entries s)" "e' = ?g e" by (auto simp only: ent set_map)
      have "txn_ok (s_timers s) (txn s (snd e)) (fst (?g e))"
        using good_txn [OF assms(1) e(1)] kok [OF e(1)] same_id_sym [OF sid [of e]]
        unfolding txn_ok_def timer_ok_def by (blast intro: same_id_trans)
      with e good_alloc [OF assms(1) e(1)]
      show "snd e' < s_next ?s' \<and> txn_ok (s_timers ?s') (txn ?s' (snd e')) (fst e')" by simp
    qed
  qed (use assms(1) refs in \<open>simp_all add: good_def\<close>)
qed

subsection \<open>Entering the pool\<close>

text \<open>A transaction that was just made, and whose key finds nothing in the pool.\<close>

definition idle_txn :: "stack \<Rightarrow> ptr \<Rightarrow> bool" where
  "idle_txn s p \<longleftrightarrow>
     \<not> in_pool s p \<and> slack s p \<ge> 1 \<and> p < s_next s \<and> m_eTxnType (txn s p) \<noteq> INVALID_TXN \<and>
     m_nTxnState (txn s p) = 0 \<and> m_pvTimerId (txn s p) = None \<and>
     (case m_pTxnKey (txn s p) of
        None \<Rightarrow> s_err s = E_ERR_PF_MALLOCFAILED
      | Some k \<Rightarrow> key_ok k \<and> FindTransaction k (s_pool s) = None)"

lemma fsm_enter_pool_idle:
  assumes "good X s" and "p \<in> X" and "idle_txn s p"
  shows "good X (snd (fsm_enter_pool p s))" and "slack (snd (fsm_enter_pool p s)) = slack s"
    and "fst (fsm_enter_pool p s) = Some (k, q) \<Longrightarrow> q = p \<and> in_pool (snd (fsm_enter_pool p s)) p"
    and "fst (fsm_enter_pool p s) = None \<Longrightarrow> \<not> in_pool (snd (fsm_enter_pool p s)) p"
proof -
  let ?r = "fsm_enter_pool p s"
  have "good X (snd ?r) \<and> slack (snd ?r) = slack s \<and>
      (fst ?r = Some (k, q) \<longrightarrow> q = p \<and> in_pool (snd ?r) p) \<and> (fst ?r = None \<longrightarrow> \<not> in_pool (snd ?r) p)"
  proof (cases "m_pTxnKey (txn s p)")
    case None
    with assms show ?thesis by (simp add: fsm_enter_pool_def idle_txn_def)
  next
    case (Some key)
    then have key: "key_ok key" "FindTransaction key (s_pool s) = None"
      using assms(3) by (simp_all add: idle_txn_def)
    then have copy: "SipTxnKey_copy (Some key) e = (key, e)" for e by (simp add: key_ok_def copy_complete)
    show ?thesis
    proof (cases "s_err s = E_ERR_PF_MALLOCFAILED")
      case True
      with assms Some copy show ?thesis by (simp add: fsm_enter_pool_def idle_txn_def)
    next
      case False
      let ?s0 = "set_err (s_err s) s"
      have s0: "?s0 = s" by (cases s) (simp add: set_err_def)
      have "good X (AddTransaction key p s)"
        using assms key Some by (intro good_AddTransaction) (auto simp: idle_txn_def txn_ok_def)
      moreover have "slack (AddTransaction key p s) = (slack s)(p := slack s p - 1)"
        and "in_pool (AddTransaction key p s) p" by (simp_all add: AddTransaction_state [OF assms(1)])
      ultimately show ?thesis
        using False Some copy key(2) s0
        by (auto simp: fsm_enter_pool_def FetchTransaction_def good_Increment fun_eq_iff)
    qed
  qed
  then show "good X (snd ?r)" "slack (snd ?r) = slack s"
    "fst ?r = Some (k, q) \<Longrightarrow> q = p \<and> in_pool (snd ?r) p" "fst ?r = None \<Longrightarrow> \<not> in_pool (snd ?r) p" by auto
qed

subsection \<open>The contract of the callback\<close>

text \<open>What a handler leaves: the invariant, and every reference given back.\<close>

definition handler_ok :: "ptr set \<Rightarrow> stack \<Rightarrow> 'a \<times> 'b \<times> stack \<Rightarrow> bool" where
  "handler_ok X s r \<longleftrightarrow> good X (snd (snd r)) \<and> slack (snd (snd r)) = slack s"

locale timeout_callback =
  fixes cbk :: timeout_cbk
  assumes cbk_good: "good X s \<Longrightarrow> good X (cbk td i s)"
    and cbk_slack: "good X s \<Longrightarrow> slack (cbk td i s) = slack s"
begin

lemma good_StartTxnTimer [keeps_good]: "good X s \<Longrightarrow> good X (snd (StartTxnTimer cbk p ty d s))"
proof (cases "d > 0")
  case False
  assume g: "good X s"
  have "good X (upd_txn p (\<lambda>t. t\<lparr>m_eTimerType := ty, m_nCurrentDuration := d, m_pvTimerId := None\<rparr>) s)"
    using g by (intro good_upd) (auto simp: txn_ok_def good_slack)
  with False show ?thesis by (simp add: StartTxnTimer_def Let_def cbk_good)
qed (rule good_StartTxnTimer_pos)

lemma slack_StartTxnTimer [keeps_slack]:
  "good X s \<Longrightarrow> slack (snd (StartTxnTimer cbk p ty d s)) = slack s"
proof (cases "d > 0")
  case False
  assume g: "good X s"
  have "good X (upd_txn p (\<lambda>t. t\<lparr>m_eTimerType := ty, m_nCurrentDuration := d, m_pvTimerId := None\<rparr>) s)"
    using g by (intro good_upd) (auto simp: txn_ok_def good_slack)
  with False show ?thesis by (simp add: StartTxnTimer_def Let_def cbk_slack slack_upd_same)
qed (rule slack_StartTxnTimer_pos)

lemmas keeps = keeps_good keeps_slack good_StartTxnTimer slack_StartTxnTimer good_crash_safe

lemmas split_handler = case_prod_unfold Let_def handler_ok_def

text \<open>The handlers of a response to an INVITE client transaction and its transport errors.\<close>

lemma InvCli_messages:
  assumes "good X s" and "in_pool s p"
  shows "handler_ok X s (InvCliFsm_CallingStRecv1xxRespEvt cbk p (PvFsm d) s)"
    and "handler_ok X s (InvCliFsm_CallingStRecv2xxRespEvt cbk p (PvFsm d) s)"
    and "handler_ok X s (InvCliFsm_CallingStTranspErrorEvt cbk p pv s)"
    and "handler_ok X s (InvCliFsm_ProceedingStRecv1xxRespEvt cbk p (PvFsm d) s)"
    and "handler_ok X s (InvCliFsm_ProceedingStRecv2xxRespEvt cbk p (PvFsm d) s)"
    and "handler_ok X s (InvCliFsm_ProceedingStTranspErrorEvt cbk p pv s)"
    and "handler_ok X s (InvCliFsm_CompletedStTimerD_TimeoutEvt cbk p pv s)"
    and "handler_ok X s (InvCliFsm_CompletedStRecv1xxRespEvt cbk p (PvFsm d) s)"
    and "handler_ok X s (InvCliFsm_CompletedStRecv3xx6xxRespEvt cbk p (PvFsm d) s)"
    and "handler_ok X s (InvCliFsm_CompletedStTranspErrorEvt cbk p pv s)"
    and "handler_ok X s (InvCliFsm_NullFxn cbk p pv s)"
  unfolding InvCliFsm_CallingStRecv1xxRespEvt_def InvCliFsm_CallingStRecv2xxRespEvt_def
    InvCliFsm_CallingStTranspErrorEvt_def InvCliFsm_ProceedingStRecv1xxRespEvt_def
    InvCliFsm_ProceedingStRecv2xxRespEvt_def InvCliFsm_ProceedingStTranspErrorEvt_def
    InvCliFsm_CompletedStTimerD_TimeoutEvt_def InvCliFsm_CompletedStRecv1xxRespEvt_def
    InvCliFsm_CompletedStRecv3xx6xxRespEvt_def InvCliFsm_CompletedStTranspErrorEvt_def
    InvCliFsm_NullFxn_def
  using assms by (simp_all add: keeps slack_StartTxnTimer [of X] split_handler split: option.split)

lemma HandleFailureResp_keeps [keeps_good, keeps_slack]:
  assumes "good X s"
  shows "good X (snd (sipInvCli_HandleFailureResp cbk p d s))"
    and "slack (snd (sipInvCli_HandleFailureResp cbk p d s)) = slack s"
    and "fst (sipInvCli_HandleFailureResp cbk p d s) = Some (st, d') \<Longrightarrow> 1 \<le> st \<and> st \<le> 4"
  using assms unfolding sipInvCli_HandleFailureResp_def
  by (auto simp: keeps slack_StartTxnTimer [of X] split_handler split: option.splits bool.splits if_splits)

lemma RecvFailure_keeps:
  assumes "good X s"
  shows "handler_ok X s (InvCliFsm_RecvFailure cbk p (PvFsm d) s)"
proof (cases "fst (sipInvCli_HandleFailureResp cbk p d s)")
  case None
  with assms show ?thesis by (simp add: InvCliFsm_RecvFailure_def split_handler keeps slack_StartTxnTimer [of X] HandleFailureResp_keeps [of X])
next
  case (Some x)
  then have "1 \<le> fst x" "fst x \<le> 4" using HandleFailureResp_keeps(3) [OF assms, of p d "fst x" "snd x"] by simp_all
  with Some assms show ?thesis
    by (simp add: InvCliFsm_RecvFailure_def split_handler keeps slack_StartTxnTimer [of X] HandleFailureResp_keeps [of X])
qed

lemma handler_ok_slack: "slack s' = slack s \<Longrightarrow> handler_ok X s' r \<Longrightarrow> handler_ok X s r"
  by (simp add: handler_ok_def)

lemma InvCli_failures:
  assumes "good X s" and "in_pool s p"
  shows "handler_ok X s (InvCliFsm_CallingStRecv3xx6xxRespEvt cbk p (PvFsm d) s)"
    and "handler_ok X s (InvCliFsm_ProceedingStRecv3xx6xxRespEvt cbk p (PvFsm d) s)"
proof -
  show "handler_ok X s (InvCliFsm_CallingStRecv3xx6xxRespEvt cbk p (PvFsm d) s)"
    unfolding InvCliFsm_CallingStRecv3xx6xxRespEvt_def
    by (rule handler_ok_slack [OF slack_StopTxnTimer RecvFailure_keeps])
      (rule good_StopTxnTimer [OF assms])
  show "handler_ok X s (InvCliFsm_ProceedingStRecv3xx6xxRespEvt cbk p (PvFsm d) s)"
    unfolding InvCliFsm_ProceedingStRecv3xx6xxRespEvt_def
    by (rule handler_ok_slack [OF _ RecvFailure_keeps]) (simp_all add: assms)
qed

text \<open>The handlers of the INVITE server transaction.\<close>

lemma begin_response_keeps [keeps_good, keeps_slack]:
  "good X s \<Longrightarrow> in_pool s p \<Longrightarrow> good X (InvSerFsm_begin_response p s)"
  "slack (InvSerFsm_begin_response p s) = slack s"
  unfolding InvSerFsm_begin_response_def by (simp_all add: keeps slack_StartTxnTimer [of X])

lemma InvSer_messages:
  assumes "good X s" and "in_pool s p"
  shows "handler_ok X s (InvSerFsm_ProceedingStRecvInvReqEvt cbk p (PvFsm d) s)"
    and "handler_ok X s (InvSerFsm_ProceedingStTranspErrorEvt cbk p pv s)"
    and "handler_ok X s (InvSerFsm_CompletedStRecvInvReqEvt cbk p (PvFsm d) s)"
    and "handler_ok X s (InvSerFsm_CompletedStTranspErrorEvt cbk p pv s)"
    and "handler_ok X s (InvSerFsm_ConfirmedStRecvAckReqEvt cbk p (PvFsm d) s)"
    and "handler_ok X s (InvSerFsm_ConfirmedStTimerI_TimeoutEvt cbk p pv s)"
    and "handler_ok X s (InvSerFsm_NullFxn cbk p pv s)"
  unfolding InvSerFsm_ProceedingStRecvInvReqEvt_def InvSerFsm_ProceedingStTranspErrorEvt_def
    InvSerFsm_CompletedStRecvInvReqEvt_def InvSerFsm_CompletedStTranspErrorEvt_def
    InvSerFsm_ConfirmedStRecvAckReqEvt_def InvSerFsm_ConfirmedStTimerI_TimeoutEvt_def InvSerFsm_NullFxn_def
  using assms by (simp_all add: keeps slack_StartTxnTimer [of X] split_handler)

lemma InvSer_responses:
  assumes "good X s" and "in_pool s p"
  shows "handler_ok X s (InvSerFsm_ProceedingStSendNon100ProvRespEvt cbk p (PvFsm d) s)"
    and "handler_ok X s (InvSerFsm_ProceedingStSend3xx6xxFailureRespEvt cbk p (PvFsm d) s)"
    and "handler_ok X s (InvSerFsm_ProceedingStSend2xxSuccessRespEvt cbk p (PvFsm d) s)"
    and "handler_ok X s (InvSerFsm_CompletedStRecvAckReqEvt cbk p (PvFsm d) s)"
  unfolding InvSerFsm_ProceedingStSendNon100ProvRespEvt_def InvSerFsm_CompletedStRecvAckReqEvt_def
    InvSerFsm_ProceedingStSend3xx6xxFailureRespEvt_def InvSerFsm_ProceedingStSend2xxSuccessRespEvt_def
  using assms by (simp_all add: keeps slack_StartTxnTimer [of X] begin_response_keeps split_handler split: option.split bool.split)

text \<open>The handlers of the non-INVITE transactions.\<close>

lemma NonInvCli_RecvFinal_keeps:
  assumes "good X s" and "in_pool s p"
  shows "handler_ok X s (NonInvCliFsm_RecvFinal cbk p (PvFsm d) s)"
  unfolding NonInvCliFsm_RecvFinal_def NonInvCli_Recv2xx6xxResp_def
  using assms by (simp add: keeps slack_StartTxnTimer [of X] split_handler split: option.split bool.split)

lemma NonInvCli_messages:
  assumes "good X s" and "in_pool s p"
  shows "handler_ok X s (NonInvCliFsm_TryingStRecv1xxRespEvt cbk p (PvFsm d) s)"
    and "handler_ok X s (NonInvCliFsm_TryingStRecv2xx6xxRespEvt cbk p (PvFsm d) s)"
    and "handler_ok X s (NonInvCliFsm_TryingStTranspErrorEvt cbk p pv s)"
    and "handler_ok X s (NonInvCliFsm_ProceedingStRecv1xxRespEvt cbk p (PvFsm d) s)"
    and "handler_ok X s (NonInvCliFsm_ProceedingStRecv2xx6xxRespEvt cbk p (PvFsm d) s)"
    and "handler_ok X s (NonInvCliFsm_ProceedingStTranspErrorEvt cbk p pv s)"
    and "handler_ok X s (NonInvCliFsm_CompletedStTimer_K_TimeoutEvt cbk p pv s)"
    and "handler_ok X s (NonInvCliFsm_CompletedStRecv1xxRespEvt cbk p (PvFsm d) s)"
    and "handler_ok X s (NonInvCliFsm_CompletedStRecv2xx6xxRespEvt cbk p (PvFsm d) s)"
    and "handler_ok X s (NonInvCliFsm_CompletedStTranspErrorEvt cbk p pv s)"
    and "handler_ok X s (NonInvCliFsm_NullFxn cbk p pv s)"
  unfolding NonInvCliFsm_TryingStRecv1xxRespEvt_def NonInvCliFsm_TryingStRecv2xx6xxRespEvt_def
    NonInvCliFsm_TryingStTranspErrorEvt_def NonInvCliFsm_ProceedingStRecv1xxRespEvt_def
    NonInvCliFsm_ProceedingStRecv2xx6xxRespEvt_def NonInvCliFsm_ProceedingStTranspErrorEvt_def
    NonInvCliFsm_CompletedStTimer_K_TimeoutEvt_def NonInvCliFsm_CompletedStRecv1xxRespEvt_def
    NonInvCliFsm_CompletedStRecv2xx6xxRespEvt_def NonInvCliFsm_CompletedStTranspErrorEvt_def
    NonInvCliFsm_NullFxn_def
  using assms NonInvCli_RecvFinal_keeps [OF assms] by (simp_all add: keeps slack_StartTxnTimer [of X] split_handler)

lemma NonInvSer_SendFinal_keeps:
  assumes "good X s"
  shows "handler_ok X s (NonInvSerFsm_SendFinal cbk p (PvFsm d) s)"
  unfolding NonInvSerFsm_SendFinal_def NonInvSer_Send2xx6xxResp_def
  using assms by (simp add: keeps slack_StartTxnTimer [of X] split_handler split: option.split bool.split)

lemma NonInvSer_messages:
  assumes "good X s" and "in_pool s p"
  shows "handler_ok X s (NonInvSerFsm_TryingStRecvNonInvReqEvt cbk p (PvFsm d) s)"
    and "handler_ok X s (NonInvSerFsm_TryingStSend1xxRespEvt cbk p (PvFsm d) s)"
    and "handler_ok X s (NonInvSerFsm_TryingStSend2xx6xxRespEvt cbk p (PvFsm d) s)"
    and "handler_ok X s (NonInvSerFsm_TryingStTranspErrorEvt cbk p pv s)"
    and "handler_ok X s (NonInvSerFsm_ProceedingStRecvNonInvReqEvt cbk p (PvFsm d) s)"
    and "handler_ok X s (NonInvSerFsm_ProceedingStSend1xxRespEvt cbk p (PvFsm d) s)"
    and "handler_ok X s (NonInvSerFsm_ProceedingStSend2xx6xxRespEvt cbk p (PvFsm d) s)"
    and "handler_ok X s (NonInvSerFsm_ProceedingStTranspErrorEvt cbk p pv s)"
    and "handler_ok X s (NonInvSerFsm_CompletedStRecvNonInvReqEvt cbk p (PvFsm d) s)"
    and "handler_ok X s (NonInvSerFsm_CompletedStTranspErrorEvt cbk p pv s)"
    and "handler_ok X s (NonInvSerFsm_CompletedStTimer_J_TimeoutEvt cbk p pv s)"
    and "handler_ok X s (NonInvSerFsm_NullFxn cbk p pv s)"
  unfolding NonInvSerFsm_TryingStRecvNonInvReqEvt_def NonInvSerFsm_TryingStSend1xxRespEvt_def
    NonInvSerFsm_TryingStSend2xx6xxRespEvt_def NonInvSerFsm_TryingStTranspErrorEvt_def
    NonInvSerFsm_ProceedingStRecvNonInvReqEvt_def NonInvSerFsm_ProceedingStSend1xxRespEvt_def
    NonInvSerFsm_ProceedingStSend2xx6xxRespEvt_def NonInvSerFsm_ProceedingStTranspErrorEvt_def
    NonInvSerFsm_CompletedStRecvNonInvReqEvt_def NonInvSerFsm_CompletedStTranspErrorEvt_def
    NonInvSerFsm_CompletedStTimer_J_TimeoutEvt_def NonInvSerFsm_NullFxn_def
  using assms NonInvSer_SendFinal_keeps [OF assms(1)] by (simp_all add: keeps slack_StartTxnTimer [of X] split_handler)

text \<open>Timeouts.\<close>

lemma timeout_keeps:
  assumes "good X s"
  shows "handler_ok X s (InvCliFsm_CallingStTimerA_B_TimeoutEvt cbk p pv s)"
    and "handler_ok X s (InvSerFsm_ProceedingStTimerG_H_TimeoutEvt cbk p (PvTimeout td) s)"
    and "handler_ok X s (InvSerFsm_CompletedStTimerG_H_TimeoutEvt cbk p pv s)"
    and "handler_ok X s (NonInvClient_TimeoutHandling cbk p pv s)"
  unfolding InvCliFsm_CallingStTimerA_B_TimeoutEvt_def InvSerFsm_ProceedingStTimerG_H_TimeoutEvt_def
    InvSerFsm_CompletedStTimerG_H_TimeoutEvt_def NonInvClient_TimeoutHandling_def handler_ok_def Let_def
  using assms by (auto simp: keeps slack_StartTxnTimer [of X] case_prod_unfold split: bool.split)

lemma in_pool_txn:
  assumes "good X s" and "in_pool s p"
  shows "m_nTxnState (txn s p) \<le> 4" and "m_eTxnType (txn s p) \<noteq> INVALID_TXN"
  using assms good_txn [OF assms(1)] by (auto simp: txn_ok_def elim!: in_poolE)

lemma InvokeFsm_timeout:
  assumes "good X s" and "in_pool s p" and "timeout_event (m_eTxnType (txn s p)) tt = Some ev"
  shows "handler_ok X s (InvokeFsm cbk ev p (PvTimeout td) s)"
proof -
  have st: "m_nTxnState (txn s p) < 6" using in_pool_txn(1) [OF assms(1,2)] by simp
  note keep = InvCli_messages [OF assms(1,2)] InvSer_messages [OF assms(1,2)]
    NonInvCli_messages [OF assms(1,2)] NonInvSer_messages [OF assms(1,2)] timeout_keeps [OF assms(1)]
    NonInvCliFsm_TryingStTimer_E_F_TimeoutEvt_def NonInvCliFsm_ProceedingStTimer_E_F_TimeoutEvt_def
  from assms(3) show ?thesis
    by (cases rule: timeout_event_cases)
      (simp_all add: InvokeFsm_def fsm_table_def timeout_columns st keep del: One_nat_def)
qed

lemma SetTimerId_in_pool: "in_pool (SetTimerId i p s) q = in_pool s q"
  by (simp add: SetTimerId_def)

lemma timeout_terminated_keeps:
  assumes "good X s" and "slack s p \<ge> 1"
  shows "good X (timeout_terminated k l ud ty p s)"
    and "slack (timeout_terminated k l ud ty p s) = (slack s)(p := slack s p - 1)"
proof -
  define s1 where "s1 = (if l then OnTimerExpired ud ty s else s)"
  have s1: "good X s1" "slack s1 = slack s" using assms by (auto simp: s1_def keeps OnTimerExpired_keeps)
  have s2: "good X (SipTxn_RemoveFromTxnPool k s1)" "slack (SipTxn_RemoveFromTxnPool k s1) = slack s"
    using RemoveFromTxnPool_keeps [OF s1(1)] s1(2) by auto
  have eq: "timeout_terminated k l ud ty p s = SipTxn_SipDelete p (SipTxn_RemoveFromTxnPool k s1)"
    by (simp add: timeout_terminated_def s1_def)
  show "good X (timeout_terminated k l ud ty p s)" unfolding eq using s2 assms(2) by (simp add: good_SipDelete)
  show "slack (timeout_terminated k l ud ty p s) = (slack s)(p := slack s p - 1)" unfolding eq by (simp add: s2)
qed

lemma timeout_resend_keeps:
  assumes "good X s" and "slack s p \<ge> 1"
  shows "good X (timeout_resend ud p s)"
    and "slack (timeout_resend ud p s) = (slack s)(p := slack s p - 1)"
  using assms by (auto simp: timeout_resend_def keeps SendToNetwork_keeps good_SipDelete case_prod_unfold
      split: option.split)

text \<open>The callback on a found transaction whose timer this is.\<close>

lemma body_found:
  assumes "good X s" and "in_pool s p" and "FetchTransaction (td_pTxnKey td) TXN_OPT_FETCH None s' = (True, Some p, s1)"
    and "i = m_pvTimerId (txn (SipTxn_Increment p s1) p)"
    and "SetTimerId None p (SipTxn_Increment p s1) = SipTxn_Increment p s"
  shows "good X (CbkTxnTimeout_body cbk td i s')" and "slack (CbkTxnTimeout_body cbk td i s') = slack s"
proof -
  let ?s2 = "SipTxn_Increment p s"
  have g2: "good X ?s2" by (rule good_Increment [OF assms(1)])
  have sl2: "slack ?s2 = (slack s)(p := slack s p + 1)" by simp
  have ge: "slack ?s2 p \<ge> 1" using good_slack [OF assms(1), of p] by simp
  have restore: "(slack ?s2)(p := slack ?s2 p - 1) = slack s" by simp
  have "good X (CbkTxnTimeout_body cbk td i s') \<and> slack (CbkTxnTimeout_body cbk td i s') = slack s"
  proof (cases "s_util ?s2")
    case None
    with assms(3-5) g2 ge show ?thesis
      by (simp add: CbkTxnTimeout_body_def Let_def good_SipDelete)
  next
    case (Some u)
    let ?ud = "GetUserData p ?s2"
    show ?thesis
    proof (cases "IsTxnTerminated (txn ?s2 p)")
      case True
      with assms(3-5) Some timeout_terminated_keeps [OF g2 ge] restore show ?thesis
        by (simp add: CbkTxnTimeout_body_def Let_def)
    next
      case nt: False
      show ?thesis
      proof (cases "timeout_event (m_eTxnType (txn ?s2 p)) (td_eTimerType td)")
        case None
        with assms(3-5) Some nt g2 ge show ?thesis by (simp add: CbkTxnTimeout_body_def Let_def good_SipDelete)
      next
        case ev: (Some ev)
        define s3 where "s3 = set_err (s_err ?s2) (snd (snd (InvokeFsm cbk ev p (PvTimeout td) (set_err 0 ?s2))))"
        have "handler_ok X (set_err 0 ?s2) (InvokeFsm cbk ev p (PvTimeout td) (set_err 0 ?s2))"
          by (rule InvokeFsm_timeout [where tt = "td_eTimerType td"])
            (use g2 assms(2) ev in \<open>simp_all add: set_err_def in_pool_def SipTxn_Increment_def\<close>)
        then have s3: "good X s3" "slack s3 = slack ?s2" by (simp_all add: handler_ok_def s3_def)
        have ge3: "slack s3 p \<ge> 1" using ge s3(2) by simp
        have eq: "CbkTxnTimeout_body cbk td i s' =
            (if \<not> fst (InvokeFsm cbk ev p (PvTimeout td) (set_err 0 ?s2)) then SipTxn_SipDelete p s3
             else if IsTxnTerminated (txn s3 p) then
               timeout_terminated (td_pTxnKey td) (u_listener u) ?ud (td_eTimerType td) p s3
             else timeout_resend ?ud p s3)"
          using assms(3-5) Some nt ev by (simp add: CbkTxnTimeout_body_def Let_def s3_def case_prod_unfold)
        show ?thesis
          unfolding eq
          using good_SipDelete [OF s3(1) ge3] timeout_terminated_keeps [OF s3(1) ge3]
            timeout_resend_keeps [OF s3(1) ge3] s3(2) restore by simp
      qed
    qed
  qed
  then show "good X (CbkTxnTimeout_body cbk td i s')" "slack (CbkTxnTimeout_body cbk td i s') = slack s"
    by blast+
qed

lemma body_keeps:
  assumes "good X s"
  shows "good X (CbkTxnTimeout_body cbk td i s)" and "slack (CbkTxnTimeout_body cbk td i s) = slack s"
proof -
  have "good X (CbkTxnTimeout_body cbk td i s) \<and> slack (CbkTxnTimeout_body cbk td i s) = slack s"
  proof (cases "td_pTxnKey td")
    case None
    with assms show ?thesis by (simp add: CbkTxnTimeout_body_def FetchTransaction_def good_crash_safe)
  next
    case key: (Some k)
    show ?thesis
    proof (cases "FindTransaction k (s_pool s)")
      case None
      with key assms show ?thesis by (simp add: CbkTxnTimeout_body_def FetchTransaction_def)
    next
      case (Some e)
      obtain k' p where e: "e = (k', p)" by fastforce
      have fetch: "FetchTransaction (td_pTxnKey td) TXN_OPT_FETCH None s = (True, Some p, s)"
        using key Some e by (simp add: FetchTransaction_def)
      have in_p: "in_pool s p"
        using txn_db.find_SomeD(1) [OF good_wf [OF assms] Some] e by (auto intro: in_poolI)
      show ?thesis
      proof (cases "i = m_pvTimerId (txn (SipTxn_Increment p s) p)")
        case False
        have "slack (SipTxn_Increment p s) p \<ge> 1" using good_slack [OF assms, of p] by simp
        with False fetch assms show ?thesis
          by (simp add: CbkTxnTimeout_body_def Let_def good_SipDelete good_Increment)
      next
        case True
        have comm: "SetTimerId None p (SipTxn_Increment p s) = SipTxn_Increment p (SetTimerId None p s)"
          by (cases "txn s p") (simp add: SetTimerId_def SipTxn_Increment_def upd_txn_def)
        show ?thesis
          using body_found [OF good_SetTimerId_None [OF assms] _ fetch True comm] in_p
          by (simp add: SetTimerId_in_pool keeps)
      qed
    qed
  qed
  then show "good X (CbkTxnTimeout_body cbk td i s)" "slack (CbkTxnTimeout_body cbk td i s) = slack s" by blast+
qed

text \<open>The handlers of an idle transaction.\<close>

lemma InvSer_idle:
  assumes "good X s" and "idle_txn s p"
  shows "handler_ok X s (InvSerFsm_IdleStRecvInvReqEvt cbk p (PvFsm d) s)"
proof -
  have g: "good (insert p X) s" by (rule good_mono [OF assms(1)]) auto
  note enter = fsm_enter_pool_idle [OF g insertI1 assms(2)]
  show ?thesis
  proof (cases "fst (fsm_enter_pool p s)")
    case None
    with enter show ?thesis
      by (auto simp: InvSerFsm_IdleStRecvInvReqEvt_def split_handler intro: good_shrink)
  next
    case (Some kq)
    then have "snd kq = p" using enter(3) [of "fst kq" "snd kq"] by simp
    with Some enter(1,2) show ?thesis
      by (simp add: InvSerFsm_IdleStRecvInvReqEvt_def keeps slack_StartTxnTimer [of "insert p X"] fsm_set_user_data_keeps split_handler
          good_SetTxnState_idle)
  qed
qed

text \<open>A new client transaction whose timer does not start leaves the pool again.\<close>

lemma RemoveFromTxnPool_idle:
  assumes "good (insert p X) s"
  shows "good X (RemoveFromTxnPool p s)" and "slack (RemoveFromTxnPool p s) = slack s"
proof -
  have rem: "good (insert p X) (RemoveFromTxnPool p s)" "slack (RemoveFromTxnPool p s) = slack s"
    using RemoveFromTxnPool_keeps [OF assms] by (simp_all add: RemoveFromTxnPool_def)
  show "slack (RemoveFromTxnPool p s) = slack s" by (rule rem(2))
  show "good X (RemoveFromTxnPool p s)"
  proof (cases "in_pool s p")
    case False
    then have "good X s" using assms good_shrink by blast
    then show ?thesis by (simp add: RemoveFromTxnPool_def RemoveFromTxnPool_keeps)
  next
    case True
    then obtain k where k: "(k, p) \<in> set (entries s)" by (rule in_poolE)
    then obtain k' where k': "m_pTxnKey (txn s p) = Some k'" "same_id k' k" "key_ok k"
      using good_txn [OF assms k] by (auto simp: txn_ok_def)
    have "FindTransaction k' (s_pool s) = FindTransaction k (s_pool s)"
      using same_id_CompareKeys [OF same_id_refl k'(2)] same_id_key_ok [OF k'(2)] k'(3)
      by (simp add: pool_find_first [OF good_wf [OF assms]])
    also have "\<dots> = Some (k, p)" using good_found [OF assms k] by simp
    finally have f: "FindTransaction k' (s_pool s) = Some (k, p)" .
    have "\<not> in_pool (RemoveFromTxnPool p s) p"
      using good_without_entry(3) [OF assms f] f k'(1)
      by (simp add: RemoveFromTxnPool_def SipTxn_RemoveFromTxnPool_def ReleaseTransaction_cases)
    then show ?thesis using rem(1) good_shrink by blast
  qed
qed

lemma InvCli_idle:
  assumes "good X s" and "idle_txn s p" and "fd_pTranspParam d \<noteq> None"
  shows "handler_ok X s (InvCliFsm_IdleStSendInvReqEvt cbk p (PvFsm d) s)"
proof -
  have g: "good (insert p X) s" by (rule good_mono [OF assms(1)]) auto
  note enter = fsm_enter_pool_idle [OF g insertI1 assms(2)]
  obtain tp where tp: "fd_pTranspParam d = Some tp" using assms(3) by blast
  show ?thesis
  proof (cases "fst (fsm_enter_pool p s)")
    case None
    with enter show ?thesis
      by (auto simp: InvCliFsm_IdleStSendInvReqEvt_def split_handler intro: good_shrink)
  next
    case (Some kq)
    then have "snd kq = p" using enter(3) [of "fst kq" "snd kq"] by simp
    with Some tp enter(1,2) show ?thesis
      by (simp add: InvCliFsm_IdleStSendInvReqEvt_def keeps slack_StartTxnTimer [of "insert p X"] fsm_set_user_data_keeps split_handler
          good_SetTxnState_idle RemoveFromTxnPool_idle(1) RemoveFromTxnPool_idle(2) [of p X])
  qed
qed

lemma NonInvCli_idle:
  assumes "good X s" and "idle_txn s p" and "fd_pTranspParam d \<noteq> None"
  shows "handler_ok X s (NonInvCliFsm_IdleStSendNonInvReqEvt cbk p (PvFsm d) s)"
proof -
  have g: "good (insert p X) s" by (rule good_mono [OF assms(1)]) auto
  note enter = fsm_enter_pool_idle [OF g insertI1 assms(2)]
  obtain tp where tp: "fd_pTranspParam d = Some tp" using assms(3) by blast
  show ?thesis
  proof (cases "fst (fsm_enter_pool p s)")
    case None
    with enter show ?thesis
      by (auto simp: NonInvCliFsm_IdleStSendNonInvReqEvt_def split_handler intro: good_shrink)
  next
    case (Some kq)
    then have "snd kq = p" using enter(3) [of "fst kq" "snd kq"] by simp
    with Some tp enter(1,2) show ?thesis
      by (simp add: NonInvCliFsm_IdleStSendNonInvReqEvt_def keeps slack_StartTxnTimer [of "insert p X"] fsm_set_user_data_keeps split_handler
          good_SetTxnState_idle RemoveFromTxnPool_idle(1) RemoveFromTxnPool_idle(2) [of p X])
  qed
qed

lemma Fetch_in_pool:
  assumes "good X s" and "FindTransaction k (s_pool s) = Some (k', q)"
  shows "in_pool s q"
  using txn_db.find_SomeD(1) [OF good_wf [OF assms(1)] assms(2)] by (rule in_poolI)

lemma recv_prack_keeps:
  assumes "good X s"
  shows "handler_ok X s (NonInvSer_recv_prack k e p d s)"
proof -
  define n where "n = GetRSeqNum (fd_pSipMsgIn d) H_RACK"
  define s1 where "s1 = (if e then s\<lparr>s_pool := pool_upd_key p (\<lambda>k. k\<lparr>m_nRSeqNum := n\<rparr>) (s_pool s)\<rparr> else s)"
  have s1: "good X s1" "slack s1 = slack s"
    using assms good_pool_upd_key [OF assms, of "\<lambda>k. k\<lparr>m_nRSeqNum := n\<rparr>" p] by (auto simp: s1_def)
  have stop: "good X (snd (StopTxnTimer q s1))" if "FindTransaction x (s_pool s1) = Some (x', q)" for x x' q
    using good_StopTxnTimer [OF s1(1) Fetch_in_pool [OF s1(1) that]] .
  show ?thesis
    unfolding NonInvSer_recv_prack_def Let_def n_def [symmetric] s1_def [symmetric] handler_ok_def
    using s1 stop
    by (auto simp: FetchTransaction_def case_prod_unfold good_crash_safe slack_StopTxnTimer
        split: option.split prod.split)
qed

lemma NonInvSer_idle:
  assumes "good X s" and "idle_txn s p"
  shows "handler_ok X s (NonInvSerFsm_IdleStRecvNonInvReqEvt cbk p (PvFsm d) s)"
proof -
  have g: "good (insert p X) s" by (rule good_mono [OF assms(1)]) auto
  note enter = fsm_enter_pool_idle [OF g insertI1 assms(2)]
  have prack: "handler_ok X s (NonInvSer_recv_prack k e q d' s')" if "good X s'" "slack s' = slack s" for k e q d' s'
    using recv_prack_keeps [OF that(1), of k e q d'] that(2) by (simp add: handler_ok_def)
  show ?thesis
  proof (cases "fst (fsm_enter_pool p s)")
    case None
    with enter show ?thesis
      by (auto simp: NonInvSerFsm_IdleStRecvNonInvReqEvt_def split_handler intro: good_shrink)
  next
    case (Some kq)
    then have q: "snd kq = p" using enter(3) [of "fst kq" "snd kq"] by simp
    let ?s1 = "SetTxnState NON_INV_SER_TRYING_ST p (fsm_set_user_data d p (snd (fsm_enter_pool p s)))"
    have s1: "good X ?s1" "slack ?s1 = slack s"
      using enter(1,2) by (simp_all add: keeps slack_StartTxnTimer [of "insert p X"] fsm_set_user_data_keeps good_SetTxnState_idle)
    from Some prack [OF s1] s1 q show ?thesis
      by (simp add: NonInvSerFsm_IdleStRecvNonInvReqEvt_def Let_def case_prod_unfold handler_ok_def)
  qed
qed

end

subsection \<open>The callback provides the contract\<close>

text \<open>First a callback that does nothing, for the handlers of timeouts, which never run it.\<close>

interpretation no_callback: timeout_callback "\<lambda>td i s. s"
  by unfold_locales simp_all

lemma CbkTxnTimeout_no_callback: "CbkTxnTimeout td i s = CbkTxnTimeout_body (\<lambda>td i s. s) td i s"
  unfolding CbkTxnTimeout_unfold [of td i s] by (rule CbkTxnTimeout_body_cbk)

interpretation txn_timeout: timeout_callback CbkTxnTimeout
proof unfold_locales
  fix X s td i assume "good X s"
  then show "good X (CbkTxnTimeout td i s)" "slack (CbkTxnTimeout td i s) = slack s"
    unfolding CbkTxnTimeout_no_callback by (rule no_callback.body_keeps)+
qed

text \<open>The expiry of a running timer.\<close>

lemma Timer_TimerExpired_keeps:
  assumes "good X s"
  shows "good X (Timer_TimerExpired i s)" and "slack (Timer_TimerExpired i s) = slack s"
proof -
  have "good X (Timer_TimerExpired i s) \<and> slack (Timer_TimerExpired i s) = slack s"
  proof (cases "s_timers s i")
    case None
    with assms show ?thesis by (simp add: Timer_TimerExpired_def)
  next
    case (Some x)
    obtain d td where x: "x = (d, td)" by fastforce
    let ?s0 = "s\<lparr>s_timers := (s_timers s)(i := None)\<rparr>"
    have run: "Timer_TimerExpired i s = CbkTxnTimeout td (Some i) ?s0"
      using Some x by (simp add: Timer_TimerExpired_def)
    show ?thesis
    proof (cases "\<exists>p. in_pool s p \<and> m_pvTimerId (txn s p) = Some i")
      case False
      then have "good X ?s0" by (intro good_drop_timer [OF assms]) auto
      then show ?thesis unfolding run using txn_timeout.cbk_good txn_timeout.cbk_slack by simp
    next
      case True
      then obtain p where p: "in_pool s p" "m_pvTimerId (txn s p) = Some i" by blast
      obtain k k' where k: "td_pTxnKey td = Some k'" "same_id k' k" "(k, p) \<in> set (entries s)"
        using in_pool_timer [OF assms p] Some x by auto
      have "key_ok k" using good_txn [OF assms k(3)] by (simp add: txn_ok_def)
      then have kk: "key_ok k'" using same_id_key_ok [OF k(2)] by simp
      have "FindTransaction k' (s_pool s) = FindTransaction k (s_pool s)"
        using same_id_CompareKeys [OF same_id_refl k(2) kk]
        by (simp add: pool_find_first [OF good_wf [OF assms]])
      also have "\<dots> = Some (k, p)" using good_found [OF assms k(3)] by simp
      finally have fetch: "FetchTransaction (td_pTxnKey td) TXN_OPT_FETCH None ?s0 = (True, Some p, ?s0)"
        using k(1) by (simp add: FetchTransaction_def)
      have stopped: "good X (SetTimerId None p ?s0)"
        using good_stop_timer [OF assms p] by (simp add: SetTimerId_def)
      have comm: "SetTimerId None p (SipTxn_Increment p ?s0) = SipTxn_Increment p (SetTimerId None p ?s0)"
        by (cases "txn s p") (simp add: SetTimerId_def SipTxn_Increment_def upd_txn_def)
      have "in_pool (SetTimerId None p ?s0) p" using p(1) by (simp add: SetTimerId_def)
      from no_callback.body_found [OF stopped this fetch _ comm, of "Some i"] p(2)
      show ?thesis
        unfolding run CbkTxnTimeout_no_callback by (simp add: SipTxn_Increment_def slack_fields)
    qed
  qed
  then show "good X (Timer_TimerExpired i s)" "slack (Timer_TimerExpired i s) = slack s" by blast+
qed

end
