(* ===== verification/Handler_Invariant.thy ===== *)
theory Handler_Invariant
  imports Fsm_Invariant
begin

text \<open>
  The transaction handler keeps the invariant and gives back every reference: \<open>stack_ok\<close> is
  the invariant of the states between two operations, in which a transaction has exactly the
  two references of its pool entry, or none.
\<close>

definition stack_ok :: "stack \<Rightarrow> bool" where
  "stack_ok s \<longleftrightarrow> good {} s \<and> slack s = (\<lambda>_. 0)"

lemma stack_okI: "good {} s' \<Longrightarrow> slack s' = slack s \<Longrightarrow> stack_ok s \<Longrightarrow> stack_ok s'"
  by (simp add: stack_ok_def)

lemma stack_okD: "stack_ok s \<Longrightarrow> good {} s" "stack_ok s \<Longrightarrow> slack s = (\<lambda>_. 0)"
  by (simp_all add: stack_ok_def)

lemma stack_ok_irrelevant [simp]:
  "stack_ok (set_err e s) = stack_ok s" "stack_ok (emit x s) = stack_ok s"
  by (simp_all add: stack_ok_def)

lemma stack_ok_crash: "stack_ok s \<Longrightarrow> safe_crash (Some c) \<Longrightarrow> stack_ok (crash c s)"
  by (simp add: stack_ok_def good_crash_safe)

subsection \<open>Dispatch\<close>

lemma le_5_cases: "(n :: nat) \<le> 5 \<longleftrightarrow> n = 0 \<or> n = 1 \<or> n = 2 \<or> n = 3 \<or> n = 4 \<or> n = 5"
  by linarith

text \<open>The handler of a message event for a transaction that has left the idle state.\<close>

lemma InvokeFsm_message:
  assumes "good X s" and "in_pool s p" and "p \<notin> X" and "ev \<le> 5"
  shows "handler_ok X s (InvokeFsm CbkTxnTimeout ev p (PvFsm d) s)"
proof -
  have st: "m_nTxnState (txn s p) \<in> {1, 2, 3, 4}"
    using good_started [OF assms(1-3)] txn_timeout.in_pool_txn(1) [OF assms(1,2)] by auto
  have ty: "m_eTxnType (txn s p) \<noteq> INVALID_TXN" by (rule txn_timeout.in_pool_txn(2) [OF assms(1,2)])
  have ev: "ev \<in> {0, 1, 2, 3, 4, 5}" using assms(4) by auto
  note keep = txn_timeout.InvCli_messages [OF assms(1,2)] txn_timeout.InvCli_failures [OF assms(1,2)]
    txn_timeout.InvSer_messages [OF assms(1,2)] txn_timeout.InvSer_responses [OF assms(1,2)]
    txn_timeout.NonInvCli_messages [OF assms(1,2)] txn_timeout.NonInvSer_messages [OF assms(1,2)]
    txn_timeout.timeout_keeps [OF assms(1)]
    NonInvCliFsm_TryingStTimer_E_F_TimeoutEvt_def NonInvCliFsm_ProceedingStTimer_E_F_TimeoutEvt_def
  have "handler_ok X s (InvokeFsm CbkTxnTimeout ev p (PvFsm d) s)" if "m_eTxnType (txn s p) = INV_CLI_TXN"
    using st ev that by (auto simp: InvokeFsm_def fsm_table_def table_lookup_def gpfSipInvClientTxnFsm_def keep)
  moreover have "handler_ok X s (InvokeFsm CbkTxnTimeout ev p (PvFsm d) s)" if "m_eTxnType (txn s p) = INV_SER_TXN"
    using st ev that by (auto simp: InvokeFsm_def fsm_table_def table_lookup_def gpfSipInvSerTxnFsm_def keep)
  moreover have "handler_ok X s (InvokeFsm CbkTxnTimeout ev p (PvFsm d) s)" if "m_eTxnType (txn s p) = NON_INV_CLI_TXN"
    using st ev that by (auto simp: InvokeFsm_def fsm_table_def table_lookup_def gpfSipNonInvClientTxnFsm_def keep)
  moreover have "handler_ok X s (InvokeFsm CbkTxnTimeout ev p (PvFsm d) s)" if "m_eTxnType (txn s p) = NON_INV_SER_TXN"
    using st ev that by (auto simp: InvokeFsm_def fsm_table_def table_lookup_def gpfSipNonInvSerTxnFsm_def keep)
  ultimately show ?thesis using ty by (cases "m_eTxnType (txn s p)") auto
qed

definition error_event :: "txn_type \<Rightarrow> nat" where
  "error_event ty =
     (case ty of INV_CLI_TXN \<Rightarrow> INV_CLI_TRANSP_ERROR_EVT | NON_INV_CLI_TXN \<Rightarrow> NON_INV_CLI_TRANSP_ERROR_EVT
      | INV_SER_TXN \<Rightarrow> INV_SER_TRANSP_ERROR_EVT | _ \<Rightarrow> NON_INV_SER_TRANSP_ERROR_EVT)"

lemma InvokeFsm_error:
  assumes "good X s" and "in_pool s p" and "p \<notin> X"
  shows "handler_ok X s (InvokeFsm CbkTxnTimeout (error_event (m_eTxnType (txn s p))) p (PvError e) s)"
proof -
  have st: "m_nTxnState (txn s p) \<in> {1, 2, 3, 4}"
    using good_started [OF assms(1-3)] txn_timeout.in_pool_txn(1) [OF assms(1,2)] by auto
  note keep = txn_timeout.InvCli_messages [OF assms(1,2)] txn_timeout.InvSer_messages [OF assms(1,2)]
    txn_timeout.NonInvCli_messages [OF assms(1,2)] txn_timeout.NonInvSer_messages [OF assms(1,2)]
  have ty: "m_eTxnType (txn s p) \<noteq> INVALID_TXN" by (rule txn_timeout.in_pool_txn(2) [OF assms(1,2)])
  with st show ?thesis
    by (cases "m_eTxnType (txn s p)")
      (auto simp: InvokeFsm_def fsm_table_def table_lookup_def error_event_def gpfSipInvClientTxnFsm_def
        gpfSipInvSerTxnFsm_def gpfSipNonInvClientTxnFsm_def gpfSipNonInvSerTxnFsm_def keep)
qed

subsection \<open>New transactions\<close>

lemma fresh_not_in_pool: "good X s \<Longrightarrow> \<not> in_pool s (s_next s)"
  using good_alloc [of X s] by (metis in_poolE less_irrefl snd_conv)

lemma SipTxn_new_keeps:
  assumes "good X s" and "SipTxn_new ty key msg tctx s = (p, s')"
  shows "good X s'" and "slack s' = (slack s)(p := 1)"
proof -
  have p: "p = s_next s" and s': "s_pool s' = s_pool s" "s_next s' = s_next s + 1" "s_timers s' = s_timers s"
    "s_next_timer s' = s_next_timer s" "s_crash s' = s_crash s" "s_garbage s' = s_garbage s"
    "\<And>q. q \<noteq> p \<Longrightarrow> txn s' q = txn s q" "m_nRefCount (txn s' p) = 1"
    using assms(2) by (auto simp: SipTxn_new_def SipTxn_init_def Let_def split: prod.splits option.splits)
  have notin: "\<not> in_pool s p" using fresh_not_in_pool [OF assms(1)] p by simp
  have refs: "pool_refs s' q = pool_refs s q" for q by (simp add: pool_refs_def s'(1))
  have inp: "in_pool s' q = in_pool s q" for q by (simp add: in_pool_def s'(1))
  show slack: "slack s' = (slack s)(p := 1)"
    using notin s'(7,8) by (auto simp: slack_def refs fun_eq_iff in_pool_refs)
  show "good X s'"
    unfolding good_def
  proof (intro conjI)
    show "\<forall>e\<in>set (entries s'). snd e < s_next s' \<and> txn_ok (s_timers s') (txn s' (snd e)) (fst e)"
    proof
      fix e assume "e \<in> set (entries s')"
      then have e: "e \<in> set (entries s)" by (simp add: s'(1))
      then have "snd e \<noteq> p" using notin by (auto simp: in_pool_def)
      with good_alloc [OF assms(1) e] good_txn [OF assms(1) e]
      show "snd e < s_next s' \<and> txn_ok (s_timers s') (txn s' (snd e)) (fst e)" by (simp add: s')
    qed
    show "\<forall>q r i. in_pool s' q \<longrightarrow> in_pool s' r \<longrightarrow> m_pvTimerId (txn s' q) = Some i \<longrightarrow>
            m_pvTimerId (txn s' r) = Some i \<longrightarrow> q = r"
    proof (intro allI impI)
      fix q r i
      assume in_q: "in_pool s' q" and in_r: "in_pool s' r" and ids: "m_pvTimerId (txn s' q) = Some i"
        "m_pvTimerId (txn s' r) = Some i"
      have "q \<noteq> p" "r \<noteq> p" using in_q in_r notin by (auto simp: inp)
      with in_q in_r ids show "q = r" using good_inj [OF assms(1), of q r i] by (simp add: inp s'(7))
    qed
    show "\<forall>q. in_pool s' q \<longrightarrow> q \<notin> X \<longrightarrow> m_nTxnState (txn s' q) \<ge> 1"
    proof (intro allI impI)
      fix q assume q: "in_pool s' q" "q \<notin> X"
      then have "q \<noteq> p" using notin by (auto simp: inp)
      with q show "1 \<le> m_nTxnState (txn s' q)" using good_started [OF assms(1), of q] by (simp add: inp s'(7))
    qed
  qed (use assms(1) slack refs in \<open>simp_all add: good_def s'(1-6)\<close>)
qed

lemma SipTxn_new_idle:
  assumes "good X s" and "SipTxn_new ty key msg tctx s = (p, s')" and "ty \<noteq> INVALID_TXN"
    and "m_pszMethod key \<noteq> ACK_METHOD" and "\<not> HasRule RULE_COMPARE_RSEQ key"
    and "FindTransaction key (s_pool s) = None"
  shows "idle_txn s' p"
proof -
  have p: "p = s_next s" and pool: "s_pool s' = s_pool s" and nxt: "p < s_next s'"
    and t: "m_eTxnType (txn s' p) = ty" "m_nTxnState (txn s' p) = 0" "m_pvTimerId (txn s' p) = None"
    and err: "s_err s' = snd (SipTxnKey_copy (Some key) (s_err s))"
    and key: "m_pTxnKey (txn s' p) = (if s_err s' = E_ERR_PF_MALLOCFAILED then None
                else Some (fst (SipTxnKey_copy (Some key) (s_err s))))"
    using assms(2) by (auto simp: SipTxn_new_def SipTxn_init_def Let_def split: prod.splits option.splits)
  have "\<not> in_pool s' p" using fresh_not_in_pool [OF assms(1)] p in_pool_cong [OF pool] by simp
  moreover have "slack s' p = 1" using SipTxn_new_keeps(2) [OF assms(1,2)] by simp
  moreover have "s_err s' = E_ERR_PF_MALLOCFAILED" if "\<not> copyable key"
    using copy_incomplete [OF that, of "s_err s"] err by simp
  moreover have "fst (SipTxnKey_copy (Some key) (s_err s)) = key" if "copyable key"
    using copy_complete [OF that] by simp
  ultimately show ?thesis
    using assms(3-6) nxt t key pool by (cases "copyable key") (auto simp: idle_txn_def key_ok_def)
qed

text \<open>The first event of a new transaction.\<close>

lemma InvokeFsm_idle:
  assumes "good X s" and "idle_txn s p" and "ev = 0"
    and "m_eTxnType (txn s p) \<in> {INV_CLI_TXN, NON_INV_CLI_TXN} \<Longrightarrow> fd_pTranspParam d \<noteq> None"
  shows "handler_ok X s (InvokeFsm CbkTxnTimeout ev p (PvFsm d) s)"
proof -
  have t: "m_eTxnType (txn s p) \<noteq> INVALID_TXN" "m_nTxnState (txn s p) = 0"
    using assms(2) by (simp_all add: idle_txn_def)
  then show ?thesis
    using assms(3,4) txn_timeout.InvCli_idle [OF assms(1,2)] txn_timeout.InvSer_idle [OF assms(1,2)]
      txn_timeout.NonInvCli_idle [OF assms(1,2)] txn_timeout.NonInvSer_idle [OF assms(1,2)]
    by (cases "m_eTxnType (txn s p)")
      (auto simp: InvokeFsm_def fsm_table_def table_lookup_def gpfSipInvClientTxnFsm_def
        gpfSipInvSerTxnFsm_def gpfSipNonInvClientTxnFsm_def gpfSipNonInvSerTxnFsm_def)
qed

subsection \<open>The handler\<close>

lemma GetTxnObjFromDb_eq:
  "GetTxnObjFromDb k s = (True, map_option snd (FindTransaction k (s_pool s)), s)"
  by (auto simp: GetTxnObjFromDb_def FetchTransaction_def split: option.split)

lemma stack_ok_slack: "stack_ok s \<Longrightarrow> slack s p = 0"
  by (simp add: stack_ok_def)

text \<open>An operation on a pooled transaction between taking and giving back a reference.\<close>

lemma stack_ok_bracket:
  assumes "good {} s'" and "slack s' = (slack s)(p := slack s p + 1)" and "stack_ok s"
  shows "stack_ok (SipTxn_SipDelete p s')"
proof -
  have "slack s' p \<ge> 1" using assms(2,3) by (simp add: stack_ok_def)
  with assms show ?thesis by (simp add: stack_ok_def good_SipDelete fun_eq_iff)
qed

lemma find_in_pool:
  assumes "stack_ok s" and "FindTransaction k (s_pool s) = Some (k', p)"
  shows "in_pool s p"
  using txn_timeout.Fetch_in_pool [OF stack_okD(1) [OF assms(1)] assms(2)] .

lemma NotifyTxnTermination_keeps:
  "good X s \<Longrightarrow> good X (NotifyTxnTermination p s)" "slack (NotifyTxnTermination p s) = slack s"
  by (auto simp: NotifyTxnTermination_def TxnTerminated_keeps split: option.split)

text \<open>What follows a removal: the last reference goes.\<close>

lemma DeleteTxn_ok:
  assumes "stack_ok s"
  shows "stack_ok (snd (DeleteTxn k s))"
proof (cases k)
  case None
  with assms show ?thesis by (simp add: DeleteTxn_def)
next
  case (Some g)
  show ?thesis
  proof (cases "FindTransaction g (s_pool s)")
    case None
    with Some assms show ?thesis by (simp add: DeleteTxn_def ReleaseTransaction_cases)
  next
    case f: (Some e)
    obtain k' p where e: "e = (k', p)" by fastforce
    obtain s1 where r: "ReleaseTransaction g TXN_OPT_REMOVE s = (True, Some (k', p), s1)"
      using f e by (simp add: ReleaseTransaction_cases)
    have st: "good {} s1" "slack s1 = (slack s)(p := slack s p + 1)"
      using Release_state(1,3) [OF stack_okD(1) [OF assms] r] by simp_all
    have "stack_ok (SipTxn_SipDelete p (NotifyTxnTermination p s1))"
      by (rule stack_ok_bracket [OF _ _ assms]) (simp_all add: st NotifyTxnTermination_keeps)
    with Some r show ?thesis by (simp add: DeleteTxn_def)
  qed
qed

text \<open>
  \<open>TerminateTxn\<close> stops the timer after the removal, so the invariant is that of the state
  before it: the timer is still the transaction's own.
\<close>

lemma AbortTxn_removed:
  assumes "good {} s" and "FindTransaction g (s_pool s) = Some (k, p)"
    and "s' = SipTxn_SipDelete p (s\<lparr>s_pool := snd (RemoveTransaction g TXN_OPT_REMOVE (s_pool s))\<rparr>)"
    and "slack s p = 0"
  shows "good {} (snd (AbortTxn p s'))" and "slack (snd (AbortTxn p s')) = (slack s)(p := 1)"
proof -
  have r: "ReleaseTransaction g TXN_OPT_REMOVE s = (True, Some (k, p), s')"
    using assms(2,3) by (simp add: ReleaseTransaction_cases)
  note st = Release_state [OF assms(1) r]
  have in_p: "in_pool s p" using st(5) by simp
  have ref: "pool_refs s p = 1" using in_p good_refs [OF assms(1), of p] by (simp add: in_pool_refs)
  have rc: "m_nRefCount (txn s p) = 2" using assms(4) ref by (simp add: slack_def)
  have same: "s_timers s' = s_timers s" "m_pvTimerId (txn s' p) = m_pvTimerId (txn s p)"
    "\<And>q. q \<noteq> p \<Longrightarrow> txn s' q = txn s q" "s_util s' = s_util s"
    using assms(3) rc by (auto simp: SipTxn_SipDelete_def Let_def)
  show "slack (snd (AbortTxn p s')) = (slack s)(p := 1)"
    using st(3) assms(4) by (simp add: slack_AbortTxn fun_eq_iff)
  show "good {} (snd (AbortTxn p s'))"
  proof (cases "m_pvTimerId (txn s' p)")
    case None
    with st(1) show ?thesis by (simp add: AbortTxn_def split: option.split)
  next
    case (Some i)
    obtain x where x: "s_timers s' i = Some x"
      using in_pool_timer [OF assms(1) in_p] Some same(1,2) by auto
    have "good {} (s'\<lparr>s_timers := (s_timers s')(i := None)\<rparr>)"
    proof (rule good_drop_timer [OF st(1)])
      fix q assume q: "in_pool s' q"
      then have "q \<noteq> p" using st(4) by auto
      with q have "in_pool s q" using st(6) by simp
      then show "m_pvTimerId (txn s' q) \<noteq> Some i"
        using good_inj [OF assms(1) in_p, of q i] Some same(2) same(3) [OF \<open>q \<noteq> p\<close>] \<open>q \<noteq> p\<close> by auto
    qed
    then have "good {} (SetTimerId None p (s'\<lparr>s_timers := (s_timers s')(i := None)\<rparr>))"
      by (rule good_SetTimerId_None)
    with st(1) Some x show ?thesis
      by (auto simp: AbortTxn_def StopTimerEx_def SetTimerId_def good_crash_safe split: option.split)
  qed
qed

lemma TerminateTxn_ok:
  assumes "stack_ok s"
  shows "stack_ok (snd (TerminateTxn k s))"
proof (cases k)
  case None
  with assms show ?thesis by (simp add: TerminateTxn_def)
next
  case (Some g)
  show ?thesis
  proof (cases "FindTransaction g (s_pool s)")
    case None
    with Some assms show ?thesis by (simp add: TerminateTxn_def ReleaseTransaction_cases)
  next
    case f: (Some e)
    obtain k' p where e: "e = (k', p)" by fastforce
    define s1 where "s1 = SipTxn_SipDelete p (s\<lparr>s_pool := snd (RemoveTransaction g TXN_OPT_REMOVE (s_pool s))\<rparr>)"
    note ab = AbortTxn_removed [OF stack_okD(1) [OF assms] f [unfolded e] s1_def stack_ok_slack [OF assms]]
    define s2 where "s2 = (if GetUserData p (snd (AbortTxn p s1)) \<noteq> None
      then ud_SetDeleteFlag p True (snd (AbortTxn p s1)) else snd (AbortTxn p s1))"
    have "good {} s2" "slack s2 = (slack s)(p := 1)" using ab by (auto simp: s2_def good_fields slack_fields)
    then have "stack_ok (SipTxn_SipDelete p (NotifyTxnTermination p s2))"
      by (intro stack_ok_bracket [OF _ _ assms]) (simp_all add: NotifyTxnTermination_keeps stack_ok_slack [OF assms])
    with Some f e show ?thesis
      by (simp add: TerminateTxn_def ReleaseTransaction_cases s1_def [symmetric] s2_def Let_def)
  qed
qed

lemma UpdateTxnDetails_ok:
  assumes "stack_ok s"
  shows "stack_ok (snd (UpdateTxnDetails k ti s))"
proof -
  have "stack_ok (SipTxn_SipDelete p (UpdateTranspInfo ti p (SipTxn_Increment p s)))" for p
    by (rule stack_ok_bracket [OF _ _ assms]) (simp_all add: keeps_good keeps_slack stack_okD [OF assms])
  with assms show ?thesis by (auto simp: UpdateTxnDetails_def GetTxnObjFromDb_eq split: option.split)
qed

text \<open>Keys made from a message, and the events of a message.\<close>

lemma of_msg_rules: "\<not> HasRule RULE_COMPARE_RSEQ (fst (SipTxnKey_of_msg m e))"
  by (auto simp: SipTxnKey_of_msg_def SipTxnKey_new_def SipTxnKey_fill_tags_def Let_def HasRule_def
      split: option.split list.split)

lemma GetMethodType_ACK: "GetMethod m = ACK_METHOD \<Longrightarrow> GetMethodType m = METHOD_ACK"
  by (simp add: GetMethodType_def SipMethodArray_def SipPf_Stricmp_equals lower_def SIP_TOLOWER_def)

lemma of_msg_ACK:
  assumes "m_eSipMsgType m = REQ_TYPE" and "m_pszMethod (fst (SipTxnKey_of_msg m e)) = ACK_METHOD"
  shows "GetMethodType m = METHOD_ACK"
proof (rule GetMethodType_ACK)
  show "GetMethod m = ACK_METHOD"
    using assms by (auto simp: GetMethod_def SipTxnKey_of_msg_def SipTxnKey_new_def SipTxnKey_fill_tags_def
        Let_def split: option.splits list.splits)
qed

text \<open>A new transaction gets its first event and the constructor's reference is given back.\<close>

lemma new_txn_ok:
  assumes "stack_ok s" and "SipTxn_new ty key msg tctx s = (p, s1)" and "ty \<noteq> INVALID_TXN"
    and "m_pszMethod key \<noteq> ACK_METHOD" and "\<not> HasRule RULE_COMPARE_RSEQ key"
    and "FindTransaction key (s_pool s) = None" and "ev = 0"
    and "ty \<in> {INV_CLI_TXN, NON_INV_CLI_TXN} \<Longrightarrow> fd_pTranspParam d \<noteq> None"
  shows "stack_ok (SipTxn_SipDelete p (snd (snd (InvokeFsm CbkTxnTimeout ev p (PvFsm d) s1))))"
    and "stack_ok (SipTxn_SipDelete p s1)"
proof -
  note new = SipTxn_new_keeps [OF stack_okD(1) [OF assms(1)] assms(2)]
  have idle: "idle_txn s1 p"
    by (rule SipTxn_new_idle [OF stack_okD(1) [OF assms(1)] assms(2-6)])
  have "m_eTxnType (txn s1 p) = ty"
    using assms(2) by (auto simp: SipTxn_new_def SipTxn_init_def Let_def split: prod.splits option.splits)
  then have "handler_ok {} s1 (InvokeFsm CbkTxnTimeout ev p (PvFsm d) s1)"
    using assms(7,8) by (intro InvokeFsm_idle [OF new(1) idle]) auto
  then show "stack_ok (SipTxn_SipDelete p (snd (snd (InvokeFsm CbkTxnTimeout ev p (PvFsm d) s1))))"
    by (intro stack_ok_bracket [OF _ _ assms(1)]) (simp_all add: handler_ok_def new stack_ok_slack [OF assms(1)])
  show "stack_ok (SipTxn_SipDelete p s1)"
    by (intro stack_ok_bracket [OF _ _ assms(1)]) (simp_all add: new stack_ok_slack [OF assms(1)])
qed

lemma HandleClientTxnSend_ok:
  assumes "stack_ok s" and "ty \<in> {INV_CLI_TXN, NON_INV_CLI_TXN}" and "m_pszMethod key \<noteq> ACK_METHOD"
    and "\<not> HasRule RULE_COMPARE_RSEQ key" and "FindTransaction key (s_pool s) = None"
    and "fd_pTranspParam d \<noteq> None"
  shows "stack_ok (snd (snd (HandleClientTxnSend ty key d s)))"
proof -
  obtain p s1 where n: "SipTxn_new ty key (fd_pSipMsgIn d) (fd_timer_context d) s = (p, s1)" by fastforce
  have ty: "ty \<noteq> INVALID_TXN" using assms(2) by auto
  note new = new_txn_ok [OF assms(1) n ty assms(3-5) _ assms(6)]
  show ?thesis using new n by (simp add: HandleClientTxnSend_def Let_def case_prod_unfold)
qed

text \<open>An event of a pooled transaction, between taking and giving back a reference.\<close>

lemma pooled_event_ok:
  assumes "stack_ok s" and "in_pool s p" and "ev \<le> 5"
    and "good {} s1" and "slack s1 = slack (SipTxn_Increment p s)" and "in_pool s1 p"
  shows "stack_ok (SipTxn_SipDelete p (snd (snd (InvokeFsm CbkTxnTimeout ev p (PvFsm d) s1))))"
proof -
  have "handler_ok {} s1 (InvokeFsm CbkTxnTimeout ev p (PvFsm d) s1)"
    by (rule InvokeFsm_message [OF assms(4,6) _ assms(3)]) simp
  then show ?thesis
    by (intro stack_ok_bracket [OF _ _ assms(1)]) (simp_all add: handler_ok_def assms(5))
qed

lemma taken_keeps:
  assumes "stack_ok s"
  shows "good {} (SipTxn_Increment p s)" and "stack_ok (SipTxn_SipDelete p (SipTxn_Increment p s))"
proof -
  show g: "good {} (SipTxn_Increment p s)" by (rule good_Increment [OF stack_okD(1) [OF assms]])
  show "stack_ok (SipTxn_SipDelete p (SipTxn_Increment p s))"
    by (intro stack_ok_bracket [OF g _ assms]) simp
qed

lemma server_events_le:
  "GetInvSerFsmEvt c \<noteq> INV_SER_INVALID_EVT \<Longrightarrow> GetInvSerFsmEvt c \<le> 5"
  "GetNonInvSerFsmEvt c \<le> 5"
  "GetInvCliFsmEvt c \<noteq> INV_CLI_INVALID_EVT \<Longrightarrow> GetInvCliFsmEvt c \<le> 5"
  "GetNonInvCliFsmEvt c \<noteq> NON_INV_CLI_INVALID_EVT \<Longrightarrow> GetNonInvCliFsmEvt c \<le> 5"
  by (auto simp: GetInvSerFsmEvt_def GetNonInvSerFsmEvt_def GetInvCliFsmEvt_def GetNonInvCliFsmEvt_def
      split: if_splits)

lemma good_timer_values [keeps_good]:
  "good X s \<Longrightarrow> good X (upd_txn p (\<lambda>t. t\<lparr>objTxnTimerValues := f t\<rparr>) s)"
  "slack (upd_txn p (\<lambda>t. t\<lparr>objTxnTimerValues := f t\<rparr>) s) = slack s"
  by (auto intro!: good_upd_same slack_upd_same)

lemma in_pool_SetRespCode: "in_pool (SetRespCode c p s) q = in_pool s q" "s_pool (SetRespCode c p s) = s_pool s"
  by (simp_all add: SetRespCode_def)

text \<open>A response to a pooled transaction: its state before the event, and the outcome.\<close>

lemma HandleServerTxnSend_shape:
  assumes "stack_ok s" and "FindTransaction key (s_pool s) = Some (k, p)"
  shows "\<exists>s1 s2 ev. good {} s2 \<and> slack s2 = slack (SipTxn_Increment p s) \<and> in_pool s2 p \<and>
    stack_ok (SipTxn_SipDelete p s1) \<and>
    (ev \<noteq> INV_SER_INVALID_EVT \<and> ev \<noteq> NON_INV_SER_INVALID_EVT \<longrightarrow> ev \<le> 5) \<and>
    HandleServerTxnSend ty key d s =
      (if ev = INV_SER_INVALID_EVT \<or> ev = NON_INV_SER_INVALID_EVT then
         (False, PvFsm d, set_err EMSGERR_INVALIDSTATUSCODE (SipTxn_SipDelete p s1))
       else let (ok, pv, s') = InvokeFsm CbkTxnTimeout ev p (PvFsm d) s2 in (ok, pv, SipTxn_SipDelete p s'))"
proof -
  have in_p: "in_pool s p" by (rule find_in_pool [OF assms])
  let ?s0 = "SipTxn_Increment p s"
  let ?code = "GetStatusCode (fd_pSipMsgIn d)"
  define s1 where "s1 = (if ty = INV_SER_TXN then (SetRespCode ?code p ?s0)\<lparr>s_pool :=
      pool_upd_key p (\<lambda>k. k\<lparr>m_nRespCode := ?code\<rparr>) (s_pool ?s0)\<rparr> else ?s0)"
  define ev where "ev = (if ty = INV_SER_TXN then GetInvSerFsmEvt ?code else GetNonInvSerFsmEvt ?code)"
  have g0: "good {} ?s0" by (rule taken_keeps(1) [OF assms(1)])
  have upd: "good {} ((SetRespCode ?code p ?s0)\<lparr>s_pool := pool_upd_key p (\<lambda>k. k\<lparr>m_nRespCode := ?code\<rparr>) (s_pool ?s0)\<rparr>)"
    "slack ((SetRespCode ?code p ?s0)\<lparr>s_pool := pool_upd_key p (\<lambda>k. k\<lparr>m_nRespCode := ?code\<rparr>) (s_pool ?s0)\<rparr>) = slack ?s0"
    "in_pool ((SetRespCode ?code p ?s0)\<lparr>s_pool := pool_upd_key p (\<lambda>k. k\<lparr>m_nRespCode := ?code\<rparr>) (s_pool ?s0)\<rparr>) p"
    using good_pool_upd_key [OF good_SetRespCode [OF g0, of ?code p], of "\<lambda>k. k\<lparr>m_nRespCode := ?code\<rparr>" p] in_p
    by (simp_all add: slack_fields in_pool_SetRespCode)
  have s1: "good {} s1" "slack s1 = slack ?s0" "in_pool s1 p" using upd g0 in_p by (auto simp: s1_def)
  define s2 where "s2 = (case fd_timer_context d of None \<Rightarrow> s1
      | Some c \<Rightarrow> upd_txn p (\<lambda>t. t\<lparr>objTxnTimerValues :=
          snd (UpdateSipTimers (nTimerOptions c) (pTxnSipTxnTimers c) (objTxnTimerValues t))\<rparr>) s1)"
  have s2: "good {} s2" "slack s2 = slack ?s0" "in_pool s2 p"
    using s1 by (auto simp: s2_def good_timer_values split: option.split)
  have bad: "stack_ok (SipTxn_SipDelete p s1)"
    by (rule stack_ok_bracket [OF s1(1) _ assms(1)]) (simp add: s1(2))
  have ev: "ev \<noteq> INV_SER_INVALID_EVT \<and> ev \<noteq> NON_INV_SER_INVALID_EVT \<Longrightarrow> ev \<le> 5"
    using server_events_le by (auto simp: ev_def)
  have eq: "HandleServerTxnSend ty key d s =
      (if ev = INV_SER_INVALID_EVT \<or> ev = NON_INV_SER_INVALID_EVT then
         (False, PvFsm d, set_err EMSGERR_INVALIDSTATUSCODE (SipTxn_SipDelete p s1))
       else let (ok, pv, s') = InvokeFsm CbkTxnTimeout ev p (PvFsm d) s2 in (ok, pv, SipTxn_SipDelete p s'))"
    unfolding HandleServerTxnSend_def GetTxnObjFromDb_eq Let_def s1_def s2_def ev_def using assms(2) by simp
  from s2 bad ev eq show ?thesis by blast
qed

lemma HandleServerTxnSend_ok:
  assumes "stack_ok s"
  shows "stack_ok (snd (snd (HandleServerTxnSend ty key d s)))"
proof (cases "FindTransaction key (s_pool s)")
  case None
  with assms show ?thesis by (simp add: HandleServerTxnSend_def GetTxnObjFromDb_eq)
next
  case (Some e)
  obtain k p where e: "e = (k, p)" by fastforce
  have in_p: "in_pool s p" by (rule find_in_pool [OF assms Some [unfolded e]])
  from HandleServerTxnSend_shape [OF assms Some [unfolded e], of ty d]
  obtain s1 s2 ev where s2: "good {} s2" "slack s2 = slack (SipTxn_Increment p s)" "in_pool s2 p"
    and bad: "stack_ok (SipTxn_SipDelete p s1)"
    and ev: "ev \<noteq> INV_SER_INVALID_EVT \<and> ev \<noteq> NON_INV_SER_INVALID_EVT \<longrightarrow> ev \<le> 5"
    and eq: "HandleServerTxnSend ty key d s =
      (if ev = INV_SER_INVALID_EVT \<or> ev = NON_INV_SER_INVALID_EVT then
         (False, PvFsm d, set_err EMSGERR_INVALIDSTATUSCODE (SipTxn_SipDelete p s1))
       else let (ok, pv, s') = InvokeFsm CbkTxnTimeout ev p (PvFsm d) s2 in (ok, pv, SipTxn_SipDelete p s'))"
    by blast
  show ?thesis
    unfolding eq using bad ev pooled_event_ok [OF assms in_p _ s2, of ev d] by (simp add: case_prod_unfold Let_def)
qed

lemma HandleClientTxnRecv_ok:
  assumes "stack_ok s"
  shows "stack_ok (snd (snd (HandleClientTxnRecv ty key d s)))"
proof (cases "FindTransaction key (s_pool s)")
  case None
  with assms show ?thesis by (simp add: HandleClientTxnRecv_def GetTxnObjFromDb_eq)
next
  case (Some e)
  obtain k p where e: "e = (k, p)" by fastforce
  have in_p: "in_pool s p" by (rule find_in_pool [OF assms Some [unfolded e]])
  let ?s0 = "SipTxn_Increment p s"
  let ?code = "GetStatusCode (fd_pSipMsgIn d)"
  define ev where "ev = (if ty = INV_CLI_TXN then GetInvCliFsmEvt ?code else GetNonInvCliFsmEvt ?code)"
  have go: "stack_ok (SipTxn_SipDelete p (snd (snd (InvokeFsm CbkTxnTimeout ev p (PvFsm d) ?s0))))" if "ev \<le> 5"
    by (rule pooled_event_ok [OF assms in_p that taken_keeps(1) [OF assms]]) (simp_all add: in_p)
  have ev: "ev \<noteq> INV_CLI_INVALID_EVT \<and> ev \<noteq> NON_INV_CLI_INVALID_EVT \<Longrightarrow> ev \<le> 5"
    using server_events_le by (auto simp: ev_def)
  have eq: "HandleClientTxnRecv ty key d s =
      (if ev = INV_CLI_INVALID_EVT \<or> ev = NON_INV_CLI_INVALID_EVT then
         (False, PvFsm d, set_err EMSGERR_INVALIDSTATUSCODE (SipTxn_SipDelete p ?s0))
       else let (ok, pv, s') = InvokeFsm CbkTxnTimeout ev p (PvFsm d) ?s0 in (ok, pv, SipTxn_SipDelete p s'))"
    using Some e by (simp add: HandleClientTxnRecv_def GetTxnObjFromDb_eq Let_def ev_def)
  show ?thesis
    unfolding eq using taken_keeps(2) [OF assms, of p] go ev by (simp add: case_prod_unfold Let_def)
qed

lemma HandleServerTxnRecv_ok:
  assumes "stack_ok s" and "ty \<in> {INV_SER_TXN, NON_INV_SER_TXN}" and "\<not> HasRule RULE_COMPARE_RSEQ key"
    and "FindTransaction key (s_pool s) = None \<Longrightarrow>
           m_pszMethod key \<noteq> ACK_METHOD \<and> (ty = INV_SER_TXN \<longrightarrow> GetMethodType (fd_pSipMsgIn d) = METHOD_INVITE)"
  shows "stack_ok (snd (snd (snd (HandleServerTxnRecv ty key d s))))"
proof -
  let ?eMethod = "GetMethodType (fd_pSipMsgIn d)"
  define ev where "ev = (if ty = INV_SER_TXN then
      (if ?eMethod = METHOD_INVITE then INV_SER_RECV_INV_REQ_EVT else INV_SER_RECV_ACK_REQ_EVT)
      else NON_INV_SER_RECV_NON_INV_REQ_EVT)"
  show ?thesis
  proof (cases "FindTransaction key (s_pool s)")
    case None
    obtain p s1 where n: "SipTxn_new ty key (fd_pSipMsgIn d) (fd_timer_context d) s = (p, s1)" by fastforce
    have "stack_ok (SipTxn_SipDelete p (snd (snd (InvokeFsm CbkTxnTimeout ev p (PvFsm d) s1))))"
      using assms(2) assms(4) [OF None]
      by (intro new_txn_ok(1) [OF assms(1) n _ _ assms(3) None]) (auto simp: ev_def)
    with None n assms(4) [OF None] show ?thesis
      by (auto simp: HandleServerTxnRecv_def GetTxnObjFromDb_eq Let_def ev_def case_prod_unfold)
  next
    case (Some e)
    obtain k p where e: "e = (k, p)" by fastforce
    have in_p: "in_pool s p" by (rule find_in_pool [OF assms(1) Some [unfolded e]])
    have "stack_ok (SipTxn_SipDelete p (snd (snd (InvokeFsm CbkTxnTimeout ev p (PvFsm d) (SipTxn_Increment p s)))))"
      by (rule pooled_event_ok [OF assms(1) in_p _ taken_keeps(1) [OF assms(1)]]) (simp_all add: in_p ev_def)
    with Some e show ?thesis
      by (simp add: HandleServerTxnRecv_def GetTxnObjFromDb_eq Let_def ev_def case_prod_unfold)
  qed
qed

subsection \<open>The entry points of the handler\<close>

lemma of_msg_type: "m_eMsgType (fst (SipTxnKey_of_msg m e)) = m_eSipMsgType m"
  by (auto simp: SipTxnKey_of_msg_def SipTxnKey_new_def SipTxnKey_fill_tags_def Let_def
      split: option.split list.split)

lemma CheckTxnMandatoryParams_pair:
  "CheckTxnMandatoryParams m = Some x \<Longrightarrow> x = (m_eSipMsgType m, GetMethodType m)"
  by (cases x) (auto dest: CheckTxnMandatoryParams_SomeD(1,2))

lemma ValidateSendTxn_cases:
  assumes "ValidateSendTxn m s = (r, s')"
  shows "\<exists>e. s' = set_err e s"
    and "r = Some (ty, k) \<Longrightarrow> ty = GetTxnType SEND (GetMethodType m) (m_eSipMsgType m) \<and> ty \<noteq> INVALID_TXN \<and>
           k = fst (SipTxnKey_of_msg m (s_err s))"
proof -
  have "s = set_err (s_err s) s" by (cases s) (simp add: set_err_def)
  then have same: "\<exists>e. s = set_err e s" ..
  then show "\<exists>e. s' = set_err e s"
    using assms by (auto simp: ValidateSendTxn_def Let_def split: option.splits prod.splits if_splits)
  show "r = Some (ty, k) \<Longrightarrow> ty = GetTxnType SEND (GetMethodType m) (m_eSipMsgType m) \<and> ty \<noteq> INVALID_TXN \<and>
      k = fst (SipTxnKey_of_msg m (s_err s))"
    using assms by (auto simp: ValidateSendTxn_def Let_def set_err_def split: option.splits prod.splits if_splits
        dest!: CheckTxnMandatoryParams_pair)
qed

lemma GetTxnType_send_client:
  "GetTxnType SEND mt t \<in> {INV_CLI_TXN, NON_INV_CLI_TXN} \<Longrightarrow> t = REQ_TYPE"
  by (auto simp: GetTxnType_def split: if_splits)

lemma GetTxnType_recv_server:
  "GetTxnType RECV mt t \<in> {INV_SER_TXN, NON_INV_SER_TXN} \<Longrightarrow> t = REQ_TYPE"
  by (auto simp: GetTxnType_def split: if_splits)

text \<open>\<open>OnSendTxn\<close> either changes no transaction or answers what a state machine made of the message.\<close>

definition client_pre :: "txn_type \<Rightarrow> SipTxnKey \<Rightarrow> stack \<Rightarrow> bool" where
  "client_pre ty k s \<longleftrightarrow>
     ty \<in> {INV_CLI_TXN, NON_INV_CLI_TXN} \<and> m_pszMethod k \<noteq> ACK_METHOD \<and> \<not> HasRule RULE_COMPARE_RSEQ k \<and>
     FindTransaction k (s_pool s) = None"

definition handled :: "SipTxnKey \<Rightarrow> bool \<times> pv_data \<times> stack \<Rightarrow> bool \<times> SipTxnKey option \<times> SipTxnInfo \<times> stack" where
  "handled k res = (case res of (True, PvFsm d, s) \<Rightarrow> (True, Some k, send_info d, s)
                    | (_, _, s) \<Rightarrow> (False, None, SipTxnInfo_new, s))"

lemma OnSendTxn_shape:
  assumes "d = SipTxnFsmData_new m (Some tp) ud"
  shows "(\<exists>e b k. OnSendTxn m tp ud s = (b, k, SipTxnInfo_new, set_err e s)) \<or>
    (\<exists>e ty k. client_pre ty k (set_err e s) \<and>
       OnSendTxn m tp ud s = handled k (HandleClientTxnSend ty k d (set_err e s))) \<or>
    (\<exists>e ty k. OnSendTxn m tp ud s = handled k (HandleServerTxnSend ty k d (set_err e s)))"
    (is "?A \<or> ?B \<or> ?C")
proof -
  obtain r s1 where v: "ValidateSendTxn m s = (r, s1)" by fastforce
  obtain e where s1: "s1 = set_err e s" using ValidateSendTxn_cases(1) [OF v] by blast
  show ?thesis
  proof (cases r)
    case None
    with v s1 show ?thesis by (simp add: OnSendTxn_def) blast
  next
    case (Some x)
    obtain ty k0 where x: "x = (ty, k0)" by fastforce
    have ty: "ty = GetTxnType SEND (GetMethodType m) (m_eSipMsgType m)" "ty \<noteq> INVALID_TXN"
      and k0: "k0 = fst (SipTxnKey_of_msg m (s_err s))"
      using ValidateSendTxn_cases(2) [OF v Some [unfolded x]] by auto
    let ?k = "k0\<lparr>key_eTxnType := ty\<rparr>" and ?d = d
    let ?f = "FindTransaction ?k (s_pool s)"
    define res where "res = (case ty of
        INV_CLI_TXN \<Rightarrow> HandleClientTxnSend ty ?k ?d s1
      | NON_INV_CLI_TXN \<Rightarrow> HandleClientTxnSend ty ?k ?d s1
      | INV_SER_TXN \<Rightarrow> HandleServerTxnSend ty ?k ?d s1
      | NON_INV_SER_TXN \<Rightarrow> HandleServerTxnSend ty ?k ?d s1
      | INVALID_TXN \<Rightarrow> (False, PvFsm ?d, set_err 4 s1))"
    have mty: "m_eMsgType ?k = m_eSipMsgType m" by (simp add: k0 of_msg_type)
    have rule: "\<not> HasRule RULE_COMPARE_RSEQ ?k" using of_msg_rules [of m "s_err s"] by (simp add: k0 HasRule_def)
    have pool1: "s_pool s1 = s_pool s" by (simp add: s1 set_err_def)
    have none: "?f = None" if "\<not> (?f \<noteq> None \<and> m_eMsgType ?k = REQ_TYPE)" "m_eSipMsgType m = REQ_TYPE"
      using that mty by (cases ?f) simp_all
    have eq: "OnSendTxn m tp ud s =
       (if ?f \<noteq> None \<and> m_eMsgType ?k = REQ_TYPE then
          (False, None, SipTxnInfo_new, set_err ETXN_ALREADYTRANSACTIONINPROCESSERROR s1)
        else if ?f = None \<and> m_eMsgType ?k = RESP_TYPE then
          (if GetMethodType m = METHOD_INVITE \<and> SIP_SUCCESSFUL_RESP (GetStatusCode m)
           then (True, Some ?k, SipTxnInfo_new, s1) else (False, None, SipTxnInfo_new, s1))
        else if ?f = None \<and> m_eMsgType ?k = REQ_TYPE \<and> GetMethodType m = METHOD_ACK then
          (True, Some ?k, SipTxnInfo_new, s1)
        else handled ?k res)"
      unfolding OnSendTxn_def GetTxnObjFromDb_eq Let_def res_def handled_def assms
      using v Some x pool1 by simp
    show ?thesis
    proof (cases "(?f \<noteq> None \<and> m_eMsgType ?k = REQ_TYPE) \<or> (?f = None \<and> m_eMsgType ?k = RESP_TYPE) \<or>
        (?f = None \<and> m_eMsgType ?k = REQ_TYPE \<and> GetMethodType m = METHOD_ACK)")
      case True
      have errs: "set_err e' s1 = set_err e' s" for e' by (simp add: s1 set_err_def)
      have "\<exists>e b k. OnSendTxn m tp ud s = (b, k, SipTxnInfo_new, set_err e s)"
        unfolding eq errs using True s1 by (auto split: if_splits)
      then show ?thesis ..
    next
      case False
      then have h: "OnSendTxn m tp ud s = handled ?k res" unfolding eq by auto
      show ?thesis
      proof (cases "ty \<in> {INV_CLI_TXN, NON_INV_CLI_TXN}")
        case True
        then have req: "m_eSipMsgType m = REQ_TYPE"
          using GetTxnType_send_client [of "GetMethodType m" "m_eSipMsgType m"] ty(1) by simp
        have f: "?f = None" using False none req by blast
        then have "GetMethodType m \<noteq> METHOD_ACK" using False mty req by simp
        then have "m_pszMethod ?k \<noteq> ACK_METHOD" using of_msg_ACK [OF req] k0 by auto
        then have "client_pre ty ?k (set_err e s)" using True rule f by (simp add: client_pre_def set_err_def)
        moreover have "res = HandleClientTxnSend ty ?k d (set_err e s)" using True s1 by (auto simp: res_def)
        ultimately show ?thesis using h by blast
      next
        case False
        then have "res = HandleServerTxnSend ty ?k d (set_err e s)"
          using ty(2) s1 by (cases ty) (simp_all add: res_def)
        then show ?thesis using h by blast
      qed
    qed
  qed
qed

lemma handled_state: "snd (snd (snd (handled k res))) = snd (snd res)"
  by (auto simp: handled_def split: prod.split bool.split pv_data.split)

lemma OnSendTxn_ok:
  assumes "stack_ok s"
  shows "stack_ok (snd (snd (snd (OnSendTxn m tp ud s))))"
proof -
  let ?d = "SipTxnFsmData_new m (Some tp) ud"
  have ok: "stack_ok (set_err e s)" for e using assms by simp
  have client: "stack_ok (snd (snd (HandleClientTxnSend ty k ?d (set_err e s))))" if "client_pre ty k (set_err e s)" for e ty k
    using that ok by (intro HandleClientTxnSend_ok) (simp_all add: client_pre_def SipTxnFsmData_new_def)
  from OnSendTxn_shape [OF refl, of m tp ud s] ok client HandleServerTxnSend_ok [OF ok]
  show ?thesis by (elim disjE exE conjE) (simp_all add: handled_state)
qed

definition server_pre :: "txn_type \<Rightarrow> SipTxnKey \<Rightarrow> SipMessage \<Rightarrow> stack \<Rightarrow> bool" where
  "server_pre ty k m s \<longleftrightarrow>
     ty \<in> {INV_SER_TXN, NON_INV_SER_TXN} \<and> \<not> HasRule RULE_COMPARE_RSEQ k \<and>
     (FindTransaction k (s_pool s) = None \<longrightarrow>
        m_pszMethod k \<noteq> ACK_METHOD \<and> (ty = INV_SER_TXN \<longrightarrow> GetMethodType m = METHOD_INVITE))"

definition handled_recv ::
    "txn_type \<Rightarrow> bool \<times> pv_data \<times> SipTxnKey \<times> stack \<Rightarrow> bool \<times> SipTxnKey \<times> SipTxnInfo \<times> stack" where
  "handled_recv ty res = (case res of (ok, pv, k, s) \<Rightarrow>
      (case (ok, pv) of (True, PvFsm d) \<Rightarrow> (True, k, recv_info ty d, s) | _ \<Rightarrow> (False, k, SipTxnInfo_new, s)))"

text \<open>The key a message is looked up with finds nothing for an ACK that is handed on.\<close>

definition recv_pre :: "SipMessage \<Rightarrow> SipTxnKey \<Rightarrow> stack \<Rightarrow> bool" where
  "recv_pre m k s \<longleftrightarrow> \<not> HasRule RULE_COMPARE_RSEQ k \<and>
     (FindTransaction (k\<lparr>key_eTxnType := GetTxnType RECV (GetMethodType m) (m_eSipMsgType m)\<rparr>) (s_pool s) = None \<longrightarrow>
        m_eSipMsgType m = REQ_TYPE \<longrightarrow> m_pszMethod k \<noteq> ACK_METHOD \<and> GetMethodType m \<noteq> METHOD_ACK)"

lemma OnRecvTxn_shape:
  assumes "recv_pre m k s" and "d = SipTxnFsmData_new m None ud"
  shows "OnRecvTxn m k ud s = (False, k, SipTxnInfo_new, s) \<or>
    (\<exists>ty k2. OnRecvTxn m k ud s = handled_recv ty
       (let (ok, pv, s) = HandleClientTxnRecv ty k2 d s in (ok, pv, k2, s))) \<or>
    (\<exists>ty k2. server_pre ty k2 m s \<and> OnRecvTxn m k ud s = handled_recv ty (HandleServerTxnRecv ty k2 d s))"
proof (cases "ValidateRecvTxn m")
  case None
  then show ?thesis by (simp add: OnRecvTxn_def)
next
  case (Some ty)
  then have ty: "ty = GetTxnType RECV (GetMethodType m) (m_eSipMsgType m)" "ty \<noteq> INVALID_TXN"
    by (auto simp: ValidateRecvTxn_def Let_def split: option.splits prod.splits if_splits
        dest!: CheckTxnMandatoryParams_pair)
  let ?k = "k\<lparr>key_eTxnType := ty\<rparr>"
  have known: "(if ty = INV_CLI_TXN \<or> ty = NON_INV_CLI_TXN then a
      else if ty = INV_SER_TXN \<or> ty = NON_INV_SER_TXN then b else c) =
    (if ty = INV_CLI_TXN \<or> ty = NON_INV_CLI_TXN then a else b)"
    for a b c :: "bool \<times> pv_data \<times> SipTxnKey \<times> stack"
    using ty(2) by (cases ty) auto
  have eq: "OnRecvTxn m k ud s = handled_recv ty
     (if ty = INV_CLI_TXN \<or> ty = NON_INV_CLI_TXN then
        (let (ok, pv, s) = HandleClientTxnRecv ty ?k d s in (ok, pv, ?k, s))
      else HandleServerTxnRecv ty ?k d s)"
    unfolding OnRecvTxn_def Let_def handled_recv_def assms(2) using Some by (simp add: known)
  show ?thesis
  proof (cases "ty = INV_CLI_TXN \<or> ty = NON_INV_CLI_TXN")
    case True
    then show ?thesis unfolding eq by auto
  next
    case False
    then have ser: "ty \<in> {INV_SER_TXN, NON_INV_SER_TXN}" using ty(2) by (cases ty) auto
    then have req: "m_eSipMsgType m = REQ_TYPE"
      using GetTxnType_recv_server [of "GetMethodType m" "m_eSipMsgType m"] ty(1) by simp
    have "ty = INV_SER_TXN \<Longrightarrow> GetMethodType m \<in> {METHOD_INVITE, METHOD_ACK}"
      using ty(1) req by (auto simp: GetTxnType_def split: if_splits)
    then have "server_pre ty ?k m s"
      using ser assms(1) req by (auto simp: server_pre_def recv_pre_def ty(1) HasRule_def)
    with False show ?thesis unfolding eq by auto
  qed
qed

lemma handled_recv_state: "snd (snd (snd (handled_recv ty res))) = snd (snd (snd res))"
  by (auto simp: handled_recv_def split: prod.split bool.split pv_data.split)

lemma OnRecvTxn_ok:
  assumes "stack_ok s" and "recv_pre m k s"
  shows "stack_ok (snd (snd (snd (OnRecvTxn m k ud s))))"
proof -
  let ?d = "SipTxnFsmData_new m None ud"
  have server: "stack_ok (snd (snd (snd (HandleServerTxnRecv ty k2 ?d s))))" if "server_pre ty k2 m s" for ty k2
    using that assms(1) by (intro HandleServerTxnRecv_ok) (auto simp: server_pre_def SipTxnFsmData_new_def)
  from OnRecvTxn_shape [OF assms(2) refl, of ud] assms(1) server HandleClientTxnRecv_ok [OF assms(1)]
  show ?thesis by (elim disjE exE conjE) (simp_all add: handled_recv_state case_prod_unfold Let_def)
qed

lemma OnRecvTranspError_ok:
  assumes "stack_ok s"
  shows "stack_ok (snd (OnRecvTranspError e k s))"
proof (cases k)
  case None
  with assms show ?thesis by (simp add: OnRecvTranspError_def)
next
  case (Some g)
  show ?thesis
  proof (cases "FindTransaction g (s_pool s)")
    case None
    with Some assms show ?thesis by (simp add: OnRecvTranspError_def GetTxnObjFromDb_eq)
  next
    case f: (Some x)
    obtain k' p where x: "x = (k', p)" by fastforce
    have in_p: "in_pool s p" by (rule find_in_pool [OF assms f [unfolded x]])
    let ?ty = "m_eTxnType (txn s p)"
    let ?r = "InvokeFsm CbkTxnTimeout (error_event ?ty) p (PvError e) s"
    have ty: "?ty \<noteq> INVALID_TXN" by (rule txn_timeout.in_pool_txn(2) [OF stack_okD(1) [OF assms] in_p])
    have "handler_ok {} s ?r" by (rule InvokeFsm_error [OF stack_okD(1) [OF assms] in_p]) simp
    then have r: "stack_ok (snd (snd ?r))" using assms by (simp add: handler_ok_def stack_ok_def)
    have "OnRecvTranspError e k s =
        (if \<not> fst ?r then (False, snd (snd ?r))
         else if IsTxnTerminated (txn (snd (snd ?r)) p) then (True, snd (DeleteTxn k (snd (snd ?r))))
         else (True, snd (snd ?r)))"
      using Some f x ty
      by (cases ?ty) (simp_all add: OnRecvTranspError_def GetTxnObjFromDb_eq error_event_def case_prod_unfold Let_def)
    then show ?thesis using r DeleteTxn_ok [OF r] by simp
  qed
qed

lemma OnSendTranspError_ok: "stack_ok s \<Longrightarrow> stack_ok (snd (OnSendTranspError k s))"
  by (auto simp: OnSendTranspError_def TerminateTxn_ok split: option.split)

end
