(* ===== verification/Manager_Invariant.thy ===== *)
theory Manager_Invariant
  imports Handler_Invariant
begin

text \<open>
  The stack manager keeps the invariant. Beside it, the user data that \<open>SipTxnInfo\<close> points
  to must outlive the handler: \<open>alive\<close> says that it does whenever a transaction was created
  or terminated, which is when the manager writes through that pointer.
\<close>

definition alive :: "stack \<Rightarrow> ptr \<Rightarrow> bool" where
  "alive s p \<longleftrightarrow> in_pool s p \<and> m_pUserData (txn s p) \<noteq> None"

text \<open>The user data a handler hands out after it created or terminated a transaction.\<close>

definition out_ok :: "ptr \<Rightarrow> bool \<times> pv_data \<times> stack \<Rightarrow> bool" where
  "out_ok p r \<longleftrightarrow>
     (case r of
        (True, PvFsm d, s) \<Rightarrow>
          fd_bTxnTerminated d \<or> fd_bTxnCreated d \<longrightarrow>
          (\<forall>q. fd_pOutUserData d = Some q \<longrightarrow> q = p \<and> alive s p)
      | _ \<Rightarrow> True)"

lemma out_ok_simps [simp]:
  "out_ok p (False, pv, s)" "out_ok p (b, PvTimeout td, s)" "out_ok p (b, PvError e, s)"
  "out_ok p (True, PvFsm d, s) \<longleftrightarrow> (fd_bTxnTerminated d \<or> fd_bTxnCreated d \<longrightarrow>
     (\<forall>q. fd_pOutUserData d = Some q \<longrightarrow> q = p \<and> alive s p))"
  by (auto simp: out_ok_def split: bool.splits pv_data.splits)

lemma out_ok_keeps: "\<not> fd_bTxnTerminated d \<Longrightarrow> \<not> fd_bTxnCreated d \<Longrightarrow> out_ok p (b, PvFsm d, s)"
  by (cases b) simp_all

lemma GetUserData_Some: "GetUserData p s = Some q \<longleftrightarrow> q = p \<and> m_pUserData (txn s p) \<noteq> None"
  by (auto simp: GetUserData_def)

subsection \<open>Operations that leave the pool and the user data alone\<close>

lemma alive_SetTxnState [simp]: "alive (SetTxnState st p s) q = alive s q"
  by (simp add: alive_def SetTxnState_def)

lemma in_pool_StopTxnTimer [simp]: "in_pool (snd (StopTxnTimer p s)) q = in_pool s q"
  by (auto simp: StopTxnTimer_def StopTimerEx_def split: option.split)

lemma in_pool_CreateAckRequest [simp]: "in_pool (snd (CreateAckRequest m ud s)) q = in_pool s q"
  by (auto simp: CreateAckRequest_def split: option.split)

lemma in_pool_begin_response [simp]: "in_pool (InvSerFsm_begin_response p s) q = in_pool s q"
  by (simp add: InvSerFsm_begin_response_def InitRetransmissionInfo_def)

lemma StartTxnTimer_fail: "StartTxnTimer cbk p ty d s = (False, s') \<Longrightarrow> s' = s"
  by (auto simp: StartTxnTimer_def StartTimer_def Let_def split: option.splits if_splits)

subsection \<open>Handlers of pooled transactions\<close>

lemmas split_out = case_prod_unfold Let_def GetUserData_Some alive_def

lemma InvCli_out:
  assumes "in_pool s p" and "\<not> fd_bTxnTerminated d" and "\<not> fd_bTxnCreated d"
  shows "out_ok p (InvCliFsm_CallingStRecv2xxRespEvt cbk p (PvFsm d) s)"
    and "out_ok p (InvCliFsm_ProceedingStRecv2xxRespEvt cbk p (PvFsm d) s)"
    and "out_ok p (InvCliFsm_CallingStRecv1xxRespEvt cbk p (PvFsm d) s)"
    and "out_ok p (InvCliFsm_ProceedingStRecv1xxRespEvt cbk p (PvFsm d) s)"
    and "out_ok p (InvCliFsm_CompletedStRecv1xxRespEvt cbk p (PvFsm d) s)"
    and "out_ok p (InvCliFsm_CompletedStRecv3xx6xxRespEvt cbk p (PvFsm d) s)"
    and "out_ok p (InvCliFsm_CallingStTimerA_B_TimeoutEvt cbk p (PvFsm d) s)"
    and "out_ok p (InvCliFsm_CompletedStTimerD_TimeoutEvt cbk p (PvFsm d) s)"
    and "out_ok p (InvCliFsm_NullFxn cbk p (PvFsm d) s)"
  unfolding InvCliFsm_CallingStRecv2xxRespEvt_def InvCliFsm_ProceedingStRecv2xxRespEvt_def
    InvCliFsm_CallingStRecv1xxRespEvt_def InvCliFsm_ProceedingStRecv1xxRespEvt_def
    InvCliFsm_CompletedStRecv1xxRespEvt_def InvCliFsm_CompletedStRecv3xx6xxRespEvt_def
    InvCliFsm_CallingStTimerA_B_TimeoutEvt_def InvCliFsm_CompletedStTimerD_TimeoutEvt_def InvCliFsm_NullFxn_def
  using assms by (auto simp: split_out SetTxnState_def split: option.split bool.split)

lemma HandleFailureResp_terminated:
  assumes "fst (sipInvCli_HandleFailureResp cbk p d s) = Some (INV_CLI_TERMINATED_ST, d')"
  shows "in_pool (snd (sipInvCli_HandleFailureResp cbk p d s)) q = in_pool s q"
  using assms unfolding sipInvCli_HandleFailureResp_def
  by (auto simp: case_prod_unfold Let_def split: option.splits bool.splits if_splits)

lemma HandleFailureResp_data:
  assumes "fst (sipInvCli_HandleFailureResp cbk p d s) = Some (st, d')"
  shows "fd_bTxnTerminated d' = fd_bTxnTerminated d" and "fd_bTxnCreated d' = fd_bTxnCreated d"
  using assms unfolding sipInvCli_HandleFailureResp_def
  by (auto simp: case_prod_unfold Let_def split: option.splits bool.splits if_splits)

lemma RecvFailure_out:
  assumes "in_pool s p" and "\<not> fd_bTxnTerminated d" and "\<not> fd_bTxnCreated d"
  shows "out_ok p (InvCliFsm_RecvFailure cbk p (PvFsm d) s)"
proof (cases "fst (sipInvCli_HandleFailureResp cbk p d s)")
  case None
  then show ?thesis by (simp add: InvCliFsm_RecvFailure_def case_prod_unfold)
next
  case (Some x)
  obtain st d' where x: "x = (st, d')" by fastforce
  note dat = HandleFailureResp_data [OF Some [unfolded x]]
  show ?thesis
    using Some x assms dat HandleFailureResp_terminated [of cbk p d s d' p]
    by (auto simp: InvCliFsm_RecvFailure_def split_out SetTxnState_def)
qed

lemma InvCli_failures_out:
  assumes "in_pool s p" and "\<not> fd_bTxnTerminated d" and "\<not> fd_bTxnCreated d"
  shows "out_ok p (InvCliFsm_CallingStRecv3xx6xxRespEvt cbk p (PvFsm d) s)"
    and "out_ok p (InvCliFsm_ProceedingStRecv3xx6xxRespEvt cbk p (PvFsm d) s)"
  unfolding InvCliFsm_CallingStRecv3xx6xxRespEvt_def InvCliFsm_ProceedingStRecv3xx6xxRespEvt_def
  by (rule RecvFailure_out; simp add: assms)+

lemma InvSer_out:
  assumes "in_pool s p" and "\<not> fd_bTxnTerminated d" and "\<not> fd_bTxnCreated d"
  shows "out_ok p (InvSerFsm_ProceedingStRecvInvReqEvt cbk p (PvFsm d) s)"
    and "out_ok p (InvSerFsm_ProceedingStTranspErrorEvt cbk p (PvFsm d) s)"
    and "out_ok p (InvSerFsm_CompletedStRecvInvReqEvt cbk p (PvFsm d) s)"
    and "out_ok p (InvSerFsm_CompletedStTranspErrorEvt cbk p (PvFsm d) s)"
    and "out_ok p (InvSerFsm_ConfirmedStRecvAckReqEvt cbk p (PvFsm d) s)"
    and "out_ok p (InvSerFsm_NullFxn cbk p (PvFsm d) s)"
    and "out_ok p (InvSerFsm_ProceedingStSendNon100ProvRespEvt cbk p (PvFsm d) s)"
    and "out_ok p (InvSerFsm_ProceedingStSend3xx6xxFailureRespEvt cbk p (PvFsm d) s)"
    and "out_ok p (InvSerFsm_CompletedStRecvAckReqEvt cbk p (PvFsm d) s)"
  unfolding InvSerFsm_ProceedingStRecvInvReqEvt_def InvSerFsm_ProceedingStTranspErrorEvt_def
    InvSerFsm_CompletedStRecvInvReqEvt_def InvSerFsm_CompletedStTranspErrorEvt_def
    InvSerFsm_ConfirmedStRecvAckReqEvt_def InvSerFsm_NullFxn_def
    InvSerFsm_ProceedingStSendNon100ProvRespEvt_def InvSerFsm_ProceedingStSend3xx6xxFailureRespEvt_def
    InvSerFsm_CompletedStRecvAckReqEvt_def
  using assms by (auto simp: split_out SetTxnState_def split: option.split bool.split)

lemma InvSer_2xx_out:
  assumes "in_pool s p" and "\<not> fd_bTxnTerminated d" and "\<not> fd_bTxnCreated d"
  shows "out_ok p (InvSerFsm_ProceedingStSend2xxSuccessRespEvt cbk p (PvFsm d) s)"
proof -
  obtain b s1 where st: "StartTxnTimer cbk p TIMER_H (timer_value TIMER_H (InvSerFsm_begin_response p s) p)
      (InvSerFsm_begin_response p s) = (b, s1)" by fastforce
  have "\<not> b \<Longrightarrow> s1 = InvSerFsm_begin_response p s" using StartTxnTimer_fail st by simp
  with st assms show ?thesis
    by (cases b) (auto simp: InvSerFsm_ProceedingStSend2xxSuccessRespEvt_def Let_def GetUserData_Some alive_def
        SetTxnState_def)
qed

lemma NonInvCli_RecvFinal_out:
  assumes "in_pool s p" and "\<not> fd_bTxnTerminated d" and "\<not> fd_bTxnCreated d"
  shows "out_ok p (NonInvCliFsm_RecvFinal cbk p (PvFsm d) s)"
  unfolding NonInvCliFsm_RecvFinal_def NonInvCli_Recv2xx6xxResp_def
  using assms by (auto simp: split_out SetTxnState_def split: option.split bool.split)

lemma NonInvCli_out:
  assumes "in_pool s p" and "\<not> fd_bTxnTerminated d" and "\<not> fd_bTxnCreated d"
  shows "out_ok p (NonInvCliFsm_TryingStRecv1xxRespEvt cbk p (PvFsm d) s)"
    and "out_ok p (NonInvCliFsm_TryingStRecv2xx6xxRespEvt cbk p (PvFsm d) s)"
    and "out_ok p (NonInvCliFsm_TryingStTranspErrorEvt cbk p (PvFsm d) s)"
    and "out_ok p (NonInvCliFsm_ProceedingStRecv1xxRespEvt cbk p (PvFsm d) s)"
    and "out_ok p (NonInvCliFsm_ProceedingStRecv2xx6xxRespEvt cbk p (PvFsm d) s)"
    and "out_ok p (NonInvCliFsm_ProceedingStTranspErrorEvt cbk p (PvFsm d) s)"
    and "out_ok p (NonInvCliFsm_CompletedStTimer_K_TimeoutEvt cbk p (PvFsm d) s)"
    and "out_ok p (NonInvCliFsm_CompletedStRecv1xxRespEvt cbk p (PvFsm d) s)"
    and "out_ok p (NonInvCliFsm_CompletedStRecv2xx6xxRespEvt cbk p (PvFsm d) s)"
    and "out_ok p (NonInvCliFsm_CompletedStTranspErrorEvt cbk p (PvFsm d) s)"
    and "out_ok p (NonInvCliFsm_NullFxn cbk p (PvFsm d) s)"
    and "out_ok p (NonInvClient_TimeoutHandling cbk p (PvFsm d) s)"
  using assms NonInvCli_RecvFinal_out [OF assms]
  unfolding NonInvCliFsm_TryingStRecv1xxRespEvt_def NonInvCliFsm_TryingStRecv2xx6xxRespEvt_def
    NonInvCliFsm_TryingStTranspErrorEvt_def NonInvCliFsm_ProceedingStRecv1xxRespEvt_def
    NonInvCliFsm_ProceedingStRecv2xx6xxRespEvt_def NonInvCliFsm_ProceedingStTranspErrorEvt_def
    NonInvCliFsm_CompletedStTimer_K_TimeoutEvt_def NonInvCliFsm_CompletedStRecv1xxRespEvt_def
    NonInvCliFsm_CompletedStRecv2xx6xxRespEvt_def NonInvCliFsm_CompletedStTranspErrorEvt_def
    NonInvCliFsm_NullFxn_def NonInvClient_TimeoutHandling_def
  by (auto simp: split_out SetTxnState_def split: bool.split)

lemma NonInvSer_out:
  assumes "in_pool s p" and "\<not> fd_bTxnTerminated d" and "\<not> fd_bTxnCreated d"
  shows "out_ok p (NonInvSerFsm_TryingStRecvNonInvReqEvt cbk p (PvFsm d) s)"
    and "out_ok p (NonInvSerFsm_TryingStSend1xxRespEvt cbk p (PvFsm d) s)"
    and "out_ok p (NonInvSerFsm_TryingStSend2xx6xxRespEvt cbk p (PvFsm d) s)"
    and "out_ok p (NonInvSerFsm_TryingStTranspErrorEvt cbk p (PvFsm d) s)"
    and "out_ok p (NonInvSerFsm_ProceedingStRecvNonInvReqEvt cbk p (PvFsm d) s)"
    and "out_ok p (NonInvSerFsm_ProceedingStSend1xxRespEvt cbk p (PvFsm d) s)"
    and "out_ok p (NonInvSerFsm_ProceedingStSend2xx6xxRespEvt cbk p (PvFsm d) s)"
    and "out_ok p (NonInvSerFsm_ProceedingStTranspErrorEvt cbk p (PvFsm d) s)"
    and "out_ok p (NonInvSerFsm_CompletedStRecvNonInvReqEvt cbk p (PvFsm d) s)"
    and "out_ok p (NonInvSerFsm_CompletedStTranspErrorEvt cbk p (PvFsm d) s)"
    and "out_ok p (NonInvSerFsm_CompletedStTimer_J_TimeoutEvt cbk p (PvFsm d) s)"
    and "out_ok p (NonInvSerFsm_NullFxn cbk p (PvFsm d) s)"
  unfolding NonInvSerFsm_TryingStRecvNonInvReqEvt_def NonInvSerFsm_TryingStSend1xxRespEvt_def
    NonInvSerFsm_TryingStSend2xx6xxRespEvt_def NonInvSerFsm_TryingStTranspErrorEvt_def
    NonInvSerFsm_ProceedingStRecvNonInvReqEvt_def NonInvSerFsm_ProceedingStSend1xxRespEvt_def
    NonInvSerFsm_ProceedingStSend2xx6xxRespEvt_def NonInvSerFsm_ProceedingStTranspErrorEvt_def
    NonInvSerFsm_CompletedStRecvNonInvReqEvt_def NonInvSerFsm_CompletedStTranspErrorEvt_def
    NonInvSerFsm_CompletedStTimer_J_TimeoutEvt_def NonInvSerFsm_NullFxn_def
    NonInvSerFsm_SendFinal_def NonInvSer_Send2xx6xxResp_def
  using assms by (auto simp: split_out SetTxnState_def split: option.split bool.split)

lemma InvokeFsm_message_out:
  assumes "good X s" and "in_pool s p" and "p \<notin> X" and "ev \<le> 5"
    and d: "\<not> fd_bTxnTerminated d" "\<not> fd_bTxnCreated d"
  shows "out_ok p (InvokeFsm cbk ev p (PvFsm d) s)"
proof -
  have st: "m_nTxnState (txn s p) \<in> {1, 2, 3, 4}"
    using good_started [OF assms(1-3)] txn_timeout.in_pool_txn(1) [OF assms(1,2)] by auto
  have ty: "m_eTxnType (txn s p) \<noteq> INVALID_TXN" by (rule txn_timeout.in_pool_txn(2) [OF assms(1,2)])
  have ev: "ev \<in> {0, 1, 2, 3, 4, 5}" using assms(4) by auto
  note out = InvCli_out [OF assms(2) d] InvCli_failures_out [OF assms(2) d] InvSer_out [OF assms(2) d]
    InvSer_2xx_out [OF assms(2) d] NonInvCli_out [OF assms(2) d] NonInvSer_out [OF assms(2) d]
    NonInvCliFsm_TryingStTimer_E_F_TimeoutEvt_def NonInvCliFsm_ProceedingStTimer_E_F_TimeoutEvt_def
  have "out_ok p (InvokeFsm cbk ev p (PvFsm d) s)" if "m_eTxnType (txn s p) = INV_CLI_TXN"
    using st ev that by (auto simp: InvokeFsm_def fsm_table_def table_lookup_def gpfSipInvClientTxnFsm_def out
        simp del: out_ok_simps)
  moreover have "out_ok p (InvokeFsm cbk ev p (PvFsm d) s)" if "m_eTxnType (txn s p) = INV_SER_TXN"
    using st ev that by (auto simp: InvokeFsm_def fsm_table_def table_lookup_def gpfSipInvSerTxnFsm_def out
        simp del: out_ok_simps)
  moreover have "out_ok p (InvokeFsm cbk ev p (PvFsm d) s)" if "m_eTxnType (txn s p) = NON_INV_CLI_TXN"
    using st ev that by (auto simp: InvokeFsm_def fsm_table_def table_lookup_def gpfSipNonInvClientTxnFsm_def out
        simp del: out_ok_simps)
  moreover have "out_ok p (InvokeFsm cbk ev p (PvFsm d) s)" if "m_eTxnType (txn s p) = NON_INV_SER_TXN"
    using st ev that by (auto simp: InvokeFsm_def fsm_table_def table_lookup_def gpfSipNonInvSerTxnFsm_def out
        simp del: out_ok_simps)
  ultimately show ?thesis using ty by (cases "m_eTxnType (txn s p)") auto
qed

subsection \<open>Handlers of idle transactions\<close>

text \<open>
  The callback of a timer of duration 0 runs while the transaction is still idle, in which
  state no timeout event has a handler: it leaves the pool alone.
\<close>

lemma idle_timeout:
  assumes "m_nTxnState (txn s p) = 0" and "timeout_event (m_eTxnType (txn s p)) tt = Some ev"
  shows "fst (InvokeFsm cbk ev p (PvTimeout td) s) = False"
    and "s_pool (snd (snd (InvokeFsm cbk ev p (PvTimeout td) s))) = s_pool s"
  using assms(2,1)
  by (cases rule: timeout_event_cases;
      simp add: InvokeFsm_def fsm_table_def timeout_columns timeout_handlers set_err_def del: One_nat_def)+

lemma CbkTxnTimeout_idle_pool:
  assumes "td_pTxnKey td = Some k" and "FindTransaction k (s_pool s) = Some (k', p)" and "m_nTxnState (txn s p) = 0"
  shows "s_pool (CbkTxnTimeout td i s) = s_pool s"
proof -
  let ?s2 = "SetTimerId None p (SipTxn_Increment p s)"
  have sel: "s_pool ?s2 = s_pool s" "m_nTxnState (txn ?s2 p) = 0" "s_pool (SipTxn_SipDelete p s') = s_pool s'" for s'
    using assms(3) by (simp_all add: SetTimerId_def SipTxn_Increment_def SipTxn_SipDelete_def)
  have nt: "\<not> IsTxnTerminated (txn ?s2 p)" using sel(2) by (simp add: IsTxnTerminated_def split: txn_type.split)
  have fetch: "FetchTransaction (td_pTxnKey td) TXN_OPT_FETCH None s = (True, Some p, s)"
    using assms by (simp add: FetchTransaction_def)
  show ?thesis
  proof (cases "timeout_event (m_eTxnType (txn ?s2 p)) (td_eTimerType td)")
    case None
    with fetch nt sel show ?thesis
      by (simp add: CbkTxnTimeout_unfold [of td i s] CbkTxnTimeout_body_def Let_def SipTxn_Increment_def
          split: option.split)
  next
    case (Some ev)
    have "m_nTxnState (txn (set_err 0 ?s2) p) = 0" "timeout_event (m_eTxnType (txn (set_err 0 ?s2) p)) (td_eTimerType td) = Some ev"
      using sel(2) Some by (simp_all add: set_err_def)
    note idle = idle_timeout [OF this, of CbkTxnTimeout td]
    have "s_pool (set_err e s') = s_pool s'" for e s' by (simp add: set_err_def)
    with fetch nt sel Some idle show ?thesis
      by (simp add: CbkTxnTimeout_unfold [of td i s] CbkTxnTimeout_body_def Let_def case_prod_unfold SipTxn_Increment_def
          split: option.split)
  qed
qed

lemma find_own_key:
  assumes "good X s" and "in_pool s p"
  obtains k k' where "m_pTxnKey (txn s p) = Some k'" "FindTransaction k' (s_pool s) = Some (k, p)" "key_ok k'"
proof -
  obtain k where k: "(k, p) \<in> set (entries s)" using assms(2) by (rule in_poolE)
  then obtain k' where k': "m_pTxnKey (txn s p) = Some k'" "same_id k' k" "key_ok k"
    using good_txn [OF assms(1) k] by (auto simp: txn_ok_def)
  have kk: "key_ok k'" using same_id_key_ok [OF k'(2)] k'(3) by simp
  have "FindTransaction k' (s_pool s) = FindTransaction k (s_pool s)"
    using same_id_CompareKeys [OF same_id_refl k'(2) kk] by (simp add: pool_find_first [OF good_wf [OF assms(1)]])
  then show ?thesis using good_found [OF assms(1) k] k'(1) kk that by simp
qed

lemma StartTxnTimer_idle_pool:
  assumes "good X s" and "in_pool s p" and "m_nTxnState (txn s p) = 0"
  shows "in_pool (snd (StartTxnTimer CbkTxnTimeout p ty d s)) q = in_pool s q"
proof (cases "d > 0")
  case True
  then show ?thesis
    by (auto simp: StartTxnTimer_def StartTimer_def Let_def split: option.split)
next
  case False
  obtain k k' where k: "m_pTxnKey (txn s p) = Some k'" "FindTransaction k' (s_pool s) = Some (k, p)" "key_ok k'"
    by (rule find_own_key [OF assms(1,2)])
  let ?s1 = "upd_txn p (\<lambda>t. t\<lparr>m_eTimerType := ty, m_nCurrentDuration := d, m_pvTimerId := None\<rparr>) s"
  let ?td = "SipTimeoutData_new (txn s p) ty (s_garbage s)"
  have "td_pTxnKey ?td = Some k'"
    using k(1,3) good_garbage [OF assms(1)] by (simp add: SipTimeoutData_new_def copy_complete key_ok_def)
  from CbkTxnTimeout_idle_pool [OF this, of ?s1 k p None] k(2) assms(3)
  have "s_pool (CbkTxnTimeout ?td None ?s1) = s_pool s" by simp
  from in_pool_cong [OF this, of q] False show ?thesis by (simp add: StartTxnTimer_def Let_def)
qed

lemma alive_fsm_set_user_data:
  "in_pool (fsm_set_user_data d p s) q = in_pool s q"
  "in_pool (SetMaxDuration n p s) q = in_pool s q"
  by (auto simp: fsm_set_user_data_def SetUserData_def SetMaxDuration_def split: option.split)

lemma fsm_enter_pool_state:
  assumes "good X s" and "idle_txn s p"
  shows "m_nTxnState (txn (snd (fsm_enter_pool p s)) p) = 0"
  using assms(2)
  by (auto simp: fsm_enter_pool_def idle_txn_def FetchTransaction_def AddTransaction_def SipTxn_Increment_def
      set_err_def Let_def split: prod.split option.split)

lemma alive_fsm_DeleteTxnKey [simp]: "alive (fsm_DeleteTxnKey p s) q = alive s q"
  by (simp add: alive_def fsm_DeleteTxnKey_eq)

lemma client_idle_out:
  assumes "good X s" and "idle_txn s p"
  shows "out_ok p (InvCliFsm_IdleStSendInvReqEvt CbkTxnTimeout p (PvFsm d) s)"
    and "out_ok p (NonInvCliFsm_IdleStSendNonInvReqEvt CbkTxnTimeout p (PvFsm d) s)"
proof -
  have g: "good (insert p X) s" by (rule good_mono [OF assms(1)]) auto
  note enter = fsm_enter_pool_idle [OF g insertI1 assms(2)]
  let ?s1 = "snd (fsm_enter_pool p s)"
  have start: "in_pool (snd (StartTxnTimer CbkTxnTimeout p ty n ?s1)) p" if "in_pool ?s1 p" for ty n
    using StartTxnTimer_idle_pool [OF enter(1) that fsm_enter_pool_state [OF g assms(2)]] that by simp
  have entered: "snd kq = p \<and> in_pool ?s1 p" if "fst (fsm_enter_pool p s) = Some kq" for kq
    using enter(3) [of "fst kq" "snd kq"] that by simp
  show "out_ok p (InvCliFsm_IdleStSendInvReqEvt CbkTxnTimeout p (PvFsm d) s)"
    using entered start unfolding InvCliFsm_IdleStSendInvReqEvt_def
    by (auto simp: case_prod_unfold Let_def GetUserData_Some alive_fsm_set_user_data split: option.split)
      (auto simp: alive_def alive_fsm_set_user_data)
  show "out_ok p (NonInvCliFsm_IdleStSendNonInvReqEvt CbkTxnTimeout p (PvFsm d) s)"
    using entered start unfolding NonInvCliFsm_IdleStSendNonInvReqEvt_def
    by (auto simp: case_prod_unfold Let_def GetUserData_Some alive_fsm_set_user_data split: option.split)
      (auto simp: alive_def alive_fsm_set_user_data)
qed

lemma recv_prack_out:
  assumes "good X s" and "alive s p \<or> m_pUserData (txn s p) = None" and "fd_pOutUserData d = GetUserData p s"
  shows "out_ok p (NonInvSer_recv_prack k e p d s)"
proof -
  define n where "n = GetRSeqNum (fd_pSipMsgIn d) H_RACK"
  define s1 where "s1 = (if e then s\<lparr>s_pool := pool_upd_key p (\<lambda>k. k\<lparr>m_nRSeqNum := n\<rparr>) (s_pool s)\<rparr> else s)"
  have s1: "in_pool s1 q = in_pool s q" "txn s1 = txn s" for q
    using good_pool_upd_key(3) [OF assms(1), of "\<lambda>k. k\<lparr>m_nRSeqNum := n\<rparr>" p q] by (auto simp: s1_def)
  have ud: "m_pUserData (txn (snd (StopTxnTimer q s')) p) = m_pUserData (txn s' p)" for q s'
    by (auto simp: StopTxnTimer_def StopTimerEx_def crash_def split: option.split)
  have ks: "alive (s'\<lparr>s_txnKeyList := l\<rparr>) p = alive s' p" for s' l by (simp add: alive_def)
  have al: "alive s1 p = alive s p" by (simp add: alive_def s1)
  have st: "alive (snd (StopTxnTimer q s')) p = alive s' p" for q s' by (simp add: alive_def ud)
  have get: "GetUserData p s = Some q \<longrightarrow> q = p \<and> alive s p" for q
    using assms(2) by (auto simp: GetUserData_Some)
  show ?thesis
    unfolding NonInvSer_recv_prack_def Let_def n_def [symmetric] s1_def [symmetric]
    using get by (auto simp: FetchTransaction_def case_prod_unfold ks al st assms(3) split: option.split)
qed

lemma server_idle_out:
  assumes "good X s" and "idle_txn s p"
  shows "out_ok p (InvSerFsm_IdleStRecvInvReqEvt cbk p (PvFsm d) s)"
    and "out_ok p (NonInvSerFsm_IdleStRecvNonInvReqEvt cbk p (PvFsm d) s)"
proof -
  have g: "good (insert p X) s" by (rule good_mono [OF assms(1)]) auto
  note enter = fsm_enter_pool_idle [OF g insertI1 assms(2)]
  let ?s1 = "snd (fsm_enter_pool p s)"
  have entered: "snd kq = p \<and> in_pool ?s1 p" if "fst (fsm_enter_pool p s) = Some kq" for kq
    using enter(3) [of "fst kq" "snd kq"] that by simp
  show "out_ok p (InvSerFsm_IdleStRecvInvReqEvt cbk p (PvFsm d) s)"
    using entered unfolding InvSerFsm_IdleStRecvInvReqEvt_def
    by (auto simp: case_prod_unfold Let_def GetUserData_Some alive_fsm_set_user_data alive_def SetTxnState_def
        split: option.split)
  show "out_ok p (NonInvSerFsm_IdleStRecvNonInvReqEvt cbk p (PvFsm d) s)"
  proof (cases "fst (fsm_enter_pool p s)")
    case None
    then show ?thesis by (simp add: NonInvSerFsm_IdleStRecvNonInvReqEvt_def case_prod_unfold)
  next
    case (Some kq)
    with entered have q: "snd kq = p" and in_p: "in_pool ?s1 p" by auto
    let ?s2 = "SetTxnState NON_INV_SER_TRYING_ST p (fsm_set_user_data d p ?s1)"
    let ?d = "d\<lparr>fd_pOutUserData := GetUserData p (fsm_set_user_data d p ?s1), fd_bTxnCreated := True,
                fd_eTxnStatus := STATUS_NEW_REQ_RECVD\<rparr>"
    have g2: "good X ?s2"
      using good_SetTxnState_idle [OF fsm_set_user_data_keeps(1) [OF enter(1)]] by simp
    have al: "alive ?s2 p \<or> m_pUserData (txn ?s2 p) = None"
      using in_p by (auto simp: alive_def SetTxnState_def alive_fsm_set_user_data)
    have out: "fd_pOutUserData ?d = GetUserData p ?s2" by (simp add: GetUserData_def SetTxnState_def)
    have "out_ok p (NonInvSer_recv_prack k e p ?d ?s2)" for k e by (rule recv_prack_out [OF g2 al out])
    moreover have "out_ok p (True, PvFsm ?d, ?s2)"
      using al by (auto simp: GetUserData_Some alive_def SetTxnState_def)
    ultimately show ?thesis using Some q
      by (simp add: NonInvSerFsm_IdleStRecvNonInvReqEvt_def Let_def case_prod_unfold del: out_ok_simps)
  qed
qed

lemma InvokeFsm_idle_out:
  assumes "good X s" and "idle_txn s p" and "ev = 0"
  shows "out_ok p (InvokeFsm CbkTxnTimeout ev p (PvFsm d) s)"
proof -
  have t: "m_eTxnType (txn s p) \<noteq> INVALID_TXN" "m_nTxnState (txn s p) = 0"
    using assms(2) by (simp_all add: idle_txn_def)
  then show ?thesis
    using assms(3) client_idle_out [OF assms(1,2)] server_idle_out [OF assms(1,2)]
    by (cases "m_eTxnType (txn s p)")
      (auto simp: InvokeFsm_def fsm_table_def table_lookup_def gpfSipInvClientTxnFsm_def
        gpfSipInvSerTxnFsm_def gpfSipNonInvClientTxnFsm_def gpfSipNonInvSerTxnFsm_def simp del: out_ok_simps)
qed

subsection \<open>What the handler hands to the manager\<close>

lemma alive_SipDelete:
  assumes "good X s" and "slack s p \<ge> 1" and "alive s q"
  shows "alive (SipTxn_SipDelete p s) q"
proof -
  have "pool_refs s q > 0" using assms(3) by (simp add: alive_def in_pool_refs)
  then have "p = q \<Longrightarrow> m_nRefCount (txn s p) - 1 \<noteq> 0" using assms(2) unfolding slack_def by auto
  with assms(3) show ?thesis
    by (auto simp: alive_def) (auto simp: SipTxn_SipDelete_def Let_def split: if_splits)
qed

lemma out_ok_SipDelete:
  assumes "out_ok p r" and "good X (snd (snd r))" and "slack (snd (snd r)) p \<ge> 1"
  shows "out_ok p (fst r, fst (snd r), SipTxn_SipDelete p (snd (snd r)))"
  using assms alive_SipDelete [OF assms(2,3)]
  by (auto simp: out_ok_def split: prod.splits bool.splits pv_data.splits)

definition info_alive :: "SipTxnInfo \<Rightarrow> stack \<Rightarrow> bool" where
  "info_alive info s \<longleftrightarrow>
     (in_bTxnTerminated info \<or> in_bTxnCreated info \<longrightarrow> (\<forall>p. in_pUserData info = Some p \<longrightarrow> alive s p))"

lemma info_alive_new [simp]: "info_alive SipTxnInfo_new s"
  by (simp add: info_alive_def SipTxnInfo_new_def)

lemma info_alive_out:
  assumes "out_ok p (True, PvFsm d, s)"
  shows "info_alive (send_info d) s" and "info_alive (recv_info ty d) s"
  using assms by (auto simp: info_alive_def send_info_def recv_info_def SipTxnInfo_new_def Let_def)

lemma new_txn_out:
  assumes "stack_ok s" and "SipTxn_new ty key msg tctx s = (p, s1)" and "ty \<noteq> INVALID_TXN"
    and "m_pszMethod key \<noteq> ACK_METHOD" and "\<not> HasRule RULE_COMPARE_RSEQ key"
    and "FindTransaction key (s_pool s) = None" and "ev = 0"
    and "ty \<in> {INV_CLI_TXN, NON_INV_CLI_TXN} \<Longrightarrow> fd_pTranspParam d \<noteq> None"
  defines "r \<equiv> InvokeFsm CbkTxnTimeout ev p (PvFsm d) s1"
  shows "out_ok p (fst r, fst (snd r), SipTxn_SipDelete p (snd (snd r)))"
proof (rule out_ok_SipDelete)
  note new = SipTxn_new_keeps [OF stack_okD(1) [OF assms(1)] assms(2)]
  have idle: "idle_txn s1 p" by (rule SipTxn_new_idle [OF stack_okD(1) [OF assms(1)] assms(2-6)])
  have "m_eTxnType (txn s1 p) = ty"
    using assms(2) by (auto simp: SipTxn_new_def SipTxn_init_def Let_def split: prod.splits option.splits)
  then have "handler_ok {} s1 r" unfolding r_def using assms(7,8) by (intro InvokeFsm_idle [OF new(1) idle]) auto
  then show "good {} (snd (snd r))" "slack (snd (snd r)) p \<ge> 1" by (simp_all add: handler_ok_def new)
  show "out_ok p r" unfolding r_def by (rule InvokeFsm_idle_out [OF new(1) idle assms(7)])
qed

lemma pooled_event_out:
  assumes "stack_ok s" and "in_pool s p" and "ev \<le> 5"
    and "good {} s1" and "slack s1 = slack (SipTxn_Increment p s)" and "in_pool s1 p"
    and "\<not> fd_bTxnTerminated d" and "\<not> fd_bTxnCreated d"
  defines "r \<equiv> InvokeFsm CbkTxnTimeout ev p (PvFsm d) s1"
  shows "out_ok p (fst r, fst (snd r), SipTxn_SipDelete p (snd (snd r)))"
proof (rule out_ok_SipDelete)
  have "handler_ok {} s1 r" unfolding r_def by (rule InvokeFsm_message [OF assms(4,6) _ assms(3)]) simp
  then show "good {} (snd (snd r))" "slack (snd (snd r)) p \<ge> 1"
    using good_slack [OF stack_okD(1) [OF assms(1)], of p] by (simp_all add: handler_ok_def assms(5))
  show "out_ok p r" unfolding r_def by (rule InvokeFsm_message_out [OF assms(4,6) _ assms(3,7,8)]) simp
qed

lemma HandleClientTxnSend_out:
  assumes "stack_ok s" and "ty \<in> {INV_CLI_TXN, NON_INV_CLI_TXN}" and "m_pszMethod key \<noteq> ACK_METHOD"
    and "\<not> HasRule RULE_COMPARE_RSEQ key" and "FindTransaction key (s_pool s) = None"
    and "fd_pTranspParam d \<noteq> None"
  shows "\<exists>p. out_ok p (HandleClientTxnSend ty key d s)"
proof -
  obtain p s1 where n: "SipTxn_new ty key (fd_pSipMsgIn d) (fd_timer_context d) s = (p, s1)" by fastforce
  have ty: "ty \<noteq> INVALID_TXN" using assms(2) by auto
  note new = new_txn_out [OF assms(1) n ty assms(3-5) _ assms(6)]
  from new [of INV_CLI_SEND_INV_REQ_EVT] n have "out_ok p (HandleClientTxnSend ty key d s)"
    by (simp add: HandleClientTxnSend_def Let_def case_prod_unfold)
  then show ?thesis ..
qed

lemma HandleServerTxnSend_out:
  assumes "stack_ok s" and "\<not> fd_bTxnTerminated d" and "\<not> fd_bTxnCreated d"
  shows "\<exists>p. out_ok p (HandleServerTxnSend ty key d s)"
proof (cases "FindTransaction key (s_pool s)")
  case None
  then show ?thesis by (simp add: HandleServerTxnSend_def GetTxnObjFromDb_eq)
next
  case (Some e)
  obtain k p where e: "e = (k, p)" by fastforce
  have in_p: "in_pool s p" by (rule find_in_pool [OF assms(1) Some [unfolded e]])
  from HandleServerTxnSend_shape [OF assms(1) Some [unfolded e], of ty d]
  obtain s1 s2 ev where s2: "good {} s2" "slack s2 = slack (SipTxn_Increment p s)" "in_pool s2 p"
    and ev: "ev \<noteq> INV_SER_INVALID_EVT \<and> ev \<noteq> NON_INV_SER_INVALID_EVT \<longrightarrow> ev \<le> 5"
    and eq: "HandleServerTxnSend ty key d s =
      (if ev = INV_SER_INVALID_EVT \<or> ev = NON_INV_SER_INVALID_EVT then
         (False, PvFsm d, set_err EMSGERR_INVALIDSTATUSCODE (SipTxn_SipDelete p s1))
       else let (ok, pv, s') = InvokeFsm CbkTxnTimeout ev p (PvFsm d) s2 in (ok, pv, SipTxn_SipDelete p s'))"
    by blast
  have "out_ok p (HandleServerTxnSend ty key d s)"
    unfolding eq using ev pooled_event_out [OF assms(1) in_p _ s2 assms(2,3), of ev]
    by (simp add: case_prod_unfold Let_def)
  then show ?thesis ..
qed

lemma HandleClientTxnRecv_out:
  assumes "stack_ok s" and "\<not> fd_bTxnTerminated d" and "\<not> fd_bTxnCreated d"
  shows "\<exists>p. out_ok p (HandleClientTxnRecv ty key d s)"
proof (cases "FindTransaction key (s_pool s)")
  case None
  then show ?thesis by (simp add: HandleClientTxnRecv_def GetTxnObjFromDb_eq)
next
  case (Some e)
  obtain k p where e: "e = (k, p)" by fastforce
  have in_p: "in_pool s p" by (rule find_in_pool [OF assms(1) Some [unfolded e]])
  let ?code = "GetStatusCode (fd_pSipMsgIn d)"
  define ev where "ev = (if ty = INV_CLI_TXN then GetInvCliFsmEvt ?code else GetNonInvCliFsmEvt ?code)"
  have ev: "ev \<noteq> INV_CLI_INVALID_EVT \<and> ev \<noteq> NON_INV_CLI_INVALID_EVT \<Longrightarrow> ev \<le> 5"
    using server_events_le by (auto simp: ev_def)
  have in_p': "in_pool (SipTxn_Increment p s) p" using in_p by simp
  have "out_ok p (HandleClientTxnRecv ty key d s)"
    using Some e ev pooled_event_out [OF assms(1) in_p _ taken_keeps(1) [OF assms(1)] refl in_p' assms(2,3), of ev]
    by (simp add: HandleClientTxnRecv_def GetTxnObjFromDb_eq Let_def ev_def [symmetric] case_prod_unfold)
  then show ?thesis ..
qed

lemma HandleServerTxnRecv_out:
  assumes "stack_ok s" and "server_pre ty key (fd_pSipMsgIn d) s"
    and "\<not> fd_bTxnTerminated d" and "\<not> fd_bTxnCreated d"
  shows "\<exists>p. out_ok p (let (ok, pv, k, s') = HandleServerTxnRecv ty key d s in (ok, pv, s'))"
proof -
  let ?eMethod = "GetMethodType (fd_pSipMsgIn d)"
  define ev where "ev = (if ty = INV_SER_TXN then
      (if ?eMethod = METHOD_INVITE then INV_SER_RECV_INV_REQ_EVT else INV_SER_RECV_ACK_REQ_EVT)
      else NON_INV_SER_RECV_NON_INV_REQ_EVT)"
  show ?thesis
  proof (cases "FindTransaction key (s_pool s)")
    case None
    obtain p s1 where n: "SipTxn_new ty key (fd_pSipMsgIn d) (fd_timer_context d) s = (p, s1)" by fastforce
    let ?r = "InvokeFsm CbkTxnTimeout ev p (PvFsm d) s1"
    have out: "out_ok p (fst ?r, fst (snd ?r), SipTxn_SipDelete p (snd (snd ?r)))"
      using assms(2) None by (intro new_txn_out [OF assms(1) n _ _ _ None]) (auto simp: ev_def server_pre_def)
    have "(let (ok, pv, k, s') = HandleServerTxnRecv ty key d s in (ok, pv, s')) =
        (fst ?r, fst (snd ?r), SipTxn_SipDelete p (snd (snd ?r)))"
      using None n assms(2) by (auto simp: HandleServerTxnRecv_def GetTxnObjFromDb_eq Let_def ev_def
          case_prod_unfold server_pre_def)
    with out show ?thesis by metis
  next
    case (Some e)
    obtain k p where e: "e = (k, p)" by fastforce
    have in_p: "in_pool s p" by (rule find_in_pool [OF assms(1) Some [unfolded e]])
    let ?r = "InvokeFsm CbkTxnTimeout ev p (PvFsm d) (SipTxn_Increment p s)"
    have in_p': "in_pool (SipTxn_Increment p s) p" using in_p by simp
    have "ev \<le> 5" by (simp add: ev_def)
    note out = pooled_event_out [OF assms(1) in_p this taken_keeps(1) [OF assms(1)] refl in_p' assms(3,4)]
    have "(let (ok, pv, k, s') = HandleServerTxnRecv ty key d s in (ok, pv, s')) =
        (fst ?r, fst (snd ?r), SipTxn_SipDelete p (snd (snd ?r)))"
      using Some e by (simp add: HandleServerTxnRecv_def GetTxnObjFromDb_eq Let_def ev_def case_prod_unfold)
    with out show ?thesis by metis
  qed
qed

lemma handled_alive:
  assumes "out_ok p res" and "handled k res = (b, key, info, s')"
  shows "info_alive info s'"
proof (cases "\<exists>d s1. res = (True, PvFsm d, s1)")
  case True
  then obtain d s1 where r: "res = (True, PvFsm d, s1)" by blast
  with assms(2) have "info = send_info d" "s' = s1" by (simp_all add: handled_def)
  with info_alive_out(1) [of p d s1] assms(1) r show ?thesis by (simp del: out_ok_simps)
next
  case False
  with assms(2) have "info = SipTxnInfo_new"
    by (auto simp: handled_def split: prod.splits bool.splits pv_data.splits)
  then show ?thesis by simp
qed

lemma handled_recv_alive:
  assumes "out_ok p (let (ok, pv, k, s') = res in (ok, pv, s'))" and "handled_recv ty res = (b, key, info, s')"
  shows "info_alive info s'"
proof (cases "\<exists>d k s1. res = (True, PvFsm d, k, s1)")
  case True
  then obtain d k s1 where r: "res = (True, PvFsm d, k, s1)" by blast
  with assms(2) have "info = recv_info ty d" "s' = s1" by (simp_all add: handled_recv_def)
  with info_alive_out(2) [of p d s1 ty] assms(1) r show ?thesis by (simp del: out_ok_simps)
next
  case False
  with assms(2) have "info = SipTxnInfo_new"
    by (auto simp: handled_recv_def split: prod.splits bool.splits pv_data.splits)
  then show ?thesis by simp
qed

lemma OnSendTxn_alive:
  assumes "stack_ok s" and "OnSendTxn m tp ud s = (b, key, info, s')"
  shows "info_alive info s'"
proof -
  let ?d = "SipTxnFsmData_new m (Some tp) ud"
  have ok: "stack_ok (set_err e s)" for e using assms(1) by simp
  have d: "\<not> fd_bTxnTerminated ?d" "\<not> fd_bTxnCreated ?d" "fd_pTranspParam ?d \<noteq> None"
    by (simp_all add: SipTxnFsmData_new_def)
  have client: "\<exists>p. out_ok p (HandleClientTxnSend ty k ?d (set_err e s))" if "client_pre ty k (set_err e s)" for e ty k
    using that by (intro HandleClientTxnSend_out [OF ok _ _ _ _ d(3)]) (simp_all add: client_pre_def)
  note server = HandleServerTxnSend_out [OF ok d(1,2)]
  show ?thesis
    using OnSendTxn_shape [OF refl, of m tp ud s]
  proof (elim disjE exE conjE)
    fix e b' k
    assume "OnSendTxn m tp ud s = (b', k, SipTxnInfo_new, set_err e s)"
    with assms(2) show ?thesis by simp
  next
    fix e ty k
    assume "client_pre ty k (set_err e s)" "OnSendTxn m tp ud s = handled k (HandleClientTxnSend ty k ?d (set_err e s))"
    with assms(2) client [of ty k e] show ?thesis using handled_alive by metis
  next
    fix e ty k
    assume "OnSendTxn m tp ud s = handled k (HandleServerTxnSend ty k ?d (set_err e s))"
    with assms(2) server [of ty k e] show ?thesis using handled_alive by metis
  qed
qed

lemma OnRecvTxn_alive:
  assumes "stack_ok s" and "recv_pre m k s" and "OnRecvTxn m k ud s = (b, key, info, s')"
  shows "info_alive info s'"
proof -
  let ?d = "SipTxnFsmData_new m None ud"
  have d: "\<not> fd_bTxnTerminated ?d" "\<not> fd_bTxnCreated ?d" "fd_pSipMsgIn ?d = m"
    by (simp_all add: SipTxnFsmData_new_def)
  have client: "\<exists>p. out_ok p (let (ok, pv, k, s') = (let (ok, pv, s) = HandleClientTxnRecv ty k2 ?d s in (ok, pv, k2, s))
      in (ok, pv, s'))" for ty k2
    using HandleClientTxnRecv_out [OF assms(1) d(1,2), of ty k2] by (simp add: case_prod_unfold Let_def)
  have server: "\<exists>p. out_ok p (let (ok, pv, k, s') = HandleServerTxnRecv ty k2 ?d s in (ok, pv, s'))"
    if "server_pre ty k2 m s" for ty k2
    by (rule HandleServerTxnRecv_out [OF assms(1) _ d(1,2)]) (use that d(3) in simp)
  show ?thesis
    using OnRecvTxn_shape [OF assms(2) refl, of ud]
  proof (elim disjE exE conjE)
    assume "OnRecvTxn m k ud s = (False, k, SipTxnInfo_new, s)"
    with assms(3) show ?thesis by simp
  next
    fix ty k2
    assume "OnRecvTxn m k ud s = handled_recv ty (let (ok, pv, s) = HandleClientTxnRecv ty k2 ?d s in (ok, pv, k2, s))"
    with assms(3) client [of ty k2] show ?thesis using handled_recv_alive by metis
  next
    fix ty k2
    assume "server_pre ty k2 m s" "OnRecvTxn m k ud s = handled_recv ty (HandleServerTxnRecv ty k2 ?d s)"
    with assms(3) server [of ty k2] show ?thesis using handled_recv_alive by metis
  qed
qed

subsection \<open>The transport handler\<close>

lemma recv_key_type_ACK:
  assumes "m_eMsgType k = REQ_TYPE" and "m_pszMethod k = ACK_METHOD"
  shows "recv_key_type k = INV_SER_TXN"
  using assms by (simp add: recv_key_type_def)

lemma CompareKeys_key_type:
  "m_pszMethod g \<noteq> ACK_METHOD \<Longrightarrow>
     CompareKeys k (Some (g\<lparr>key_eTxnType := a\<rparr>)) = CompareKeys k (Some (g\<lparr>key_eTxnType := b\<rparr>))"
  by (simp add: CompareKeys_iff txn_matches_def same_method_def HasRule_def)

text \<open>Both layers look a received request up under the same key type, as far as it matters.\<close>

lemma recv_lookups_agree:
  assumes "stack_ok s" and "m_eSipMsgType m = REQ_TYPE" and "k = fst (SipTxnKey_of_msg m e)"
  shows "FindTransaction (k\<lparr>key_eTxnType := GetTxnType RECV (GetMethodType m) (m_eSipMsgType m)\<rparr>) (s_pool s) =
         FindTransaction (k\<lparr>key_eTxnType := recv_key_type k\<rparr>) (s_pool s)"
proof (cases "m_pszMethod k = ACK_METHOD")
  case True
  have "GetMethodType m = METHOD_ACK" by (rule of_msg_ACK [OF assms(2)]) (use True assms(3) in simp)
  moreover have "m_eMsgType k = REQ_TYPE" by (simp add: assms(3) of_msg_type assms(2))
  ultimately show ?thesis using True assms(2) by (simp add: GetTxnType_def recv_key_type_ACK)
next
  case False
  have wf: "pool_wf (s_pool s)" by (rule good_wf [OF stack_okD(1) [OF assms(1)]])
  have "(\<lambda>x :: _ \<times> ptr. CompareKeys (fst x) (Some (k\<lparr>key_eTxnType := a\<rparr>))) =
      (\<lambda>x. CompareKeys (fst x) (Some (k\<lparr>key_eTxnType := recv_key_type k\<rparr>)))" for a
    by (rule ext) (rule CompareKeys_key_type [OF False])
  from this [of "GetTxnType RECV (GetMethodType m) (m_eSipMsgType m)"] show ?thesis
    by (simp only: pool_find_first [OF wf])
qed

lemma OnRecvTransp_shape:
  assumes "OnRecvTransp m s = (r, s')"
  shows "\<exists>e. s' = set_err e s"
    and "r = Some (st, ex, k) \<Longrightarrow>
      (let k0 = fst (SipTxnKey_of_msg m (s_err s)) in k = k0\<lparr>key_eTxnType := recv_key_type k0\<rparr>) \<and>
      (m_eSipMsgType m = REQ_TYPE \<longrightarrow> FindTransaction k (s_pool s) = None \<longrightarrow> st = STATUS_NEW_REQ_RECVD)"
proof -
  have "s = set_err (s_err s) s" by (cases s) (simp add: set_err_def)
  then have same: "\<exists>e. s = set_err e s" ..
  then have same': "\<exists>e. s = s\<lparr>s_err := e\<rparr>" by (simp add: set_err_def)
  have pool: "s_pool (set_err e s) = s_pool s" for e by (simp add: set_err_def)
  have errs: "set_err e' (set_err e s) = set_err e' s" for e e' by (simp add: set_err_def)
  have taken: "\<exists>e. snd (GetTxnKeyFromSipMsg m s) = set_err e s"
    using same by (auto simp: GetTxnKeyFromSipMsg_def Let_def split: prod.split option.split)
  show "\<exists>e. s' = set_err e s"
  proof -
    have "s' = snd (GetTxnKeyFromSipMsg m s)"
      using assms
      by (auto simp: OnRecvTransp_def GetTxnObjFromDb_eq case_prod_unfold Let_def split: option.splits if_splits)
    with taken show ?thesis by simp
  qed
  show "r = Some (st, ex, k) \<Longrightarrow>
      (let k0 = fst (SipTxnKey_of_msg m (s_err s)) in k = k0\<lparr>key_eTxnType := recv_key_type k0\<rparr>) \<and>
      (m_eSipMsgType m = REQ_TYPE \<longrightarrow> FindTransaction k (s_pool s) = None \<longrightarrow> st = STATUS_NEW_REQ_RECVD)"
    using assms of_msg_type [of m "s_err s"]
    by (auto simp: OnRecvTransp_def GetTxnKeyFromSipMsg_def GetTxnObjFromDb_eq Let_def pool
        split: option.splits prod.splits if_splits)
qed

lemma IsInviteTxnPresentForAckTxn_state: "\<exists>e. snd (IsInviteTxnPresentForAckTxn k s) = set_err e s"
proof -
  have "s\<lparr>s_err := s_err s\<rparr> = s" by (cases s) simp
  then show ?thesis
    by (intro exI [of _ "s_err s"])
      (simp add: IsInviteTxnPresentForAckTxn_def GetTxnObjFromDb_eq Let_def set_err_def split: prod.split)
qed

lemma good_SetSentVia: "good X s \<Longrightarrow> good X (SetSentVia m b p s)" "slack (SetSentVia m b p s) = slack s"
  unfolding SetSentVia_def
  by (auto intro!: good_upd_same slack_upd_same simp: Let_def split: option.split)

lemma OnRecvTanspError_transp_ok:
  assumes "stack_ok s"
  shows "stack_ok (snd (snd (snd (OnRecvTanspError_transp k s))))"
proof (cases "FindTransaction k (s_pool s)")
  case None
  with assms show ?thesis by (simp add: OnRecvTanspError_transp_def GetTxnObjFromDb_eq)
next
  case (Some x)
  obtain k' p where x: "x = (k', p)" by fastforce
  let ?s0 = "SipTxn_Increment p s"
  have g0: "good {} ?s0" by (rule taken_keeps(1) [OF assms])
  have switch: "stack_ok (snd (snd (snd (OnRecvTanspError_switch p ti ?s0))))" for ti
  proof -
    have "stack_ok (SipTxn_SipDelete p (SetSentVia m b p ?s0))"
      "stack_ok (SipTxn_SipDelete p (SetSentProto PROTOCOL_UDP p (SetSentVia m b p ?s0)))" for m b
      by (rule stack_ok_bracket [OF _ _ assms]; simp add: good_SetSentVia good_fields slack_fields g0)+
    moreover have "stack_ok (SipTxn_SipDelete p (crash NullDeref ?s0))"
      by (rule stack_ok_bracket [OF _ _ assms]) (simp_all add: good_crash_safe g0)
    ultimately show ?thesis
      by (auto simp: OnRecvTanspError_switch_def Let_def split: option.split prod.split bool.split)
  qed
  show ?thesis
    using Some x taken_keeps(2) [OF assms, of p] switch
    by (simp add: OnRecvTanspError_transp_def GetTxnObjFromDb_eq Let_def split: option.split)
qed

subsection \<open>The stack manager\<close>

lemma alive_irrelevant [simp]:
  "alive (set_err e s) q = alive s q" "alive (emit x s) q = alive s q" "alive (crash c s) q = alive s q"
  by (simp_all add: alive_def in_pool_def set_err_def emit_def crash_def)

lemma info_alive_irrelevant [simp]:
  "info_alive info (emit x s) = info_alive info s" "info_alive info (crash c s) = info_alive info s"
  by (simp_all add: info_alive_def)

lemma SendToNetwork_mgr_ok:
  "stack_ok s \<Longrightarrow> stack_ok (snd (SendToNetwork_mgr ti ud s))"
  "info_alive info (snd (SendToNetwork_mgr ti ud s)) = info_alive info s"
  by (auto simp: SendToNetwork_mgr_def SendToNetwork_def stack_ok_crash safe_crash_def split: option.split)

lemma with_user_data_ok:
  "stack_ok s \<Longrightarrow> stack_ok (snd (with_user_data ud f s))"
  "info_alive info (snd (with_user_data ud f s)) = info_alive info s"
  by (auto simp: with_user_data_def stack_ok_crash safe_crash_def split: option.split)

lemma MessageSentByStack_ok:
  "stack_ok s \<Longrightarrow> stack_ok (PreProcessMessageSentByStack m ud s)"
  "info_alive info (PreProcessMessageSentByStack m ud s) = info_alive info s"
  "stack_ok s \<Longrightarrow> stack_ok (PostProcessMessageSentByStack m b ud s)"
  "info_alive info (PostProcessMessageSentByStack m b ud s) = info_alive info s"
  by (auto simp: PreProcessMessageSentByStack_def PostProcessMessageSentByStack_def stack_ok_crash
      safe_crash_def split: option.split)

text \<open>Storing the sent message keeps the transaction and its user data alive.\<close>

lemma UpdateTxnDetails_alive:
  assumes "stack_ok s" and "info_alive info s"
  shows "info_alive info (snd (UpdateTxnDetails k ti s))"
proof -
  have "alive (SipTxn_SipDelete p (UpdateTranspInfo ti p (SipTxn_Increment p s))) q"
    if "in_pool s p" "alive s q" for p q
  proof (rule alive_SipDelete)
    show "good {} (UpdateTranspInfo ti p (SipTxn_Increment p s))"
      by (simp add: keeps_good stack_okD [OF assms(1)])
    show "slack (UpdateTranspInfo ti p (SipTxn_Increment p s)) p \<ge> 1"
      by (simp add: slack_fields stack_okD(2) [OF assms(1)])
    show "alive (UpdateTranspInfo ti p (SipTxn_Increment p s)) q"
      using that(2) by (auto simp: alive_def in_pool_def UpdateTranspInfo_def SipTxn_Increment_def upd_txn_def)
  qed
  with assms show ?thesis
    by (auto simp: UpdateTxnDetails_def GetTxnObjFromDb_eq info_alive_def find_in_pool split: option.split)
qed

lemma clear_info_user_data_ok:
  assumes "stack_ok s" and "info_alive info s" and "in_bTxnTerminated info \<or> in_bTxnCreated info"
  shows "stack_ok (clear_info_user_data info s)"
proof (cases "in_pUserData info")
  case None
  with assms(1) show ?thesis by (simp add: clear_info_user_data_def stack_ok_crash safe_crash_def)
next
  case (Some p)
  with assms(2,3) have "m_pUserData (txn s p) \<noteq> None" by (simp add: info_alive_def alive_def)
  then have "clear_info_user_data info s = ud_SetUserData p None s"
    unfolding clear_info_user_data_def Some by auto
  with assms(1) show ?thesis by (simp add: stack_ok_def good_fields slack_fields)
qed

lemma SendMsg_undo_ok:
  "stack_ok s \<Longrightarrow> info_alive info s \<Longrightarrow> stack_ok (SendMsg_undo info s)"
  by (simp add: SendMsg_undo_def clear_info_user_data_ok)

lemma SendMsg_sent_ok:
  assumes "stack_ok s" and "info_alive info s"
  shows "stack_ok (snd (snd (snd (SendMsg_sent m k info ti ud s))))"
proof -
  have "stack_ok (snd (SendMsg_terminated info k ud s))" if "in_bTxnTerminated info"
    using assms that
    by (simp add: SendMsg_terminated_def case_prod_unfold Let_def DeleteTxn_ok clear_info_user_data_ok with_user_data_ok)
  moreover have "stack_ok (snd (UpdateTxnDetails k' ti s))" "info_alive info (snd (UpdateTxnDetails k' ti s))" for k'
    using assms by (simp_all add: UpdateTxnDetails_ok UpdateTxnDetails_alive)
  ultimately show ?thesis
    using assms
    by (auto simp: SendMsg_sent_def case_prod_unfold Let_def with_user_data_ok SendMsg_undo_ok split: option.split)
qed

lemma SendMsg_ok:
  assumes "stack_ok s"
  shows "stack_ok (snd (snd (snd (SendMsg m tp ud buf s))))"
proof (cases "\<exists>m' tp'. m = Some m' \<and> tp = Some tp'")
  case False
  with assms show ?thesis by (auto simp: SendMsg_def split: option.split)
next
  case True
  then obtain m' tp' where m: "m = Some m'" "tp = Some tp'" by blast
  obtain b k info s' where r: "OnSendTxn m' tp' ud s = (b, k, info, s')" by (metis prod_cases4)
  have ok: "stack_ok s'" "info_alive info s'"
    using OnSendTxn_ok [OF assms, of m' tp' ud] OnSendTxn_alive [OF assms r] r by simp_all
  have sent: "stack_ok s2" "info_alive info s2" if "SendToNetwork_mgr ti ud s' = (b2, s2)" for ti b2 s2
    using SendToNetwork_mgr_ok(1) [OF ok(1), of ti ud] SendToNetwork_mgr_ok(2) [of info ti ud s'] ok(2) that by simp_all
  show ?thesis
    using m r ok sent
    by (auto simp: SendMsg_def OnSendTransp_def SendMsg_undo_ok SendMsg_sent_ok split: prod.split bool.split)
qed

lemma TerminateTxn_mgr_ok: "stack_ok s \<Longrightarrow> stack_ok (snd (TerminateTxn_mgr k s))"
  by (simp add: TerminateTxn_mgr_def TerminateTxn_ok)

lemma OnRecvTanspError_ok:
  assumes "stack_ok s"
  shows "stack_ok (snd (OnRecvTanspError e k s))"
  using OnRecvTanspError_transp_ok [OF assms, of k]
  by (auto simp: OnRecvTanspError_def Let_def OnRecvTranspError_ok SendToNetwork_mgr_ok case_prod_unfold
      split: prod.split bool.split)

lemma OnRecvTransp_recv_pre:
  assumes "stack_ok s" and "OnRecvTransp m s = (Some (st, ex, k), s')"
    and "\<not> (st = STATUS_NEW_REQ_RECVD \<and> GetMethodType m = METHOD_ACK)"
  shows "stack_ok s'" and "recv_pre m k s'"
proof -
  obtain e where s': "s' = set_err e s" using OnRecvTransp_shape(1) [OF assms(2)] ..
  show ok: "stack_ok s'" using assms(1) by (simp add: s')
  define k0 where "k0 = fst (SipTxnKey_of_msg m (s_err s))"
  have pool: "s_pool s' = s_pool s" by (simp add: s' set_err_def)
  have k: "k = k0\<lparr>key_eTxnType := recv_key_type k0\<rparr>"
    and new: "m_eSipMsgType m = REQ_TYPE \<Longrightarrow> FindTransaction k (s_pool s) = None \<Longrightarrow> st = STATUS_NEW_REQ_RECVD"
    using OnRecvTransp_shape(2) [OF assms(2) refl] by (simp_all add: k0_def Let_def)
  have rules: "\<not> HasRule RULE_COMPARE_RSEQ k"
    using of_msg_rules [of m "s_err s"] by (simp add: k k0_def HasRule_def)
  have "m_pszMethod k \<noteq> ACK_METHOD \<and> GetMethodType m \<noteq> METHOD_ACK"
    if lookup: "FindTransaction (k\<lparr>key_eTxnType := GetTxnType RECV (GetMethodType m) (m_eSipMsgType m)\<rparr>) (s_pool s) = None"
      and req: "m_eSipMsgType m = REQ_TYPE"
  proof -
    have "FindTransaction k (s_pool s) = None"
      using lookup recv_lookups_agree [OF assms(1) req k0_def] by (simp add: k)
    with new req assms(3) have "GetMethodType m \<noteq> METHOD_ACK" by simp
    moreover from this have "m_pszMethod k \<noteq> ACK_METHOD"
      using of_msg_ACK [OF req, of "s_err s"] by (auto simp: k k0_def)
    ultimately show ?thesis by simp
  qed
  with rules show "recv_pre m k s'" unfolding recv_pre_def pool by blast
qed

lemma OnRecvMessage_user_data_ok:
  "stack_ok s \<Longrightarrow> stack_ok (snd (OnRecvMessage_user_data info ud s))"
  "info_alive info (snd (OnRecvMessage_user_data info' ud s)) = info_alive info s"
  by (simp_all add: OnRecvMessage_user_data_def with_user_data_ok)

lemma OnRecvMessage_send_ok:
  assumes "stack_ok s" and "info_alive info s" and "OnRecvMessage_send encode tp k info ud s = (b, s')"
  shows "stack_ok s'" and "b \<Longrightarrow> info_alive info s'"
proof -
  have after: "stack_ok s2 \<and> info_alive info s2"
    if "SendToNetwork_mgr ti ud (PreProcessMessageSentByStack m p s) = (b2, s2)" for ti ud m p b2 s2
    using SendToNetwork_mgr_ok(1) [of "PreProcessMessageSentByStack m p s" ti ud]
      SendToNetwork_mgr_ok(2) [of info ti ud "PreProcessMessageSentByStack m p s"] assms(1,2) that
    by (simp add: MessageSentByStack_ok)
  have post: "stack_ok (snd (UpdateTxnDetails k2 ti (PostProcessMessageSentByStack m buf p s2)))"
    "info_alive info (snd (UpdateTxnDetails k2 ti (PostProcessMessageSentByStack m buf p s2)))"
    if "stack_ok s2" "info_alive info s2" for k2 ti m buf p s2
    using that by (simp_all add: UpdateTxnDetails_ok UpdateTxnDetails_alive MessageSentByStack_ok)
  show "stack_ok s'" "b \<Longrightarrow> info_alive info s'"
    using assms after post
    by (auto simp: OnRecvMessage_send_def OnSendTransp_def Let_def stack_ok_crash safe_crash_def OnSendTranspError_ok
        split: option.splits prod.splits bool.splits)
qed

lemma OnRecvMessage_end_ok:
  assumes "stack_ok s" and "info_alive info s"
  shows "stack_ok (snd (snd (OnRecvMessage_end m k info ud s)))"
  using assms
  by (simp add: OnRecvMessage_end_def case_prod_unfold Let_def DeleteTxn_ok with_user_data_ok clear_info_user_data_ok)

lemma OnRecvMessage_txn_ok:
  assumes "stack_ok s" and "info_alive info s"
  shows "stack_ok (snd (snd (snd (snd (OnRecvMessage_txn encode m tp k info ud s)))))"
proof -
  let ?s = "snd (OnRecvMessage_user_data info ud s)" and ?ud = "fst (OnRecvMessage_user_data info ud s)"
  have ok: "stack_ok ?s" "info_alive info ?s" using assms by (simp_all add: OnRecvMessage_user_data_ok)
  obtain b s2 where sent: "OnRecvMessage_send encode tp k info ?ud ?s = (b, s2)" by fastforce
  note sent_ok = OnRecvMessage_send_ok [OF ok sent]
  have "stack_ok (snd (snd (OnRecvMessage_end m k info ?ud s2)))" if b
    using OnRecvMessage_end_ok sent_ok that by simp
  with ok sent_ok(1) SendToNetwork_mgr_ok(1) [OF ok(1)] show ?thesis
    by (cases b) (simp_all add: OnRecvMessage_txn_def case_prod_unfold Let_def sent)
qed

lemma OnRecvMessage_ok:
  assumes "stack_ok s"
  shows "stack_ok (snd (snd (snd (snd (OnRecvMessage encode m tp ud s)))))"
proof (cases "\<exists>m' tp'. m = Some m' \<and> tp = Some tp'")
  case False
  with assms show ?thesis by (auto simp: OnRecvMessage_def split: option.split)
next
  case True
  then obtain m' tp' where m: "m = Some m'" "tp = Some tp'" by blast
  obtain r s' where t: "OnRecvTransp m' s = (r, s')" by fastforce
  have s': "stack_ok s'" using OnRecvTransp_shape(1) [OF t] assms by auto
  show ?thesis
  proof (cases r)
    case None
    with m t s' show ?thesis by (simp add: OnRecvMessage_def)
  next
    case (Some x)
    obtain st ex k where x: "x = (st, ex, k)" by (metis prod_cases3)
    have inv: "stack_ok (snd (IsInviteTxnPresentForAckTxn k s'))"
      using IsInviteTxnPresentForAckTxn_state [of k s'] s' by auto
    show ?thesis
    proof (cases "st = STATUS_STRAY_RESP \<or> (st = STATUS_NEW_REQ_RECVD \<and> GetMethodType m' = METHOD_ACK)")
      case True
      with m t Some x s' inv show ?thesis by (auto simp: OnRecvMessage_def case_prod_unfold Let_def)
    next
      case False
      obtain b k2 info s2 where r2: "OnRecvTxn m' k ud s' = (b, k2, info, s2)" by (metis prod_cases4)
      have pre: "recv_pre m' k s'" using OnRecvTransp_recv_pre [OF assms] t Some x False by simp
      have "stack_ok s2" "info_alive info s2"
        using OnRecvTxn_ok [OF s' pre, of ud] OnRecvTxn_alive [OF s' pre r2] r2 by simp_all
      then show ?thesis
        using m t Some x s' False r2 by (auto simp: OnRecvMessage_def OnRecvMessage_txn_ok split: bool.split)
    qed
  qed
qed

end
