(* ===== verification/Stack_System.thy ===== *)
theory Stack_System
  imports Manager_Invariant
begin

text \<open>
  The stack as a system: the states that the public operations of \<open>SipStackManager\<close>, the
  expiry of a timer and the changes of the environment reach from an empty pool. A call in
  the environment may change what the timer service, the network and the transaction user
  answer next and the value an uninitialised local holds, except the one value (130) that
  \<open>SipTimeoutData\<close> would read as a failed allocation.
\<close>

subsection \<open>The initial state\<close>

definition stack_init :: "SipConfiguration \<Rightarrow> sip_util option \<Rightarrow> stack" where
  "stack_init cfg u =
     \<lparr>s_heap = (\<lambda>_. (SipTxn_init cfg)\<lparr>m_nRefCount := 0\<rparr>), s_next = 0, s_pool = [], s_txnKeyList = [],
      s_timers = (\<lambda>_. None), s_next_timer = 0, s_err = 0, s_events = [], s_crash = None,
      s_util = u, s_config = cfg, s_timer_ok = True, s_net_ok = True,
      s_create_ack = (\<lambda>_ _. None), s_garbage = 0\<rparr>"

subsection \<open>Steps\<close>

text \<open>A call leaves what it answers in the state that follows it; the rest goes to the caller.\<close>

datatype stack_call =
    CallSendMsg "SipMessage option" "SipTransportParameter option" "ISipUserData option" string
  | CallOnRecvMessage "SipMessage \<Rightarrow> u32 \<Rightarrow> string option" "SipMessage option"
      "SipTransportParameter option" "ISipUserData option"
  | CallOnRecvTanspError int SipTxnKey
  | CallTerminateTxn "SipTxnKey option"
  | TimerFires nat
  | SetServices bool bool "sip_util option"
  | SetAckBuilder "SipTxnContext \<Rightarrow> SipMessage \<Rightarrow> SipMessage option"
  | SetGarbage u16
  | SetError u16

fun stack_step :: "stack_call \<Rightarrow> stack \<Rightarrow> stack" where
  "stack_step (CallSendMsg m tp ud buf) s = snd (snd (snd (SendMsg m tp ud buf s)))"
| "stack_step (CallOnRecvMessage encode m tp ud) s = snd (snd (snd (snd (OnRecvMessage encode m tp ud s))))"
| "stack_step (CallOnRecvTanspError e k) s = snd (OnRecvTanspError e k s)"
| "stack_step (CallTerminateTxn k) s = snd (TerminateTxn_mgr k s)"
| "stack_step (TimerFires i) s = Timer_TimerExpired i s"
| "stack_step (SetServices t n u) s = s\<lparr>s_timer_ok := t, s_net_ok := n, s_util := u\<rparr>"
| "stack_step (SetAckBuilder f) s = s\<lparr>s_create_ack := f\<rparr>"
| "stack_step (SetGarbage g) s = (if g = E_ERR_PF_MALLOCFAILED then s else s\<lparr>s_garbage := g\<rparr>)"
| "stack_step (SetError e) s = set_err e s"

text \<open>A crashed program takes no further step.\<close>

inductive step :: "stack \<Rightarrow> stack_call \<Rightarrow> stack \<Rightarrow> bool" where
  call: "s_crash s = None \<Longrightarrow> step s c (stack_step c s)"

inductive_simps step_iff: "step s c s'"

inductive reachable :: "stack \<Rightarrow> bool" where
  init: "reachable (stack_init cfg u)"
| step: "reachable s \<Longrightarrow> step s c s' \<Longrightarrow> reachable s'"

fun stack_run :: "stack_call list \<Rightarrow> stack \<Rightarrow> stack" where
  "stack_run [] s = s"
| "stack_run (c # cs) s = (if s_crash s = None then stack_run cs (stack_step c s) else s)"

lemma reachable_run: "reachable s \<Longrightarrow> reachable (stack_run cs s)"
  by (induction cs arbitrary: s) (auto intro: reachable.step step.call)

subsection \<open>The invariant\<close>

lemma stack_init_ok: "stack_ok (stack_init cfg u)"
  by (simp add: stack_ok_def good_def stack_init_def slack_def pool_refs_def pool_entries_def
      pool_wf_def ImsMap_inv_def in_pool_def safe_crash_def fun_eq_iff)

lemma good_environment:
  "good X (s\<lparr>s_timer_ok := t, s_net_ok := n, s_util := u\<rparr>) = good X s"
  "good X (s\<lparr>s_create_ack := f\<rparr>) = good X s"
  "good X s \<Longrightarrow> g \<noteq> E_ERR_PF_MALLOCFAILED \<Longrightarrow> good X (s\<lparr>s_garbage := g\<rparr>)"
  by (simp_all add: good_def slack_def pool_refs_def in_pool_def)

lemma slack_environment:
  "slack (s\<lparr>s_timer_ok := t, s_net_ok := n, s_util := u\<rparr>) = slack s"
  "slack (s\<lparr>s_create_ack := f\<rparr>) = slack s" "slack (s\<lparr>s_garbage := g\<rparr>) = slack s"
  by (simp_all add: slack_def pool_refs_def fun_eq_iff)

lemma stack_ok_environment:
  assumes "stack_ok s"
  shows "stack_ok (s\<lparr>s_timer_ok := t, s_net_ok := n, s_util := u\<rparr>)"
    and "stack_ok (s\<lparr>s_create_ack := f\<rparr>)"
    and "g \<noteq> E_ERR_PF_MALLOCFAILED \<Longrightarrow> stack_ok (s\<lparr>s_garbage := g\<rparr>)"
    and "stack_ok (Timer_TimerExpired i s)"
  using assms Timer_TimerExpired_keeps [of "{}" s i]
  by (simp_all add: stack_ok_def good_environment slack_environment)

lemma stack_step_ok: "stack_ok s \<Longrightarrow> stack_ok (stack_step c s)"
  by (cases c)
    (simp_all add: SendMsg_ok OnRecvMessage_ok OnRecvTanspError_ok TerminateTxn_mgr_ok stack_ok_environment)

lemma reachable_ok: "reachable s \<Longrightarrow> stack_ok s"
  by (induction rule: reachable.induct) (auto simp: stack_init_ok stack_step_ok step_iff)

lemma stack_ok_refcount:
  assumes "stack_ok s"
  shows "m_nRefCount (txn s p) = (if in_pool s p then 2 else 0)"
proof -
  have "slack s p = 0" using assms by (simp add: stack_ok_def)
  moreover have "pool_refs s p \<le> 1" by (rule good_refs [OF stack_okD(1) [OF assms]])
  moreover have "in_pool s p \<longleftrightarrow> pool_refs s p > 0" by (rule in_pool_refs)
  ultimately show ?thesis unfolding slack_def by auto
qed

lemma stack_ok_key:
  assumes "stack_ok s" and "(k, p) \<in> set (entries s)"
  shows "FindTransaction k (s_pool s) = Some (k, p)"
    and "\<exists>k'. m_pTxnKey (txn s p) = Some k' \<and> same_id k' k"
    and "key_ok k"
  using good_found [OF stack_okD(1) [OF assms(1)] assms(2)] good_txn [OF stack_okD(1) [OF assms(1)] assms(2)]
  by (auto simp: txn_ok_def)

lemma distinct_if_count: "(\<And>x. count (mset xs) x \<le> 1) \<Longrightarrow> distinct xs"
proof (induction xs)
  case (Cons a xs)
  have "count (mset xs) x \<le> 1" for x
  proof -
    have "count (mset xs) x \<le> count (mset (a # xs)) x" by simp
    with Cons.prems [of x] show ?thesis by linarith
  qed
  moreover have "count (mset xs) a = 0" using Cons.prems [of a] by simp
  ultimately show ?case using Cons.IH by (simp add: count_mset_0_iff)
qed simp

lemma stack_ok_distinct:
  assumes "stack_ok s"
  shows "distinct (map snd (entries s))"
  by (rule distinct_if_count) (use good_refs [OF stack_okD(1) [OF assms]] in \<open>simp add: pool_refs_def\<close>)

lemma stack_ok_timer:
  assumes "stack_ok s" and "(k, p) \<in> set (entries s)" and "m_pvTimerId (txn s p) = Some i"
  shows "\<exists>d td k'. s_timers s i = Some (d, td) \<and> td_pTxnKey td = Some k' \<and> same_id k' k \<and>
           FindTransaction k' (s_pool s) = Some (k, p)"
proof -
  have good: "good {} s" by (rule stack_okD(1) [OF assms(1)])
  from good_txn [OF good assms(2)] assms(3)
  obtain d td k' where t: "s_timers s i = Some (d, td)" "td_pTxnKey td = Some k'" "same_id k' k" and "key_ok k"
    by (auto simp: txn_ok_def timer_ok_def)
  have "CompareKeys x (Some k') = CompareKeys x (Some k)" for x
    by (rule same_id_CompareKeys [OF same_id_refl t(3)]) (simp add: same_id_key_ok [OF t(3)] \<open>key_ok k\<close>)
  then have "(\<lambda>e :: _ \<times> ptr. CompareKeys (fst e) (Some k')) = (\<lambda>e. CompareKeys (fst e) (Some k))"
    by (simp add: fun_eq_iff)
  then have "FindTransaction k' (s_pool s) = FindTransaction k (s_pool s)"
    by (simp only: pool_find_first [OF good_wf [OF good]])
  with t good_found [OF good assms(2)] show ?thesis by auto
qed

subsection \<open>Leaving the pool\<close>

lemma pool_ops [simp]:
  "s_pool (upd_txn p f s) = s_pool s" "s_pool (SipTxn_SipDelete p s) = s_pool s"
  "s_pool (SipTxn_Increment p s) = s_pool s" "s_pool (SetTimerId i p s) = s_pool s"
  "s_pool (set_err e s) = s_pool s" "s_pool (SetTxnState st p s) = s_pool s"
  "s_pool (crash c s) = s_pool s" "s_pool (emit x s) = s_pool s"
  "s_pool (OnTimerExpired ud ty s) = s_pool s" "s_pool (ud_SetUserData p ctx s) = s_pool s"
  by (auto simp: upd_txn_def SipTxn_SipDelete_def SipTxn_Increment_def SetTimerId_def set_err_def SetTxnState_def
      crash_def emit_def OnTimerExpired_def ud_SetUserData_def DestroyTxnContext_def Let_def split: option.split)

lemma removed_not_in_pool:
  assumes "stack_ok s" and "FindTransaction g (s_pool s) = Some (k, p)"
  shows "p \<notin> snd ` set (pool_entries (snd (RemoveTransaction g TXN_OPT_REMOVE (s_pool s))))"
proof
  let ?rest = "pool_entries (snd (RemoveTransaction g TXN_OPT_REMOVE (s_pool s)))"
  assume "p \<in> snd ` set ?rest"
  then have "count (image_mset snd (mset ?rest)) p \<ge> 1"
    by (metis count_greater_eq_one_iff image_iff set_image_mset set_mset_mset)
  moreover have "(k, p) \<in># mset (entries s)"
    using txn_db.find_SomeD(1) [OF good_wf [OF stack_okD(1) [OF assms(1)]] assms(2)] by simp
  then have "mset (entries s) = add_mset (k, p) (mset ?rest)"
    using entries_remove [OF good_wf [OF stack_okD(1) [OF assms(1)]], of g] assms(2) by simp
  ultimately have "pool_refs s p \<ge> 2" by (simp add: pool_refs_def)
  then show False using good_refs [OF stack_okD(1) [OF assms(1)], of p] by simp
qed

text \<open>
  The timers that end the time a finished transaction absorbs retransmissions: D, I, K and J.
\<close>

definition linger_timer :: "SipTxn \<Rightarrow> u32 \<Rightarrow> bool" where
  "linger_timer t ty \<longleftrightarrow> m_nTxnState t = 3 \<and>
     (m_eTxnType t, ty) \<in> {(INV_CLI_TXN, TIMER_D), (INV_SER_TXN, TIMER_I),
        (NON_INV_CLI_TXN, TIMER_K), (NON_INV_SER_TXN, TIMER_J)}"

lemma linger_event:
  assumes "linger_timer (txn s p) ty"
  shows "\<exists>ev. timeout_event (m_eTxnType (txn s p)) ty = Some ev \<and>
    InvokeFsm cbk ev p pv s = (True, pv, SetTxnState 4 p s)"
  using assms unfolding linger_timer_def insert_iff empty_iff prod.inject simp_thms
  by (elim disjE conjE) (simp_all add: timeout_event_def InvokeFsm_def fsm_table_def table_lookup_def
      gpfSipInvClientTxnFsm_def gpfSipInvSerTxnFsm_def gpfSipNonInvClientTxnFsm_def gpfSipNonInvSerTxnFsm_def
      InvCliFsm_CompletedStTimerD_TimeoutEvt_def InvSerFsm_ConfirmedStTimerI_TimeoutEvt_def
      NonInvCliFsm_CompletedStTimer_K_TimeoutEvt_def NonInvSerFsm_CompletedStTimer_J_TimeoutEvt_def)

lemma linger_removes:
  assumes "stack_ok s" and "(k, p) \<in> set (entries s)" and "m_pvTimerId (txn s p) = Some i"
    and "s_timers s i = Some (d, td)" and "linger_timer (txn s p) (td_eTimerType td)" and "s_util s = Some u"
  shows "\<not> in_pool (Timer_TimerExpired i s) p"
proof -
  obtain k' where k': "td_pTxnKey td = Some k'" "FindTransaction k' (s_pool s) = Some (k, p)"
    using stack_ok_timer [OF assms(1-3)] assms(4) by auto
  let ?s = "SetTimerId None p (SipTxn_Increment p (s\<lparr>s_timers := (s_timers s)(i := None)\<rparr>))"
  have same: "linger_timer (txn (set_err e ?s) p) (td_eTimerType td)" for e
    using assms(5) by (simp add: linger_timer_def SetTimerId_def SipTxn_Increment_def upd_txn_def set_err_def)
  have not_terminated: "\<not> IsTxnTerminated (txn ?s p)"
    using assms(5) by (auto simp: linger_timer_def IsTxnTerminated_def SetTimerId_def SipTxn_Increment_def upd_txn_def)
  have type: "m_eTxnType (txn (set_err e ?s) p) = m_eTxnType (txn ?s p)" for e by (simp add: set_err_def)
  from linger_event [OF same, of 0 CbkTxnTimeout "PvTimeout td"] obtain ev where
    ev: "timeout_event (m_eTxnType (txn ?s p)) (td_eTimerType td) = Some ev"
      "InvokeFsm CbkTxnTimeout ev p (PvTimeout td) (set_err 0 ?s) = (True, PvTimeout td, SetTxnState 4 p (set_err 0 ?s))"
    unfolding type by blast
  have pool: "s_pool ?s = s_pool s" by simp
  have terminated: "IsTxnTerminated (txn (set_err e (SetTxnState 4 p (set_err 0 ?s))) p)" for e
    using assms(5) by (auto simp: linger_timer_def IsTxnTerminated_def SetTimerId_def SipTxn_Increment_def
        upd_txn_def set_err_def SetTxnState_def split: txn_type.split)
  have fields: "s_util ?s = Some u" "m_pvTimerId (txn (SipTxn_Increment p (s\<lparr>s_timers := (s_timers s)(i := None)\<rparr>)) p) = Some i"
    "FetchTransaction (Some k') TXN_OPT_FETCH None (s\<lparr>s_timers := (s_timers s)(i := None)\<rparr>) =
       (True, Some p, s\<lparr>s_timers := (s_timers s)(i := None)\<rparr>)"
    using assms(3,6) k'(2)
    by (simp_all add: SetTimerId_def SipTxn_Increment_def upd_txn_def FetchTransaction_def)
  obtain pool' where rem: "RemoveTransaction k' TXN_OPT_REMOVE (s_pool s) = (Some (k, p), pool')"
    using remove_find [of k' "s_pool s"] k'(2) by (metis prod.collapse)
  have "s_pool (Timer_TimerExpired i s) = pool'"
    using assms(4) k'(1) fields not_terminated ev terminated rem
    by (simp add: Timer_TimerExpired_def CbkTxnTimeout_unfold CbkTxnTimeout_body_def Let_def
        timeout_terminated_def SipTxn_RemoveFromTxnPool_def ReleaseTransaction_def)
  with removed_not_in_pool [OF assms(1) k'(2)] rem show ?thesis by (simp add: in_pool_def)
qed

lemma notify_ops [simp]:
  "s_pool (NotifyTxnTermination p s) = s_pool s" "s_timers (NotifyTxnTermination p s) = s_timers s"
  "s_timers (SipTxn_SipDelete p s) = s_timers s" "s_timers (ud_SetDeleteFlag p b s) = s_timers s"
  "s_pool (ud_SetDeleteFlag p b s) = s_pool s"
  by (auto simp: NotifyTxnTermination_def TxnTerminated_def DestroyTxnContext_def emit_def ud_SetUserData_def
      ud_SetDeleteFlag_def SipTxn_SipDelete_def upd_txn_def split: option.split)

lemma AbortTxn_effect:
  assumes "s_util s = Some u" and "u_timer u"
  shows "s_pool (snd (AbortTxn p s)) = s_pool s"
    and "m_pvTimerId (txn s p) = Some i \<Longrightarrow> s_timers (snd (AbortTxn p s)) i = None"
  using assms by (auto simp: AbortTxn_def StopTimerEx_def crash_def upd_txn_def split: option.split)

lemma TerminateTxn_effect:
  assumes "stack_ok s" and "s_util s = Some u" and "u_timer u" and "FindTransaction k (s_pool s) = Some (k', p)"
  shows "fst (TerminateTxn_mgr (Some k) s)"
    and "s_pool (snd (TerminateTxn_mgr (Some k) s)) = snd (RemoveTransaction k TXN_OPT_REMOVE (s_pool s))"
    and "m_pvTimerId (txn s p) = Some i \<Longrightarrow> s_timers (snd (TerminateTxn_mgr (Some k) s)) i = None"
proof -
  let ?s1 = "SipTxn_SipDelete p (s\<lparr>s_pool := snd (RemoveTransaction k TXN_OPT_REMOVE (s_pool s))\<rparr>)"
  have "m_nRefCount (txn s p) = 2"
    using stack_ok_refcount [OF assms(1), of p] find_in_pool [OF assms(1,4)] by simp
  then have id: "m_pvTimerId (txn ?s1 p) = m_pvTimerId (txn s p)"
    by (simp add: SipTxn_SipDelete_def upd_txn_def Let_def)
  have u: "s_util ?s1 = Some u" using assms(2) by (simp add: SipTxn_SipDelete_def upd_txn_def)
  note abort = AbortTxn_effect [OF u assms(3), of p]
  note eq = TerminateTxn_mgr_def TerminateTxn_def ReleaseTransaction_cases assms(4) Let_def
  show "fst (TerminateTxn_mgr (Some k) s)" by (simp add: eq)
  show "s_pool (snd (TerminateTxn_mgr (Some k) s)) = snd (RemoveTransaction k TXN_OPT_REMOVE (s_pool s))"
    by (simp add: eq abort)
  show "m_pvTimerId (txn s p) = Some i \<Longrightarrow> s_timers (snd (TerminateTxn_mgr (Some k) s)) i = None"
    using abort(2) [of i] id by (simp add: eq)
qed

lemma of_msg_err:
  assumes "CheckTxnMandatoryParams m = Some (t, mt)"
  shows "snd (SipTxnKey_of_msg m e) = e"
  using CheckTxnMandatoryParams_SomeD [OF assms]
  by (cases "hdr_via m") (auto simp: SipTxnKey_of_msg_def SipTxnKey_fill_tags_def Let_def)

lemma util_OnRecvTanspError_transp:
  "s_util (snd (snd (snd (OnRecvTanspError_transp k s)))) = s_util s"
proof -
  have [simp]: "s_util (SipTxn_SipDelete p s) = s_util s" "s_util (SipTxn_Increment p s) = s_util s"
    "s_util (SetSentVia m b p s) = s_util s" "s_util (SetSentProto t p s) = s_util s"
    "s_util (crash c s) = s_util s" "s_util (set_err e s) = s_util s" for p m b t c e s
    by (simp_all add: SipTxn_SipDelete_def SipTxn_Increment_def SetSentVia_def SetSentProto_def crash_def
        set_err_def upd_txn_def)
  have "s_util (snd (snd (snd (OnRecvTanspError_switch p ti s)))) = s_util s" for p ti s
    by (auto simp: OnRecvTanspError_switch_def Let_def split: option.split prod.split bool.split)
  then show ?thesis
    by (auto simp: OnRecvTanspError_transp_def GetTxnObjFromDb_eq Let_def split: option.split)
qed

end
