(* ===== verification/Examples.thy ===== *)
theory Examples
  imports Stack_System
begin

text \<open>
  Concrete messages, keys and runs of the stack. The properties' witnesses apply them at
  these inputs: an INVITE and an OPTIONS that a user agent sends over UDP, the responses it
  gets, an INVITE it receives, and the states of the stack after them.
\<close>

definition ex_via :: SipViaHeader where
  "ex_via = \<lparr>via_protocol = ''SIP/2.0/UDP'', via_branch = Some ''z9hG4bKa'', via_host = Some ''h'', via_port = 5060\<rparr>"

definition ex_request :: "string \<Rightarrow> SipMessage" where
  "ex_request meth =
     (SipMessage_new REQ_TYPE)\<lparr>m_pReqLine := Some \<lparr>rl_method = Some meth, rl_uri = ''sip:b''\<rparr>,
        hdr_via := [ex_via], hdr_from := Some \<lparr>na_value = ''a'', na_tag = Some ''f''\<rparr>,
        hdr_to := Some \<lparr>na_value = ''b'', na_tag = None\<rparr>, hdr_call_id := Some (Some ''c''),
        hdr_cseq := Some \<lparr>cseq_num = 1, cseq_method = Some meth\<rparr>\<rparr>"

definition ex_response :: "string \<Rightarrow> string \<Rightarrow> SipMessage" where
  "ex_response meth code =
     (ex_request meth)\<lparr>m_eSipMsgType := RESP_TYPE, m_pReqLine := None, m_pStatusLine := Some (Some code),
        hdr_to := Some \<lparr>na_value = ''b'', na_tag = Some ''t''\<rparr>\<rparr>"

definition ex_udp :: SipTransportParameter where
  "ex_udp = \<lparr>m_pHostAddress = Some ''p'', m_nPort = 5060, m_nTranspProtocol = PROTOCOL_UDP\<rparr>"

definition ex_user_data :: ISipUserData where
  "ex_user_data = ISipUserData_new (Some \<lparr>ctx_id = 7, pSipTimerContext = None, ctx_has_state = True\<rparr>)"

definition ex_init :: stack where
  "ex_init = stack_init SipConfiguration_new (Some \<lparr>u_timer = True, u_listener = True\<rparr>)"

definition ex_send :: "SipMessage \<Rightarrow> stack_call" where
  "ex_send m = CallSendMsg (Some m) (Some ex_udp) (Some ex_user_data) ''text''"

definition ex_recv :: "SipMessage \<Rightarrow> stack_call" where
  "ex_recv m = CallOnRecvMessage (\<lambda>_ _. Some ''ack'') (Some m) (Some ex_udp) (Some ex_user_data)"

text \<open>The key of the requests, and the transaction that sent one.\<close>

definition ex_key :: "string \<Rightarrow> txn_type \<Rightarrow> SipTxnKey" where
  "ex_key meth ty =
     SipTxnKey_new\<lparr>m_eMsgType := REQ_TYPE, m_pszViaBranchParam := Some ''z9hG4bKa'',
       m_pszViaHost := Some ''h'', m_nViaHostPort := 5060, m_pszMethod := Some meth, m_nCseqNum := 1,
       m_pRequestUri := Some ''sip:b'', m_pszFromTag := Some ''f'', m_pszCallId := Some ''c'',
       key_eTxnType := ty\<rparr>"

definition ex_sent :: "string \<Rightarrow> SipTransportInfo" where
  "ex_sent meth =
     \<lparr>m_pActualDestParam = Some ex_udp, tp_pTranspParam = Some ex_udp, m_pSentBuffer = Some ''text'',
      m_pSentSipMsg = Some (ex_request meth)\<rparr>"

definition ex_txn :: "string \<Rightarrow> txn_type \<Rightarrow> u32 \<Rightarrow> SipTxn" where
  "ex_txn meth ty timer =
     (SipTxn_init SipConfiguration_new)\<lparr>m_nRefCount := 2, m_eTxnType := ty,
       m_pTxnKey := Some (ex_key meth ty), m_pSipMsg := Some (ex_request meth),
       m_pTranspInfo := Some (ex_sent meth), m_pUserData := Some ex_user_data, m_nTxnState := 1,
       m_eTimerType := timer, m_pvTimerId := Some 0, m_nMaxDuration := 128000,
       m_nCurrentDuration := 2000\<rparr>"

text \<open>The stack after it sent an INVITE (timer A) or another request (timer E) over UDP.\<close>

definition ex_after :: "string \<Rightarrow> txn_type \<Rightarrow> u32 \<Rightarrow> stack" where
  "ex_after meth ty timer =
     ex_init\<lparr>s_heap := (s_heap ex_init)(0 := ex_txn meth ty timer), s_next := 1,
       s_pool := [(99, [(ex_key meth ty, 0)])],
       s_timers := [0 \<mapsto> (2000, \<lparr>td_eTxnType = ty, td_eTimerType = timer, td_pTxnKey = Some (ex_key meth ty)\<rparr>)],
       s_next_timer := 1, s_events := [EvSend (Some ''text'') (Some ex_udp) 7]\<rparr>"

abbreviation ex_calling :: stack where
  "ex_calling \<equiv> ex_after ''INVITE'' INV_CLI_TXN TIMER_A"

abbreviation ex_trying :: stack where
  "ex_trying \<equiv> ex_after ''OPTIONS'' NON_INV_CLI_TXN TIMER_E"

subsection \<open>Evaluation\<close>

lemmas ex_data = ex_request_def ex_response_def ex_via_def ex_udp_def ex_user_data_def ex_init_def
  ISipUserData_new_def SipMessage_new_def SipTxnKey_new_def stack_init_def SipTxn_init_def
  SipTxnTimerValues_new_def SipConfiguration_new_def

lemma ex_hash: "pool_key (ex_key meth ty) = 99"
proof -
  have "GetHashCode (Some ''c'') = 99" by code_simp
  then show ?thesis by (simp add: pool_key_def ex_key_def)
qed

lemma ex_key_msg: "m_eMsgType (ex_key meth ty) = REQ_TYPE" "m_pszMethod (ex_key meth ty) = Some meth"
  by (simp_all add: ex_key_def)

lemma ex_of_msg:
  "SipTxnKey_of_msg (ex_request meth) e = (ex_key meth INVALID_TXN, e)"
  "(ex_key meth ty')\<lparr>key_eTxnType := ty\<rparr> = ex_key meth ty"
  by (simp_all add: SipTxnKey_of_msg_def SipTxnKey_fill_tags_def ex_key_def ex_data)

lemma ex_copy: "SipTxnKey_copy (Some (ex_key meth ty)) e = (ex_key meth ty, e)"
  by (rule copy_complete) (simp add: copyable_def ex_key_def)

lemma ex_match: "CompareKeys (ex_key meth ty) (Some (ex_key meth ty))" if "meth \<noteq> ''ACK''"
  by (rule key_ok_self) (use that in \<open>simp add: ex_key_def SipTxnKey_new_def key_ok_def copyable_def HasRule_def\<close>)

lemma ex_method:
  "GetMethodType (ex_request ''INVITE'') = METHOD_INVITE"
  "GetMethodType (ex_request ''OPTIONS'') = METHOD_OPTIONS"
  by code_simp+

lemma ex_params:
  "GetMethodType (ex_request meth) \<noteq> METHOD_INVALID \<Longrightarrow>
     CheckTxnMandatoryParams (ex_request meth) = Some (REQ_TYPE, GetMethodType (ex_request meth))"
  by (simp add: CheckTxnMandatoryParams_def HasHeader_def) (simp add: ex_data)

lemma ex_type: "m_eSipMsgType (ex_request meth) = REQ_TYPE"
  by (simp add: ex_data)

text \<open>The definitions that a call unfolds to.\<close>

lemmas ex_send_eval = SendMsg_def OnSendTxn_def ValidateSendTxn_def GetTxnObjFromDb_def send_info_def
  SipTxnInfo_new_def OnSendTransp_def SendToNetwork_mgr_def SendToNetwork_def emit_def
  SipTransportParameter_copy_def SendMsg_sent_def UpdateTxnDetails_def UpdateTranspInfo_def
  with_user_data_def HandleClientTxnSend_def SipTxn_new_def InvokeFsm_def fsm_table_def
  gpfSipInvClientTxnFsm_def gpfSipNonInvClientTxnFsm_def table_lookup_def SipTxnFsmData_new_def
  fd_timer_context_def fsm_enter_pool_def InvCliFsm_IdleStSendInvReqEvt_def
  NonInvCliFsm_IdleStSendNonInvReqEvt_def fsm_set_user_data_def SetUserData_def GetUserData_def
  SetTxnState_def SetMaxDuration_def StartTxnTimer_def StartTimer_def SipTimeoutData_new_def
  GetTimerValue_def SipTxn_Increment_def SipTxn_SipDelete_def upd_txn_def set_err_def
  FetchTransaction_def FindTransaction_def AddTransaction_def AddTransaction_pool_def
  ImsMap_GetIndexOfKey_def ImsMap_GetValueAt_def ImsMap_GetOrderOf_def ImsMap_Add_def
  GetTxnType_def Let_def

lemma ex_calling_step: "stack_step (ex_send (ex_request ''INVITE'')) ex_init = ex_calling"
  by (simp add: ex_send_def ex_after_def ex_txn_def ex_sent_def ex_params ex_method ex_of_msg ex_copy ex_hash
      ex_match ex_key_msg ex_type ex_send_eval ex_user_data_def ex_init_def ex_udp_def
      ISipUserData_new_def stack_init_def SipTxn_init_def SipTxnTimerValues_new_def SipConfiguration_new_def)

lemma ex_trying_step: "stack_step (ex_send (ex_request ''OPTIONS'')) ex_init = ex_trying"
  by (simp add: ex_send_def ex_after_def ex_txn_def ex_sent_def ex_params ex_method ex_of_msg ex_copy ex_hash
      ex_match ex_key_msg ex_type ex_send_eval ex_user_data_def ex_init_def ex_udp_def
      ISipUserData_new_def stack_init_def SipTxn_init_def SipTxnTimerValues_new_def SipConfiguration_new_def)

text \<open>The INVITE, had it been sent over TCP.\<close>

definition ex_tcp :: stack where
  "ex_tcp =
     ex_calling\<lparr>s_heap := (s_heap ex_calling)(0 := (ex_txn ''INVITE'' INV_CLI_TXN TIMER_B)\<lparr>m_pTranspInfo :=
       Some ((ex_sent ''INVITE'')\<lparr>m_pActualDestParam := Some (ex_udp\<lparr>m_nTranspProtocol := PROTOCOL_TCP\<rparr>),
         m_pSentBuffer := Some ([CHR 0x0D, CHR 0x0A] @ ''Via: SIP/2.0/TCP h'')\<rparr>)\<rparr>)\<rparr>"

text \<open>The OPTIONS after its final response: timer K runs.\<close>

definition ex_completed :: stack where
  "ex_completed =
     ex_trying\<lparr>s_heap := (s_heap ex_trying)(0 := (ex_txn ''OPTIONS'' NON_INV_CLI_TXN TIMER_K)\<lparr>m_nTxnState := 3,
         m_pvTimerId := Some 1, m_nCurrentDuration := 17000\<rparr>),
       s_timers := [1 \<mapsto> (17000, \<lparr>td_eTxnType = NON_INV_CLI_TXN, td_eTimerType = TIMER_K,
         td_pTxnKey = Some (ex_key ''OPTIONS'' NON_INV_CLI_TXN)\<rparr>)],
       s_next_timer := 2\<rparr>"

definition ex_key_200 :: "txn_type \<Rightarrow> SipTxnKey" where
  "ex_key_200 ty =
     (ex_key ''OPTIONS'' ty)\<lparr>m_eMsgType := RESP_TYPE, m_pRequestUri := None, m_pszToTag := Some ''t'', m_nRespCode := 200\<rparr>"

lemma ex_atoi: "SipPf_Atoi (Some ''200'') = 200"
  by code_simp

lemma ex_code: "GetStatusCode (ex_response meth ''200'') = 200"
  by (simp add: ex_atoi GetStatusCode_def SipStatusLine_GetStatusCodeAsInt_def ex_response_def)

lemma ex_200_method: "GetMethodType (ex_response ''OPTIONS'' ''200'') = METHOD_OPTIONS"
  by code_simp

lemma ex_200_params: "CheckTxnMandatoryParams (ex_response ''OPTIONS'' ''200'') = Some (RESP_TYPE, METHOD_OPTIONS)"
  unfolding CheckTxnMandatoryParams_def ex_200_method by (simp add: HasHeader_def ex_data)

lemma ex_200_of_msg: "SipTxnKey_of_msg (ex_response ''OPTIONS'' ''200'') e = (ex_key_200 INVALID_TXN, e)"
  by (simp add: SipTxnKey_of_msg_def ex_atoi GetStatusCode_def SipStatusLine_GetStatusCodeAsInt_def
      SipTxnKey_fill_tags_def ex_key_200_def ex_key_def ex_data)

lemma ex_200_type: "(ex_key_200 ty')\<lparr>key_eTxnType := ty\<rparr> = ex_key_200 ty" "m_eMsgType (ex_key_200 ty) = RESP_TYPE"
  "m_pszMethod (ex_key_200 ty) = Some ''OPTIONS''" "m_eSipMsgType (ex_response meth code) = RESP_TYPE"
  by (simp_all add: ex_key_200_def ex_key_def ex_data)

lemma ex_200_match: "CompareKeys (ex_key ''OPTIONS'' NON_INV_CLI_TXN) (Some (ex_key_200 ty))"
  by (simp add: CompareKeys_iff txn_matches_def same_method_def compatible_tags_def compatible_rseq_def
      ex_key_200_def ex_key_def SipTxnKey_new_def)

lemma ex_200_hash: "pool_key (ex_key_200 ty) = 99"
  using ex_hash [of "''OPTIONS''" ty] by (simp add: pool_key_def ex_key_200_def)

lemmas ex_recv_eval = OnRecvMessage_def OnRecvTransp_def GetTxnKeyFromSipMsg_def recv_key_type_def OnRecvTxn_def
  ValidateRecvTxn_def HandleClientTxnRecv_def GetNonInvCliFsmEvt_def status_class_defs
  NonInvCliFsm_TryingStRecv2xx6xxRespEvt_def NonInvCliFsm_RecvFinal_def NonInvCli_Recv2xx6xxResp_def
  StopTxnTimer_def StopTimerEx_def GetMsgSentProto_def SetCurrentDuration_def recv_info_def OnRecvMessage_txn_def
  OnRecvMessage_user_data_def OnRecvMessage_send_def OnRecvMessage_end_def info_context_def user_data_def

lemma ex_completed_step: "stack_step (ex_recv (ex_response ''OPTIONS'' ''200'')) ex_trying = ex_completed"
  by (simp add: ex_recv_def ex_completed_def ex_after_def ex_txn_def ex_sent_def ex_200_params ex_200_method
      ex_200_of_msg ex_200_type ex_200_hash ex_200_match ex_code ex_copy ex_recv_eval ex_send_eval ex_user_data_def ex_init_def
      ex_udp_def ISipUserData_new_def stack_init_def SipTxn_init_def SipTxnTimerValues_new_def
      SipConfiguration_new_def)

lemma ex_reachable: "reachable (stack_run cs ex_init)"
  unfolding ex_init_def by (rule reachable_run [OF reachable.init])

lemma ex_init_reachable: "reachable ex_init"
  unfolding ex_init_def by (rule reachable.init)

lemma ex_init_running: "s_crash ex_init = None"
  by (simp add: ex_init_def stack_init_def)

lemma ex_calling_reachable: "reachable ex_calling"
  unfolding ex_calling_step [symmetric]
  by (rule reachable.step [OF ex_init_reachable step.call [OF ex_init_running]])

lemma ex_trying_reachable: "reachable ex_trying"
  unfolding ex_trying_step [symmetric]
  by (rule reachable.step [OF ex_init_reachable step.call [OF ex_init_running]])

lemma ex_completed_reachable: "reachable ex_completed"
  unfolding ex_completed_step [symmetric]
  by (rule reachable.step [OF ex_trying_reachable step.call]) (simp add: ex_after_def ex_init_running)

subsection \<open>An INVITE refused over TCP\<close>

abbreviation ex_invite_key :: SipTxnKey where
  "ex_invite_key \<equiv> ex_key ''INVITE'' INV_SER_TXN"

definition ex_stream :: SipTransportParameter where
  "ex_stream = ex_udp\<lparr>m_nTranspProtocol := PROTOCOL_TCP\<rparr>"

text \<open>The stack after it received the INVITE.\<close>

definition ex_ringing :: stack where
  "ex_ringing =
     ex_init\<lparr>s_heap := (s_heap ex_init)(0 := (SipTxn_init SipConfiguration_new)\<lparr>m_nRefCount := 2,
         m_eTxnType := INV_SER_TXN, m_pTxnKey := Some ex_invite_key, m_pSipMsg := Some (ex_request ''INVITE''),
         m_pUserData := Some ex_user_data, m_nTxnState := 1\<rparr>),
       s_next := 1, s_pool := [(99, [(ex_invite_key, 0)])]\<rparr>"

lemmas ex_server_eval = HandleServerTxnRecv_def gpfSipInvSerTxnFsm_def InvSerFsm_IdleStRecvInvReqEvt_def
  HandleServerTxnSend_def InvSerFsm_ProceedingStSend3xx6xxFailureRespEvt_def GetInvSerFsmEvt_def
  InvSerFsm_begin_response_def fsm_DeleteTxnKey_def InitRetransmissionInfo_def IncrDurationExpired_def
  SetRespCode_def pool_upd_key_def InvSerFsm_CompletedStRecvAckReqEvt_def

lemma ex_ringing_step: "stack_step (ex_recv (ex_request ''INVITE'')) ex_init = ex_ringing"
  by (simp add: ex_recv_def ex_ringing_def ex_params ex_method ex_of_msg ex_copy ex_hash ex_match ex_key_msg
      ex_type ex_recv_eval ex_send_eval ex_server_eval ex_user_data_def ex_init_def ISipUserData_new_def
      stack_init_def SipTxn_init_def SipTxnTimerValues_new_def SipConfiguration_new_def)

lemma ex_ringing_reachable: "reachable ex_ringing"
  unfolding ex_ringing_step [symmetric]
  by (rule reachable.step [OF ex_init_reachable step.call [OF ex_init_running]])

text \<open>After it sent a 486 over TCP, with timer H running.\<close>

abbreviation ex_refused_key :: SipTxnKey where
  "ex_refused_key \<equiv> ex_invite_key\<lparr>m_nRespCode := 486\<rparr>"

definition ex_refused_txn :: SipTxn where
  "ex_refused_txn =
     (SipTxn_init SipConfiguration_new)\<lparr>m_nRefCount := 2, m_eTxnType := INV_SER_TXN,
       m_pTxnKey := Some ex_refused_key, m_pSipMsg := Some (ex_request ''INVITE''),
       m_pTranspInfo := Some \<lparr>m_pActualDestParam = Some ex_stream, tp_pTranspParam = Some ex_stream,
         m_pSentBuffer = Some ''486'', m_pSentSipMsg = Some (ex_response ''INVITE'' ''486'')\<rparr>,
       m_pUserData := Some ex_user_data, m_nTxnState := 2, m_eTimerType := TIMER_H, m_pvTimerId := Some 0,
       m_nMaxDuration := 128000, m_nDurationExpired := 128000, m_nCurrentDuration := 128000\<rparr>"

definition ex_refused :: stack where
  "ex_refused =
     ex_ringing\<lparr>s_heap := (s_heap ex_init)(0 := ex_refused_txn), s_pool := [(99, [(ex_refused_key, 0)])],
       s_timers := [0 \<mapsto> (128000, \<lparr>td_eTxnType = INV_SER_TXN, td_eTimerType = TIMER_H,
         td_pTxnKey = Some ex_refused_key\<rparr>)],
       s_next_timer := 1, s_events := [EvSend (Some ''486'') (Some ex_stream) 7]\<rparr>"

definition ex_key_486 :: "txn_type \<Rightarrow> SipTxnKey" where
  "ex_key_486 ty =
     (ex_key ''INVITE'' ty)\<lparr>m_eMsgType := RESP_TYPE, m_pRequestUri := None, m_pszToTag := Some ''t'', m_nRespCode := 486\<rparr>"

lemma ex_atoi_486: "SipPf_Atoi (Some ''486'') = 486"
  by code_simp

lemma ex_code_486: "GetStatusCode (ex_response meth ''486'') = 486"
  by (simp add: ex_atoi_486 GetStatusCode_def SipStatusLine_GetStatusCodeAsInt_def ex_response_def)

lemma ex_486_method: "GetMethodType (ex_response ''INVITE'' ''486'') = METHOD_INVITE"
  by code_simp

lemma ex_486_params: "CheckTxnMandatoryParams (ex_response ''INVITE'' ''486'') = Some (RESP_TYPE, METHOD_INVITE)"
  unfolding CheckTxnMandatoryParams_def ex_486_method by (simp add: HasHeader_def ex_data)

lemma ex_486_of_msg: "SipTxnKey_of_msg (ex_response ''INVITE'' ''486'') e = (ex_key_486 INVALID_TXN, e)"
  by (simp add: SipTxnKey_of_msg_def ex_atoi_486 GetStatusCode_def SipStatusLine_GetStatusCodeAsInt_def
      SipTxnKey_fill_tags_def ex_key_486_def ex_key_def ex_data)

lemma ex_486_type: "(ex_key_486 ty')\<lparr>key_eTxnType := ty\<rparr> = ex_key_486 ty" "m_eMsgType (ex_key_486 ty) = RESP_TYPE"
  "m_pszMethod (ex_key_486 ty) = Some ''INVITE''"
  by (simp_all add: ex_key_486_def ex_key_def ex_data)

lemma ex_486_match: "CompareKeys (ex_invite_key\<lparr>m_nRespCode := c\<rparr>) (Some (ex_key_486 ty))"
  "CompareKeys ex_invite_key (Some (ex_key_486 ty))"
  by (simp_all add: CompareKeys_iff txn_matches_def same_method_def compatible_tags_def compatible_rseq_def
      ex_key_486_def ex_key_def SipTxnKey_new_def)

lemma ex_486_hash: "pool_key (ex_key_486 ty) = 99"
  using ex_hash [of "''INVITE''" ty] by (simp add: pool_key_def ex_key_486_def)

lemma ex_refused_copy: "SipTxnKey_copy (Some ex_refused_key) e = (ex_refused_key, e)"
  by (rule copy_complete) (simp add: copyable_def ex_key_def)

lemma ex_refused_step:
  "stack_step (CallSendMsg (Some (ex_response ''INVITE'' ''486'')) (Some ex_stream) (Some ex_user_data) ''486'')
     ex_ringing = ex_refused"
  by (simp add: ex_ringing_def ex_refused_def ex_refused_txn_def ex_stream_def ex_486_params ex_486_method
      ex_486_of_msg ex_486_type ex_486_match ex_486_hash ex_code_486 ex_refused_copy DeleteTxnKey_filter
      ex_recv_eval ex_send_eval
      ex_server_eval ex_user_data_def ex_init_def ex_udp_def ISipUserData_new_def
      stack_init_def SipTxn_init_def SipTxnTimerValues_new_def SipConfiguration_new_def)

lemma ex_refused_reachable: "reachable ex_refused"
  unfolding ex_refused_step [symmetric]
  by (rule reachable.step [OF ex_ringing_reachable step.call]) (simp add: ex_ringing_def ex_init_running)

text \<open>The ACK of the 486.\<close>

lemma ex_ack_method: "GetMethodType (ex_request ''ACK'') = METHOD_ACK"
  by code_simp

lemma ex_ack_match: "CompareKeys ex_refused_key (Some (ex_key ''ACK'' ty))"
  by (simp add: CompareKeys_iff txn_matches_def same_method_def compatible_tags_def compatible_rseq_def
      ex_key_def SipTxnKey_new_def SIP_SUCCESSFUL_RESP_def)

lemma ex_ack_end:
  "\<exists>s'. OnRecvMessage encode (Some (ex_request ''ACK'')) (Some ex_stream) (Some ex_user_data) ex_refused =
       (False, STATUS_INVALID, None, Some ex_user_data, s') \<and>
     m_eTxnType (txn s' 0) = INV_SER_TXN \<and> m_nTxnState (txn s' 0) = 4 \<and>
     s_pool s' = s_pool ex_refused \<and> s_timers s' = (\<lambda>_. None)"
  by (simp add: ex_ringing_def ex_refused_def ex_refused_txn_def ex_stream_def ex_params ex_ack_method ex_of_msg
      ex_ack_match ex_hash ex_key_msg ex_type ex_recv_eval ex_send_eval
      ex_server_eval ex_user_data_def ex_init_def ex_udp_def ISipUserData_new_def
      stack_init_def SipTxn_init_def SipTxnTimerValues_new_def SipConfiguration_new_def fun_eq_iff)

end
