(* ===== verification/Data_Properties.thy ===== *)
theory Data_Properties
  imports Examples
begin

text \<open>
  Properties of the data of the transaction layer: keys and their comparison, the list of
  keys of reliable provisional responses, the buckets of the pool, timer values, text.
\<close>

subsection \<open>Keys\<close>

text \<open>comparing a stored key with the key of a message decides exactly the condition
  \<open>txn_matches\<close>: branch (up to case, unless the rule is off), CSeq number, method, Call-ID,
  From tag, To tags and RSeq that do not contradict each other.\<close>

theorem compare_keys_decides_match:
  "CompareKeys k (Some g) \<longleftrightarrow> txn_matches k g"
  by (rule CompareKeys_iff)

text \<open>the ACK of a 2xx never matches the INVITE server transaction that sent it (it is a
  transaction of its own), while the ACK of a failure response matches it.\<close>

theorem ack_matches_only_failures:
  assumes "copyable k" and "m_pszMethod k = INVITE_METHOD" and "key_eTxnType k = INV_SER_TXN"
    and "g = k\<lparr>m_pszMethod := ACK_METHOD, m_nRespCode := 0\<rparr>"
  shows "CompareKeys k (Some g) \<longleftrightarrow> \<not> SIP_SUCCESSFUL_RESP (m_nRespCode k)"
  using assms by (auto simp: CompareKeys_iff txn_matches_def same_method_def copyable_def HasRule_def)

theorem ack_matches_only_failures_witness:
  "CompareKeys ((ex_key ''INVITE'' INV_SER_TXN)\<lparr>m_nRespCode := 486\<rparr>)
     (Some ((ex_key ''ACK'' INV_SER_TXN)\<lparr>m_nRespCode := 0\<rparr>)) \<and>
   \<not> CompareKeys ((ex_key ''INVITE'' INV_SER_TXN)\<lparr>m_nRespCode := 200\<rparr>)
     (Some ((ex_key ''ACK'' INV_SER_TXN)\<lparr>m_nRespCode := 0\<rparr>))"
  using ack_matches_only_failures [of "(ex_key ''INVITE'' INV_SER_TXN)\<lparr>m_nRespCode := 486\<rparr>"
      "(ex_key ''ACK'' INV_SER_TXN)\<lparr>m_nRespCode := 0\<rparr>"]
    ack_matches_only_failures [of "(ex_key ''INVITE'' INV_SER_TXN)\<lparr>m_nRespCode := 200\<rparr>"
      "(ex_key ''ACK'' INV_SER_TXN)\<lparr>m_nRespCode := 0\<rparr>"]
  by (simp add: ex_key_def SipTxnKey_new_def copyable_def SIP_SUCCESSFUL_RESP_def)

text \<open>The copy constructor of a key yields an equal key and leaves the error cell alone
  when branch, host, method, From tag and Call-ID are present; when one is missing it reports
  the failed allocation 130.\<close>

theorem key_copy_equal_or_error:
  "SipTxnKey_copy (Some k) err = (k, err) \<and> copyable k \<or>
   snd (SipTxnKey_copy (Some k) err) = E_ERR_PF_MALLOCFAILED \<and> \<not> copyable k"
  using copy_complete copy_incomplete by blast

subsection \<open>The key list\<close>

text \<open>on a list of fewer than 65536 keys the search ends, finds the first key that matches
  and gives the caller's key back with its rules restored.\<close>

theorem search_finds_first:
  assumes "length keys < 2 ^ 16"
  shows "\<exists>r. SearchTxnKey user b keys = Some (r, user) \<and>
    (case r of None \<Rightarrow> \<forall>k\<in>set keys. \<not> search_matches b user k
     | Some i \<Rightarrow> i < length keys \<and> search_matches b user (keys ! i) \<and>
         (\<forall>j<i. \<not> search_matches b user (keys ! j)))"
  using SearchTxnKey_find_index [OF assms, of user b]
  by (auto dest: find_index_SomeD simp del: find_index_None simp: find_index_None split: option.split)

theorem search_finds_first_witness:
  "\<exists>r. SearchTxnKey (ex_key ''PRACK'' NON_INV_SER_TXN) True
          [ex_key ''OPTIONS'' NON_INV_SER_TXN, ex_key ''INVITE'' INV_SER_TXN] =
        Some (r, ex_key ''PRACK'' NON_INV_SER_TXN)"
  using search_finds_first [of "[ex_key ''OPTIONS'' NON_INV_SER_TXN, ex_key ''INVITE'' INV_SER_TXN]"
      "ex_key ''PRACK'' NON_INV_SER_TXN" True] by auto

text \<open>deleting a key removes every stored key that belongs to its INVITE and no other, in
  order; it answers false exactly on an empty list.\<close>

theorem delete_is_filter:
  "DeleteTxnKey (Some user) b keys =
     (keys \<noteq> [], Some user, filter (\<lambda>k. \<not> delete_matches b user k) keys)"
  by (rule DeleteTxnKey_filter)

subsection \<open>The pool\<close>

text \<open>The hash of a Call-ID fits 28 bits, whatever the text.\<close>

theorem hash_fits_28_bits: "unat (GetHashCode s) < 2 ^ 28"
  using GetHashCode_bound [of s] by (simp add: word_less_nat_alt)

text \<open>The vector of \<open>ImsMap\<close> is a map: after an insertion a search finds the value of the
  new key and every other key as before, and the vector stays sorted without duplicates.\<close>

theorem ims_map_insert_lookup:
  assumes "ImsMap_inv m"
  shows "ImsMap_inv (ImsMap_Add k v m) \<and>
    (\<forall>k'. ImsMap_lookup (ImsMap_Add k v m) k' = (if k' = k then Some v else ImsMap_lookup m k'))"
  using ims.inv_put [OF assms] ims.lookup_put [OF assms] by simp

theorem ims_map_insert_lookup_witness:
  "\<forall>k'. ImsMap_lookup (ImsMap_Add (5 :: u32) ''b'' [(3, ''a''), (7, ''c'')]) k' =
     (if k' = 5 then Some ''b'' else ImsMap_lookup [(3, ''a''), (7, ''c'')] k')"
  using ims_map_insert_lookup [of "[(3 :: u32, ''a''), (7, ''c'')]" 5 "''b''"]
  by (simp add: ImsMap_inv_def)

lemma transaction_count: "GetTransactionCount pool = length (pool_entries pool)"
proof -
  have "foldl (\<lambda>n e. n + length (snd e)) n pool = n + length (pool_entries pool)" for n
    by (induction pool arbitrary: n) (simp_all add: pool_entries_def)
  then show ?thesis by (simp add: GetTransactionCount_def)
qed

text \<open>over all buckets the pool is one collection: a search finds the first entry whose
  key matches, an insertion adds one entry, a removal takes exactly the entry the search
  finds, and the number of transactions is the number of entries.\<close>

theorem pool_is_one_collection:
  assumes "pool_wf pool"
  shows "FindTransaction g pool = List.find (\<lambda>e. CompareKeys (fst e) (Some g)) (pool_entries pool) \<and>
    mset (pool_entries (AddTransaction_pool k p pool)) = add_mset (k, p) (mset (pool_entries pool)) \<and>
    fst (RemoveTransaction g TXN_OPT_REMOVE pool) = FindTransaction g pool \<and>
    mset (pool_entries (snd (RemoveTransaction g TXN_OPT_REMOVE pool))) =
      mset (pool_entries pool) - (case FindTransaction g pool of None \<Rightarrow> {#} | Some e \<Rightarrow> {#e#}) \<and>
    pool_wf (AddTransaction_pool k p pool) \<and> pool_wf (snd (RemoveTransaction g TXN_OPT_REMOVE pool)) \<and>
    GetTransactionCount pool = length (pool_entries pool)"
  using txn_db.find_first [OF assms] txn_db.entries_ins [OF assms] txn_db.rem_find [OF assms]
    txn_db.entries_rem [OF assms] txn_db.wf_ins [OF assms] txn_db.wf_rem [OF assms] transaction_count
  by simp

theorem pool_is_one_collection_witness:
  "fst (RemoveTransaction (ex_key ''INVITE'' INV_CLI_TXN) TXN_OPT_REMOVE
      (AddTransaction_pool (ex_key ''INVITE'' INV_CLI_TXN) 4 [])) = Some (ex_key ''INVITE'' INV_CLI_TXN, 4)"
proof -
  let ?k = "ex_key ''INVITE'' INV_CLI_TXN"
  have wf: "pool_wf []" by (rule txn_db.wf_empty)
  have "pool_wf (AddTransaction_pool ?k 4 [])" using pool_is_one_collection [OF wf] by blast
  from pool_is_one_collection [OF this]
  have "fst (RemoveTransaction ?k TXN_OPT_REMOVE (AddTransaction_pool ?k 4 [])) =
    FindTransaction ?k (AddTransaction_pool ?k 4 [])" by blast
  also have "\<dots> = Some (?k, 4)"
    by (rule txn_db.find_ins [OF wf]) (simp_all add: ex_match FindTransaction_def ImsMap_GetIndexOfKey_def)
  finally show ?thesis .
qed

subsection \<open>Timer values\<close>

text \<open>C16: with any known option set, \<open>UpdateSipTimers\<close> overwrites exactly the timers whose
  option bits (\<open>update_mask\<close>) are set and keeps the others. The mask of timer K is not its own
  option bit but the bits of T1, T4 and timer A, since the code tests the enumerator 13.\<close>

theorem update_timers_by_mask:
  assumes "t \<in> set timer_ids" and "opts AND TV_ALL \<noteq> 0"
  shows "GetTimerValue t (snd (UpdateSipTimers opts (Some p) v)) =
           (if opts AND update_mask t \<noteq> 0 then GetTimerValue t p else GetTimerValue t v)"
  by (rule UpdateSipTimers_get [OF assms])

theorem update_timers_by_mask_witness:
  "GetTimerValue TIMER_K (snd (UpdateSipTimers TV_TIMER_K
      (Some (SipTxnTimerValues_new SipConfiguration_new\<lparr>m_nTimerK_Value := 1\<rparr>))
      (SipTxnTimerValues_new SipConfiguration_new))) = 17000"
  using update_timers_by_mask [of TIMER_K TV_TIMER_K "SipTxnTimerValues_new SipConfiguration_new\<lparr>m_nTimerK_Value := 1\<rparr>"
      "SipTxnTimerValues_new SipConfiguration_new"]
  by (simp add: timer_ids_def update_mask_def GetTimerValue_def SipTxnTimerValues_new_def SipConfiguration_new_def)

end
