(* ===== verification/Fsm_Diagram.thy ===== *)
theory Fsm_Diagram
  imports Txn_Timeout
begin

text \<open>
  The abstract specification of the four transaction state machines: the transition diagrams
  of RFC 3261 (figures 5 to 8), in the form the code draws them in. The code differs from the
  RFC in two places, which the diagram shows: an INVITE server transaction that sent a 2xx
  waits for its ACK in the Completed state, and a transport error ends a client transaction
  in the Proceeding and Completed states too. The locale \<open>txn_diagram\<close> is the refinement; it
  holds for transactions whose timer values are positive, as the configured ones are.
\<close>

subsection \<open>The diagrams\<close>

datatype rfc_state = Idle | Calling | Trying | Proceeding | Completed | Confirmed | Terminated

datatype rfc_event =
    SendRequest | RecvRequest | Provisional | Success | Failure | FinalResponse | RecvAck
  | RetransmitTimer | LingerTimer | TransportError | NoEvent

inductive rfc_step :: "txn_type \<Rightarrow> rfc_state \<Rightarrow> rfc_event \<Rightarrow> rfc_state \<Rightarrow> bool" where
  ic_retransmit: "rfc_step INV_CLI_TXN Calling RetransmitTimer Calling"
| ic_give_up: "rfc_step INV_CLI_TXN Calling RetransmitTimer Terminated"
| ic_ringing: "st \<in> {Calling, Proceeding} \<Longrightarrow> rfc_step INV_CLI_TXN st Provisional Proceeding"
| ic_accepted: "st \<in> {Calling, Proceeding} \<Longrightarrow> rfc_step INV_CLI_TXN st Success Terminated"
| ic_refused_udp: "st \<in> {Calling, Proceeding} \<Longrightarrow> rfc_step INV_CLI_TXN st Failure Completed"
| ic_refused_tcp: "st \<in> {Calling, Proceeding} \<Longrightarrow> rfc_step INV_CLI_TXN st Failure Terminated"
| ic_late: "ev \<in> {Provisional, Failure} \<Longrightarrow> rfc_step INV_CLI_TXN Completed ev Completed"
| ic_linger: "rfc_step INV_CLI_TXN Completed LingerTimer Terminated"
| ic_error: "st \<in> {Calling, Proceeding, Completed} \<Longrightarrow> rfc_step INV_CLI_TXN st TransportError Terminated"
| is_again: "st \<in> {Proceeding, Completed} \<Longrightarrow> rfc_step INV_SER_TXN st RecvRequest st"
| is_ringing: "rfc_step INV_SER_TXN Proceeding Provisional Proceeding"
| is_refuse: "rfc_step INV_SER_TXN Proceeding Failure Completed"
| is_accept: "rfc_step INV_SER_TXN Proceeding Success Completed"
| is_accept_no_timer: "rfc_step INV_SER_TXN Proceeding Success Terminated"
| is_retransmit: "st \<in> {Proceeding, Completed} \<Longrightarrow> rfc_step INV_SER_TXN st RetransmitTimer st"
| is_give_up: "st \<in> {Proceeding, Completed} \<Longrightarrow> rfc_step INV_SER_TXN st RetransmitTimer Terminated"
| is_ack_udp: "rfc_step INV_SER_TXN Completed RecvAck Confirmed"
| is_ack_tcp: "rfc_step INV_SER_TXN Completed RecvAck Terminated"
| is_ack_again: "rfc_step INV_SER_TXN Confirmed RecvAck Confirmed"
| is_linger: "rfc_step INV_SER_TXN Confirmed LingerTimer Terminated"
| is_error: "st \<in> {Proceeding, Completed} \<Longrightarrow> rfc_step INV_SER_TXN st TransportError Terminated"
| nc_retransmit: "st \<in> {Trying, Proceeding} \<Longrightarrow> rfc_step NON_INV_CLI_TXN st RetransmitTimer st"
| nc_give_up: "st \<in> {Trying, Proceeding} \<Longrightarrow> rfc_step NON_INV_CLI_TXN st RetransmitTimer Terminated"
| nc_progress: "st \<in> {Trying, Proceeding} \<Longrightarrow> rfc_step NON_INV_CLI_TXN st Provisional Proceeding"
| nc_final_udp: "st \<in> {Trying, Proceeding} \<Longrightarrow> rfc_step NON_INV_CLI_TXN st FinalResponse Completed"
| nc_final_tcp: "st \<in> {Trying, Proceeding} \<Longrightarrow> rfc_step NON_INV_CLI_TXN st FinalResponse Terminated"
| nc_late: "ev \<in> {Provisional, FinalResponse} \<Longrightarrow> rfc_step NON_INV_CLI_TXN Completed ev Completed"
| nc_linger: "rfc_step NON_INV_CLI_TXN Completed LingerTimer Terminated"
| nc_error: "st \<in> {Trying, Proceeding, Completed} \<Longrightarrow> rfc_step NON_INV_CLI_TXN st TransportError Terminated"
| ns_again: "st \<in> {Trying, Proceeding, Completed} \<Longrightarrow> rfc_step NON_INV_SER_TXN st RecvRequest st"
| ns_progress: "st \<in> {Trying, Proceeding} \<Longrightarrow> rfc_step NON_INV_SER_TXN st Provisional Proceeding"
| ns_final_udp: "st \<in> {Trying, Proceeding} \<Longrightarrow> rfc_step NON_INV_SER_TXN st FinalResponse Completed"
| ns_final_tcp: "st \<in> {Trying, Proceeding} \<Longrightarrow> rfc_step NON_INV_SER_TXN st FinalResponse Terminated"
| ns_linger: "rfc_step NON_INV_SER_TXN Completed LingerTimer Terminated"
| ns_error: "st \<in> {Trying, Proceeding, Completed} \<Longrightarrow> rfc_step NON_INV_SER_TXN st TransportError Terminated"

inductive_cases from_terminated: "rfc_step ty Terminated ev st"

inductive_simps rfc_step_simps [simp]:
  "rfc_step INV_CLI_TXN st ev st'" "rfc_step INV_SER_TXN st ev st'"
  "rfc_step NON_INV_CLI_TXN st ev st'" "rfc_step NON_INV_SER_TXN st ev st'"

subsection \<open>The abstraction\<close>

definition rfc_states :: "txn_type \<Rightarrow> rfc_state list" where
  "rfc_states ty =
     (case ty of
        INV_CLI_TXN \<Rightarrow> [Idle, Calling, Proceeding, Completed, Terminated]
      | INV_SER_TXN \<Rightarrow> [Idle, Proceeding, Completed, Confirmed, Terminated]
      | NON_INV_CLI_TXN \<Rightarrow> [Idle, Trying, Proceeding, Completed, Terminated]
      | NON_INV_SER_TXN \<Rightarrow> [Idle, Trying, Proceeding, Completed, Terminated]
      | INVALID_TXN \<Rightarrow> [])"

definition rfc_events :: "txn_type \<Rightarrow> rfc_event list" where
  "rfc_events ty =
     (case ty of
        INV_CLI_TXN \<Rightarrow> [SendRequest, RetransmitTimer, LingerTimer, Provisional, Success, Failure,
          TransportError, NoEvent]
      | INV_SER_TXN \<Rightarrow> [RecvRequest, Provisional, Failure, Success, TransportError, RecvAck,
          RetransmitTimer, LingerTimer, NoEvent]
      | NON_INV_CLI_TXN \<Rightarrow> [SendRequest, RetransmitTimer, Provisional, FinalResponse, TransportError,
          LingerTimer, NoEvent]
      | NON_INV_SER_TXN \<Rightarrow> [RecvRequest, Provisional, FinalResponse, TransportError, LingerTimer, NoEvent]
      | INVALID_TXN \<Rightarrow> [])"

definition rfc_state_of :: "SipTxn \<Rightarrow> rfc_state" where
  "rfc_state_of t = rfc_states (m_eTxnType t) ! m_nTxnState t"

definition timers_set :: "SipTxn \<Rightarrow> bool" where
  "timers_set t \<longleftrightarrow> (\<forall>i\<in>set timer_ids. GetTimerValue i (objTxnTimerValues t) > 0)"

lemma timers_setD:
  "timers_set t \<Longrightarrow> GetTimerValue TIMER_T1 (objTxnTimerValues t) > 0"
  "timers_set t \<Longrightarrow> GetTimerValue TIMER_D (objTxnTimerValues t) > 0"
  "timers_set t \<Longrightarrow> GetTimerValue TIMER_H (objTxnTimerValues t) > 0"
  "timers_set t \<Longrightarrow> GetTimerValue TIMER_I (objTxnTimerValues t) > 0"
  "timers_set t \<Longrightarrow> GetTimerValue TIMER_J (objTxnTimerValues t) > 0"
  "timers_set t \<Longrightarrow> GetTimerValue TIMER_K (objTxnTimerValues t) > 0"
  by (simp_all add: timers_set_def timer_ids_def)

subsection \<open>What the operations of a handler leave alone\<close>

definition fsm_view :: "SipTxn \<Rightarrow> txn_type \<times> nat \<times> SipTxnTimerValues \<times> SipTransportInfo option" where
  "fsm_view t = (m_eTxnType t, m_nTxnState t, objTxnTimerValues t, m_pTranspInfo t)"

lemma view_ops [simp]:
  "fsm_view (txn (snd (StopTxnTimer p s)) q) = fsm_view (txn s q)"
  "fsm_view (txn (IncrDurationExpired d p s) q) = fsm_view (txn s q)"
  "fsm_view (txn (IncrTxnCount p s) q) = fsm_view (txn s q)"
  "fsm_view (txn (SetCurrentDuration d p s) q) = fsm_view (txn s q)"
  "fsm_view (txn (SetMaxDuration d p s) q) = fsm_view (txn s q)"
  "fsm_view (txn (InitRetransmissionInfo p s) q) = fsm_view (txn s q)"
  "fsm_view (txn (fsm_DeleteTxnKey p s) q) = fsm_view (txn s q)"
  "fsm_view (txn (snd (CreateAckRequest m ud s)) q) = fsm_view (txn s q)"
  "fsm_view (txn (crash c s) q) = fsm_view (txn s q)"
  "fsm_view (txn (set_err e s) q) = fsm_view (txn s q)"
  "fsm_view (txn (s\<lparr>s_txnKeyList := keys\<rparr>) q) = fsm_view (txn s q)"
  by (simp_all add: fsm_view_def upd_txn_def case_prod_unfold Let_def
      CreateAckRequest_def IncrDurationExpired_def IncrTxnCount_def InitRetransmissionInfo_def SetCurrentDuration_def SetMaxDuration_def StopTimerEx_def StopTxnTimer_def crash_def
      fsm_DeleteTxnKey_def set_err_def
      split: option.split)

lemma view_StartTxnTimer:
  "d > 0 \<Longrightarrow> fsm_view (txn (snd (StartTxnTimer cbk p ty d s)) q) = fsm_view (txn s q)"
  by (auto simp: StartTxnTimer_def StartTimer_def fsm_view_def upd_txn_def Let_def split: option.split)

lemma view_SetTxnState:
  "fsm_view (txn (SetTxnState st p s) p) = (case fsm_view (txn s p) of (ty, _, v, ti) \<Rightarrow> (ty, st, v, ti))"
  by (simp add: fsm_view_def SetTxnState_def upd_txn_def)

text \<open>The fields, from the view.\<close>

lemma view_fields:
  assumes "fsm_view t = fsm_view t'"
  shows "m_eTxnType t = m_eTxnType t'" and "m_nTxnState t = m_nTxnState t'"
    and "objTxnTimerValues t = objTxnTimerValues t'" and "GetMsgSentProto t = GetMsgSentProto t'"
  using assms by (simp_all add: fsm_view_def GetMsgSentProto_def)

lemmas view_ops_fields [simp] = view_ops [THEN view_fields(2)] view_ops [THEN view_fields(3)]
  view_ops [THEN view_fields(4)]

subsection \<open>Handlers\<close>

text \<open>
  \<open>outcome S p s r\<close>: a handler that succeeds leaves the transaction in one of the states \<open>S\<close>,
  one that fails leaves its state alone; its type and its timer values stay.
\<close>

definition with_state :: "nat \<Rightarrow> SipTxn \<Rightarrow> txn_type \<times> nat \<times> SipTxnTimerValues \<times> SipTransportInfo option" where
  "with_state st t = (m_eTxnType t, st, objTxnTimerValues t, m_pTranspInfo t)"

definition outcome :: "nat set \<Rightarrow> ptr \<Rightarrow> stack \<Rightarrow> bool \<times> pv_data \<times> stack \<Rightarrow> bool" where
  "outcome S p s r \<longleftrightarrow>
     (if fst r then \<exists>st\<in>S. fsm_view (txn (snd (snd r)) p) = with_state st (txn s p)
      else fsm_view (txn (snd (snd r)) p) = fsm_view (txn s p))"

lemma with_state_view: "with_state (m_nTxnState t) t = fsm_view t"
  by (simp add: with_state_def fsm_view_def)

lemma view_SetTxnState_with [simp]:
  "fsm_view (txn (SetTxnState st p s) p) = with_state st (txn s p)"
  by (simp add: fsm_view_def with_state_def SetTxnState_def upd_txn_def)

lemma with_state_cong: "fsm_view t = fsm_view t' \<Longrightarrow> with_state st t = with_state st t'"
  by (simp add: fsm_view_def with_state_def)

lemmas view_ops_state [simp] = view_ops [THEN with_state_cong]

lemmas outcome_defs = outcome_def case_prod_unfold Let_def

text \<open>A timer of positive duration, in the states it is started from.\<close>

lemma view_timer_started:
  assumes "0 < d"
  shows "with_state st (txn (snd (StartTxnTimer cbk p ty d s)) q) = with_state st (txn s q)"
  using with_state_cong [OF view_StartTxnTimer [OF assms]] .

lemma InvCli_outcomes:
  assumes "timers_set (txn s p)"
  shows "outcome {m_nTxnState (txn s p), 4} p s (InvCliFsm_CallingStTimerA_B_TimeoutEvt cbk p pv s)"
    and "outcome {2} p s (InvCliFsm_CallingStRecv1xxRespEvt cbk p pv s)"
    and "outcome {4} p s (InvCliFsm_CallingStRecv2xxRespEvt cbk p pv s)"
    and "outcome {3, 4} p s (InvCliFsm_CallingStRecv3xx6xxRespEvt cbk p pv s)"
    and "outcome {4} p s (InvCliFsm_CallingStTranspErrorEvt cbk p pv s)"
    and "outcome {m_nTxnState (txn s p)} p s (InvCliFsm_ProceedingStRecv1xxRespEvt cbk p pv s)"
    and "outcome {4} p s (InvCliFsm_ProceedingStRecv2xxRespEvt cbk p pv s)"
    and "outcome {3, 4} p s (InvCliFsm_ProceedingStRecv3xx6xxRespEvt cbk p pv s)"
    and "outcome {4} p s (InvCliFsm_ProceedingStTranspErrorEvt cbk p pv s)"
    and "outcome {4} p s (InvCliFsm_CompletedStTimerD_TimeoutEvt cbk p pv s)"
    and "outcome {m_nTxnState (txn s p)} p s (InvCliFsm_CompletedStRecv1xxRespEvt cbk p pv s)"
    and "outcome {m_nTxnState (txn s p)} p s (InvCliFsm_CompletedStRecv3xx6xxRespEvt cbk p pv s)"
    and "outcome {4} p s (InvCliFsm_CompletedStTranspErrorEvt cbk p pv s)"
    and "outcome {} p s (InvCliFsm_NullFxn cbk p pv s)"
proof -
  show "outcome {m_nTxnState (txn s p), 4} p s (InvCliFsm_CallingStTimerA_B_TimeoutEvt cbk p pv s)"
    unfolding InvCliFsm_CallingStTimerA_B_TimeoutEvt_def
    by (auto simp: outcome_defs with_state_view view_StartTxnTimer view_timer_started split: bool.split)
  have failure: "outcome {3, 4} p s (InvCliFsm_RecvFailure cbk p pv s1)"
    if "fsm_view (txn s1 p) = fsm_view (txn s p)" for s1
    using assms timers_setD(2) [OF assms] that view_fields [OF that] with_state_cong [OF that]
    unfolding InvCliFsm_RecvFailure_def sipInvCli_HandleFailureResp_def
    by (cases pv)
      (auto simp: outcome_defs view_StartTxnTimer view_timer_started split: option.split bool.split)
  show "outcome {3, 4} p s (InvCliFsm_CallingStRecv3xx6xxRespEvt cbk p pv s)"
    "outcome {3, 4} p s (InvCliFsm_ProceedingStRecv3xx6xxRespEvt cbk p pv s)"
    unfolding InvCliFsm_CallingStRecv3xx6xxRespEvt_def InvCliFsm_ProceedingStRecv3xx6xxRespEvt_def
    by (rule failure; simp)+
  show "outcome {m_nTxnState (txn s p)} p s (InvCliFsm_ProceedingStRecv1xxRespEvt cbk p pv s)"
    unfolding InvCliFsm_ProceedingStRecv1xxRespEvt_def
    by (cases pv) (auto simp: outcome_defs with_state_view split: option.split)
qed (cases pv; simp add: outcome_defs with_state_view InvCliFsm_CallingStRecv1xxRespEvt_def
  InvCliFsm_CallingStRecv2xxRespEvt_def InvCliFsm_CallingStTranspErrorEvt_def
  InvCliFsm_ProceedingStRecv2xxRespEvt_def InvCliFsm_ProceedingStTranspErrorEvt_def
  InvCliFsm_CompletedStTimerD_TimeoutEvt_def InvCliFsm_CompletedStRecv1xxRespEvt_def
  InvCliFsm_CompletedStRecv3xx6xxRespEvt_def InvCliFsm_CompletedStTranspErrorEvt_def InvCliFsm_NullFxn_def)+

lemma InvSer_outcomes:
  assumes "timers_set (txn s p)"
  shows "outcome {m_nTxnState (txn s p)} p s (InvSerFsm_ProceedingStRecvInvReqEvt cbk p pv s)"
    and "outcome {m_nTxnState (txn s p)} p s (InvSerFsm_ProceedingStSendNon100ProvRespEvt cbk p pv s)"
    and "outcome {2} p s (InvSerFsm_ProceedingStSend3xx6xxFailureRespEvt cbk p pv s)"
    and "outcome {2, 4} p s (InvSerFsm_ProceedingStSend2xxSuccessRespEvt cbk p pv s)"
    and "outcome {4} p s (InvSerFsm_ProceedingStTranspErrorEvt cbk p pv s)"
    and "outcome {m_nTxnState (txn s p), 4} p s (InvSerFsm_ProceedingStTimerG_H_TimeoutEvt cbk p pv s)"
    and "outcome {m_nTxnState (txn s p)} p s (InvSerFsm_CompletedStRecvInvReqEvt cbk p pv s)"
    and "outcome {4} p s (InvSerFsm_CompletedStTranspErrorEvt cbk p pv s)"
    and "outcome {3, 4} p s (InvSerFsm_CompletedStRecvAckReqEvt cbk p pv s)"
    and "outcome {m_nTxnState (txn s p), 4} p s (InvSerFsm_CompletedStTimerG_H_TimeoutEvt cbk p pv s)"
    and "outcome {m_nTxnState (txn s p)} p s (InvSerFsm_ConfirmedStRecvAckReqEvt cbk p pv s)"
    and "outcome {4} p s (InvSerFsm_ConfirmedStTimerI_TimeoutEvt cbk p pv s)"
    and "outcome {} p s (InvSerFsm_NullFxn cbk p pv s)"
proof -
  have begin_view [simp]: "fsm_view (txn (InvSerFsm_begin_response p s) p) = fsm_view (txn s p)"
    by (simp add: InvSerFsm_begin_response_def)
  note begin_fields [simp] = view_fields [OF begin_view] with_state_cong [OF begin_view]
  show "outcome {m_nTxnState (txn s p)} p s (InvSerFsm_ProceedingStSendNon100ProvRespEvt cbk p pv s)"
    using timers_setD(1) [OF assms] unfolding InvSerFsm_ProceedingStSendNon100ProvRespEvt_def
    by (cases pv) (auto simp: outcome_defs with_state_view view_StartTxnTimer split: bool.split)
  show "outcome {2} p s (InvSerFsm_ProceedingStSend3xx6xxFailureRespEvt cbk p pv s)"
    using timers_setD(1,3) [OF assms] unfolding InvSerFsm_ProceedingStSend3xx6xxFailureRespEvt_def
    by (cases pv) (auto simp: outcome_defs view_StartTxnTimer view_timer_started split: option.split bool.split)
  show "outcome {2, 4} p s (InvSerFsm_ProceedingStSend2xxSuccessRespEvt cbk p pv s)"
    using timers_setD(3) [OF assms] unfolding InvSerFsm_ProceedingStSend2xxSuccessRespEvt_def
    by (cases pv) (auto simp: outcome_defs view_timer_started split: bool.split)
  show "outcome {m_nTxnState (txn s p), 4} p s (InvSerFsm_ProceedingStTimerG_H_TimeoutEvt cbk p pv s)"
    unfolding InvSerFsm_ProceedingStTimerG_H_TimeoutEvt_def
    by (cases pv) (auto simp: outcome_defs with_state_view view_StartTxnTimer split: bool.split)
  show "outcome {m_nTxnState (txn s p), 4} p s (InvSerFsm_CompletedStTimerG_H_TimeoutEvt cbk p pv s)"
    unfolding InvSerFsm_CompletedStTimerG_H_TimeoutEvt_def
    by (auto simp: outcome_defs with_state_view view_StartTxnTimer split: bool.split)
  show "outcome {3, 4} p s (InvSerFsm_CompletedStRecvAckReqEvt cbk p pv s)"
    using timers_setD(4) [OF assms] unfolding InvSerFsm_CompletedStRecvAckReqEvt_def
    by (cases pv) (auto simp: outcome_defs view_StartTxnTimer view_timer_started split: bool.split)
qed (cases pv; simp add: outcome_defs with_state_view InvSerFsm_ProceedingStRecvInvReqEvt_def
  InvSerFsm_ProceedingStTranspErrorEvt_def InvSerFsm_CompletedStRecvInvReqEvt_def
  InvSerFsm_CompletedStTranspErrorEvt_def InvSerFsm_ConfirmedStRecvAckReqEvt_def
  InvSerFsm_ConfirmedStTimerI_TimeoutEvt_def InvSerFsm_NullFxn_def)+

lemma NonInvCli_outcomes:
  assumes "timers_set (txn s p)"
  shows "outcome {m_nTxnState (txn s p), 4} p s (NonInvClient_TimeoutHandling cbk p pv s)"
    and "outcome {2} p s (NonInvCliFsm_TryingStRecv1xxRespEvt cbk p pv s)"
    and "outcome {3, 4} p s (NonInvCliFsm_RecvFinal cbk p pv s)"
    and "outcome {4} p s (NonInvCliFsm_TryingStTranspErrorEvt cbk p pv s)"
    and "outcome {m_nTxnState (txn s p)} p s (NonInvCliFsm_ProceedingStRecv1xxRespEvt cbk p pv s)"
    and "outcome {4} p s (NonInvCliFsm_ProceedingStTranspErrorEvt cbk p pv s)"
    and "outcome {4} p s (NonInvCliFsm_CompletedStTimer_K_TimeoutEvt cbk p pv s)"
    and "outcome {m_nTxnState (txn s p)} p s (NonInvCliFsm_CompletedStRecv1xxRespEvt cbk p pv s)"
    and "outcome {m_nTxnState (txn s p)} p s (NonInvCliFsm_CompletedStRecv2xx6xxRespEvt cbk p pv s)"
    and "outcome {4} p s (NonInvCliFsm_CompletedStTranspErrorEvt cbk p pv s)"
    and "outcome {} p s (NonInvCliFsm_NullFxn cbk p pv s)"
proof -
  show "outcome {m_nTxnState (txn s p), 4} p s (NonInvClient_TimeoutHandling cbk p pv s)"
    unfolding NonInvClient_TimeoutHandling_def
    by (auto simp: outcome_defs with_state_view view_StartTxnTimer split: bool.split)
  show "outcome {3, 4} p s (NonInvCliFsm_RecvFinal cbk p pv s)"
    using timers_setD(6) [OF assms] unfolding NonInvCliFsm_RecvFinal_def NonInvCli_Recv2xx6xxResp_def
    by (cases pv) (auto simp: outcome_defs view_StartTxnTimer view_timer_started split: bool.split)
qed (cases pv; simp add: outcome_defs with_state_view NonInvCliFsm_TryingStRecv1xxRespEvt_def
  NonInvCliFsm_TryingStTranspErrorEvt_def NonInvCliFsm_ProceedingStRecv1xxRespEvt_def
  NonInvCliFsm_ProceedingStTranspErrorEvt_def NonInvCliFsm_CompletedStTimer_K_TimeoutEvt_def
  NonInvCliFsm_CompletedStRecv1xxRespEvt_def NonInvCliFsm_CompletedStRecv2xx6xxRespEvt_def
  NonInvCliFsm_CompletedStTranspErrorEvt_def NonInvCliFsm_NullFxn_def)+

lemma NonInvSer_outcomes:
  assumes "timers_set (txn s p)"
  shows "outcome {m_nTxnState (txn s p)} p s (NonInvSerFsm_TryingStRecvNonInvReqEvt cbk p pv s)"
    and "outcome {2} p s (NonInvSerFsm_TryingStSend1xxRespEvt cbk p pv s)"
    and "outcome {3, 4} p s (NonInvSerFsm_SendFinal cbk p pv s)"
    and "outcome {4} p s (NonInvSerFsm_TryingStTranspErrorEvt cbk p pv s)"
    and "outcome {m_nTxnState (txn s p)} p s (NonInvSerFsm_ProceedingStRecvNonInvReqEvt cbk p pv s)"
    and "outcome {m_nTxnState (txn s p)} p s (NonInvSerFsm_ProceedingStSend1xxRespEvt cbk p pv s)"
    and "outcome {4} p s (NonInvSerFsm_ProceedingStTranspErrorEvt cbk p pv s)"
    and "outcome {m_nTxnState (txn s p)} p s (NonInvSerFsm_CompletedStRecvNonInvReqEvt cbk p pv s)"
    and "outcome {4} p s (NonInvSerFsm_CompletedStTranspErrorEvt cbk p pv s)"
    and "outcome {4} p s (NonInvSerFsm_CompletedStTimer_J_TimeoutEvt cbk p pv s)"
    and "outcome {} p s (NonInvSerFsm_NullFxn cbk p pv s)"
proof -
  show "outcome {3, 4} p s (NonInvSerFsm_SendFinal cbk p pv s)"
    using timers_setD(5) [OF assms] unfolding NonInvSerFsm_SendFinal_def NonInvSer_Send2xx6xxResp_def
    by (cases pv) (auto simp: outcome_defs view_StartTxnTimer view_timer_started split: option.split bool.split)
qed (cases pv; simp add: outcome_defs with_state_view NonInvSerFsm_TryingStRecvNonInvReqEvt_def
  NonInvSerFsm_TryingStSend1xxRespEvt_def NonInvSerFsm_TryingStTranspErrorEvt_def
  NonInvSerFsm_ProceedingStRecvNonInvReqEvt_def NonInvSerFsm_ProceedingStSend1xxRespEvt_def
  NonInvSerFsm_ProceedingStTranspErrorEvt_def NonInvSerFsm_CompletedStRecvNonInvReqEvt_def
  NonInvSerFsm_CompletedStTranspErrorEvt_def NonInvSerFsm_CompletedStTimer_J_TimeoutEvt_def
  NonInvSerFsm_NullFxn_def)+

subsection \<open>The refinement\<close>

text \<open>
  The contract of a machine: \<open>InvokeFsm\<close> on a transaction that has left the idle state moves
  it along an edge of its diagram, or fails and leaves it where it is.
\<close>

definition targets :: "txn_type \<Rightarrow> nat \<Rightarrow> nat \<Rightarrow> nat set" where
  "targets ty st ev =
     {st' \<in> {1..4}. rfc_step ty (rfc_states ty ! st) (rfc_events ty ! ev) (rfc_states ty ! st')}"

locale txn_diagram =
  fixes ty :: txn_type
  assumes edges: "m_eTxnType (txn s p) = ty \<Longrightarrow> timers_set (txn s p) \<Longrightarrow> m_nTxnState (txn s p) \<in> {1..4} \<Longrightarrow>
      outcome (targets ty (m_nTxnState (txn s p)) ev) p s (InvokeFsm cbk ev p pv s)"
begin

lemma invoke:
  assumes "m_eTxnType (txn s p) = ty" and "timers_set (txn s p)" and "m_nTxnState (txn s p) \<in> {1..4}"
    and "InvokeFsm cbk ev p pv s = (ok, pv', s')"
  shows "m_eTxnType (txn s' p) = ty" and "timers_set (txn s' p)" and "m_nTxnState (txn s' p) \<in> {1..4}"
    and "if ok then rfc_step ty (rfc_state_of (txn s p)) (rfc_events ty ! ev) (rfc_state_of (txn s' p))
         else rfc_state_of (txn s' p) = rfc_state_of (txn s p)"
proof -
  note out = edges [OF assms(1-3), of ev cbk pv, unfolded assms(4)]
  have "m_eTxnType (txn s' p) = ty \<and> timers_set (txn s' p) \<and> m_nTxnState (txn s' p) \<in> {1..4} \<and>
    (if ok then rfc_step ty (rfc_state_of (txn s p)) (rfc_events ty ! ev) (rfc_state_of (txn s' p))
     else rfc_state_of (txn s' p) = rfc_state_of (txn s p))"
  proof (cases ok)
    case True
    with out obtain st where st: "st \<in> targets ty (m_nTxnState (txn s p)) ev" and v: "fsm_view (txn s' p) = with_state st (txn s p)"
      by (auto simp: outcome_def)
    then have "m_eTxnType (txn s' p) = ty" "m_nTxnState (txn s' p) = st"
      "objTxnTimerValues (txn s' p) = objTxnTimerValues (txn s p)"
      using assms(1) by (simp_all add: fsm_view_def with_state_def)
    with True st assms(1,2) show ?thesis
      by (auto simp: targets_def timers_set_def rfc_state_of_def)
  next
    case False
    with out have "fsm_view (txn s' p) = fsm_view (txn s p)" by (simp add: outcome_def)
    from view_fields [OF this] False assms(1-3) show ?thesis by (simp add: timers_set_def rfc_state_of_def)
  qed
  then show "m_eTxnType (txn s' p) = ty" "timers_set (txn s' p)" "m_nTxnState (txn s' p) \<in> {1..4}"
    "if ok then rfc_step ty (rfc_state_of (txn s p)) (rfc_events ty ! ev) (rfc_state_of (txn s' p))
     else rfc_state_of (txn s' p) = rfc_state_of (txn s p)"
    by simp_all
qed

text \<open>A terminated transaction takes no event.\<close>

lemma terminated_stuck:
  assumes "m_eTxnType (txn s p) = ty" and "timers_set (txn s p)" and "m_nTxnState (txn s p) = 4"
    and "rfc_states ty ! 4 = Terminated"
  shows "\<not> fst (InvokeFsm cbk ev p pv s)"
proof
  assume ok: "fst (InvokeFsm cbk ev p pv s)"
  have range: "m_nTxnState (txn s p) \<in> {1..4}" using assms(3) by simp
  obtain pv' s' where r: "InvokeFsm cbk ev p pv s = (True, pv', s')" using ok by (metis prod.collapse)
  from invoke(4) [OF assms(1,2) range r] assms
  show False by (auto simp: rfc_state_of_def elim: from_terminated)
qed

text \<open>The events of a whole run follow a path of the diagram.\<close>

lemma feed_path:
  assumes "m_eTxnType (txn s p) = ty" and "timers_set (txn s p)" and "m_nTxnState (txn s p) \<in> {1..4}"
  shows "(\<lambda>a b. \<exists>e. rfc_step ty a e b)\<^sup>*\<^sup>* (rfc_state_of (txn s p))
           (rfc_state_of (txn (fold (\<lambda>(ev, pv) s. snd (snd (InvokeFsm cbk ev p pv s))) es s) p))"
  using assms
proof (induction es arbitrary: s)
  case Nil
  then show ?case by simp
next
  case (Cons e es)
  obtain ev pv where e: "e = (ev, pv)" by fastforce
  obtain ok pv' s' where r: "InvokeFsm cbk ev p pv s = (ok, pv', s')" by (metis prod_cases3)
  note inv = invoke [OF Cons.prems r]
  have "(\<lambda>a b. \<exists>e. rfc_step ty a e b)\<^sup>*\<^sup>* (rfc_state_of (txn s p)) (rfc_state_of (txn s' p))"
    using inv(4) by (auto split: if_splits)
  with Cons.IH [OF inv(1-3)] show ?case by (simp add: e r)
qed

end

subsection \<open>The four machines\<close>

lemma outcome_mono: "outcome S p s r \<Longrightarrow> S \<subseteq> S' \<Longrightarrow> outcome S' p s r"
  unfolding outcome_def by (cases "fst r") (simp_all, blast)

lemma outcome_BadIndex: "outcome S p s (False, pv, crash BadIndex s)"
  by (simp add: outcome_def)

lemma states_1_4: "(n :: nat) \<in> {1..4} \<Longrightarrow> n = 1 \<or> n = 2 \<or> n = 3 \<or> n = 4"
  by auto

lemma events_upto:
  "(n :: nat) = 0 \<or> n = 1 \<or> n = 2 \<or> n = 3 \<or> n = 4 \<or> n = 5 \<or> n = 6 \<or> n = 7 \<or> n = 8 \<or> n \<ge> 9"
  by linarith

lemmas dispatch_defs = InvokeFsm_def fsm_table_def table_lookup_def

lemma InvCli_edges:
  assumes "m_eTxnType (txn s p) = INV_CLI_TXN" and "timers_set (txn s p)" and "m_nTxnState (txn s p) \<in> {1..4}"
  shows "outcome (targets INV_CLI_TXN (m_nTxnState (txn s p)) ev) p s (InvokeFsm cbk ev p pv s)"
  using states_1_4 [OF assms(3)] events_upto [of ev] assms(1)
  by (elim disjE)
    (simp_all add: dispatch_defs gpfSipInvClientTxnFsm_def outcome_BadIndex
      InvCli_outcomes [OF assms(2), THEN outcome_mono] targets_def rfc_states_def rfc_events_def
      del: One_nat_def)

lemma InvSer_edges:
  assumes "m_eTxnType (txn s p) = INV_SER_TXN" and "timers_set (txn s p)" and "m_nTxnState (txn s p) \<in> {1..4}"
  shows "outcome (targets INV_SER_TXN (m_nTxnState (txn s p)) ev) p s (InvokeFsm cbk ev p pv s)"
  using states_1_4 [OF assms(3)] events_upto [of ev] assms(1)
  by (elim disjE)
    (simp_all add: dispatch_defs gpfSipInvSerTxnFsm_def outcome_BadIndex
      InvSer_outcomes [OF assms(2), THEN outcome_mono] targets_def rfc_states_def rfc_events_def
      del: One_nat_def)

lemma NonInvCli_edges:
  assumes "m_eTxnType (txn s p) = NON_INV_CLI_TXN" and "timers_set (txn s p)" and "m_nTxnState (txn s p) \<in> {1..4}"
  shows "outcome (targets NON_INV_CLI_TXN (m_nTxnState (txn s p)) ev) p s (InvokeFsm cbk ev p pv s)"
  using states_1_4 [OF assms(3)] events_upto [of ev] assms(1)
  by (elim disjE)
    (simp_all add: dispatch_defs gpfSipNonInvClientTxnFsm_def outcome_BadIndex
      NonInvCliFsm_TryingStTimer_E_F_TimeoutEvt_def NonInvCliFsm_ProceedingStTimer_E_F_TimeoutEvt_def
      NonInvCliFsm_TryingStRecv2xx6xxRespEvt_def NonInvCliFsm_ProceedingStRecv2xx6xxRespEvt_def
      NonInvCli_outcomes [OF assms(2), THEN outcome_mono] targets_def rfc_states_def rfc_events_def
      del: One_nat_def)

lemma NonInvSer_edges:
  assumes "m_eTxnType (txn s p) = NON_INV_SER_TXN" and "timers_set (txn s p)" and "m_nTxnState (txn s p) \<in> {1..4}"
  shows "outcome (targets NON_INV_SER_TXN (m_nTxnState (txn s p)) ev) p s (InvokeFsm cbk ev p pv s)"
  using states_1_4 [OF assms(3)] events_upto [of ev] assms(1)
  by (elim disjE)
    (simp_all add: dispatch_defs gpfSipNonInvSerTxnFsm_def outcome_BadIndex
      NonInvSerFsm_TryingStSend2xx6xxRespEvt_def NonInvSerFsm_ProceedingStSend2xx6xxRespEvt_def
      NonInvSer_outcomes [OF assms(2), THEN outcome_mono] targets_def rfc_states_def rfc_events_def
      del: One_nat_def)

interpretation inv_cli: txn_diagram INV_CLI_TXN
  by unfold_locales (rule InvCli_edges)

interpretation inv_ser: txn_diagram INV_SER_TXN
  by unfold_locales (rule InvSer_edges)

interpretation non_inv_cli: txn_diagram NON_INV_CLI_TXN
  by unfold_locales (rule NonInvCli_edges)

interpretation non_inv_ser: txn_diagram NON_INV_SER_TXN
  by unfold_locales (rule NonInvSer_edges)

subsection \<open>Events that are accepted\<close>

text \<open>
  The converse: with the timer service up, an event that comes with its data is accepted when
  the diagram has an edge for it. \<open>event_data\<close> is the data the layers pass with an event.
\<close>

definition services_up :: "stack \<Rightarrow> bool" where
  "services_up s \<longleftrightarrow> (\<exists>u. s_util s = Some u \<and> u_timer u) \<and> s_timer_ok s"

definition event_data :: "txn_type \<Rightarrow> rfc_event \<Rightarrow> pv_data \<Rightarrow> bool" where
  "event_data ty ev pv \<longleftrightarrow>
     (case ev of
        RetransmitTimer \<Rightarrow> \<exists>td. pv = PvTimeout td
      | LingerTimer \<Rightarrow> \<exists>td. pv = PvTimeout td
      | TransportError \<Rightarrow> \<exists>e. pv = PvError e
      | _ \<Rightarrow> \<exists>d. pv = PvFsm d \<and>
          (ty = INV_SER_TXN \<and> ev = Failure \<or> ty = NON_INV_SER_TXN \<and> ev = FinalResponse \<longrightarrow>
             fd_pTranspParam d \<noteq> None))"

lemma services_ops [simp]:
  "services_up (snd (StopTxnTimer p s)) = services_up s" "services_up (IncrDurationExpired d p s) = services_up s"
  "services_up (fsm_DeleteTxnKey p s) = services_up s" "services_up (InitRetransmissionInfo p s) = services_up s"
  "services_up (snd (CreateAckRequest m ud s)) = services_up s" "services_up (SetTxnState st p s) = services_up s"
  "services_up (s\<lparr>s_txnKeyList := keys\<rparr>) = services_up s" "services_up (set_err e s) = services_up s"
  by (auto simp: services_up_def StopTxnTimer_def StopTimerEx_def crash_def IncrDurationExpired_def upd_txn_def
      fsm_DeleteTxnKey_def InitRetransmissionInfo_def CreateAckRequest_def SetTxnState_def set_err_def
      case_prod_unfold Let_def split: option.split)

lemma StartTxnTimer_starts: "services_up s \<Longrightarrow> fst (StartTxnTimer cbk p ty d s)"
  by (auto simp: services_up_def StartTxnTimer_def StartTimer_def Let_def)

lemma msg_ops [simp]:
  "m_pSipMsg (txn (snd (StopTxnTimer p s)) q) = m_pSipMsg (txn s q)"
  "m_pSipMsg (txn (fsm_DeleteTxnKey p s) q) = m_pSipMsg (txn s q)"
  "m_pSipMsg (txn (snd (CreateAckRequest m ud s)) q) = m_pSipMsg (txn s q)"
  by (auto simp: StopTxnTimer_def StopTimerEx_def crash_def upd_txn_def fsm_DeleteTxnKey_def CreateAckRequest_def
      case_prod_unfold Let_def split: option.split)

lemmas accept_defs = case_prod_unfold Let_def StartTxnTimer_starts

lemma InvCli_accepts:
  assumes "services_up s" and "m_pSipMsg (txn s p) \<noteq> None" and "length (s_txnKeyList s) < 2 ^ 16"
  shows "fst (InvCliFsm_CallingStTimerA_B_TimeoutEvt cbk p pv s)"
    and "fst (InvCliFsm_CallingStRecv1xxRespEvt cbk p (PvFsm d) s)"
    and "fst (InvCliFsm_CallingStRecv2xxRespEvt cbk p (PvFsm d) s)"
    and "fst (InvCliFsm_CallingStRecv3xx6xxRespEvt cbk p (PvFsm d) s)"
    and "fst (InvCliFsm_CallingStTranspErrorEvt cbk p pv s)"
    and "fst (InvCliFsm_ProceedingStRecv1xxRespEvt cbk p (PvFsm d) s)"
    and "fst (InvCliFsm_ProceedingStRecv2xxRespEvt cbk p (PvFsm d) s)"
    and "fst (InvCliFsm_ProceedingStRecv3xx6xxRespEvt cbk p (PvFsm d) s)"
    and "fst (InvCliFsm_ProceedingStTranspErrorEvt cbk p pv s)"
    and "fst (InvCliFsm_CompletedStTimerD_TimeoutEvt cbk p pv s)"
    and "fst (InvCliFsm_CompletedStRecv1xxRespEvt cbk p (PvFsm d) s)"
    and "fst (InvCliFsm_CompletedStRecv3xx6xxRespEvt cbk p (PvFsm d) s)"
    and "fst (InvCliFsm_CompletedStTranspErrorEvt cbk p pv s)"
proof -
  have failure: "fst (InvCliFsm_RecvFailure cbk p (PvFsm d) s1)"
    if "services_up s1" "m_pSipMsg (txn s1 p) \<noteq> None" for s1
    using that unfolding InvCliFsm_RecvFailure_def sipInvCli_HandleFailureResp_def
    by (auto simp: accept_defs split: option.split bool.split)
  show "fst (InvCliFsm_CallingStRecv3xx6xxRespEvt cbk p (PvFsm d) s)"
    "fst (InvCliFsm_ProceedingStRecv3xx6xxRespEvt cbk p (PvFsm d) s)"
    unfolding InvCliFsm_CallingStRecv3xx6xxRespEvt_def InvCliFsm_ProceedingStRecv3xx6xxRespEvt_def
    by (rule failure; simp add: assms(1,2))+
  have keys: "length (s_txnKeyList (set_err e s)) < 2 ^ 16" for e using assms(3) by (simp add: set_err_def)
  show "fst (InvCliFsm_ProceedingStRecv1xxRespEvt cbk p (PvFsm d) s)"
    unfolding InvCliFsm_ProceedingStRecv1xxRespEvt_def
    by (simp add: accept_defs SearchTxnKey_find_index [OF keys] split: option.split)
  show "fst (InvCliFsm_CallingStTimerA_B_TimeoutEvt cbk p pv s)"
    using assms(1) unfolding InvCliFsm_CallingStTimerA_B_TimeoutEvt_def
    by (auto simp: accept_defs split: bool.split)
qed (simp_all add: accept_defs InvCliFsm_CallingStRecv1xxRespEvt_def InvCliFsm_CallingStRecv2xxRespEvt_def
  InvCliFsm_CallingStTranspErrorEvt_def InvCliFsm_ProceedingStRecv2xxRespEvt_def
  InvCliFsm_ProceedingStTranspErrorEvt_def InvCliFsm_CompletedStTimerD_TimeoutEvt_def
  InvCliFsm_CompletedStRecv1xxRespEvt_def InvCliFsm_CompletedStRecv3xx6xxRespEvt_def
  InvCliFsm_CompletedStTranspErrorEvt_def)

lemma InvSer_accepts:
  assumes "services_up s"
  shows "fst (InvSerFsm_ProceedingStRecvInvReqEvt cbk p (PvFsm d) s)"
    and "fst (InvSerFsm_ProceedingStSendNon100ProvRespEvt cbk p (PvFsm d) s)"
    and "fd_pTranspParam d \<noteq> None \<Longrightarrow> fst (InvSerFsm_ProceedingStSend3xx6xxFailureRespEvt cbk p (PvFsm d) s)"
    and "fst (InvSerFsm_ProceedingStSend2xxSuccessRespEvt cbk p (PvFsm d) s)"
    and "fst (InvSerFsm_ProceedingStTranspErrorEvt cbk p pv s)"
    and "fst (InvSerFsm_ProceedingStTimerG_H_TimeoutEvt cbk p (PvTimeout td) s)"
    and "fst (InvSerFsm_CompletedStRecvInvReqEvt cbk p (PvFsm d) s)"
    and "fst (InvSerFsm_CompletedStTranspErrorEvt cbk p pv s)"
    and "fst (InvSerFsm_CompletedStRecvAckReqEvt cbk p (PvFsm d) s)"
    and "fst (InvSerFsm_CompletedStTimerG_H_TimeoutEvt cbk p pv s)"
    and "fst (InvSerFsm_ConfirmedStRecvAckReqEvt cbk p (PvFsm d) s)"
    and "fst (InvSerFsm_ConfirmedStTimerI_TimeoutEvt cbk p pv s)"
proof -
  have up [simp]: "services_up (InvSerFsm_begin_response p s)"
    using assms by (simp add: InvSerFsm_begin_response_def)
  show "fst (InvSerFsm_ProceedingStSendNon100ProvRespEvt cbk p (PvFsm d) s)"
    unfolding InvSerFsm_ProceedingStSendNon100ProvRespEvt_def
    by (auto simp: accept_defs split: bool.split)
  show "fd_pTranspParam d \<noteq> None \<Longrightarrow> fst (InvSerFsm_ProceedingStSend3xx6xxFailureRespEvt cbk p (PvFsm d) s)"
    unfolding InvSerFsm_ProceedingStSend3xx6xxFailureRespEvt_def
    by (auto simp: accept_defs split: bool.split)
  show "fst (InvSerFsm_ProceedingStSend2xxSuccessRespEvt cbk p (PvFsm d) s)"
    unfolding InvSerFsm_ProceedingStSend2xxSuccessRespEvt_def
    by (auto simp: accept_defs split: bool.split)
  show "fst (InvSerFsm_ProceedingStTimerG_H_TimeoutEvt cbk p (PvTimeout td) s)"
    using assms unfolding InvSerFsm_ProceedingStTimerG_H_TimeoutEvt_def
    by (auto simp: accept_defs split: bool.split)
  show "fst (InvSerFsm_CompletedStTimerG_H_TimeoutEvt cbk p pv s)"
    using assms unfolding InvSerFsm_CompletedStTimerG_H_TimeoutEvt_def
    by (auto simp: accept_defs split: bool.split)
  show "fst (InvSerFsm_CompletedStRecvAckReqEvt cbk p (PvFsm d) s)"
    using assms unfolding InvSerFsm_CompletedStRecvAckReqEvt_def
    by (auto simp: accept_defs split: bool.split)
qed (simp_all add: accept_defs InvSerFsm_ProceedingStRecvInvReqEvt_def
  InvSerFsm_ProceedingStTranspErrorEvt_def InvSerFsm_CompletedStRecvInvReqEvt_def
  InvSerFsm_CompletedStTranspErrorEvt_def InvSerFsm_ConfirmedStRecvAckReqEvt_def
  InvSerFsm_ConfirmedStTimerI_TimeoutEvt_def)

lemma NonInvCli_accepts:
  assumes "services_up s"
  shows "fst (NonInvClient_TimeoutHandling cbk p pv s)"
    and "fst (NonInvCliFsm_TryingStRecv1xxRespEvt cbk p (PvFsm d) s)"
    and "fst (NonInvCliFsm_RecvFinal cbk p (PvFsm d) s)"
    and "fst (NonInvCliFsm_TryingStTranspErrorEvt cbk p pv s)"
    and "fst (NonInvCliFsm_ProceedingStRecv1xxRespEvt cbk p (PvFsm d) s)"
    and "fst (NonInvCliFsm_ProceedingStTranspErrorEvt cbk p pv s)"
    and "fst (NonInvCliFsm_CompletedStTimer_K_TimeoutEvt cbk p pv s)"
    and "fst (NonInvCliFsm_CompletedStRecv1xxRespEvt cbk p (PvFsm d) s)"
    and "fst (NonInvCliFsm_CompletedStRecv2xx6xxRespEvt cbk p (PvFsm d) s)"
    and "fst (NonInvCliFsm_CompletedStTranspErrorEvt cbk p pv s)"
proof -
  show "fst (NonInvClient_TimeoutHandling cbk p pv s)"
    using assms unfolding NonInvClient_TimeoutHandling_def by (auto simp: accept_defs split: bool.split)
  show "fst (NonInvCliFsm_RecvFinal cbk p (PvFsm d) s)"
    using assms unfolding NonInvCliFsm_RecvFinal_def NonInvCli_Recv2xx6xxResp_def
    by (auto simp: accept_defs split: option.split bool.split)
qed (simp_all add: accept_defs NonInvCliFsm_TryingStRecv1xxRespEvt_def
  NonInvCliFsm_TryingStTranspErrorEvt_def NonInvCliFsm_ProceedingStRecv1xxRespEvt_def
  NonInvCliFsm_ProceedingStTranspErrorEvt_def NonInvCliFsm_CompletedStTimer_K_TimeoutEvt_def
  NonInvCliFsm_CompletedStRecv1xxRespEvt_def NonInvCliFsm_CompletedStRecv2xx6xxRespEvt_def
  NonInvCliFsm_CompletedStTranspErrorEvt_def)

lemma NonInvSer_accepts:
  assumes "services_up s"
  shows "fst (NonInvSerFsm_TryingStRecvNonInvReqEvt cbk p (PvFsm d) s)"
    and "fst (NonInvSerFsm_TryingStSend1xxRespEvt cbk p (PvFsm d) s)"
    and "fd_pTranspParam d \<noteq> None \<Longrightarrow> fst (NonInvSerFsm_SendFinal cbk p (PvFsm d) s)"
    and "fst (NonInvSerFsm_TryingStTranspErrorEvt cbk p pv s)"
    and "fst (NonInvSerFsm_ProceedingStRecvNonInvReqEvt cbk p (PvFsm d) s)"
    and "fst (NonInvSerFsm_ProceedingStSend1xxRespEvt cbk p (PvFsm d) s)"
    and "fst (NonInvSerFsm_ProceedingStTranspErrorEvt cbk p pv s)"
    and "fst (NonInvSerFsm_CompletedStRecvNonInvReqEvt cbk p (PvFsm d) s)"
    and "fst (NonInvSerFsm_CompletedStTranspErrorEvt cbk p pv s)"
    and "fst (NonInvSerFsm_CompletedStTimer_J_TimeoutEvt cbk p pv s)"
proof -
  show "fd_pTranspParam d \<noteq> None \<Longrightarrow> fst (NonInvSerFsm_SendFinal cbk p (PvFsm d) s)"
    using assms unfolding NonInvSerFsm_SendFinal_def NonInvSer_Send2xx6xxResp_def
    by (auto simp: accept_defs split: option.split bool.split)
qed (simp_all add: accept_defs NonInvSerFsm_TryingStRecvNonInvReqEvt_def
  NonInvSerFsm_TryingStSend1xxRespEvt_def NonInvSerFsm_TryingStTranspErrorEvt_def
  NonInvSerFsm_ProceedingStRecvNonInvReqEvt_def NonInvSerFsm_ProceedingStSend1xxRespEvt_def
  NonInvSerFsm_ProceedingStTranspErrorEvt_def NonInvSerFsm_CompletedStRecvNonInvReqEvt_def
  NonInvSerFsm_CompletedStTranspErrorEvt_def NonInvSerFsm_CompletedStTimer_J_TimeoutEvt_def)

text \<open>
  The machine accepts every edge: the precondition of the INVITE client machine (the INVITE
  it copies into the ACK, the bound of the key search) holds for the others too.
\<close>

definition acceptable :: "stack \<Rightarrow> ptr \<Rightarrow> rfc_event \<Rightarrow> pv_data \<Rightarrow> bool" where
  "acceptable s p ev pv \<longleftrightarrow>
     services_up s \<and> m_pSipMsg (txn s p) \<noteq> None \<and> length (s_txnKeyList s) < 2 ^ 16 \<and>
     event_data (m_eTxnType (txn s p)) ev pv"

lemmas accepted_defs = acceptable_def event_data_def rfc_states_def rfc_events_def dispatch_defs

lemma InvCli_accepted:
  assumes "m_eTxnType (txn s p) = INV_CLI_TXN" and "m_nTxnState (txn s p) \<in> {1..4}" and "ev < 8"
    and "acceptable s p (rfc_events INV_CLI_TXN ! ev) pv"
    and "rfc_step INV_CLI_TXN (rfc_states INV_CLI_TXN ! m_nTxnState (txn s p)) (rfc_events INV_CLI_TXN ! ev) st'"
  shows "fst (InvokeFsm cbk ev p pv s)"
  using states_1_4 [OF assms(2)] events_upto [of ev] assms
  by (elim disjE) (auto simp: accepted_defs gpfSipInvClientTxnFsm_def InvCli_accepts simp del: One_nat_def)

lemma InvSer_accepted:
  assumes "m_eTxnType (txn s p) = INV_SER_TXN" and "m_nTxnState (txn s p) \<in> {1..4}" and "ev < 9"
    and "acceptable s p (rfc_events INV_SER_TXN ! ev) pv"
    and "rfc_step INV_SER_TXN (rfc_states INV_SER_TXN ! m_nTxnState (txn s p)) (rfc_events INV_SER_TXN ! ev) st'"
  shows "fst (InvokeFsm cbk ev p pv s)"
  using states_1_4 [OF assms(2)] events_upto [of ev] assms
  by (elim disjE) (auto simp: accepted_defs gpfSipInvSerTxnFsm_def
      InvSer_accepts simp del: One_nat_def)

lemma NonInvCli_accepted:
  assumes "m_eTxnType (txn s p) = NON_INV_CLI_TXN" and "m_nTxnState (txn s p) \<in> {1..4}" and "ev < 7"
    and "acceptable s p (rfc_events NON_INV_CLI_TXN ! ev) pv"
    and "rfc_step NON_INV_CLI_TXN (rfc_states NON_INV_CLI_TXN ! m_nTxnState (txn s p)) (rfc_events NON_INV_CLI_TXN ! ev) st'"
  shows "fst (InvokeFsm cbk ev p pv s)"
  using states_1_4 [OF assms(2)] events_upto [of ev] assms
  by (elim disjE) (auto simp: accepted_defs gpfSipNonInvClientTxnFsm_def
      NonInvCliFsm_TryingStTimer_E_F_TimeoutEvt_def NonInvCliFsm_ProceedingStTimer_E_F_TimeoutEvt_def
      NonInvCliFsm_TryingStRecv2xx6xxRespEvt_def NonInvCliFsm_ProceedingStRecv2xx6xxRespEvt_def
      NonInvCli_accepts simp del: One_nat_def)

lemma NonInvSer_accepted:
  assumes "m_eTxnType (txn s p) = NON_INV_SER_TXN" and "m_nTxnState (txn s p) \<in> {1..4}" and "ev < 6"
    and "acceptable s p (rfc_events NON_INV_SER_TXN ! ev) pv"
    and "rfc_step NON_INV_SER_TXN (rfc_states NON_INV_SER_TXN ! m_nTxnState (txn s p)) (rfc_events NON_INV_SER_TXN ! ev) st'"
  shows "fst (InvokeFsm cbk ev p pv s)"
  using states_1_4 [OF assms(2)] events_upto [of ev] assms
  by (elim disjE) (auto simp: accepted_defs gpfSipNonInvSerTxnFsm_def
      NonInvSerFsm_TryingStSend2xx6xxRespEvt_def NonInvSerFsm_ProceedingStSend2xx6xxRespEvt_def
      NonInvSer_accepts simp del: One_nat_def)

end
