(* ===== verification/Block_Hash.thy ===== *)
theory Block_Hash
  imports Prelude
begin

unbundle bit_operations_syntax

text \<open>
  What the MD5 and SHA-1 digests of \<open>platform/util\<close> share: a chaining value, a buffer of 64
  bytes and a 64-bit count of bits in two words, with the same \<open>Update\<close> over both. The locale
  \<open>block_hash\<close> states what a digest built this way promises; each digest discharges it.
\<close>

subsection \<open>Memory and blocks\<close>

text \<open>\<open>IMS_MEM_Memcpy(&buf[i], src, length)\<close>.\<close>

definition memcpy :: "u8 list \<Rightarrow> nat \<Rightarrow> u8 list \<Rightarrow> u8 list" where
  "memcpy buf i src = take i buf @ src @ drop (i + length src) buf"

text \<open>
  The loop over whole blocks of the source, from byte \<open>i\<close> on; the index and the length are
  32-bit words, so that \<open>i + 63\<close> can wrap. \<open>None\<close> is a read behind the source or no end.
\<close>

partial_function (option) transform_loop ::
    "('s \<Rightarrow> u8 list \<Rightarrow> 's) \<Rightarrow> u8 list \<Rightarrow> u32 \<Rightarrow> u32 \<Rightarrow> 's \<Rightarrow> (u32 \<times> 's) option" where
  "transform_loop T src n i st =
     (if i + 63 < n then
        (if unat i + 64 \<le> length src
         then transform_loop T src n (i + 64) (T st (take 64 (drop (unat i) src)))
         else None)
      else Some (i, st))"

declare transform_loop.simps [code]

text \<open>The state of a digest: the count of bits, the chaining value and the buffer.\<close>

record 's hash_view =
  v_low :: u32
  v_high :: u32
  v_chain :: 's
  v_buffer :: "u8 list"

definition block_update :: "('s \<Rightarrow> u8 list \<Rightarrow> 's) \<Rightarrow> u8 list \<Rightarrow> u32 \<Rightarrow> 's hash_view \<Rightarrow> 's hash_view option" where
  "block_update T src n v =
     (if length src < unat n then None else
      let nIndex = drop_bit 3 (v_low v) AND 0x3F;
          low = v_low v + push_bit 3 n;
          high = (if low < push_bit 3 n then v_high v + 1 else v_high v) + drop_bit 29 n;
          nPartLen = 64 - nIndex
      in if n \<ge> nPartLen then
           (let buffer = memcpy (v_buffer v) (unat nIndex) (take (unat nPartLen) src)
            in case transform_loop T src n nPartLen (T (v_chain v) buffer) of
                 None \<Rightarrow> None
               | Some (i, chain) \<Rightarrow>
                   Some \<lparr>v_low = low, v_high = high, v_chain = chain,
                         v_buffer = memcpy buffer 0 (take (unat (n - i)) (drop (unat i) src))\<rparr>)
         else Some \<lparr>v_low = low, v_high = high, v_chain = v_chain v,
                    v_buffer = memcpy (v_buffer v) (unat nIndex) (take (unat n) src)\<rparr>)"

subsection \<open>The reference: blocks of a message\<close>

text \<open>The whole blocks of a message, and the bytes behind the last one.\<close>

function blocks :: "'a list \<Rightarrow> 'a list list" where
  "blocks xs = (if length xs < 64 then [] else take 64 xs # blocks (drop 64 xs))"
  by pat_completeness auto
termination by (relation "measure length") auto

declare blocks.simps [simp del]

definition tail_bytes :: "'a list \<Rightarrow> 'a list" where
  "tail_bytes xs = drop (64 * (length xs div 64)) xs"

text \<open>The padding both standards prescribe, given the eight bytes that hold the bit length.\<close>

definition pad_zeros :: "nat \<Rightarrow> nat" where
  "pad_zeros n = (if n mod 64 < 56 then 55 - n mod 64 else 119 - n mod 64)"

definition padded :: "u8 list \<Rightarrow> u8 list \<Rightarrow> u8 list" where
  "padded len msg = msg @ 0x80 # replicate (pad_zeros (length msg)) 0 @ len"

lemma blocks_short [simp]: "length xs < 64 \<Longrightarrow> blocks xs = []"
  by (simp add: blocks.simps)

lemma blocks_whole: "length b = 64 \<Longrightarrow> blocks (b @ xs) = b # blocks xs"
  by (subst blocks.simps) simp

lemma tail_short [simp]: "length xs < 64 \<Longrightarrow> tail_bytes xs = xs"
  by (simp add: tail_bytes_def)

lemma tail_whole: "length b = 64 \<Longrightarrow> tail_bytes (b @ xs) = tail_bytes xs"
  by (simp add: tail_bytes_def div_add_self1)

lemma length_tail: "length (tail_bytes xs) = length xs mod 64"
  by (simp add: tail_bytes_def minus_mult_div_eq_mod)

lemma blocks_induct [case_names short whole]:
  assumes "\<And>xs. length xs < 64 \<Longrightarrow> P xs"
    and "\<And>b xs. length b = 64 \<Longrightarrow> P xs \<Longrightarrow> P (b @ xs)"
  shows "P xs"
proof (induction xs rule: blocks.induct)
  case (1 xs)
  show ?case
  proof (cases "length xs < 64")
    case True
    then show ?thesis by (rule assms(1))
  next
    case False
    then have "P (take 64 xs @ drop 64 xs)" by (intro assms(2) 1) auto
    then show ?thesis by simp
  qed
qed

text \<open>A message consumed in two parts: the tail of the first is completed by the second.\<close>

lemma blocks_append: "blocks (xs @ ys) = blocks xs @ blocks (tail_bytes xs @ ys)"
  by (induction xs rule: blocks_induct) (simp_all add: blocks_whole tail_whole)

lemma tail_append: "tail_bytes (xs @ ys) = tail_bytes (tail_bytes xs @ ys)"
  by (induction xs rule: blocks_induct) (simp_all add: tail_whole)

subsection \<open>The loop\<close>

lemma transform_loop_blocks:
  assumes "unat n + 64 \<le> 2 ^ 32" and "unat n \<le> length src" and "unat i \<le> unat n"
  shows "\<exists>j. transform_loop T src n i st = Some (j, foldl T st (blocks (drop (unat i) (take (unat n) src)))) \<and>
    unat j \<le> unat n \<and> drop (unat j) (take (unat n) src) = tail_bytes (drop (unat i) (take (unat n) src))"
  using assms(3)
proof (induction "unat n - unat i" arbitrary: i st rule: less_induct)
  case less
  let ?rest = "drop (unat i) (take (unat n) src)"
  have len: "length ?rest = unat n - unat i" using assms(2) by simp
  have i63: "unat (i + 63) = unat i + 63"
    using less.prems assms(1) by (simp add: unat_u32_add_no_wrap)
  then have test: "i + 63 < n \<longleftrightarrow> unat i + 64 \<le> unat n" by (simp add: word_less_nat_alt) arith
  show ?case
  proof (cases "i + 63 < n")
    case False
    with test len have "length ?rest < 64" using less.prems by simp
    then show ?thesis using False less.prems by (subst transform_loop.simps) simp
  next
    case True
    with test have le: "unat i + 64 \<le> unat n" by simp
    have i64: "unat (i + 64) = unat i + 64"
      using le unat_u32_lt [of n] by (simp add: unat_u32_add_no_wrap)
    have block: "take 64 (drop (unat i) src) = take 64 ?rest"
      using le by (simp add: drop_take min_def)
    have split: "?rest = take 64 ?rest @ drop (unat (i + 64)) (take (unat n) src)"
      by (simp only: i64 add.commute [of "unat i"] append_take_drop_id flip: drop_drop)
    have "length (take 64 ?rest) = 64" using len le by simp
    then have eqs: "blocks ?rest = take 64 ?rest # blocks (drop (unat (i + 64)) (take (unat n) src))"
      "tail_bytes ?rest = tail_bytes (drop (unat (i + 64)) (take (unat n) src))"
      by (subst split, simp add: blocks_whole tail_whole)+
    have "transform_loop T src n i st = transform_loop T src n (i + 64) (T st (take 64 ?rest))"
      using True le assms(2) by (subst transform_loop.simps) (simp add: block)
    moreover have "unat n - unat (i + 64) < unat n - unat i" "unat (i + 64) \<le> unat n"
      using le i64 by auto
    ultimately show ?thesis using less.hyps [of "i + 64" "T st (take 64 ?rest)"] by (simp only: eqs foldl_Cons)
  qed
qed

subsection \<open>What a digest state holds\<close>

text \<open>
  \<open>holds T init msg v\<close>: the state after consuming \<open>msg\<close>. The count is the bit length
  modulo \<open>2 ^ 64\<close>, the chaining value covers the whole blocks, the buffer starts with the rest.
\<close>

definition holds :: "('s \<Rightarrow> u8 list \<Rightarrow> 's) \<Rightarrow> 's \<Rightarrow> u8 list \<Rightarrow> 's hash_view \<Rightarrow> bool" where
  "holds T init msg v \<longleftrightarrow>
     v_low v = of_nat (8 * length msg) \<and> v_high v = of_nat (8 * length msg div 2 ^ 32) \<and>
     v_chain v = foldl T init (blocks msg) \<and> length (v_buffer v) = 64 \<and>
     take (length msg mod 64) (v_buffer v) = tail_bytes msg"

lemma unat_of_nat_u32: "unat (of_nat m :: u32) = m mod 2 ^ 32"
  by (simp add: unat_of_nat)

lemma eight_times_mod: "8 * m mod 2 ^ 32 = 8 * (m mod 2 ^ 29 :: nat)"
  using mult_mod_right [of 8 m "2 ^ 29"] by simp

lemma unat_u32_drop_bit: "unat (drop_bit k x :: u32) = unat x div 2 ^ k"
proof -
  have "take_bit 32 (unat x) = unat x" using unat_u32_lt [of x] by (simp add: take_bit_nat_eq_self)
  then show ?thesis unfolding unsigned_drop_bit_eq by (simp add: drop_bit_eq_div)
qed

lemma unat_u32_and_3F: "unat (x AND 0x3F :: u32) = unat x mod 64"
proof -
  have "x AND 0x3F = take_bit 6 x" by (simp add: take_bit_eq_mask mask_eq_exp_minus_1)
  then have "unat (x AND 0x3F) = take_bit 6 (unat x)" by (simp only: unsigned_take_bit_eq)
  then show ?thesis by (simp add: take_bit_eq_mod)
qed

lemma bit_count_fill: "unat (drop_bit 3 (of_nat (8 * m) :: u32) AND 0x3F) = m mod 64"
proof -
  have "unat (drop_bit 3 (of_nat (8 * m) :: u32) AND 0x3F) = m mod 2 ^ 29 mod 64"
    unfolding unat_u32_and_3F unat_u32_drop_bit unat_of_nat_u32 eight_times_mod by simp
  then show ?thesis by (simp add: mod_mod_cancel)
qed

lemma bit_count_add: "of_nat (8 * m) + push_bit 3 (of_nat n :: u32) = of_nat (8 * (m + n))"
  by (simp add: push_bit_eq_mult algebra_simps)

text \<open>The carry into the high word.\<close>

lemma bit_count_carry:
  fixes m n :: nat
  assumes "n < 2 ^ 32"
  defines "low \<equiv> of_nat (8 * (m + n)) :: u32"
  shows "(if low < push_bit 3 (of_nat n) then of_nat (8 * m div 2 ^ 32) + 1 else of_nat (8 * m div 2 ^ 32)) +
    drop_bit 29 (of_nat n) = (of_nat (8 * (m + n) div 2 ^ 32) :: u32)"
proof -
  have low: "unat low = (8 * m mod 2 ^ 32 + 8 * n mod 2 ^ 32) mod 2 ^ 32"
    unfolding low_def unat_of_nat_u32 by (simp add: mod_simps distrib_left)
  have bits: "unat (push_bit 3 (of_nat n :: u32)) = 8 * n mod 2 ^ 32"
    by (simp add: push_bit_eq_mult unat_word_ariths unat_of_nat mod_simps mult.commute)
  have carry: "low < push_bit 3 (of_nat n) \<longleftrightarrow> 2 ^ 32 \<le> 8 * m mod 2 ^ 32 + 8 * n mod (2 ^ 32 :: nat)"
  proof (cases "8 * m mod 2 ^ 32 + 8 * n mod (2 ^ 32 :: nat) < 2 ^ 32")
    case True
    then show ?thesis by (simp add: word_less_nat_alt low bits)
  next
    case False
    have lt: "8 * m mod 2 ^ 32 < (2 ^ 32 :: nat)" "8 * n mod 2 ^ 32 < (2 ^ 32 :: nat)" by simp_all
    with False have "(8 * m mod 2 ^ 32 + 8 * n mod 2 ^ 32) mod 2 ^ 32 =
        8 * m mod 2 ^ 32 + 8 * n mod 2 ^ 32 - (2 ^ 32 :: nat)"
      by (subst le_mod_geq) auto
    moreover have "8 * m mod 2 ^ 32 + 8 * n mod 2 ^ 32 - 2 ^ 32 < 8 * n mod (2 ^ 32 :: nat)"
      using False lt by linarith
    ultimately show ?thesis using False by (simp only: word_less_nat_alt low bits not_less)
  qed
  have top: "drop_bit 29 (of_nat n :: u32) = of_nat (8 * n div 2 ^ 32)"
  proof -
    have "n < 2 ^ 32" by (rule assms(1))
    then have "unat (drop_bit 29 (of_nat n :: u32)) = n div 2 ^ 29"
      by (simp only: unat_u32_drop_bit unat_of_nat_u32 mod_less)
    moreover have "n div 2 ^ 29 = 8 * n div 2 ^ 32" by simp
    ultimately show ?thesis by (metis of_nat_unat ucast_id)
  qed
  have "8 * (m + n) div 2 ^ 32 = 8 * m div 2 ^ 32 + 8 * n div 2 ^ 32 +
      (8 * m mod 2 ^ 32 + 8 * n mod 2 ^ 32) div (2 ^ 32 :: nat)"
    unfolding distrib_left by (rule div_add1_eq)
  moreover have "(8 * m mod 2 ^ 32 + 8 * n mod 2 ^ 32) div (2 ^ 32 :: nat) =
      (if 2 ^ 32 \<le> 8 * m mod 2 ^ 32 + 8 * n mod (2 ^ 32 :: nat) then 1 else 0)"
    using mod_less_divisor [of "2 ^ 32" "8 * m"] mod_less_divisor [of "2 ^ 32" "8 * n"]
    by (auto simp: div_eq_0_iff intro!: div_nat_eqI)
  ultimately show ?thesis by (simp add: carry top)
qed

lemma holds_initial:
  "v_low v = 0 \<Longrightarrow> v_high v = 0 \<Longrightarrow> v_chain v = init \<Longrightarrow> length (v_buffer v) = 64 \<Longrightarrow> holds T init [] v"
  by (simp add: holds_def)

lemma take_memcpy: "i \<le> length buf \<Longrightarrow> take (i + length src) (memcpy buf i src) = take i buf @ src"
  by (simp add: memcpy_def)

lemma length_memcpy: "i + length src \<le> length buf \<Longrightarrow> length (memcpy buf i src) = length buf"
  by (simp add: memcpy_def)

lemma memcpy_start:
  "length t \<le> length buf \<Longrightarrow> length (memcpy buf 0 t) = length buf \<and> take (length t) (memcpy buf 0 t) = t"
  by (simp add: memcpy_def)

text \<open>An update consumes the first \<open>n\<close> bytes of its source.\<close>

lemma holds_update:
  assumes h: "holds T init msg v" and n: "unat n \<le> length src" "unat n + 64 \<le> 2 ^ 32"
  shows "\<exists>v'. block_update T src n v = Some v' \<and> holds T init (msg @ take (unat n) src) v'"
proof -
  let ?f = "length msg mod 64" and ?data = "take (unat n) src"
  have buf: "length (v_buffer v) = 64" "take ?f (v_buffer v) = tail_bytes msg"
    using h by (simp_all add: holds_def)
  have fill: "unat (drop_bit 3 (v_low v) AND 0x3F) = ?f"
    using h bit_count_fill [of "length msg"] by (simp add: holds_def del: of_nat_mult)
  have len: "length ?data = unat n" using n(1) by simp
  define low where "low = v_low v + push_bit 3 n"
  define high where "high = (if low < push_bit 3 n then v_high v + 1 else v_high v) + drop_bit 29 n"
  have lens: "length (msg @ ?data) = length msg + unat n" using len by simp
  have hl: "v_low v = of_nat (8 * length msg)" "v_high v = of_nat (8 * length msg div 2 ^ 32)"
    using h by (simp_all only: holds_def)
  have low: "low = of_nat (8 * length (msg @ ?data))"
    unfolding low_def hl lens using bit_count_add [of "length msg" "unat n"]
    by (simp only: of_nat_unat ucast_id)
  have high: "high = of_nat (8 * length (msg @ ?data) div 2 ^ 32)"
    unfolding high_def low hl lens using bit_count_carry [OF unat_u32_lt [of n], of "length msg"]
    by (simp only: of_nat_unat ucast_id)
  have part: "unat (64 - (drop_bit 3 (v_low v) AND 0x3F)) = 64 - ?f"
    using fill by (subst unat_u32_sub) (auto simp: word_le_nat_alt intro: less_imp_le)
  show ?thesis
  proof (cases "n \<ge> 64 - (drop_bit 3 (v_low v) AND 0x3F)")
    case False
    then have short: "unat n < 64 - ?f" by (simp add: word_le_nat_alt part)
    let ?v = "\<lparr>v_low = low, v_high = high, v_chain = v_chain v, v_buffer = memcpy (v_buffer v) ?f ?data\<rparr>"
    have eq: "block_update T src n v = Some ?v"
      using False n(1) by (simp add: block_update_def Let_def fill low_def high_def)
    have fit: "?f + unat n < 64" using short by simp
    have rest: "tail_bytes (msg @ ?data) = tail_bytes msg @ ?data"
      using fit len by (subst tail_append) (simp add: length_tail)
    have m: "length (msg @ ?data) mod 64 = ?f + unat n"
      using fit len by (metis length_append length_tail rest)
    have "blocks (msg @ ?data) = blocks msg"
      using fit len by (subst blocks_append) (simp add: length_tail)
    moreover have "take (?f + unat n) (memcpy (v_buffer v) ?f ?data) = tail_bytes msg @ ?data"
      using take_memcpy [of ?f "v_buffer v" ?data] buf len by simp
    moreover have "length (memcpy (v_buffer v) ?f ?data) = 64"
      using length_memcpy [of ?f ?data "v_buffer v"] fit buf(1) len by simp
    ultimately have "holds T init (msg @ ?data) ?v"
      using h low high m rest by (simp add: holds_def)
    with eq show ?thesis by blast
  next
    case True
    then have long: "64 - ?f \<le> unat n" by (simp add: word_le_nat_alt part)
    let ?p = "64 - ?f"
    let ?buf = "memcpy (v_buffer v) ?f (take ?p src)"
    have full: "?buf = tail_bytes msg @ take ?p ?data"
    proof -
      have "take ?p ?data = take ?p src" using long by (simp add: min_def)
      moreover have "length (take ?p src) = ?p" using n(1) long by simp
      ultimately show ?thesis using buf by (simp add: memcpy_def)
    qed
    have length_full: "length (tail_bytes msg @ take ?p ?data) = 64"
      using long len by (simp add: length_tail)
    have split: "tail_bytes msg @ ?data = ?buf @ drop ?p ?data" unfolding full
      by (simp only: append_assoc append_take_drop_id)
    obtain j where j: "transform_loop T src n (64 - (drop_bit 3 (v_low v) AND 0x3F)) (T (v_chain v) ?buf) =
          Some (j, foldl T (T (v_chain v) ?buf) (blocks (drop ?p ?data)))"
        "unat j \<le> unat n" "drop (unat j) ?data = tail_bytes (drop ?p ?data)"
      using transform_loop_blocks [OF n(2,1), of "64 - (drop_bit 3 (v_low v) AND 0x3F)"
          T "T (v_chain v) ?buf"] long unfolding part by auto
    let ?tail = "take (unat (n - j)) (drop (unat j) src)"
    let ?v = "\<lparr>v_low = low, v_high = high, v_chain = foldl T (T (v_chain v) ?buf) (blocks (drop ?p ?data)),
        v_buffer = memcpy ?buf 0 ?tail\<rparr>"
    have eq: "block_update T src n v = Some ?v"
      using True j(1) n(1) by (simp add: block_update_def Let_def fill part low_def high_def)
    have "unat (n - j) = unat n - unat j" using j(2) by (simp add: unat_u32_sub word_le_nat_alt)
    then have tail: "?tail = drop (unat j) ?data" by (simp add: drop_take)
    have lbuf: "length ?buf = 64" using length_full by (simp only: full)
    have rest: "tail_bytes (msg @ ?data) = ?tail"
      by (simp only: tail_append [of msg] split tail_whole [OF lbuf] tail j(3))
    have "blocks (msg @ ?data) = blocks msg @ ?buf # blocks (drop ?p ?data)"
      by (simp only: blocks_append [of msg] split blocks_whole [OF lbuf])
    then have chain: "foldl T init (blocks (msg @ ?data)) = foldl T (T (v_chain v) ?buf) (blocks (drop ?p ?data))"
      using h by (simp add: holds_def)
    have m: "length (msg @ ?data) mod 64 = length ?tail" by (simp only: rest flip: length_tail)
    then have "length ?tail < 64" using mod_less_divisor [of 64 "length (msg @ ?data)"] by linarith
    then have "length ?tail \<le> length ?buf" by (simp only: lbuf)
    note buffer = memcpy_start [OF this, unfolded lbuf]
    have "holds T init (msg @ ?data) ?v"
      unfolding holds_def m hash_view.simps chain rest by (simp only: low high buffer)
    with eq show ?thesis by blast
  qed
qed

subsection \<open>The interface of a digest\<close>

text \<open>
  A sequence of updates, each with the whole of its source; the length of the padding; the
  digest of a message as the standards define it, from the reference functions above.
\<close>

primrec hash_updates :: "(u8 list \<Rightarrow> u32 \<Rightarrow> 'c \<Rightarrow> 'c option) \<Rightarrow> u8 list list \<Rightarrow> 'c \<Rightarrow> 'c option" where
  "hash_updates upd [] c = Some c"
| "hash_updates upd (src # srcs) c =
     Option.bind (upd src (of_nat (length src)) c) (hash_updates upd srcs)"

abbreviation hash_padding :: "u8 list" where
  "hash_padding \<equiv> 0x80 # replicate 63 0"

definition pad_length :: "u32 \<Rightarrow> u32" where
  "pad_length low =
     (let nIndex = drop_bit 3 low AND 0x3F in if nIndex < 56 then 56 - nIndex else 120 - nIndex)"

definition block_digest ::
    "('s \<Rightarrow> u8 list \<Rightarrow> 's) \<Rightarrow> 's \<Rightarrow> (u32 \<Rightarrow> u32 \<Rightarrow> u8 list) \<Rightarrow> ('s \<Rightarrow> u8 list) \<Rightarrow> u8 list \<Rightarrow> u8 list" where
  "block_digest T init length_bytes out msg =
     out (foldl T init (blocks (padded
       (length_bytes (of_nat (8 * length msg)) (of_nat (8 * length msg div 2 ^ 32))) msg)))"

definition fits_update :: "u8 list \<Rightarrow> bool" where
  "fits_update src \<longleftrightarrow> length src + 64 \<le> 2 ^ 32"

lemma pad_length_zeros: "unat (pad_length (of_nat (8 * m))) = Suc (pad_zeros m)"
proof -
  let ?i = "drop_bit 3 (of_nat (8 * m) :: u32) AND 0x3F"
  have fill: "unat ?i = m mod 64" by (rule bit_count_fill)
  then have i: "?i < 56 \<longleftrightarrow> m mod 64 < 56" "?i \<le> 56 \<longleftrightarrow> m mod 64 \<le> 56" "?i \<le> 120 \<longleftrightarrow> m mod 64 \<le> 120"
    by (simp_all only: word_less_nat_alt word_le_nat_alt) simp_all
  show ?thesis
  proof (cases "m mod 64 < 56")
    case True
    then have "unat (56 - ?i) = 56 - m mod 64" using i(2) fill by (simp only: unat_u32_sub) simp
    with True show ?thesis unfolding pad_length_def Let_def pad_zeros_def i(1) by simp
  next
    case False
    have lt: "m mod 64 < 64" by simp
    then have "unat (120 - ?i) = 120 - m mod 64" using i(3) fill by (simp only: unat_u32_sub) simp
    with False lt show ?thesis unfolding pad_length_def Let_def pad_zeros_def i(1) by simp
  qed
qed

lemma take_padding: "n < 64 \<Longrightarrow> take (Suc n) hash_padding = 0x80 # replicate n 0"
  by (simp add: min_def)

locale block_hash =
  fixes T :: "'s \<Rightarrow> u8 list \<Rightarrow> 's" and init :: 's
    and view :: "'c \<Rightarrow> 's hash_view" and cleared :: 'c
    and update :: "u8 list \<Rightarrow> u32 \<Rightarrow> 'c \<Rightarrow> 'c option"
    and finalize :: "'c \<Rightarrow> (u8 list \<times> 'c) option"
    and length_bytes :: "u32 \<Rightarrow> u32 \<Rightarrow> u8 list" and out :: "'s \<Rightarrow> u8 list"
  assumes update_view: "map_option view (update src n c) = block_update T src n (view c)"
    and finalize_eq: "finalize c =
      Option.bind (update hash_padding (pad_length (v_low (view c))) c) (\<lambda>c1.
        map_option (\<lambda>c2. (out (v_chain (view c2)), cleared))
          (update (length_bytes (v_low (view c)) (v_high (view c))) 8 c1))"
    and length_length_bytes: "length (length_bytes low high) = 8"
begin

lemma update_holds:
  assumes "holds T init msg (view c)" and "unat n \<le> length src" and "unat n + 64 \<le> 2 ^ 32"
  shows "\<exists>c'. update src n c = Some c' \<and> holds T init (msg @ take (unat n) src) (view c')"
  using holds_update [OF assms] update_view [of src n c] by (auto simp: map_option_case split: option.splits)

lemma updates_hold:
  "holds T init msg (view c) \<Longrightarrow> \<forall>src\<in>set srcs. fits_update src \<Longrightarrow>
   \<exists>c'. hash_updates update srcs c = Some c' \<and> holds T init (msg @ concat srcs) (view c')"
proof (induction srcs arbitrary: msg c)
  case Nil
  then show ?case by simp
next
  case (Cons src srcs)
  have n: "unat (of_nat (length src) :: u32) = length src"
    using Cons.prems(2) by (simp add: fits_update_def unat_of_nat)
  from update_holds [OF Cons.prems(1), of "of_nat (length src)" src] Cons.prems(2)
  obtain c' where "update src (of_nat (length src)) c = Some c'" "holds T init (msg @ src) (view c')"
    unfolding n by (auto simp: fits_update_def)
  with Cons.IH [of "msg @ src" c'] Cons.prems(2) show ?case by simp
qed

lemma finalize_digest:
  assumes h: "holds T init msg (view c)"
  shows "finalize c = Some (block_digest T init length_bytes out msg, cleared)"
proof -
  let ?len = "length_bytes (of_nat (8 * length msg)) (of_nat (8 * length msg div 2 ^ 32))"
  let ?z = "pad_zeros (length msg)"
  have lo: "v_low (view c) = of_nat (8 * length msg)" "v_high (view c) = of_nat (8 * length msg div 2 ^ 32)"
    using h by (simp_all only: holds_def)
  have z: "?z < 64" by (simp add: pad_zeros_def) presburger
  have pl: "unat (pad_length (v_low (view c))) = Suc ?z" unfolding lo(1) by (rule pad_length_zeros)
  obtain c1 where c1: "update hash_padding (pad_length (v_low (view c))) c = Some c1"
      "holds T init (msg @ 0x80 # replicate ?z 0) (view c1)"
    using update_holds [OF h, of "pad_length (v_low (view c))" hash_padding] z
    unfolding pl take_padding [OF z] by auto
  obtain c2 where c2: "update ?len 8 c1 = Some c2" "holds T init (padded ?len msg) (view c2)"
    using update_holds [OF c1(2), of 8 ?len] by (auto simp: length_length_bytes padded_def)
  have "v_chain (view c2) = foldl T init (blocks (padded ?len msg))" using c2(2) by (simp add: holds_def)
  then show ?thesis
    by (simp only: finalize_eq c1(1) [unfolded lo] lo bind.bind_lunit c2(1) option.map block_digest_def)
qed

text \<open>The two operations at the head of a computation that may fail.\<close>

lemma update_bind:
  assumes "holds T init msg (view c)" and "unat n \<le> length src" and "unat n + 64 \<le> 2 ^ 32"
    and "\<And>c'. holds T init (msg @ take (unat n) src) (view c') \<Longrightarrow> k c' = r"
  shows "Option.bind (update src n c) k = r"
  using update_holds [OF assms(1-3)] assms(4) by auto

lemma finalize_bind:
  assumes "holds T init msg (view c)" and "k (block_digest T init length_bytes out msg, cleared) = r"
  shows "Option.bind (finalize c) k = r"
  using finalize_digest [OF assms(1)] assms(2) by simp

text \<open>However a message is cut into updates, the digest is the one of the whole message.\<close>

lemma digest_of_updates:
  assumes "holds T init [] (view c)" and "\<forall>src\<in>set srcs. fits_update src"
  shows "Option.bind (hash_updates update srcs c) finalize =
    Some (block_digest T init length_bytes out (concat srcs), cleared)"
  using updates_hold [OF assms] finalize_digest by auto

end

end
