(* ===== verification/Ims_Md5.thy ===== *)
theory Ims_Md5
  imports Block_Hash
begin

unbundle bit_operations_syntax

text \<open>
  The MD5 digest (\<open>platform/util/ImsMd5.cpp\<close>). The macros \<open>FF\<close>, \<open>GG\<close>, \<open>HH\<close>, \<open>II\<close> are
  \<open>md5_step\<close>; the 64 calls of \<open>imsMd5_Transform\<close> are the rows of \<open>md5_steps\<close>, and the
  variable a call assigns is the first of the four, which are renamed from call to call.
\<close>

subsection \<open>The compression function\<close>

type_synonym md5_state = "u32 \<times> u32 \<times> u32 \<times> u32"

datatype md5_macro = FF | GG | HH | II

definition ROTATE_LEFT :: "u32 \<Rightarrow> nat \<Rightarrow> u32" where
  "ROTATE_LEFT x n = push_bit n x OR drop_bit (32 - n) x"

fun md5_function :: "md5_macro \<Rightarrow> u32 \<Rightarrow> u32 \<Rightarrow> u32 \<Rightarrow> u32" where
  "md5_function FF x y z = (x AND y) OR (NOT x AND z)"
| "md5_function GG x y z = (x AND z) OR (y AND NOT z)"
| "md5_function HH x y z = x XOR y XOR z"
| "md5_function II x y z = y XOR (x OR NOT z)"

definition md5_step :: "u32 list \<Rightarrow> md5_state \<Rightarrow> md5_macro \<times> nat \<times> nat \<times> u32 \<Rightarrow> md5_state" where
  "md5_step x st row =
     (case st of (a, b, c, d) \<Rightarrow> case row of (m, k, s, ac) \<Rightarrow>
        let n = md5_function m b c d + x ! k;
            n = n + ac;
            n = a + n
        in (d, ROTATE_LEFT n s + b, b, c))"

definition md5_steps :: "(md5_macro \<times> nat \<times> nat \<times> u32) list" where
  "md5_steps = [
    (FF, 0, 7, 0xd76aa478), (FF, 1, 12, 0xe8c7b756), (FF, 2, 17, 0x242070db), (FF, 3, 22, 0xc1bdceee),
    (FF, 4, 7, 0xf57c0faf), (FF, 5, 12, 0x4787c62a), (FF, 6, 17, 0xa8304613), (FF, 7, 22, 0xfd469501),
    (FF, 8, 7, 0x698098d8), (FF, 9, 12, 0x8b44f7af), (FF, 10, 17, 0xffff5bb1), (FF, 11, 22, 0x895cd7be),
    (FF, 12, 7, 0x6b901122), (FF, 13, 12, 0xfd987193), (FF, 14, 17, 0xa679438e), (FF, 15, 22, 0x49b40821),
    (GG, 1, 5, 0xf61e2562), (GG, 6, 9, 0xc040b340), (GG, 11, 14, 0x265e5a51), (GG, 0, 20, 0xe9b6c7aa),
    (GG, 5, 5, 0xd62f105d), (GG, 10, 9, 0x2441453), (GG, 15, 14, 0xd8a1e681), (GG, 4, 20, 0xe7d3fbc8),
    (GG, 9, 5, 0x21e1cde6), (GG, 14, 9, 0xc33707d6), (GG, 3, 14, 0xf4d50d87), (GG, 8, 20, 0x455a14ed),
    (GG, 13, 5, 0xa9e3e905), (GG, 2, 9, 0xfcefa3f8), (GG, 7, 14, 0x676f02d9), (GG, 12, 20, 0x8d2a4c8a),
    (HH, 5, 4, 0xfffa3942), (HH, 8, 11, 0x8771f681), (HH, 11, 16, 0x6d9d6122), (HH, 14, 23, 0xfde5380c),
    (HH, 1, 4, 0xa4beea44), (HH, 4, 11, 0x4bdecfa9), (HH, 7, 16, 0xf6bb4b60), (HH, 10, 23, 0xbebfbc70),
    (HH, 13, 4, 0x289b7ec6), (HH, 0, 11, 0xeaa127fa), (HH, 3, 16, 0xd4ef3085), (HH, 6, 23, 0x4881d05),
    (HH, 9, 4, 0xd9d4d039), (HH, 12, 11, 0xe6db99e5), (HH, 15, 16, 0x1fa27cf8), (HH, 2, 23, 0xc4ac5665),
    (II, 0, 6, 0xf4292244), (II, 7, 10, 0x432aff97), (II, 14, 15, 0xab9423a7), (II, 5, 21, 0xfc93a039),
    (II, 12, 6, 0x655b59c3), (II, 3, 10, 0x8f0ccc92), (II, 10, 15, 0xffeff47d), (II, 1, 21, 0x85845dd1),
    (II, 8, 6, 0x6fa87e4f), (II, 15, 10, 0xfe2ce6e0), (II, 6, 15, 0xa3014314), (II, 13, 21, 0x4e0811a1),
    (II, 4, 6, 0xf7537e82), (II, 11, 10, 0xbd3af235), (II, 2, 15, 0x2ad7d2bb), (II, 9, 21, 0xeb86d391)]"

fun imsMd5_Decode :: "u8 list \<Rightarrow> u32 list" where
  "imsMd5_Decode (b0 # b1 # b2 # b3 # bs) =
     (ucast b0 OR push_bit 8 (ucast b1) OR push_bit 16 (ucast b2) OR push_bit 24 (ucast b3)) # imsMd5_Decode bs"
| "imsMd5_Decode _ = []"

fun imsMd5_Encode :: "u32 list \<Rightarrow> u8 list" where
  "imsMd5_Encode [] = []"
| "imsMd5_Encode (w # ws) =
     [ucast (w AND 0xFF), ucast (drop_bit 8 w AND 0xFF), ucast (drop_bit 16 w AND 0xFF),
      ucast (drop_bit 24 w AND 0xFF)] @ imsMd5_Encode ws"

definition imsMd5_Transform :: "md5_state \<Rightarrow> u8 list \<Rightarrow> md5_state" where
  "imsMd5_Transform st aucBlock =
     (case st of (a0, b0, c0, d0) \<Rightarrow>
      case foldl (md5_step (imsMd5_Decode aucBlock)) st md5_steps of (a, b, c, d) \<Rightarrow>
        (a0 + a, b0 + b, c0 + c, d0 + d))"

subsection \<open>The context\<close>

record ImsMd5Context =
  md5_anState :: md5_state
  md5_anCount0 :: u32
  md5_anCount1 :: u32
  md5_aucBuffer :: "u8 list"

definition MD5_PADDING :: "u8 list" where
  "MD5_PADDING = 0x80 # replicate 63 0"

text \<open>\<open>Initialize\<close> leaves the buffer alone; the one it is given has 64 bytes of any content.\<close>

definition ImsMd5_Initialize :: "ImsMd5Context \<Rightarrow> ImsMd5Context" where
  "ImsMd5_Initialize c =
     c\<lparr>md5_anCount0 := 0, md5_anCount1 := 0,
       md5_anState := (0x67452301, 0xefcdab89, 0x98badcfe, 0x10325476)\<rparr>"

definition ImsMd5_cleared :: ImsMd5Context where
  "ImsMd5_cleared = \<lparr>md5_anState = (0, 0, 0, 0), md5_anCount0 = 0, md5_anCount1 = 0,
                     md5_aucBuffer = replicate 64 0\<rparr>"

text \<open>\<open>None\<close> is a read outside the source or a loop without end (sources of nearly 4 GiB).\<close>

definition ImsMd5_Update :: "u8 list \<Rightarrow> u32 \<Rightarrow> ImsMd5Context \<Rightarrow> ImsMd5Context option" where
  "ImsMd5_Update pucSrc nSrcLen c =
     (if length pucSrc < unat nSrcLen then None else
      let nIndex = drop_bit 3 (md5_anCount0 c) AND 0x3F;
          c = c\<lparr>md5_anCount0 := md5_anCount0 c + push_bit 3 nSrcLen\<rparr>;
          c = (if md5_anCount0 c < push_bit 3 nSrcLen then c\<lparr>md5_anCount1 := md5_anCount1 c + 1\<rparr> else c);
          c = c\<lparr>md5_anCount1 := md5_anCount1 c + drop_bit 29 nSrcLen\<rparr>;
          nPartLen = 64 - nIndex
      in if nSrcLen \<ge> nPartLen then
           (let buffer = memcpy (md5_aucBuffer c) (unat nIndex) (take (unat nPartLen) pucSrc);
                st = imsMd5_Transform (md5_anState c) buffer
            in case transform_loop imsMd5_Transform pucSrc nSrcLen nPartLen st of
                 None \<Rightarrow> None
               | Some (i, st) \<Rightarrow>
                   Some (c\<lparr>md5_anState := st,
                     md5_aucBuffer := memcpy buffer 0 (take (unat (nSrcLen - i)) (drop (unat i) pucSrc))\<rparr>))
         else
           Some (c\<lparr>md5_aucBuffer :=
             memcpy (md5_aucBuffer c) (unat nIndex) (take (unat nSrcLen) pucSrc)\<rparr>))"

definition imsMd5_state_bytes :: "md5_state \<Rightarrow> u8 list" where
  "imsMd5_state_bytes st = (case st of (a, b, c, d) \<Rightarrow> imsMd5_Encode [a, b, c, d])"

text \<open>The digest, and the context behind it, which is zeroed.\<close>

definition ImsMd5_Finalize :: "ImsMd5Context \<Rightarrow> (u8 list \<times> ImsMd5Context) option" where
  "ImsMd5_Finalize c =
     (let aucBits = imsMd5_Encode [md5_anCount0 c, md5_anCount1 c];
          nIndex = drop_bit 3 (md5_anCount0 c) AND 0x3F;
          nPadLen = (if nIndex < 56 then 56 - nIndex else 120 - nIndex)
      in case ImsMd5_Update MD5_PADDING nPadLen c of
           None \<Rightarrow> None
         | Some c1 \<Rightarrow>
             (case ImsMd5_Update aucBits 8 c1 of
                None \<Rightarrow> None
              | Some c2 \<Rightarrow> Some (imsMd5_state_bytes (md5_anState c2), ImsMd5_cleared)))"

subsection \<open>MD5 is a block hash\<close>

definition md5_view :: "ImsMd5Context \<Rightarrow> md5_state hash_view" where
  "md5_view c = \<lparr>v_low = md5_anCount0 c, v_high = md5_anCount1 c, v_chain = md5_anState c,
                 v_buffer = md5_aucBuffer c\<rparr>"

definition md5_length_bytes :: "u32 \<Rightarrow> u32 \<Rightarrow> u8 list" where
  "md5_length_bytes low high = imsMd5_Encode [low, high]"

definition md5_init :: md5_state where
  "md5_init = (0x67452301, 0xefcdab89, 0x98badcfe, 0x10325476)"

interpretation md5: block_hash imsMd5_Transform md5_init md5_view ImsMd5_cleared ImsMd5_Update ImsMd5_Finalize
  md5_length_bytes imsMd5_state_bytes
proof
  show "map_option md5_view (ImsMd5_Update src n c) = block_update imsMd5_Transform src n (md5_view c)" for src n c
    by (simp add: ImsMd5_Update_def block_update_def md5_view_def Let_def split: option.split)
  show "ImsMd5_Finalize c =
      Option.bind (ImsMd5_Update hash_padding (pad_length (v_low (md5_view c))) c) (\<lambda>c1.
        map_option (\<lambda>c2. (imsMd5_state_bytes (v_chain (md5_view c2)), ImsMd5_cleared))
          (ImsMd5_Update (md5_length_bytes (v_low (md5_view c)) (v_high (md5_view c))) 8 c1))" for c
    unfolding ImsMd5_Finalize_def pad_length_def Let_def md5_view_def md5_length_bytes_def MD5_PADDING_def
      hash_view.simps
    by (simp only: Option.bind_eq_Some_conv split: option.split) auto
  show "length (md5_length_bytes low high) = 8" for low high by (simp add: md5_length_bytes_def)
qed

text \<open>The digest of a whole message, by the code and by the standard.\<close>

definition md5_digest :: "u8 list \<Rightarrow> u8 list" where
  "md5_digest msg = block_digest imsMd5_Transform md5_init md5_length_bytes imsMd5_state_bytes msg"

lemma md5_initial:
  "length (md5_aucBuffer c) = 64 \<Longrightarrow> holds imsMd5_Transform md5_init [] (md5_view (ImsMd5_Initialize c))"
  by (rule holds_initial) (simp_all add: md5_view_def ImsMd5_Initialize_def md5_init_def)

end
