(* ===== verification/Ims_Sha1.thy ===== *)
theory Ims_Sha1
  imports Block_Hash
begin

unbundle bit_operations_syntax

text \<open>
  The SHA-1 digest (\<open>platform/util/ImsSha1.cpp\<close>). The macro \<open>FF\<close> is \<open>sha1_round\<close>, the
  four loops of \<open>imsSha1_Transform\<close> are one fold over the 80 indices of \<open>W\<close>.
\<close>

subsection \<open>The compression function\<close>

type_synonym sha1_state = "u32 \<times> u32 \<times> u32 \<times> u32 \<times> u32"

definition SHA1_ROTATE_LEFT :: "u32 \<Rightarrow> nat \<Rightarrow> u32" where
  "SHA1_ROTATE_LEFT x n = (push_bit n x AND 0xFFFFFFFF) OR drop_bit (32 - n) x"

definition F00 :: "u32 \<Rightarrow> u32 \<Rightarrow> u32 \<Rightarrow> u32" where
  "F00 b c d = (b AND c) OR (NOT b AND d)"

definition F20 :: "u32 \<Rightarrow> u32 \<Rightarrow> u32 \<Rightarrow> u32" where
  "F20 b c d = b XOR c XOR d"

definition F40 :: "u32 \<Rightarrow> u32 \<Rightarrow> u32 \<Rightarrow> u32" where
  "F40 b c d = (b AND c) OR (b AND d) OR (c AND d)"

definition F60 :: "u32 \<Rightarrow> u32 \<Rightarrow> u32 \<Rightarrow> u32" where
  "F60 b c d = b XOR c XOR d"

text \<open>The function value and the constant of round \<open>t\<close>.\<close>

definition sha1_round_input :: "nat \<Rightarrow> u32 \<Rightarrow> u32 \<Rightarrow> u32 \<Rightarrow> u32 \<times> u32" where
  "sha1_round_input t b c d =
     (if t < 20 then (F00 b c d, 0x5a827999)
      else if t < 40 then (F20 b c d, 0x6ed9eba1)
      else if t < 60 then (F40 b c d, 0x8f1bbcdc)
      else (F60 b c d, 0xca62c1d6))"

definition sha1_round :: "u32 list \<Rightarrow> sha1_state \<Rightarrow> nat \<Rightarrow> sha1_state" where
  "sha1_round w st t =
     (case st of (a, b, c, d, e) \<Rightarrow>
        let (bcd, k) = sha1_round_input t b c d;
            temp = SHA1_ROTATE_LEFT a 5 + bcd;
            temp = temp + e;
            temp = temp + w ! t;
            temp = temp + k
        in (temp AND 0xFFFFFFFF, a, SHA1_ROTATE_LEFT b 30, c, d))"

fun imsSha1_Decode :: "u8 list \<Rightarrow> u32 list" where
  "imsSha1_Decode (b0 # b1 # b2 # b3 # bs) =
     (push_bit 24 (ucast b0) OR push_bit 16 (ucast b1) OR push_bit 8 (ucast b2) OR ucast b3) # imsSha1_Decode bs"
| "imsSha1_Decode _ = []"

fun imsSha1_Encode :: "u32 list \<Rightarrow> u8 list" where
  "imsSha1_Encode [] = []"
| "imsSha1_Encode (w # ws) =
     [ucast (drop_bit 24 w AND 0xFF), ucast (drop_bit 16 w AND 0xFF), ucast (drop_bit 8 w AND 0xFF),
      ucast (w AND 0xFF)] @ imsSha1_Encode ws"

text \<open>The message schedule: the words of the block, then the loop from 16 to 79.\<close>

definition sha1_schedule :: "u8 list \<Rightarrow> u32 list" where
  "sha1_schedule aucMessageBlock =
     foldl (\<lambda>w t. w @ [SHA1_ROTATE_LEFT (w ! (t - 3) XOR w ! (t - 8) XOR w ! (t - 14) XOR w ! (t - 16)) 1])
       (imsSha1_Decode aucMessageBlock) [16..<80]"

definition imsSha1_Transform :: "sha1_state \<Rightarrow> u8 list \<Rightarrow> sha1_state" where
  "imsSha1_Transform st aucMessageBlock =
     (case st of (h0, h1, h2, h3, h4) \<Rightarrow>
      case foldl (sha1_round (sha1_schedule aucMessageBlock)) st [0..<80] of (a, b, c, d, e) \<Rightarrow>
        (h0 + a, h1 + b, h2 + c, h3 + d, h4 + e))"

subsection \<open>The context\<close>

record ImsSha1Context =
  sha1_nLengthLow :: u32
  sha1_nLengthHigh :: u32
  sha1_anH :: sha1_state
  sha1_aucMessageBlock :: "u8 list"

definition SHA1_PADDING :: "u8 list" where
  "SHA1_PADDING = 0x80 # replicate 63 0"

definition ImsSha1_Initialize :: "ImsSha1Context \<Rightarrow> ImsSha1Context" where
  "ImsSha1_Initialize c =
     c\<lparr>sha1_nLengthLow := 0, sha1_nLengthHigh := 0,
       sha1_anH := (0x67452301, 0xefcdab89, 0x98badcfe, 0x10325476, 0xc3d2e1f0)\<rparr>"

definition ImsSha1_cleared :: ImsSha1Context where
  "ImsSha1_cleared = \<lparr>sha1_nLengthLow = 0, sha1_nLengthHigh = 0, sha1_anH = (0, 0, 0, 0, 0),
                      sha1_aucMessageBlock = replicate 64 0\<rparr>"

text \<open>\<open>None\<close> is a read outside the source or a loop without end (sources of nearly 4 GiB).\<close>

definition ImsSha1_Update :: "u8 list \<Rightarrow> u32 \<Rightarrow> ImsSha1Context \<Rightarrow> ImsSha1Context option" where
  "ImsSha1_Update pucSrc nSrcLen c =
     (if length pucSrc < unat nSrcLen then None else
      let nIndex = drop_bit 3 (sha1_nLengthLow c) AND 0x3F;
          c = c\<lparr>sha1_nLengthLow := sha1_nLengthLow c + push_bit 3 nSrcLen\<rparr>;
          c = (if sha1_nLengthLow c < push_bit 3 nSrcLen
               then c\<lparr>sha1_nLengthHigh := sha1_nLengthHigh c + 1\<rparr> else c);
          c = c\<lparr>sha1_nLengthHigh := sha1_nLengthHigh c + drop_bit 29 nSrcLen\<rparr>;
          nPartLen = 64 - nIndex
      in if nSrcLen \<ge> nPartLen then
           (let block = memcpy (sha1_aucMessageBlock c) (unat nIndex) (take (unat nPartLen) pucSrc);
                h = imsSha1_Transform (sha1_anH c) block
            in case transform_loop imsSha1_Transform pucSrc nSrcLen nPartLen h of
                 None \<Rightarrow> None
               | Some (i, h) \<Rightarrow>
                   Some (c\<lparr>sha1_anH := h,
                     sha1_aucMessageBlock :=
                       memcpy block 0 (take (unat (nSrcLen - i)) (drop (unat i) pucSrc))\<rparr>))
         else
           Some (c\<lparr>sha1_aucMessageBlock :=
             memcpy (sha1_aucMessageBlock c) (unat nIndex) (take (unat nSrcLen) pucSrc)\<rparr>))"

definition imsSha1_state_bytes :: "sha1_state \<Rightarrow> u8 list" where
  "imsSha1_state_bytes st = (case st of (a, b, c, d, e) \<Rightarrow> imsSha1_Encode [a, b, c, d, e])"

definition ImsSha1_Finalize :: "ImsSha1Context \<Rightarrow> (u8 list \<times> ImsSha1Context) option" where
  "ImsSha1_Finalize c =
     (let aucBits = imsSha1_Encode [sha1_nLengthHigh c] @ imsSha1_Encode [sha1_nLengthLow c];
          nIndex = drop_bit 3 (sha1_nLengthLow c) AND 0x3F;
          nPadLen = (if nIndex < 56 then 56 - nIndex else 120 - nIndex)
      in case ImsSha1_Update SHA1_PADDING nPadLen c of
           None \<Rightarrow> None
         | Some c1 \<Rightarrow>
             (case ImsSha1_Update aucBits 8 c1 of
                None \<Rightarrow> None
              | Some c2 \<Rightarrow> Some (imsSha1_state_bytes (sha1_anH c2), ImsSha1_cleared)))"

subsection \<open>SHA-1 is a block hash\<close>

definition sha1_view :: "ImsSha1Context \<Rightarrow> sha1_state hash_view" where
  "sha1_view c = \<lparr>v_low = sha1_nLengthLow c, v_high = sha1_nLengthHigh c, v_chain = sha1_anH c,
                  v_buffer = sha1_aucMessageBlock c\<rparr>"

definition sha1_length_bytes :: "u32 \<Rightarrow> u32 \<Rightarrow> u8 list" where
  "sha1_length_bytes low high = imsSha1_Encode [high] @ imsSha1_Encode [low]"

definition sha1_init :: sha1_state where
  "sha1_init = (0x67452301, 0xefcdab89, 0x98badcfe, 0x10325476, 0xc3d2e1f0)"

interpretation sha1: block_hash imsSha1_Transform sha1_init sha1_view ImsSha1_cleared ImsSha1_Update
  ImsSha1_Finalize sha1_length_bytes imsSha1_state_bytes
proof
  show "map_option sha1_view (ImsSha1_Update src n c) = block_update imsSha1_Transform src n (sha1_view c)" for src n c
    by (simp add: ImsSha1_Update_def block_update_def sha1_view_def Let_def split: option.split)
  show "ImsSha1_Finalize c =
      Option.bind (ImsSha1_Update hash_padding (pad_length (v_low (sha1_view c))) c) (\<lambda>c1.
        map_option (\<lambda>c2. (imsSha1_state_bytes (v_chain (sha1_view c2)), ImsSha1_cleared))
          (ImsSha1_Update (sha1_length_bytes (v_low (sha1_view c)) (v_high (sha1_view c))) 8 c1))" for c
    unfolding ImsSha1_Finalize_def pad_length_def Let_def sha1_view_def sha1_length_bytes_def SHA1_PADDING_def
      hash_view.simps
    by (simp only: Option.bind_eq_Some_conv split: option.split) auto
  show "length (sha1_length_bytes low high) = 8" for low high by (simp add: sha1_length_bytes_def)
qed

definition sha1_digest :: "u8 list \<Rightarrow> u8 list" where
  "sha1_digest msg = block_digest imsSha1_Transform sha1_init sha1_length_bytes imsSha1_state_bytes msg"

lemma sha1_initial:
  "length (sha1_aucMessageBlock c) = 64 \<Longrightarrow>
   holds imsSha1_Transform sha1_init [] (sha1_view (ImsSha1_Initialize c))"
  by (rule holds_initial) (simp_all add: sha1_view_def ImsSha1_Initialize_def sha1_init_def)

end
