(* ===== verification/Ims_Digest.thy ===== *)
theory Ims_Digest
  imports Ims_Md5 Ims_Sha1 Sip_String "HOL-Library.Monad_Syntax"
begin

unbundle bit_operations_syntax

text \<open>
  What the library computes with its digests: keyed digests (\<open>platform/util/ImsHmac.cpp\<close>) and
  the values of HTTP digest authentication (\<open>platform/util/ImsDigest.cpp\<close>). A context the code
  leaves uninitialised on its stack is a parameter; \<open>None\<close> is a read outside a source.
\<close>

subsection \<open>Bytes of a string\<close>

definition bytes_of :: "string \<Rightarrow> u8 list" where
  "bytes_of s = map of_char s"

definition chars_of :: "u8 list \<Rightarrow> string" where
  "chars_of bs = map (\<lambda>b. char_of (unat b)) bs"

abbreviation COLON :: "u8 list" where
  "COLON \<equiv> [0x3A]"

lemma length_bytes_of [simp]: "length (bytes_of s) = length s"
  by (simp add: bytes_of_def)

lemma length_chars_of [simp]: "length (chars_of bs) = length bs"
  by (simp add: chars_of_def)

lemma chars_of_bytes [simp]: "chars_of (bytes_of s) = s"
proof -
  have "char_of (unat (of_char c :: u8)) = c" for c
  proof -
    have "(of_char c :: u8) = of_nat (of_char c)" by (rule of_nat_of_char [symmetric])
    then have "unat (of_char c :: u8) = take_bit 8 (of_char c)" by (simp only: unsigned_of_nat) simp
    then show ?thesis by (simp add: char_of_take_bit_eq)
  qed
  then show ?thesis by (simp add: chars_of_def bytes_of_def comp_def)
qed

subsection \<open>Keyed digests\<close>

text \<open>
  The two pads are arrays of 65 bytes, zeroed and overwritten with the key; the loop exclusive-ors
  the first 64. \<open>hmac_pad\<close> is one of them; \<open>None\<close> a key longer than the array or its source.
\<close>

abbreviation HMAC_B :: nat where "HMAC_B \<equiv> 64"

definition hmac_pad :: "u8 \<Rightarrow> u8 list \<Rightarrow> int \<Rightarrow> u8 list option" where
  "hmac_pad x pucKey nKeyLen =
     (if 0 \<le> nKeyLen \<and> nat nKeyLen \<le> length pucKey \<and> nat nKeyLen \<le> HMAC_B + 1
      then let pad = memcpy (replicate (HMAC_B + 1) 0) 0 (take (nat nKeyLen) pucKey)
           in Some (map (\<lambda>b. b XOR x) (take HMAC_B pad) @ drop HMAC_B pad)
      else None)"

definition ImsHmac_Md5 :: "ImsMd5Context \<Rightarrow> ImsMd5Context \<Rightarrow> u8 list \<Rightarrow> int \<Rightarrow> u8 list \<Rightarrow> int \<Rightarrow> u8 list option" where
  "ImsHmac_Md5 stack1 stack2 pucText nTextLen pucKey nKeyLen = do {
     (pucKey, nKeyLen) \<leftarrow>
       (if nKeyLen > 64 then do {
          c \<leftarrow> ImsMd5_Update pucKey (word_of_int nKeyLen) (ImsMd5_Initialize stack1);
          (aucKey_Temp, _) \<leftarrow> ImsMd5_Finalize c;
          Some (aucKey_Temp, 16)
        } else Some (pucKey, nKeyLen));
     aucKey_IPad \<leftarrow> hmac_pad 0x36 pucKey nKeyLen;
     aucKey_OPad \<leftarrow> hmac_pad 0x5C pucKey nKeyLen;
     c \<leftarrow> ImsMd5_Update aucKey_IPad 64 (ImsMd5_Initialize stack2);
     c \<leftarrow> ImsMd5_Update pucText (word_of_int nTextLen) c;
     (aucDigest, c) \<leftarrow> ImsMd5_Finalize c;
     c \<leftarrow> ImsMd5_Update aucKey_OPad 64 (ImsMd5_Initialize c);
     c \<leftarrow> ImsMd5_Update aucDigest 16 c;
     (aucDigest, _) \<leftarrow> ImsMd5_Finalize c;
     Some aucDigest
   }"

definition ImsHmac_Sha1 :: "ImsSha1Context \<Rightarrow> ImsSha1Context \<Rightarrow> u8 list \<Rightarrow> int \<Rightarrow> u8 list \<Rightarrow> int \<Rightarrow> u8 list option" where
  "ImsHmac_Sha1 stack1 stack2 pucText nTextLen pucKey nKeyLen = do {
     (pucKey, nKeyLen) \<leftarrow>
       (if nKeyLen > 64 then do {
          c \<leftarrow> ImsSha1_Update pucKey (word_of_int nKeyLen) (ImsSha1_Initialize stack1);
          (aucKey_Temp, _) \<leftarrow> ImsSha1_Finalize c;
          Some (aucKey_Temp, 20)
        } else Some (pucKey, nKeyLen));
     aucKey_IPad \<leftarrow> hmac_pad 0x36 pucKey nKeyLen;
     aucKey_OPad \<leftarrow> hmac_pad 0x5C pucKey nKeyLen;
     c \<leftarrow> ImsSha1_Update aucKey_IPad 64 (ImsSha1_Initialize stack2);
     c \<leftarrow> ImsSha1_Update pucText (word_of_int nTextLen) c;
     (aucHash, c) \<leftarrow> ImsSha1_Finalize c;
     c \<leftarrow> ImsSha1_Update aucKey_OPad 64 (ImsSha1_Initialize c);
     c \<leftarrow> ImsSha1_Update aucHash 20 c;
     (aucHash, _) \<leftarrow> ImsSha1_Finalize c;
     Some aucHash
   }"

subsection \<open>Digest authentication\<close>

definition hex_digit :: "u8 \<Rightarrow> u8" where
  "hex_digit ucTemp = (if ucTemp \<le> 9 then ucTemp + 0x30 else ucTemp + 0x61 - 10)"

text \<open>The 32 digits; the terminating NUL the code adds behind them is not read by its callers.\<close>

definition imsDigest_ConvertBinToHex :: "u8 list \<Rightarrow> u8 list" where
  "imsDigest_ConvertBinToHex hBin =
     concat (map (\<lambda>b. [hex_digit (drop_bit 4 b AND 0x0F), hex_digit (b AND 0x0F)]) (take 16 hBin))"

definition md5_put :: "u8 list \<Rightarrow> ImsMd5Context \<Rightarrow> ImsMd5Context option" where
  "md5_put src c = ImsMd5_Update src (of_nat (length src)) c"

definition ImsDigest_CalculateA1 ::
    "ImsMd5Context \<Rightarrow> string \<Rightarrow> string \<Rightarrow> string \<Rightarrow> string \<Rightarrow> string \<Rightarrow> string \<Rightarrow> u8 list option" where
  "ImsDigest_CalculateA1 stack strAlgorithm strUsername strRealm strPassword strNonce strCNonce = do {
     c \<leftarrow> md5_put (bytes_of strUsername) (ImsMd5_Initialize stack);
     c \<leftarrow> md5_put COLON c;
     c \<leftarrow> md5_put (bytes_of strRealm) c;
     c \<leftarrow> md5_put COLON c;
     c \<leftarrow> md5_put (bytes_of strPassword) c;
     (hA1Local, c) \<leftarrow> ImsMd5_Finalize c;
     hA1Local \<leftarrow>
       (if stricmp_loop strAlgorithm ''md5-sess'' = 0 then do {
          c \<leftarrow> md5_put hA1Local (ImsMd5_Initialize c);
          c \<leftarrow> (if length strNonce > 0 then md5_put COLON c \<bind> md5_put (bytes_of strNonce) else Some c);
          c \<leftarrow> (if length strCNonce > 0 then md5_put COLON c \<bind> md5_put (bytes_of strCNonce) else Some c);
          (hA1Local, _) \<leftarrow> ImsMd5_Finalize c;
          Some hA1Local
        } else Some hA1Local);
     Some (imsDigest_ConvertBinToHex hA1Local)
   }"

definition ImsDigest_CalculateEntity :: "ImsMd5Context \<Rightarrow> string \<Rightarrow> u8 list option" where
  "ImsDigest_CalculateEntity stack strEntityBody = do {
     c \<leftarrow> md5_put (bytes_of strEntityBody) (ImsMd5_Initialize stack);
     (hEntityLocal, _) \<leftarrow> ImsMd5_Finalize c;
     Some (imsDigest_ConvertBinToHex hEntityLocal)
   }"

definition ImsDigest_CalculateResponse ::
    "ImsMd5Context \<Rightarrow> u8 list \<Rightarrow> string \<Rightarrow> string \<Rightarrow> string \<Rightarrow> string \<Rightarrow> string \<Rightarrow> string \<Rightarrow> u8 list \<Rightarrow>
     u8 list option" where
  "ImsDigest_CalculateResponse stack hA1 strNonce strNonceCount strCNonce strQop strMethod strDigestUri
       hEntity = do {
     c \<leftarrow> md5_put (bytes_of strMethod) (ImsMd5_Initialize stack);
     c \<leftarrow> md5_put COLON c;
     c \<leftarrow> md5_put (bytes_of strDigestUri) c;
     c \<leftarrow> (if stricmp_loop strQop ''auth-int'' = 0
          then md5_put COLON c \<bind> ImsMd5_Update hEntity 32 else Some c);
     (hA2, c) \<leftarrow> ImsMd5_Finalize c;
     let hA2Hex = imsDigest_ConvertBinToHex hA2;
     c \<leftarrow> ImsMd5_Update hA1 32 (ImsMd5_Initialize c);
     c \<leftarrow> md5_put COLON c;
     c \<leftarrow> (if length strNonce > 0 then md5_put (bytes_of strNonce) c \<bind> md5_put COLON else Some c);
     c \<leftarrow> (if length strQop > 0 then do {
             c \<leftarrow> md5_put (bytes_of strNonceCount) c;
             c \<leftarrow> md5_put COLON c;
             c \<leftarrow> md5_put (bytes_of strCNonce) c;
             c \<leftarrow> md5_put COLON c;
             c \<leftarrow> md5_put (bytes_of strQop) c;
             md5_put COLON c
           } else Some c);
     c \<leftarrow> ImsMd5_Update hA2Hex 32 c;
     (hResponseLocal, _) \<leftarrow> ImsMd5_Finalize c;
     Some (imsDigest_ConvertBinToHex hResponseLocal)
   }"

subsection \<open>The formulas\<close>

text \<open>The keyed digest of RFC 2104, for a hash \<open>H\<close> with blocks of 64 bytes.\<close>

definition hmac :: "(u8 list \<Rightarrow> u8 list) \<Rightarrow> u8 list \<Rightarrow> u8 list \<Rightarrow> u8 list" where
  "hmac H key msg =
     (let k = (if length key > 64 then H key else key);
          pad = (\<lambda>x. map (\<lambda>b. b XOR x) (k @ replicate (64 - length k) 0))
      in H (pad 0x5C @ H (pad 0x36 @ msg)))"

text \<open>The values of RFC 2617: \<open>LHEX\<close>, \<open>KD\<close> and the parts of a digest joined by colons.\<close>

definition LHEX :: "u8 list \<Rightarrow> string" where
  "LHEX bs = concat (map (\<lambda>b. [''0123456789abcdef'' ! (unat b div 16), ''0123456789abcdef'' ! (unat b mod 16)]) bs)"

fun colon_list :: "string list \<Rightarrow> string" where
  "colon_list [] = []"
| "colon_list [s] = s"
| "colon_list (s # ss) = s @ '':'' @ colon_list ss"

definition H_string :: "string \<Rightarrow> string" where
  "H_string s = LHEX (md5_digest (bytes_of s))"

text \<open>The session variant of \<open>H(A1)\<close> is over the 16 bytes of the first digest, not its digits.\<close>

definition rfc2617_HA1 :: "string \<Rightarrow> string \<Rightarrow> string \<Rightarrow> string \<Rightarrow> string \<Rightarrow> string \<Rightarrow> string" where
  "rfc2617_HA1 alg user realm pwd nonce cnonce =
     (let A1 = colon_list [user, realm, pwd]
      in if lower alg = lower ''md5-sess''
         then LHEX (md5_digest (md5_digest (bytes_of A1) @ bytes_of ('':'' @ colon_list [nonce, cnonce])))
         else H_string A1)"

definition rfc2617_response :: "string \<Rightarrow> string \<Rightarrow> string \<Rightarrow> string \<Rightarrow> string \<Rightarrow> string \<Rightarrow> string \<Rightarrow> string \<Rightarrow> string" where
  "rfc2617_response HA1 nonce nc cnonce qop meth uri HEntity =
     (let A2 = (if lower qop = lower ''auth-int'' then [meth, uri, HEntity] else [meth, uri]);
          data = (if qop = [] then [nonce] else [nonce, nc, cnonce, qop])
      in H_string (colon_list ([HA1] @ data @ [H_string (colon_list A2)])))"

subsection \<open>The keyed digests follow RFC 2104\<close>

lemma length_imsMd5_Encode [simp]: "length (imsMd5_Encode ws) = 4 * length ws"
  by (induction ws) simp_all

lemma length_imsSha1_Encode [simp]: "length (imsSha1_Encode ws) = 4 * length ws"
  by (induction ws) simp_all

lemma length_md5_digest [simp]: "length (md5_digest msg) = 16"
  by (simp add: md5_digest_def block_digest_def imsMd5_state_bytes_def split: prod.split)

lemma length_sha1_digest [simp]: "length (sha1_digest msg) = 20"
  by (simp add: sha1_digest_def block_digest_def imsSha1_state_bytes_def split: prod.split)

lemma unat_word_of_int:
  "0 \<le> n \<Longrightarrow> n < 2 ^ 31 \<Longrightarrow> unat (word_of_int n :: u32) = nat n"
  by (simp add: unat_eq_nat_uint uint_word_of_int)

lemma hmac_pad_key:
  assumes "0 \<le> n" and "nat n \<le> length key" and "nat n \<le> 64"
  shows "\<exists>p. hmac_pad x key n = Some p \<and> length p = 65 \<and>
    take 64 p = map (\<lambda>b. b XOR x) (take (nat n) key @ replicate (64 - nat n) 0)"
  using assms by (auto simp: hmac_pad_def memcpy_def)

text \<open>
  The computation the two functions share, over the operations of a digest. The locale adds to a
  block hash what a keyed digest needs of it: a start on any buffer, and digests of \<open>L\<close> bytes.
\<close>

definition keyed_digest ::
    "('c \<Rightarrow> 'c) \<Rightarrow> (u8 list \<Rightarrow> u32 \<Rightarrow> 'c \<Rightarrow> 'c option) \<Rightarrow> ('c \<Rightarrow> (u8 list \<times> 'c) option) \<Rightarrow> int \<Rightarrow>
     'c \<Rightarrow> 'c \<Rightarrow> u8 list \<Rightarrow> int \<Rightarrow> u8 list \<Rightarrow> int \<Rightarrow> u8 list option" where
  "keyed_digest start update finalize L stack1 stack2 text n key k = do {
     (key, k) \<leftarrow>
       (if k > 64 then do {
          c \<leftarrow> update key (word_of_int k) (start stack1);
          (temp, _) \<leftarrow> finalize c;
          Some (temp, L)
        } else Some (key, k));
     ipad \<leftarrow> hmac_pad 0x36 key k;
     opad \<leftarrow> hmac_pad 0x5C key k;
     c \<leftarrow> update ipad 64 (start stack2);
     c \<leftarrow> update text (word_of_int n) c;
     (digest, c) \<leftarrow> finalize c;
     c \<leftarrow> update opad 64 (start c);
     c \<leftarrow> update digest (word_of_int L) c;
     (digest, _) \<leftarrow> finalize c;
     Some digest
   }"

lemma ImsHmac_Md5_keyed:
  "ImsHmac_Md5 = keyed_digest ImsMd5_Initialize ImsMd5_Update ImsMd5_Finalize 16"
  by (intro ext) (simp add: ImsHmac_Md5_def keyed_digest_def)

lemma ImsHmac_Sha1_keyed:
  "ImsHmac_Sha1 = keyed_digest ImsSha1_Initialize ImsSha1_Update ImsSha1_Finalize 20"
  by (intro ext) (simp add: ImsHmac_Sha1_def keyed_digest_def)

locale keyed_hash = block_hash +
  fixes start :: "'b \<Rightarrow> 'b" and L :: int
  assumes start_holds: "length (v_buffer (view c)) = 64 \<Longrightarrow> holds T init [] (view (start c))"
    and cleared_buffer: "length (v_buffer (view cleared)) = 64"
    and length_out: "int (length (out st)) = L"
    and L_le: "0 \<le> L" "L \<le> 64"
begin

abbreviation hash :: "u8 list \<Rightarrow> u8 list" where
  "hash \<equiv> block_digest T init length_bytes out"

lemma length_hash: "length (hash msg) = nat L"
proof -
  have "int (length (hash msg)) = L" unfolding block_digest_def by (rule length_out)
  then show ?thesis by (simp flip: nat_int)
qed

text \<open>The key after the first step: hashed when it is longer than a block.\<close>

definition short_key :: "u8 list \<Rightarrow> int \<Rightarrow> u8 list \<times> int" where
  "short_key key k = (if k > 64 then (hash (take (nat k) key), L) else (key, k))"

lemma short_key_step:
  assumes "length (v_buffer (view s)) = 64" and k: "0 \<le> k" "k < 2 ^ 31" "nat k \<le> length key"
  shows "(if k > 64 then
       update key (word_of_int k) (start s) \<bind> (\<lambda>c. finalize c \<bind> (\<lambda>(temp, _). Some (temp, L)))
     else Some (key, k)) = Some (short_key key k)"
proof (cases "k > 64")
  case True
  have "update key (word_of_int k) (start s) \<bind> (\<lambda>c. finalize c \<bind> (\<lambda>(temp, _). Some (temp, L))) =
      Some (hash (take (nat k) key), L)"
  proof (rule update_bind [OF start_holds [OF assms(1)]])
    fix c assume "holds T init ([] @ take (unat (word_of_int k :: u32)) key) (view c)"
    then show "finalize c \<bind> (\<lambda>(temp, _). Some (temp, L)) = Some (hash (take (nat k) key), L)"
      by (rule finalize_bind) (use k in \<open>simp add: unat_word_of_int\<close>)
  qed (use k in \<open>simp_all add: unat_word_of_int\<close>)
  with True show ?thesis by (simp add: short_key_def)
qed (simp add: short_key_def)

lemma keyed_digest_hmac:
  assumes stack: "length (v_buffer (view s1)) = 64" "length (v_buffer (view s2)) = 64"
    and msg: "0 \<le> n" "n < 2 ^ 31" "nat n \<le> length text"
    and key: "0 \<le> k" "k < 2 ^ 31" "nat k \<le> length key"
  shows "keyed_digest start update finalize L s1 s2 text n key k =
    Some (hmac hash (take (nat k) key) (take (nat n) text))"
proof -
  obtain key' k' where sk: "short_key key k = (key', k')" by fastforce
  then have k': "0 \<le> k'" "nat k' \<le> length key'" "nat k' \<le> 64"
    using key L_le by (auto simp: short_key_def length_hash split: if_splits)
  obtain ip op where pads: "hmac_pad 0x36 key' k' = Some ip" "hmac_pad 0x5C key' k' = Some op"
      "length ip = 65" "length op = 65"
      "take 64 ip = map (\<lambda>b. b XOR 0x36) (take (nat k') key' @ replicate (64 - nat k') 0)"
      "take 64 op = map (\<lambda>b. b XOR 0x5C) (take (nat k') key' @ replicate (64 - nat k') 0)"
    using hmac_pad_key [OF k', of "0x36"] hmac_pad_key [OF k', of "0x5C"] by blast
  have formula: "hmac hash (take (nat k) key) (take (nat n) text) =
      hash (take 64 op @ hash (take 64 ip @ take (nat n) text))"
  proof -
    have "(if length (take (nat k) key) > 64 then hash (take (nat k) key) else take (nat k) key) = take (nat k') key'"
      using sk key by (auto simp: short_key_def length_hash split: if_splits)
    moreover have "length (take (nat k') key') = nat k'" using k' by simp
    ultimately show ?thesis by (simp only: hmac_def Let_def pads)
  qed
  have unat: "unat (word_of_int n :: u32) = nat n" "unat (word_of_int L :: u32) = nat L"
    using msg L_le by (simp_all add: unat_word_of_int)
  show ?thesis
    unfolding keyed_digest_def short_key_step [OF stack(1) key] sk bind.bind_lunit prod.case pads(1,2)
  proof (rule update_bind [OF start_holds [OF stack(2)]], simp add: pads, simp, rule update_bind, assumption)
    fix c
    assume "holds T init (([] @ take (unat (64 :: u32)) ip) @ take (unat (word_of_int n :: u32)) text) (view c)"
    then have inner: "holds T init (take 64 ip @ take (nat n) text) (view c)" by (simp add: unat)
    show "finalize c \<bind> (\<lambda>(digest, c). update op 64 (start c) \<bind> (\<lambda>c. update digest (word_of_int L) c \<bind>
        (\<lambda>c. finalize c \<bind> (\<lambda>(digest, _). Some digest)))) =
      Some (hmac hash (take (nat k) key) (take (nat n) text))"
    proof (rule finalize_bind [OF inner], unfold prod.case,
        rule update_bind [OF start_holds [OF cleared_buffer]], simp add: pads, simp, rule update_bind, assumption)
      fix c'
      assume "holds T init (([] @ take (unat (64 :: u32)) op) @
        take (unat (word_of_int L :: u32)) (hash (take 64 ip @ take (nat n) text))) (view c')"
      then show "finalize c' \<bind> (\<lambda>(digest, _). Some digest) =
          Some (hmac hash (take (nat k) key) (take (nat n) text))"
        by (rule finalize_bind) (simp add: formula unat length_hash)
    qed (use L_le in \<open>simp_all add: unat length_hash\<close>)
  qed (use msg in \<open>simp_all add: unat\<close>)
qed

end

interpretation md5_mac: keyed_hash imsMd5_Transform md5_init md5_view ImsMd5_cleared ImsMd5_Update
  ImsMd5_Finalize md5_length_bytes imsMd5_state_bytes ImsMd5_Initialize 16
  by unfold_locales
    (simp_all add: holds_initial md5_view_def md5_init_def ImsMd5_Initialize_def ImsMd5_cleared_def imsMd5_state_bytes_def split: prod.split)

interpretation sha1_mac: keyed_hash imsSha1_Transform sha1_init sha1_view ImsSha1_cleared ImsSha1_Update
  ImsSha1_Finalize sha1_length_bytes imsSha1_state_bytes ImsSha1_Initialize 20
  by unfold_locales
    (simp_all add: holds_initial sha1_view_def sha1_init_def ImsSha1_Initialize_def ImsSha1_cleared_def imsSha1_state_bytes_def split: prod.split)

subsection \<open>Digest authentication follows RFC 2617\<close>

lemma length_cleared: "length (md5_aucBuffer ImsMd5_cleared) = 64"
  by (simp add: ImsMd5_cleared_def)

abbreviation md5_holds :: "u8 list \<Rightarrow> ImsMd5Context \<Rightarrow> bool" where
  "md5_holds msg c \<equiv> holds imsMd5_Transform md5_init msg (md5_view c)"

lemmas md5_finalize_bind = md5.finalize_bind [folded md5_digest_def]

lemma bytes_of_simps [simp]: "bytes_of [] = []" "bytes_of (c # s) = of_char c # bytes_of s"
  "bytes_of (s @ t) = bytes_of s @ bytes_of t"
  by (simp_all add: bytes_of_def)

lemma fits_bytes_of: "length s < 2 ^ 31 \<Longrightarrow> fits_update (bytes_of s)"
  by (simp add: fits_update_def)

lemma fits_COLON: "fits_update COLON"
  by (simp add: fits_update_def)

lemma md5_put_bind:
  assumes "md5_holds msg c" and "fits_update src" and "\<And>c'. md5_holds (msg @ src) c' \<Longrightarrow> k c' = r"
  shows "Option.bind (md5_put src c) k = r"
  unfolding md5_put_def
  by (rule md5.update_bind [OF assms(1)]) (use assms(2,3) in \<open>auto simp: fits_update_def unat_of_nat\<close>)

text \<open>An optional part of the message.\<close>

lemma md5_optional_bind:
  assumes "md5_holds msg c" and "b \<Longrightarrow> \<exists>c'. m = Some c' \<and> md5_holds (msg @ extra) c'"
    and "\<And>c'. md5_holds (msg @ (if b then extra else [])) c' \<Longrightarrow> k c' = r"
  shows "Option.bind (if b then m else Some c) k = r"
  using assms by (cases b) auto

lemma md5_put_ok:
  "md5_holds msg c \<Longrightarrow> fits_update src \<Longrightarrow> \<exists>c'. md5_put src c = Some c' \<and> md5_holds (msg @ src) c'"
  using md5.update_holds [of msg c "of_nat (length src)" src]
  by (simp add: md5_put_def fits_update_def unat_of_nat)

lemma md5_put2_ok:
  "md5_holds msg c \<Longrightarrow> fits_update s1 \<Longrightarrow> fits_update s2 \<Longrightarrow>
   \<exists>c'. md5_put s1 c \<bind> md5_put s2 = Some c' \<and> md5_holds (msg @ s1 @ s2) c'"
  using md5_put_ok [of msg c s1] md5_put_ok [of "msg @ s1" _ s2] by fastforce

lemma hex_digit_nat:
  assumes "n < 16"
  shows "hex_digit (of_nat n) = of_char (''0123456789abcdef'' ! n)"
proof -
  have "\<forall>n\<in>set [0..<16]. hex_digit (of_nat n) = of_char (''0123456789abcdef'' ! n)"
    by (simp add: hex_digit_def upt_rec)
  then show ?thesis using assms by simp
qed

lemma unat_u8_and_0F: "unat (b AND 0x0F :: u8) = unat b mod 16"
proof -
  have "b AND 0x0F = take_bit 4 b" by (simp add: take_bit_eq_mask mask_eq_exp_minus_1)
  then have "unat (b AND 0x0F) = take_bit 4 (unat b)" by (simp only: unsigned_take_bit_eq)
  then show ?thesis by (simp add: take_bit_eq_mod)
qed

lemma unat_u8_lt: "unat (b :: u8) < 256"
  using unsigned_less [of b, where ?'a = nat] by simp

lemma unat_u8_drop_bit: "unat (drop_bit k b :: u8) = unat b div 2 ^ k"
proof -
  have "take_bit 8 (unat b) = unat b" using unat_u8_lt [of b] by (simp add: take_bit_nat_eq_self)
  then show ?thesis unfolding unsigned_drop_bit_eq by (simp add: drop_bit_eq_div)
qed

lemma hex_digit_low: "hex_digit (b AND 0x0F) = of_char (''0123456789abcdef'' ! (unat b mod 16))"
proof -
  have "b AND 0x0F = of_nat (unat b mod 16)" using unat_u8_and_0F [of b] by (metis of_nat_unat ucast_id)
  then show ?thesis by (simp only: hex_digit_nat mod_less_divisor zero_less_numeral)
qed

lemma high_nibble: "unat (drop_bit 4 b :: u8) mod 16 = unat b div 16"
  using unat_u8_lt [of b] by (simp add: unat_u8_drop_bit)

lemma ConvertBinToHex_LHEX: "length bs \<le> 16 \<Longrightarrow> imsDigest_ConvertBinToHex bs = bytes_of (LHEX bs)"
  unfolding imsDigest_ConvertBinToHex_def LHEX_def hex_digit_low high_nibble bytes_of_def map_concat
  by (simp add: comp_def)

lemma CalculateA1_digest:
  assumes "length (md5_aucBuffer stack) = 64"
    and "length user < 2 ^ 31" "length realm < 2 ^ 31" "length pwd < 2 ^ 31"
    and "length nonce < 2 ^ 31" "length cnonce < 2 ^ 31"
    and "nonce \<noteq> []" and "lower alg = lower ''md5-sess'' \<Longrightarrow> cnonce \<noteq> []"
  shows "ImsDigest_CalculateA1 stack alg user realm pwd nonce cnonce =
    Some (bytes_of (rfc2617_HA1 alg user realm pwd nonce cnonce))"
proof -
  note fits = assms(2-6) [THEN fits_bytes_of] fits_COLON
  show ?thesis unfolding ImsDigest_CalculateA1_def stricmp_loop_eq_0
    apply (rule md5_put_bind [OF md5_initial [OF assms(1)]], rule fits)
    apply (rule md5_put_bind, assumption, rule fits)+
    apply (rule md5_finalize_bind, assumption, unfold prod.case)
    subgoal for c1 c2 c3 c4 c5
    proof (cases "lower alg = lower ''md5-sess''")
      case False
      then show ?thesis
        by (simp add: rfc2617_HA1_def H_string_def ConvertBinToHex_LHEX)
    next
      case True
      have opt: "length nonce > 0" "length cnonce > 0" using assms(7,8) True by simp_all
      show ?thesis
        apply (simp only: True opt simp_thms if_True Option.bind_assoc)
        apply (rule md5_put_bind [OF md5_initial [OF length_cleared]], simp add: fits_update_def)
        apply (rule md5_put_bind, assumption, rule fits)+
        apply (rule md5_finalize_bind, assumption)
        by (simp add: rfc2617_HA1_def True ConvertBinToHex_LHEX)
    qed
    done
qed

lemma length_LHEX [simp]: "length (LHEX bs) = 2 * length bs"
  by (induction bs) (simp_all add: LHEX_def)

lemma CalculateResponse_digest:
  assumes "length (md5_aucBuffer stack) = 64" "length HA1 = 32"
    and "length nonce < 2 ^ 31" "length nc < 2 ^ 31" "length cnonce < 2 ^ 31" "length qop < 2 ^ 31"
    and "length meth < 2 ^ 31" "length uri < 2 ^ 31"
    and "nonce \<noteq> []" and "lower qop = lower ''auth-int'' \<Longrightarrow> length ent = 32"
  shows "ImsDigest_CalculateResponse stack (bytes_of HA1) nonce nc cnonce qop meth uri (bytes_of ent) =
    Some (bytes_of (rfc2617_response HA1 nonce nc cnonce qop meth uri ent))"
proof -
  note fits = assms(3-8) [THEN fits_bytes_of] fits_COLON
  define A2 where "A2 = colon_list (if lower qop = lower ''auth-int'' then [meth, uri, ent] else [meth, uri])"
  have put32: "length s = 32 \<Longrightarrow> ImsMd5_Update (bytes_of s) 32 = md5_put (bytes_of s)" for s
    by (simp add: md5_put_def fun_eq_iff)
  have fit32: "length s = 32 \<Longrightarrow> fits_update (bytes_of s)" for s by (simp add: fits_update_def)
  have LHEX32: "length (LHEX (md5_digest msg)) = 32" for msg by simp
  have hex: "imsDigest_ConvertBinToHex (md5_digest msg) = bytes_of (LHEX (md5_digest msg))" for msg
    by (simp add: ConvertBinToHex_LHEX)
  show ?thesis unfolding ImsDigest_CalculateResponse_def stricmp_loop_eq_0
    apply (rule md5_put_bind [OF md5_initial [OF assms(1)]], rule fits)
    apply (rule md5_put_bind, assumption, rule fits)+
    apply (rule md5_optional_bind [where extra = "COLON @ bytes_of ent"], assumption)
    subgoal premises prems for c1 c2 c3
      unfolding put32 [OF assms(10) [OF prems(4)]]
      by (rule md5_put2_ok [OF prems(3) fits(7) fit32 [OF assms(10) [OF prems(4)]]])
    apply (rule md5_finalize_bind, assumption)
    apply (simp only: prod.case Let_def hex put32 [OF assms(2)] put32 [OF LHEX32])
    apply (rule md5_put_bind [OF md5_initial [OF length_cleared]], rule fit32, rule assms)
    apply (rule md5_put_bind, assumption, rule fits)
    apply (simp only: length_greater_0_conv assms not_False_eq_True if_True Option.bind_assoc)
    apply (rule md5_put_bind, assumption, rule fits)+
    subgoal premises prems
    proof (cases "qop = []")
      case True
      show ?thesis
        apply (simp only: True simp_thms if_False bind.bind_lunit)
        apply (rule md5_put_bind, rule prems, rule fit32, rule LHEX32)
        apply (rule md5_finalize_bind, assumption)
        by (simp add: True rfc2617_response_def H_string_def ConvertBinToHex_LHEX lower_def)
    next
      case False
      show ?thesis
        apply (simp only: False simp_thms if_True Option.bind_assoc)
        apply (rule md5_put_bind, rule prems, rule fits)
        apply (rule md5_put_bind, assumption, rule fits)+
        apply (rule md5_put_bind, assumption, rule fit32, rule LHEX32)
        apply (rule md5_finalize_bind, assumption)
        by (simp add: False rfc2617_response_def H_string_def ConvertBinToHex_LHEX)
    qed
    done
qed

end
