(* ===== verification/Ims_Base64.thy ===== *)
theory Ims_Base64
  imports Prelude "HOL-Library.Monad_Syntax"
begin

unbundle bit_operations_syntax

text \<open>
  The Base64 codecs of \<open>platform/util\<close>: \<open>ImsBase64_Encode\<close> and \<open>ImsBase64_Decode\<close> over byte
  buffers (\<open>ImsBase64.cpp\<close>), \<open>ToBase64\<close> and \<open>FromBase64\<close> of \<open>AString\<close> (\<open>AString.cpp\<close>).
  Characters are bytes. \<open>None\<close> is an access outside a buffer.
\<close>

subsection \<open>Tables\<close>

abbreviation CR :: u8 where "CR \<equiv> 0x0D"
abbreviation LF :: u8 where "LF \<equiv> 0x0A"
abbreviation BASE64_PAD :: u8 where "BASE64_PAD \<equiv> 0x3D"
abbreviation NP :: u8 where "NP \<equiv> 0xFF"
abbreviation MAX_LINE_LEN :: nat where "MAX_LINE_LEN \<equiv> 76"

definition BASE64_ENCODING_TABLE :: "u8 list" where
  "BASE64_ENCODING_TABLE =
     map of_char ''ABCDEFGHIJKLMNOPQRSTUVWXYZabcdefghijklmnopqrstuvwxyz0123456789+/''"

text \<open>The row of \<open>BASE64_DECODING_TABLE\<close> for a byte: its 256 entries, grouped by their runs.\<close>

definition BASE64_DECODING_TABLE :: "u8 list" where
  "BASE64_DECODING_TABLE =
     replicate 43 NP @ [62] @ replicate 3 NP @ [63] @ map of_nat [52..<62] @ replicate 7 NP @
     map of_nat [0..<26] @ replicate 6 NP @ map of_nat [26..<52] @ replicate 133 NP"

definition encode6 :: "u8 \<Rightarrow> u8" where
  "encode6 c6bit = BASE64_ENCODING_TABLE ! unat c6bit"

definition decode6 :: "u8 \<Rightarrow> u8" where
  "decode6 b = BASE64_DECODING_TABLE ! unat b"

subsection \<open>The encoder\<close>

text \<open>
  A character is written and, with \<open>bAddCrlf\<close>, a line of 76 is closed. The state is the
  text written and \<open>nLineCount\<close>. Each round of the loop reads up to three bytes.
\<close>

definition ADD_CRLF :: "u8 list \<times> nat \<Rightarrow> u8 list \<times> nat" where
  "ADD_CRLF st = (case st of (p, n) \<Rightarrow> if n = MAX_LINE_LEN then (p @ [CR, LF], 0) else (p, n))"

definition base64_put :: "bool \<Rightarrow> u8 \<Rightarrow> u8 list \<times> nat \<Rightarrow> u8 list \<times> nat" where
  "base64_put bAddCrlf c st =
     (case st of (p, n) \<Rightarrow> if bAddCrlf then ADD_CRLF (p @ [c], n + 1) else (p @ [c], n))"

fun Encode_loop :: "bool \<Rightarrow> u8 list \<Rightarrow> u8 list \<times> nat \<Rightarrow> u8 list \<times> nat" where
  "Encode_loop bAddCrlf [] st = st"
| "Encode_loop bAddCrlf (b0 # bs) st =
     (let put = base64_put bAddCrlf;
          st = put (encode6 (drop_bit 2 b0 AND 0x3F)) st;
          c6bit = push_bit 4 b0 AND 0x3F
      in case bs of
           [] \<Rightarrow> put BASE64_PAD (put BASE64_PAD (put (encode6 c6bit) st))
         | b1 # bs \<Rightarrow>
             (let st = put (encode6 (c6bit OR (drop_bit 4 b1 AND 0x0F))) st;
                  c6bit = push_bit 2 b1 AND 0x3F
              in case bs of
                   [] \<Rightarrow> put BASE64_PAD (put (encode6 c6bit) st)
                 | b2 # bs \<Rightarrow>
                     (let st = put (encode6 (c6bit OR (drop_bit 6 b2 AND 0x03))) st;
                          st = put (encode6 (b2 AND 0x3F)) st
                      in Encode_loop bAddCrlf bs st)))"

text \<open>The text, without the terminating NUL; the code returns its length.\<close>

definition ImsBase64_Encode :: "u8 list \<Rightarrow> bool \<Rightarrow> u8 list" where
  "ImsBase64_Encode pSrcData bAddCrlf = fst (Encode_loop bAddCrlf pSrcData ([], 0))"

subsection \<open>The decoder\<close>

text \<open>
  The decoder runs over the characters and the NUL behind them; \<open>rest\<close> is the memory from
  \<open>nPos\<close> on, so that \<open>nPos < nSrcLen\<close> is \<open>1 < length rest\<close>.
\<close>

definition peek :: "u8 list \<Rightarrow> u8 option" where
  "peek rest = (case rest of [] \<Rightarrow> None | b # _ \<Rightarrow> Some b)"

definition skip_newline :: "u8 list \<Rightarrow> u8 list option" where
  "skip_newline rest = do {
     b \<leftarrow> peek rest;
     let rest = (if b = LF then drop 1 rest else rest);
     b \<leftarrow> peek rest;
     Some (if b = CR then drop 2 rest else rest)
   }"

lemma skip_newline_length: "skip_newline rest = Some r \<Longrightarrow> length r \<le> length rest"
  by (auto simp: skip_newline_def peek_def Let_def split: option.splits list.splits if_splits bind_splits)

text \<open>One optional character of a round: nothing, the pad that ends the text, or its value.\<close>

datatype base64_read = Behind | Pad | Value u8

definition read_optional :: "u8 list \<Rightarrow> (base64_read \<times> u8 list) option" where
  "read_optional rest =
     (if 1 < length rest then do {
        rest \<leftarrow> skip_newline rest;
        b \<leftarrow> peek rest;
        Some (if b = BASE64_PAD then Pad else Value (decode6 b), rest)
      } else Some (Behind, rest))"

lemma read_optional_length: "read_optional rest = Some (v, r) \<Longrightarrow> length r \<le> length rest"
  by (auto simp: read_optional_def peek_def split: option.splits list.splits if_splits bind_splits
      dest!: skip_newline_length)

function Decode_loop :: "u8 list \<Rightarrow> u8 list \<Rightarrow> u8 list option" where
  "Decode_loop rest pDest =
     (if \<not> 1 < length rest then Some pDest else do {
        rest1 \<leftarrow> skip_newline rest;
        b \<leftarrow> peek rest1;
        let c8bit = decode6 b;
        rest2 \<leftarrow> skip_newline (drop 1 rest1);
        b \<leftarrow> peek rest2;
        let c8bit1 = decode6 b;
        let c8bit = push_bit 2 c8bit OR (drop_bit 4 c8bit1 AND 0x03);
        let pDest = pDest @ [c8bit];
        (r3, rest3) \<leftarrow> read_optional (drop 1 rest2);
        (case r3 of
           Pad \<Rightarrow> Some pDest
         | _ \<Rightarrow> do {
             let (c8bit, pDest) =
               (case r3 of Value v \<Rightarrow> (v, pDest @ [(push_bit 4 c8bit1 AND 0xF0) OR (drop_bit 2 v AND 0x0F)])
                | _ \<Rightarrow> (c8bit, pDest));
             (r4, rest4) \<leftarrow> read_optional (drop 1 rest3);
             (case r4 of
                Pad \<Rightarrow> Some pDest
              | Value v \<Rightarrow> Decode_loop (drop 1 rest4) (pDest @ [(push_bit 6 c8bit AND 0xC0) OR v])
              | Behind \<Rightarrow> Decode_loop (drop 1 rest4) pDest)
           })
      })"
  by pat_completeness auto
termination
  by (relation "measure (length \<circ> fst)") (auto dest!: skip_newline_length read_optional_length)

declare Decode_loop.simps [simp del]

definition ImsBase64_Decode :: "u8 list \<Rightarrow> u8 list option" where
  "ImsBase64_Decode pszSrcData = Decode_loop (pszSrcData @ [0]) []"

subsection \<open>The codecs of \<open>AString\<close>\<close>

text \<open>
  \<open>ToBase64\<close> allots \<open>(4 * nSize) / 3 + 3\<close> characters and writes through a pointer; a write behind
  them is \<open>None\<close>. \<open>j\<close>, \<open>k\<close>, \<open>l\<close>, \<open>m\<close> are the four groups of six bits of a chunk.
\<close>

definition buffer_put :: "nat \<Rightarrow> u8 \<Rightarrow> u8 list \<Rightarrow> u8 list option" where
  "buffer_put nSize c pOut = (if length pOut < nSize then Some (pOut @ [c]) else None)"

definition alphabet :: "u32 \<Rightarrow> u8" where
  "alphabet j = BASE64_ENCODING_TABLE ! unat j"

definition put_chunk :: "nat \<Rightarrow> nat \<Rightarrow> u32 \<Rightarrow> u8 list \<Rightarrow> u8 list option" where
  "put_chunk nSize nPadLen nChunk pOut = do {
     let j = drop_bit 18 (nChunk AND 0x00FC0000);
     let k = drop_bit 12 (nChunk AND 0x0003F000);
     let l = drop_bit 6 (nChunk AND 0x00000FC0);
     let m = nChunk AND 0x0000003F;
     pOut \<leftarrow> buffer_put nSize (alphabet j) pOut;
     pOut \<leftarrow> buffer_put nSize (alphabet k) pOut;
     pOut \<leftarrow> buffer_put nSize (if nPadLen > 1 then BASE64_PAD else alphabet l) pOut;
     buffer_put nSize (if nPadLen > 0 then BASE64_PAD else alphabet m) pOut
   }"

fun ToBase64_loop :: "nat \<Rightarrow> u8 list \<Rightarrow> u8 list \<Rightarrow> u8 list option" where
  "ToBase64_loop nSize [] pOut = Some pOut"
| "ToBase64_loop nSize [b0] pOut = put_chunk nSize 2 (push_bit 16 (ucast b0)) pOut"
| "ToBase64_loop nSize [b0, b1] pOut =
     put_chunk nSize 1 (push_bit 16 (ucast b0) OR push_bit 8 (ucast b1)) pOut"
| "ToBase64_loop nSize (b0 # b1 # b2 # bs) pOut =
     put_chunk nSize 0 (push_bit 16 (ucast b0) OR push_bit 8 (ucast b1) OR ucast b2) pOut
       \<bind> ToBase64_loop nSize bs"

definition AString_ToBase64 :: "u8 list \<Rightarrow> u8 list option" where
  "AString_ToBase64 pValue = ToBase64_loop (length pValue * 4 div 3 + 3) pValue []"

text \<open>\<open>FromBase64\<close> skips any other character; it writes into \<open>(3 * length) / 4\<close> bytes.\<close>

definition base64_code :: "u8 \<Rightarrow> u32 option" where
  "base64_code ch =
     (if 0x41 \<le> ch \<and> ch \<le> 0x5A then Some (ucast (ch - 0x41))
      else if 0x61 \<le> ch \<and> ch \<le> 0x7A then Some (ucast (ch - 0x61 + 26))
      else if 0x30 \<le> ch \<and> ch \<le> 0x39 then Some (ucast (ch - 0x30 + 52))
      else if ch = 0x2B then Some 62
      else if ch = 0x2F then Some 63
      else None)"

definition FromBase64_step :: "nat \<Rightarrow> u8 \<Rightarrow> u32 \<times> nat \<times> u8 list \<Rightarrow> (u32 \<times> nat \<times> u8 list) option" where
  "FromBase64_step nSize ch st =
     (case st of (nBuf, nBits, strTmp) \<Rightarrow>
      case base64_code ch of
        None \<Rightarrow> Some st
      | Some nCode \<Rightarrow>
          (let nBuf = push_bit 6 nBuf OR nCode; nBits = nBits + 6
           in if nBits \<ge> 8 then do {
                let nBits = nBits - 8;
                strTmp \<leftarrow> buffer_put nSize (ucast (drop_bit nBits nBuf)) strTmp;
                Some (nBuf AND (push_bit nBits 1 - 1), nBits, strTmp)
              } else Some (nBuf, nBits, strTmp)))"

primrec FromBase64_loop :: "nat \<Rightarrow> u8 list \<Rightarrow> u32 \<times> nat \<times> u8 list \<Rightarrow> (u32 \<times> nat \<times> u8 list) option" where
  "FromBase64_loop nSize [] st = Some st"
| "FromBase64_loop nSize (ch # chs) st = FromBase64_step nSize ch st \<bind> FromBase64_loop nSize chs"

definition AString_FromBase64 :: "u8 list \<Rightarrow> u8 list option" where
  "AString_FromBase64 strBase64 =
     FromBase64_loop (length strBase64 * 3 div 4) strBase64 (0, 0, []) \<bind> (\<lambda>(_, _, strTmp). Some strTmp)"

subsection \<open>Six bits at a time\<close>

lemma decode6_encode6_nat:
  "\<forall>k\<in>set [0..<64]. decode6 (encode6 (of_nat k)) = of_nat k \<and>
     encode6 (of_nat k) \<notin> {CR, LF, BASE64_PAD} \<and> base64_code (encode6 (of_nat k)) = Some (ucast (of_nat k :: u8))"
  by (simp add: decode6_def encode6_def BASE64_ENCODING_TABLE_def BASE64_DECODING_TABLE_def base64_code_def
      nth_append upt_rec)

lemma word_masks:
  "(0x3F :: u8) = mask 6" "(0x0F :: u8) = mask 4" "(0x03 :: u8) = mask 2"
  "(0xF0 :: u8) = push_bit 4 (mask 4)" "(0xC0 :: u8) = push_bit 6 (mask 2)"
  by (simp_all add: mask_eq_exp_minus_1 push_bit_eq_mult)

lemma len8_cases: "n < LENGTH(8) \<Longrightarrow> n = 0 \<or> n = 1 \<or> n = 2 \<or> n = 3 \<or> n = 4 \<or> n = 5 \<or> n = 6 \<or> n = 7"
  by simp presburger

lemma u8_eqI: "(\<And>n. n \<in> {0, 1, 2, 3, 4, 5, 6, 7} \<Longrightarrow> bit a n = bit b n) \<Longrightarrow> a = (b :: u8)"
  by (rule bit_word_eqI) (metis (no_types, lifting) insertCI len8_cases)

lemmas word_bits = bit_and_iff bit_or_iff bit_push_bit_iff bit_drop_bit_eq bit_mask_iff comp_def

lemma join_bits:
  fixes b0 b1 b2 :: u8
  shows "push_bit 2 (drop_bit 2 b0 AND 0x3F) OR
      (drop_bit 4 ((push_bit 4 b0 AND 0x3F) OR (drop_bit 4 b1 AND 0x0F)) AND 0x03) = b0"
    and "push_bit 2 (drop_bit 2 b0 AND 0x3F) OR (drop_bit 4 (push_bit 4 b0 AND 0x3F) AND 0x03) = b0"
    and "(push_bit 4 ((push_bit 4 b0 AND 0x3F) OR (drop_bit 4 b1 AND 0x0F)) AND 0xF0) OR
      (drop_bit 2 ((push_bit 2 b1 AND 0x3F) OR (drop_bit 6 b2 AND 0x03)) AND 0x0F) = b1"
    and "(push_bit 4 ((push_bit 4 b0 AND 0x3F) OR (drop_bit 4 b1 AND 0x0F)) AND 0xF0) OR
      (drop_bit 2 (push_bit 2 b1 AND 0x3F) AND 0x0F) = b1"
    and "(push_bit 6 ((push_bit 2 b1 AND 0x3F) OR (drop_bit 6 b2 AND 0x03)) AND 0xC0) OR (b2 AND 0x3F) = b2"
  unfolding word_masks by (rule u8_eqI, elim insertE emptyE; simp only: word_bits; simp)+

text \<open>The groups of six bits are in the range of the table.\<close>

lemma six_bits:
  fixes b0 b1 b2 :: u8
  shows "unat (drop_bit 2 b0 AND 0x3F) < 64"
    and "unat ((push_bit 4 b0 AND 0x3F) OR (drop_bit 4 b1 AND 0x0F)) < 64"
    and "unat (push_bit 4 b0 AND 0x3F) < 64"
    and "unat ((push_bit 2 b1 AND 0x3F) OR (drop_bit 6 b2 AND 0x03)) < 64"
    and "unat (push_bit 2 b1 AND 0x3F) < 64"
    and "unat (b2 AND 0x3F) < 64"
proof -
  have lt: "unat w < 64" if "w AND 0x3F = w" for w :: u8
  proof -
    have "w = take_bit 6 w" using that by (simp only: word_masks(1) flip: take_bit_eq_mask)
    then have "unat w = take_bit 6 (unat w)" by (metis unsigned_take_bit_eq)
    also have "\<dots> < 64" by (simp add: take_bit_eq_mod)
    finally show ?thesis .
  qed
  show "unat (drop_bit 2 b0 AND 0x3F) < 64"
    and "unat ((push_bit 4 b0 AND 0x3F) OR (drop_bit 4 b1 AND 0x0F)) < 64"
    and "unat (push_bit 4 b0 AND 0x3F) < 64"
    and "unat ((push_bit 2 b1 AND 0x3F) OR (drop_bit 6 b2 AND 0x03)) < 64"
    and "unat (push_bit 2 b1 AND 0x3F) < 64"
    and "unat (b2 AND 0x3F) < 64"
    unfolding word_masks by (rule lt, unfold word_masks, rule u8_eqI, elim insertE emptyE; simp only: word_bits; simp)+
qed

lemma decode6_encode6 [simp]: "unat k < 64 \<Longrightarrow> decode6 (encode6 k) = k"
  and encode6_plain [simp]: "unat k < 64 \<Longrightarrow> encode6 k \<noteq> CR \<and> encode6 k \<noteq> LF \<and> encode6 k \<noteq> BASE64_PAD"
  and base64_code_encode6: "unat k < 64 \<Longrightarrow> base64_code (encode6 k) = Some (ucast k)"
  using decode6_encode6_nat by (metis atLeastLessThan_iff atLeastLessThan_upt insertCI le0 of_nat_unat ucast_id)+

subsection \<open>The text of a sequence of bytes\<close>

text \<open>
  The four characters of a group of three, two or one bytes; the text from a group on, with \<open>n\<close>
  characters already in its line.
\<close>

definition quad3 :: "u8 \<Rightarrow> u8 \<Rightarrow> u8 \<Rightarrow> u8 list" where
  "quad3 b0 b1 b2 =
     [encode6 (drop_bit 2 b0 AND 0x3F), encode6 ((push_bit 4 b0 AND 0x3F) OR (drop_bit 4 b1 AND 0x0F)),
      encode6 ((push_bit 2 b1 AND 0x3F) OR (drop_bit 6 b2 AND 0x03)), encode6 (b2 AND 0x3F)]"

definition quad2 :: "u8 \<Rightarrow> u8 \<Rightarrow> u8 list" where
  "quad2 b0 b1 =
     [encode6 (drop_bit 2 b0 AND 0x3F), encode6 ((push_bit 4 b0 AND 0x3F) OR (drop_bit 4 b1 AND 0x0F)),
      encode6 (push_bit 2 b1 AND 0x3F), BASE64_PAD]"

definition quad1 :: "u8 \<Rightarrow> u8 list" where
  "quad1 b0 = [encode6 (drop_bit 2 b0 AND 0x3F), encode6 (push_bit 4 b0 AND 0x3F), BASE64_PAD, BASE64_PAD]"

definition line_break :: "bool \<Rightarrow> nat \<Rightarrow> u8 list" where
  "line_break crlf n = (if crlf \<and> n = 72 then [CR, LF] else [])"

definition next_column :: "bool \<Rightarrow> nat \<Rightarrow> nat" where
  "next_column crlf n = (if crlf then if n = 72 then 0 else n + 4 else n)"

fun base64_text :: "bool \<Rightarrow> nat \<Rightarrow> u8 list \<Rightarrow> u8 list" where
  "base64_text crlf n [] = []"
| "base64_text crlf n [b0] = quad1 b0 @ line_break crlf n"
| "base64_text crlf n [b0, b1] = quad2 b0 b1 @ line_break crlf n"
| "base64_text crlf n (b0 # b1 # b2 # bs) =
     quad3 b0 b1 b2 @ line_break crlf n @ base64_text crlf (next_column crlf n) bs"

lemma put_four:
  assumes "n mod 4 = 0" and "n \<le> 72"
  shows "base64_put crlf c4 (base64_put crlf c3 (base64_put crlf c2 (base64_put crlf c1 (p, n)))) =
    (p @ [c1, c2, c3, c4] @ line_break crlf n, next_column crlf n)"
proof -
  have "n + 1 \<noteq> 76" "n + 2 \<noteq> 76" "n + 3 \<noteq> 76" using assms by presburger+
  then show ?thesis
    using assms(2) by (simp add: base64_put_def ADD_CRLF_def line_break_def next_column_def)
qed

lemma next_column_ok:
  "n mod 4 = 0 \<Longrightarrow> n \<le> 72 \<Longrightarrow> next_column crlf n mod 4 = 0 \<and> next_column crlf n \<le> 72"
  by (simp add: next_column_def) presburger

lemma Encode_loop_text:
  "n mod 4 = 0 \<Longrightarrow> n \<le> 72 \<Longrightarrow> fst (Encode_loop crlf bs (p, n)) = p @ base64_text crlf n bs"
proof (induction crlf n bs arbitrary: p rule: base64_text.induct)
  case (4 crlf n b0 b1 b2 bs)
  then show ?case
    using next_column_ok [of n crlf] by (simp add: Let_def put_four quad3_def)
qed (simp_all add: Let_def put_four quad1_def quad2_def)

lemma ImsBase64_Encode_text: "ImsBase64_Encode bs crlf = base64_text crlf 0 bs"
  by (simp add: ImsBase64_Encode_def Encode_loop_text)

subsection \<open>The decoder inverts the encoder\<close>

lemma skip_plain: "b \<noteq> CR \<Longrightarrow> b \<noteq> LF \<Longrightarrow> skip_newline (b # r) = Some (b # r)"
  by (simp add: skip_newline_def peek_def)

lemma skip_crlf: "skip_newline (CR # LF # r) = Some r"
  by (simp add: skip_newline_def peek_def)

text \<open>A line end in front of a group does not change what it decodes to.\<close>

lemma skip_line_break:
  "pre \<in> {[], [CR, LF]} \<Longrightarrow> b \<noteq> CR \<Longrightarrow> b \<noteq> LF \<Longrightarrow> skip_newline (pre @ b # r) = Some (b # r)"
  by (auto simp: skip_plain skip_crlf)

lemma decode_quad3:
  "pre \<in> {[], [CR, LF]} \<Longrightarrow> r \<noteq> [] \<Longrightarrow>
   Decode_loop (pre @ quad3 b0 b1 b2 @ r) d = Decode_loop r (d @ [b0, b1, b2])"
  by (subst Decode_loop.simps)
    (simp add: quad3_def skip_line_break skip_plain peek_def read_optional_def six_bits join_bits Let_def
      del: push_bit_and push_bit_or drop_bit_and drop_bit_or)

lemma decode_quad2:
  "pre \<in> {[], [CR, LF]} \<Longrightarrow> r \<noteq> [] \<Longrightarrow> Decode_loop (pre @ quad2 b0 b1 @ r) d = Some (d @ [b0, b1])"
  by (subst Decode_loop.simps)
    (simp add: quad2_def skip_line_break skip_plain peek_def read_optional_def six_bits join_bits Let_def
      del: push_bit_and push_bit_or drop_bit_and drop_bit_or)

lemma decode_quad1:
  "pre \<in> {[], [CR, LF]} \<Longrightarrow> r \<noteq> [] \<Longrightarrow> Decode_loop (pre @ quad1 b0 @ r) d = Some (d @ [b0])"
  by (subst Decode_loop.simps)
    (simp add: quad1_def skip_line_break skip_plain peek_def read_optional_def six_bits join_bits Let_def
      del: push_bit_and push_bit_or drop_bit_and drop_bit_or)

lemma decode_end: "Decode_loop [0] d = Some d" "Decode_loop [CR, LF, 0] d = None"
  by (subst Decode_loop.simps, simp add: skip_newline_def peek_def)+

text \<open>
  The one text that does not decode is the one whose last group fills a line: the decoder finds
  the line end where it looks for a character and reads behind the terminating NUL.
\<close>

definition fills_line :: "bool \<Rightarrow> nat \<Rightarrow> u8 list \<Rightarrow> bool" where
  "fills_line crlf n bs \<longleftrightarrow> crlf \<and> bs \<noteq> [] \<and> (n div 4 * 3 + length bs) mod 57 = 0"

lemma Decode_loop_text:
  "n mod 4 = 0 \<Longrightarrow> n \<le> 72 \<Longrightarrow> pre \<in> {[], [CR, LF]} \<Longrightarrow> bs \<noteq> [] \<Longrightarrow>
   Decode_loop (pre @ base64_text crlf n bs @ [0]) d = (if fills_line crlf n bs then None else Some (d @ bs))"
proof (induction crlf n bs arbitrary: pre d rule: base64_text.induct)
  case (4 crlf n b0 b1 b2 bs)
  have group: "Decode_loop (pre @ base64_text crlf n (b0 # b1 # b2 # bs) @ [0]) d =
      Decode_loop (line_break crlf n @ base64_text crlf (next_column crlf n) bs @ [0]) (d @ [b0, b1, b2])"
    using decode_quad3 [OF "4.prems"(3), of "line_break crlf n @ base64_text crlf (next_column crlf n) bs @ [0]"]
    by simp
  obtain m where n: "n = 4 * m" "m \<le> 18" using "4.prems"(1,2) 
    by (intro that [of "n div 4"]) presburger+
  show ?case
  proof (cases "bs = []")
    case True
    have "fills_line crlf n [b0, b1, b2] \<longleftrightarrow> crlf \<and> n = 72"
    proof -
      have "(3 + m * 3) mod 57 = 0 \<longleftrightarrow> m = 18" using n(2) by presburger
      then show ?thesis by (simp add: fills_line_def n(1))
    qed
    with True show ?thesis unfolding group by (simp add: line_break_def decode_end)
  next
    case False
    have fills: "fills_line crlf (next_column crlf n) bs \<longleftrightarrow> fills_line crlf n (b0 # b1 # b2 # bs)"
    proof -
      have "m = 18 \<Longrightarrow> length bs mod 57 = (m * 3 + (3 + length bs)) mod 57"
        "(m + 1) * 3 + length bs = m * 3 + (3 + length bs)" by simp_all
      then show ?thesis using False n(2) by (auto simp: fills_line_def next_column_def n(1) add.assoc mod_eq_0_iff_dvd)
    qed
    have "line_break crlf n \<in> {[], [CR, LF]}" by (simp add: line_break_def)
    then show ?thesis
      unfolding group using "4.IH" [of "line_break crlf n" "d @ [b0, b1, b2]"] False
        next_column_ok [OF "4.prems"(1,2), of crlf] by (simp add: fills)
  qed
next
  case (2 crlf n b0)
  have "\<not> fills_line crlf n [b0]" using 2 by (simp add: fills_line_def)
  then show ?case using decode_quad1 [OF 2(3), of "line_break crlf n @ [0]"] by simp
next
  case (3 crlf n b0 b1)
  have "\<not> fills_line crlf n [b0, b1]" using 3 by (simp add: fills_line_def)
  then show ?case using decode_quad2 [OF 3(3), of "line_break crlf n @ [0]"] by simp
qed simp

theorem ImsBase64_roundtrip:
  "ImsBase64_Decode (ImsBase64_Encode bs crlf) = (if crlf \<and> bs \<noteq> [] \<and> 57 dvd length bs then None else Some bs)"
proof (cases "bs = []")
  case True
  then show ?thesis by (simp add: ImsBase64_Decode_def ImsBase64_Encode_text decode_end)
next
  case False
  then show ?thesis
    using Decode_loop_text [of 0 "[]" bs crlf "[]"]
    by (simp add: ImsBase64_Decode_def ImsBase64_Encode_text fills_line_def dvd_eq_mod_eq_0)
qed

subsection \<open>The codecs of \<open>AString\<close> agree\<close>

lemma word_masks32:
  "(0x00FC0000 :: u32) = push_bit 18 (mask 6)" "(0x0003F000 :: u32) = push_bit 12 (mask 6)"
  "(0x00000FC0 :: u32) = push_bit 6 (mask 6)" "(0x0000003F :: u32) = mask 6"
  by (simp_all add: mask_eq_exp_minus_1 push_bit_eq_mult)

lemma len32_cases: "n < LENGTH(32) \<Longrightarrow> n \<in> set [0..<32]"
  by simp

lemma u32_eqI: "(\<And>n. n \<in> set [0..<32] \<Longrightarrow> bit a n = bit b n) \<Longrightarrow> a = (b :: u32)"
  by (rule bit_word_eqI) simp

lemma bit_u8_bound: "bit (b :: u8) n \<Longrightarrow> n < 8"
  using bit_imp_le_length [of b n] by simp

lemma chunk_groups:
  fixes b0 b1 b2 :: u8
  defines "chunk \<equiv> push_bit 16 (ucast b0) OR push_bit 8 (ucast b1) OR ucast b2 :: u32"
  shows "drop_bit 18 (chunk AND 0x00FC0000) = ucast (drop_bit 2 b0 AND 0x3F)"
    and "drop_bit 12 (chunk AND 0x0003F000) = ucast ((push_bit 4 b0 AND 0x3F) OR (drop_bit 4 b1 AND 0x0F))"
    and "drop_bit 6 (chunk AND 0x00000FC0) = ucast ((push_bit 2 b1 AND 0x3F) OR (drop_bit 6 b2 AND 0x03))"
    and "chunk AND 0x0000003F = ucast (b2 AND 0x3F)"
  unfolding chunk_def word_masks word_masks32
  by (rule bit_word_eqI, auto simp: bit_simps dest: bit_u8_bound)+

lemma unat_ucast_u8 [simp]: "unat (ucast (b :: u8) :: u32) = unat b"
  using unsigned_less [of b, where ?'a = nat] by (simp add: unsigned_ucast_eq take_bit_nat_eq_self)

lemma alphabet_ucast: "alphabet (ucast k) = encode6 k"
  by (simp add: alphabet_def encode6_def)

lemma buffer_put_fits: "length p < n \<Longrightarrow> buffer_put n c p = Some (p @ [c])"
  by (simp add: buffer_put_def)

lemma put_chunk_quad3:
  "length p + 4 \<le> n \<Longrightarrow>
   put_chunk n 0 (push_bit 16 (ucast b0) OR push_bit 8 (ucast b1) OR ucast b2) p = Some (p @ quad3 b0 b1 b2)"
  unfolding put_chunk_def Let_def chunk_groups alphabet_ucast by (simp add: buffer_put_fits quad3_def)

lemma put_chunk_quad2:
  "length p + 4 \<le> n \<Longrightarrow>
   put_chunk n 1 (push_bit 16 (ucast b0) OR push_bit 8 (ucast b1)) p = Some (p @ quad2 b0 b1)"
  using chunk_groups [of b0 b1 0] unfolding put_chunk_def Let_def
  by (simp add: buffer_put_fits quad2_def alphabet_ucast)

lemma put_chunk_quad1:
  "length p + 4 \<le> n \<Longrightarrow> put_chunk n 2 (push_bit 16 (ucast b0)) p = Some (p @ quad1 b0)"
  using chunk_groups [of b0 0 0] unfolding put_chunk_def Let_def
  by (simp add: buffer_put_fits quad1_def alphabet_ucast)

lemma ToBase64_loop_text:
  "length p + (length bs + 2) div 3 * 4 \<le> n \<Longrightarrow> ToBase64_loop n bs p = Some (p @ base64_text False m bs)"
proof (induction n bs p rule: ToBase64_loop.induct)
  case (4 n b0 b1 b2 bs p)
  have "(length (b0 # b1 # b2 # bs) + 2) div 3 = Suc ((length bs + 2) div 3)" by simp
  then have "length p + 4 + (length bs + 2) div 3 * 4 \<le> n" using 4(2) by simp
  moreover from this have "length p + 4 \<le> n" by simp
  ultimately show ?case using 4(1) [of "p @ quad3 b0 b1 b2"]
    by (simp add: put_chunk_quad3 next_column_def line_break_def) (simp add: quad3_def)
qed (simp_all add: put_chunk_quad1 put_chunk_quad2 [unfolded One_nat_def] line_break_def)

theorem AString_ToBase64_encodes: "AString_ToBase64 bs = Some (ImsBase64_Encode bs False)"
proof -
  have "(length bs + 2) div 3 * 4 \<le> length bs * 4 div 3 + 3" by presburger
  then show ?thesis
    using ToBase64_loop_text [of "[]" bs _ 0] by (simp add: AString_ToBase64_def ImsBase64_Encode_text)
qed

text \<open>The bits of a group as \<open>FromBase64\<close> shifts them in.\<close>

lemma shift_in:
  fixes b0 b1 b2 :: u8
  defines "c0 \<equiv> ucast (drop_bit 2 b0 AND 0x3F) :: u32"
    and "c1 \<equiv> ucast ((push_bit 4 b0 AND 0x3F) OR (drop_bit 4 b1 AND 0x0F)) :: u32"
    and "c2 \<equiv> ucast ((push_bit 2 b1 AND 0x3F) OR (drop_bit 6 b2 AND 0x03)) :: u32"
    and "c3 \<equiv> ucast (b2 AND 0x3F) :: u32"
  defines "n1 \<equiv> (push_bit 6 c0 OR c1) AND mask 4"
  defines "n2 \<equiv> (push_bit 6 n1 OR c2) AND mask 2"
  shows "ucast (drop_bit 4 (push_bit 6 c0 OR c1)) = b0"
    and "ucast (drop_bit 2 (push_bit 6 n1 OR c2)) = b1"
    and "ucast (push_bit 6 n2 OR c3) = b2"
  unfolding c0_def c1_def c2_def c3_def n1_def n2_def word_masks
  by (rule u8_eqI, elim insertE emptyE; simp only: word_bits bit_unsigned_iff; simp)+

lemma FromBase64_step_char:
  "unat k < 64 \<Longrightarrow> nBits < 8 \<Longrightarrow> length d < n \<Longrightarrow>
   FromBase64_step n (encode6 k) (nBuf, nBits, d) =
     (if nBits < 2 then Some (push_bit 6 nBuf OR ucast k, nBits + 6, d)
      else Some ((push_bit 6 nBuf OR ucast k) AND mask (nBits - 2), nBits - 2,
        d @ [ucast (drop_bit (nBits - 2) (push_bit 6 nBuf OR ucast k))]))"
  by (simp add: FromBase64_step_def base64_code_encode6 Let_def buffer_put_def mask_eq_exp_minus_1 push_bit_eq_mult)

lemma FromBase64_step_other: "base64_code b = None \<Longrightarrow> FromBase64_step n b st = Some st"
  by (simp add: FromBase64_step_def split: prod.split)

lemma base64_code_other: "base64_code BASE64_PAD = None" "base64_code CR = None" "base64_code LF = None"
  by (simp_all add: base64_code_def)

lemmas shift_in_bits = shift_in [unfolded word_masks] six_bits [unfolded word_masks]

lemma FromBase64_quad3:
  assumes "length d + 3 \<le> n"
  shows "FromBase64_loop n (quad3 b0 b1 b2 @ r) (0, 0, d) = FromBase64_loop n r (0, 0, d @ [b0, b1, b2])"
  using assms unfolding quad3_def word_masks
  by (simp add: FromBase64_step_char shift_in_bits del: push_bit_and push_bit_or drop_bit_and drop_bit_or)

lemma quad_last:
  "quad2 b0 b1 = [encode6 (drop_bit 2 b0 AND mask 6), encode6 ((push_bit 4 b0 AND mask 6) OR (drop_bit 4 b1 AND mask 4)),
     encode6 ((push_bit 2 b1 AND mask 6) OR (drop_bit 6 0 AND mask 2)), BASE64_PAD]"
  "quad1 b0 = [encode6 (drop_bit 2 b0 AND mask 6), encode6 ((push_bit 4 b0 AND mask 6) OR (drop_bit 4 0 AND mask 4)),
     BASE64_PAD, BASE64_PAD]"
  by (simp_all add: quad2_def quad1_def word_masks)

lemma FromBase64_loop_append:
  "FromBase64_loop n (xs @ ys) st = FromBase64_loop n xs st \<bind> FromBase64_loop n ys"
  by (induction xs arbitrary: st) (auto split: bind_split)

lemma FromBase64_quad2:
  "length d + 2 \<le> n \<Longrightarrow> \<exists>buf. FromBase64_loop n (quad2 b0 b1) (0, 0, d) = Some (buf, 2, d @ [b0, b1])"
  unfolding quad_last
  by (simp add: FromBase64_step_char shift_in_bits FromBase64_step_other base64_code_other
      del: push_bit_and push_bit_or drop_bit_and drop_bit_or drop_bit_of_0 or.right_neutral)

lemma FromBase64_quad1:
  "length d + 1 \<le> n \<Longrightarrow> \<exists>buf. FromBase64_loop n (quad1 b0) (0, 0, d) = Some (buf, 4, d @ [b0])"
  unfolding quad_last
  by (simp add: FromBase64_step_char shift_in_bits FromBase64_step_other base64_code_other
      del: push_bit_and push_bit_or drop_bit_and drop_bit_or drop_bit_of_0 or.right_neutral)

lemma FromBase64_line_break: "FromBase64_loop n (line_break crlf c @ r) st = FromBase64_loop n r st"
  by (simp add: line_break_def FromBase64_step_other base64_code_other)

lemma FromBase64_loop_text:
  "length d + length bs \<le> n \<Longrightarrow>
   \<exists>buf bits. FromBase64_loop n (base64_text crlf c bs) (0, 0, d) = Some (buf, bits, d @ bs)"
proof (induction crlf c bs arbitrary: d rule: base64_text.induct)
  case (2 crlf c b0)
  then show ?case
    using FromBase64_quad1 [of d n b0] FromBase64_line_break [of n crlf c "[]"] by (auto simp: FromBase64_loop_append)
next
  case (3 crlf c b0 b1)
  then show ?case
    using FromBase64_quad2 [of d n b0 b1] FromBase64_line_break [of n crlf c "[]"] by (auto simp: FromBase64_loop_append)
next
  case (4 crlf c b0 b1 b2 bs)
  then show ?case using "4.IH" [of "d @ [b0, b1, b2]"] by (simp add: FromBase64_quad3 FromBase64_line_break)
qed simp

lemma length_quads [simp]: "length (quad1 b0) = 4" "length (quad2 b0 b1) = 4" "length (quad3 b0 b1 b2) = 4"
  by (simp_all add: quad1_def quad2_def quad3_def)

lemma length_base64_text: "(length bs + 2) div 3 * 4 \<le> length (base64_text crlf c bs)"
proof (induction crlf c bs rule: base64_text.induct)
  case (4 crlf n b0 b1 b2 bs)
  have "(length (b0 # b1 # b2 # bs) + 2) div 3 = Suc ((length bs + 2) div 3)" by simp
  then show ?case using 4 by simp
qed simp_all

lemma length_base64_plain: "length (base64_text False c bs) = (length bs + 2) div 3 * 4"
proof (induction False c bs rule: base64_text.induct)
  case (4 n b0 b1 b2 bs)
  have "(length (b0 # b1 # b2 # bs) + 2) div 3 = Suc ((length bs + 2) div 3)" by simp
  then show ?case using 4 by (simp add: line_break_def)
qed (simp_all add: line_break_def)

text \<open>No character of the text is the NUL.\<close>

lemma encode6_nonzero: "unat k < 64 \<Longrightarrow> encode6 k \<noteq> 0"
proof
  assume "unat k < 64" "encode6 k = 0"
  then have "base64_code 0 = Some (ucast k)" using base64_code_encode6 by metis
  then show False by (simp add: base64_code_def)
qed

lemma quads_nonzero: "0 \<notin> set (quad1 b0)" "0 \<notin> set (quad2 b0 b1)" "0 \<notin> set (quad3 b0 b1 b2)"
  unfolding quad1_def quad2_def quad3_def
  using six_bits [THEN encode6_nonzero] by (simp_all del: push_bit_and push_bit_or drop_bit_and drop_bit_or)

lemma base64_text_nonzero: "0 \<notin> set (base64_text crlf c bs)"
  by (induction crlf c bs rule: base64_text.induct) (simp_all add: quads_nonzero line_break_def)

theorem AString_FromBase64_decodes: "AString_FromBase64 (ImsBase64_Encode bs crlf) = Some bs"
proof -
  have "length bs \<le> length (base64_text crlf 0 bs) * 3 div 4"
    using length_base64_text [of bs crlf 0] by linarith
  then show ?thesis
    using FromBase64_loop_text [of "[]" bs _ crlf 0] by (force simp: AString_FromBase64_def ImsBase64_Encode_text)
qed

end
