(* ===== verification/Ims_Identity.thy ===== *)
theory Ims_Identity
  imports Ims_Digest Ims_Base64 Ims_Number
begin

unbundle bit_operations_syntax

text \<open>
  The values the stack derives with its digests: AKA credentials (\<open>platform/util/Credential.cpp\<close>),
  UUIDs (\<open>platform/util/ImsUuid.cpp\<close>), device URNs (\<open>engine/registration/SipUrnHelper.cpp\<close>),
  Via branches and session ids (\<open>engine/sipcore/SipUtils.cpp\<close>). A byte array is its bytes, the
  null one is empty; contexts on the stack are parameters; \<open>None\<close> is a failed read.
\<close>

subsection \<open>Credentials\<close>

abbreviation RESULT_OK :: int where "RESULT_OK \<equiv> 0"
abbreviation RESULT_NOK_SQN_SYNC_FAILED :: int where "RESULT_NOK_SQN_SYNC_FAILED \<equiv> 1"

datatype md5_type = TYPE_MD5 | TYPE_AKAv1_MD5 | TYPE_AKAv2_MD5

record ImsAkaParam =
  m_nStatus :: int
  m_strAuts :: string

record Credential =
  m_nTypeOfMd5 :: md5_type
  m_strUsername :: string
  m_strPassword :: string
  m_strRealm :: string
  m_objAkaParam :: ImsAkaParam

definition Credential_init :: "string \<Rightarrow> string \<Rightarrow> string \<Rightarrow> Credential" where
  "Credential_init user pwd realm =
     \<lparr>m_nTypeOfMd5 = TYPE_MD5, m_strUsername = user, m_strPassword = pwd, m_strRealm = realm,
      m_objAkaParam = \<lparr>m_nStatus = RESULT_OK, m_strAuts = []\<rparr>\<rparr>"

definition SetCredentials :: "string \<Rightarrow> string \<Rightarrow> string \<Rightarrow> Credential \<Rightarrow> Credential" where
  "SetCredentials user pwd realm c = c\<lparr>m_strUsername := user, m_strPassword := pwd, m_strRealm := realm\<rparr>"

definition STR_DIGEST_KEY_CK :: "u8 list" where
  "STR_DIGEST_KEY_CK = bytes_of ''http-digest-akav2-cipherkey'' @ [0]"

definition STR_DIGEST_KEY_IK :: "u8 list" where
  "STR_DIGEST_KEY_IK = bytes_of ''http-digest-akav2-integritykey'' @ [0]"

definition STR_DIGEST_KEY_PASSWORD :: "u8 list" where
  "STR_DIGEST_KEY_PASSWORD = bytes_of ''http-digest-akav2-password'' @ [0]"

abbreviation DIGEST_KEY_CK :: int where "DIGEST_KEY_CK \<equiv> 27"
abbreviation DIGEST_KEY_IK :: int where "DIGEST_KEY_IK \<equiv> 30"
abbreviation DIGEST_KEY_PASSWORD :: int where "DIGEST_KEY_PASSWORD \<equiv> 26"
abbreviation MAX_AUTH_RESP :: nat where "MAX_AUTH_RESP \<equiv> 128"

text \<open>A failed authentication: the token of a synchronisation failure, and no password.\<close>

definition aka_failure :: "int \<Rightarrow> u8 list \<Rightarrow> Credential \<Rightarrow> Credential option" where
  "aka_failure nStatus objAuts c = do {
     c \<leftarrow> (if nStatus = RESULT_NOK_SQN_SYNC_FAILED then do {
             auts \<leftarrow> AString_ToBase64 objAuts;
             Some (c\<lparr>m_objAkaParam := (m_objAkaParam c)\<lparr>m_strAuts := chars_of auts\<rparr>\<rparr>)
           } else Some c);
     Some (c\<lparr>m_strPassword := []\<rparr>)
   }"

definition SetAkaResponse_v1 :: "int \<Rightarrow> u8 list \<Rightarrow> u8 list \<Rightarrow> Credential \<Rightarrow> Credential option" where
  "SetAkaResponse_v1 nStatus objRes objAuts c =
     (let c = c\<lparr>m_objAkaParam := (m_objAkaParam c)\<lparr>m_nStatus := nStatus\<rparr>\<rparr>
      in if nStatus = RESULT_OK then Some (c\<lparr>m_strPassword := chars_of objRes\<rparr>)
         else aka_failure nStatus objAuts c)"

text \<open>The text is written to a buffer of \<open>MAX_AUTH_RESP\<close> bytes, with its NUL.\<close>

definition SetAkaResponse_v2 ::
    "ImsMd5Context \<Rightarrow> ImsMd5Context \<Rightarrow> int \<Rightarrow> u8 list \<Rightarrow> u8 list \<Rightarrow> u8 list \<Rightarrow> u8 list \<Rightarrow> Credential \<Rightarrow>
     Credential option" where
  "SetAkaResponse_v2 stack1 stack2 nStatus objRes objIk objCk objAuts c =
     (let c = c\<lparr>m_objAkaParam := (m_objAkaParam c)\<lparr>m_nStatus := nStatus\<rparr>\<rparr>
      in if nStatus = RESULT_OK then do {
           let objPrf = objRes @ objIk @ objCk;
           aucDigest \<leftarrow> ImsHmac_Md5 stack1 stack2 STR_DIGEST_KEY_PASSWORD DIGEST_KEY_PASSWORD objPrf
             (int (length objPrf));
           let acPassword = ImsBase64_Encode aucDigest False;
           if length acPassword < MAX_AUTH_RESP
           then Some (c\<lparr>m_strPassword := c_string (chars_of acPassword)\<rparr>) else None
         } else aka_failure nStatus objAuts c)"

definition DeriveCkForAkav2 :: "ImsMd5Context \<Rightarrow> ImsMd5Context \<Rightarrow> u8 list \<Rightarrow> u8 list option" where
  "DeriveCkForAkav2 stack1 stack2 objCk =
     (if length objCk = 0 then Some []
      else ImsHmac_Md5 stack1 stack2 STR_DIGEST_KEY_CK DIGEST_KEY_CK objCk (int (length objCk)))"

definition DeriveIkForAkav2 :: "ImsMd5Context \<Rightarrow> ImsMd5Context \<Rightarrow> u8 list \<Rightarrow> u8 list option" where
  "DeriveIkForAkav2 stack1 stack2 objIk =
     (if length objIk = 0 then Some []
      else ImsHmac_Md5 stack1 stack2 STR_DIGEST_KEY_IK DIGEST_KEY_IK objIk (int (length objIk)))"

definition TranslateAlgorithm :: "string \<Rightarrow> md5_type" where
  "TranslateAlgorithm strAlgorithm =
     (if stricmp_loop strAlgorithm ''AKAv1-MD5'' = 0 then TYPE_AKAv1_MD5
      else if stricmp_loop strAlgorithm ''AKAv2-MD5'' = 0 then TYPE_AKAv2_MD5
      else TYPE_MD5)"

subsection \<open>UUIDs and URNs\<close>

text \<open>
  The 16 bytes of a \<open>Uuid\<close> in network order. \<open>uuid_text\<close> is the format of \<open>Sprintf\<close>: two digits
  a byte, dashes between the fields of 4, 2, 2, 2 and 6 bytes.
\<close>

definition NAMESPACE_IMS :: "u8 list" where
  "NAMESPACE_IMS = [0x6B, 0xA7, 0xB8, 0x17, 0x9D, 0xAD, 0x11, 0xD1, 0x80, 0xB4, 0x00, 0xC0, 0x4F, 0xD4, 0x30, 0xC8]"

definition uuid_text :: "u8 list \<Rightarrow> string" where
  "uuid_text bs =
     LHEX (take 4 bs) @ ''-'' @ LHEX (take 2 (drop 4 bs)) @ ''-'' @ LHEX (take 2 (drop 6 bs)) @ ''-'' @
     LHEX (take 2 (drop 8 bs)) @ ''-'' @ LHEX (take 6 (drop 10 bs))"

definition set_version :: "u8 \<Rightarrow> u8 list \<Rightarrow> u8 list" where
  "set_version v bs =
     (let bs = bs[6 := (bs ! 6 AND 0x0F) OR push_bit 4 v] in bs[8 := (bs ! 8 AND 0x3F) OR 0x80])"

definition GetUuidv3 :: "ImsMd5Context \<Rightarrow> string \<Rightarrow> string option" where
  "GetUuidv3 stack strName = do {
     c \<leftarrow> ImsMd5_Update NAMESPACE_IMS 16 (ImsMd5_Initialize stack);
     c \<leftarrow> md5_put (bytes_of strName) c;
     (uacHash, _) \<leftarrow> ImsMd5_Finalize c;
     Some (uuid_text (set_version 3 (take 16 uacHash)))
   }"

definition GetUuid_sha1 :: "u8 \<Rightarrow> ImsSha1Context \<Rightarrow> string \<Rightarrow> string option" where
  "GetUuid_sha1 v stack strName = do {
     c \<leftarrow> ImsSha1_Update NAMESPACE_IMS 16 (ImsSha1_Initialize stack);
     c \<leftarrow> ImsSha1_Update (bytes_of strName) (of_nat (length strName)) c;
     (uacHash, _) \<leftarrow> ImsSha1_Finalize c;
     Some (uuid_text (set_version v (take 16 uacHash)))
   }"

definition GetUuidv4 :: "ImsSha1Context \<Rightarrow> string \<Rightarrow> string option" where
  "GetUuidv4 stack strRandom = GetUuid_sha1 4 stack strRandom"

definition GetUuidv5 :: "ImsSha1Context \<Rightarrow> string \<Rightarrow> string option" where
  "GetUuidv5 stack strName = GetUuid_sha1 5 stack strName"

datatype uuid_version = VERSION_1 | VERSION_2 | VERSION_3 | VERSION_4 | VERSION_5

text \<open>\<open>nMicroSecs\<close> is the clock the code reads for version 1.\<close>

definition GetUuid :: "u32 \<Rightarrow> ImsMd5Context \<Rightarrow> ImsSha1Context \<Rightarrow> uuid_version \<Rightarrow> string \<Rightarrow> string option" where
  "GetUuid nMicroSecs m s nVersion strName =
     (case nVersion of
        VERSION_1 \<Rightarrow> SetNumber_U32 nMicroSecs 10 \<bind> GetUuidv4 s
      | VERSION_2 \<Rightarrow> Some []
      | VERSION_3 \<Rightarrow> GetUuidv3 m strName
      | VERSION_4 \<Rightarrow> GetUuidv4 s strName
      | VERSION_5 \<Rightarrow> GetUuidv5 s strName)"

datatype urn_type = GSMA_IMEI | UUID_IMEI_MD5 | UUID_IMEI_SHA1 | UUID_IMEI_NAMED_V3 | UUID_IMEI_NAMED_V5 | UUID_IMEI_V4

definition IMEI :: string where
  "IMEI = ''urn:gsma:imei:00000000-000000-0''"

text \<open>
  The form without the software version, which the build selects. \<open>piDeviceInfo\<close> is the device's
  id, or \<open>None\<close> without the service; the fallback to a UUID is switched off in the code.
\<close>

definition GetUrn ::
    "ImsMd5Context \<Rightarrow> ImsSha1Context \<Rightarrow> string option \<Rightarrow> urn_type \<Rightarrow> string option" where
  "GetUrn m s piDeviceInfo nType =
     (case piDeviceInfo of
        None \<Rightarrow> Some IMEI
      | Some strImei \<Rightarrow>
          (let strImei = (if length strImei = 0 then ''00000000000000'' else strImei);
               strTac = take 14 strImei
           in case nType of
                GSMA_IMEI \<Rightarrow>
                  (let strImei = strImei @ replicate (14 - length strImei) (CHR ''0'')
                   in Some (''urn:gsma:imei:'' @ take 8 strImei @ ''-'' @ take 6 (drop 8 strImei) @ ''-'' @ ''0''))
              | UUID_IMEI_MD5 \<Rightarrow> do {
                  c \<leftarrow> md5_put (bytes_of strTac) (ImsMd5_Initialize m);
                  (uacHashedImei, _) \<leftarrow> ImsMd5_Finalize c;
                  Some (''urn:uuid:'' @ uuid_text uacHashedImei)
                }
              | UUID_IMEI_SHA1 \<Rightarrow> do {
                  c \<leftarrow> ImsSha1_Update (bytes_of strTac) (of_nat (length strTac)) (ImsSha1_Initialize s);
                  (uacHashedImei, _) \<leftarrow> ImsSha1_Finalize c;
                  Some (''urn:uuid:'' @ uuid_text uacHashedImei)
                }
              | UUID_IMEI_NAMED_V3 \<Rightarrow> map_option ((@) ''urn:uuid:'') (GetUuidv3 m strTac)
              | UUID_IMEI_NAMED_V5 \<Rightarrow> map_option ((@) ''urn:uuid:'') (GetUuidv5 s strTac)
              | UUID_IMEI_V4 \<Rightarrow> map_option ((@) ''urn:uuid:'') (GetUuidv4 s strTac)))"

definition GetUrn_named ::
    "u32 \<Rightarrow> ImsMd5Context \<Rightarrow> ImsSha1Context \<Rightarrow> uuid_version \<Rightarrow> string \<Rightarrow> string option" where
  "GetUrn_named nMicroSecs m s nVersion strName =
     map_option ((@) ''urn:uuid:'') (GetUuid nMicroSecs m s nVersion strName)"

subsection \<open>Branches and session ids\<close>

abbreviation STR_BRANCH_MAGIC_COOKIE :: string where
  "STR_BRANCH_MAGIC_COOKIE \<equiv> ''z9hG4bK''"

text \<open>A null pointer adds nothing to the digest.\<close>

definition cstr_bytes :: "cstr \<Rightarrow> u8 list" where
  "cstr_bytes s = (case s of None \<Rightarrow> [] | Some t \<Rightarrow> bytes_of t)"

definition GenerateViaBranch ::
    "ImsMd5Context \<Rightarrow> cstr \<Rightarrow> cstr \<Rightarrow> cstr \<Rightarrow> cstr \<Rightarrow> cstr \<Rightarrow> int \<Rightarrow> string \<Rightarrow> string option" where
  "GenerateViaBranch stack pszToTag pszFromTag pszCallId pszRequestUri pszTopmostVia nCSeqNum
       strExtensionToken = do {
     c \<leftarrow> md5_put (cstr_bytes pszFromTag) (ImsMd5_Initialize stack);
     c \<leftarrow> md5_put COLON c;
     c \<leftarrow> md5_put (cstr_bytes pszCallId) c;
     c \<leftarrow> (if pszToTag \<noteq> None then md5_put COLON c \<bind> md5_put (cstr_bytes pszToTag) else Some c);
     c \<leftarrow> md5_put COLON c;
     c \<leftarrow> md5_put (cstr_bytes pszRequestUri) c;
     strCSeq \<leftarrow> SetNumber_S32 nCSeqNum 10;
     c \<leftarrow> md5_put COLON c;
     c \<leftarrow> md5_put (bytes_of strCSeq) c;
     c \<leftarrow> (if pszTopmostVia \<noteq> None then md5_put COLON c \<bind> md5_put (cstr_bytes pszTopmostVia) else Some c);
     (aucBranch, _) \<leftarrow> ImsMd5_Finalize c;
     Some (STR_BRANCH_MAGIC_COOKIE @ chars_of (imsDigest_ConvertBinToHex aucBranch) @ strExtensionToken)
   }"

text \<open>\<open>nRandom\<close> is the number the code draws; two digits of it end the key.\<close>

definition GenerateSessionId :: "ImsSha1Context \<Rightarrow> ImsSha1Context \<Rightarrow> string \<Rightarrow> u32 \<Rightarrow> string \<Rightarrow> string option" where
  "GenerateSessionId stack1 stack2 fixedKey nRandom strCallId = do {
     let strSecretKey = fixedKey @ LHEX [ucast (nRandom mod 0x100)];
     uacSessionId \<leftarrow> ImsHmac_Sha1 stack1 stack2 (bytes_of strCallId) (int (length strCallId))
       (bytes_of strSecretKey) (int (length strSecretKey));
     Some (LHEX (take 16 uacSessionId))
   }"

subsection \<open>What the derived values are\<close>

abbreviation md5_ready :: "ImsMd5Context \<Rightarrow> bool" where
  "md5_ready c \<equiv> length (md5_aucBuffer c) = 64"

abbreviation sha1_ready :: "ImsSha1Context \<Rightarrow> bool" where
  "sha1_ready c \<equiv> length (sha1_aucMessageBlock c) = 64"

lemma ImsHmac_Md5_formula:
  assumes "md5_ready m1" "md5_ready m2" "0 \<le> n" "n < 2 ^ 31" "nat n \<le> length text" "length key < 2 ^ 31"
  shows "ImsHmac_Md5 m1 m2 text n key (int (length key)) = Some (hmac md5_digest key (take (nat n) text))"
  using assms by (simp add: ImsHmac_Md5_keyed md5_mac.keyed_digest_hmac md5_view_def md5_digest_def [abs_def])

lemma length_hmac_md5 [simp]: "length (hmac md5_digest key msg) = 16"
  by (simp add: hmac_def Let_def)

lemma c_string_chars_of: "0 \<notin> set bs \<Longrightarrow> c_string (chars_of bs) = chars_of bs"
proof -
  have "char_of (unat b) \<noteq> CHR 0x00" if "b \<noteq> 0" for b :: u8
  proof
    assume "char_of (unat b) = CHR 0x00"
    then have "of_char (char_of (unat b) :: char) = (0 :: nat)" by simp
    then show False using unat_u8_lt [of b] that by (simp add: unat_eq_0 take_bit_eq_mod)
  qed
  then have "0 \<notin> set bs \<Longrightarrow> \<forall>b\<in>set bs. char_of (unat b) \<noteq> CHR 0x00" by metis
  then show "0 \<notin> set bs \<Longrightarrow> ?thesis" by (simp add: c_string_def chars_of_def takeWhile_eq_all_conv)
qed

lemma bytes_of_chars [simp]: "bytes_of (chars_of bs) = bs"
proof -
  have "of_char (char_of (unat b) :: char) = b" for b :: u8
    by (metis mod_less of_char_of of_nat_of_char of_nat_unat ucast_id unat_u8_lt)
  then show ?thesis by (simp add: bytes_of_def chars_of_def comp_def)
qed

text \<open>The password of AKAv2 is the Base64 text of the keyed digest of the label, by \<open>RES || IK || CK\<close>.\<close>

lemma SetAkaResponse_v2_password:
  assumes "md5_ready m1" "md5_ready m2" "length (res @ ik @ ck) < 2 ^ 31"
  shows "\<exists>c'. SetAkaResponse_v2 m1 m2 RESULT_OK res ik ck auts c = Some c' \<and>
    bytes_of (m_strPassword c') =
      ImsBase64_Encode (hmac md5_digest (res @ ik @ ck) (bytes_of ''http-digest-akav2-password'')) False"
proof -
  let ?mac = "hmac md5_digest (res @ ik @ ck) (bytes_of ''http-digest-akav2-password'')"
  have "take (nat DIGEST_KEY_PASSWORD) STR_DIGEST_KEY_PASSWORD = bytes_of ''http-digest-akav2-password''"
    "nat DIGEST_KEY_PASSWORD \<le> length STR_DIGEST_KEY_PASSWORD"
    by (simp_all add: STR_DIGEST_KEY_PASSWORD_def)
  then have mac: "ImsHmac_Md5 m1 m2 STR_DIGEST_KEY_PASSWORD DIGEST_KEY_PASSWORD (res @ ik @ ck)
      (int (length (res @ ik @ ck))) = Some ?mac"
    using ImsHmac_Md5_formula [OF assms(1,2) _ _ _ assms(3), of DIGEST_KEY_PASSWORD STR_DIGEST_KEY_PASSWORD] by simp
  have "length (ImsBase64_Encode ?mac False) = 24"
    by (simp add: ImsBase64_Encode_text length_base64_plain)
  moreover have "c_string (chars_of (ImsBase64_Encode ?mac False)) = chars_of (ImsBase64_Encode ?mac False)"
    by (rule c_string_chars_of) (simp add: ImsBase64_Encode_text base64_text_nonzero)
  ultimately show ?thesis
    unfolding SetAkaResponse_v2_def Let_def mac by (simp add: mac)
qed

lemma DeriveForAkav2_keys:
  assumes "md5_ready m1" "md5_ready m2"
  shows "ck \<noteq> [] \<Longrightarrow> length ck < 2 ^ 31 \<Longrightarrow>
      DeriveCkForAkav2 m1 m2 ck = Some (hmac md5_digest ck (bytes_of ''http-digest-akav2-cipherkey''))"
    and "ik \<noteq> [] \<Longrightarrow> length ik < 2 ^ 31 \<Longrightarrow>
      DeriveIkForAkav2 m1 m2 ik = Some (hmac md5_digest ik (bytes_of ''http-digest-akav2-integritykey''))"
  using assms
  by (simp_all add: DeriveCkForAkav2_def DeriveIkForAkav2_def ImsHmac_Md5_formula STR_DIGEST_KEY_CK_def
      STR_DIGEST_KEY_IK_def)

text \<open>A UUID of version 3, 4 or 5 is a function of the name alone.\<close>

lemma fits_name: "length s < 2 ^ 31 \<Longrightarrow> unat (of_nat (length s) :: u32) = length s"
  by (simp add: unat_of_nat)

lemma GetUuidv3_name:
  assumes "md5_ready m" "length name < 2 ^ 31"
  shows "GetUuidv3 m name = Some (uuid_text (set_version 3 (md5_digest (NAMESPACE_IMS @ bytes_of name))))"
  unfolding GetUuidv3_def
  apply (rule md5.update_bind [OF md5_initial [OF assms(1)]], simp add: NAMESPACE_IMS_def, simp)
  apply (rule md5_put_bind, assumption, rule fits_bytes_of [OF assms(2)])
  apply (rule md5_finalize_bind, assumption)
  by (simp add: NAMESPACE_IMS_def)

lemma GetUuid_sha1_name:
  assumes "sha1_ready s" "length name < 2 ^ 31"
  shows "GetUuid_sha1 v s name =
    Some (uuid_text (set_version v (take 16 (sha1_digest (NAMESPACE_IMS @ bytes_of name)))))"
  unfolding GetUuid_sha1_def
  apply (rule sha1.update_bind [OF sha1_initial [OF assms(1)]], simp add: NAMESPACE_IMS_def, simp)
  apply (rule sha1.update_bind, assumption, use assms(2) in \<open>simp add: fits_name\<close>,
      use assms(2) in \<open>simp add: fits_name\<close>)
  apply (rule sha1.finalize_bind [folded sha1_digest_def], assumption)
  using assms(2) by (simp add: NAMESPACE_IMS_def fits_name)

text \<open>Its text: 36 characters, four dashes, the version and the variant in their digits.\<close>

lemma length_set_version [simp]: "length (set_version v bs) = length bs"
  by (simp add: set_version_def Let_def)

lemma uuid_text_length: "length bs = 16 \<Longrightarrow> length (uuid_text bs) = 36"
  by (simp add: uuid_text_def)

end
