(* ===== verification/Util_Properties.thy ===== *)
theory Util_Properties
  imports Ims_Digest Ims_Base64 Ims_Number Ims_Identity
begin

text \<open>
  Properties of the utilities of \<open>platform/util\<close>: the digests, keyed digests and digest
  authentication. A witness applies each property to a concrete message.
\<close>

subsection \<open>Digests\<close>

abbreviation some_md5_context :: ImsMd5Context where
  "some_md5_context \<equiv> \<lparr>md5_anState = (1, 2, 3, 4), md5_anCount0 = 5, md5_anCount1 = 6,
     md5_aucBuffer = replicate 64 7\<rparr>"

abbreviation some_sha1_context :: ImsSha1Context where
  "some_sha1_context \<equiv> \<lparr>sha1_nLengthLow = 5, sha1_nLengthHigh = 6, sha1_anH = (0, 1, 2, 3, 4),
     sha1_aucMessageBlock = replicate 64 7\<rparr>"

text \<open>C17: Feeding the MD5 digest a message in any number of updates of any sizes (each short of
  4 GiB) from a freshly initialised context, whatever its buffer holds, gives the digest the
  standard defines for the concatenation: the message padded with 0x80, zeros and its bit length,
  compressed block by block. No byte outside a source is read, and the context is left zeroed.\<close>

theorem md5_is_digest_of_concatenation:
  assumes "length (md5_aucBuffer c) = 64" and "\<forall>src\<in>set srcs. length src + 64 \<le> 2 ^ 32"
  shows "Option.bind (hash_updates ImsMd5_Update srcs (ImsMd5_Initialize c)) ImsMd5_Finalize =
    Some (block_digest imsMd5_Transform md5_init md5_length_bytes imsMd5_state_bytes (concat srcs),
      ImsMd5_cleared)"
  by (rule md5.digest_of_updates [OF md5_initial [OF assms(1)]]) (use assms(2) in \<open>simp add: fits_update_def\<close>)

theorem md5_is_digest_of_concatenation_witness:
  "Option.bind (hash_updates ImsMd5_Update [[0x61], [], replicate 70 0x62] (ImsMd5_Initialize some_md5_context))
     ImsMd5_Finalize =
   Some (block_digest imsMd5_Transform md5_init md5_length_bytes imsMd5_state_bytes (0x61 # replicate 70 0x62),
     ImsMd5_cleared)"
  using md5_is_digest_of_concatenation [of some_md5_context "[[0x61], [], replicate 70 0x62]"] by simp

text \<open>C18: The SHA-1 digest has the same behaviour: any sequence of updates gives the digest of the
  concatenation, with the bit length written high word first.\<close>

theorem sha1_is_digest_of_concatenation:
  assumes "length (sha1_aucMessageBlock c) = 64" and "\<forall>src\<in>set srcs. length src + 64 \<le> 2 ^ 32"
  shows "Option.bind (hash_updates ImsSha1_Update srcs (ImsSha1_Initialize c)) ImsSha1_Finalize =
    Some (block_digest imsSha1_Transform sha1_init sha1_length_bytes imsSha1_state_bytes (concat srcs),
      ImsSha1_cleared)"
  by (rule sha1.digest_of_updates [OF sha1_initial [OF assms(1)]]) (use assms(2) in \<open>simp add: fits_update_def\<close>)

theorem sha1_is_digest_of_concatenation_witness:
  "Option.bind (hash_updates ImsSha1_Update [[0x61], [], replicate 70 0x62]
     (ImsSha1_Initialize some_sha1_context)) ImsSha1_Finalize =
   Some (block_digest imsSha1_Transform sha1_init sha1_length_bytes imsSha1_state_bytes
     (0x61 # replicate 70 0x62), ImsSha1_cleared)"
  using sha1_is_digest_of_concatenation [of some_sha1_context "[[0x61], [], replicate 70 0x62]"] by simp

subsection \<open>Keyed digests and digest authentication\<close>

text \<open>C19: Both keyed digests are the HMAC of RFC 2104 over their hash, for every text and key inside
  their buffers: a key longer than 64 bytes is hashed first, a shorter one is filled with zeros, and
  the stale contents of the contexts on the stack do not matter.\<close>

theorem hmac_follows_rfc2104:
  assumes "length (md5_aucBuffer m1) = 64" "length (md5_aucBuffer m2) = 64"
    and "length (sha1_aucMessageBlock s1) = 64" "length (sha1_aucMessageBlock s2) = 64"
    and "0 \<le> n" "n < 2 ^ 31" "nat n \<le> length text" and "0 \<le> k" "k < 2 ^ 31" "nat k \<le> length key"
  shows "ImsHmac_Md5 m1 m2 text n key k = Some (hmac md5_digest (take (nat k) key) (take (nat n) text)) \<and>
    ImsHmac_Sha1 s1 s2 text n key k = Some (hmac sha1_digest (take (nat k) key) (take (nat n) text))"
  using assms
  by (simp add: ImsHmac_Md5_keyed ImsHmac_Sha1_keyed md5_mac.keyed_digest_hmac sha1_mac.keyed_digest_hmac
      md5_view_def sha1_view_def md5_digest_def sha1_digest_def [abs_def] md5_digest_def [abs_def])

theorem hmac_follows_rfc2104_witness:
  "ImsHmac_Md5 some_md5_context some_md5_context (bytes_of ''text'') 4 (replicate 70 0x6B) 70 =
     Some (hmac md5_digest (replicate 70 0x6B) (bytes_of ''text'')) \<and>
   ImsHmac_Sha1 some_sha1_context some_sha1_context (bytes_of ''text'') 4 (replicate 70 0x6B) 70 =
     Some (hmac sha1_digest (replicate 70 0x6B) (bytes_of ''text''))"
  using hmac_follows_rfc2104 [of some_md5_context some_md5_context some_sha1_context some_sha1_context
    4 "bytes_of ''text''" 70 "replicate 70 0x6B"] by simp



subsection \<open>Text encodings\<close>


text \<open>C31: Numbers survive text. For every base, an unsigned number of 16, 32 or 64 bits that
  \<open>SetNumber\<close> prints is read back by the conversion of its type, with the success flag; in base
  ten so is every signed number (but the least of 64 bits, whose negation overflows).\<close>

theorem number_roundtrip:
  assumes "- (2 ^ 63) < n" "n < 2 ^ 63" "- (2 ^ 31) \<le> i" "i < 2 ^ 31" "- (2 ^ 15) \<le> h" "h < 2 ^ 15"
  shows "(\<exists>s. SetNumber_U64 u64 b = Some s \<and> AString_ToUInt64 s b = (u64, True)) \<and>
    (\<exists>s. SetNumber_U32 u32 b = Some s \<and> AString_ToUInt32 s b = (u32, True)) \<and>
    (\<exists>s. SetNumber_U16 u16 b = Some s \<and> AString_ToUInt16 s b = (u16, True)) \<and>
    (\<exists>s. SetNumber_S64 n 10 = Some s \<and> AString_ToInt64 s 10 = (n, True)) \<and>
    (\<exists>s. SetNumber_S32 i 10 = Some s \<and> AString_ToInt32 s 10 = (i, True)) \<and>
    (\<exists>s. SetNumber_S16 h 10 = Some s \<and> AString_ToInt16 s 10 = (h, True))"
proof (intro conjI)
  show "\<exists>s. SetNumber_S32 i 10 = Some s \<and> AString_ToInt32 s 10 = (i, True)"
    unfolding SetNumber_S32_def AString_ToInt32_def by (rule to_signed_SetNumber) (use assms in simp_all)
  show "\<exists>s. SetNumber_S16 h 10 = Some s \<and> AString_ToInt16 s 10 = (h, True)"
    unfolding SetNumber_S16_def SetNumber_S32_def AString_ToInt16_def
    by (rule to_signed_SetNumber) (use assms in simp_all)
  show "\<exists>s. SetNumber_S64 n 10 = Some s \<and> AString_ToInt64 s 10 = (n, True)"
    unfolding AString_ToInt64_def by (rule to_signed_SetNumber) (use assms in simp_all)
qed (rule SetNumber_U64_roundtrip SetNumber_U32_roundtrip SetNumber_U16_roundtrip)+

theorem number_roundtrip_witness:
  "(\<exists>s. SetNumber_U64 0xFFFFFFFFFFFFFFFF 16 = Some s \<and> AString_ToUInt64 s 16 = (0xFFFFFFFFFFFFFFFF, True)) \<and>
   (\<exists>s. SetNumber_U32 5060 16 = Some s \<and> AString_ToUInt32 s 16 = (5060, True)) \<and>
   (\<exists>s. SetNumber_U16 65535 16 = Some s \<and> AString_ToUInt16 s 16 = (65535, True)) \<and>
   (\<exists>s. SetNumber_S64 (-1) 10 = Some s \<and> AString_ToInt64 s 10 = (-1, True)) \<and>
   (\<exists>s. SetNumber_S32 (-2147483648) 10 = Some s \<and> AString_ToInt32 s 10 = (-2147483648, True)) \<and>
   (\<exists>s. SetNumber_S16 0 10 = Some s \<and> AString_ToInt16 s 10 = (0, True))"
  by (rule number_roundtrip) simp_all

subsection \<open>AKA credentials\<close>

text \<open>The credentials of AKAv2 (RFC 4169). A successful AKA response makes the password the
  Base64 text of the keyed digest of the password label by RES, IK and CK one after the other, which
  decodes to that digest again, and leaves the name and the realm; the new cipher and integrity keys
  are the keyed digests of their labels by CK and IK, and stay empty for an empty key.\<close>

theorem akav2_credentials:
  assumes "length (md5_aucBuffer m1) = 64" "length (md5_aucBuffer m2) = 64" "length (res @ ik @ ck) < 2 ^ 31"
  shows "(\<exists>c'. SetAkaResponse_v2 m1 m2 RESULT_OK res ik ck auts c = Some c' \<and>
      AString_FromBase64 (bytes_of (m_strPassword c')) =
        Some (hmac md5_digest (res @ ik @ ck) (bytes_of ''http-digest-akav2-password'')) \<and>
      m_strUsername c' = m_strUsername c \<and> m_strRealm c' = m_strRealm c) \<and>
    DeriveCkForAkav2 m1 m2 ck =
      Some (if ck = [] then [] else hmac md5_digest ck (bytes_of ''http-digest-akav2-cipherkey'')) \<and>
    DeriveIkForAkav2 m1 m2 ik =
      Some (if ik = [] then [] else hmac md5_digest ik (bytes_of ''http-digest-akav2-integritykey''))"
proof (intro conjI)
  obtain c' where c': "SetAkaResponse_v2 m1 m2 RESULT_OK res ik ck auts c = Some c'"
    "bytes_of (m_strPassword c') =
       ImsBase64_Encode (hmac md5_digest (res @ ik @ ck) (bytes_of ''http-digest-akav2-password'')) False"
    using SetAkaResponse_v2_password [OF assms] by blast
  moreover have "m_strUsername c' = m_strUsername c" "m_strRealm c' = m_strRealm c"
    using c'(1) by (auto simp: SetAkaResponse_v2_def Let_def split: bind_splits if_splits)
  ultimately show "\<exists>c'. SetAkaResponse_v2 m1 m2 RESULT_OK res ik ck auts c = Some c' \<and>
      AString_FromBase64 (bytes_of (m_strPassword c')) =
        Some (hmac md5_digest (res @ ik @ ck) (bytes_of ''http-digest-akav2-password'')) \<and>
      m_strUsername c' = m_strUsername c \<and> m_strRealm c' = m_strRealm c"
    by (simp add: AString_FromBase64_decodes)
  show "DeriveCkForAkav2 m1 m2 ck =
      Some (if ck = [] then [] else hmac md5_digest ck (bytes_of ''http-digest-akav2-cipherkey''))"
    using DeriveForAkav2_keys(1) [OF assms(1,2), of ck] assms(3) by (simp add: DeriveCkForAkav2_def)
  show "DeriveIkForAkav2 m1 m2 ik =
      Some (if ik = [] then [] else hmac md5_digest ik (bytes_of ''http-digest-akav2-integritykey''))"
    using DeriveForAkav2_keys(2) [OF assms(1,2), of ik] assms(3) by (simp add: DeriveIkForAkav2_def)
qed

theorem akav2_credentials_witness:
  "(\<exists>c'. SetAkaResponse_v2 some_md5_context some_md5_context RESULT_OK [1, 2] [3] [4] [] (Credential_init ''u'' ''p'' ''r'') =
        Some c' \<and>
      AString_FromBase64 (bytes_of (m_strPassword c')) =
        Some (hmac md5_digest [1, 2, 3, 4] (bytes_of ''http-digest-akav2-password'')) \<and>
      m_strUsername c' = ''u'' \<and> m_strRealm c' = ''r'') \<and>
   DeriveCkForAkav2 some_md5_context some_md5_context [4] =
     Some (hmac md5_digest [4] (bytes_of ''http-digest-akav2-cipherkey'')) \<and>
   DeriveIkForAkav2 some_md5_context some_md5_context [3] =
     Some (hmac md5_digest [3] (bytes_of ''http-digest-akav2-integritykey''))"
  using akav2_credentials [of some_md5_context some_md5_context "[1, 2]" "[3]" "[4]" "[]" "Credential_init ''u'' ''p'' ''r''"]
  by (simp add: Credential_init_def)

end
