(* ===== verification/Sip_Framing.thy ===== *)
theory Sip_Framing
  imports Ims_Number
begin

text \<open>
  Framing of SIP messages on a stream (\<open>engine/sipcore/SipMessageFraming.cpp\<close>) and the loop
  that hands complete messages on (\<open>SipStreamSocket::Socket_OnDataReceived\<close>). The bytes are
  characters. A pointer into the buffer with its end is the list of characters between them: the
  one look-ahead behind the end only ever meets the terminating NUL. \<open>f_bOverrun\<close> is not a member of
  the class: it records that bytes behind the buffer were read.
\<close>

subsection \<open>State\<close>

datatype framing_state = STATE_IDLE | STATE_CREATED | STATE_CLEN | STATE_BODY | STATE_DONE

record SipMessageFraming =
  f_nState :: framing_state
  f_nContentLength :: int
  f_nOffset :: int
  f_bGotBodyStart :: bool
  f_objMessageBuffer :: string
  f_bOverrun :: bool

definition SipMessageFraming_init :: SipMessageFraming where
  "SipMessageFraming_init =
     \<lparr>f_nState = STATE_IDLE, f_nContentLength = 0, f_nOffset = 0, f_bGotBodyStart = False,
      f_objMessageBuffer = [], f_bOverrun = False\<rparr>"

abbreviation CHAR_CR :: char where "CHAR_CR \<equiv> CHR 0x0D"
abbreviation CHAR_LF :: char where "CHAR_LF \<equiv> CHR 0x0A"
abbreviation CHAR_SP :: char where "CHAR_SP \<equiv> CHR 0x20"
abbreviation CHAR_HTAB :: char where "CHAR_HTAB \<equiv> CHR 0x09"
abbreviation CHAR_COLON :: char where "CHAR_COLON \<equiv> CHR '':''"
abbreviation STR_CRLFCRLF :: string where "STR_CRLFCRLF \<equiv> [CHAR_CR, CHAR_LF, CHAR_CR, CHAR_LF]"

definition IsEmpty_framing :: "SipMessageFraming \<Rightarrow> bool" where
  "IsEmpty_framing f \<longleftrightarrow> f_objMessageBuffer f = []"

definition AppendPacket :: "string \<Rightarrow> SipMessageFraming \<Rightarrow> bool \<times> SipMessageFraming" where
  "AppendPacket pBuffer f =
     (if pBuffer = [] then (False, f)
      else
        (let f = f\<lparr>f_objMessageBuffer := f_objMessageBuffer f @ pBuffer\<rparr>;
             f = (if f_nState f = STATE_IDLE \<and> \<not> IsEmpty_framing f then f\<lparr>f_nState := STATE_CREATED\<rparr> else f)
         in (True, f)))"

subsection \<open>Scanning\<close>

text \<open>The text without leading and trailing white space (\<open>StripLeadingLWS\<close>, \<open>StripTrailingLWS\<close>).\<close>

definition StripLeadingLWS :: "string \<Rightarrow> string" where
  "StripLeadingLWS p = dropWhile IMS_ISSPACE p"

definition StripTrailingLWS :: "string \<Rightarrow> string" where
  "StripTrailingLWS p = rev (dropWhile IMS_ISSPACE (rev p))"

text \<open>
  To the end of a line: how far the pointer moves, and \<open>nBodyEndOffset\<close>, which tells a CR LF
  (or no line end) from a single character.
\<close>

fun line_end :: "string \<Rightarrow> nat \<times> nat" where
  "line_end [] = (0, 3)"
| "line_end (c # p) =
     (if c = CHAR_CR \<and> p \<noteq> [] \<and> hd p = CHAR_LF then (2, 3)
      else if c = CHAR_CR \<or> c = CHAR_LF then (1, 2)
      else (let (k, nBodyEndOffset) = line_end p in (Suc k, nBodyEndOffset)))"

text \<open>To the colon behind a header name: where the name starts, and the colon (or the end).\<close>

fun header_name :: "nat \<Rightarrow> nat \<Rightarrow> string \<Rightarrow> nat \<times> nat" where
  "header_name pHeaderStart pCurrentPos [] = (pHeaderStart, pCurrentPos)"
| "header_name pHeaderStart pCurrentPos (c # p) =
     (if c = CHAR_COLON then (pHeaderStart, pCurrentPos)
      else header_name (if c = CHAR_CR \<or> c = CHAR_LF then pCurrentPos else pHeaderStart) (Suc pCurrentPos) p)"

text \<open>\<open>IMS_StrStr\<close> for the empty line: its offset, in the text before the first NUL.\<close>

fun find_crlfcrlf :: "string \<Rightarrow> nat option" where
  "find_crlfcrlf [] = None"
| "find_crlfcrlf (c # p) =
     (if take 4 (c # p) = STR_CRLFCRLF then Some 0 else map_option Suc (find_crlfcrlf p))"

definition is_content_length :: "string \<Rightarrow> bool" where
  "is_content_length name \<longleftrightarrow>
     (length name = 1 \<and> strncmp_loop SIP_TOLOWER (c_string name) ''l'' 1 = 0) \<or>
     (length name = 14 \<and> strncmp_loop SIP_TOLOWER (c_string name) ''Content-Length'' 14 = 0)"

subsection \<open>The Content-Length header\<close>

lemma header_name_bounds:
  "header_name hs cur p = (hs', cur') \<Longrightarrow> cur \<le> cur' \<and> cur' \<le> cur + length p"
  by (induction p arbitrary: hs cur) (fastforce split: if_splits)+

lemma line_end_bounds: "line_end p = (k, off) \<Longrightarrow> k \<le> length p \<and> (p \<noteq> [] \<longrightarrow> 0 < k)"
  by (induction p arbitrary: k off) (auto split: if_splits prod.splits simp: neq_Nil_conv)

text \<open>The \<open>do\<close> loop over the header lines; \<open>p\<close> starts at offset \<open>pos\<close> and ends at \<open>pEnd\<close>.\<close>

function clen_loop :: "string \<Rightarrow> nat \<Rightarrow> SipMessageFraming \<Rightarrow> SipMessageFraming" where
  "clen_loop p pos f =
     (let (hs, cur) = header_name 0 0 p
      in if cur \<ge> length p then f\<lparr>f_nOffset := int (pos + hs)\<rparr>
         else
           (let stripped = StripLeadingLWS (take (cur - hs) (drop hs p));
                hs = cur - length stripped;
                (k, nBodyEndOffset) = line_end (drop cur p)
            in if is_content_length (StripTrailingLWS stripped) then
                 (if cur + k \<ge> length p then f\<lparr>f_nOffset := int (pos + hs)\<rparr>
                  else
                    (let value = take (k - nBodyEndOffset) (drop (cur + 1) p);
                         strContentLength = StripTrailingLWS (StripLeadingLWS value)
                     in f\<lparr>f_nContentLength := fst (AString_ToInt32 strContentLength 10),
                          f_nOffset := int (pos + cur + k - nBodyEndOffset), f_nState := STATE_BODY\<rparr>))
               else if cur + k \<ge> length p then f\<lparr>f_nOffset := int (pos + hs)\<rparr>
               else clen_loop (drop (cur + k) p) (pos + cur + k) f))"
  by pat_completeness auto
termination
  by (relation "measure (\<lambda>(p, _, _). length p)") (auto dest: line_end_bounds [OF sym])

declare clen_loop.simps [simp del]

definition ParseContentLength :: "SipMessageFraming \<Rightarrow> SipMessageFraming" where
  "ParseContentLength f =
     (let start = nat (f_nOffset f);
          p = drop start (f_objMessageBuffer f);
          cur = length (takeWhile IMS_ISSPACE p);
          pEnd = (case find_crlfcrlf (c_string (drop cur p)) of None \<Rightarrow> length p | Some i \<Rightarrow> cur + i + 4);
          p = take pEnd p;
          blank = cur + length (takeWhile (\<lambda>c. c \<in> {CHAR_CR, CHAR_LF, CHAR_SP, CHAR_HTAB}) (drop cur p));
          cur = (if f_nOffset f = 0 then blank + fst (line_end (drop blank p)) else cur)
      in if f_nOffset f > int (length (f_objMessageBuffer f)) then f\<lparr>f_bOverrun := True\<rparr>
         else if pEnd = 0 then f
         else if f_nOffset f = 0 \<and> blank \<ge> pEnd then f
         else if cur \<ge> pEnd then f\<lparr>f_nOffset := int (start + pEnd)\<rparr>
         else clen_loop (drop cur p) (start + cur) f)"

subsection \<open>The message body\<close>

fun body_scan :: "string \<Rightarrow> nat \<times> bool" where
  "body_scan p =
     (if length p \<le> 3 then (0, False)
      else if take 4 p = STR_CRLFCRLF then (4, True)
      else (let (k, bDoubleCRLF) = body_scan (tl p) in (Suc k, bDoubleCRLF)))"

declare body_scan.simps [simp del]

definition ParseMessageBody :: "SipMessageFraming \<Rightarrow> SipMessageFraming" where
  "ParseMessageBody f =
     (let body = drop (nat (f_nOffset f)) (f_objMessageBuffer f);
          nBodyLength = int (length (f_objMessageBuffer f)) - f_nOffset f;
          (k, bDoubleCRLF) = (if f_bGotBodyStart f then (0, False) else body_scan body)
      in if \<not> f_bGotBodyStart f \<and> int k = nBodyLength - 3 \<and> \<not> bDoubleCRLF
         then f\<lparr>f_nOffset := f_nOffset f + int k\<rparr>
         else
           (let f = f\<lparr>f_bGotBodyStart := True, f_nOffset := f_nOffset f + int k\<rparr>;
                nContentLength = nBodyLength - int k
            in if nContentLength = 0 \<and> f_nContentLength f = 0 then f\<lparr>f_nState := STATE_DONE\<rparr>
               else if nContentLength < f_nContentLength f then f
               else f\<lparr>f_nOffset := f_nOffset f + f_nContentLength f, f_nState := STATE_DONE\<rparr>))"

subsection \<open>The public operations\<close>

definition CheckCompleteMessage :: "SipMessageFraming \<Rightarrow> bool \<times> SipMessageFraming" where
  "CheckCompleteMessage f =
     (if IsEmpty_framing f then (False, f)
      else
        (let f = (if f_nState f = STATE_CREATED then f\<lparr>f_nState := STATE_CLEN\<rparr> else f);
             f = (if f_nState f = STATE_CLEN then ParseContentLength f else f);
             f = (if f_nState f = STATE_BODY then ParseMessageBody f else f)
         in (f_nState f = STATE_DONE, f)))"

text \<open>\<open>ByteArray::Append\<close> and \<open>Erase\<close> do nothing for a count that is not positive.\<close>

definition GetCompleteMessage :: "SipMessageFraming \<Rightarrow> string option" where
  "GetCompleteMessage f =
     (if IsEmpty_framing f then None else Some (take (nat (f_nOffset f)) (f_objMessageBuffer f)))"

definition IgnoreCrlf :: "SipMessageFraming \<Rightarrow> bool \<times> SipMessageFraming" where
  "IgnoreCrlf f =
     (if length (f_objMessageBuffer f) < 2 then (False, f)
      else if take 2 (f_objMessageBuffer f) = [CHAR_CR, CHAR_LF]
      then (True, f\<lparr>f_objMessageBuffer := drop 2 (f_objMessageBuffer f)\<rparr>)
      else (False, f))"

definition UpdateState :: "SipMessageFraming \<Rightarrow> SipMessageFraming" where
  "UpdateState f =
     (let buffer = f_objMessageBuffer f;
          buffer = (if int (length buffer) > f_nOffset f then drop (nat (f_nOffset f)) buffer
                    else if int (length buffer) = f_nOffset f then [] else buffer);
          buffer = dropWhile IMS_ISSPACE buffer
      in \<lparr>f_nState = (if buffer = [] then STATE_IDLE else STATE_CREATED), f_nContentLength = 0,
          f_nOffset = 0, f_bGotBodyStart = False, f_objMessageBuffer = buffer, f_bOverrun = f_bOverrun f\<rparr>)"

text \<open>
  The loop of \<open>Socket_OnDataReceived\<close>, with the messages handed to the listener; \<open>None\<close> is a
  loop that does not end.
\<close>

partial_function (option) deliver_loop ::
    "SipMessageFraming \<Rightarrow> string list \<Rightarrow> (string list \<times> SipMessageFraming) option" where
  "deliver_loop f delivered =
     (let r = CheckCompleteMessage f; f = snd r
      in if \<not> fst r then Some (delivered, f)
         else if GetCompleteMessage f = None then Some (delivered, f)
         else deliver_loop (UpdateState f) (delivered @ [the (GetCompleteMessage f)]))"

declare deliver_loop.simps [code]

text \<open>
  What \<open>Socket_OnDataReceived\<close> does with the bytes it has read from the socket; the second
  component tells that a lone CR LF was taken as a pong.
\<close>

definition Socket_OnDataReceived ::
    "string list \<Rightarrow> SipMessageFraming \<Rightarrow> (string list \<times> bool \<times> SipMessageFraming) option" where
  "Socket_OnDataReceived packets f =
     (let f = fold (\<lambda>packet f. snd (AppendPacket packet f)) packets f;
          (bCrlf, f) = IgnoreCrlf f
      in if IsEmpty_framing f then Some ([], bCrlf, f)
         else (case deliver_loop f [] of None \<Rightarrow> None | Some (ms, f) \<Rightarrow> Some (ms, False, f)))"

end
