(* ===== verification/Sip_Delivery.thy ===== *)
theory Sip_Delivery
  imports Sip_Framing
begin

text \<open>
  What the framing of \<open>Sip_Framing\<close> delivers: the shape of a well-formed message on the stream,
  the scanning of its header part, and the messages the receive loop hands to the listener.
\<close>

subsection \<open>Messages on a stream\<close>

abbreviation CRLF :: string where "CRLF \<equiv> [CHAR_CR, CHAR_LF]"

definition text_lines :: "string list \<Rightarrow> string" where
  "text_lines ls = concat (map (\<lambda>l. l @ CRLF) ls)"

definition text_line :: "string \<Rightarrow> bool" where
  "text_line l \<longleftrightarrow> l \<noteq> [] \<and> (\<forall>c\<in>set l. c \<notin> {CHAR_CR, CHAR_LF, CHR 0x00})"

text \<open>A start line, and a header line: a name, a colon and a value.\<close>

definition start_line :: "string \<Rightarrow> bool" where
  "start_line l \<longleftrightarrow> text_line l \<and> \<not> IMS_ISSPACE (hd l)"

definition header_line :: "string \<Rightarrow> string \<Rightarrow> string" where
  "header_line name val = name @ [CHAR_COLON] @ val"

definition strip :: "string \<Rightarrow> string" where
  "strip s = StripTrailingLWS (StripLeadingLWS s)"

definition other_header :: "string \<Rightarrow> bool" where
  "other_header l \<longleftrightarrow> text_line l \<and>
     (\<exists>name val. l = header_line name val \<and> CHAR_COLON \<notin> set name \<and> \<not> is_content_length (strip name))"

definition length_header :: "int \<Rightarrow> string \<Rightarrow> bool" where
  "length_header n l \<longleftrightarrow> text_line l \<and>
     (\<exists>name val. l = header_line name val \<and> CHAR_COLON \<notin> set name \<and> is_content_length (strip name) \<and>
        fst (AString_ToInt32 (strip val) 10) = n)"

text \<open>The header part of a message whose first Content-Length header says \<open>n\<close>.\<close>

definition message_head :: "int \<Rightarrow> string \<Rightarrow> bool" where
  "message_head n h \<longleftrightarrow>
     (\<exists>start hs1 cl hs2. h = text_lines (start # hs1 @ [cl] @ hs2) @ CRLF \<and> start_line start \<and>
        (\<forall>l\<in>set hs1. other_header l) \<and> length_header n cl \<and> (\<forall>l\<in>set hs2. text_line l))"

definition stream_message :: "string \<Rightarrow> bool" where
  "stream_message m \<longleftrightarrow> (\<exists>h body. m = h @ body \<and> message_head (int (length body)) h)"

subsection \<open>The empty line\<close>

lemma text_lines_simps [simp]:
  "text_lines [] = []" "text_lines (l # ls) = l @ CHAR_CR # CHAR_LF # text_lines ls"
  "text_lines (ls @ ls') = text_lines ls @ text_lines ls'"
  by (simp_all add: text_lines_def)

lemma text_line_no_cr: "text_line l \<Longrightarrow> CHAR_CR \<notin> set l"
  by (auto simp: text_line_def)

lemma text_lines_hd: "\<forall>l\<in>set ls. text_line l \<Longrightarrow> ls \<noteq> [] \<Longrightarrow>
    \<exists>c s. text_lines ls = c # s \<and> c \<notin> {CHAR_CR, CHAR_LF, CHR 0x00}"
  by (cases ls) (auto simp: text_line_def neq_Nil_conv)

lemma find_crlfcrlf_skip:
  "CHAR_CR \<notin> set l \<Longrightarrow> find_crlfcrlf (l @ s) = map_option ((+) (length l)) (find_crlfcrlf s)"
proof (induction l)
  case Nil
  show ?case by (cases "find_crlfcrlf s") auto
next
  case (Cons c l)
  then show ?case by (cases "find_crlfcrlf s") auto
qed

lemma find_crlfcrlf_crlf:
  "c \<noteq> CHAR_CR \<Longrightarrow> find_crlfcrlf (CHAR_CR # CHAR_LF # c # t) = map_option (\<lambda>i. Suc (Suc i)) (find_crlfcrlf (c # t))"
  by (subst find_crlfcrlf.simps(2), subst find_crlfcrlf.simps(2)) (simp add: option.map_comp comp_def del: find_crlfcrlf.simps)

lemma find_crlfcrlf_lines:
  assumes "\<forall>l\<in>set ls. text_line l" and "ls \<noteq> []"
  shows "find_crlfcrlf (text_lines ls @ CHAR_CR # CHAR_LF # s) = Some (length (text_lines ls) - 2)"
  using assms
proof (induction ls)
  case (Cons l ls)
  have l: "CHAR_CR \<notin> set l" using Cons.prems by (auto dest: text_line_no_cr)
  show ?case
  proof (cases "ls = []")
    case True
    then show ?thesis using l by (simp add: find_crlfcrlf_skip)
  next
    case False
    then have ih: "find_crlfcrlf (text_lines ls @ CHAR_CR # CHAR_LF # s) = Some (length (text_lines ls) - 2)"
      using Cons by auto
    obtain c t where c: "text_lines ls = c # t" "c \<noteq> CHAR_CR" using text_lines_hd [of ls] Cons.prems False by auto
    have "length (text_lines ls) \<ge> 2" using False by (cases ls) auto
    moreover have "find_crlfcrlf (CHAR_CR # CHAR_LF # text_lines ls @ CHAR_CR # CHAR_LF # s) =
        Some (length (text_lines ls))"
      unfolding c(1) append_Cons find_crlfcrlf_crlf [OF c(2)] using ih calculation by (simp add: c(1) del: find_crlfcrlf.simps)
    ultimately show ?thesis using l by (simp add: find_crlfcrlf_skip)
  qed
qed simp

lemma c_string_append [simp]: "\<forall>c\<in>set h. c \<noteq> CHR 0x00 \<Longrightarrow> c_string (h @ s) = h @ c_string s"
  by (simp add: c_string_def)

lemma text_lines_no_nul: "\<forall>l\<in>set ls. text_line l \<Longrightarrow> \<forall>c\<in>set (text_lines ls). c \<noteq> CHR 0x00"
  by (auto simp: text_lines_def text_line_def)

lemma body_scan_find:
  "body_scan p = (case find_crlfcrlf p of Some i \<Rightarrow> (i + 4, True) | None \<Rightarrow> (length p - 3, False))"
proof (induction p)
  case (Cons c p)
  show ?case
  proof (cases "length (c # p) \<le> 3")
    case True
    then have "find_crlfcrlf (c # p) = None"
      by (auto simp: le_Suc_eq length_Suc_conv numeral_3_eq_3)
    then show ?thesis using True by (subst body_scan.simps) simp
  next
    case False
    then show ?thesis
      using Cons by (subst body_scan.simps) (auto split: option.splits simp: Suc_diff_le)
  qed
qed (simp add: body_scan.simps)

subsection \<open>The header lines\<close>

lemma line_end_text: "\<forall>c\<in>set l. c \<noteq> CHAR_CR \<and> c \<noteq> CHAR_LF \<Longrightarrow>
    line_end (l @ CHAR_CR # CHAR_LF # s) = (length l + 2, 3)"
  by (induction l) auto

lemma header_name_text: "\<forall>c\<in>set l. c \<noteq> CHAR_CR \<and> c \<noteq> CHAR_LF \<and> c \<noteq> CHAR_COLON \<Longrightarrow>
    header_name hs cur (l @ CHAR_COLON # s) = (hs, cur + length l)"
  by (induction l arbitrary: cur) auto

lemma StripLeadingLWS_length: "length (StripLeadingLWS s) \<le> length s"
  by (simp add: StripLeadingLWS_def length_dropWhile_le)

text \<open>One header line at the start of the text: it is passed over, or gives the length.\<close>

lemma clen_loop_header:
  assumes "text_line (header_line name val)" "CHAR_COLON \<notin> set name" "s \<noteq> []"
  shows "clen_loop (header_line name val @ CHAR_CR # CHAR_LF # s) pos f =
    (if is_content_length (strip name)
     then f\<lparr>f_nContentLength := fst (AString_ToInt32 (strip val) 10),
            f_nOffset := int (pos + length (header_line name val)) - 1, f_nState := STATE_BODY\<rparr>
     else clen_loop s (pos + length (header_line name val) + 2) f)"
proof -
  let ?p = "header_line name val @ CHAR_CR # CHAR_LF # s"
  have v: "\<forall>c\<in>set val. c \<noteq> CHAR_CR \<and> c \<noteq> CHAR_LF" and n: "\<forall>c\<in>set name. c \<noteq> CHAR_CR \<and> c \<noteq> CHAR_LF \<and> c \<noteq> CHAR_COLON"
    using assms by (auto simp: text_line_def header_line_def)
  have hn: "header_name 0 0 ?p = (0, length name)"
    using header_name_text [OF n] by (simp add: header_line_def)
  have le: "line_end (drop (length name) ?p) = (length val + 3, 3)"
    using line_end_text [of "CHAR_COLON # val" s] v by (simp add: header_line_def)
  have name: "take (length name - 0) (drop 0 ?p) = name" by (simp add: header_line_def)
  have val: "take (length val + 3 - 3) (drop (length name + 1) ?p) = val" by (simp add: header_line_def)
  have rest: "drop (length name + (length val + 3)) ?p = s" by (simp add: header_line_def numeral_3_eq_3)
  have len: "length ?p = length name + length val + 3 + length s" "length (header_line name val) = length name + length val + 1"
    by (simp_all add: header_line_def)
  show ?thesis
    using assms(3) by (subst clen_loop.simps) (simp only: hn le name val rest len Let_def prod.case strip_def, simp add: add.commute add.left_commute numeral_3_eq_3)
qed

lemma clen_loop_head:
  assumes "\<forall>l\<in>set hs1. other_header l" and "length_header n cl" and "s \<noteq> []"
  shows "clen_loop (text_lines (hs1 @ [cl]) @ s) pos f =
    f\<lparr>f_nContentLength := n, f_nOffset := int (pos + length (text_lines hs1) + length cl) - 1,
      f_nState := STATE_BODY\<rparr>"
  using assms(1)
proof (induction hs1 arbitrary: pos)
  case Nil
  obtain name val where "cl = header_line name val" "CHAR_COLON \<notin> set name" "is_content_length (strip name)"
    "fst (AString_ToInt32 (strip val) 10) = n" "text_line cl"
    using assms(2) by (auto simp: length_header_def)
  then show ?case using clen_loop_header [of name val s pos f] assms(3) by simp
next
  case (Cons l hs1)
  obtain name val where l: "l = header_line name val" "CHAR_COLON \<notin> set name" "\<not> is_content_length (strip name)"
    "text_line l"
    using Cons.prems by (auto simp: other_header_def)
  then show ?case
    using clen_loop_header [of name val "text_lines (hs1 @ [cl]) @ s" pos f] Cons.IH [of "pos + length l + 2"] Cons.prems
    by (simp add: algebra_simps)
qed

subsection \<open>One message\<close>

abbreviation fresh :: "string \<Rightarrow> SipMessageFraming" where
  "fresh b \<equiv> \<lparr>f_nState = STATE_CREATED, f_nContentLength = 0, f_nOffset = 0, f_bGotBodyStart = False,
     f_objMessageBuffer = b, f_bOverrun = False\<rparr>"

lemma text_line_line_end: "text_line l \<Longrightarrow> line_end (l @ CHAR_CR # CHAR_LF # s) = (length l + 2, 3)"
  by (rule line_end_text) (auto simp: text_line_def)

lemma ParseContentLength_head:
  assumes h: "h = text_lines (start # hs1 @ [cl] @ hs2) @ CRLF" and start: "start_line start"
    and hs1: "\<forall>l\<in>set hs1. other_header l" and cl: "length_header n cl" and hs2: "\<forall>l\<in>set hs2. text_line l"
    and f: "f_nOffset f = 0" "f_objMessageBuffer f = h @ s"
  shows "ParseContentLength f = f\<lparr>f_nContentLength := n,
    f_nOffset := int (length (text_lines (start # hs1)) + length cl) - 1, f_nState := STATE_BODY\<rparr>"
proof -
  let ?ls = "start # hs1 @ [cl] @ hs2"
  have tl: "\<forall>l\<in>set ?ls. text_line l"
    using start hs1 cl hs2 by (auto simp: start_line_def other_header_def length_header_def)
  have no_nul: "\<forall>c\<in>set h. c \<noteq> CHR 0x00" using text_lines_no_nul [OF tl] by (auto simp: h)
  have len: "4 \<le> length h" "length (text_lines ?ls) - 2 = length h - 4" by (simp_all add: h)
  have hs: "h @ c_string s = text_lines ?ls @ CHAR_CR # CHAR_LF # c_string s" by (simp add: h)
  have find: "find_crlfcrlf (c_string (h @ s)) = Some (length h - 4)"
    unfolding c_string_append [OF no_nul] hs len(2) [symmetric] by (rule find_crlfcrlf_lines [OF tl]) simp
  have space_char: "\<not> IMS_ISSPACE c \<Longrightarrow> c \<notin> {CHAR_CR, CHAR_LF, CHAR_SP, CHAR_HTAB}" for c
    by (auto simp: IMS_ISSPACE_def char_val_def)
  obtain c t where start_hd: "start = c # t" "\<not> IMS_ISSPACE c" "c \<notin> {CHAR_CR, CHAR_LF, CHAR_SP, CHAR_HTAB}"
    using start space_char by (cases start) (simp_all add: start_line_def text_line_def)
  have space: "takeWhile IMS_ISSPACE (h @ s) = []" using start_hd by (simp add: h)
  have blank: "takeWhile (\<lambda>c. c = CHAR_CR \<or> c = CHAR_LF \<or> c = CHAR_SP \<or> c = CHAR_HTAB) h = []"
    using start_hd by (simp add: h)
  have lt: "length start + 2 < length h" by (simp add: h)
  have le: "line_end h = (length start + 2, 3)"
    using text_line_line_end [of start] start by (simp add: h start_line_def)
  have rest: "drop (length start + 2) h = text_lines (hs1 @ [cl]) @ (text_lines hs2 @ CRLF)"
    by (simp add: h)
  have "ParseContentLength f = clen_loop (drop (length start + 2) h) (length start + 2) f"
    using len(1) lt by (auto simp: ParseContentLength_def f space find blank le Let_def)
  also have "\<dots> = f\<lparr>f_nContentLength := n,
      f_nOffset := int (length start + 2 + length (text_lines hs1) + length cl) - 1, f_nState := STATE_BODY\<rparr>"
    unfolding rest by (rule clen_loop_head [OF hs1 cl]) simp
  finally show ?thesis by (simp add: algebra_simps)
qed

lemma body_scan_head:
  assumes "text_line cl" and "\<forall>l\<in>set hs2. text_line l"
  shows "body_scan (last cl # CHAR_CR # CHAR_LF # text_lines hs2 @ CHAR_CR # CHAR_LF # s) =
    (5 + length (text_lines hs2), True)"
proof -
  have l: "text_line [last cl]" using assms(1) by (auto simp: text_line_def)
  have "find_crlfcrlf (text_lines ([last cl] # hs2) @ CHAR_CR # CHAR_LF # s) = Some (1 + length (text_lines hs2))"
    by (subst find_crlfcrlf_lines) (use l assms(2) in auto)
  then show ?thesis by (simp add: body_scan_find del: find_crlfcrlf.simps)
qed

lemma ParseMessageBody_found:
  assumes "body_scan (drop off b) = (k, True)" and "length b = off + k + r"
  shows "ParseMessageBody \<lparr>f_nState = STATE_BODY, f_nContentLength = n, f_nOffset = int off,
      f_bGotBodyStart = False, f_objMessageBuffer = b, f_bOverrun = False\<rparr> =
    \<lparr>f_nState = (if n \<le> int r then STATE_DONE else STATE_BODY), f_nContentLength = n,
     f_nOffset = int (off + k) + (if n \<le> int r then n else 0), f_bGotBodyStart = True,
     f_objMessageBuffer = b, f_bOverrun = False\<rparr>"
  using assms by (simp add: ParseMessageBody_def Let_def)

text \<open>What \<open>CheckCompleteMessage\<close> finds behind the head of a message.\<close>

lemma CheckCompleteMessage_head:
  assumes "message_head n h"
  shows "CheckCompleteMessage (fresh (h @ s)) =
    (n \<le> int (length s),
     \<lparr>f_nState = (if n \<le> int (length s) then STATE_DONE else STATE_BODY), f_nContentLength = n,
      f_nOffset = int (length h) + (if n \<le> int (length s) then n else 0), f_bGotBodyStart = True,
      f_objMessageBuffer = h @ s, f_bOverrun = False\<rparr>)"
proof -
  obtain start hs1 cl hs2 where h: "h = text_lines (start # hs1 @ [cl] @ hs2) @ CRLF" and start: "start_line start"
    and hs: "\<forall>l\<in>set hs1. other_header l" and cl: "length_header n cl" and hs2: "\<forall>l\<in>set hs2. text_line l"
    using assms by (auto simp: message_head_def)
  have tl: "text_line cl" "cl \<noteq> []" using cl by (auto simp: length_header_def text_line_def)
  have hne: "h \<noteq> []" by (simp add: h)
  define pre where "pre = text_lines (start # hs1) @ butlast cl"
  define off where "off = length pre"
  have off: "int (length (text_lines (start # hs1)) + length cl) - 1 = int off"
    using tl(2) by (cases cl) (simp_all add: off_def pre_def)
  have "h @ s = pre @ last cl # CHAR_CR # CHAR_LF # text_lines hs2 @ CHAR_CR # CHAR_LF # s"
    using tl by (simp add: h pre_def)
  then have drop: "drop off (h @ s) = last cl # CHAR_CR # CHAR_LF # text_lines hs2 @ CHAR_CR # CHAR_LF # s"
    by (simp add: off_def)
  have pc: "ParseContentLength \<lparr>f_nState = STATE_CLEN, f_nContentLength = 0, f_nOffset = 0,
        f_bGotBodyStart = False, f_objMessageBuffer = h @ s, f_bOverrun = False\<rparr> =
      \<lparr>f_nState = STATE_BODY, f_nContentLength = n, f_nOffset = int off, f_bGotBodyStart = False,
       f_objMessageBuffer = h @ s, f_bOverrun = False\<rparr>"
    by (subst ParseContentLength_head [OF h start hs cl hs2]) (simp_all only: off, simp_all)
  have len: "length h = off + 5 + length (text_lines hs2)" using tl(2) by (cases cl) (simp_all add: h off_def pre_def)
  have pb: "ParseMessageBody \<lparr>f_nState = STATE_BODY, f_nContentLength = n, f_nOffset = int off,
        f_bGotBodyStart = False, f_objMessageBuffer = h @ s, f_bOverrun = False\<rparr> =
      \<lparr>f_nState = (if n \<le> int (length s) then STATE_DONE else STATE_BODY), f_nContentLength = n,
       f_nOffset = int (length h) + (if n \<le> int (length s) then n else 0), f_bGotBodyStart = True,
       f_objMessageBuffer = h @ s, f_bOverrun = False\<rparr>"
    by (subst ParseMessageBody_found [where r = "length s", OF body_scan_head [OF tl(1) hs2, of s, folded drop]])
      (simp_all add: len)
  show ?thesis using hne by (simp add: CheckCompleteMessage_def IsEmpty_framing_def pc pb)
qed

subsection \<open>The receive loop\<close>

text \<open>
  The framing between two calls: nothing is kept, or a message whose header part has been read
  and whose body is not complete.
\<close>

definition incomplete :: "string \<Rightarrow> int \<Rightarrow> string \<Rightarrow> bool" where
  "incomplete h n part \<longleftrightarrow> message_head n h \<and> int (length part) < n"

abbreviation in_body :: "int \<Rightarrow> string \<Rightarrow> string \<Rightarrow> SipMessageFraming" where
  "in_body n h part \<equiv> \<lparr>f_nState = STATE_BODY, f_nContentLength = n, f_nOffset = int (length h),
     f_bGotBodyStart = True, f_objMessageBuffer = h @ part, f_bOverrun = False\<rparr>"

definition awaits :: "SipMessageFraming \<Rightarrow> string \<Rightarrow> bool" where
  "awaits f kept \<longleftrightarrow> kept = [] \<and> f = SipMessageFraming_init \<or>
     (\<exists>h n part. kept = h @ part \<and> incomplete h n part \<and> f = in_body n h part)"

text \<open>Messages one after the other, each with white space behind it.\<close>

definition message_stream :: "(string \<times> string) list \<Rightarrow> string" where
  "message_stream xs = concat (map (\<lambda>(m, space). m @ space) xs)"

lemma message_head_hd: "message_head n h \<Longrightarrow> \<exists>c t. h = c # t \<and> \<not> IMS_ISSPACE c"
  by (fastforce simp: message_head_def start_line_def text_line_def neq_Nil_conv)

lemma stream_message_hd: "stream_message m \<Longrightarrow> \<exists>c t. m = c # t \<and> \<not> IMS_ISSPACE c"
  by (force simp: stream_message_def dest: message_head_hd)

lemma awaits_kept: "awaits f kept \<Longrightarrow> kept = [] \<or> (\<exists>c t. kept = c # t \<and> \<not> IMS_ISSPACE c)"
  by (force simp: awaits_def incomplete_def dest: message_head_hd)

lemma message_stream_simps [simp]:
  "message_stream [] = []" "message_stream ((m, sp) # xs) = m @ sp @ message_stream xs"
  by (simp_all add: message_stream_def)

lemma stream_hd:
  assumes "\<forall>(m, sp)\<in>set xs. stream_message m" and "awaits f kept"
  shows "message_stream xs @ kept = [] \<or> (\<exists>c t. message_stream xs @ kept = c # t \<and> \<not> IMS_ISSPACE c)"
  using assms awaits_kept [OF assms(2)] by (cases xs) (auto dest: stream_message_hd)

lemma UpdateState_next:
  assumes "f_nOffset f = int (length m)" and "f_objMessageBuffer f = m @ sp @ s" and "\<not> f_bOverrun f"
    and "\<forall>c\<in>set sp. IMS_ISSPACE c" and "s = [] \<or> (\<exists>c t. s = c # t \<and> \<not> IMS_ISSPACE c)"
  shows "UpdateState f = (if s = [] then SipMessageFraming_init else fresh s)"
proof -
  have "dropWhile IMS_ISSPACE (sp @ s) = s" using assms(4,5) by (auto simp: dropWhile_append3)
  moreover have "(if int (length (m @ sp @ s)) > int (length m) then drop (nat (int (length m))) (m @ sp @ s)
      else if int (length (m @ sp @ s)) = int (length m) then [] else m @ sp @ s) = sp @ s"
    by (cases sp; cases s) auto
  ultimately show ?thesis
    unfolding UpdateState_def Let_def assms(1,2) by (simp only:) (simp add: SipMessageFraming_init_def assms(3))
qed

lemma IgnoreCrlf_text:
  "f_objMessageBuffer f = [] \<or> (\<exists>c t. f_objMessageBuffer f = c # t \<and> \<not> IMS_ISSPACE c) \<Longrightarrow>
   IgnoreCrlf f = (False, f)"
  by (auto simp: IgnoreCrlf_def IMS_ISSPACE_def char_val_def numeral_2_eq_2)

lemma deliver_loop_empty: "deliver_loop SipMessageFraming_init d = Some (d, SipMessageFraming_init)"
  by (subst deliver_loop.simps) (simp add: CheckCompleteMessage_def IsEmpty_framing_def SipMessageFraming_init_def)

text \<open>All complete messages are handed on, in order, and the incomplete one is kept.\<close>

lemma deliver_loop_stream:
  assumes "\<forall>(m, sp)\<in>set xs. stream_message m \<and> (\<forall>c\<in>set sp. IMS_ISSPACE c)" and "awaits g kept"
  shows "deliver_loop (if message_stream xs @ kept = [] then SipMessageFraming_init else fresh (message_stream xs @ kept)) d =
    Some (d @ map fst xs, g)"
  using assms(1)
proof (induction xs arbitrary: d)
  case Nil
  show ?case
  proof (cases "kept = []")
    case True
    then have "g = SipMessageFraming_init" using assms(2) by (auto simp: awaits_def incomplete_def message_head_def)
    then show ?thesis using True by (simp add: deliver_loop_empty)
  next
    case False
    then obtain h n part where k: "kept = h @ part" "incomplete h n part" "g = in_body n h part"
      using assms(2) by (auto simp: awaits_def)
    then have "deliver_loop (fresh kept) d = Some (d, g)"
      using CheckCompleteMessage_head [of n h part]
      by (subst deliver_loop.simps) (simp add: incomplete_def Let_def)
    then show ?thesis using False by simp
  qed
next
  case (Cons x xs)
  obtain m sp where x: "x = (m, sp)" by (cases x)
  obtain h body where m: "m = h @ body" "message_head (int (length body)) h"
    using Cons.prems by (auto simp: x stream_message_def)
  let ?s = "message_stream xs @ kept"
  let ?f = "\<lparr>f_nState = STATE_DONE, f_nContentLength = int (length body), f_nOffset = int (length m),
     f_bGotBodyStart = True, f_objMessageBuffer = m @ sp @ ?s, f_bOverrun = False\<rparr>"
  have c: "CheckCompleteMessage (fresh (m @ sp @ ?s)) = (True, ?f)"
    using CheckCompleteMessage_head [OF m(2), of "body @ sp @ ?s"] by (simp add: m(1))
  have ne: "m \<noteq> []" using m message_head_hd by auto
  have g: "GetCompleteMessage ?f = Some m" using ne by (simp add: GetCompleteMessage_def IsEmpty_framing_def)
  have s: "?s = [] \<or> (\<exists>c t. ?s = c # t \<and> \<not> IMS_ISSPACE c)"
    by (rule stream_hd [OF _ assms(2)]) (use Cons.prems in auto)
  have u: "UpdateState ?f = (if ?s = [] then SipMessageFraming_init else fresh ?s)"
    by (rule UpdateState_next [where sp = sp]) (use Cons.prems s in \<open>simp_all add: x\<close>)
  have "deliver_loop (fresh (m @ sp @ ?s)) d = deliver_loop (UpdateState ?f) (d @ [m])"
    by (subst deliver_loop.simps) (simp only: c g Let_def fst_conv snd_conv, simp)
  then show ?case using Cons ne unfolding u by (simp add: x)
qed

text \<open>Where the body was cut does not matter: the loop goes on as if the bytes had come together.\<close>

lemma deliver_loop_in_body:
  assumes "incomplete h n part"
  shows "deliver_loop (in_body n h (part @ s)) d = deliver_loop (fresh (h @ part @ s)) d"
proof -
  have "h \<noteq> []" using assms message_head_hd by (auto simp: incomplete_def)
  then have "CheckCompleteMessage (in_body n h (part @ s)) = CheckCompleteMessage (fresh (h @ part @ s))"
    using CheckCompleteMessage_head [of n h "part @ s"] assms
    by (auto simp: incomplete_def CheckCompleteMessage_def IsEmpty_framing_def ParseMessageBody_def Let_def)
  then show ?thesis by (subst (1 2) deliver_loop.simps) simp
qed

lemma AppendPacket_buffer:
  "snd (AppendPacket x f) = (if x = [] then f else
     f\<lparr>f_objMessageBuffer := f_objMessageBuffer f @ x,
       f_nState := (if f_nState f = STATE_IDLE then STATE_CREATED else f_nState f)\<rparr>)"
  by (simp add: AppendPacket_def IsEmpty_framing_def Let_def)

lemma append_packets:
  "fold (\<lambda>x f. snd (AppendPacket x f)) packets f = snd (AppendPacket (concat packets) f)"
proof (induction packets arbitrary: f)
  case (Cons x packets)
  then show ?case by (simp only: fold_Cons comp_apply concat.simps) (simp add: AppendPacket_buffer)
qed (simp add: AppendPacket_buffer)

text \<open>One call of the receive loop: the kept bytes and the packets are a stream of messages.\<close>

lemma Socket_OnDataReceived_stream:
  assumes "awaits f kept" and "awaits g kept'"
    and xs: "\<forall>(m, sp)\<in>set xs. stream_message m \<and> (\<forall>c\<in>set sp. IMS_ISSPACE c)"
    and stream: "kept @ concat packets = message_stream xs @ kept'"
  shows "Socket_OnDataReceived packets f = Some (map fst xs, False, g)"
proof -
  let ?s = "message_stream xs @ kept'" and ?x = "concat packets"
  let ?f = "fold (\<lambda>packet f. snd (AppendPacket packet f)) packets f"
  note f = append_packets [of packets f] AppendPacket_buffer [of ?x f]
  have loop: "deliver_loop (if ?s = [] then SipMessageFraming_init else fresh ?s) d = Some (d @ map fst xs, g)" for d
    by (rule deliver_loop_stream [OF xs assms(2)])
  have buf: "f_objMessageBuffer ?f = ?s" "f_objMessageBuffer f = kept"
    using assms(1) stream unfolding f by (auto simp: awaits_def SipMessageFraming_init_def simp del: concat_eq_Nil_conv)
  have s: "?s = [] \<or> (\<exists>c t. ?s = c # t \<and> \<not> IMS_ISSPACE c)"
    by (rule stream_hd [OF _ assms(2)]) (use xs in auto)
  then have crlf: "IgnoreCrlf ?f = (False, ?f)"
    by (intro IgnoreCrlf_text) (simp add: buf)
  show ?thesis
  proof (cases "?s = []")
    case True
    then have "xs = []" using xs by (cases xs) (auto dest: stream_message_hd)
    moreover have "g = ?f"
      using loop [of "[]"] True stream assms(1) unfolding f
      by (auto simp: deliver_loop_empty awaits_def incomplete_def message_head_def simp del: concat_eq_Nil_conv)
    ultimately show ?thesis
      using True by (simp add: Socket_OnDataReceived_def crlf IsEmpty_framing_def buf)
  next
    case False
    have "deliver_loop ?f [] = deliver_loop (fresh ?s) []"
      using assms(1) unfolding awaits_def
    proof (elim disjE exE conjE)
      fix h n part assume k: "kept = h @ part" "incomplete h n part" "f = in_body n h part"
      then have "?f = in_body n h (part @ ?x)" unfolding f by simp
      then show ?thesis using deliver_loop_in_body [OF k(2), of ?x "[]"] stream k(1) by simp
    next
      assume "kept = []" "f = SipMessageFraming_init"
      then have "?f = fresh ?s" using False stream unfolding f by (simp add: SipMessageFraming_init_def)
      then show ?thesis by simp
    qed
    then show ?thesis
      using False loop [of "[]"]
      by (simp only: Socket_OnDataReceived_def crlf IsEmpty_framing_def Let_def prod.case) (auto simp: buf)
  qed
qed

subsection \<open>A negative Content-Length\<close>

text \<open>A length that leads back to the start, or before it: the loop never ends.\<close>

lemma negative_length_step:
  assumes "message_head n h" and "n \<le> - int (length h)"
  obtains f where "CheckCompleteMessage (fresh (h @ s)) = (True, f)" "GetCompleteMessage f = Some []"
    "UpdateState f = fresh (h @ s)"
proof
  obtain c t where hd: "h = c # t" "\<not> IMS_ISSPACE c" using message_head_hd [OF assms(1)] by auto
  let ?f = "\<lparr>f_nState = STATE_DONE, f_nContentLength = n, f_nOffset = int (length h) + n,
     f_bGotBodyStart = True, f_objMessageBuffer = h @ s, f_bOverrun = False\<rparr>"
  show "CheckCompleteMessage (fresh (h @ s)) = (True, ?f)"
    using CheckCompleteMessage_head [OF assms(1), of s] assms(2) by simp
  show "GetCompleteMessage ?f = Some []" using assms(2) hd by (simp add: GetCompleteMessage_def IsEmpty_framing_def)
  show "UpdateState ?f = fresh (h @ s)" using assms(2) hd by (simp add: UpdateState_def Let_def)
qed

lemma deliver_loop_stuck:
  assumes "message_head n h" and "n \<le> - int (length h)"
  shows "deliver_loop (fresh (h @ s)) d = None"
proof -
  obtain g where g: "CheckCompleteMessage (fresh (h @ s)) = (True, g)" "GetCompleteMessage g = Some []"
    "UpdateState g = fresh (h @ s)"
    using negative_length_step [OF assms] by metis
  have "f \<noteq> fresh (h @ s)" if "deliver_loop f d = Some y" for f d y
  proof (rule deliver_loop.raw_induct [where P = "\<lambda>f d y. f \<noteq> fresh (h @ s)", OF _ that])
    fix dl f d y
    assume ih: "\<And>f d y. dl f d = Some y \<Longrightarrow> f \<noteq> fresh (h @ s)"
      and run: "(let r = CheckCompleteMessage f; f = snd r
        in if \<not> fst r then Some (d, f) else if GetCompleteMessage f = None then Some (d, f)
           else dl (UpdateState f) (d @ [the (GetCompleteMessage f)])) = Some (y :: string list \<times> SipMessageFraming)"
    show "f \<noteq> fresh (h @ s)"
    proof
      assume "f = fresh (h @ s)"
      with run have "dl (fresh (h @ s)) (d @ [[]]) = Some y" by (simp add: g Let_def)
      then show False using ih by blast
    qed
  qed
  then show ?thesis by (cases "deliver_loop (fresh (h @ s)) d") auto
qed

lemma Socket_OnDataReceived_stuck:
  assumes "message_head n h" and "n \<le> - int (length h)" and "concat packets = h @ s"
  shows "Socket_OnDataReceived packets SipMessageFraming_init = None"
proof -
  let ?f = "fold (\<lambda>packet f. snd (AppendPacket packet f)) packets SipMessageFraming_init"
  obtain c t where hd: "h = c # t" "\<not> IMS_ISSPACE c" using message_head_hd [OF assms(1)] by auto
  have f: "?f = fresh (h @ s)"
    unfolding append_packets assms(3) using hd by (simp add: AppendPacket_buffer SipMessageFraming_init_def)
  have "IgnoreCrlf (fresh (h @ s)) = (False, fresh (h @ s))"
    using hd by (intro IgnoreCrlf_text) simp
  then show ?thesis
    using hd deliver_loop_stuck [OF assms(1,2), of s "[]"]
    by (simp add: Socket_OnDataReceived_def f IsEmpty_framing_def)
qed

end
