(* ===== verification/Sip_Bounds.thy ===== *)
theory Sip_Bounds
  imports Sip_Framing
begin

text \<open>
  The well-formed states of the framing of \<open>Sip_Framing\<close>: its offset lies in the buffer, and its
  fields fit its state. Every operation keeps them, with one exception (\<open>IgnoreCrlf\<close>).
\<close>

definition framing_wf :: "SipMessageFraming \<Rightarrow> bool" where
  "framing_wf f \<longleftrightarrow>
     \<not> f_bOverrun f \<and> 0 \<le> f_nOffset f \<and> f_nOffset f \<le> int (length (f_objMessageBuffer f)) \<and>
     f_nState f \<noteq> STATE_DONE \<and> (f_bGotBodyStart f \<longrightarrow> f_nState f = STATE_BODY) \<and>
     (f_nState f = STATE_IDLE \<longrightarrow> f_objMessageBuffer f = []) \<and>
     (f_nState f \<in> {STATE_IDLE, STATE_CREATED} \<longrightarrow> f_nOffset f = 0 \<and> f_nContentLength f = 0)"

text \<open>A complete message: only the end of the message may lie before the buffer.\<close>

definition framing_complete :: "SipMessageFraming \<Rightarrow> bool" where
  "framing_complete f \<longleftrightarrow>
     \<not> f_bOverrun f \<and> f_nOffset f \<le> int (length (f_objMessageBuffer f)) \<and> f_nState f = STATE_DONE"

lemma framing_wf_init: "framing_wf SipMessageFraming_init"
  by (simp add: framing_wf_def SipMessageFraming_init_def)

subsection \<open>The header part\<close>

lemma find_crlfcrlf_some: "find_crlfcrlf p = Some i \<Longrightarrow> i + 4 \<le> length p"
proof (induction p arbitrary: i)
  case (Cons c p)
  show ?case
  proof (cases "take 4 (c # p) = STR_CRLFCRLF")
    case True
    then have "length (take 4 (c # p)) = 4" by simp
    then show ?thesis using True Cons.prems by (auto simp: min_def split: if_splits)
  next
    case False
    then show ?thesis using Cons by auto
  qed
qed simp

lemma find_crlfcrlf_bound: "find_crlfcrlf (c_string p) = Some i \<Longrightarrow> i + 4 \<le> length p"
  using find_crlfcrlf_some length_takeWhile_le le_trans unfolding c_string_def by blast

lemma header_name_start: "header_name hs cur p = (hs', cur') \<Longrightarrow> hs \<le> cur \<Longrightarrow> hs' \<le> cur'"
  by (induction hs cur p rule: header_name.induct) (auto split: if_splits)

text \<open>What the loop may change: the offset, inside the text, and with the length the state.\<close>

lemma clen_loop_result:
  obtains o' c where "0 \<le> o'" "o' \<le> int (pos + length p)"
    "clen_loop p pos f = f\<lparr>f_nOffset := o'\<rparr> \<or>
     clen_loop p pos f = f\<lparr>f_nContentLength := c, f_nOffset := o', f_nState := STATE_BODY\<rparr>"
proof -
  have "\<exists>o' c. 0 \<le> o' \<and> o' \<le> int (pos + length p) \<and>
    (clen_loop p pos f = f\<lparr>f_nOffset := o'\<rparr> \<or>
     clen_loop p pos f = f\<lparr>f_nContentLength := c, f_nOffset := o', f_nState := STATE_BODY\<rparr>)"
  proof (induction p pos f rule: clen_loop.induct)
    case (1 p pos f)
    obtain hs cur where hn: "header_name 0 0 p = (hs, cur)" by (cases "header_name 0 0 p")
    have b: "cur \<le> length p" "hs \<le> cur" using header_name_start [OF hn] header_name_bounds [OF hn] by simp_all
    obtain k off where le: "line_end (drop cur p) = (k, off)" by (cases "line_end (drop cur p)")
    have k: "cur + k \<le> length p" using line_end_bounds [OF le] b(1) by (simp; arith)
    let ?st = "StripLeadingLWS (take (cur - hs) (drop hs p))"
    show ?case
    proof (cases "cur < length p \<and> \<not> is_content_length (StripTrailingLWS ?st) \<and> cur + k < length p")
      case True
      have "\<exists>o' c. 0 \<le> o' \<and> o' \<le> int (pos + cur + k + length (drop (cur + k) p)) \<and>
        (clen_loop (drop (cur + k) p) (pos + cur + k) f = f\<lparr>f_nOffset := o'\<rparr> \<or>
         clen_loop (drop (cur + k) p) (pos + cur + k) f =
           f\<lparr>f_nContentLength := c, f_nOffset := o', f_nState := STATE_BODY\<rparr>)"
        by (rule 1 [OF hn [symmetric] refl _ refl refl le [symmetric] refl]) (use True in \<open>auto simp: not_le\<close>)
      moreover have "clen_loop p pos f = clen_loop (drop (cur + k) p) (pos + cur + k) f"
        using True by (subst clen_loop.simps) (simp add: hn le Let_def)
      ultimately show ?thesis using True by simp
    next
      case False
      have "clen_loop p pos f =
        (if cur \<ge> length p then f\<lparr>f_nOffset := int (pos + hs)\<rparr>
         else if cur + k \<ge> length p then f\<lparr>f_nOffset := int (pos + (cur - length ?st))\<rparr>
         else f\<lparr>f_nContentLength :=
             fst (AString_ToInt32 (StripTrailingLWS (StripLeadingLWS (take (k - off) (drop (cur + 1) p)))) 10),
             f_nOffset := int (pos + cur + k - off), f_nState := STATE_BODY\<rparr>)"
        using False by (subst clen_loop.simps) (auto simp: hn le Let_def)
      then consider "clen_loop p pos f = f\<lparr>f_nOffset := int (pos + hs)\<rparr>"
        | "clen_loop p pos f = f\<lparr>f_nOffset := int (pos + (cur - length ?st))\<rparr>"
        | c where "clen_loop p pos f =
            f\<lparr>f_nContentLength := c, f_nOffset := int (pos + cur + k - off), f_nState := STATE_BODY\<rparr>"
        by (meson)
      then show ?thesis
      proof cases
        case 1 then show ?thesis using b by (intro exI [of _ "int (pos + hs)"]) simp
      next
        case 2 then show ?thesis using b by (intro exI [of _ "int (pos + (cur - length ?st))"]) simp
      next
        case (3 c) then show ?thesis using k by (intro exI [of _ "int (pos + cur + k - off)"] exI [of _ c]) simp
      qed
    qed
  qed
  then show ?thesis using that by blast
qed

lemma ParseContentLength_result:
  assumes "framing_wf f" and "f_nState f = STATE_CLEN"
  obtains o' c where "0 \<le> o'" "o' \<le> int (length (f_objMessageBuffer f))"
    "ParseContentLength f = f\<lparr>f_nOffset := o'\<rparr> \<or>
     ParseContentLength f = f\<lparr>f_nContentLength := c, f_nOffset := o', f_nState := STATE_BODY\<rparr>"
proof -
  define start where "start = nat (f_nOffset f)"
  have off: "f_nOffset f = int start" "start \<le> length (f_objMessageBuffer f)"
    using assms by (auto simp: framing_wf_def start_def)
  define p where "p = drop start (f_objMessageBuffer f)"
  define blanks where "blanks = length (takeWhile IMS_ISSPACE p)"
  define pEnd where "pEnd = (case find_crlfcrlf (c_string (drop blanks p)) of None \<Rightarrow> length p | Some i \<Rightarrow> blanks + i + 4)"
  have len: "start + length (take pEnd p) \<le> length (f_objMessageBuffer f)"
    using off(2) by (simp add: p_def)
  define skip where "skip = blanks + length (takeWhile (\<lambda>c. c \<in> {CHAR_CR, CHAR_LF, CHAR_SP, CHAR_HTAB}) (drop blanks (take pEnd p)))"
  define cur where "cur = (if f_nOffset f = 0 then skip + fst (line_end (drop skip (take pEnd p))) else blanks)"
  have eq: "ParseContentLength f =
    (if f_nOffset f > int (length (f_objMessageBuffer f)) then f\<lparr>f_bOverrun := True\<rparr>
     else if pEnd = 0 then f
     else if f_nOffset f = 0 \<and> skip \<ge> pEnd then f
     else if cur \<ge> pEnd then f\<lparr>f_nOffset := int (start + pEnd)\<rparr>
     else clen_loop (drop cur (take pEnd p)) (start + cur) f)"
    unfolding ParseContentLength_def Let_def cur_def skip_def pEnd_def blanks_def p_def start_def by (rule refl)
  have pEnd: "pEnd \<le> length p"
    unfolding pEnd_def using find_crlfcrlf_bound [of "drop blanks p"] by (auto simp: blanks_def split: option.splits)
  obtain o' c where loop: "0 \<le> o'" "o' \<le> int (start + cur + length (drop cur (take pEnd p)))"
    "clen_loop (drop cur (take pEnd p)) (start + cur) f = f\<lparr>f_nOffset := o'\<rparr> \<or>
     clen_loop (drop cur (take pEnd p)) (start + cur) f =
       f\<lparr>f_nContentLength := c, f_nOffset := o', f_nState := STATE_BODY\<rparr>"
    by (rule clen_loop_result)
  consider "ParseContentLength f = f" | "ParseContentLength f = f\<lparr>f_nOffset := int (start + pEnd)\<rparr>"
    | "cur < pEnd" "ParseContentLength f = clen_loop (drop cur (take pEnd p)) (start + cur) f"
  proof -
    have no: "\<not> f_nOffset f > int (length (f_objMessageBuffer f))" using off by simp
    show "thesis" if "ParseContentLength f = f \<Longrightarrow> thesis"
      "ParseContentLength f = f\<lparr>f_nOffset := int (start + pEnd)\<rparr> \<Longrightarrow> thesis"
      "cur < pEnd \<Longrightarrow> ParseContentLength f = clen_loop (drop cur (take pEnd p)) (start + cur) f \<Longrightarrow> thesis"
      using that eq [unfolded if_not_P [OF no]] by (cases "pEnd = 0 \<or> f_nOffset f = 0 \<and> skip \<ge> pEnd"; cases "cur \<ge> pEnd") auto
  qed
  then show ?thesis
  proof cases
    case 1 then show ?thesis using that [of "f_nOffset f"] off by simp
  next
    case 2 then show ?thesis using that [of "int (start + pEnd)"] pEnd off by (simp add: p_def)
  next
    case 3 then show ?thesis using that [of o' c] loop len pEnd by simp
  qed
qed

subsection \<open>The body and the operations\<close>

lemma body_scan_bound: "body_scan p = (k, b) \<Longrightarrow> k \<le> length p"
proof (induction p arbitrary: k b)
  case (Cons c p)
  then show ?case
    by (subst (asm) body_scan.simps) (auto split: if_splits prod.splits)
qed (simp add: body_scan.simps)

lemma ParseMessageBody_result:
  assumes "framing_wf f" and "f_nState f = STATE_BODY"
  shows "framing_wf (ParseMessageBody f) \<or> framing_complete (ParseMessageBody f)"
proof -
  define n where "n = nat (f_nOffset f)"
  have n: "f_nOffset f = int n" "n \<le> length (f_objMessageBuffer f)" using assms(1) by (auto simp: framing_wf_def n_def)
  obtain k b where kb: "(if f_bGotBodyStart f then (0, False) else body_scan (drop n (f_objMessageBuffer f))) = (k, b)"
    by (cases "if f_bGotBodyStart f then (0, False) else body_scan (drop n (f_objMessageBuffer f))")
  then have k: "n + k \<le> length (f_objMessageBuffer f)"
    using body_scan_bound [of "drop n (f_objMessageBuffer f)"] n(2) by (fastforce split: if_splits)
  show ?thesis
    using assms k n(2)
    by (auto simp: ParseMessageBody_def n(1) kb Let_def framing_wf_def framing_complete_def)
qed

lemma CheckCompleteMessage_wf:
  assumes "framing_wf f" and "CheckCompleteMessage f = (done, g)"
  shows "if done then framing_complete g else framing_wf g"
proof (cases "f_objMessageBuffer f = []")
  case True
  then show ?thesis using assms by (auto simp: CheckCompleteMessage_def IsEmpty_framing_def)
next
  case False
  define f1 where "f1 = (if f_nState f = STATE_CREATED then f\<lparr>f_nState := STATE_CLEN\<rparr> else f)"
  have wf1: "framing_wf f1" using assms(1) False by (auto simp: f1_def framing_wf_def)
  define f2 where "f2 = (if f_nState f1 = STATE_CLEN then ParseContentLength f1 else f1)"
  have wf2: "framing_wf f2"
  proof (cases "f_nState f1 = STATE_CLEN")
    case True
    obtain o' c where "0 \<le> o'" "o' \<le> int (length (f_objMessageBuffer f1))"
      "ParseContentLength f1 = f1\<lparr>f_nOffset := o'\<rparr> \<or>
       ParseContentLength f1 = f1\<lparr>f_nContentLength := c, f_nOffset := o', f_nState := STATE_BODY\<rparr>"
      by (rule ParseContentLength_result [OF wf1 True])
    then show ?thesis using wf1 True by (auto simp: f2_def framing_wf_def)
  qed (simp add: f2_def wf1)
  define f3 where "f3 = (if f_nState f2 = STATE_BODY then ParseMessageBody f2 else f2)"
  have wf3: "framing_wf f3 \<or> framing_complete f3"
    using ParseMessageBody_result [OF wf2] wf2 by (auto simp: f3_def)
  have "done = (f_nState f3 = STATE_DONE)" "g = f3"
    using assms(2) False
    by (auto simp: CheckCompleteMessage_def IsEmpty_framing_def Let_def f3_def f2_def f1_def)
  then show ?thesis using wf3 by (auto simp: framing_wf_def framing_complete_def)
qed

lemma UpdateState_wf: "framing_complete f \<Longrightarrow> framing_wf (UpdateState f)"
  by (auto simp: framing_complete_def framing_wf_def UpdateState_def Let_def)

lemma AppendPacket_wf: "framing_wf f \<Longrightarrow> framing_wf (snd (AppendPacket packet f))"
  by (auto simp: framing_wf_def AppendPacket_def IsEmpty_framing_def Let_def)

lemma IgnoreCrlf_wf:
  "framing_wf f \<Longrightarrow> f_nOffset f = 0 \<or> fst (IgnoreCrlf f) = False \<Longrightarrow> framing_wf (snd (IgnoreCrlf f))"
  by (auto simp: framing_wf_def IgnoreCrlf_def)

end
