(* ===== verification/Stream_Properties.thy ===== *)
theory Stream_Properties
  imports Sip_Delivery Sip_Bounds
begin

text \<open>
  Properties of the framing of messages on a stream. The witnesses use a short request whose
  Content-Length is given in compact form.
\<close>

definition some_head :: "string \<Rightarrow> string" where
  "some_head val = text_lines ([''INVITE a''] @ [''Via: b''] @ [''l:'' @ val] @ [''To: c'']) @ CRLF"

lemma some_other_header: "other_header ''Via: b''"
  unfolding other_header_def header_line_def
  by (intro conjI exI [of _ "''Via''"] exI [of _ "'' b''"]; code_simp)

lemma some_message_head:
  assumes "text_line (''l:'' @ val)" and "fst (AString_ToInt32 (strip val) 10) = n"
  shows "message_head n (some_head val)"
proof -
  have "is_content_length (strip ''l'')" by code_simp
  then have "length_header n (''l:'' @ val)"
    using assms unfolding length_header_def header_line_def
    by (intro conjI exI [of _ "''l''"] exI [of _ val]) simp_all
  moreover have "start_line ''INVITE a''" "text_line ''To: c''" by code_simp+
  ultimately show ?thesis
    unfolding message_head_def some_head_def
    by (intro exI [of _ "''INVITE a''"] exI [of _ "[''Via: b'']"] exI [of _ "''l:'' @ val"]
        exI [of _ "[''To: c'']"]) (simp add: some_other_header del: text_lines_simps)
qed

lemma some_lengths:
  "message_head 2 (some_head ''2'')" "message_head 3 (some_head '' 3 '')" "message_head (- 99) (some_head ''-99'')"
  by (rule some_message_head; code_simp)+

subsection \<open>Delivery\<close>

text \<open>C21: What one receive call delivers. The framing keeps the beginning of a message whose
  header part is complete, or nothing. The kept bytes followed by the packets of the call are
  messages (each with white space behind it) and possibly the beginning of one more; then
  exactly those messages are handed to the listener, byte for byte, in order, the call ends, and
  the framing keeps exactly that beginning. So it does not matter how the bodies were cut into
  packets and calls, or how many messages one packet holds.\<close>

theorem receive_call_delivers:
  assumes "awaits f kept" and "awaits g kept'"
    and "\<forall>(m, sp)\<in>set xs. stream_message m \<and> (\<forall>c\<in>set sp. IMS_ISSPACE c)"
    and "kept @ concat packets = message_stream xs @ kept'"
  shows "Socket_OnDataReceived packets f = Some (map fst xs, False, g)"
  by (rule Socket_OnDataReceived_stream [OF assms])

theorem receive_call_delivers_witness:
  "Socket_OnDataReceived [''ab'' @ CRLF @ some_head ''2'', ''cd'' @ some_head '' 3 '', ''ef'']
     (in_body 2 (some_head ''2'') []) =
   Some ([some_head ''2'' @ ''ab'', some_head ''2'' @ ''cd''], False, in_body 3 (some_head '' 3 '') ''ef'')"
proof -
  let ?xs = "[(some_head ''2'' @ ''ab'', CRLF), (some_head ''2'' @ ''cd'', [])]"
  have m: "stream_message (some_head ''2'' @ body)" if "length body = 2" for body
    unfolding stream_message_def using some_lengths(1) that by (intro exI [of _ "some_head ''2''"] exI [of _ body]) simp
  have xs: "\<forall>(m, sp)\<in>set ?xs. stream_message m \<and> (\<forall>c\<in>set sp. IMS_ISSPACE c)"
    using m [of "''ab''"] m [of "''cd''"] by (simp add: IMS_ISSPACE_def char_val_def)
  have f: "awaits (in_body 2 (some_head ''2'') []) (some_head ''2'')"
    unfolding awaits_def incomplete_def using some_lengths(1)
    by (intro disjI2 exI [of _ "some_head ''2''"] exI [of _ 2] exI [of _ "[]"]) simp
  have g: "awaits (in_body 3 (some_head '' 3 '') ''ef'') (some_head '' 3 '' @ ''ef'')"
    unfolding awaits_def incomplete_def using some_lengths(2)
    by (intro disjI2 exI [of _ "some_head '' 3 ''"] exI [of _ 3] exI [of _ "''ef''"]) simp
  have "some_head ''2'' @ concat [''ab'' @ CRLF @ some_head ''2'', ''cd'' @ some_head '' 3 '', ''ef''] =
      message_stream ?xs @ (some_head '' 3 '' @ ''ef'')"
    by simp
  from receive_call_delivers [OF f g xs this] show ?thesis by (simp only: list.map fst_conv)
qed

subsection \<open>Where the loop or the message is lost\<close>

text \<open>C22: A header part that claims a negative length no smaller in size than itself makes the
  receive call run for ever: the message is "complete" with no bytes, the listener gets an empty
  message, nothing is removed, and the same header part is found again. The bytes that follow do
  not matter.\<close>

theorem negative_length_never_returns:
  assumes "message_head n h" and "n \<le> - int (length h)" and "concat packets = h @ s"
  shows "Socket_OnDataReceived packets SipMessageFraming_init = None"
  by (rule Socket_OnDataReceived_stuck [OF assms])

theorem negative_length_never_returns_witness:
  "Socket_OnDataReceived [some_head ''-99'' @ ''x''] SipMessageFraming_init = None"
proof -
  have "(- 99 :: int) \<le> - int (length (some_head ''-99''))" by (simp add: some_head_def)
  then show ?thesis
    using negative_length_never_returns [OF some_lengths(3), of "[some_head ''-99'' @ ''x'']" "''x''"] by simp
qed

text \<open>
  A start line that is cut: the rest of it is taken for a header line. For a \<open>tel:\<close> address cut
  before its \<open>l\<close>, that is a compact Content-Length, and the message is handed on without its body.
\<close>

abbreviation tel_rest :: string where
  "tel_rest \<equiv> ''l:+1 SIP/2.0'' @ CRLF @ ''l:2'' @ CRLF @ CRLF"

lemma cut_start_line_loses_body:
  "Socket_OnDataReceived [''INVITE te'' @ tel_rest @ ''ab''] SipMessageFraming_init =
     Some ([''INVITE te'' @ tel_rest @ ''ab''], False, SipMessageFraming_init)"
  "Socket_OnDataReceived [tel_rest @ ''ab''] (snd (snd (the (Socket_OnDataReceived [''INVITE te''] SipMessageFraming_init)))) =
     Some ([''INVITE te'' @ tel_rest], False,
       \<lparr>f_nState = STATE_CLEN, f_nContentLength = 0, f_nOffset = 2, f_bGotBodyStart = False,
        f_objMessageBuffer = ''ab'', f_bOverrun = False\<rparr>)"
  by code_simp+

subsection \<open>The buffer\<close>

text \<open>C29: The well-formed states of the framing. The initial state is one, and whatever bytes
  arrive, negative and overflowing lengths included, every operation keeps it one: its offset stays in
  the buffer, its flags fit its state, and no byte behind the buffer is read. When a message is
  complete, \<open>UpdateState\<close> restores a well-formed state even if its end lies before the buffer. The
  only exception is a CR LF that \<open>IgnoreCrlf\<close> takes from the buffer while the offset is not 0.\<close>

theorem framing_stays_well_formed:
  assumes "framing_wf f" and "CheckCompleteMessage f = (done, g)"
  shows "framing_wf SipMessageFraming_init \<and> framing_wf (snd (AppendPacket packet f)) \<and>
    (if done then framing_complete g \<and> framing_wf (UpdateState g) else framing_wf g) \<and>
    (f_nOffset f = 0 \<or> \<not> fst (IgnoreCrlf f) \<longrightarrow> framing_wf (snd (IgnoreCrlf f)))"
  using framing_wf_init AppendPacket_wf [OF assms(1)] CheckCompleteMessage_wf [OF assms] UpdateState_wf [of g]
    IgnoreCrlf_wf [OF assms(1)]
  by (auto split: if_splits)

theorem framing_stays_well_formed_witness:
  "framing_wf SipMessageFraming_init \<and> framing_wf (snd (AppendPacket ''x'' (fresh (''A'' @ CRLF @ ''l:-9'' @ CRLF @ CRLF)))) \<and>
   framing_complete (snd (CheckCompleteMessage (fresh (''A'' @ CRLF @ ''l:-9'' @ CRLF @ CRLF)))) \<and>
   framing_wf (UpdateState (snd (CheckCompleteMessage (fresh (''A'' @ CRLF @ ''l:-9'' @ CRLF @ CRLF))))) \<and>
   framing_wf (snd (IgnoreCrlf (fresh (''A'' @ CRLF @ ''l:-9'' @ CRLF @ CRLF))))"
proof -
  let ?f = "fresh (''A'' @ CRLF @ ''l:-9'' @ CRLF @ CRLF)"
  have "framing_wf ?f" by (simp add: framing_wf_def)
  moreover have "CheckCompleteMessage ?f = (True, snd (CheckCompleteMessage ?f))"
    by (rule prod_eqI; code_simp)
  ultimately show ?thesis
    using framing_stays_well_formed [of ?f True "snd (CheckCompleteMessage ?f)" "''x''"] by simp
qed

text \<open>
  The exception: the second CR LF of a keep-alive ping, kept before a cut start line, is taken away
  by the next call, and the offset then points behind the buffer.
\<close>

lemma ping_before_cut_line_overruns:
  "snd (snd (the (Socket_OnDataReceived [CRLF @ CRLF @ ''INV''] SipMessageFraming_init))) =
     \<lparr>f_nState = STATE_CLEN, f_nContentLength = 0, f_nOffset = 5, f_bGotBodyStart = False,
      f_objMessageBuffer = CRLF @ ''INV'', f_bOverrun = False\<rparr>"
  "f_bOverrun (snd (snd (the (Socket_OnDataReceived [''I'']
     \<lparr>f_nState = STATE_CLEN, f_nContentLength = 0, f_nOffset = 5, f_bGotBodyStart = False,
      f_objMessageBuffer = CRLF @ ''INV'', f_bOverrun = False\<rparr>))))"
  by code_simp+

end
