(* ===== verification/Spec2Isabelle.thy ===== *)
theory Spec2Isabelle
  imports Session_Properties Text_Properties Call_Properties Offer_Properties Data_Properties Machine_Properties Util_Properties Stream_Properties
begin

text \<open>
  A model of the SIP core of the Android IMS stack (\<open>src/native/libimsstack\<close>): its transaction layer
  in full, the call and offer/answer states, the session timer, the framing of streams, headers and
  parameters, and the platform code under them, with the theorems that make it correct.

  \<^bold>\<open>The program.\<close> The native library holds a protocol stack (\<open>protocol/sip\<close>), the engine
  that uses it (\<open>engine\<close>), the enablers above the engine (\<open>enabler\<close>) and the platform
  services under all of them (\<open>platform\<close>). \<open>SipStackManager\<close> passes a message to
  \<open>SipTransportHandler\<close>, which makes its transaction key and looks the transaction up, and to
  \<open>SipTxnHandler\<close>, which creates or finds the \<open>SipTxn\<close> and invokes one of the four state
  machines of RFC 3261; the machines start timers, whose expiry (\<open>SipTransactionTimer\<close>)
  comes back through \<open>SipTxn::CbkTxnTimeout\<close>. The pool of transactions is kept by the engine
  (\<open>engine/sipcore/SipStackState.cpp\<close>) and reached through callbacks. Messages come from a stream
  through \<open>SipStreamSocket\<close> and \<open>SipMessageFraming\<close>, their header lines are decoded by \<open>SipHeaders\<close>
  and read by the engine through \<open>SipStack\<close> and \<open>SipMessage\<close>. A call keeps a \<open>CallState\<close>, an
  \<open>SdpOaState\<close> and a \<open>SessionRefreshHelper\<close>, which follow the messages that are sent and received.
  Strings, numbers, digests and Base64 are those of the platform (\<open>platform/util\<close>).

  \<^bold>\<open>Theories and code: the transaction layer.\<close>
  \<^item> \<open>Prelude\<close>: the types and lemmas every theory shares (words, options, lists).
  \<^item> \<open>Sip_String\<close>: \<open>protocol/sip/platform/SipString.cpp\<close>; a \<open>char*\<close> is a \<open>string option\<close>.
  \<^item> \<open>Ims_Map\<close>: \<open>ImsMap\<close>, \<open>ImsSortedVector\<close> (\<open>platform/interface/util\<close>) as a sorted list of
    pairs, and \<open>AString::GetHashCode\<close>.
  \<^item> \<open>Sip_Message\<close>: the part of \<open>SipMessage\<close>, \<open>SipStatusLine\<close> and the headers that the layer reads.
  \<^item> \<open>Txn_TimerValues\<close>, \<open>Txn_Key\<close>, \<open>Txn_KeyList\<close>: \<open>SipTxnTimerValues\<close>, \<open>SipTxnKey\<close>, \<open>SipTxnUtil\<close>.
  \<^item> \<open>Txn_State\<close>: the record \<open>stack\<close>, that is the heap of \<open>SipTxn\<close> objects with their reference
    counts, the pool, the key list, the running timers, the error cell the operations share,
    what the layer told the outside, and the environment.
  \<^item> \<open>Txn_Pool\<close>: \<open>SipStackState\<close>. \<open>Txn_Object\<close>: \<open>SipTxn\<close> and the callbacks it uses
    (\<open>SipStackTxnLayer.cpp\<close>, \<open>SipStack.cpp\<close>).
  \<^item> \<open>Txn_Fsm\<close>, \<open>Fsm_InvCli\<close>, \<open>Fsm_InvSer\<close>, \<open>Fsm_NonInvCli\<close>, \<open>Fsm_NonInvSer\<close>: one definition per
    handler of the four \<open>SipTxn*Fsm.cpp\<close> files and their tables of function pointers.
  \<^item> \<open>Txn_Timeout\<close>: \<open>SipTxn::InvokeFsm\<close>, \<open>SipTxn::CbkTxnTimeout\<close>, the expiry of a timer.
  \<^item> \<open>Txn_Handler\<close>, \<open>Transp_Handler\<close>, \<open>Stack_Manager\<close>: \<open>SipTxnHandler\<close>, \<open>SipTransportHandler\<close>,
    \<open>SipStackManager\<close>.
  \<^item> \<open>Stack_Invariant\<close>, \<open>Fsm_Invariant\<close>, \<open>Handler_Invariant\<close>, \<open>Manager_Invariant\<close>: the invariant of
    the state and its preservation by every operation, bottom up.
  \<^item> \<open>Stack_System\<close>: the step relation of the whole (calls, expiries, changes of the
    environment), its reachable states, the invariant by rule induction.
  \<^item> \<open>Fsm_Diagram\<close>: the diagrams of RFC 3261, figures 5 to 8, as an abstract step relation,
    and the simulation of the four machines.
  \<^item> \<open>Examples\<close>: concrete runs that the witnesses use.
  \<^item> \<open>Data_Properties\<close>, \<open>Machine_Properties\<close> and this theory: the properties.

  \<^bold>\<open>Theories and code: the platform.\<close>
  \<^item> \<open>Block_Hash\<close>, \<open>Ims_Md5\<close>, \<open>Ims_Sha1\<close>, \<open>Ims_Digest\<close>: the digests (\<open>ImsMd5\<close>, \<open>ImsSha1\<close>) over the buffer
    of a context, \<open>ImsHmac\<close> and \<open>ImsDigest\<close>, against reference definitions on whole messages.
  \<^item> \<open>Ims_Base64\<close>, \<open>Ims_Number\<close>, \<open>Ims_Identity\<close>: Base64, numbers in text, AKA credentials and
    identifiers (\<open>Credential\<close>, \<open>ImsUuid\<close>, \<open>SipUrnHelper\<close>, \<open>SipUtils\<close>).
  \<^item> \<open>Platform_String\<close>, \<open>Platform_Search\<close>, \<open>Platform_Edit\<close>, \<open>Platform_Replace\<close>: \<open>AString\<close> and the C string
    functions; \<open>Platform_Text\<close>, \<open>Platform_Parser\<close>: \<open>AStringArray\<close> and \<open>TextParser\<close>.
  \<^item> \<open>Util_Properties\<close>, \<open>Text_Properties\<close>: their properties.

  \<^bold>\<open>Theories and code: messages and calls.\<close>
  \<^item> \<open>Sip_Framing\<close>, \<open>Sip_Delivery\<close>, \<open>Sip_Bounds\<close>: \<open>SipMessageFraming\<close> and the receive loop of
    \<open>SipStreamSocket\<close>, what a stream of messages is delivered as, and where the parser may read.
    \<open>Stream_Properties\<close>: their properties.
  \<^item> \<open>Sip_Percent\<close>, \<open>Sip_Params\<close>: \<open>SipPercentEncoding\<close>, the scanners of \<open>SipAbnfUtil\<close>, \<open>SipParameters\<close>.
  \<^item> \<open>Sip_HeaderTypes\<close>, \<open>Sip_Headers\<close>: the tables of names and classes (\<open>SipMsgUtil\<close>), \<open>SipHeaderBase\<close>,
    \<open>SipIntegerHeader\<close>, \<open>SipUnknownHeader\<close>, \<open>SipHeaderList\<close>, \<open>SipHeaders\<close>. \<open>Header_Roundtrip\<close>: the text of
    headers read back. \<open>Header_Properties\<close>: their properties.
  \<^item> \<open>Core_Message\<close>, \<open>Core_Headers\<close>: \<open>SipMethod\<close>, \<open>SipStatusCode\<close>, and the headers of \<open>SipMessage\<close>,
    \<open>SipStack\<close>, \<open>SipParameter\<close>, \<open>SipUnknownHeaders\<close> and \<open>SipHeader\<close> of the engine.
  \<^item> \<open>Call_State\<close>, \<open>Call_Peers\<close>, \<open>Call_Properties\<close>: \<open>CallState\<close>, two calls that exchange messages in
    order, and their properties.
  \<^item> \<open>Sdp_OaState\<close>, \<open>Sdp_OaPeers\<close>, \<open>Offer_Properties\<close>: the same for \<open>SdpOaState\<close>.
  \<^item> \<open>Refresh_Timer\<close>, \<open>Session_Timer\<close>, \<open>Session_Properties\<close>: \<open>RefreshHelper\<close>, \<open>SessionRefreshHelper\<close>
    and their properties.

  \<^bold>\<open>Interfaces.\<close> The locale \<open>key_value_map\<close> states what a map promises and is interpreted on
  the sorted vector; \<open>txn_store\<close> what the pool promises, interpreted on the hash buckets;
  \<open>timeout_callback\<close> what the state machines rely on when a zero-length timer calls back into
  them, interpreted on the callback of the code; \<open>txn_diagram\<close> the shape of a refinement
  between a machine and its diagram, interpreted on all four; \<open>block_hash\<close> and its
  extension \<open>keyed_hash\<close> the contract of a digest and of its keyed form, interpreted on both.

  \<^bold>\<open>Undefined behaviour.\<close> In the transaction layer (a null pointer read, a freed object used, a
  wrong cast, an index outside a table, a loop that never ends) it is recorded in \<open>s_crash\<close> the
  first time it happens; the definitions go on as if nothing had, and the theorems say which
  crashes cannot happen. Elsewhere a flag of the state records it (\<open>f_bOverrun\<close> of the framing,
  \<open>oa_crash\<close> of the offer/answer state, \<open>r_bOverflow\<close> of the refresh timer) or the result is
  \<open>None\<close>, which stands for a call that does not return, reads outside its memory or calls a null
  pointer; each definition says which.

  \<^bold>\<open>What is shown.\<close> In every reachable state the transaction objects are alive exactly when they
  are in the pool, entries are found by their own keys, and running timers lead back to their
  transactions; no operation uses a freed object, casts wrongly or leaves a table. The four
  machines refine their diagrams in both directions (no step beside the diagram, and no
  refusal of an event the diagram takes). Timer A follows the schedule of the RFC; finished
  transactions leave the pool; user termination removes exactly one entry; duplicates, stray
  messages and transport errors are answered as stated. Keys, key list, map, pool and timer
  values have their own functional theorems. The digests are those of the concatenated input
  and follow RFC 1321, 3174, 2104, 2617 and 4169; Base64, numbers and percent encoding read back
  what they write; the in-place replacement of a string is the replacement of its occurrences.
  A stream is delivered as the messages it is made of, whatever its segments. A call follows
  its life cycle, the two ends of a call agree on it and on the session description. Header
  names and lists of headers survive their text, and one received line alone calls a null
  pointer. The two ends of a session read the same session timer from a message, the refresher's
  timer rings first, and a rejected refresh stays pending. Where the code fails to do what it
  means to, a theorem states what it does (\<open>ack_over_tcp_leaks\<close>, \<open>negative_length_never_returns\<close>,
  \<open>bye_during_reinvite_undone\<close>, \<open>uri_encoding_overruns\<close>, \<open>rejected_refresh_stays_pending\<close> and others).

  \<^bold>\<open>Bounds and fuel.\<close> \<open>CbkTxnTimeout\<close> calls itself only through \<open>StartTxnTimer\<close> with duration
  zero; the nested call finds the timer handle cleared and returns, so one level of fuel
  computes the result (\<open>timeout_callback_ends\<close>). \<open>SearchTxnKey\<close> counts with 16 bits and is a
  \<open>partial_function\<close>: it ends for fewer than 65536 keys. So is the receive loop, which ends unless
  a negative length holds it, and the replacement by a longer text, which always ends. Integers
  that wrap are words of the code's width; reference counts (\<open>SIP_INT16\<close>) are integers, since the
  invariant bounds them by two between operations. Pointers have 64 bits and \<open>char\<close> is unsigned.

  \<^bold>\<open>Environment.\<close> Whether the timer service and the network accept the next call, the ACK the
  transaction user builds, and the value an uninitialised local holds are fields of the state
  that a step may change; the encoder of messages is an argument of \<open>OnRecvMessage\<close>, and the header
  classes with a syntax of their own are the argument \<open>ops\<close> of the header operations. The session
  timer reads its configuration from the record \<open>environment\<close>.

  \<^bold>\<open>Not modelled.\<close> The header classes with a syntax of their own (addresses, Via, credentials and
  others), bodies and whole messages as text (\<open>protocol/sip/msg\<close>), SDP and XML: codecs beside the
  layers above, on which these rely through parameters. The negotiation of media in the
  offer/answer state, the sessions, registrations and services of the engine, and the enablers:
  they compose the modelled parts with interfaces of the operating system. The platform services
  (threads, files, sockets). Locks are left out: the stack runs on one thread. Allocation
  never fails. \<open>SipStackState::CleanUp\<close> runs only when the process ends.
\<close>

section \<open>The stack as a whole\<close>



text \<open>C2: between operations a transaction object has exactly two references when the pool holds
  it and none (it is destroyed) otherwise; no transaction is in the pool twice, and the number
  of live objects is the transaction count.\<close>

theorem reachable_lifetime:
  assumes "reachable s"
  shows "m_nRefCount (txn s p) = (if in_pool s p then 2 else 0) \<and> distinct (map snd (entries s)) \<and>
    card {p. m_nRefCount (txn s p) > 0} = GetTransactionCount (s_pool s)"
proof -
  note ok = reachable_ok [OF assms]
  have "{p. m_nRefCount (txn s p) > 0} = set (map snd (entries s))"
    by (auto simp: stack_ok_refcount [OF ok] in_pool_def)
  then have "card {p. m_nRefCount (txn s p) > 0} = length (entries s)"
    using distinct_card [OF stack_ok_distinct [OF ok]] by simp
  then show ?thesis
    using stack_ok_refcount [OF ok] stack_ok_distinct [OF ok] by (simp add: transaction_count)
qed

theorem reachable_lifetime_witness:
  "m_nRefCount (txn ex_calling 0) = 2 \<and> card {p. m_nRefCount (txn ex_calling p) > 0} = 1"
  using reachable_lifetime [OF ex_calling_reachable, of 0]
  by (simp add: ex_after_def in_pool_def pool_entries_def GetTransactionCount_def)

text \<open>C3: in every reachable state each entry of the pool is the one its own key finds, its
  transaction knows that key (up to the response code and RSeq) and has left the idle state.\<close>

theorem reachable_found_by_key:
  assumes "reachable s" and "(k, p) \<in> set (entries s)"
  shows "FindTransaction k (s_pool s) = Some (k, p) \<and>
    (\<exists>k'. m_pTxnKey (txn s p) = Some k' \<and> same_id k' k) \<and> m_nTxnState (txn s p) \<in> {1..4} \<and>
    m_eTxnType (txn s p) \<noteq> INVALID_TXN"
proof -
  note ok = reachable_ok [OF assms(1)]
  note good = stack_okD(1) [OF ok]
  show ?thesis
    using stack_ok_key [OF ok assms(2)] good_txn [OF good assms(2)] good_started [OF good in_poolI [OF assms(2)]]
    by (auto simp: txn_ok_def)
qed

theorem reachable_found_by_key_witness:
  "FindTransaction (ex_key ''INVITE'' INV_CLI_TXN) (s_pool ex_calling) = Some (ex_key ''INVITE'' INV_CLI_TXN, 0)"
  using reachable_found_by_key [OF ex_calling_reachable, of "ex_key ''INVITE'' INV_CLI_TXN" 0]
  by (simp add: ex_after_def pool_entries_def)

text \<open>C4: in every reachable state the timer a pooled transaction waits for is running, its data
  finds that transaction again, and no other transaction waits for the same timer.\<close>

theorem reachable_timers_lead_back:
  assumes "reachable s" and "(k, p) \<in> set (entries s)" and "m_pvTimerId (txn s p) = Some i"
  shows "(\<exists>d td k'. s_timers s i = Some (d, td) \<and> td_pTxnKey td = Some k' \<and>
            FindTransaction k' (s_pool s) = Some (k, p)) \<and>
    (\<forall>q. in_pool s q \<longrightarrow> m_pvTimerId (txn s q) = Some i \<longrightarrow> q = p)"
  using stack_ok_timer [OF reachable_ok [OF assms(1)] assms(2,3)] assms(3)
    good_inj [OF stack_okD(1) [OF reachable_ok [OF assms(1)]] _ in_poolI [OF assms(2)]]
  by blast

theorem reachable_timers_lead_back_witness:
  "\<exists>d td k'. s_timers ex_calling 0 = Some (d, td) \<and> td_pTxnKey td = Some k' \<and>
     FindTransaction k' (s_pool ex_calling) = Some (ex_key ''INVITE'' INV_CLI_TXN, 0)"
  using reachable_timers_lead_back [OF ex_calling_reachable, of "ex_key ''INVITE'' INV_CLI_TXN" 0 0]
  by (simp add: ex_after_def ex_txn_def pool_entries_def)

text \<open>C9: a finished transaction leaves: when the timer that ends its time of absorbing
  retransmissions (D, I, K or J) fires, the transaction is no longer in the pool and destroyed.\<close>

theorem finished_transaction_leaves:
  assumes "reachable s" and "(k, p) \<in> set (entries s)" and "m_pvTimerId (txn s p) = Some i"
    and "s_timers s i = Some (d, td)" and "linger_timer (txn s p) (td_eTimerType td)" and "s_util s = Some u"
  shows "\<not> in_pool (Timer_TimerExpired i s) p \<and> m_nRefCount (txn (Timer_TimerExpired i s) p) = 0"
proof -
  note ok = reachable_ok [OF assms(1)]
  have gone: "\<not> in_pool (Timer_TimerExpired i s) p" by (rule linger_removes [OF ok assms(2-6)])
  with stack_ok_refcount [OF stack_ok_environment(4) [OF ok], of i p] show ?thesis by simp
qed

theorem finished_transaction_leaves_witness:
  "in_pool ex_completed 0 \<and> \<not> in_pool (Timer_TimerExpired 1 ex_completed) 0"
  using finished_transaction_leaves [OF ex_completed_reachable, of "ex_key ''OPTIONS'' NON_INV_CLI_TXN" 0 1]
  by (simp add: ex_completed_def ex_after_def ex_txn_def ex_init_def stack_init_def pool_entries_def in_pool_def
      linger_timer_def)

section \<open>Entry points\<close>

text \<open>C10: the user's termination of a transaction removes exactly the entry its key finds: the
  others stay, the object is destroyed and its timer no longer runs; an unknown key changes
  nothing and is answered false.\<close>

theorem terminate_removes_exactly:
  assumes "reachable s" and "s_util s = Some u" and "u_timer u"
  shows "case FindTransaction k (s_pool s) of
      None \<Rightarrow> TerminateTxn_mgr (Some k) s = (False, s)
    | Some (k', p) \<Rightarrow> (case TerminateTxn_mgr (Some k) s of (b, s') \<Rightarrow>
        b \<and> mset (entries s') = mset (entries s) - {#(k', p)#} \<and> \<not> in_pool s' p \<and>
        m_nRefCount (txn s' p) = 0 \<and>
        (\<forall>i. m_pvTimerId (txn s p) = Some i \<longrightarrow> s_timers s' i = None))"
proof (cases "FindTransaction k (s_pool s)")
  case None
  then show ?thesis by (simp add: TerminateTxn_mgr_def TerminateTxn_def ReleaseTransaction_cases)
next
  case (Some e)
  obtain k' p where e: "e = (k', p)" by fastforce
  note ok = reachable_ok [OF assms(1)]
  note wf = good_wf [OF stack_okD(1) [OF ok]]
  obtain b s' where r: "TerminateTxn_mgr (Some k) s = (b, s')" by fastforce
  have pool: "b \<and> s_pool s' = snd (RemoveTransaction k TXN_OPT_REMOVE (s_pool s)) \<and>
      (\<forall>i. m_pvTimerId (txn s p) = Some i \<longrightarrow> s_timers s' i = None)"
    using r TerminateTxn_effect [OF ok assms(2,3), of k k' p] Some e by simp
  have "mset (entries s') = mset (entries s) - {#(k', p)#}"
    using entries_remove [OF wf, of k] Some e pool by simp
  moreover have gone: "\<not> in_pool s' p"
    using removed_not_in_pool [OF ok, of k k' p] Some e pool by (simp add: in_pool_def)
  moreover have "stack_ok s'" using TerminateTxn_mgr_ok [OF ok, of "Some k"] r by simp
  ultimately show ?thesis using Some e r pool by (simp add: stack_ok_refcount)
qed

theorem terminate_removes_exactly_witness:
  "case TerminateTxn_mgr (Some (ex_key ''INVITE'' INV_CLI_TXN)) ex_calling of (b, s') \<Rightarrow>
     b \<and> mset (entries s') = {#} \<and> m_nRefCount (txn s' 0) = 0 \<and> s_timers s' 0 = None"
proof -
  have u: "s_util ex_calling = Some \<lparr>u_timer = True, u_listener = True\<rparr>"
    by (simp add: ex_after_def ex_init_def stack_init_def)
  have f: "FindTransaction (ex_key ''INVITE'' INV_CLI_TXN) (s_pool ex_calling) = Some (ex_key ''INVITE'' INV_CLI_TXN, 0)"
    using stack_ok_key(1) [OF reachable_ok [OF ex_calling_reachable], of "ex_key ''INVITE'' INV_CLI_TXN" 0]
    by (simp add: ex_after_def pool_entries_def)
  have "mset (entries ex_calling) = {#(ex_key ''INVITE'' INV_CLI_TXN, 0)#}" "m_pvTimerId (txn ex_calling 0) = Some 0"
    by (simp_all add: ex_after_def ex_txn_def pool_entries_def)
  with terminate_removes_exactly [OF ex_calling_reachable u, of "ex_key ''INVITE'' INV_CLI_TXN"] f
  show ?thesis by (simp add: case_prod_unfold)
qed

text \<open>C12: a request that matches a transaction in the pool is not sent a second time: the call
  answers false, returns no key, leaves the user data alone and changes nothing but the error.\<close>

theorem duplicate_request_rejected:
  assumes "CheckTxnMandatoryParams m = Some (REQ_TYPE, mt)" and "s_err s \<noteq> EERR_MALLOCFAILED"
    and "k = (fst (SipTxnKey_of_msg m (s_err s)))\<lparr>key_eTxnType := GetTxnType SEND mt REQ_TYPE\<rparr>"
    and "FindTransaction k (s_pool s) = Some (k', p)"
  shows "SendMsg (Some m) (Some tp) ud buf s =
    (False, None, ud, set_err ETXN_ALREADYTRANSACTIONINPROCESSERROR s)"
proof -
  have "GetTxnType SEND mt REQ_TYPE \<noteq> INVALID_TXN" "m_eSipMsgType m = REQ_TYPE"
    using CheckTxnMandatoryParams_SomeD(1,4) [OF assms(1)] by (simp_all add: GetTxnType_def)
  then show ?thesis
    using assms of_msg_err [OF assms(1), of "s_err s"] of_msg_type [of m "s_err s"]
    by (simp add: SendMsg_def OnSendTxn_def ValidateSendTxn_def GetTxnObjFromDb_eq case_prod_unfold Let_def set_err_def)
qed

theorem duplicate_request_rejected_witness:
  "SendMsg (Some (ex_request ''INVITE'')) (Some ex_udp) (Some ex_user_data) ''text'' ex_calling =
     (False, None, Some ex_user_data, set_err 0 ex_calling)"
proof -
  have f: "FindTransaction (ex_key ''INVITE'' INV_CLI_TXN) (s_pool ex_calling) = Some (ex_key ''INVITE'' INV_CLI_TXN, 0)"
    using stack_ok_key(1) [OF reachable_ok [OF ex_calling_reachable], of "ex_key ''INVITE'' INV_CLI_TXN" 0]
    by (simp add: ex_after_def pool_entries_def)
  show ?thesis
    by (rule duplicate_request_rejected [of _ METHOD_INVITE _ "ex_key ''INVITE'' INV_CLI_TXN"
          "ex_key ''INVITE'' INV_CLI_TXN" 0])
      (use f in \<open>simp_all add: ex_params ex_method ex_of_msg GetTxnType_def ex_init_def stack_init_def,
        simp_all add: ex_after_def ex_init_def stack_init_def\<close>)
qed

text \<open>sending a 2xx to an INVITE without a server transaction puts the message on the network
  but answers false, since the update of the transaction that follows finds none.\<close>

theorem success_without_transaction_sent_but_false:
  assumes "CheckTxnMandatoryParams m = Some (RESP_TYPE, METHOD_INVITE)" and "SIP_SUCCESSFUL_RESP (GetStatusCode m)"
    and "k = (fst (SipTxnKey_of_msg m (s_err s)))\<lparr>key_eTxnType := INV_SER_TXN\<rparr>" and "s_err s \<noteq> EERR_MALLOCFAILED"
    and "FindTransaction k (s_pool s) = None"
    and "s_util s \<noteq> None" and "s_net_ok s" and "m_pvUserData ud = Some c" and "ctx_has_state c"
  shows "SendMsg (Some m) (Some tp) (Some ud) buf s =
    (False, None, Some ud, emit (EvSend (Some buf) (Some (SipTransportParameter_copy tp)) (ctx_id c)) s)"
proof -
  have m: "m_eSipMsgType m = RESP_TYPE" "GetMethodType m = METHOD_INVITE"
    using CheckTxnMandatoryParams_SomeD(1,2) [OF assms(1)] by simp_all
  have same: "set_err (s_err s) s = s" by (cases s) (simp add: set_err_def)
  have send: "OnSendTxn m tp (Some ud) s = (True, Some k, SipTxnInfo_new, s)"
    using assms(1-5) m same of_msg_err [OF assms(1), of "s_err s"] of_msg_type [of m "s_err s"]
    by (simp add: OnSendTxn_def ValidateSendTxn_def GetTxnType_def GetTxnObjFromDb_eq case_prod_unfold Let_def)
  show ?thesis
    using send assms(5-9) m
    by (auto simp: SendMsg_def OnSendTransp_def SendToNetwork_mgr_def SendToNetwork_def SendMsg_sent_def
        SipTxnInfo_new_def UpdateTxnDetails_def GetTxnObjFromDb_eq emit_def SendMsg_undo_def)
qed

theorem success_without_transaction_sent_but_false_witness:
  "SendMsg (Some (ex_response ''INVITE'' ''200'')) (Some ex_udp) (Some ex_user_data) ''200'' ex_init =
    (False, None, Some ex_user_data, emit (EvSend (Some ''200'') (Some (SipTransportParameter_copy ex_udp)) 7) ex_init)"
proof -
  have "CheckTxnMandatoryParams (ex_response ''INVITE'' ''200'') = Some (RESP_TYPE, METHOD_INVITE)" by code_simp
  then show ?thesis
    using success_without_transaction_sent_but_false [of "ex_response ''INVITE'' ''200''" _ ex_init ex_user_data
        "\<lparr>ctx_id = 7, pSipTimerContext = None, ctx_has_state = True\<rparr>" ex_udp "''200''", OF _ _ refl]
    by (simp add: ex_code SIP_SUCCESSFUL_RESP_def ex_init_def stack_init_def ex_user_data_def ISipUserData_new_def
        FindTransaction_def ImsMap_GetIndexOfKey_def)
qed

text \<open>a response that matches no transaction and is not a 2xx for an INVITE is reported as
  stray: no key is returned, the user data and the stack (but the error) are left alone.\<close>

theorem stray_response_reported:
  assumes "CheckTxnMandatoryParams m = Some (RESP_TYPE, mt)" and "s_err s \<noteq> EERR_MALLOCFAILED"
    and "k = fst (SipTxnKey_of_msg m (s_err s))"
    and "FindTransaction (k\<lparr>key_eTxnType := recv_key_type k\<rparr>) (s_pool s) = None"
    and "\<not> (mt = METHOD_INVITE \<and> SIP_SUCCESSFUL_RESP (GetStatusCode m))"
  shows "OnRecvMessage encode (Some m) (Some tp) ud s = (True, STATUS_STRAY_RESP, None, ud, s)"
proof -
  have m: "m_eSipMsgType m = RESP_TYPE" "mt = GetMethodType m"
    using CheckTxnMandatoryParams_SomeD(1,2) [OF assms(1)] by simp_all
  have same: "set_err (s_err s) s = s" by (cases s) (simp add: set_err_def)
  show ?thesis
    using assms m same of_msg_err [OF assms(1), of "s_err s"] of_msg_type [of m "s_err s"]
    by (auto simp: OnRecvMessage_def OnRecvTransp_def GetTxnKeyFromSipMsg_def GetTxnObjFromDb_eq case_prod_unfold Let_def)
qed

theorem stray_response_reported_witness:
  "OnRecvMessage (\<lambda>_ _. None) (Some (ex_response ''OPTIONS'' ''200'')) (Some ex_udp) (Some ex_user_data) ex_init =
     (True, STATUS_STRAY_RESP, None, Some ex_user_data, ex_init)"
  by (rule stray_response_reported [OF ex_200_params _ refl])
    (simp_all add: ex_init_def stack_init_def FindTransaction_def ImsMap_GetIndexOfKey_def)




section \<open>Classification\<close>

text \<open>a response is handled by the transaction of its request: for every method but ACK the
  machine of a received response is the client machine that sent the request and the machine of
  a sent response is the server machine that received it, and an ACK belongs to the machine of
  the INVITE.\<close>

theorem responses_meet_their_request:
  assumes "mt \<notin> {METHOD_ACK, METHOD_INVALID}"
  shows "GetTxnType RECV mt RESP_TYPE = GetTxnType SEND mt REQ_TYPE \<and>
    GetTxnType SEND mt RESP_TYPE = GetTxnType RECV mt REQ_TYPE \<and>
    GetTxnType SEND mt REQ_TYPE \<in> {INV_CLI_TXN, NON_INV_CLI_TXN} \<and>
    GetTxnType RECV mt REQ_TYPE \<in> {INV_SER_TXN, NON_INV_SER_TXN} \<and>
    GetTxnType dir METHOD_ACK REQ_TYPE = GetTxnType dir METHOD_INVITE REQ_TYPE"
  using assms by (auto simp: GetTxnType_def)

theorem responses_meet_their_request_witness:
  "GetTxnType RECV METHOD_BYE RESP_TYPE = NON_INV_CLI_TXN"
  using responses_meet_their_request [of METHOD_BYE SEND] by (simp add: GetTxnType_def)

text \<open>Every status code selects the event of its class: 1xx a provisional one, 2xx a success,
  from 300 a failure (both final for the non-INVITE machines), and a code below 100 none.\<close>

theorem status_code_selects_event:
  "rfc_events INV_CLI_TXN ! GetInvCliFsmEvt c =
     (if c < 100 then NoEvent else if c < 200 then Provisional else if c < 300 then Success else Failure) \<and>
   rfc_events INV_SER_TXN ! GetInvSerFsmEvt c =
     (if c < 100 then NoEvent else if c < 200 then Provisional else if c < 300 then Success else Failure) \<and>
   rfc_events NON_INV_CLI_TXN ! GetNonInvCliFsmEvt c =
     (if c < 100 then NoEvent else if c < 200 then Provisional else FinalResponse) \<and>
   rfc_events NON_INV_SER_TXN ! GetNonInvSerFsmEvt c =
     (if c < 100 then NoEvent else if c < 200 then Provisional else FinalResponse)"
proof -
  note defs = GetInvCliFsmEvt_def GetInvSerFsmEvt_def GetNonInvCliFsmEvt_def GetNonInvSerFsmEvt_def
    status_class_defs rfc_events_def
  note less = word_less_nat_alt word_le_nat_alt
  consider "c < 100" | "100 \<le> c" "c < 200" | "200 \<le> c" "c < 300" | "300 \<le> c" by (meson not_le)
  then show ?thesis
  proof cases
    case 1
    then have "c < 200" "c < 300" "\<not> 100 \<le> c" "\<not> 200 \<le> c" "\<not> 300 \<le> c" by (simp_all add: less)
    with 1 show ?thesis by (simp add: defs)
  next
    case 2
    then have "\<not> c < 100" "c < 300" by (simp_all add: less)
    with 2 show ?thesis by (simp add: defs)
  next
    case 3
    then have "\<not> c < 100" "\<not> c < 200" "100 \<le> c" by (simp_all add: less)
    with 3 show ?thesis by (simp add: defs)
  next
    case 4
    then have "\<not> c < 100" "\<not> c < 200" "\<not> c < 300" "100 \<le> c" "200 \<le> c" by (simp_all add: less)
    with 4 show ?thesis by (simp add: defs)
  qed
qed

end
